(* ===== verification/Prelude.thy ===== *)
theory Prelude
  imports Main "HOL-Library.AList" "HOL-Library.Sublist" "HOL-Library.Char_ord" "HOL-Library.List_Lexorder"
begin

text \<open>
  Shared vocabulary of the development.

  \<^item> The exception-and-state monad \<open>sem\<close> in which the stateful Python code is written:
    a computation takes the state and returns either a raised exception (\<open>Inl\<close>) or a
    result (\<open>Inr\<close>), together with the state it leaves. A raise does not undo the
    writes made before it, as in the program; what undoes them is the database
    transaction, which is modelled where the code opens one.
  \<^item> A weakest-precondition function \<open>wp\<close> for it, whose equations are the rewrite
    rules \<open>wp_rules\<close> the component proofs use.
  \<^item> Tables: a database table is an association list from primary keys to rows, in
    primary-key insertion order.
  \<^item> Python string helpers (\<open>split\<close>, \<open>strip\<close>, slicing, truth of a string).
\<close>

named_theorems wp_rules \<open>weakest preconditions of the monad's operations\<close>
named_theorems sem_defs \<open>definitions of the monad's operations\<close>
named_theorems table_simps \<open>reading tables after writing them\<close>

section \<open>Exceptions and state\<close>

type_synonym ('s, 'e, 'a) sem = "'s \<Rightarrow> ('e + 'a) \<times> 's"

definition ret :: "'a \<Rightarrow> ('s, 'e, 'a) sem" where
  [sem_defs]: "ret x s = (Inr x, s)"

definition raise :: "'e \<Rightarrow> ('s, 'e, 'a) sem" where
  [sem_defs]: "raise e s = (Inl e, s)"

definition bnd :: "('s, 'e, 'a) sem \<Rightarrow> ('a \<Rightarrow> ('s, 'e, 'b) sem) \<Rightarrow> ('s, 'e, 'b) sem" where
  [sem_defs]: "bnd m f s = (case m s of (Inl e, s') \<Rightarrow> (Inl e, s') | (Inr x, s') \<Rightarrow> f x s')"

definition gets :: "('s \<Rightarrow> 'a) \<Rightarrow> ('s, 'e, 'a) sem" where
  [sem_defs]: "gets f s = (Inr (f s), s)"

definition modify :: "('s \<Rightarrow> 's) \<Rightarrow> ('s, 'e, unit) sem" where
  [sem_defs]: "modify f s = (Inr (), f s)"

definition on_exn :: "('s, 'e, 'a) sem \<Rightarrow> ('e \<Rightarrow> ('s, 'e, 'a) sem) \<Rightarrow> ('s, 'e, 'a) sem" where
  [sem_defs]: "on_exn m h s = (case m s of (Inl e, s') \<Rightarrow> h e s' | (Inr x, s') \<Rightarrow> (Inr x, s'))"

definition check :: "bool \<Rightarrow> 'e \<Rightarrow> ('s, 'e, unit) sem" where
  [sem_defs]: "check c e = (if c then ret () else raise e)"

definition lift_sum :: "'e + 'a \<Rightarrow> ('s, 'e, 'a) sem" where
  [sem_defs]: "lift_sum r = (case r of Inl e \<Rightarrow> raise e | Inr x \<Rightarrow> ret x)"

definition get_or :: "'a option \<Rightarrow> 'e \<Rightarrow> ('s, 'e, 'a) sem" where
  [sem_defs]: "get_or x e = (case x of None \<Rightarrow> raise e | Some y \<Rightarrow> ret y)"

primrec for_each :: "('a \<Rightarrow> ('s, 'e, unit) sem) \<Rightarrow> 'a list \<Rightarrow> ('s, 'e, unit) sem" where
  "for_each f [] = ret ()"
| "for_each f (x # xs) = bnd (f x) (\<lambda>_. for_each f xs)"

definition wp :: "('s, 'e, 'a) sem \<Rightarrow> ('a \<Rightarrow> 's \<Rightarrow> bool) \<Rightarrow> ('e \<Rightarrow> 's \<Rightarrow> bool) \<Rightarrow> 's \<Rightarrow> bool" where
  "wp m Q R s = (case m s of (Inl e, s') \<Rightarrow> R e s' | (Inr x, s') \<Rightarrow> Q x s')"

lemma wp_ret [wp_rules]: "wp (ret x) Q R s = Q x s"
  by (simp add: wp_def ret_def)

lemma wp_raise [wp_rules]: "wp (raise e) Q R s = R e s"
  by (simp add: wp_def raise_def)

lemma wp_bnd [wp_rules]: "wp (bnd m f) Q R s = wp m (\<lambda>x. wp (f x) Q R) R s"
  by (simp add: wp_def bnd_def split: prod.splits sum.splits)

lemma wp_gets [wp_rules]: "wp (gets f) Q R s = Q (f s) s"
  by (simp add: wp_def gets_def)

lemma wp_modify [wp_rules]: "wp (modify f) Q R s = Q () (f s)"
  by (simp add: wp_def modify_def)

lemma wp_on_exn [wp_rules]: "wp (on_exn m h) Q R s = wp m Q (\<lambda>e. wp (h e) Q R) s"
  by (simp add: wp_def on_exn_def split: prod.splits sum.splits)

lemma wp_check [wp_rules]: "wp (check c e) Q R s = (if c then Q () s else R e s)"
  by (simp add: check_def wp_ret wp_raise)

lemma wp_lift_sum [wp_rules]:
  "wp (lift_sum r) Q R s = (case r of Inl e \<Rightarrow> R e s | Inr x \<Rightarrow> Q x s)"
  by (simp add: lift_sum_def wp_ret wp_raise split: sum.splits)

lemma wp_get_or [wp_rules]:
  "wp (get_or x e) Q R s = (case x of None \<Rightarrow> R e s | Some y \<Rightarrow> Q y s)"
  by (simp add: get_or_def wp_ret wp_raise split: option.splits)

lemma wp_if [wp_rules]:
  "wp (if c then m else n) Q R s = (if c then wp m Q R s else wp n Q R s)"
  by simp

lemma wp_case_option [wp_rules]:
  "wp (case x of None \<Rightarrow> m | Some y \<Rightarrow> f y) Q R s =
     (case x of None \<Rightarrow> wp m Q R s | Some y \<Rightarrow> wp (f y) Q R s)"
  by (simp split: option.splits)

lemma wp_case_sum [wp_rules]:
  "wp (case x of Inl e \<Rightarrow> f e | Inr y \<Rightarrow> g y) Q R s =
     (case x of Inl e \<Rightarrow> wp (f e) Q R s | Inr y \<Rightarrow> wp (g y) Q R s)"
  by (simp split: sum.splits)

lemma wp_Let [wp_rules]: "wp (Let x f) Q R s = (let y = x in wp (f y) Q R s)"
  by simp

text \<open>Reading a fact about a run off its weakest precondition, and back.\<close>

lemma wp_InrD: "wp m Q R s \<Longrightarrow> m s = (Inr x, s') \<Longrightarrow> Q x s'"
  by (simp add: wp_def)

lemma wp_InlD: "wp m Q R s \<Longrightarrow> m s = (Inl e, s') \<Longrightarrow> R e s'"
  by (simp add: wp_def)

lemma wp_conseq:
  "wp m Q R s \<Longrightarrow> (\<And>x s'. Q x s' \<Longrightarrow> Q' x s') \<Longrightarrow> (\<And>e s'. R e s' \<Longrightarrow> R' e s') \<Longrightarrow> wp m Q' R' s"
  by (auto simp: wp_def split: prod.splits sum.splits)

lemma wp_conj:
  "wp m Q R s \<Longrightarrow> wp m Q' R' s \<Longrightarrow> wp m (\<lambda>x s'. Q x s' \<and> Q' x s') (\<lambda>e s'. R e s' \<and> R' e s') s"
  by (auto simp: wp_def split: prod.splits sum.splits)

lemma wp_True: "wp m (\<lambda>_ _. True) (\<lambda>_ _. True) s"
  by (auto simp: wp_def split: prod.splits sum.splits)

lemma bnd_InrE:
  assumes "bnd m f s = (Inr y, s2)"
  obtains x s1 where "m s = (Inr x, s1)" and "f x s1 = (Inr y, s2)"
  using assms by (auto simp: bnd_def split: prod.splits sum.splits)

lemma wp_for_each_inv:
  assumes step: "\<And>x s. x \<in> set xs \<Longrightarrow> I s \<Longrightarrow> wp (f x) (\<lambda>_. I) (\<lambda>_. I) s" and "I s"
  shows "wp (for_each f xs) (\<lambda>_. I) (\<lambda>_. I) s"
  using assms
proof (induction xs arbitrary: s)
  case Nil
  then show ?case by (simp add: wp_rules)
next
  case (Cons x xs)
  from Cons.prems have "wp (f x) (\<lambda>_. I) (\<lambda>_. I) s" by simp
  moreover have "\<And>s'. I s' \<Longrightarrow> wp (for_each f xs) (\<lambda>_. I) (\<lambda>_. I) s'"
    using Cons by simp
  ultimately show ?case
    by (auto simp: wp_rules intro: wp_conseq)
qed

section \<open>Frames\<close>

text \<open>A computation is framed by a relation when every run of it, normal or raising, relates the
  state before to the state after. For a reflexive and transitive relation the property follows
  the structure of the computation; the locale proves that once, and the components interpret
  it on the relations they need.\<close>

definition framed :: "('s \<Rightarrow> 's \<Rightarrow> bool) \<Rightarrow> ('s, 'e, 'a) sem \<Rightarrow> bool" where
  "framed R m = (\<forall>s. R s (snd (m s)))"

lemma framedI: "(\<And>s r s'. m s = (r, s') \<Longrightarrow> R s s') \<Longrightarrow> framed R m"
  by (simp add: framed_def) (metis prod.collapse)

lemma framedD: "framed R m \<Longrightarrow> m s = (r, s') \<Longrightarrow> R s s'"
  by (auto simp: framed_def dest: spec [of _ s])

locale state_frame =
  fixes R :: "'s \<Rightarrow> 's \<Rightarrow> bool"
  assumes frame_refl: "R s s"
    and frame_trans: "R s s' \<Longrightarrow> R s' s'' \<Longrightarrow> R s s''"
begin

lemma framed_basic:
  "framed R (ret x)" "framed R (raise e)" "framed R (gets f)" "framed R (check c e)"
  "framed R (lift_sum q)" "framed R (get_or z e)"
  by (auto simp: framed_def frame_refl ret_def raise_def gets_def check_def lift_sum_def get_or_def split: sum.splits option.splits)

lemma framed_bnd: "framed R m \<Longrightarrow> (\<And>x. framed R (f x)) \<Longrightarrow> framed R (bnd m f)"
  by (auto simp: framed_def bnd_def split: prod.splits sum.splits) (metis frame_trans snd_conv)+

lemma framed_on_exn: "framed R m \<Longrightarrow> (\<And>e. framed R (h e)) \<Longrightarrow> framed R (on_exn m h)"
  by (auto simp: framed_def on_exn_def split: prod.splits sum.splits) (metis frame_trans snd_conv)+

lemma framed_for_each: "(\<And>x. x \<in> set xs \<Longrightarrow> framed R (f x)) \<Longrightarrow> framed R (for_each f xs)"
  by (induction xs) (auto intro: framed_basic framed_bnd)

lemma framed_modify: "(\<And>s. R s (f s)) \<Longrightarrow> framed R (modify f)"
  by (simp add: framed_def modify_def)

text \<open>The same rules for a run from one given state.\<close>

lemma at_bnd:
  assumes "R s (snd (m s))" and "\<And>x. framed R (f x)"
  shows "R s (snd (bnd m f s))"
proof -
  obtain r s1 where m: "m s = (r, s1)" by fastforce
  show ?thesis
  proof (cases r)
    case (Inr x)
    have "R s1 (snd (f x s1))" using assms(2) by (simp add: framed_def)
    with assms(1) m Inr frame_trans show ?thesis by (simp add: bnd_def)
  qed (use assms(1) m in \<open>simp add: bnd_def\<close>)
qed

lemma at_on_exn:
  assumes "R s (snd (m s))" and "\<And>e. framed R (h e)"
  shows "R s (snd (on_exn m h s))"
proof -
  obtain r s1 where m: "m s = (r, s1)" by fastforce
  show ?thesis
  proof (cases r)
    case (Inl e)
    have "R s1 (snd (h e s1))" using assms(2) by (simp add: framed_def)
    with assms(1) m Inl frame_trans show ?thesis by (simp add: on_exn_def)
  qed (use assms(1) m in \<open>simp add: on_exn_def\<close>)
qed

end

lemma framed_if: "(c \<Longrightarrow> framed R m) \<Longrightarrow> (\<not> c \<Longrightarrow> framed R n) \<Longrightarrow> framed R (if c then m else n)"
  by simp

lemma framed_case_option: "(z = None \<Longrightarrow> framed R m) \<Longrightarrow> (\<And>y. z = Some y \<Longrightarrow> framed R (f y)) \<Longrightarrow>
  framed R (case z of None \<Rightarrow> m | Some y \<Rightarrow> f y)"
  by (cases z) simp_all

lemma framed_case_prod: "(\<And>a b. z = (a, b) \<Longrightarrow> framed R (f a b)) \<Longrightarrow> framed R (case z of (a, b) \<Rightarrow> f a b)"
  by (cases z) simp

lemma framed_case_bool: "(z \<Longrightarrow> framed R m) \<Longrightarrow> (\<not> z \<Longrightarrow> framed R n) \<Longrightarrow> framed R (case z of True \<Rightarrow> m | False \<Rightarrow> n)"
  by (cases z) simp_all

lemma framed_case_list: "framed R n \<Longrightarrow> (\<And>y ys. framed R (f y ys)) \<Longrightarrow> framed R (case z of [] \<Rightarrow> n | y # ys \<Rightarrow> f y ys)"
  by (cases z) simp_all

lemma framed_Let: "framed R (f x) \<Longrightarrow> framed R (Let x f)"
  by simp

lemmas framed_cases = framed_if framed_case_bool framed_case_option framed_case_prod framed_Let

section \<open>Tables\<close>

type_synonym 'r tbl = "(nat \<times> 'r) list"

definition row :: "'r tbl \<Rightarrow> nat \<Rightarrow> 'r option" where
  "row t k = map_of t k"

definition put_row :: "nat \<Rightarrow> 'r \<Rightarrow> 'r tbl \<Rightarrow> 'r tbl" where
  "put_row k r t = AList.update k r t"

definition drop_row :: "nat \<Rightarrow> 'r tbl \<Rightarrow> 'r tbl" where
  "drop_row k t = AList.delete k t"

definition rows :: "'r tbl \<Rightarrow> 'r list" where
  "rows t = map snd t"

definition tbl_ok :: "'r tbl \<Rightarrow> bool" where
  "tbl_ok t = distinct (map fst t)"

lemma row_put_row [simp, table_simps]: "row (put_row k r t) j = (if j = k then Some r else row t j)"
  by (simp add: row_def put_row_def update_conv)

lemma row_drop_row [simp, table_simps]: "row (drop_row k t) j = (if j = k then None else row t j)"
  by (simp add: row_def drop_row_def delete_conv)

lemma tbl_ok_put_row [simp]: "tbl_ok t \<Longrightarrow> tbl_ok (put_row k r t)"
  by (simp add: tbl_ok_def put_row_def distinct_update)

lemma tbl_ok_drop_row [simp]: "tbl_ok t \<Longrightarrow> tbl_ok (drop_row k t)"
  by (simp add: tbl_ok_def drop_row_def distinct_delete)

lemma row_SomeD: "row t k = Some r \<Longrightarrow> (k, r) \<in> set t"
  by (simp add: row_def map_of_SomeD)

lemma row_iff: "tbl_ok t \<Longrightarrow> row t k = Some r \<longleftrightarrow> (k, r) \<in> set t"
  by (auto simp: tbl_ok_def row_def map_of_eq_Some_iff)

lemma find_SomeD: "List.find P xs = Some v \<Longrightarrow> v \<in> set xs \<and> P v"
  by (auto simp: find_Some_iff)

section \<open>Python strings and numbers\<close>

definition newline :: char where
  "newline = CHR 0x0A"

text \<open>The blanks of Latin-1, for \<open>str.isspace\<close>, \<open>str.strip\<close> and \<open>str.split()\<close>.\<close>

definition is_space :: "char \<Rightarrow> bool" where
  "is_space c = (c \<in> {CHR '' '', CHR 0x09, CHR 0x0A, CHR 0x0B, CHR 0x0C, CHR 0x0D,
                      CHR 0x1C, CHR 0x1D, CHR 0x1E, CHR 0x1F, CHR 0x85, CHR 0xA0})"

definition strip :: "string \<Rightarrow> string" where
  "strip s = rev (dropWhile is_space (rev (dropWhile is_space s)))"

text \<open>\<open>s.split(sep)\<close> for a one-character separator: always at least one segment.\<close>

fun split_on :: "char \<Rightarrow> string \<Rightarrow> string list" where
  "split_on sep [] = [[]]"
| "split_on sep (c # cs) =
     (if c = sep then [] # split_on sep cs
      else case split_on sep cs of [] \<Rightarrow> [[c]] | w # ws \<Rightarrow> (c # w) # ws)"

text \<open>\<open>str.split()\<close> on whitespace.\<close>

fun words_acc :: "string \<Rightarrow> string \<Rightarrow> string list" where
  "words_acc acc [] = (if acc = [] then [] else [rev acc])"
| "words_acc acc (c # cs) =
     (if is_space c then (if acc = [] then words_acc [] cs else rev acc # words_acc [] cs)
      else words_acc (c # acc) cs)"

definition words :: "string \<Rightarrow> string list" where
  "words = words_acc []"

definition join_with :: "string \<Rightarrow> string list \<Rightarrow> string" where
  "join_with sep ws = (case ws of [] \<Rightarrow> [] | v # vs \<Rightarrow> v @ concat (map (\<lambda>x. sep @ x) vs))"

definition lower_char :: "char \<Rightarrow> char" where
  "lower_char c = (if 65 \<le> (of_char c :: nat) \<and> (of_char c :: nat) \<le> 90 then char_of (of_char c + 32 :: nat) else c)"

definition lower :: "string \<Rightarrow> string" where
  "lower = map lower_char"

text \<open>\<open>x or y\<close> on optional values and on strings.\<close>

definition or_else :: "'a option \<Rightarrow> 'a option \<Rightarrow> 'a option" where
  "or_else x y = (case x of None \<Rightarrow> y | Some v \<Rightarrow> Some v)"

definition str_or :: "string \<Rightarrow> string \<Rightarrow> string" where
  "str_or x y = (if x = [] then y else x)"

fun digits :: "nat \<Rightarrow> string" where
  "digits n = (if n < 10 then [char_of (48 + n)] else digits (n div 10) @ [char_of (48 + n mod 10)])"

declare digits.simps [simp del]

lemma digits_nonempty [simp]: "digits n \<noteq> []"
  by (subst digits.simps) simp

text \<open>Decimal numerals are unambiguous.\<close>

definition undigits :: "string \<Rightarrow> nat" where
  "undigits s = foldl (\<lambda>n c. 10 * n + (of_char c - 48)) 0 s"

lemma undigits_digits: "undigits (digits n) = n"
proof (induction n rule: digits.induct)
  case (1 n)
  show ?case
  proof (cases "n < 10")
    case True
    then show ?thesis by (subst digits.simps) (simp add: undigits_def)
  next
    case False
    with 1 have "undigits (digits (n div 10)) = n div 10" by simp
    with False show ?thesis by (subst digits.simps) (simp add: undigits_def)
  qed
qed

lemma digits_inj [simp]: "digits m = digits n \<longleftrightarrow> m = n"
  by (metis undigits_digits)

lemma digits_chars: "c \<in> set (digits n) \<Longrightarrow> CHR ''0'' \<le> c \<and> c \<le> CHR ''9''"
proof (induction n rule: digits.induct)
  case (1 n)
  have d: "CHR ''0'' \<le> (char_of (48 + k) :: char) \<and> (char_of (48 + k) :: char) \<le> CHR ''9''" if "k < 10" for k :: nat
    using that by (simp add: less_eq_char_def)
  show ?case
  proof (cases "n < 10")
    case True
    with 1(2) d show ?thesis by (subst (asm) digits.simps) simp
  next
    case False
    with 1 d [of "n mod 10"] show ?thesis by (subst (asm) (2) digits.simps) auto
  qed
qed

lemma colon_not_digit: "CHR '':'' \<notin> set (digits n)"
  using digits_chars by (fastforce simp: less_eq_char_def)

lemma append_sep_eq:
  "c \<notin> set xs \<Longrightarrow> c \<notin> set xs' \<Longrightarrow> xs @ c # ys = xs' @ c # ys' \<longleftrightarrow> xs = xs' \<and> ys = ys'"
  by (induction xs arbitrary: xs') (auto simp: Cons_eq_append_conv append_eq_Cons_conv, (case_tac xs', auto)+)

lemma split_on_nonempty [simp]: "split_on sep s \<noteq> []"
  by (cases s) (auto split: list.splits)

lemma split_on_no_sep: "sep \<notin> set s \<Longrightarrow> split_on sep s = [s]"
  by (induction s) auto

lemma split_on_append:
  "sep \<notin> set u \<Longrightarrow> split_on sep (u @ sep # v) = u # split_on sep v"
  by (induction u) auto

lemma strip_empty_iff: "strip s = [] \<longleftrightarrow> (\<forall>c \<in> set s. is_space c)"
  by (auto simp: strip_def dropWhile_eq_Nil_conv dest: set_dropWhileD)
     (metis (no_types, lifting) dropWhile_eq_Nil_conv set_rev hd_dropWhile list.set_sel(1))

section \<open>Evaluation\<close>

text \<open>
  A run is evaluated by the simplifier: a program is unfolded only once it is applied to a state, and the
  continuation of a bind only once its first computation has a result. The congruence rules keep the simplifier
  out of code that has not been reached.
\<close>

definition bind_case :: "('e + 'a) \<times> 's \<Rightarrow> ('a \<Rightarrow> 's \<Rightarrow> ('e + 'b) \<times> 's) \<Rightarrow> ('e + 'b) \<times> 's" where
  "bind_case r f = (case r of (Inl e, s) \<Rightarrow> (Inl e, s) | (Inr x, s) \<Rightarrow> f x s)"

definition exn_case :: "('e + 'a) \<times> 's \<Rightarrow> ('e \<Rightarrow> 's \<Rightarrow> ('e + 'a) \<times> 's) \<Rightarrow> ('e + 'a) \<times> 's" where
  "exn_case r h = (case r of (Inl e, s) \<Rightarrow> h e s | (Inr x, s) \<Rightarrow> (Inr x, s))"

lemma run_steps:
  "bnd m f s = bind_case (m s) f" "on_exn m h s = exn_case (m s) h"
  "bind_case (Inr x, s) f = f x s" "bind_case (Inl e, s) f = (Inl e, s)"
  "exn_case (Inr x, s) h = (Inr x, s)" "exn_case (Inl e, s) h = h e s"
  by (simp_all add: bnd_def on_exn_def bind_case_def exn_case_def)

lemma run_congs:
  "bnd m f s = bnd m f s" "on_exn m h s = on_exn m h s"
  "r = r' \<Longrightarrow> bind_case r f = bind_case r' f" "r = r' \<Longrightarrow> exn_case r h = exn_case r' h"
  by simp_all

end
