(* ===== verification/Choices.thy ===== *)
theory Choices
  imports Prelude
begin

text \<open>
  The choice sets of \<^verbatim>\<open>choices.py\<close>, one datatype per \<^verbatim>\<open>ChoiceSet\<close>, and the
  exceptions of \<^verbatim>\<open>backends/exceptions.py\<close> together with the framework exceptions the
  modelled code raises and catches. A choice set that the database stores as free text
  (the credential type, which operators may extend) is kept as a string.
\<close>

section \<open>Choice sets\<close>

datatype backend_choice = BACKEND_OPENBAO | BACKEND_VAULT | BACKEND_BROKER

datatype auth_method_choice = METHOD_APPROLE | METHOD_KUBERNETES | METHOD_CERT | METHOD_TOKEN

datatype engine_status =
  STATUS_UNKNOWN | STATUS_HEALTHY | STATUS_SEALED | STATUS_STANDBY | STATUS_UNREACHABLE
| STATUS_UNAUTHORIZED

datatype credential_status =
  STATUS_ACTIVE | STATUS_STAGED | STATUS_ROTATING | STATUS_EXPIRED | STATUS_RETIRED
| STATUS_COMPROMISED

datatype purpose_choice =
  PURPOSE_LOGIN | PURPOSE_ENABLE | PURPOSE_CONSOLE | PURPOSE_OOB | PURPOSE_API | PURPOSE_AGENT
| PURPOSE_BACKUP

datatype access_action =
  ACTION_REVEAL | ACTION_WRITE | ACTION_ROTATE | ACTION_STAGE | ACTION_PROMOTE | ACTION_DISCARD
| ACTION_DELETE | ACTION_CONFIGURE

datatype ssh_key_type_choice = TYPE_ED25519 | TYPE_RSA_4096 | TYPE_ECDSA_P256

definition TYPE_PASSWORD :: string where "TYPE_PASSWORD = ''password''"
definition TYPE_SSH_KEYPAIR :: string where "TYPE_SSH_KEYPAIR = ''ssh-keypair''"
definition TYPE_SSH_PASSWORD :: string where "TYPE_SSH_PASSWORD = ''ssh-password''"
definition TYPE_API_TOKEN :: string where "TYPE_API_TOKEN = ''api-token''"
definition TYPE_X509_KEYPAIR :: string where "TYPE_X509_KEYPAIR = ''x509-keypair''"
definition TYPE_X509_CA :: string where "TYPE_X509_CA = ''x509-ca''"
definition TYPE_SNMP_V3 :: string where "TYPE_SNMP_V3 = ''snmp-v3''"
definition TYPE_WIREGUARD :: string where "TYPE_WIREGUARD = ''wireguard''"
definition TYPE_GENERIC_KV :: string where "TYPE_GENERIC_KV = ''generic-kv''"

lemmas type_names =
  TYPE_PASSWORD_def TYPE_SSH_KEYPAIR_def TYPE_SSH_PASSWORD_def TYPE_API_TOKEN_def
  TYPE_X509_KEYPAIR_def TYPE_X509_CA_def TYPE_SNMP_V3_def TYPE_WIREGUARD_def TYPE_GENERIC_KV_def

definition credential_type_values :: "string list" where
  "credential_type_values =
     [TYPE_PASSWORD, TYPE_SSH_KEYPAIR, TYPE_SSH_PASSWORD, TYPE_API_TOKEN, TYPE_X509_KEYPAIR,
      TYPE_X509_CA, TYPE_SNMP_V3, TYPE_WIREGUARD, TYPE_GENERIC_KV]"

text \<open>The database values of the choices.\<close>

fun backend_value :: "backend_choice \<Rightarrow> string" where
  "backend_value BACKEND_OPENBAO = ''openbao''"
| "backend_value BACKEND_VAULT = ''vault''"
| "backend_value BACKEND_BROKER = ''broker''"

fun auth_method_value :: "auth_method_choice \<Rightarrow> string" where
  "auth_method_value METHOD_APPROLE = ''approle''"
| "auth_method_value METHOD_KUBERNETES = ''kubernetes''"
| "auth_method_value METHOD_CERT = ''cert''"
| "auth_method_value METHOD_TOKEN = ''token''"

fun engine_status_value :: "engine_status \<Rightarrow> string" where
  "engine_status_value STATUS_UNKNOWN = ''unknown''"
| "engine_status_value STATUS_HEALTHY = ''healthy''"
| "engine_status_value STATUS_SEALED = ''sealed''"
| "engine_status_value STATUS_STANDBY = ''standby''"
| "engine_status_value STATUS_UNREACHABLE = ''unreachable''"
| "engine_status_value STATUS_UNAUTHORIZED = ''unauthorized''"

fun credential_status_value :: "credential_status \<Rightarrow> string" where
  "credential_status_value STATUS_ACTIVE = ''active''"
| "credential_status_value STATUS_STAGED = ''staged''"
| "credential_status_value STATUS_ROTATING = ''rotating''"
| "credential_status_value STATUS_EXPIRED = ''expired''"
| "credential_status_value STATUS_RETIRED = ''retired''"
| "credential_status_value STATUS_COMPROMISED = ''compromised''"

fun purpose_value :: "purpose_choice \<Rightarrow> string" where
  "purpose_value PURPOSE_LOGIN = ''login''"
| "purpose_value PURPOSE_ENABLE = ''enable''"
| "purpose_value PURPOSE_CONSOLE = ''console''"
| "purpose_value PURPOSE_OOB = ''oob''"
| "purpose_value PURPOSE_API = ''api''"
| "purpose_value PURPOSE_AGENT = ''agent''"
| "purpose_value PURPOSE_BACKUP = ''backup''"

section \<open>Exceptions\<close>

text \<open>The classes of \<^verbatim>\<open>backends/exceptions.py\<close>; a scrubbed exception is a class, a message
  chosen by this program and at most a status code.\<close>

datatype openbao_class =
  OpenBaoErrorC | BackendConfigurationErrorC | OpenBaoAuthErrorC | OpenBaoNotFoundC
| OpenBaoConflictC | OpenBaoUnavailableC | OpenBaoMutationUnknownC

record openbao_error =
  oe_class :: openbao_class
  oe_message :: string
  oe_status :: "nat option"

fun default_message :: "openbao_class \<Rightarrow> string" where
  "default_message OpenBaoErrorC = ''OpenBao request failed.''"
| "default_message BackendConfigurationErrorC = ''Secret backend is not correctly configured.''"
| "default_message OpenBaoAuthErrorC = ''OpenBao rejected the plugin credentials for this engine.''"
| "default_message OpenBaoNotFoundC = ''No secret exists at the requested path.''"
| "default_message OpenBaoConflictC =
     ''The secret was modified concurrently; the write was refused.''"
| "default_message OpenBaoUnavailableC = ''OpenBao is unreachable or sealed.''"
| "default_message OpenBaoMutationUnknownC =
     ''OpenBao may have accepted the request; verify state before retrying.''"

text \<open>\<open>OpenBaoError(message, status_code)\<close>: an empty or absent message falls back to the
  class's default.\<close>

definition openbao_exn :: "openbao_class \<Rightarrow> string option \<Rightarrow> nat option \<Rightarrow> openbao_error" where
  "openbao_exn c msg st =
     \<lparr>oe_class = c,
      oe_message = (case msg of None \<Rightarrow> default_message c | Some m \<Rightarrow> str_or m (default_message c)),
      oe_status = st\<rparr>"

text \<open>\<open>isinstance\<close> along the subclass relation.\<close>

fun is_subclass :: "openbao_class \<Rightarrow> openbao_class \<Rightarrow> bool" where
  "is_subclass c OpenBaoErrorC = True"
| "is_subclass OpenBaoMutationUnknownC OpenBaoUnavailableC = True"
| "is_subclass c d = (c = d)"

datatype exn =
  OpenBaoExn openbao_error
| ValidationError string string \<comment> \<open>the field it is keyed to (empty: none) and the message\<close>
| PermissionDenied string
| AutomationResolutionDenied
| AbortRequest string
| IntegrityError
| ObjectDoesNotExist
| CapabilitySchemaError string
| PythonError string \<comment> \<open>any other exception class, by name\<close>

definition openbao_err :: "string \<Rightarrow> exn" where
  "openbao_err m = OpenBaoExn (openbao_exn OpenBaoErrorC (Some m) None)"

definition is_openbao :: "exn \<Rightarrow> bool" where
  "is_openbao e = (case e of OpenBaoExn _ \<Rightarrow> True | _ \<Rightarrow> False)"

section \<open>JSON values\<close>

text \<open>A secret payload is a Python dict from field names to JSON values; it keeps its
  insertion order and its keys are distinct.\<close>

datatype json =
  JNull
| JBool bool
| JNum int
| JFloat string \<comment> \<open>a float, by its \<^verbatim>\<open>repr\<close>\<close>
| JStr string
| JArr "json list"
| JObj "(string \<times> json) list"

type_synonym payload = "(string \<times> json) list"

text \<open>Python truth of a value.\<close>

fun truthy :: "json \<Rightarrow> bool" where
  "truthy JNull = False"
| "truthy (JBool b) = b"
| "truthy (JNum n) = (n \<noteq> 0)"
| "truthy (JFloat r) = (r \<notin> {''0.0'', ''-0.0''})"
| "truthy (JStr s) = (s \<noteq> [])"
| "truthy (JArr xs) = (xs \<noteq> [])"
| "truthy (JObj kvs) = (kvs \<noteq> [])"

definition dict_get :: "(string \<times> 'v) list \<Rightarrow> string \<Rightarrow> 'v option" where
  "dict_get d k = map_of d k"

definition dict_ok :: "(string \<times> 'v) list \<Rightarrow> bool" where
  "dict_ok d = distinct (map fst d)"

lemma openbao_exn_message_nonempty [simp]: "oe_message (openbao_exn c m st) \<noteq> []"
  by (cases c) (auto simp: openbao_exn_def str_or_def split: option.splits)

end
