(* ===== verification/Models.thy ===== *)
theory Models
  imports Choices
begin

text \<open>
  The rows of the plugin's tables as records, with the columns of \<^verbatim>\<open>models/*.py\<close> (column
  names carry a short table prefix, because two tables may share a column name), and the
  database as one record of tables. Times are seconds. A primary key that is \<open>None\<close> is an
  instance that has not been inserted (\<^verbatim>\<open>_state.adding\<close>).
\<close>

section \<open>Rows\<close>

record secret_engine =
  eng_pk :: nat
  eng_name :: string
  eng_slug :: string
  eng_backend :: backend_choice
  eng_api_url :: string
  eng_namespace :: string
  eng_kv_mount :: string
  eng_kv_version :: nat
  eng_auth_method :: auth_method_choice
  eng_tls_verify :: bool
  eng_ca_cert_path :: string
  eng_is_default :: bool
  eng_status :: engine_status
  eng_status_message :: string
  eng_last_checked :: "int option"

record credential_policy =
  pol_pk :: nat
  pol_name :: string
  pol_slug :: string
  pol_engine_id :: nat
  pol_openbao_policy :: string
  pol_groups :: "nat list"
  pol_max_reveal_ttl :: int
  pol_require_reason :: bool

record credential =
  cr_pk :: "nat option"
  cr_name :: string
  cr_uuid :: string
  cr_credential_type :: string
  cr_policy_id :: "nat option"
  cr_engine_id :: "nat option"
  cr_path :: string
  cr_username :: string
  cr_public_key :: string
  cr_fingerprint :: string
  cr_key_type :: string
  cr_cert_serial :: string
  cr_cert_subject :: string
  cr_cert_issuer :: string
  cr_valid_from :: "int option"
  cr_valid_until :: "int option"
  cr_import_source :: string
  cr_status :: credential_status
  cr_rotation_interval :: "nat option"
  cr_last_rotated :: "int option"
  cr_created :: "int option"
  cr_kv_version :: "nat option"
  cr_live_kv_version :: "nat option"
  cr_staged_kv_version :: "nat option"
  cr_live_key_fingerprint :: string
  cr_live_key_version :: "nat option"
  cr_staged_key_fingerprint :: string
  cr_staged_key_version :: "nat option"
  cr_last_verified :: "int option"

record content_type =
  ct_app_label :: string
  ct_model :: string

record credential_assignment =
  asg_pk :: "nat option"
  asg_credential_id :: "nat option"
  asg_object_type :: "content_type option"
  asg_object_id :: nat
  asg_purpose :: purpose_choice
  asg_is_primary :: bool
  asg_enabled :: bool
  asg_known_hosts_entry :: string \<comment> \<open>\<^verbatim>\<open>ssh_known_hosts_entry\<close>\<close>
  asg_strict_host_key_checking :: bool
  asg_last_updated :: int

record credential_access_log =
  log_credential :: "nat option"
  log_name_snapshot :: string
  log_uuid_snapshot :: "string option"
  log_user :: "nat option"
  log_username_snapshot :: string
  log_action :: access_action
  log_source_ip :: "string option"
  log_reason :: string
  log_request_id :: string
  log_success :: bool
  log_message :: string
  log_timestamp :: int
  log_resolved_version :: "nat option"
  log_execution_id :: "nat option"
  log_dispatch_nonce_digest :: string
  log_executor :: "nat option"
  log_executor_snapshot :: string
  log_intent_run_id :: "nat option"
  log_step_id :: string
  log_reference_name :: string
  log_assignment_id :: "nat option"
  log_purpose :: string

record openbao_settings =
  set_pk :: "nat option"
  set_path_prefix :: string
  set_assignable_models :: "string list"
  set_assignable_models_deny :: "string list"
  set_store_public_material :: bool
  set_reveal_rate_limit :: string
  set_reveal_ttl :: int
  set_token_cache_ttl :: int
  set_audit_retention_days :: int
  set_allow_generation :: bool
  set_default_ssh_key_type :: ssh_key_type_choice
  set_expiry_warning_days :: "int list"
  set_engine_health_interval :: int
  set_expiry_scan_interval :: int
  set_credential_verify_interval :: int
  set_rotation_due_interval :: int
  set_access_log_prune_interval :: int

record credential_type_schema =
  sch_name :: string
  sch_slug :: string
  sch_schema :: json
  sch_secret_fields :: "string list"
  sch_extractor :: string

record engine_auth_material =
  am_pk :: "nat option"
  am_engine_id :: "nat option"
  am_policy_id :: "nat option"
  am_cluster_id :: "nat option"
  am_role_id_ciphertext :: string
  am_secret_id_ciphertext :: string
  am_token_ciphertext :: string
  am_k8s_role_ciphertext :: string
  am_k8s_jwt_path_ciphertext :: string
  am_client_cert_ciphertext :: string
  am_client_key_ciphertext :: string
  am_revision :: nat
  am_last_updated :: "int option"

record automation_receipt =
  rc_execution_id :: nat
  rc_nonce_digest :: string
  rc_step_id :: string
  rc_reference_name :: string
  rc_credential_uuid :: string
  rc_assignment_id :: nat
  rc_resolved_version :: nat
  rc_created :: int

section \<open>Users and requests\<close>

text \<open>NetBox's user and the parts of an HTTP request the program reads; \<open>rq_client_ip\<close> is what
  NetBox's \<^verbatim>\<open>get_client_ip\<close> gives: a raise (\<open>Inl\<close>) or an optional address.\<close>

record user =
  usr_pk :: nat
  usr_username :: string
  usr_is_authenticated :: bool
  usr_is_superuser :: bool
  usr_is_active :: bool
  usr_groups :: "nat list"

record http_request =
  rq_client_ip :: "unit + string option"
  rq_id :: string
  rq_user :: "user option"

text \<open>What the program reads of NetBox's Application Service (\<^verbatim>\<open>ipam.Service\<close>): its parent object, the
  hosts of its addresses and its port mappings.\<close>

record app_service =
  svc_name :: string
  svc_parent_type :: "content_type option"
  svc_parent_id :: nat
  svc_addresses :: "string list"
  svc_port_mappings :: "string list"

section \<open>The database\<close>

record database =
  credentials :: "credential tbl"
  policies :: "credential_policy tbl"
  engines :: "secret_engine tbl"
  assignments :: "credential_assignment tbl"
  access_log :: "credential_access_log tbl"
  settings_row :: "openbao_settings option"
  type_schemas :: "credential_type_schema tbl"
  auth_materials :: "engine_auth_material tbl"
  receipts :: "automation_receipt tbl"
  users :: "user tbl"
  app_services :: "app_service tbl"
  next_id :: nat

type_synonym auth_tbl = "engine_auth_material tbl"

text \<open>The foreign keys of a credential, as attribute access resolves them.\<close>

definition policy_of :: "database \<Rightarrow> credential \<Rightarrow> credential_policy option" where
  "policy_of d c = Option.bind (cr_policy_id c) (row (policies d))"

definition engine_of :: "database \<Rightarrow> credential \<Rightarrow> secret_engine option" where
  "engine_of d c = Option.bind (cr_engine_id c) (row (engines d))"

text \<open>A row as the ORM loads it: the instance carries its key.\<close>

definition load_credential :: "database \<Rightarrow> nat \<Rightarrow> credential option" where
  "load_credential d k = map_option (cr_pk_update (\<lambda>_. Some k)) (row (credentials d) k)"

definition assignments_of :: "database \<Rightarrow> nat \<Rightarrow> credential_assignment list" where
  "assignments_of d pk = filter (\<lambda>a. asg_credential_id a = Some pk) (rows (assignments d))"

definition insert_log :: "credential_access_log \<Rightarrow> database \<Rightarrow> nat \<times> database" where
  "insert_log l d =
     (next_id d, d\<lparr>access_log := access_log d @ [(next_id d, l)], next_id := Suc (next_id d)\<rparr>)"

text \<open>A key generated by the sequence is new: no table has used it.\<close>

definition fresh_ids :: "database \<Rightarrow> bool" where
  "fresh_ids d =
     (list_all (\<lambda>(k, _). k < next_id d) (access_log d) \<and> list_all (\<lambda>(k, _). k < next_id d) (credentials d))"

lemma row_append: "row (t @ u) k = (case row t k of None \<Rightarrow> row u k | Some r \<Rightarrow> Some r)"
  by (simp add: row_def map_add_def split: option.splits)

lemma fresh_row_access_log: "fresh_ids d \<Longrightarrow> row (access_log d) (next_id d) = None"
  by (auto simp: fresh_ids_def row_def map_of_eq_None_iff list_all_iff)

lemma insert_log_other [simp]:
  "credentials (snd (insert_log l d)) = credentials d"
  "policies (snd (insert_log l d)) = policies d"
  "engines (snd (insert_log l d)) = engines d"
  "assignments (snd (insert_log l d)) = assignments d"
  "auth_materials (snd (insert_log l d)) = auth_materials d"
  "settings_row (snd (insert_log l d)) = settings_row d"
  "type_schemas (snd (insert_log l d)) = type_schemas d"
  "receipts (snd (insert_log l d)) = receipts d"
  "users (snd (insert_log l d)) = users d"
  "app_services (snd (insert_log l d)) = app_services d"
  by (simp_all add: insert_log_def)

lemma fresh_ids_insert_log: "fresh_ids d \<Longrightarrow> fresh_ids (snd (insert_log l d))"
  by (auto simp: fresh_ids_def insert_log_def list_all_iff)

end
