(* ===== verification/Audit_Log.thy ===== *)
theory Audit_Log
  imports Models
begin

text \<open>
  The access log of \<^verbatim>\<open>services.py\<close>: \<^verbatim>\<open>_request_context\<close>, \<^verbatim>\<open>log_access\<close> and
  \<^verbatim>\<open>log_settings_change\<close>. An insert runs in its own savepoint; whether the database accepts it
  is a parameter (\<open>ae_log_ok\<close>), and a refused insert is swallowed and reported as \<open>None\<close>, as
  the code does.
\<close>

record audit_env =
  ae_now :: int
  ae_log_ok :: "credential_access_log \<Rightarrow> bool"

definition request_context :: "http_request option \<Rightarrow> string option \<times> string" where
  "request_context request =
     (case request of
        None \<Rightarrow> (None, [])
      | Some r \<Rightarrow>
          (case rq_client_ip r of
             Inl _ \<Rightarrow> (None, rq_id r)
           | Inr None \<Rightarrow> (None, rq_id r)
           | Inr (Some ip) \<Rightarrow> (if ip = [] then None else Some ip, rq_id r)))"

definition try_insert_log ::
  "audit_env \<Rightarrow> credential_access_log \<Rightarrow> database \<Rightarrow> nat option \<times> database" where
  "try_insert_log ae l d =
     (if ae_log_ok ae l then (case insert_log l d of (k, d') \<Rightarrow> (Some k, d')) else (None, d))"

definition actor_pk :: "user option \<Rightarrow> nat option" where
  "actor_pk u = (case u of Some v \<Rightarrow> if usr_is_authenticated v then Some (usr_pk v) else None | None \<Rightarrow> None)"

definition actor_name :: "user option \<Rightarrow> string" where
  "actor_name u = (case u of Some v \<Rightarrow> take 150 (usr_username v) | None \<Rightarrow> [])"

definition access_row ::
  "audit_env \<Rightarrow> credential \<Rightarrow> user option \<Rightarrow> access_action \<Rightarrow> bool \<Rightarrow> string \<Rightarrow> string \<Rightarrow> http_request option
   \<Rightarrow> bool \<Rightarrow> credential_access_log" where
  "access_row ae c u action success reason message request link =
     \<lparr>log_credential = (if link then cr_pk c else None),
      log_name_snapshot = take 200 (cr_name c),
      log_uuid_snapshot = Some (cr_uuid c),
      log_user = actor_pk u, log_username_snapshot = actor_name u,
      log_action = action,
      log_source_ip = fst (request_context request), log_reason = reason,
      log_request_id = snd (request_context request),
      log_success = success, log_message = take 500 message,
      log_timestamp = ae_now ae, log_resolved_version = None, log_execution_id = None,
      log_dispatch_nonce_digest = [], log_executor = None, log_executor_snapshot = [],
      log_intent_run_id = None, log_step_id = [], log_reference_name = [], log_assignment_id = None, log_purpose = []\<rparr>"

definition log_access ::
  "audit_env \<Rightarrow> credential \<Rightarrow> user option \<Rightarrow> access_action \<Rightarrow> bool \<Rightarrow> string \<Rightarrow> string \<Rightarrow> http_request option
   \<Rightarrow> bool \<Rightarrow> database \<Rightarrow> nat option \<times> database" where
  "log_access ae c u action success reason message request link =
     try_insert_log ae (access_row ae c u action success reason message request link)"

definition settings_row_log ::
  "audit_env \<Rightarrow> user option \<Rightarrow> http_request option \<Rightarrow> string list \<Rightarrow> bool \<Rightarrow> string option \<Rightarrow> credential_access_log" where
  "settings_row_log ae u request changed success message =
     (let names = str_or (join_with '', '' (sort changed)) ''settings'';
          summary = (case message of Some (c # cs) \<Rightarrow> c # cs | _ \<Rightarrow> ''Changed: '' @ names)
      in \<lparr>log_credential = None, log_name_snapshot = ''OpenBao settings'', log_uuid_snapshot = None,
          log_user = actor_pk u, log_username_snapshot = actor_name u,
          log_action = ACTION_CONFIGURE,
          log_source_ip = fst (request_context request), log_reason = [],
          log_request_id = snd (request_context request),
          log_success = success, log_message = take 500 summary,
          log_timestamp = ae_now ae, log_resolved_version = None, log_execution_id = None,
          log_dispatch_nonce_digest = [], log_executor = None, log_executor_snapshot = [],
      log_intent_run_id = None, log_step_id = [], log_reference_name = [], log_assignment_id = None, log_purpose = []\<rparr>)"

definition log_settings_change ::
  "audit_env \<Rightarrow> user option \<Rightarrow> http_request option \<Rightarrow> string list \<Rightarrow> bool \<Rightarrow> string option \<Rightarrow> database
   \<Rightarrow> nat option \<times> database" where
  "log_settings_change ae u request changed success message =
     try_insert_log ae (settings_row_log ae u request changed success message)"

section \<open>An audit write changes nothing but the log\<close>

lemma try_insert_log_tables [simp]:
  "credentials (snd (try_insert_log ae l d)) = credentials d"
  "policies (snd (try_insert_log ae l d)) = policies d"
  "engines (snd (try_insert_log ae l d)) = engines d"
  "assignments (snd (try_insert_log ae l d)) = assignments d"
  "auth_materials (snd (try_insert_log ae l d)) = auth_materials d"
  "settings_row (snd (try_insert_log ae l d)) = settings_row d"
  "type_schemas (snd (try_insert_log ae l d)) = type_schemas d"
  "receipts (snd (try_insert_log ae l d)) = receipts d"
  "users (snd (try_insert_log ae l d)) = users d"
  "app_services (snd (try_insert_log ae l d)) = app_services d"
  by (simp_all add: try_insert_log_def insert_log_def)

lemma log_access_tables [simp]:
  "credentials (snd (log_access ae c u a s r m q l d)) = credentials d"
  "policies (snd (log_access ae c u a s r m q l d)) = policies d"
  "engines (snd (log_access ae c u a s r m q l d)) = engines d"
  "assignments (snd (log_access ae c u a s r m q l d)) = assignments d"
  "auth_materials (snd (log_access ae c u a s r m q l d)) = auth_materials d"
  "settings_row (snd (log_access ae c u a s r m q l d)) = settings_row d"
  "type_schemas (snd (log_access ae c u a s r m q l d)) = type_schemas d"
  "receipts (snd (log_access ae c u a s r m q l d)) = receipts d"
  "users (snd (log_access ae c u a s r m q l d)) = users d"
  "app_services (snd (log_access ae c u a s r m q l d)) = app_services d"
  by (simp_all add: log_access_def)

lemma try_insert_log_prefix: "\<exists>new. access_log (snd (try_insert_log ae l d)) = access_log d @ new"
  by (simp add: try_insert_log_def insert_log_def)

lemma try_insert_log_row:
  assumes "fresh_ids d" and "try_insert_log ae l d = (Some k, d')"
  shows "row (access_log d') k = Some l"
  using assms fresh_row_access_log [OF assms(1)]
  by (auto simp: try_insert_log_def insert_log_def row_append split: if_splits) (simp add: row_def)

lemma fresh_ids_try_insert_log: "fresh_ids d \<Longrightarrow> fresh_ids (snd (try_insert_log ae l d))"
  using fresh_ids_insert_log [of d l]
  by (auto simp: try_insert_log_def split: prod.splits)

lemma fresh_ids_log_access: "fresh_ids d \<Longrightarrow> fresh_ids (snd (log_access ae c u a s r m q l d))"
  by (simp add: log_access_def fresh_ids_try_insert_log)

end
