(* ===== verification/Settings.thy ===== *)
theory Settings
  imports Audit_Log
begin

text \<open>
  Configuration: the singleton settings row of \<^verbatim>\<open>models/settings.py\<close> with its write guards,
  the per-request memo of \<^verbatim>\<open>conf.py\<close>, and the registry of assignable models of
  \<^verbatim>\<open>registry.py\<close>.
\<close>

section \<open>Validators\<close>

text \<open>\<open>validate_reveal_rate\<close>: \<open>parse_rate\<close> is Django REST framework's parser, \<open>None\<close> where it
  raises one of the caught exceptions.\<close>

definition validate_reveal_rate :: "(string \<Rightarrow> (int option \<times> int option) option) \<Rightarrow> string \<Rightarrow> exn + unit" where
  "validate_reveal_rate parse_rate value =
     (case (case parse_rate value of None \<Rightarrow> (None, None) | Some p \<Rightarrow> p) of
        (Some n, Some d) \<Rightarrow>
          if n < 1 then Inl (ValidationError [] ''Enter a valid DRF throttle rate such as \"30/hour\".'') else Inr ()
      | _ \<Rightarrow> Inl (ValidationError [] ''Enter a valid DRF throttle rate such as \"30/hour\".''))"

definition prefix_message :: string where
  "prefix_message = ''The effective netbox_openbao path_prefix configuration must be a non-empty ''
     @ ''relative path without leading or trailing slashes, empty or traversal segments, or whitespace.''"

definition prefix_malformed :: "string \<Rightarrow> bool" where
  "prefix_malformed p =
     (p = [] \<or> hd p = CHR ''/'' \<or> last p = CHR ''/'' \<or> list_ex is_space p
      \<or> list_ex (\<lambda>seg. seg = [] \<or> seg = ''.'' \<or> seg = ''..'') (split_on (CHR ''/'') p))"

definition validate_path_prefix :: "string \<Rightarrow> exn + unit" where
  "validate_path_prefix p =
     (if prefix_malformed p then Inl (ValidationError ''path_prefix'' prefix_message) else Inr ())"

text \<open>\<open>Credential._path_for_prefix\<close>.\<close>

definition path_for_prefix :: "string \<Rightarrow> string \<Rightarrow> exn + string" where
  "path_for_prefix uuid p =
     (case validate_path_prefix p of
        Inl e \<Rightarrow> Inl e
      | Inr _ \<Rightarrow> Inr (p @ ''/credentials/'' @ uuid))"

section \<open>The settings row\<close>

definition default_settings :: openbao_settings where
  "default_settings =
     \<lparr>set_pk = None, set_path_prefix = ''netbox'',
      set_assignable_models = [''dcim.device'', ''virtualization.virtualmachine'', ''ipam.service''],
      set_assignable_models_deny = [], set_store_public_material = True,
      set_reveal_rate_limit = ''30/hour'', set_reveal_ttl = 300, set_token_cache_ttl = 3600,
      set_audit_retention_days = 365, set_allow_generation = True,
      set_default_ssh_key_type = TYPE_ED25519, set_expiry_warning_days = [30, 14, 7, 1],
      set_engine_health_interval = 5, set_expiry_scan_interval = 1440,
      set_credential_verify_interval = 1440, set_rotation_due_interval = 1440,
      set_access_log_prune_interval = 10080\<rparr>"

definition audited_fields :: "string list" where
  "audited_fields =
     [''path_prefix'', ''assignable_models'', ''assignable_models_deny'', ''store_public_material'',
      ''reveal_rate_limit'', ''reveal_ttl'', ''token_cache_ttl'', ''audit_retention_days'',
      ''allow_generation'', ''default_ssh_key_type'', ''expiry_warning_days'']"

definition setting_differs :: "string \<Rightarrow> openbao_settings \<Rightarrow> openbao_settings \<Rightarrow> bool" where
  "setting_differs n a b =
     (if n = ''path_prefix'' then set_path_prefix a \<noteq> set_path_prefix b
      else if n = ''assignable_models'' then set_assignable_models a \<noteq> set_assignable_models b
      else if n = ''assignable_models_deny'' then set_assignable_models_deny a \<noteq> set_assignable_models_deny b
      else if n = ''store_public_material'' then set_store_public_material a \<noteq> set_store_public_material b
      else if n = ''reveal_rate_limit'' then set_reveal_rate_limit a \<noteq> set_reveal_rate_limit b
      else if n = ''reveal_ttl'' then set_reveal_ttl a \<noteq> set_reveal_ttl b
      else if n = ''token_cache_ttl'' then set_token_cache_ttl a \<noteq> set_token_cache_ttl b
      else if n = ''audit_retention_days'' then set_audit_retention_days a \<noteq> set_audit_retention_days b
      else if n = ''allow_generation'' then set_allow_generation a \<noteq> set_allow_generation b
      else if n = ''default_ssh_key_type'' then set_default_ssh_key_type a \<noteq> set_default_ssh_key_type b
      else if n = ''expiry_warning_days'' then set_expiry_warning_days a \<noteq> set_expiry_warning_days b
      else False)"

definition copy_setting :: "string \<Rightarrow> openbao_settings \<Rightarrow> openbao_settings \<Rightarrow> openbao_settings" where
  "copy_setting n src dst =
     (if n = ''path_prefix'' then dst\<lparr>set_path_prefix := set_path_prefix src\<rparr>
      else if n = ''assignable_models'' then dst\<lparr>set_assignable_models := set_assignable_models src\<rparr>
      else if n = ''assignable_models_deny'' then dst\<lparr>set_assignable_models_deny := set_assignable_models_deny src\<rparr>
      else if n = ''store_public_material'' then dst\<lparr>set_store_public_material := set_store_public_material src\<rparr>
      else if n = ''reveal_rate_limit'' then dst\<lparr>set_reveal_rate_limit := set_reveal_rate_limit src\<rparr>
      else if n = ''reveal_ttl'' then dst\<lparr>set_reveal_ttl := set_reveal_ttl src\<rparr>
      else if n = ''token_cache_ttl'' then dst\<lparr>set_token_cache_ttl := set_token_cache_ttl src\<rparr>
      else if n = ''audit_retention_days'' then dst\<lparr>set_audit_retention_days := set_audit_retention_days src\<rparr>
      else if n = ''allow_generation'' then dst\<lparr>set_allow_generation := set_allow_generation src\<rparr>
      else if n = ''default_ssh_key_type'' then dst\<lparr>set_default_ssh_key_type := set_default_ssh_key_type src\<rparr>
      else if n = ''expiry_warning_days'' then dst\<lparr>set_expiry_warning_days := set_expiry_warning_days src\<rparr>
      else if n = ''engine_health_interval'' then dst\<lparr>set_engine_health_interval := set_engine_health_interval src\<rparr>
      else if n = ''expiry_scan_interval'' then dst\<lparr>set_expiry_scan_interval := set_expiry_scan_interval src\<rparr>
      else if n = ''credential_verify_interval''
      then dst\<lparr>set_credential_verify_interval := set_credential_verify_interval src\<rparr>
      else if n = ''rotation_due_interval'' then dst\<lparr>set_rotation_due_interval := set_rotation_due_interval src\<rparr>
      else if n = ''access_log_prune_interval''
      then dst\<lparr>set_access_log_prune_interval := set_access_log_prune_interval src\<rparr>
      else dst)"

definition changed_field_names ::
  "openbao_settings \<Rightarrow> openbao_settings option \<Rightarrow> string list option \<Rightarrow> string list" where
  "changed_field_names self committed update_fields =
     (case (set_pk self, committed) of
        (Some _, Some c) \<Rightarrow>
          filter (\<lambda>n. setting_differs n self c)
            (case update_fields of None \<Rightarrow> audited_fields | Some u \<Rightarrow> filter (\<lambda>n. n \<in> set u) audited_fields)
      | _ \<Rightarrow> [])"

text \<open>\<open>_audit_refusal\<close>: the request and its user come from NetBox's request context.\<close>

definition audit_refusal ::
  "audit_env \<Rightarrow> http_request option \<Rightarrow> string \<Rightarrow> string \<Rightarrow> database \<Rightarrow> database" where
  "audit_refusal ae request field detail d =
     snd (log_settings_change ae (Option.bind request rq_user) request [] False
            (Some (''Refused change to '' @ field @ '': '' @ detail)) d)"

text \<open>\<open>_validate_prefix_change\<close> with the previous prefix given (\<open>None\<close>: there is no row yet). It
  returns the refusal, if any, and the database with the refusal audited.\<close>

definition validate_prefix_change ::
  "audit_env \<Rightarrow> http_request option \<Rightarrow> string \<Rightarrow> string option \<Rightarrow> database \<Rightarrow> (exn + unit) \<times> database" where
  "validate_prefix_change ae request p previous d =
     (case previous of
        None \<Rightarrow>
          (case validate_path_prefix p of
             Inl e \<Rightarrow> if credentials d = [] then (Inr (), d) else (Inl e, d)
           | Inr _ \<Rightarrow>
               if list_ex (\<lambda>c. Inr (cr_path c) \<noteq> path_for_prefix (cr_uuid c) p) (rows (credentials d))
               then (Inl (ValidationError ''path_prefix''
                       (''Path prefix cannot be set to '' @ p @ '' because existing Credential rows are stamped ''
                        @ ''under a different path prefix. Create the settings row with the prefix already ''
                        @ ''encoded in their stored paths.'')),
                     audit_refusal ae request ''path_prefix''
                       ''existing credentials are stamped under a different prefix'' d)
               else (Inr (), d))
      | Some prev \<Rightarrow>
          if p = prev then (Inr (), d)
          else if credentials d = [] then (Inr (), d)
          else (Inl (ValidationError ''path_prefix'' ''Path prefix cannot be changed while credentials exist.''),
                audit_refusal ae request ''path_prefix'' ''credentials exist'' d))"

text \<open>The save signal: \<^verbatim>\<open>signals.audit_settings_change\<close>, inside the write transaction.\<close>

definition audit_settings_change ::
  "audit_env \<Rightarrow> http_request option \<Rightarrow> bool \<Rightarrow> string list \<Rightarrow> database \<Rightarrow> database" where
  "audit_settings_change ae request created changed d =
     (if \<not> created \<and> changed = [] then d
      else snd (log_settings_change ae (Option.bind request rq_user) request
                  (if changed = [] then [''created''] else sort changed) True None d))"

definition audit_settings_deletion :: "audit_env \<Rightarrow> http_request option \<Rightarrow> database \<Rightarrow> database" where
  "audit_settings_deletion ae request d =
     snd (log_settings_change ae (Option.bind request rq_user) request [] True
            (Some ''Settings row deleted; configuration falls back to model defaults'') d)"

text \<open>\<open>_save_locked\<close>: one transaction, so whatever it wrote before a refusal, the refusal's own
  audit row included, is rolled back with it.\<close>

definition settings_save_locked ::
  "audit_env \<Rightarrow> http_request option \<Rightarrow> string list option \<Rightarrow> openbao_settings \<Rightarrow> database
   \<Rightarrow> (exn + openbao_settings) \<times> database" where
  "settings_save_locked ae request update_fields self d =
     (let locked = settings_row d; changed = changed_field_names self locked update_fields
      in case set_pk self of
           None \<Rightarrow>
             (case locked of
                Some _ \<Rightarrow> (Inl (AbortRequest ''OpenBao settings already exist.''), d)
              | None \<Rightarrow>
                  (case validate_prefix_change ae request (set_path_prefix self) None d of
                     (Inl e, _) \<Rightarrow> (Inl e, d)
                   | (Inr _, _) \<Rightarrow>
                       (let saved = self\<lparr>set_pk := Some (next_id d)\<rparr>;
                            d1 = d\<lparr>settings_row := Some saved, next_id := Suc (next_id d)\<rparr>
                        in (Inr saved, audit_settings_change ae request True changed d1))))
         | Some k \<Rightarrow>
             (case locked of
                None \<Rightarrow> (Inl (ValidationError [] ''OpenBao settings cannot be saved because this row no longer exists.''), d)
              | Some lk \<Rightarrow>
                  if set_pk lk \<noteq> Some k
                  then (Inl (ValidationError [] ''OpenBao settings cannot be saved because this row no longer exists.''), d)
                  else
                    (case (if (case update_fields of None \<Rightarrow> True | Some u \<Rightarrow> ''path_prefix'' \<in> set u)
                           then validate_prefix_change ae request (set_path_prefix self) (Some (set_path_prefix lk)) d
                           else (Inr (), d)) of
                       (Inl e, _) \<Rightarrow> (Inl e, d)
                     | (Inr _, _) \<Rightarrow>
                         (let saved = (case update_fields of None \<Rightarrow> self | Some u \<Rightarrow> fold (\<lambda>n r. copy_setting n self r) u lk)
                          in (Inr self, audit_settings_change ae request False changed (d\<lparr>settings_row := Some saved\<rparr>))))))"

definition settings_save ::
  "audit_env \<Rightarrow> http_request option \<Rightarrow> string list option \<Rightarrow> openbao_settings \<Rightarrow> database
   \<Rightarrow> (exn + openbao_settings) \<times> database" where
  "settings_save ae request update_fields self d =
     (case validate_path_prefix (set_path_prefix self) of
        Inl e \<Rightarrow> (Inl e, d)
      | Inr _ \<Rightarrow>
          (case settings_save_locked ae request update_fields self d of
             (Inl (AbortRequest m), d') \<Rightarrow>
               (Inl (AbortRequest m), audit_refusal ae request ''singleton_key'' ''settings already exist'' d')
           | r \<Rightarrow> r))"

definition ensure_deletable :: "database \<Rightarrow> exn + unit" where
  "ensure_deletable d =
     (if credentials d \<noteq> [] then Inl (AbortRequest ''OpenBao settings cannot be deleted while credentials exist.'')
      else Inr ())"

definition settings_delete :: "audit_env \<Rightarrow> http_request option \<Rightarrow> database \<Rightarrow> (exn + unit) \<times> database" where
  "settings_delete ae request d =
     (case (case settings_row d of None \<Rightarrow> Inr () | Some _ \<Rightarrow> ensure_deletable d) of
        Inl e \<Rightarrow> (Inl e, audit_refusal ae request ''delete'' ''credentials exist'' d)
      | Inr _ \<Rightarrow> (Inr (), audit_settings_deletion ae request (d\<lparr>settings_row := None\<rparr>)))"

section \<open>The per-request memo (conf.py)\<close>

text \<open>
  The thread's state: the snapshot, if one was taken (\<open>Some None\<close>: the query ran and there is
  no row), and the database alias of a settings write this thread made in a transaction that
  may still be open. \<open>rowq\<close> is what the query returns now; \<open>open_tx\<close> whether the alias is
  inside an atomic block.
\<close>

record conf_state =
  cf_memo :: "openbao_settings option option"
  cf_pending :: "string option"

definition settings_write_is_uncommitted :: "(string \<Rightarrow> bool) \<Rightarrow> conf_state \<Rightarrow> bool \<times> conf_state" where
  "settings_write_is_uncommitted open_tx c =
     (case cf_pending c of
        None \<Rightarrow> (False, c)
      | Some alias \<Rightarrow> if open_tx alias then (True, c) else (False, c\<lparr>cf_pending := None\<rparr>))"

definition current_config ::
  "(string \<Rightarrow> bool) \<Rightarrow> openbao_settings option \<Rightarrow> conf_state \<Rightarrow> openbao_settings option \<times> conf_state" where
  "current_config open_tx rowq c =
     (case settings_write_is_uncommitted open_tx c of
        (True, c1) \<Rightarrow> (rowq, c1)
      | (False, c1) \<Rightarrow>
          (case cf_memo c1 of
             Some snapshot \<Rightarrow> (snapshot, c1)
           | None \<Rightarrow> (rowq, c1\<lparr>cf_memo := Some rowq\<rparr>)))"

definition clear_config :: "bool \<Rightarrow> string \<Rightarrow> (string \<Rightarrow> bool) \<Rightarrow> conf_state \<Rightarrow> conf_state" where
  "clear_config pending_write using open_tx c =
     \<lparr>cf_memo = None, cf_pending = (if pending_write \<and> open_tx using then Some using else None)\<rparr>"

definition get_config ::
  "(openbao_settings \<Rightarrow> 'a) \<Rightarrow> (string \<Rightarrow> bool) \<Rightarrow> openbao_settings option \<Rightarrow> conf_state \<Rightarrow> 'a \<times> conf_state" where
  "get_config f open_tx rowq c =
     (case current_config open_tx rowq c of
        (None, c') \<Rightarrow> (f default_settings, c')
      | (Some r, c') \<Rightarrow> (f r, c'))"

text \<open>The configuration one snapshot stands for.\<close>

definition effective :: "openbao_settings option \<Rightarrow> openbao_settings" where
  "effective snapshot = (case snapshot of None \<Rightarrow> default_settings | Some r \<Rightarrow> r)"

section \<open>Assignable models (registry.py and conf.assignable_model_labels)\<close>

definition label_start :: "char \<Rightarrow> bool" where
  "label_start c = (c = CHR ''_'' \<or> CHR ''a'' \<le> c \<and> c \<le> CHR ''z'')"

definition label_char :: "char \<Rightarrow> bool" where
  "label_char c = (label_start c \<or> CHR ''0'' \<le> c \<and> c \<le> CHR ''9'')"

definition label_part :: "string \<Rightarrow> bool" where
  "label_part s = (case s of [] \<Rightarrow> False | c # cs \<Rightarrow> label_start c \<and> list_all label_char cs)"

text \<open>\<open>_LABEL_RE\<close>: two identifiers around one dot (the candidate was stripped, so the trailing
  newline \<^verbatim>\<open>$\<close> would admit cannot occur).\<close>

definition label_re :: "string \<Rightarrow> bool" where
  "label_re s = (case split_on (CHR ''.'') s of [a, m] \<Rightarrow> label_part a \<and> label_part m | _ \<Rightarrow> False)"

record label_registry =
  lb_registered :: "string list"
  lb_rejected :: "string list"

text \<open>A registration argument: a string, or another object by its \<^verbatim>\<open>repr\<close>.\<close>

datatype label_arg = LabelStr string | LabelOther string

definition classify_label :: "(string \<Rightarrow> bool) \<Rightarrow> label_arg \<Rightarrow> string + string" where
  "classify_label model_exists l =
     (case l of
        LabelOther r \<Rightarrow> Inl r
      | LabelStr s \<Rightarrow>
          if strip s = [] then Inl (CHR 0x27 # s @ [CHR 0x27])
          else let candidate = lower (strip s)
               in if label_re candidate \<and> model_exists candidate then Inr candidate else Inl s)"

definition register_assignable_models ::
  "(string \<Rightarrow> bool) \<Rightarrow> label_arg list \<Rightarrow> label_registry \<Rightarrow> label_registry" where
  "register_assignable_models model_exists labels rg =
     fold (\<lambda>l g. case classify_label model_exists l of
                   Inr c \<Rightarrow> g\<lparr>lb_registered := List.insert c (lb_registered g)\<rparr>
                 | Inl r \<Rightarrow> g\<lparr>lb_rejected := List.insert r (lb_rejected g)\<rparr>) labels rg"

definition normalize_labels :: "string list \<Rightarrow> string list" where
  "normalize_labels values = remdups (map (\<lambda>l. lower (strip l)) (filter (\<lambda>l. strip l \<noteq> []) values))"

definition assignable_model_labels :: "openbao_settings \<Rightarrow> label_registry \<Rightarrow> string list" where
  "assignable_model_labels cfg rg =
     sort (filter (\<lambda>l. l \<notin> set (normalize_labels (set_assignable_models_deny cfg)))
             (remdups (normalize_labels (set_assignable_models cfg) @ lb_registered rg)))"

section \<open>Properties\<close>

text \<open>Every stored path is the one the effective prefix gives.\<close>

definition prefix_consistent :: "database \<Rightarrow> bool" where
  "prefix_consistent d =
     list_all (\<lambda>c. path_for_prefix (cr_uuid c) (set_path_prefix (effective (settings_row d))) = Inr (cr_path c))
       (rows (credentials d))"

lemma log_settings_change_tables [simp]:
  "credentials (snd (log_settings_change ae u r ch ok m d)) = credentials d"
  "settings_row (snd (log_settings_change ae u r ch ok m d)) = settings_row d"
  by (simp_all add: log_settings_change_def)

lemma audit_tables [simp]:
  "credentials (audit_refusal ae r f t d) = credentials d" "settings_row (audit_refusal ae r f t d) = settings_row d"
  "credentials (audit_settings_change ae r cr ch d) = credentials d"
  "settings_row (audit_settings_change ae r cr ch d) = settings_row d"
  "credentials (audit_settings_deletion ae r d) = credentials d"
  "settings_row (audit_settings_deletion ae r d) = settings_row d"
  by (simp_all add: audit_refusal_def audit_settings_change_def audit_settings_deletion_def)

lemma copy_setting_prefix:
  "set_path_prefix (copy_setting n src dst) = (if n = ''path_prefix'' then set_path_prefix src else set_path_prefix dst)"
  by (simp add: copy_setting_def)

lemma fold_copy_setting_prefix:
  "set_path_prefix (fold (\<lambda>n r. copy_setting n src r) ns dst) =
     (if ''path_prefix'' \<in> set ns then set_path_prefix src else set_path_prefix dst)"
  by (induction ns arbitrary: dst) (simp_all add: copy_setting_prefix)

lemma fold_copy_setting_pk [simp]: "set_pk (fold (\<lambda>n r. copy_setting n src r) ns dst) = set_pk dst"
proof -
  have "set_pk (copy_setting n src r) = set_pk r" for n r by (simp add: copy_setting_def)
  then show ?thesis by (induction ns arbitrary: dst) simp_all
qed

text \<open>What a successful save of the settings leaves.\<close>

lemma settings_save_cases:
  assumes "settings_save ae rq uf self d = (r, d')"
  obtains (refused) e where "r = Inl e" "settings_row d' = settings_row d" "credentials d' = credentials d"
  | (created) saved where "r = Inr saved" "settings_row d = None" "set_pk self = None"
      "saved = self\<lparr>set_pk := Some (next_id d)\<rparr>" "fst (validate_prefix_change ae rq (set_path_prefix self) None d) = Inr ()"
      "d' = audit_settings_change ae rq True [] (d\<lparr>settings_row := Some saved, next_id := Suc (next_id d)\<rparr>)"
  | (updated) lk saved where "r = Inr self" "settings_row d = Some lk" "set_pk self = set_pk lk" "set_pk lk \<noteq> None"
      "saved = (case uf of None \<Rightarrow> self | Some u \<Rightarrow> fold (\<lambda>n r. copy_setting n self r) u lk)"
      "(case uf of None \<Rightarrow> True | Some u \<Rightarrow> ''path_prefix'' \<in> set u) \<Longrightarrow>
         fst (validate_prefix_change ae rq (set_path_prefix self) (Some (set_path_prefix lk)) d) = Inr ()"
      "d' = audit_settings_change ae rq False (changed_field_names self (Some lk) uf) (d\<lparr>settings_row := Some saved\<rparr>)"
proof (cases "validate_path_prefix (set_path_prefix self)")
  case (Inl e)
  with assms have "r = Inl e" "d' = d" by (simp_all add: settings_save_def)
  then show thesis using that(1) by blast
next
  case (Inr u)
  obtain q d1 where l: "settings_save_locked ae rq uf self d = (q, d1)" by fastforce
  show thesis
  proof (cases "set_pk self")
    case None
    show thesis
    proof (cases "settings_row d")
      case None': None
      show thesis
      proof (cases "fst (validate_prefix_change ae rq (set_path_prefix self) None d)")
        case (Inl e)
        then show thesis
          using assms Inr l None None' that(1)
          by (auto simp: settings_save_def settings_save_locked_def split: prod.splits sum.splits exn.splits if_splits)
      next
        case (Inr w)
        then show thesis
          using assms \<open>validate_path_prefix _ = _\<close> l None None' that(2)
          by (auto simp: settings_save_def settings_save_locked_def changed_field_names_def Let_def
              split: prod.splits sum.splits exn.splits if_splits)
      qed
    next
      case (Some lk)
      with assms Inr l None that(1) show thesis by (auto simp: settings_save_def settings_save_locked_def)
    qed
  next
    case (Some k)
    show thesis
    proof (cases "settings_row d")
      case None
      with assms Inr l Some have "\<exists>e. r = Inl e" "d' = d"
        by (auto simp: settings_save_def settings_save_locked_def)
      with that(1) show thesis by blast
    next
      case lk: (Some lk)
      let ?chk = "if (case uf of None \<Rightarrow> True | Some u \<Rightarrow> ''path_prefix'' \<in> set u)
        then validate_prefix_change ae rq (set_path_prefix self) (Some (set_path_prefix lk)) d else (Inr (), d)"
      let ?saved = "case uf of None \<Rightarrow> self | Some u \<Rightarrow> fold (\<lambda>n r. copy_setting n self r) u lk"
      have run: "settings_save_locked ae rq uf self d =
          (if set_pk lk \<noteq> Some k
           then (Inl (ValidationError [] ''OpenBao settings cannot be saved because this row no longer exists.''), d)
           else case ?chk of (Inl e, _) \<Rightarrow> (Inl e, d)
             | (Inr _, _) \<Rightarrow> (Inr self, audit_settings_change ae rq False (changed_field_names self (Some lk) uf)
                 (d\<lparr>settings_row := Some ?saved\<rparr>)))"
        unfolding settings_save_locked_def Let_def Some lk option.case ..
      obtain z d2 where chk: "?chk = (z, d2)" by fastforce
      have chk_exn: "z \<noteq> Inl (AbortRequest msg)" for msg
        using chk by (auto simp: validate_prefix_change_def split: if_splits option.splits sum.splits)
      show thesis
      proof (cases "set_pk lk = Some k \<and> z = Inr ()")
        case True
        with run chk have "settings_save_locked ae rq uf self d = (Inr self,
            audit_settings_change ae rq False (changed_field_names self (Some lk) uf) (d\<lparr>settings_row := Some ?saved\<rparr>))"
          by simp
        with assms Inr have r: "r = Inr self" and d': "d' = audit_settings_change ae rq False
            (changed_field_names self (Some lk) uf) (d\<lparr>settings_row := Some ?saved\<rparr>)"
          by (simp_all add: settings_save_def)
        show thesis
          by (rule that(3) [OF r lk _ _ refl _ d']) (use True Some chk in \<open>auto split: if_splits\<close>)
      next
        case False
        with run chk chk_exn have "\<exists>e. (\<forall>m. e \<noteq> AbortRequest m) \<and> settings_save_locked ae rq uf self d = (Inl e, d)"
          by (cases z) auto
        with assms Inr have "\<exists>e. r = Inl e" "d' = d" by (auto simp: settings_save_def split: exn.splits)
        with that(1) show thesis by blast
      qed
    qed
  qed
qed


text \<open>C14: The path prefix is frozen while credentials exist. If every stored credential path is the one the effective prefix
  derives, then so it is after any attempt to save the settings row (with or without \<^verbatim>\<open>update_fields\<close>, accepted or
  refused, creating the row or updating it) and after any attempt to delete it.\<close>

theorem prefix_frozen:
  assumes inv: "prefix_consistent d"
  shows "prefix_consistent (snd (settings_save ae rq uf self d)) \<and> prefix_consistent (snd (settings_delete ae rq d))"
proof
  obtain r d' where run: "settings_save ae rq uf self d = (r, d')" by fastforce
  have "prefix_consistent d'"
    using run
  proof (cases rule: settings_save_cases)
    case (refused e)
    with inv show ?thesis by (simp add: prefix_consistent_def)
  next
    case (created saved)
    then have "list_all (\<lambda>c. path_for_prefix (cr_uuid c) (set_path_prefix self) = Inr (cr_path c)) (rows (credentials d))"
      by (auto simp: validate_prefix_change_def list_all_iff list_ex_iff rows_def split: if_splits sum.splits) metis?
    with created show ?thesis by (simp add: prefix_consistent_def effective_def)
  next
    case (updated lk saved)
    have "credentials d = [] \<or> set_path_prefix saved = set_path_prefix lk"
      using updated(5,6) by (auto simp: validate_prefix_change_def fold_copy_setting_prefix split: if_splits option.splits)
    with updated inv show ?thesis by (auto simp: prefix_consistent_def effective_def rows_def)
  qed
  with run show "prefix_consistent (snd (settings_save ae rq uf self d))" by simp
  show "prefix_consistent (snd (settings_delete ae rq d))"
    using inv by (cases "settings_row d")
      (auto simp: settings_delete_def ensure_deletable_def prefix_consistent_def effective_def rows_def)
qed

definition example_credential :: credential where
  "example_credential = \<lparr>cr_pk = Some 5, cr_name = ''admin'', cr_uuid = ''u-5'', cr_credential_type = ''password'',
     cr_policy_id = Some 1, cr_engine_id = Some 1, cr_path = ''netbox/credentials/u-5'', cr_username = ''admin'', cr_public_key = [],
     cr_fingerprint = [], cr_key_type = [], cr_cert_serial = [], cr_cert_subject = [], cr_cert_issuer = [],
     cr_valid_from = None, cr_valid_until = None, cr_import_source = [], cr_status = STATUS_ACTIVE,
     cr_rotation_interval = None, cr_last_rotated = None, cr_created = Some 10, cr_kv_version = Some 2,
     cr_live_kv_version = Some 2, cr_staged_kv_version = None, cr_live_key_fingerprint = [], cr_live_key_version = None,
     cr_staged_key_fingerprint = [], cr_staged_key_version = None, cr_last_verified = None\<rparr>"

definition example_db :: database where
  "example_db = \<lparr>credentials = [(5, example_credential)], policies = [], engines = [], assignments = [],
     access_log = [], settings_row = Some (default_settings\<lparr>set_pk := Some 1\<rparr>), type_schemas = [], auth_materials = [],
     receipts = [], users = [], app_services = [], next_id = 9\<rparr>"

theorem prefix_frozen_witness:
  "prefix_consistent (snd (settings_save \<lparr>ae_now = 0, ae_log_ok = (\<lambda>_. True)\<rparr> None None
     (default_settings\<lparr>set_pk := Some 1, set_path_prefix := ''other''\<rparr>) example_db))"
proof -
  have "prefix_consistent example_db" by code_simp
  from prefix_frozen [OF this] show ?thesis by blast
qed

text \<open>The row \<open>l\<close> was offered to the log: appended when the insert is accepted, else the log is as it was.\<close>

definition offered :: "audit_env \<Rightarrow> credential_access_log \<Rightarrow> database \<Rightarrow> database \<Rightarrow> bool" where
  "offered ae l d d' =
     (if ae_log_ok ae l then map snd (access_log d') = map snd (access_log d) @ [l] else access_log d' = access_log d)"

text \<open>The audited fields in which the stored row differs.\<close>

definition stored_changes :: "database \<Rightarrow> database \<Rightarrow> string list" where
  "stored_changes d d' = filter (\<lambda>n. setting_differs n (effective (settings_row d')) (effective (settings_row d))) audited_fields"

lemma log_settings_change_offers:
  "access_log d0 = access_log d \<Longrightarrow>
     offered ae (settings_row_log ae u rq ch ok m) d (snd (log_settings_change ae u rq ch ok m d0))"
  by (simp add: offered_def log_settings_change_def try_insert_log_def insert_log_def Let_def)

lemma settings_row_log_sort [simp]: "settings_row_log ae u rq (sort ch) ok m = settings_row_log ae u rq ch ok m"
  by (simp add: settings_row_log_def sorted_sort_id)

lemma sorted_change_offers:
  "access_log d0 = access_log d \<Longrightarrow>
     offered ae (settings_row_log ae u rq ch ok m) d (snd (log_settings_change ae u rq (sort ch) ok m d0))"
  using log_settings_change_offers [of d0 d ae u rq "sort ch" ok m] by simp

lemma copy_setting_differs:
  "setting_differs n (copy_setting m src dst) lk \<longleftrightarrow> (if m = n then setting_differs n src lk else setting_differs n dst lk)"
proof (cases "m = n")
  case True
  then show ?thesis by (simp add: setting_differs_def copy_setting_def)
next
  case False
  then show ?thesis by (auto simp: setting_differs_def copy_setting_def)
qed

lemma fold_copy_setting_differs:
  "setting_differs n (fold (\<lambda>m r. copy_setting m src r) ns dst) lk \<longleftrightarrow>
     (if n \<in> set ns then setting_differs n src lk else setting_differs n dst lk)"
  by (induction ns arbitrary: dst) (auto simp: copy_setting_differs)

lemma setting_differs_refl [simp]: "\<not> setting_differs n a a"
  by (simp add: setting_differs_def)

text \<open>The names the code collects are the fields in which the stored row comes to differ.\<close>

lemma stored_names:
  assumes "set_pk self \<noteq> None"
  shows "changed_field_names self (Some lk) uf =
    filter (\<lambda>n. setting_differs n (case uf of None \<Rightarrow> self | Some u \<Rightarrow> fold (\<lambda>n r. copy_setting n self r) u lk) lk) audited_fields"
  using assms by (auto simp: changed_field_names_def fold_copy_setting_differs conj_commute split: option.splits intro!: filter_cong)

text \<open>C17: Every effective configuration change is offered to the audit log, with the actor and the names of what changed.
  When a save of a new row succeeds, the same transaction inserts one successful configuration row that says so, by
  the user of the request; when a save of the existing row succeeds and audited fields of the stored row differ from
  before, it inserts one that names exactly those fields, and when none differs it inserts nothing; a successful
  deletion of the row inserts one that says so. The insert may be refused: then nothing is logged and the change
  stands, as the code prefers.\<close>

theorem settings_changes_audited:
  "(settings_save ae rq uf self d = (Inr saved', d') \<longrightarrow>
      (if settings_row d = None then offered ae (settings_row_log ae (Option.bind rq rq_user) rq [''created''] True None) d d'
       else if stored_changes d d' = [] then access_log d' = access_log d
       else offered ae (settings_row_log ae (Option.bind rq rq_user) rq (stored_changes d d') True None) d d')) \<and>
    (settings_delete ae rq d = (Inr u, d') \<longrightarrow> settings_row d' = None \<and>
      offered ae (settings_row_log ae (Option.bind rq rq_user) rq [] True
        (Some ''Settings row deleted; configuration falls back to model defaults'')) d d')"
proof (intro conjI impI, goal_cases)
  case 1
  then show ?case
  proof (cases rule: settings_save_cases)
    case (created saved)
    then show ?thesis by (simp add: audit_settings_change_def log_settings_change_offers)
  next
    case (updated lk saved)
    define ch where "ch = changed_field_names self (Some lk) uf"
    have ch: "stored_changes d d' = ch"
      using updated stored_names [of self lk uf] by (simp add: stored_changes_def effective_def ch_def)
    have "d' = audit_settings_change ae rq False ch (d\<lparr>settings_row := Some saved\<rparr>)" using updated(7) by (simp add: ch_def)
    then have "if ch = [] then access_log d' = access_log d
        else offered ae (settings_row_log ae (Option.bind rq rq_user) rq ch True None) d d'"
      by (simp add: audit_settings_change_def sorted_change_offers)
    with updated(2) show ?thesis unfolding ch by simp
  qed simp
next
  case 2
  then have "d' = audit_settings_deletion ae rq (d\<lparr>settings_row := None\<rparr>)"
    by (auto simp: settings_delete_def split: option.splits sum.splits)
  then show "settings_row d' = None" by simp
next
  case 3
  then have "d' = audit_settings_deletion ae rq (d\<lparr>settings_row := None\<rparr>)"
    by (auto simp: settings_delete_def split: option.splits sum.splits)
  then show ?case by (simp add: audit_settings_deletion_def log_settings_change_offers)
qed

text \<open>A changed reveal lifetime is logged under its name.\<close>

theorem settings_changes_audited_witness:
  "map (\<lambda>(k, l). (log_action l, log_success l, log_message l)) (access_log (snd (settings_save \<lparr>ae_now = 0, ae_log_ok = (\<lambda>_. True)\<rparr> None None
     (default_settings\<lparr>set_pk := Some 1, set_reveal_ttl := 60\<rparr>) example_db))) = [(ACTION_CONFIGURE, True, ''Changed: reveal_ttl'')]"
proof -
  let ?ae = "\<lparr>ae_now = 0, ae_log_ok = (\<lambda>_. True)\<rparr>"
  let ?new = "default_settings\<lparr>set_pk := Some 1, set_reveal_ttl := 60\<rparr>"
  let ?r = "settings_save ?ae None None ?new example_db"
  let ?l = "settings_row_log ?ae None None [''reveal_ttl''] True None"
  have "\<not> isl (fst ?r)" by code_simp
  then have r: "?r = (Inr (projr (fst ?r)), snd ?r)" by (cases ?r; cases "fst ?r") simp_all
  have ch: "stored_changes example_db (snd ?r) = [''reveal_ttl'']"
    and old: "settings_row example_db \<noteq> None" by code_simp+
  from settings_changes_audited [of ?ae None None ?new example_db "projr (fst ?r)" "snd ?r" "()"] r ch old
  have "offered ?ae ?l example_db (snd ?r)" by simp
  then have "map snd (access_log (snd ?r)) = [?l]" by (simp add: offered_def example_db_def)
  then have "map (\<lambda>l. (log_action l, log_success l, log_message l)) (map snd (access_log (snd ?r)))
      = [(log_action ?l, log_success ?l, log_message ?l)]" by (simp del: map_map)
  also have "\<dots> = [(ACTION_CONFIGURE, True, ''Changed: reveal_ttl'')]" by code_simp
  finally show ?thesis by (simp add: split_def comp_def)
qed


text \<open>Which object types accept credentials: a label is assignable exactly when the configuration lists it or an integration
  registered it, and the deny list does not name it, whichever of the two listed it; the result is sorted and has no duplicates.\<close>

theorem deny_list_wins:
  "(l \<in> set (assignable_model_labels cfg rg) \<longleftrightarrow>
      (l \<in> set (normalize_labels (set_assignable_models cfg)) \<or> l \<in> set (lb_registered rg))
      \<and> l \<notin> set (normalize_labels (set_assignable_models_deny cfg)))
   \<and> sorted (assignable_model_labels cfg rg) \<and> distinct (assignable_model_labels cfg rg)"
  by (auto simp: assignable_model_labels_def)

text \<open>One request sees one configuration: with no write of its own pending, the snapshot the first read took is what every
  later read returns, whatever the table holds by then; while its own write is uncommitted it reads the table each time;
  and clearing the snapshot makes the next read current.\<close>

theorem config_snapshot:
  "(cf_pending c = None \<longrightarrow>
      fst (current_config o2 q2 (snd (current_config o1 q1 c))) = fst (current_config o1 q1 c)) \<and>
   (cf_pending c = Some a \<and> o1 a \<longrightarrow> current_config o1 q1 c = (q1, c)) \<and>
   fst (current_config o1 q1 (clear_config pw using o2 c)) = q1"
  by (auto simp: current_config_def settings_write_is_uncommitted_def clear_config_def split: option.splits)

theorem config_snapshot_witness:
  "fst (current_config (\<lambda>_. False) None (snd (current_config (\<lambda>_. False) (Some default_settings)
     \<lparr>cf_memo = None, cf_pending = None\<rparr>))) = Some default_settings"
  using config_snapshot [of "\<lparr>cf_memo = None, cf_pending = None\<rparr>" "\<lambda>_. False" None "\<lambda>_. False" "Some default_settings"]
  by (simp add: current_config_def settings_write_is_uncommitted_def)

end
