(* ===== verification/Type_Registry.thy ===== *)
theory Type_Registry
  imports Settings
begin

text \<open>
  Credential types (\<^verbatim>\<open>secrets/registry.py\<close>, \<^verbatim>\<open>models/schemas.py\<close>), the extraction of
  non-secret metadata (\<^verbatim>\<open>secrets/extractors.py\<close>) and the version-bound public-key identity
  (\<^verbatim>\<open>secrets/identity.py\<close>). The \<^verbatim>\<open>cryptography\<close>, \<^verbatim>\<open>hashlib\<close>, \<^verbatim>\<open>base64\<close> and \<^verbatim>\<open>jsonschema\<close>
  functions the code calls are the parameter \<open>lib\<close>.
\<close>

section \<open>The libraries\<close>

record cert_info =
  ci_subject :: string
  ci_issuer :: string
  ci_serial_hex :: string
  ci_not_before :: int
  ci_not_after :: int
  ci_fingerprint_hex :: string
  ci_key_type :: string
  ci_public_key_pem :: string
  ci_sans :: "string list option" \<comment> \<open>\<open>None\<close>: the extension is absent\<close>

record 'c crypto_lib =
  lb_load_ssh_private_key :: "string \<Rightarrow> string option \<Rightarrow> 'c option"
  lb_load_pem_private_key :: "string \<Rightarrow> string option \<Rightarrow> 'c option"
  lb_openssh_public :: "'c \<Rightarrow> string option"
  lb_ssh_key_type :: "'c \<Rightarrow> string"
  lb_b64decode :: "string \<Rightarrow> string option"
  lb_b64encode :: "string \<Rightarrow> string"
  lb_sha256 :: "string \<Rightarrow> string"
  lb_load_pem_cert :: "string \<Rightarrow> cert_info option"
  lb_load_der_cert :: "string \<Rightarrow> cert_info option"
  lb_jsonschema :: "(json \<Rightarrow> payload \<Rightarrow> string list option) option"
    \<comment> \<open>\<open>None\<close>: not installed; a failed validation gives the path of the failing element\<close>
  lb_check_schema :: "json \<Rightarrow> string option"
  lb_str :: "json \<Rightarrow> string" \<comment> \<open>\<^verbatim>\<open>str(value)\<close> of a value that is not a string\<close>

section \<open>Extractors\<close>

datatype meta_value = MStr string | MTime int | MStrs "string list"

type_synonym metadata = "(string \<times> meta_value) list"

definition rstrip_char :: "char \<Rightarrow> string \<Rightarrow> string" where
  "rstrip_char c s = rev (dropWhile (\<lambda>d. d = c) (rev s))"

definition ssh_fingerprint :: "'c crypto_lib \<Rightarrow> string \<Rightarrow> exn + string" where
  "ssh_fingerprint lib pub =
     (let bad = ValidationError ''public_key'' ''Value is not a valid OpenSSH public key.''
      in case words pub of
           _ # blob64 # _ \<Rightarrow>
             (case lb_b64decode lib blob64 of
                None \<Rightarrow> Inl bad
              | Some blob \<Rightarrow> Inr (''SHA256:'' @ rstrip_char (CHR ''='') (lb_b64encode lib (lb_sha256 lib blob))))
         | _ \<Rightarrow> Inl bad)"

text \<open>A value as text: \<open>_as_bytes\<close> is \<^verbatim>\<open>str(value).encode()\<close>.\<close>

definition as_bytes :: "'c crypto_lib \<Rightarrow> json \<Rightarrow> string" where
  "as_bytes lib v = (case v of JStr s \<Rightarrow> s | _ \<Rightarrow> lb_str lib v)"

definition extract_ssh_metadata :: "'c crypto_lib \<Rightarrow> json \<Rightarrow> json option \<Rightarrow> exn + metadata" where
  "extract_ssh_metadata lib private_key passphrase =
     (let material = as_bytes lib private_key;
          password = (case passphrase of Some p \<Rightarrow> if truthy p then Some (as_bytes lib p) else None | None \<Rightarrow> None);
          key = (case lb_load_ssh_private_key lib material password of
                   Some k \<Rightarrow> Some k
                 | None \<Rightarrow> lb_load_pem_private_key lib material password)
      in case key of
           None \<Rightarrow> Inl (ValidationError ''private_key''
             (''Unable to parse the private key. Supply an OpenSSH or PEM key, and a ''
              @ ''passphrase if the key is encrypted.''))
         | Some k \<Rightarrow>
             (case lb_openssh_public lib k of
                None \<Rightarrow> Inl (ValidationError ''private_key'' ''Key type is not supported for SSH use.'')
              | Some openssh \<Rightarrow>
                  (case ssh_fingerprint lib openssh of
                     Inl e \<Rightarrow> Inl e
                   | Inr fp \<Rightarrow> Inr [(''public_key'', MStr openssh), (''fingerprint'', MStr fp),
                                   (''key_type'', MStr (lb_ssh_key_type lib k))])))"

definition extract_certificate_metadata :: "'c crypto_lib \<Rightarrow> json \<Rightarrow> exn + metadata" where
  "extract_certificate_metadata lib certificate =
     (let material = as_bytes lib certificate;
          cert = (case lb_load_pem_cert lib material of Some c \<Rightarrow> Some c | None \<Rightarrow> lb_load_der_cert lib material)
      in case cert of
           None \<Rightarrow> Inl (ValidationError ''certificate'' ''Unable to parse the certificate as PEM or DER.'')
         | Some c \<Rightarrow> Inr
             [(''cert_subject'', MStr (ci_subject c)), (''cert_issuer'', MStr (ci_issuer c)),
              (''cert_serial'', MStr (ci_serial_hex c)), (''valid_from'', MTime (ci_not_before c)),
              (''valid_until'', MTime (ci_not_after c)),
              (''fingerprint'', MStr (''SHA256:'' @ ci_fingerprint_hex c)),
              (''key_type'', MStr (ci_key_type c)), (''public_key'', MStr (ci_public_key_pem c)),
              (''subject_alternative_names'', MStrs (case ci_sans c of None \<Rightarrow> [] | Some ns \<Rightarrow> ns))])"

section \<open>Schemas\<close>

record field_spec =
  fs_required :: bool
  fs_secret :: bool

record type_schema =
  ts_vault_fields :: "(string \<times> field_spec) list"
  ts_extractor :: "string option"
  ts_allow_arbitrary_keys :: bool
  ts_json_schema :: "json option"

abbreviation secret_required :: field_spec where
  "secret_required \<equiv> \<lparr>fs_required = True, fs_secret = True\<rparr>"

abbreviation secret_optional :: field_spec where
  "secret_optional \<equiv> \<lparr>fs_required = False, fs_secret = True\<rparr>"

abbreviation public_required :: field_spec where
  "public_required \<equiv> \<lparr>fs_required = True, fs_secret = False\<rparr>"

abbreviation public_optional :: field_spec where
  "public_optional \<equiv> \<lparr>fs_required = False, fs_secret = False\<rparr>"

definition builtin_schema :: "(string \<times> field_spec) list \<Rightarrow> string option \<Rightarrow> bool \<Rightarrow> type_schema" where
  "builtin_schema flds extractor arbitrary =
     \<lparr>ts_vault_fields = flds, ts_extractor = extractor, ts_allow_arbitrary_keys = arbitrary,
      ts_json_schema = None\<rparr>"

definition CREDENTIAL_SCHEMAS :: "(string \<times> type_schema) list" where
  "CREDENTIAL_SCHEMAS =
     [(TYPE_PASSWORD, builtin_schema [(''password'', secret_required)] None False),
      (TYPE_SSH_PASSWORD, builtin_schema [(''password'', secret_required)] None False),
      (TYPE_API_TOKEN, builtin_schema [(''token'', secret_required)] None False),
      (TYPE_SSH_KEYPAIR, builtin_schema
         [(''private_key'', secret_required), (''passphrase'', secret_optional), (''public_key'', public_optional)]
         (Some ''ssh'') False),
      (TYPE_X509_KEYPAIR, builtin_schema
         [(''private_key'', secret_required), (''certificate'', public_required), (''chain'', public_optional)]
         (Some ''x509'') False),
      (TYPE_X509_CA, builtin_schema
         [(''private_key'', secret_optional), (''certificate'', public_required)] (Some ''x509'') False),
      (TYPE_SNMP_V3, builtin_schema
         [(''auth_password'', secret_required), (''priv_password'', secret_optional),
          (''auth_protocol'', public_optional), (''priv_protocol'', public_optional)] None False),
      (TYPE_WIREGUARD, builtin_schema
         [(''private_key'', secret_required), (''preshared_key'', secret_optional), (''public_key'', public_optional)]
         None False),
      (TYPE_GENERIC_KV, builtin_schema [] None True)]"

definition EXTRACTABLE_FIELDS :: "string list" where
  "EXTRACTABLE_FIELDS =
     [''public_key'', ''fingerprint'', ''key_type'', ''cert_serial'', ''cert_subject'', ''cert_issuer'',
      ''valid_from'', ''valid_until'']"

definition EXTRACTORS :: "string list" where
  "EXTRACTORS = [''ssh'', ''x509'']"

definition json_get :: "json \<Rightarrow> string \<Rightarrow> json option" where
  "json_get j k = (case j of JObj kvs \<Rightarrow> dict_get kvs k | _ \<Rightarrow> None)"

definition obj_keys :: "json option \<Rightarrow> string list" where
  "obj_keys j = (case j of Some (JObj kvs) \<Rightarrow> map fst kvs | _ \<Rightarrow> [])"

definition str_items :: "json option \<Rightarrow> string list" where
  "str_items j = (case j of Some (JArr xs) \<Rightarrow> concat (map (\<lambda>x. case x of JStr s \<Rightarrow> [s] | _ \<Rightarrow> []) xs) | _ \<Rightarrow> [])"

definition stored_schema :: "database \<Rightarrow> string \<Rightarrow> credential_type_schema option" where
  "stored_schema d slug = List.find (\<lambda>s. sch_slug s = slug) (rows (type_schemas d))"

definition as_schema :: "credential_type_schema \<Rightarrow> type_schema" where
  "as_schema st =
     (let required = str_items (json_get (sch_schema st) ''required'')
      in \<lparr>ts_vault_fields =
            map (\<lambda>n. (n, \<lparr>fs_required = (n \<in> set required), fs_secret = (n \<in> set (sch_secret_fields st))\<rparr>))
              (obj_keys (json_get (sch_schema st) ''properties'')),
          ts_extractor = (if sch_extractor st = [] then None else Some (sch_extractor st)),
          ts_allow_arbitrary_keys = False,
          ts_json_schema = Some (sch_schema st)\<rparr>)"

definition unknown_type :: "string \<Rightarrow> exn" where
  "unknown_type v = ValidationError ''credential_type'' (''Unknown credential type: '' @ v @ ''.'')"

definition get_schema :: "database \<Rightarrow> string \<Rightarrow> exn + type_schema" where
  "get_schema d ctype =
     (case map_of CREDENTIAL_SCHEMAS ctype of
        Some s \<Rightarrow> Inr s
      | None \<Rightarrow> (case stored_schema d ctype of Some st \<Rightarrow> Inr (as_schema st) | None \<Rightarrow> Inl (unknown_type ctype)))"

definition is_known_credential_type :: "database \<Rightarrow> string \<Rightarrow> bool" where
  "is_known_credential_type d v = (map_of CREDENTIAL_SCHEMAS v \<noteq> None \<or> stored_schema d v \<noteq> None)"

section \<open>Payload validation and metadata\<close>

definition clean_items :: "payload \<Rightarrow> payload" where
  "clean_items data = filter (\<lambda>(k, v). v \<noteq> JNull \<and> v \<noteq> JStr []) data"

definition missing_fields :: "(string \<times> field_spec) list \<Rightarrow> payload \<Rightarrow> string list" where
  "missing_fields flds cleaned =
     map fst (filter (\<lambda>(n, spec). fs_required spec \<and>
        (case dict_get cleaned n of None \<Rightarrow> True | Some v \<Rightarrow> \<not> truthy v)) flds)"

definition unknown_fields :: "(string \<times> field_spec) list \<Rightarrow> payload \<Rightarrow> string list" where
  "unknown_fields flds cleaned = sort (filter (\<lambda>k. k \<notin> set (map fst flds)) (map fst cleaned))"

definition secret_data_error :: "string \<Rightarrow> exn" where
  "secret_data_error m = ValidationError ''secret_data'' m"

definition schema_violation :: "'c crypto_lib \<Rightarrow> type_schema \<Rightarrow> payload \<Rightarrow> string list option" where
  "schema_violation lib sch cleaned =
     (case (ts_json_schema sch, lb_jsonschema lib) of
        (Some js, Some validate) \<Rightarrow> validate js cleaned
      | _ \<Rightarrow> None)"

definition validate_payload :: "'c crypto_lib \<Rightarrow> database \<Rightarrow> string \<Rightarrow> json \<Rightarrow> exn + payload" where
  "validate_payload lib d ctype data =
     (case get_schema d ctype of
        Inl e \<Rightarrow> Inl e
      | Inr sch \<Rightarrow>
          (case data of
             JObj items \<Rightarrow>
               (let flds = ts_vault_fields sch; cleaned = clean_items items;
                    missing = missing_fields flds cleaned;
                    unknown = (if ts_allow_arbitrary_keys sch then [] else unknown_fields flds cleaned)
                in if missing \<noteq> []
                   then Inl (secret_data_error (''Missing required field(s) for this credential type: ''
                          @ join_with '', '' (sort missing) @ ''.''))
                   else if unknown \<noteq> []
                   then Inl (secret_data_error (''Unsupported field(s) for this credential type: ''
                          @ join_with '', '' unknown @ ''.''))
                   else case schema_violation lib sch cleaned of
                     Some p \<Rightarrow> Inl (secret_data_error (''Does not match the schema for this credential type (at: ''
                          @ str_or (join_with ''.'' p) ''payload'' @ '').''))
                   | None \<Rightarrow>
                       if cleaned = [] then Inl (secret_data_error ''Secret data must not be empty.'')
                       else Inr cleaned)
           | _ \<Rightarrow> Inl (secret_data_error ''Secret data must be an object.'')))"

text \<open>The fixed mapping from an extractor name to a function; \<open>payload['private_key']\<close> on a
  payload without that key is a \<^verbatim>\<open>KeyError\<close>.\<close>

definition run_extractor :: "'c crypto_lib \<Rightarrow> string \<Rightarrow> payload \<Rightarrow> (exn + metadata) option" where
  "run_extractor lib name p =
     (if name = ''ssh'' then Some
        (case dict_get p ''private_key'' of
           None \<Rightarrow> Inl (PythonError ''KeyError'')
         | Some k \<Rightarrow> extract_ssh_metadata lib k (dict_get p ''passphrase''))
      else if name = ''x509'' then Some
        (case dict_get p ''certificate'' of
           None \<Rightarrow> Inl (PythonError ''KeyError'')
         | Some c \<Rightarrow> extract_certificate_metadata lib c)
      else None)"

definition extract_metadata ::
  "'c crypto_lib \<Rightarrow> openbao_settings \<Rightarrow> database \<Rightarrow> string \<Rightarrow> payload \<Rightarrow> exn + metadata" where
  "extract_metadata lib cfg d ctype p =
     (if \<not> set_store_public_material cfg then Inr []
      else case get_schema d ctype of
        Inl e \<Rightarrow> Inl e
      | Inr sch \<Rightarrow>
          (case ts_extractor sch of
             None \<Rightarrow> Inr []
           | Some name \<Rightarrow>
               (case run_extractor lib name p of
                  None \<Rightarrow> Inr []
                | Some (Inl e) \<Rightarrow> Inl e
                | Some (Inr m) \<Rightarrow> Inr (filter (\<lambda>(k, _). k \<in> set EXTRACTABLE_FIELDS) m))))"

section \<open>Operator-defined types (CredentialTypeSchema.clean)\<close>

definition schema_clean :: "'c crypto_lib \<Rightarrow> credential_type_schema \<Rightarrow> exn + unit" where
  "schema_clean lib st =
     (if sch_slug st \<in> set credential_type_values
      then Inl (ValidationError ''slug'' (CHR 0x22 # sch_slug st @ [CHR 0x22]
             @ '' is a built-in credential type and cannot be redefined.''))
      else case sch_schema st of
        JObj kvs \<Rightarrow>
          (case dict_get kvs ''properties'' of
             Some (JObj (p # ps)) \<Rightarrow>
               (case lb_check_schema lib (sch_schema st) of
                  Some err \<Rightarrow> Inl (ValidationError ''schema'' (''Invalid JSON Schema: '' @ err))
                | None \<Rightarrow>
                    (let unknown = sort (filter (\<lambda>f. f \<notin> set (map fst (p # ps))) (remdups (sch_secret_fields st)))
                     in if unknown \<noteq> []
                        then Inl (ValidationError ''secret_fields'' (''Not defined in the schema: ''
                               @ join_with '', '' unknown @ ''.''))
                        else if sch_extractor st \<noteq> [] \<and> sch_extractor st \<notin> set EXTRACTORS
                        then Inl (ValidationError ''extractor'' (''Unknown extractor '' @ [CHR 0x22] @ sch_extractor st
                               @ [CHR 0x22] @ ''. Available: '' @ join_with '', '' (sort EXTRACTORS) @ ''.''))
                        else Inr ()))
           | _ \<Rightarrow> Inl (ValidationError ''schema'' ''Schema must define a non-empty properties object.''))
      | _ \<Rightarrow> Inl (ValidationError ''schema'' ''Schema must be a JSON object.''))"

definition public_fields :: "credential_type_schema \<Rightarrow> string list" where
  "public_fields st =
     filter (\<lambda>n. n \<notin> set (sch_secret_fields st)) (obj_keys (json_get (sch_schema st) ''properties''))"

section \<open>Version-bound key identity (secrets/identity.py)\<close>

definition uses_ssh_identity :: "database \<Rightarrow> string \<Rightarrow> exn + bool" where
  "uses_ssh_identity d ctype =
     (case get_schema d ctype of Inl e \<Rightarrow> Inl e | Inr sch \<Rightarrow> Inr (ts_extractor sch = Some ''ssh''))"

definition meta_str :: "metadata \<Rightarrow> string \<Rightarrow> string" where
  "meta_str m k = (case map_of m k of Some (MStr s) \<Rightarrow> s | _ \<Rightarrow> [])"

definition payload_private_key :: "payload \<Rightarrow> json" where
  "payload_private_key p = (case dict_get p ''private_key'' of None \<Rightarrow> JStr [] | Some v \<Rightarrow> v)"

definition derive_key_fingerprint :: "'c crypto_lib \<Rightarrow> database \<Rightarrow> string \<Rightarrow> payload \<Rightarrow> exn + string" where
  "derive_key_fingerprint lib d ctype p =
     (case uses_ssh_identity d ctype of
        Inl e \<Rightarrow> Inl e
      | Inr False \<Rightarrow> Inr []
      | Inr True \<Rightarrow>
          (case extract_ssh_metadata lib (payload_private_key p) (dict_get p ''passphrase'') of
             Inl e \<Rightarrow> Inl e
           | Inr m \<Rightarrow> Inr (meta_str m ''fingerprint'')))"

definition b64_char :: "char \<Rightarrow> bool" where
  "b64_char c = (CHR ''A'' \<le> c \<and> c \<le> CHR ''Z'' \<or> CHR ''a'' \<le> c \<and> c \<le> CHR ''z''
     \<or> CHR ''0'' \<le> c \<and> c \<le> CHR ''9'' \<or> c = CHR ''+'' \<or> c = CHR ''/'')"

text \<open>\<^verbatim>\<open>re.fullmatch(r'SHA256:[A-Za-z0-9+/]{43}', s)\<close>.\<close>

definition ssh_fingerprint_re :: "string \<Rightarrow> bool" where
  "ssh_fingerprint_re s = (prefix ''SHA256:'' s \<and> length s = 50 \<and> list_all b64_char (drop 7 s))"

definition live_key_fingerprint :: "credential \<Rightarrow> type_schema \<Rightarrow> exn + string" where
  "live_key_fingerprint c sch =
     (if ts_extractor sch \<noteq> Some ''ssh'' then Inr (cr_fingerprint c)
      else if cr_live_key_version c \<noteq> cr_live_kv_version c \<or> \<not> ssh_fingerprint_re (cr_live_key_fingerprint c)
      then Inl (openbao_err ''The live credential identity is not verified.'')
      else Inr (cr_live_key_fingerprint c))"

definition verify_bundle_identity ::
  "'c crypto_lib \<Rightarrow> database \<Rightarrow> credential \<Rightarrow> payload \<Rightarrow> string option \<Rightarrow> exn + unit" where
  "verify_bundle_identity lib d c p expected =
     (let frozen = ssh_fingerprint_re (case expected of None \<Rightarrow> [] | Some e \<Rightarrow> e);
          mismatch = openbao_err ''The credential bundle identity does not match its authorization.'';
          verify = (case extract_ssh_metadata lib (payload_private_key p) (dict_get p ''passphrase'') of
                      Inl _ \<Rightarrow> Inl mismatch
                    | Inr m \<Rightarrow>
                        (case expected of
                           None \<Rightarrow> Inl mismatch
                         | Some e \<Rightarrow> if e \<noteq> [] \<and> meta_str m ''fingerprint'' = e then Inr () else Inl mismatch))
      in if frozen then verify
         else case uses_ssh_identity d (cr_credential_type c) of
           Inl e \<Rightarrow> Inl e
         | Inr False \<Rightarrow> Inr ()
         | Inr True \<Rightarrow> verify)"

text \<open>The three writers of the identity columns; each returns the flds a save must include.\<close>

definition clear_staged_key :: "credential \<Rightarrow> credential \<times> string list" where
  "clear_staged_key c =
     (c\<lparr>cr_staged_key_fingerprint := [], cr_staged_key_version := None\<rparr>,
      [''staged_key_fingerprint'', ''staged_key_version''])"

definition record_key_version :: "credential \<Rightarrow> string \<Rightarrow> nat option \<Rightarrow> bool \<Rightarrow> credential \<times> string list" where
  "record_key_version c fp version promote =
     (let v = (if fp = [] then None else version)
      in if promote
         then (case clear_staged_key (c\<lparr>cr_live_key_fingerprint := fp, cr_live_key_version := v\<rparr>) of
                 (c', flds) \<Rightarrow> (c', [''live_key_fingerprint'', ''live_key_version''] @ flds))
         else (c\<lparr>cr_staged_key_fingerprint := fp, cr_staged_key_version := v\<rparr>,
               [''staged_key_fingerprint'', ''staged_key_version'']))"

definition promote_key_identity :: "credential \<Rightarrow> credential \<times> string list" where
  "promote_key_identity c =
     record_key_version c
       (if cr_staged_key_version c = cr_staged_kv_version c then cr_staged_key_fingerprint c else [])
       (cr_staged_kv_version c) True"

section \<open>Properties\<close>

lemma clean_items_idem: "clean_items (clean_items d) = clean_items d"
  by (induction d) (simp_all add: clean_items_def case_prod_beta)

lemma sort_Nil_iff: "sort xs = [] \<longleftrightarrow> xs = []"
  by (metis length_0_conv length_sort)

text \<open>What payload validation guarantees. An accepted payload is the submitted object without null and empty-string
  entries, is not empty, has every required field of its type with a true value, and (unless the type admits arbitrary
  keys) no field outside the schema; validating it again changes nothing.\<close>

theorem validated_payload:
  assumes "validate_payload lib d ctype data = Inr p"
  shows "\<exists>items sch. data = JObj items \<and> get_schema d ctype = Inr sch \<and> p = clean_items items \<and> p \<noteq> [] \<and>
    (\<forall>k v. (k, v) \<in> set p \<longrightarrow> v \<noteq> JNull \<and> v \<noteq> JStr []) \<and>
    (\<forall>n spec. (n, spec) \<in> set (ts_vault_fields sch) \<and> fs_required spec \<longrightarrow> (\<exists>v. dict_get p n = Some v \<and> truthy v)) \<and>
    (ts_allow_arbitrary_keys sch \<or> set (map fst p) \<subseteq> set (map fst (ts_vault_fields sch))) \<and>
    validate_payload lib d ctype (JObj p) = Inr p"
proof -
  from assms obtain sch items where s: "get_schema d ctype = Inr sch" and i: "data = JObj items"
    by (auto simp: validate_payload_def split: sum.splits json.splits)
  let ?c = "clean_items items"
  from assms s i have m: "missing_fields (ts_vault_fields sch) ?c = []"
    and un: "ts_allow_arbitrary_keys sch \<or> unknown_fields (ts_vault_fields sch) ?c = []"
    and sv: "schema_violation lib sch ?c = None" and ne: "?c \<noteq> []" and p: "p = ?c"
    by (auto simp: validate_payload_def Let_def split: if_splits option.splits)
  have "validate_payload lib d ctype (JObj p) = Inr p"
    using m un sv ne by (auto simp: validate_payload_def s p clean_items_idem Let_def)
  moreover have "v \<noteq> JNull \<and> v \<noteq> JStr []" if "(k, v) \<in> set p" for k v
    using that by (auto simp: p clean_items_def)
  moreover have "\<exists>v. dict_get p n = Some v \<and> truthy v" if "(n, spec) \<in> set (ts_vault_fields sch)" "fs_required spec" for n spec
    using m that by (auto simp: missing_fields_def p filter_empty_conv split: option.splits)
  moreover have "ts_allow_arbitrary_keys sch \<or> set (map fst p) \<subseteq> set (map fst (ts_vault_fields sch))"
  proof -
    have "unknown_fields (ts_vault_fields sch) ?c = [] \<Longrightarrow> set (map fst ?c) \<subseteq> set (map fst (ts_vault_fields sch))"
      unfolding unknown_fields_def sort_Nil_iff filter_empty_conv by blast
    with un p show ?thesis by blast
  qed
  ultimately show ?thesis using s i p ne by blast
qed

text \<open>No key library can parse anything: enough for the types without an extractor.\<close>

definition no_libraries :: "unit crypto_lib" where
  "no_libraries = \<lparr>lb_load_ssh_private_key = (\<lambda>_ _. None), lb_load_pem_private_key = (\<lambda>_ _. None),
     lb_openssh_public = (\<lambda>_. None), lb_ssh_key_type = (\<lambda>_. []), lb_b64decode = (\<lambda>_. None), lb_b64encode = (\<lambda>s. s),
     lb_sha256 = (\<lambda>s. s), lb_load_pem_cert = (\<lambda>_. Some \<lparr>ci_subject = ''CN=a'', ci_issuer = ''CN=ca'', ci_serial_hex = ''01'',
       ci_not_before = 0, ci_not_after = 9, ci_fingerprint_hex = ''ab'', ci_key_type = ''rsa'', ci_public_key_pem = ''PEM'',
       ci_sans = Some [''a.example'']\<rparr>), lb_load_der_cert = (\<lambda>_. None), lb_jsonschema = None,
     lb_check_schema = (\<lambda>_. None), lb_str = (\<lambda>_. [])\<rparr>"

theorem validated_payload_witness:
  "\<exists>sch. get_schema example_db ''snmp-v3'' = Inr sch \<and>
     set (map fst [(''auth_password'', JStr ''x'')]) \<subseteq> set (map fst (ts_vault_fields sch))"
proof -
  have v: "validate_payload no_libraries example_db ''snmp-v3'' (JObj [(''auth_password'', JStr ''x''), (''priv_password'', JNull)])
      = Inr [(''auth_password'', JStr ''x'')]"
    by code_simp
  obtain sch where s: "get_schema example_db ''snmp-v3'' = Inr sch" "\<not> ts_allow_arbitrary_keys sch"
  proof (cases "get_schema example_db ''snmp-v3''")
    case (Inl e)
    moreover have "\<not> isl (get_schema example_db ''snmp-v3'')" by code_simp
    ultimately show ?thesis by simp
  next
    case (Inr sch)
    moreover have "\<not> ts_allow_arbitrary_keys (projr (get_schema example_db ''snmp-v3''))" by code_simp
    ultimately show ?thesis using that by simp
  qed
  from validated_payload [OF v] obtain sch' where "get_schema example_db ''snmp-v3'' = Inr sch'"
    "ts_allow_arbitrary_keys sch' \<or> set (map fst [(''auth_password'', JStr ''x'')]) \<subseteq> set (map fst (ts_vault_fields sch'))"
    by blast
  with s show ?thesis by (metis sum.inject(2))
qed

text \<open>Extracted metadata is public: whatever an extractor returns, only the fields the model stores in the clear are kept,
  and when the configuration says not to store public material nothing is.\<close>

theorem metadata_is_public:
  assumes "extract_metadata lib cfg d ctype p = Inr m"
  shows "set (map fst m) \<subseteq> set EXTRACTABLE_FIELDS \<and> (set_store_public_material cfg \<or> m = [])"
  using assms by (auto simp: extract_metadata_def split: if_splits sum.splits option.splits)


theorem metadata_is_public_witness:
  "\<exists>m. extract_metadata no_libraries default_settings example_db ''x509-keypair'' [(''certificate'', JStr ''PEM'')] = Inr m \<and>
     m \<noteq> [] \<and> set (map fst m) \<subseteq> set EXTRACTABLE_FIELDS"
proof -
  let ?r = "extract_metadata no_libraries default_settings example_db ''x509-keypair'' [(''certificate'', JStr ''PEM'')]"
  have "\<not> isl ?r \<and> projr ?r \<noteq> []" by code_simp
  then obtain m where m: "?r = Inr m" "m \<noteq> []" by (cases ?r) auto
  from metadata_is_public [OF m(1)] m show ?thesis by blast
qed

end
