(* ===== verification/Credential_Model.thy ===== *)
theory Credential_Model
  imports Type_Registry
begin

text \<open>
  The \<^verbatim>\<open>Credential\<close> and \<^verbatim>\<open>CredentialAssignment\<close> models: defaults, validation, path
  stamping and the writes of a row with the table's constraints. What Django's field and
  uniqueness validation reports is the parameter \<open>field_errors\<close>.
\<close>

section \<open>Credential (models/credentials.py)\<close>

definition has_staged_version :: "credential \<Rightarrow> bool" where
  "has_staged_version c = (cr_staged_kv_version c \<noteq> None)"

definition is_expired :: "int \<Rightarrow> credential \<Rightarrow> bool" where
  "is_expired now c = (case cr_valid_until c of None \<Rightarrow> False | Some t \<Rightarrow> t \<le> now)"

definition derived_path :: "openbao_settings \<Rightarrow> credential \<Rightarrow> exn + string" where
  "derived_path cfg c = path_for_prefix (cr_uuid c) (set_path_prefix cfg)"

definition apply_defaults :: "database \<Rightarrow> credential \<Rightarrow> credential" where
  "apply_defaults d c =
     (case (policy_of d c, cr_engine_id c) of
        (Some p, None) \<Rightarrow> c\<lparr>cr_engine_id := Some (pol_engine_id p)\<rparr>
      | _ \<Rightarrow> c)"

definition SSH_CREDENTIAL_TYPES :: "string list" where
  "SSH_CREDENTIAL_TYPES = [TYPE_SSH_KEYPAIR, TYPE_SSH_PASSWORD]"

definition DIRECT_SSH_FORBIDDEN_TARGETS :: "(string \<times> string) list" where
  "DIRECT_SSH_FORBIDDEN_TARGETS = [(''dcim'', ''device''), (''virtualization'', ''virtualmachine'')]"

definition forbidden_target :: "content_type option \<Rightarrow> bool" where
  "forbidden_target ct =
     (case ct of None \<Rightarrow> False | Some t \<Rightarrow> (ct_app_label t, ct_model t) \<in> set DIRECT_SSH_FORBIDDEN_TARGETS)"

definition ssh_type_with_direct_assignments :: "database \<Rightarrow> credential \<Rightarrow> bool" where
  "ssh_type_with_direct_assignments d c =
     (case cr_pk c of
        None \<Rightarrow> False
      | Some k \<Rightarrow>
          cr_credential_type c \<in> set SSH_CREDENTIAL_TYPES
          \<and> (case row (credentials d) k of None \<Rightarrow> True | Some p \<Rightarrow> cr_credential_type p \<notin> set SSH_CREDENTIAL_TYPES)
          \<and> list_ex (\<lambda>a. forbidden_target (asg_object_type a)) (assignments_of d k))"

definition credential_clean :: "database \<Rightarrow> credential \<Rightarrow> exn + credential" where
  "credential_clean d c0 =
     (let c = apply_defaults d c0
      in if cr_credential_type c \<noteq> [] \<and> \<not> is_known_credential_type d (cr_credential_type c)
         then Inl (unknown_type (cr_credential_type c))
         else if (case (policy_of d c, cr_engine_id c) of (Some p, Some e) \<Rightarrow> pol_engine_id p \<noteq> e | _ \<Rightarrow> False)
         then Inl (ValidationError ''engine'' (''Engine must match the policy'' @ [CHR 0x27] @ ''s engine (''
                @ (case Option.bind (policy_of d c) (\<lambda>p. row (engines d) (pol_engine_id p)) of
                     None \<Rightarrow> [] | Some e \<Rightarrow> eng_name e) @ '').''))
         else if (case (cr_valid_from c, cr_valid_until c) of (Some f, Some u) \<Rightarrow> u < f | _ \<Rightarrow> False)
         then Inl (ValidationError ''valid_until'' ''Validity window ends before it begins.'')
         else if ssh_type_with_direct_assignments d c
         then Inl (ValidationError ''credential_type''
                (''This credential is assigned directly to a device or virtual machine; ''
                 @ ''move it to an SSH Application Service before making it an SSH credential.''))
         else Inr c)"

definition credential_full_clean ::
  "(database \<Rightarrow> credential \<Rightarrow> exn option) \<Rightarrow> database \<Rightarrow> credential \<Rightarrow> exn + credential" where
  "credential_full_clean field_errors d c0 =
     (let c = apply_defaults d c0
      in case field_errors d c of Some e \<Rightarrow> Inl e | None \<Rightarrow> credential_clean d c)"

text \<open>The table's constraints: the unique UUID, one credential per (engine, path), one per
  non-blank import source, and the two required foreign keys.\<close>

definition credential_row_ok :: "database \<Rightarrow> nat option \<Rightarrow> credential \<Rightarrow> bool" where
  "credential_row_ok d self c =
     (cr_policy_id c \<noteq> None \<and> cr_engine_id c \<noteq> None \<and>
      list_all (\<lambda>(k, r). Some k = self \<or>
        (cr_uuid r \<noteq> cr_uuid c \<and>
         \<not> (cr_engine_id r = cr_engine_id c \<and> cr_path r = cr_path c) \<and>
         (cr_import_source c = [] \<or> cr_import_source r \<noteq> cr_import_source c))) (credentials d))"

definition write_row :: "nat \<Rightarrow> credential \<Rightarrow> database \<Rightarrow> database" where
  "write_row k c d = d\<lparr>credentials := put_row k c (credentials d)\<rparr>"

text \<open>\<open>Credential.save\<close>: an insert stamps the path once, from the locked settings row when there
  is one and from the configuration snapshot otherwise; an update never touches the path
  beyond what the instance carries.\<close>

definition credential_save :: "openbao_settings \<Rightarrow> int \<Rightarrow> credential \<Rightarrow> database \<Rightarrow> (exn + credential) \<times> database" where
  "credential_save cfg now c0 d =
     (let c = apply_defaults d c0
      in case cr_pk c of
           Some k \<Rightarrow>
             if credential_row_ok d (Some k) c then (Inr c, write_row k c d) else (Inl IntegrityError, d)
         | None \<Rightarrow>
             (let prefix = (case settings_row d of Some r \<Rightarrow> set_path_prefix r | None \<Rightarrow> set_path_prefix cfg)
              in case (if cr_path c = [] then path_for_prefix (cr_uuid c) prefix else Inr (cr_path c)) of
                   Inl e \<Rightarrow> (Inl e, d)
                 | Inr p \<Rightarrow>
                     (let k = next_id d; saved = c\<lparr>cr_pk := Some k, cr_path := p, cr_created := Some now\<rparr>
                      in if credential_row_ok d None saved
                         then (Inr saved, (write_row k saved d)\<lparr>next_id := Suc k\<rparr>)
                         else (Inl IntegrityError, d))))"

definition copy_field :: "string \<Rightarrow> credential \<Rightarrow> credential \<Rightarrow> credential" where
  "copy_field n src dst =
     (if n = ''kv_version'' then dst\<lparr>cr_kv_version := cr_kv_version src\<rparr>
      else if n = ''live_kv_version'' then dst\<lparr>cr_live_kv_version := cr_live_kv_version src\<rparr>
      else if n = ''staged_kv_version'' then dst\<lparr>cr_staged_kv_version := cr_staged_kv_version src\<rparr>
      else if n = ''live_key_fingerprint'' then dst\<lparr>cr_live_key_fingerprint := cr_live_key_fingerprint src\<rparr>
      else if n = ''live_key_version'' then dst\<lparr>cr_live_key_version := cr_live_key_version src\<rparr>
      else if n = ''staged_key_fingerprint'' then dst\<lparr>cr_staged_key_fingerprint := cr_staged_key_fingerprint src\<rparr>
      else if n = ''staged_key_version'' then dst\<lparr>cr_staged_key_version := cr_staged_key_version src\<rparr>
      else if n = ''last_verified'' then dst\<lparr>cr_last_verified := cr_last_verified src\<rparr>
      else if n = ''last_rotated'' then dst\<lparr>cr_last_rotated := cr_last_rotated src\<rparr>
      else if n = ''status'' then dst\<lparr>cr_status := cr_status src\<rparr>
      else dst)"

text \<open>\<open>save(update_fields=...)\<close>: only the named columns of the stored row change; a row that is
  gone is a database error.\<close>

definition credential_save_fields :: "string list \<Rightarrow> credential \<Rightarrow> database \<Rightarrow> (exn + unit) \<times> database" where
  "credential_save_fields names c d =
     (case cr_pk c of
        None \<Rightarrow> (Inl (PythonError ''DatabaseError''), d)
      | Some k \<Rightarrow>
          (case row (credentials d) k of
             None \<Rightarrow> (Inl (PythonError ''DatabaseError''), d)
           | Some r \<Rightarrow> (Inr (), write_row k (fold (\<lambda>n acc. copy_field n c acc) names r) d)))"

definition set_metadata_field :: "string \<times> meta_value \<Rightarrow> credential \<Rightarrow> credential" where
  "set_metadata_field kv c =
     (case kv of
        (k, MStr s) \<Rightarrow>
          if k = ''public_key'' then c\<lparr>cr_public_key := s\<rparr>
          else if k = ''fingerprint'' then c\<lparr>cr_fingerprint := s\<rparr>
          else if k = ''key_type'' then c\<lparr>cr_key_type := s\<rparr>
          else if k = ''cert_serial'' then c\<lparr>cr_cert_serial := s\<rparr>
          else if k = ''cert_subject'' then c\<lparr>cr_cert_subject := s\<rparr>
          else if k = ''cert_issuer'' then c\<lparr>cr_cert_issuer := s\<rparr>
          else c
      | (k, MTime t) \<Rightarrow>
          if k = ''valid_from'' then c\<lparr>cr_valid_from := Some t\<rparr>
          else if k = ''valid_until'' then c\<lparr>cr_valid_until := Some t\<rparr>
          else c
      | (k, MStrs _) \<Rightarrow> c)"

definition set_metadata :: "metadata \<Rightarrow> credential \<Rightarrow> credential" where
  "set_metadata m c = fold set_metadata_field m c"

section \<open>CredentialAssignment (models/assignments.py)\<close>

definition is_new_direct_ssh_binding :: "database \<Rightarrow> credential_assignment \<Rightarrow> bool" where
  "is_new_direct_ssh_binding d a =
     (case (asg_object_type a, asg_credential_id a) of
        (Some t, Some cid) \<Rightarrow>
          (case row (credentials d) cid of
             None \<Rightarrow> False
           | Some c \<Rightarrow>
               cr_credential_type c \<in> set SSH_CREDENTIAL_TYPES \<and> forbidden_target (Some t) \<and>
               (case asg_pk a of
                  None \<Rightarrow> True
                | Some k \<Rightarrow>
                    (case row (assignments d) k of
                       None \<Rightarrow> True
                     | Some p \<Rightarrow> (asg_credential_id p, asg_object_type p, asg_object_id p)
                                 \<noteq> (asg_credential_id a, asg_object_type a, asg_object_id a))))
      | _ \<Rightarrow> False)"

definition assignment_clean ::
  "openbao_settings \<Rightarrow> label_registry \<Rightarrow> database \<Rightarrow> credential_assignment \<Rightarrow> exn + unit" where
  "assignment_clean cfg rg d a =
     (case asg_object_type a of
        Some t \<Rightarrow>
          (let label = ct_app_label t @ ''.'' @ ct_model t; permitted = assignable_model_labels cfg rg
           in if label \<notin> set permitted
              then Inl (ValidationError ''assigned_object_type'' (''Credentials may not be assigned to '' @ label
                     @ ''. Permitted types: '' @ str_or (join_with '', '' permitted) ''none configured'' @ ''.''))
              else if is_new_direct_ssh_binding d a
              then Inl (ValidationError [] (''SSH credentials must be assigned to an SSH Application Service, ''
                     @ ''not directly to a device or virtual machine.''))
              else Inr ())
      | None \<Rightarrow> Inr ())"

section \<open>Lemmas\<close>

lemma row_write_row [simp]:
  "row (credentials (write_row k c d)) j = (if j = k then Some c else row (credentials d) j)"
  by (simp add: write_row_def)

lemma write_row_tables [simp]:
  "policies (write_row k c d) = policies d" "engines (write_row k c d) = engines d"
  "assignments (write_row k c d) = assignments d" "access_log (write_row k c d) = access_log d"
  "settings_row (write_row k c d) = settings_row d" "type_schemas (write_row k c d) = type_schemas d"
  "auth_materials (write_row k c d) = auth_materials d" "receipts (write_row k c d) = receipts d"
  "users (write_row k c d) = users d" "app_services (write_row k c d) = app_services d"
  "next_id (write_row k c d) = next_id d"
  by (simp_all add: write_row_def)

text \<open>Only the ten version-state columns can change through \<open>save(update_fields)\<close>.\<close>

lemma copy_field_frame [simp]:
  "cr_pk (copy_field n s c) = cr_pk c" "cr_uuid (copy_field n s c) = cr_uuid c"
  "cr_path (copy_field n s c) = cr_path c" "cr_policy_id (copy_field n s c) = cr_policy_id c"
  "cr_engine_id (copy_field n s c) = cr_engine_id c" "cr_name (copy_field n s c) = cr_name c"
  "cr_credential_type (copy_field n s c) = cr_credential_type c"
  by (simp_all add: copy_field_def)

lemma fold_copy_field_frame [simp]:
  "cr_pk (fold (\<lambda>n. copy_field n s) ns c) = cr_pk c" "cr_uuid (fold (\<lambda>n. copy_field n s) ns c) = cr_uuid c"
  "cr_path (fold (\<lambda>n. copy_field n s) ns c) = cr_path c"
  "cr_policy_id (fold (\<lambda>n. copy_field n s) ns c) = cr_policy_id c"
  "cr_engine_id (fold (\<lambda>n. copy_field n s) ns c) = cr_engine_id c"
  "cr_name (fold (\<lambda>n. copy_field n s) ns c) = cr_name c"
  "cr_credential_type (fold (\<lambda>n. copy_field n s) ns c) = cr_credential_type c"
  by (induction ns arbitrary: c) simp_all

lemma set_metadata_field_frame [simp]:
  "cr_pk (set_metadata_field kv c) = cr_pk c" "cr_uuid (set_metadata_field kv c) = cr_uuid c"
  "cr_path (set_metadata_field kv c) = cr_path c" "cr_policy_id (set_metadata_field kv c) = cr_policy_id c"
  "cr_engine_id (set_metadata_field kv c) = cr_engine_id c" "cr_name (set_metadata_field kv c) = cr_name c"
  "cr_credential_type (set_metadata_field kv c) = cr_credential_type c"
  "cr_kv_version (set_metadata_field kv c) = cr_kv_version c"
  "cr_live_kv_version (set_metadata_field kv c) = cr_live_kv_version c"
  "cr_staged_kv_version (set_metadata_field kv c) = cr_staged_kv_version c"
  "cr_live_key_fingerprint (set_metadata_field kv c) = cr_live_key_fingerprint c"
  "cr_live_key_version (set_metadata_field kv c) = cr_live_key_version c"
  "cr_staged_key_fingerprint (set_metadata_field kv c) = cr_staged_key_fingerprint c"
  "cr_staged_key_version (set_metadata_field kv c) = cr_staged_key_version c"
  "cr_status (set_metadata_field kv c) = cr_status c"
  by (simp_all add: set_metadata_field_def split: prod.splits meta_value.splits)

lemma set_metadata_frame [simp]:
  "cr_pk (set_metadata m c) = cr_pk c" "cr_uuid (set_metadata m c) = cr_uuid c"
  "cr_path (set_metadata m c) = cr_path c" "cr_policy_id (set_metadata m c) = cr_policy_id c"
  "cr_engine_id (set_metadata m c) = cr_engine_id c" "cr_name (set_metadata m c) = cr_name c"
  "cr_credential_type (set_metadata m c) = cr_credential_type c"
  "cr_kv_version (set_metadata m c) = cr_kv_version c"
  "cr_live_kv_version (set_metadata m c) = cr_live_kv_version c"
  "cr_staged_kv_version (set_metadata m c) = cr_staged_kv_version c"
  "cr_live_key_fingerprint (set_metadata m c) = cr_live_key_fingerprint c"
  "cr_live_key_version (set_metadata m c) = cr_live_key_version c"
  "cr_staged_key_fingerprint (set_metadata m c) = cr_staged_key_fingerprint c"
  "cr_staged_key_version (set_metadata m c) = cr_staged_key_version c"
  "cr_status (set_metadata m c) = cr_status c"
  unfolding set_metadata_def by (induction m arbitrary: c) simp_all

lemma apply_defaults_frame [simp]:
  "cr_pk (apply_defaults d c) = cr_pk c" "cr_uuid (apply_defaults d c) = cr_uuid c"
  "cr_path (apply_defaults d c) = cr_path c" "cr_policy_id (apply_defaults d c) = cr_policy_id c"
  "cr_name (apply_defaults d c) = cr_name c"
  "cr_credential_type (apply_defaults d c) = cr_credential_type c"
  "cr_kv_version (apply_defaults d c) = cr_kv_version c"
  "cr_live_kv_version (apply_defaults d c) = cr_live_kv_version c"
  "cr_staged_kv_version (apply_defaults d c) = cr_staged_kv_version c"
  "cr_live_key_fingerprint (apply_defaults d c) = cr_live_key_fingerprint c"
  "cr_live_key_version (apply_defaults d c) = cr_live_key_version c"
  "cr_staged_key_fingerprint (apply_defaults d c) = cr_staged_key_fingerprint c"
  "cr_staged_key_version (apply_defaults d c) = cr_staged_key_version c"
  "cr_status (apply_defaults d c) = cr_status c"
  by (simp_all add: apply_defaults_def split: option.splits)

section \<open>Table constraints\<close>

text \<open>The uniqueness constraints of the credential table and its required foreign keys.\<close>

definition conflicting :: "credential \<Rightarrow> credential \<Rightarrow> bool" where
  "conflicting a b =
     (cr_uuid a = cr_uuid b \<or> cr_engine_id a = cr_engine_id b \<and> cr_path a = cr_path b \<or>
      cr_import_source a \<noteq> [] \<and> cr_import_source a = cr_import_source b)"

definition credential_table_ok :: "database \<Rightarrow> bool" where
  "credential_table_ok d =
     ((\<forall>k c. row (credentials d) k = Some c \<longrightarrow> k < next_id d \<and> cr_policy_id c \<noteq> None \<and> cr_engine_id c \<noteq> None) \<and>
      (\<forall>j k a b. row (credentials d) j = Some a \<longrightarrow> row (credentials d) k = Some b \<longrightarrow> conflicting a b \<longrightarrow> j = k))"

lemma conflicting_sym: "conflicting a b \<Longrightarrow> conflicting b a"
  by (auto simp: conflicting_def)

lemma row_ok_no_conflict:
  assumes "credential_row_ok d self c" and "row (credentials d) k = Some r" and "Some k \<noteq> self"
  shows "\<not> conflicting c r"
  using assms row_SomeD [OF assms(2)] by (fastforce simp: credential_row_ok_def list_all_iff conflicting_def)

text \<open>C13: The credential table keeps its constraints: unique identifiers, one credential per engine and path, one per import
  source, and both foreign keys present; every save, accepted or refused, insert or update, preserves them, an update
  keeps the other rows, and a new row without a path gets the one its prefix derives.\<close>

theorem credential_save_invariant:
  assumes ok: "credential_table_ok d" and known: "\<And>k. cr_pk c = Some k \<Longrightarrow> k < next_id d"
    and run: "credential_save cfg now c d = (r, d')"
  shows "credential_table_ok d' \<and>
    (\<forall>saved. r = Inr saved \<longrightarrow> (\<exists>k. cr_pk saved = Some k \<and> row (credentials d') k = Some saved \<and>
       (\<forall>j. j \<noteq> k \<longrightarrow> row (credentials d') j = row (credentials d) j) \<and>
       (cr_pk c = None \<and> cr_path c = [] \<longrightarrow>
          path_for_prefix (cr_uuid c) (set_path_prefix (case settings_row d of None \<Rightarrow> cfg | Some s \<Rightarrow> s)) = Inr (cr_path saved))))"
proof -
  have put: "credential_table_ok (write_row k c' d\<lparr>next_id := n\<rparr>)"
    if "credential_row_ok d self c'" "self = Some k \<or> self = None \<and> row (credentials d) k = None" "k < n" "next_id d \<le> n" for k c' self n
    using ok that row_ok_no_conflict [OF that(1)] conflicting_sym
    unfolding credential_table_ok_def
    by (auto simp: credential_row_ok_def split: if_splits) (fastforce intro: less_le_trans)+
  show ?thesis
  proof (cases "cr_pk c")
    case (Some k)
    have same: "write_row k c' d\<lparr>next_id := next_id d\<rparr> = write_row k c' d" for c' by (simp add: write_row_def)
    from Some show ?thesis
      using run ok put [of "Some k" "apply_defaults d c" k "next_id d"] known [OF Some] same
      by (auto simp: credential_save_def Let_def split: if_splits)
  next
    case None
    have new: "row (credentials d) (next_id d) = None"
      using ok by (cases "row (credentials d) (next_id d)") (auto simp: credential_table_ok_def)
    show ?thesis
    proof (cases r)
      case (Inl e)
      with run None ok show ?thesis by (auto simp: credential_save_def Let_def split: if_splits sum.splits)
    next
      case (Inr saved)
      with run None obtain p where
        p: "(if cr_path c = [] then path_for_prefix (cr_uuid c) (set_path_prefix (case settings_row d of None \<Rightarrow> cfg | Some s \<Rightarrow> s))
             else Inr (cr_path c)) = Inr p"
        and s: "saved = (apply_defaults d c)\<lparr>cr_pk := Some (next_id d), cr_path := p, cr_created := Some now\<rparr>"
        and rk: "credential_row_ok d None saved" and d': "d' = (write_row (next_id d) saved d)\<lparr>next_id := Suc (next_id d)\<rparr>"
        by (auto simp: credential_save_def Let_def split: if_splits sum.splits option.splits)
      show ?thesis
        using put [OF rk] new p by (auto simp: Inr s d' None split: if_splits)
    qed
  qed
qed


theorem credential_save_invariant_witness:
  "credential_table_ok (snd (credential_save default_settings 7 (example_credential\<lparr>cr_name := ''renamed''\<rparr>) example_db))"
proof -
  let ?r = "credential_save default_settings 7 (example_credential\<lparr>cr_name := ''renamed''\<rparr>) example_db"
  have "credential_table_ok example_db"
    by (auto simp: credential_table_ok_def example_db_def row_def example_credential_def split: if_splits)
  from credential_save_invariant [OF this _ prod.collapse [of ?r, symmetric]] show ?thesis
    by (auto simp: example_db_def example_credential_def)
qed

lemma rows_put_row: "set (rows (put_row k r t)) \<subseteq> insert r (set (rows t))"
proof -
  have "set (AList.update k r t) \<subseteq> insert (k, r) (set t)" by (induction t) auto
  then show ?thesis by (force simp: rows_def put_row_def)
qed

text \<open>No SSH credential is bound directly to a device or a virtual machine.\<close>

definition no_direct_ssh :: "database \<Rightarrow> bool" where
  "no_direct_ssh d =
     list_all (\<lambda>a. \<not> (forbidden_target (asg_object_type a) \<and>
       (case Option.bind (asg_credential_id a) (row (credentials d)) of
          None \<Rightarrow> False | Some c \<Rightarrow> cr_credential_type c \<in> set SSH_CREDENTIAL_TYPES))) (rows (assignments d))"

text \<open>Every assignment names a credential that exists.\<close>

definition assignments_linked :: "database \<Rightarrow> bool" where
  "assignments_linked d =
     list_all (\<lambda>a. case asg_credential_id a of None \<Rightarrow> True | Some k \<Rightarrow> row (credentials d) k \<noteq> None) (rows (assignments d))"

lemma credential_clean_type:
  "credential_clean d c0 = Inr c \<Longrightarrow> cr_credential_type c = cr_credential_type c0 \<and> cr_pk c = cr_pk c0 \<and>
     \<not> ssh_type_with_direct_assignments d c"
  by (auto simp: credential_clean_def Let_def split: if_splits)

lemma credential_save_row:
  assumes "credential_save cfg now c d = (Inr saved, d')"
  obtains k where "cr_pk saved = Some k" "cr_credential_type saved = cr_credential_type c"
    "\<And>j. row (credentials d') j = (if j = k then Some saved else row (credentials d) j)"
    "assignments d' = assignments d" "k = (case cr_pk c of None \<Rightarrow> next_id d | Some i \<Rightarrow> i)"
  using assms by (auto simp: credential_save_def Let_def split: if_splits option.splits sum.splits)

text \<open>C20: SSH credentials never end up bound directly to a device or virtual machine. From a database where none is, saving a
  credential that passed validation (a type change included) and storing an assignment that passed validation both
  lead to a database where none is.\<close>

theorem no_direct_ssh_invariant:
  assumes inv: "no_direct_ssh d" and linked: "assignments_linked d"
    and new: "row (credentials d) (next_id d) = None"
  shows "(credential_clean d c0 = Inr c \<and> credential_save cfg now c d = (Inr saved, d') \<longrightarrow> no_direct_ssh d') \<and>
    (assignment_clean cfg rg d a = Inr () \<and> asg_pk a \<in> {None, Some k} \<longrightarrow>
       no_direct_ssh (d\<lparr>assignments := put_row k a (assignments d)\<rparr>))"
proof (intro conjI impI, goal_cases)
  case 1
  then obtain k where k: "cr_credential_type saved = cr_credential_type c"
    "\<And>j. row (credentials d') j = (if j = k then Some saved else row (credentials d) j)"
    "assignments d' = assignments d" "k = (case cr_pk c of None \<Rightarrow> next_id d | Some i \<Rightarrow> i)"
    by (blast elim: credential_save_row)
  from 1 have cl: "\<not> ssh_type_with_direct_assignments d c" using credential_clean_type by blast
  have "\<not> (forbidden_target (asg_object_type a) \<and> asg_credential_id a = Some k \<and> cr_credential_type c \<in> set SSH_CREDENTIAL_TYPES)"
    if a: "a \<in> set (rows (assignments d))" for a
  proof (cases "asg_credential_id a = Some k")
    case True
    with linked a have ex: "row (credentials d) k \<noteq> None" by (auto simp: assignments_linked_def list_all_iff)
    with new k(4) have pk: "cr_pk c = Some k" by (auto split: option.splits)
    show ?thesis
      using cl inv a True pk ex
      by (auto simp: ssh_type_with_direct_assignments_def no_direct_ssh_def list_all_iff list_ex_iff assignments_of_def
          split: option.splits)
  qed simp
  with inv k(1-3) show ?case
    by (auto simp: no_direct_ssh_def list_all_iff split: option.splits if_splits bind_splits)
next
  case 2
  have ok: "\<not> is_new_direct_ssh_binding d a" if "asg_object_type a = Some t" for t
    using 2 that by (auto simp: assignment_clean_def Let_def split: if_splits)
  have "\<not> (forbidden_target (asg_object_type a) \<and> (case Option.bind (asg_credential_id a) (row (credentials d)) of
          None \<Rightarrow> False | Some c \<Rightarrow> cr_credential_type c \<in> set SSH_CREDENTIAL_TYPES))"
  proof
    assume bad: "forbidden_target (asg_object_type a) \<and> (case Option.bind (asg_credential_id a) (row (credentials d)) of
          None \<Rightarrow> False | Some c \<Rightarrow> cr_credential_type c \<in> set SSH_CREDENTIAL_TYPES)"
    then obtain t i c where t: "asg_object_type a = Some t" "asg_credential_id a = Some i" "row (credentials d) i = Some c"
      "cr_credential_type c \<in> set SSH_CREDENTIAL_TYPES"
      by (auto simp: forbidden_target_def split: option.splits bind_splits)
    with ok [OF t(1)] bad obtain p where "p \<in> set (rows (assignments d))"
      "asg_object_type p = asg_object_type a" "asg_credential_id p = asg_credential_id a"
      by (auto simp: is_new_direct_ssh_binding_def rows_def dest!: row_SomeD split: option.splits)
        (metis image_eqI snd_conv)
    with bad inv show False by (auto simp: no_direct_ssh_def list_all_iff)
  qed
  with inv rows_put_row [of k a "assignments d"] show ?case
    unfolding no_direct_ssh_def list_all_iff by auto
qed


theorem no_direct_ssh_invariant_witness:
  "no_direct_ssh (snd (credential_save default_settings 7 (example_credential\<lparr>cr_credential_type := ''ssh-keypair''\<rparr>) example_db))"
proof -
  let ?c = "example_credential\<lparr>cr_credential_type := ''ssh-keypair''\<rparr>"
  let ?r = "credential_save default_settings 7 ?c example_db"
  have inv: "no_direct_ssh example_db" "assignments_linked example_db" "row (credentials example_db) (next_id example_db) = None"
    by (simp_all add: no_direct_ssh_def assignments_linked_def example_db_def rows_def row_def)
  have cl: "credential_clean example_db ?c = Inr ?c" by code_simp
  have "\<not> isl (fst ?r)" by code_simp
  then have r: "?r = (Inr (projr (fst ?r)), snd ?r)" by (cases ?r; cases "fst ?r") simp_all
  from no_direct_ssh_invariant [OF inv, THEN conjunct1, rule_format, OF conjI [OF cl r]] show ?thesis .
qed

end
