(* ===== verification/Backend_Contract.thy ===== *)
theory Backend_Contract
  imports Models
begin

text \<open>
  The backend contract of \<^verbatim>\<open>backends/base.py\<close>. \<open>secret_backend\<close> is the abstract class: the
  operations of one backend, over an environment state \<open>'x\<close> (the secret store, token cache
  and connection pools) and a handle \<open>'b\<close> for the backend object. \<open>secret_store\<close> is the
  contract its docstrings state, over an abstract view of the key/value store: what each
  operation promises about the versions at a path. Everything above the backends is proved
  from these laws only.
\<close>

section \<open>The operations\<close>

text \<open>What an operation reads of the database and of the configuration: the stored
  identities (a rotated identity is picked up before it is used), the fallback token
  lifetime, and the time.\<close>

record backend_ctx =
  bc_auth :: auth_tbl
  bc_token_cache_ttl :: "int option"
  bc_now :: int

record version_info =
  vi_version :: nat
  vi_created_time :: "string option"
  vi_deletion_time :: "string option"
  vi_destroyed :: bool

record kv_metadata =
  km_current_version :: "nat option"
  km_custom_metadata :: "(string \<times> string) list"

record health_result =
  hr_status :: engine_status
  hr_message :: string

record ('x, 'b) secret_backend =
  b_new :: "secret_engine \<Rightarrow> engine_auth_material option \<Rightarrow> 'x \<Rightarrow> 'b \<times> 'x"
  b_read :: "backend_ctx \<Rightarrow> 'b \<Rightarrow> string \<Rightarrow> nat option \<Rightarrow> ('x, exn, json) sem"
  b_write :: "backend_ctx \<Rightarrow> 'b \<Rightarrow> string \<Rightarrow> payload \<Rightarrow> nat option \<Rightarrow> ('x, exn, nat) sem"
  b_delete :: "backend_ctx \<Rightarrow> 'b \<Rightarrow> string \<Rightarrow> nat list option \<Rightarrow> ('x, exn, unit) sem"
  b_list_versions :: "backend_ctx \<Rightarrow> 'b \<Rightarrow> string \<Rightarrow> ('x, exn, version_info list) sem"
  b_read_metadata :: "backend_ctx \<Rightarrow> 'b \<Rightarrow> string \<Rightarrow> ('x, exn, kv_metadata) sem"
  b_set_metadata :: "backend_ctx \<Rightarrow> 'b \<Rightarrow> string \<Rightarrow> (string \<times> string) list \<Rightarrow> ('x, exn, unit) sem"
  b_health :: "backend_ctx \<Rightarrow> 'b \<Rightarrow> ('x, exn, health_result) sem"

text \<open>\<open>refresh_auth_material\<close>: whether the stored identity was rotated or removed since this
  object read it, and the identity to use now.\<close>

definition refresh_auth_material ::
  "auth_tbl \<Rightarrow> engine_auth_material option \<Rightarrow> bool \<times> engine_auth_material option" where
  "refresh_auth_material t material =
     (case material of
        None \<Rightarrow> (False, None)
      | Some m \<Rightarrow>
          (case am_pk m of
             None \<Rightarrow> (False, Some m)
           | Some k \<Rightarrow>
               (case row t k of
                  None \<Rightarrow> (True, None)
                | Some r \<Rightarrow> if am_revision r = am_revision m then (False, Some m) else (True, Some r))))"

section \<open>The contract\<close>

text \<open>The versions at one path: the highest number ever issued there, and the payload of
  each version that can still be read.\<close>

record kv_entry =
  kv_current :: nat
  kv_data :: "nat \<rightharpoonup> payload"

type_synonym kv_view = "string \<rightharpoonup> kv_entry"

definition current_of :: "kv_entry option \<Rightarrow> nat" where
  "current_of e = (case e of None \<Rightarrow> 0 | Some v \<Rightarrow> kv_current v)"

definition data_of :: "kv_entry option \<Rightarrow> nat \<rightharpoonup> payload" where
  "data_of e = (case e of None \<Rightarrow> Map.empty | Some v \<Rightarrow> kv_data v)"

text \<open>
  \<open>target e\<close> is the mount that the handles of engine \<open>e\<close> address (\<open>None\<close>: not a versioned store),
  \<open>loc b x\<close> the mount of handle \<open>b\<close> in environment \<open>x\<close>, \<open>store x l\<close> what that mount holds, and
  \<open>retain\<close> the number of versions a path keeps: a write may drop versions that fall out of that
  window, and no other. An operation that raises may still have been applied at its own path;
  it never touches another.
\<close>

text \<open>Whether a listed version is still there: not destroyed and not deleted. A dict built from
  the list keeps the last entry of a number.\<close>

definition version_present :: "version_info list \<Rightarrow> nat option \<Rightarrow> bool" where
  "version_present vs staged =
     (case staged of
        None \<Rightarrow> False
      | Some k \<Rightarrow>
          (case List.find (\<lambda>v. vi_version v = k) (rev vs) of
             None \<Rightarrow> False
           | Some v \<Rightarrow> \<not> vi_destroyed v \<and> (case vi_deletion_time v of None \<Rightarrow> True | Some t \<Rightarrow> t = [])))"

locale secret_store =
  fixes bk :: "('x, 'b) secret_backend"
    and target :: "secret_engine \<Rightarrow> 'l option"
    and loc :: "'b \<Rightarrow> 'x \<Rightarrow> 'l option"
    and store :: "'x \<Rightarrow> 'l \<Rightarrow> kv_view"
    and retain :: nat
  assumes new_target: "b_new bk eng am x = (b, x') \<Longrightarrow> loc b x' = target eng"
    and new_loc: "b_new bk eng am x = (b, x') \<Longrightarrow> loc b' x = Some l' \<Longrightarrow> loc b' x' = Some l'"
    and new_store: "b_new bk eng am x = (b, x') \<Longrightarrow> store x' = store x"
    and read_loc: "loc b x = Some l \<Longrightarrow> b_read bk c b p v x = (r, x') \<Longrightarrow> loc b' x = Some l' \<Longrightarrow> loc b' x' = Some l'"
    and read_store: "loc b x = Some l \<Longrightarrow> b_read bk c b p v x = (r, x') \<Longrightarrow> store x' = store x"
    and read_value: "loc b x = Some l \<Longrightarrow> b_read bk c b p v x = (Inr j, x') \<Longrightarrow>
          \<exists>d. j = JObj d \<and>
            data_of (store x l p) (case v of None \<Rightarrow> current_of (store x l p) | Some k \<Rightarrow> k) = Some d"
    and write_loc: "loc b x = Some l \<Longrightarrow> b_write bk c b p d cas x = (rw, x') \<Longrightarrow> loc b' x = Some l' \<Longrightarrow> loc b' x' = Some l'"
    and write_version: "loc b x = Some l \<Longrightarrow> b_write bk c b p d cas x = (Inr n, x') \<Longrightarrow> n = Suc (current_of (store x l p))"
    and write_cas: "loc b x = Some l \<Longrightarrow> b_write bk c b p d (Some k) x = (Inr n, x') \<Longrightarrow> current_of (store x l p) = k"
    and write_current: "loc b x = Some l \<Longrightarrow> b_write bk c b p d cas x = (Inr n, x') \<Longrightarrow> current_of (store x' l p) = n"
    and write_data: "loc b x = Some l \<Longrightarrow> b_write bk c b p d cas x = (Inr n, x') \<Longrightarrow> data_of (store x' l p) n = Some d"
    and write_cases: "loc b x = Some l \<Longrightarrow> b_write bk c b p d cas x = (rw, x') \<Longrightarrow>
          (\<forall>n. rw \<noteq> Inr n) \<and> store x' l p = store x l p \<or>
          current_of (store x' l p) = Suc (current_of (store x l p)) \<and>
          (\<forall>m. m \<le> current_of (store x l p) \<longrightarrow> Suc (current_of (store x l p)) < m + retain \<longrightarrow>
            data_of (store x' l p) m = data_of (store x l p) m)"
    and write_drops: "loc b x = Some l \<Longrightarrow> b_write bk c b p d cas x = (Inr n, x') \<Longrightarrow> m \<noteq> n \<Longrightarrow>
          data_of (store x' l p) m = Some e \<Longrightarrow> data_of (store x l p) m = Some e"
    and write_frame: "loc b x = Some l \<Longrightarrow> b_write bk c b p d cas x = (rw, x') \<Longrightarrow> (l', q) \<noteq> (l, p) \<Longrightarrow>
          store x' l' q = store x l' q"
    and delete_loc: "loc b x = Some l \<Longrightarrow> b_delete bk c b p w x = (rd, x') \<Longrightarrow> loc b' x = Some l' \<Longrightarrow> loc b' x' = Some l'"
    and delete_versions: "loc b x = Some l \<Longrightarrow> b_delete bk c b p (Some vs) x = (Inr u, x') \<Longrightarrow> vs \<noteq> [] \<Longrightarrow>
          data_of (store x' l p) = (\<lambda>m. if m \<in> set vs then None else data_of (store x l p) m)"
    and delete_current: "loc b x = Some l \<Longrightarrow> b_delete bk c b p (Some vs) x = (rd, x') \<Longrightarrow> vs \<noteq> [] \<Longrightarrow>
          current_of (store x' l p) = current_of (store x l p)"
    and delete_only: "loc b x = Some l \<Longrightarrow> b_delete bk c b p (Some vs) x = (rd, x') \<Longrightarrow> m \<notin> set vs \<Longrightarrow> vs \<noteq> [] \<Longrightarrow>
          data_of (store x' l p) m = data_of (store x l p) m"
    and delete_all: "loc b x = Some l \<Longrightarrow> b_delete bk c b p None x = (Inr u, x') \<Longrightarrow> data_of (store x' l p) = Map.empty"
    and delete_frame: "loc b x = Some l \<Longrightarrow> b_delete bk c b p w x = (rd, x') \<Longrightarrow> (l', q) \<noteq> (l, p) \<Longrightarrow>
          store x' l' q = store x l' q"
    and list_loc: "loc b x = Some l \<Longrightarrow> b_list_versions bk c b p x = (rl, x') \<Longrightarrow> loc b' x = Some l' \<Longrightarrow> loc b' x' = Some l'"
    and list_store: "loc b x = Some l \<Longrightarrow> b_list_versions bk c b p x = (rl, x') \<Longrightarrow> store x' = store x"
    and list_present: "loc b x = Some l \<Longrightarrow> b_list_versions bk c b p x = (Inr infos, x') \<Longrightarrow>
          version_present infos (Some m) \<Longrightarrow> data_of (store x l p) m \<noteq> None"
    and meta_loc: "loc b x = Some l \<Longrightarrow> b_set_metadata bk c b p md x = (rd, x') \<Longrightarrow> loc b' x = Some l' \<Longrightarrow> loc b' x' = Some l'"
    and meta_data: "loc b x = Some l \<Longrightarrow> b_set_metadata bk c b p md x = (rd, x') \<Longrightarrow>
          data_of (store x' l' q) = data_of (store x l' q)"
    and meta_current: "loc b x = Some l \<Longrightarrow> b_set_metadata bk c b p md x = (rd, x') \<Longrightarrow>
          current_of (store x' l' q) = current_of (store x l' q)"
begin

text \<open>A write followed by the deletion of exactly the version it made: no version inside the
  retention window changes, nothing becomes readable, and the counter has moved on.\<close>

lemma write_then_delete_data:
  assumes l: "loc b x = Some l" and w: "b_write bk c b p d cas x = (Inr n, x1)"
    and dl: "b_delete bk c' b p (Some [n]) x1 = (Inr u, x2)" and "n < m + retain" and "m \<le> n"
  shows "data_of (store x2 l p) m = (if m = n then None else data_of (store x l p) m)"
  using delete_versions [OF write_loc [OF l w l] dl] write_cases [OF l w] write_version [OF l w] assms(4,5)
  by (auto simp: le_Suc_eq)

lemma write_then_delete_current:
  assumes l: "loc b x = Some l" and w: "b_write bk c b p d cas x = (Inr n, x1)"
    and dl: "b_delete bk c' b p (Some [n]) x1 = (Inr u, x2)"
  shows "current_of (store x2 l p) = n"
  using delete_current [OF write_loc [OF l w l] dl] write_current [OF l w] by simp

text \<open>A version written is the one read back, until it is deleted.\<close>

lemma read_back:
  assumes l: "loc b x = Some l" and w: "b_write bk c b p d cas x = (Inr n, x1)"
    and r: "b_read bk c' b p (Some n) x1 = (Inr j, x2)"
  shows "j = JObj d"
  using write_data [OF l w] read_value [OF write_loc [OF l w l] r] by auto

text \<open>A check-and-set write of a version the path has moved past does not succeed.\<close>

lemma stale_cas_refused:
  assumes "loc b x = Some l" and "current_of (store x l p) \<noteq> k"
  shows "fst (b_write bk c b p d (Some k) x) \<noteq> Inr n"
  using assms write_cas by (metis prod.collapse)

end

end
