(* ===== verification/Material_Transactions.thy ===== *)
theory Material_Transactions
  imports Credential_Model Backend_Contract
begin

text \<open>
  Ownership of the final commit (\<^verbatim>\<open>material_transactions.py\<close>). The state \<open>sys\<close> of one
  request is the database as its connection sees it, the environment \<open>'x\<close> of the secret
  backends, the current owner, and Django's transaction state: whether autocommit is on, what a
  rollback restores and the callbacks registered with \<^verbatim>\<open>transaction.on_commit\<close>.

  What the code cannot decide is given by the environment \<open>env\<close>: how the commit ends
  (\<open>e_commit\<close>), whether the connection was lost while the body ran, what other transactions
  committed while this one waited for row locks (\<open>e_lock_wait\<close>), whether an audit insert is
  accepted, the clock, and the configuration snapshot of the request.
\<close>

section \<open>State\<close>

record 'b material_attempt =
  ma_credential :: credential
  ma_backend :: 'b
  ma_path :: string
  ma_user :: "user option"
  ma_action :: access_action
  ma_version :: "nat option"
  ma_audit_id :: "nat option"

record 'b MaterialTransaction =
  mt_operation_id :: string
  mt_attempts :: "'b material_attempt list"
  mt_deletions :: "'b material_attempt list"
  mt_failed :: bool
  mt_committed :: bool
  mt_known_rollback :: bool
  mt_graph_ids :: "(string \<times> nat list) list"
  mt_graph_frozen :: bool

text \<open>The callbacks the program registers: publishing the metadata of a credential, and
  destroying the material of a deleted one (with the engine object the signal cached).\<close>

datatype hook = PublishMetadata nat | DestroyMaterial credential secret_engine

datatype lock =
  ServiceLock nat | PolicyLock nat | EngineLock nat | CredentialLock nat | AssignmentLock nat | SchemaLock nat

record ('x, 'b) sys =
  db :: database
  ext :: 'x
  owner :: "'b MaterialTransaction option"
  hooks :: "hook list"
  autocommit :: bool
  committed_db :: database \<comment> \<open>what a rollback restores\<close>
  locks :: "lock list" \<comment> \<open>row locks taken by the open transaction, in order\<close>
  held :: "credential option" \<comment> \<open>the caller's in-memory credential\<close>

text \<open>The outcome of \<^verbatim>\<open>COMMIT\<close>: accepted; refused with an integrity error of class 23; or lost, in
  which case the server may or may not have applied it.\<close>

datatype commit_outcome = CommitOk | CommitRejected | CommitLost bool

record ('x, 'b, 'c) env =
  e_backend :: "('x, 'b) secret_backend"
  e_audit :: audit_env
  e_cfg :: openbao_settings
  e_lib :: "'c crypto_lib"
  e_labels :: label_registry
  e_field_errors :: "database \<Rightarrow> credential \<Rightarrow> exn option"
  e_site_url :: string
  e_absolute_url :: "credential \<Rightarrow> string option" \<comment> \<open>\<open>None\<close>: reversing the URL raises\<close>
  e_operation_id :: string
  e_commit :: "database \<Rightarrow> commit_outcome"
  e_connection_lost :: bool
  e_lock_wait :: "lock list \<Rightarrow> lock list \<Rightarrow> database \<Rightarrow> database" \<comment> \<open>locks held, locks requested\<close>

type_synonym ('x, 'b, 'a) prog = "(('x, 'b) sys, exn, 'a) sem"

definition e_now :: "('x, 'b, 'c) env \<Rightarrow> int" where
  "e_now env = ae_now (e_audit env)"

section \<open>Lifting the layers into the request's state\<close>

definition with_db :: "(database \<Rightarrow> 'a \<times> database) \<Rightarrow> ('x, 'b, 'a) prog" where
  "with_db f s = (case f (db s) of (r, d) \<Rightarrow> (Inr r, s\<lparr>db := d\<rparr>))"

definition try_db :: "(database \<Rightarrow> (exn + 'a) \<times> database) \<Rightarrow> ('x, 'b, 'a) prog" where
  "try_db f s = (case f (db s) of (r, d) \<Rightarrow> (r, s\<lparr>db := d\<rparr>))"

definition on_ext :: "('x, exn, 'a) sem \<Rightarrow> ('x, 'b, 'a) prog" where
  "on_ext m s = (case m (ext s) of (r, x) \<Rightarrow> (r, s\<lparr>ext := x\<rparr>))"

definition backend_context :: "('x, 'b, 'c) env \<Rightarrow> database \<Rightarrow> backend_ctx" where
  "backend_context env d =
     \<lparr>bc_auth = auth_materials d, bc_token_cache_ttl = Some (set_token_cache_ttl (e_cfg env)), bc_now = e_now env\<rparr>"

definition backend_call :: "('x, 'b, 'c) env \<Rightarrow> (backend_ctx \<Rightarrow> ('x, exn, 'a) sem) \<Rightarrow> ('x, 'b, 'a) prog" where
  "backend_call env m s = on_ext (m (backend_context env (db s))) s"

definition log_access_p ::
  "('x, 'b, 'c) env \<Rightarrow> credential \<Rightarrow> user option \<Rightarrow> access_action \<Rightarrow> bool \<Rightarrow> string \<Rightarrow> string \<Rightarrow> http_request option
   \<Rightarrow> bool \<Rightarrow> ('x, 'b, nat option) prog" where
  "log_access_p env c u action success reason message request link =
     with_db (log_access (e_audit env) c u action success reason message request link)"

lemma wp_with_db [wp_rules]:
  "wp (with_db f) Q R s = Q (fst (f (db s))) (s\<lparr>db := snd (f (db s))\<rparr>)"
  by (simp add: wp_def with_db_def split: prod.splits)

lemma wp_try_db [wp_rules]:
  "wp (try_db f) Q R s = (case fst (f (db s)) of Inl e \<Rightarrow> R e (s\<lparr>db := snd (f (db s))\<rparr>)
                                               | Inr r \<Rightarrow> Q r (s\<lparr>db := snd (f (db s))\<rparr>))"
  by (simp add: wp_def try_db_def split: prod.splits sum.splits)

lemma wp_on_ext [wp_rules]:
  "wp (on_ext m) Q R s = wp m (\<lambda>r x. Q r (s\<lparr>ext := x\<rparr>)) (\<lambda>e x. R e (s\<lparr>ext := x\<rparr>)) (ext s)"
  by (simp add: wp_def on_ext_def split: prod.splits sum.splits)

lemma wp_backend_call [wp_rules]:
  "wp (backend_call env m) Q R s =
     wp (m (backend_context env (db s))) (\<lambda>r x. Q r (s\<lparr>ext := x\<rparr>)) (\<lambda>e x. R e (s\<lparr>ext := x\<rparr>)) (ext s)"
  by (simp add: backend_call_def wp_def on_ext_def split: prod.splits sum.splits)

lemma wp_log_access_p [wp_rules]:
  "wp (log_access_p env c u a ok r m q l) Q R s =
     Q (fst (log_access (e_audit env) c u a ok r m q l (db s)))
       (s\<lparr>db := snd (log_access (e_audit env) c u a ok r m q l (db s))\<rparr>)"
  by (simp add: log_access_p_def wp_with_db)

section \<open>MaterialTransaction\<close>

definition new_transaction :: "string \<Rightarrow> 'b MaterialTransaction" where
  "new_transaction op =
     \<lparr>mt_operation_id = op, mt_attempts = [], mt_deletions = [], mt_failed = False, mt_committed = False,
      mt_known_rollback = False, mt_graph_ids = [], mt_graph_frozen = False\<rparr>"

definition graph_of :: "'b MaterialTransaction \<Rightarrow> string \<Rightarrow> nat list" where
  "graph_of t kind = (case map_of (mt_graph_ids t) kind of None \<Rightarrow> [] | Some ids \<Rightarrow> ids)"

definition add_graph :: "string \<Rightarrow> nat list \<Rightarrow> 'b MaterialTransaction \<Rightarrow> 'b MaterialTransaction" where
  "add_graph kind ids t =
     t\<lparr>mt_graph_ids := AList.update kind (fold List.insert ids (graph_of t kind)) (mt_graph_ids t)\<rparr>"

text \<open>\<open>declare_graph(kind=requested)\<close> for one keyword; a call with several runs them in order.\<close>

definition declare_graph ::
  "string \<Rightarrow> nat list \<Rightarrow> 'b MaterialTransaction \<Rightarrow> exn + 'b MaterialTransaction" where
  "declare_graph kind requested t =
     (if mt_graph_frozen t \<and> \<not> set requested \<subseteq> set (graph_of t kind)
      then Inl (openbao_err ''All material participants must be locked before the first write.'')
      else Inr (add_graph kind requested t))"

definition witnessed :: "database \<Rightarrow> 'b material_attempt \<Rightarrow> bool" where
  "witnessed d a = (case ma_audit_id a of None \<Rightarrow> False | Some k \<Rightarrow> k \<noteq> 0 \<and> row (access_log d) k \<noteq> None)"

definition witness :: "database \<Rightarrow> 'b MaterialTransaction \<Rightarrow> exn + unit" where
  "witness d t =
     (if list_all (witnessed d) (mt_attempts t @ mt_deletions t) then Inr ()
      else Inl (openbao_err ''The material transaction did not retain its commit witness.''))"

definition recovery_row ::
  "('x, 'b, 'c) env \<Rightarrow> string \<Rightarrow> 'b material_attempt \<Rightarrow> string \<Rightarrow> credential_access_log" where
  "recovery_row env op a message =
     \<lparr>log_credential = None, log_name_snapshot = [], log_uuid_snapshot = Some (cr_uuid (ma_credential a)),
      log_user = None, log_username_snapshot = actor_name (ma_user a), log_action = ma_action a,
      log_source_ip = None, log_reason = [], log_request_id = op, log_success = False,
      log_message = message, log_timestamp = e_now env, log_resolved_version = ma_version a,
      log_execution_id = None, log_dispatch_nonce_digest = [], log_executor = None, log_executor_snapshot = [],
      log_intent_run_id = None, log_step_id = [], log_reference_name = [], log_assignment_id = None, log_purpose = []\<rparr>"

definition record_recovery ::
  "('x, 'b, 'c) env \<Rightarrow> 'b MaterialTransaction \<Rightarrow> 'b material_attempt \<Rightarrow> string \<Rightarrow> ('x, 'b, unit) prog" where
  "record_recovery env t a message =
     bnd (with_db (try_insert_log (e_audit env) (recovery_row env (mt_operation_id t) a message))) (\<lambda>_. ret ())"

definition recover_attempt ::
  "('x, 'b, 'c) env \<Rightarrow> 'b MaterialTransaction \<Rightarrow> bool \<Rightarrow> 'b material_attempt \<Rightarrow> ('x, 'b, unit) prog" where
  "recover_attempt env t unknown a =
     bnd (if mt_committed t
          then ret ''Material transaction committed; post-commit processing requires reconciliation.''
          else case (unknown, ma_version a) of
            (False, Some v) \<Rightarrow>
              on_exn (bnd (backend_call env (\<lambda>ctx. b_delete (e_backend env) ctx (ma_backend a) (ma_path a) (Some [v])))
                        (\<lambda>_. ret ''Material transaction rolled back; its exact version was removed.''))
                (\<lambda>_. ret ''Material transaction rolled back; version cleanup requires reconciliation.'')
          | _ \<Rightarrow> ret ''Material transaction outcome unknown; reconciliation required.'')
       (record_recovery env t a)"

definition discard_recovery_message :: "'b MaterialTransaction \<Rightarrow> bool \<Rightarrow> string" where
  "discard_recovery_message t unknown =
     (if mt_committed t then ''Discard committed; cleanup was not performed and requires reconciliation.''
      else if unknown then ''Discard outcome unknown; cleanup was not performed and requires reconciliation.''
      else ''Discard rolled back; no discard deletion was performed.'')"

definition recover :: "('x, 'b, 'c) env \<Rightarrow> bool \<Rightarrow> 'b MaterialTransaction \<Rightarrow> ('x, 'b, unit) prog" where
  "recover env unknown t0 =
     (let t = t0\<lparr>mt_known_rollback := (\<not> unknown \<and> \<not> mt_committed t0)\<rparr>
      in bnd (for_each (recover_attempt env t unknown) (rev (mt_attempts t)))
           (\<lambda>_. for_each (\<lambda>a. record_recovery env t a (discard_recovery_message t unknown)) (mt_deletions t)))"

definition mark_discarded :: "nat option \<Rightarrow> database \<Rightarrow> (exn + unit) \<times> database" where
  "mark_discarded k d =
     (case Option.bind k (\<lambda>i. map_option (Pair i) (row (access_log d) i)) of
        None \<Rightarrow> (Inl (openbao_err ''The committed discard audit is unavailable.''), d)
      | Some (i, l) \<Rightarrow>
          (Inr (), d\<lparr>access_log := put_row i (l\<lparr>log_success := True,
              log_message := ''Discard committed; its exact staged version was removed.''\<rparr>) (access_log d)\<rparr>))"

text \<open>One deletion of \<open>finish_deletions\<close>; the result says whether it completed.\<close>

definition finish_deletion ::
  "('x, 'b, 'c) env \<Rightarrow> 'b MaterialTransaction \<Rightarrow> 'b material_attempt \<Rightarrow> ('x, 'b, bool) prog" where
  "finish_deletion env t a =
     on_exn (bnd (backend_call env (\<lambda>ctx.
                    b_delete (e_backend env) ctx (ma_backend a) (ma_path a) (map_option (\<lambda>v. [v]) (ma_version a))))
              (\<lambda>_. bnd (try_db (mark_discarded (ma_audit_id a))) (\<lambda>_. ret True)))
       (\<lambda>_. bnd (record_recovery env t a ''Discard committed; cleanup or its audit requires reconciliation.'')
              (\<lambda>_. ret False))"

primrec finish_each ::
  "('x, 'b, 'c) env \<Rightarrow> 'b MaterialTransaction \<Rightarrow> 'b material_attempt list \<Rightarrow> ('x, 'b, bool) prog" where
  "finish_each env t [] = ret True"
| "finish_each env t (a # as) =
     bnd (finish_deletion env t a) (\<lambda>done1. bnd (finish_each env t as) (\<lambda>rest. ret (done1 \<and> rest)))"

definition finish_deletions :: "('x, 'b, 'c) env \<Rightarrow> 'b MaterialTransaction \<Rightarrow> ('x, 'b, unit) prog" where
  "finish_deletions env t =
     bnd (check (mt_deletions t = [] \<or> mt_committed t)
            (openbao_err ''Staged cleanup requires a confirmed material transaction commit.''))
       (\<lambda>_. bnd (finish_each env t (mt_deletions t))
         (\<lambda>complete. check complete
            (openbao_err ''Discard committed; cleanup is incomplete and requires reconciliation.'')))"

definition current_material_transaction :: "('x, 'b, 'b MaterialTransaction) prog" where
  "current_material_transaction =
     bnd (gets owner) (\<lambda>t. get_or t (openbao_err ''An outer material transaction is required.''))"

definition update_owner :: "('b MaterialTransaction \<Rightarrow> 'b MaterialTransaction) \<Rightarrow> ('x, 'b, unit) prog" where
  "update_owner f = modify (\<lambda>s. s\<lparr>owner := map_option f (owner s)\<rparr>)"

text \<open>\<^verbatim>\<open>transaction.on_commit\<close>: outside a transaction the callback runs at once.\<close>

definition on_commit :: "(hook \<Rightarrow> ('x, 'b, unit) prog) \<Rightarrow> hook \<Rightarrow> ('x, 'b, unit) prog" where
  "on_commit run_hook h s =
     (if autocommit s then run_hook h s else (Inr (), s\<lparr>hooks := hooks s @ [h]\<rparr>))"

text \<open>A nested \<^verbatim>\<open>transaction.atomic()\<close>: a savepoint. Rolling back to it restores the tables and
  forgets the callbacks registered inside.\<close>

definition savepoint :: "('x, 'b, 'a) prog \<Rightarrow> ('x, 'b, 'a) prog" where
  "savepoint m s =
     (case m s of (Inl e, s') \<Rightarrow> (Inl e, s'\<lparr>db := db s, hooks := hooks s\<rparr>) | (Inr r, s') \<Rightarrow> (Inr r, s'))"

section \<open>material\_transaction\<close>

definition begin_tx :: "('x, 'b, 'c) env \<Rightarrow> ('x, 'b) sys \<Rightarrow> ('x, 'b) sys" where
  "begin_tx env s =
     s\<lparr>owner := Some (new_transaction (e_operation_id env)), hooks := [], autocommit := False,
       committed_db := db s, locks := []\<rparr>"

text \<open>Leaving the transaction: locks and pending callbacks go, autocommit is restored.\<close>

definition leave_tx :: "database \<Rightarrow> ('x, 'b) sys \<Rightarrow> ('x, 'b) sys" where
  "leave_tx d s = s\<lparr>db := d, committed_db := d, hooks := [], autocommit := True, locks := []\<rparr>"

definition the_owner :: "('x, 'b, 'c) env \<Rightarrow> ('x, 'b) sys \<Rightarrow> 'b MaterialTransaction" where
  "the_owner env s = (case owner s of None \<Rightarrow> new_transaction (e_operation_id env) | Some t \<Rightarrow> t)"

definition unwind ::
  "('x, 'b, 'c) env \<Rightarrow> exn \<Rightarrow> bool \<Rightarrow> 'b MaterialTransaction \<Rightarrow> ('x, 'b, 'a) prog" where
  "unwind env e unknown t =
     bnd (modify (\<lambda>s. s\<lparr>owner := None\<rparr>)) (\<lambda>_. bnd (recover env unknown t) (\<lambda>_. raise e))"

text \<open>After the body: refuse a poisoned or unwitnessed owner, while still inside the block.\<close>

definition tx_body :: "('x, 'b, 'c) env \<Rightarrow> ('x, 'b, 'a) prog \<Rightarrow> ('x, 'b, 'a) prog" where
  "tx_body env body =
     bnd body (\<lambda>r. bnd (gets (the_owner env)) (\<lambda>t.
       bnd (check (\<not> mt_failed t) (openbao_err ''The material transaction was refused.'')) (\<lambda>_.
       bnd (gets db) (\<lambda>d. bnd (lift_sum (witness d t)) (\<lambda>_. ret r)))))"

text \<open>After a commit: \<open>mark_committed\<close> is the first callback, the program's own follow in order;
  the owner is released and the deferred deletions run.\<close>

definition after_commit ::
  "('x, 'b, 'c) env \<Rightarrow> (hook \<Rightarrow> ('x, 'b, unit) prog) \<Rightarrow> hook list \<Rightarrow> 'b MaterialTransaction \<Rightarrow> 'a \<Rightarrow> ('x, 'b, 'a) prog" where
  "after_commit env run_hook hs t r =
     (let t' = t\<lparr>mt_committed := True\<rparr>
      in bnd (modify (\<lambda>s. s\<lparr>owner := Some t'\<rparr>)) (\<lambda>_.
         bnd (on_exn (for_each run_hook hs) (\<lambda>e. unwind env e True t')) (\<lambda>_.
         bnd (modify (\<lambda>s. s\<lparr>owner := None\<rparr>)) (\<lambda>_.
         bnd (finish_deletions env t') (\<lambda>_. ret r)))))"

definition run_owner ::
  "('x, 'b, 'c) env \<Rightarrow> (hook \<Rightarrow> ('x, 'b, unit) prog) \<Rightarrow> ('x, 'b, 'a) prog \<Rightarrow> ('x, 'b, 'a) prog" where
  "run_owner env run_hook body s =
     (case tx_body env body (begin_tx env s) of
        (Inl e, s') \<Rightarrow>
          unwind env e (e_connection_lost env) (the_owner env s') (leave_tx (committed_db s') s')
      | (Inr r, s') \<Rightarrow>
          (case e_commit env (db s') of
             CommitOk \<Rightarrow> after_commit env run_hook (hooks s') (the_owner env s') r (leave_tx (db s') s')
           | CommitRejected \<Rightarrow> unwind env IntegrityError False (the_owner env s') (leave_tx (committed_db s') s')
           | CommitLost applied \<Rightarrow>
               unwind env (PythonError ''OperationalError'') True (the_owner env s')
                 (leave_tx (if applied then db s' else committed_db s') s')))"

definition material_transaction ::
  "('x, 'b, 'c) env \<Rightarrow> (hook \<Rightarrow> ('x, 'b, unit) prog) \<Rightarrow> ('x, 'b, 'a) prog \<Rightarrow> ('x, 'b, 'a) prog" where
  "material_transaction env run_hook body s =
     (case owner s of
        Some _ \<Rightarrow>
          on_exn body (\<lambda>e. bnd (update_owner (\<lambda>t. t\<lparr>mt_failed := True\<rparr>)) (\<lambda>_. raise e)) s
      | None \<Rightarrow>
          if \<not> autocommit s
          then raise (openbao_err ''An outer material transaction requires autocommit before application transactions.'') s
          else run_owner env run_hook body s)"

section \<open>Running the steps\<close>

lemma run_update_owner: "bnd (update_owner h) f s = f () (s\<lparr>owner := map_option h (owner s)\<rparr>)"
  by (simp add: bnd_def update_owner_def modify_def)

lemma run_gets: "bnd (gets f) g s = g (f s) s"
  by (simp add: bnd_def gets_def)

lemma run_backend_call:
  "bnd (backend_call env m) f s =
     (case m (backend_context env (db s)) (ext s) of
        (Inl e, x) \<Rightarrow> (Inl e, s\<lparr>ext := x\<rparr>) | (Inr r, x) \<Rightarrow> f r (s\<lparr>ext := x\<rparr>))"
  by (simp add: bnd_def backend_call_def on_ext_def split: prod.splits sum.splits)

section \<open>What a transaction leaves\<close>

text \<open>The tables other than the access log.\<close>

definition same_inventory :: "database \<Rightarrow> database \<Rightarrow> bool" where
  "same_inventory d d' =
     (credentials d' = credentials d \<and> policies d' = policies d \<and> engines d' = engines d \<and>
      assignments d' = assignments d \<and> settings_row d' = settings_row d \<and> type_schemas d' = type_schemas d \<and>
      auth_materials d' = auth_materials d \<and> receipts d' = receipts d \<and>
      users d' = users d \<and> app_services d' = app_services d)"

lemma same_inventory_refl [simp, intro]: "same_inventory d d"
  by (simp add: same_inventory_def)

lemma same_inventory_trans: "same_inventory d e \<Longrightarrow> same_inventory e f \<Longrightarrow> same_inventory d f"
  by (simp add: same_inventory_def)

lemma same_inventory_log [simp]:
  "same_inventory d (snd (try_insert_log ae l d))" "same_inventory d (snd (log_access ae c u a ok r m q k d))"
  "same_inventory d (snd (mark_discarded i d))"
  by (auto simp: same_inventory_def mark_discarded_def split: option.splits)

text \<open>What another transaction commits while this one waits for a lock; a computation inside a
  transaction stays inside it, and what a rollback restores changes only by such commits.\<close>

definition others :: "('x, 'b, 'c) env \<Rightarrow> database \<Rightarrow> database \<Rightarrow> bool" where
  "others env d d' = (\<exists>held_locks ls. d' = e_lock_wait env held_locks ls d)"

definition in_tx :: "('x, 'b) sys \<Rightarrow> bool" where
  "in_tx s = (owner s \<noteq> None \<and> \<not> autocommit s)"

definition tx_step :: "('x, 'b, 'c) env \<Rightarrow> ('x, 'b) sys \<Rightarrow> ('x, 'b) sys \<Rightarrow> bool" where
  "tx_step env s s' = (in_tx s \<longrightarrow> in_tx s' \<and> (others env)\<^sup>*\<^sup>* (committed_db s) (committed_db s'))"

interpretation tx: state_frame "tx_step env"
  by unfold_locales (auto simp: tx_step_def)

text \<open>A computation that changes no table but the access log.\<close>

definition log_step :: "('x, 'b) sys \<Rightarrow> ('x, 'b) sys \<Rightarrow> bool" where
  "log_step s s' = (same_inventory (db s) (db s') \<and> autocommit s' = autocommit s)"

interpretation logging: state_frame log_step
  by unfold_locales (auto simp: log_step_def intro: same_inventory_trans)

lemma tx_framed_lift:
  "framed (tx_step env) (with_db f)" "framed (tx_step env) (try_db g)" "framed (tx_step env) (on_ext m)"
  "framed (tx_step env) (backend_call env' k)" "framed (tx_step env) (log_access_p env' c u a ok r txt q l)"
  "framed (tx_step env) (update_owner h)"
  by (auto simp: framed_def tx_step_def in_tx_def with_db_def try_db_def on_ext_def backend_call_def log_access_p_def
      update_owner_def modify_def split: prod.splits)

lemma tx_framed_current: "framed (tx_step env) current_material_transaction"
  unfolding current_material_transaction_def by (intro tx.framed_bnd tx.framed_basic)

lemma tx_framed_on_commit: "framed (tx_step env) (on_commit rh h)"
  by (auto simp: framed_def tx_step_def in_tx_def on_commit_def)

lemmas tx_framed = tx.framed_basic tx.framed_bnd tx.framed_on_exn tx.framed_for_each tx_framed_lift tx_framed_current
  tx_framed_on_commit framed_cases

lemma tx_framed_nested:
  assumes "framed (tx_step env) body"
  shows "framed (tx_step env) (material_transaction env' rh body)"
proof (rule framedI)
  fix s r s'
  assume run: "material_transaction env' rh body s = (r, s')"
  show "tx_step env s s'"
  proof (cases "owner s")
    case None
    then show ?thesis by (simp add: tx_step_def in_tx_def)
  next
    case (Some t)
    have "framed (tx_step env) (on_exn body (\<lambda>e. bnd (update_owner (\<lambda>t. t\<lparr>mt_failed := True\<rparr>)) (\<lambda>_. raise e)))"
      by (intro tx_framed assms)
    with run Some show ?thesis by (auto simp: material_transaction_def dest: framedD)
  qed
qed

lemma log_framed_db:
  "(\<And>d. same_inventory d (snd (f d))) \<Longrightarrow> framed log_step (with_db f)"
  "(\<And>d. same_inventory d (snd (g d))) \<Longrightarrow> framed log_step (try_db g)"
  by (simp_all add: framed_def log_step_def with_db_def try_db_def split_beta)

lemma log_framed_call: "framed log_step (backend_call env k)" "framed log_step (update_owner h)"
  by (simp_all add: framed_def log_step_def backend_call_def on_ext_def update_owner_def modify_def split_beta)

lemma log_framed_log: "framed log_step (log_access_p env c u a ok r txt q l)"
  unfolding log_access_p_def by (intro log_framed_db same_inventory_log)

lemmas log_framed = logging.framed_basic logging.framed_bnd logging.framed_on_exn logging.framed_for_each
  log_framed_call log_framed_log framed_cases

lemma log_framed_record: "framed log_step (record_recovery env t a m)"
  unfolding record_recovery_def by (intro log_framed log_framed_db same_inventory_log)

lemma log_framed_recover: "framed log_step (recover env unknown t)"
  unfolding recover_def recover_attempt_def
  by (intro log_framed log_framed_record)

lemma log_framed_finish_each: "framed log_step (finish_each env t as)"
proof (induction as)
  case Nil
  then show ?case by (simp add: logging.framed_basic)
next
  case (Cons a as)
  have "framed log_step (finish_deletion env t a)"
    unfolding finish_deletion_def by (intro log_framed log_framed_record log_framed_db same_inventory_log)
  with Cons show ?case by (simp) (intro log_framed; simp)
qed

lemma log_framed_finish: "framed log_step (finish_deletions env t)"
  unfolding finish_deletions_def by (intro log_framed log_framed_finish_each)

lemma log_framed_owner: "framed log_step (modify (\<lambda>s. s\<lparr>owner := z\<rparr>))"
  by (simp add: framed_def log_step_def modify_def)

lemma log_framed_unwind: "framed log_step (unwind env e unknown t)"
  unfolding unwind_def by (intro log_framed log_framed_owner log_framed_recover)

lemma log_framed_after_commit:
  assumes "\<And>h. framed log_step (rh h)"
  shows "framed log_step (after_commit env rh hs t r)"
  unfolding after_commit_def by (intro log_framed log_framed_owner log_framed_unwind log_framed_finish assms)

lemma tx_body_framed: "framed (tx_step env) body \<Longrightarrow> framed (tx_step env) (tx_body env body)"
  unfolding tx_body_def by (intro tx_framed)

lemma in_tx_begin: "in_tx (begin_tx env s)" "committed_db (begin_tx env s) = db s" "db (begin_tx env s) = db s"
  by (simp_all add: begin_tx_def in_tx_def)

text \<open>Atomicity of the inventory: an owner either leaves the tables as the transactions that
  committed meanwhile left them, and then it raised, or it leaves exactly what its body wrote.\<close>

lemma run_owner_atomic:
  assumes body: "framed (tx_step env) body" and hook: "\<And>h. framed log_step (rh h)"
    and run: "run_owner env rh body s = (r, s')"
  shows "(\<exists>d. (others env)\<^sup>*\<^sup>* (db s) d \<and> same_inventory d (db s') \<and> (\<forall>y. r \<noteq> Inr y))
       \<or> (\<exists>y s1. tx_body env body (begin_tx env s) = (Inr y, s1) \<and> e_commit env (db s1) \<noteq> CommitRejected \<and>
             same_inventory (db s1) (db s') \<and> (\<forall>z. r = Inr z \<longrightarrow> z = y))"
proof -
  obtain q s1 where t: "tx_body env body (begin_tx env s) = (q, s1)" by fastforce
  from framedD [OF tx_body_framed [OF body] t] have d: "(others env)\<^sup>*\<^sup>* (db s) (committed_db s1)"
    by (simp add: tx_step_def in_tx_begin)
  have unw: "same_inventory d0 (db s')" "\<forall>y. r \<noteq> Inr y" if "unwind env e unk t0 (leave_tx d0 s1) = (r, s')" for e unk t0 d0
    using framedD [OF log_framed_unwind that] that
    by (auto simp: log_step_def leave_tx_def unwind_def bnd_def raise_def split: prod.splits sum.splits)
  show ?thesis
  proof (cases q)
    case (Inl e)
    with run t d unw show ?thesis by (auto simp: run_owner_def)
  next
    case (Inr y)
    show ?thesis
    proof (cases "e_commit env (db s1)")
      case CommitOk
      with run t Inr have ac: "after_commit env rh (hooks s1) (the_owner env s1) y (leave_tx (db s1) s1) = (r, s')"
        by (simp add: run_owner_def)
      then have "z = y" if "r = Inr z" for z
        using that by (auto simp: after_commit_def bnd_def modify_def on_exn_def ret_def Let_def split: prod.splits sum.splits)
      with framedD [OF log_framed_after_commit [OF hook] ac] t Inr CommitOk show ?thesis
        by (auto simp: log_step_def leave_tx_def)
    next
      case CommitRejected
      with run t Inr d unw show ?thesis by (auto simp: run_owner_def)
    next
      case (CommitLost b)
      with run t Inr d unw show ?thesis by (cases b) (auto simp: run_owner_def)
    qed
  qed
qed

end
