(* ===== verification/Synchronization.thy ===== *)
theory Synchronization
  imports Material_Transactions
begin

text \<open>
  The shared row-lock order (\<^verbatim>\<open>synchronization.py\<close>): policies, then engines, then credentials,
  each by ascending primary key. Waiting for a lock lets other transactions commit
  (\<open>e_lock_wait\<close>); what they committed is visible afterwards, in this connection and in what a
  rollback restores. A relationship that drifted meanwhile is refused.
\<close>

definition sorted_ids :: "nat list \<Rightarrow> nat list" where
  "sorted_ids ids = sort (remdups ids)"

definition opt_ids :: "nat option list \<Rightarrow> nat list" where
  "opt_ids xs = List.map_filter id xs"

text \<open>\<^verbatim>\<open>select_for_update()\<close> over the rows with these keys, in key order.\<close>

definition acquire :: "('x, 'b, 'c) env \<Rightarrow> lock list \<Rightarrow> ('x, 'b, unit) prog" where
  "acquire env ls =
     modify (\<lambda>s. s\<lparr>db := e_lock_wait env (locks s) ls (db s),
                   committed_db := e_lock_wait env (locks s) ls (committed_db s),
                   locks := locks s @ ls\<rparr>)"

definition rows_with :: "'r tbl \<Rightarrow> nat list \<Rightarrow> (nat \<times> 'r) list" where
  "rows_with t ids = List.map_filter (\<lambda>k. map_option (Pair k) (row t k)) ids"

definition lock_policies :: "('x, 'b, 'c) env \<Rightarrow> nat list \<Rightarrow> ('x, 'b, (nat \<times> credential_policy) list) prog" where
  "lock_policies env ids =
     bnd (acquire env (map PolicyLock (sorted_ids ids))) (\<lambda>_. gets (\<lambda>s. rows_with (policies (db s)) (sorted_ids ids)))"

definition lock_engines :: "('x, 'b, 'c) env \<Rightarrow> nat list \<Rightarrow> ('x, 'b, (nat \<times> secret_engine) list) prog" where
  "lock_engines env ids =
     bnd (acquire env (map EngineLock (sorted_ids ids))) (\<lambda>_. gets (\<lambda>s. rows_with (engines (db s)) (sorted_ids ids)))"

definition lock_credentials :: "('x, 'b, 'c) env \<Rightarrow> nat list \<Rightarrow> ('x, 'b, (nat \<times> credential) list) prog" where
  "lock_credentials env ids =
     bnd (acquire env (map CredentialLock (sorted_ids ids)))
       (\<lambda>_. gets (\<lambda>s. rows_with (credentials (db s)) (sorted_ids ids)))"

definition key_error :: exn where
  "key_error = PythonError ''KeyError''"

text \<open>\<open>d[k]\<close> where \<open>k\<close> may be \<^verbatim>\<open>None\<close>.\<close>

definition at_key :: "(nat \<times> 'r) list \<Rightarrow> nat option \<Rightarrow> exn + 'r" where
  "at_key d k = (case Option.bind k (map_of d) of None \<Rightarrow> Inl key_error | Some r \<Rightarrow> Inr r)"

definition lock_credential_graph ::
  "('x, 'b, 'c) env \<Rightarrow> nat \<Rightarrow> nat option \<Rightarrow> ('x, 'b, credential \<times> credential_policy \<times> secret_engine) prog" where
  "lock_credential_graph env credential_id additional_policy_id =
     bnd (gets (\<lambda>s. row (credentials (db s)) credential_id)) (\<lambda>r.
     bnd (get_or r ObjectDoesNotExist) (\<lambda>selectors.
     bnd (lock_policies env (opt_ids [cr_policy_id selectors, additional_policy_id])) (\<lambda>pols.
     bnd (lock_engines env (map (\<lambda>(_, p). pol_engine_id p) pols @ opt_ids [cr_engine_id selectors])) (\<lambda>engs.
     bnd (lock_credentials env [credential_id]) (\<lambda>creds.
     bnd (get_or (map_option (cr_pk_update (\<lambda>_. Some credential_id)) (map_of creds credential_id)) ObjectDoesNotExist) (\<lambda>c.
     bnd (check ((cr_policy_id c, cr_engine_id c) = (cr_policy_id selectors, cr_engine_id selectors))
            (ValidationError [] ''Credential relationships changed during authorization.'')) (\<lambda>_.
     bnd (lift_sum (at_key pols (cr_policy_id c))) (\<lambda>p.
     bnd (lift_sum (at_key engs (cr_engine_id c))) (\<lambda>e.
     ret (c, p, e))))))))))"

definition participant_selectors ::
  "credential list \<Rightarrow> nat list \<Rightarrow> database \<Rightarrow> exn + (nat list \<times> (nat \<times> credential) list \<times> nat list)" where
  "participant_selectors subjects additional_policy_ids d =
     (let ids = opt_ids (map cr_pk subjects); selectors = rows_with (credentials d) (sorted_ids ids)
      in if list_all (\<lambda>k. k \<in> set (map fst selectors)) ids
         then Inr (ids, selectors,
                   opt_ids (map (\<lambda>(_, c). cr_policy_id c) selectors) @ opt_ids (map cr_policy_id subjects)
                   @ additional_policy_ids)
         else Inl (ValidationError [] ''A material participant no longer exists.''))"

definition check_material_participants ::
  "(nat \<times> credential) list \<Rightarrow> (nat \<times> credential) list \<Rightarrow> (nat \<times> credential_policy) list
   \<Rightarrow> (nat \<times> secret_engine) list \<Rightarrow> (nat \<times> credential) list \<Rightarrow> exn + unit" where
  "check_material_participants locked selectors pols engs todo =
     fold (\<lambda>(pk, c) acc. case acc of Inl e \<Rightarrow> Inl e | Inr _ \<Rightarrow>
        (case map_of selectors pk of
           None \<Rightarrow> Inl key_error
         | Some expected \<Rightarrow>
             if (cr_policy_id c, cr_engine_id c) \<noteq> (cr_policy_id expected, cr_engine_id expected)
             then Inl (ValidationError [] ''Material participant relationships changed while acquiring locks.'')
             else case at_key pols (cr_policy_id c) of
               Inl e \<Rightarrow> Inl e
             | Inr _ \<Rightarrow> (case at_key engs (cr_engine_id c) of Inl e \<Rightarrow> Inl e | Inr _ \<Rightarrow> Inr ()))) todo (Inr ())"

definition declare_on_owner :: "string \<Rightarrow> nat list \<Rightarrow> ('x, 'b, unit) prog" where
  "declare_on_owner kind ids =
     bnd current_material_transaction (\<lambda>t.
     bnd (lift_sum (declare_graph kind ids t)) (\<lambda>t'. update_owner (\<lambda>_. t')))"

definition lock_material_subjects ::
  "('x, 'b, 'c) env \<Rightarrow> credential list \<Rightarrow> nat list \<Rightarrow> ('x, 'b, (nat \<times> credential) list) prog" where
  "lock_material_subjects env subjects additional_policy_ids =
     bnd (gets (\<lambda>s. participant_selectors subjects additional_policy_ids (db s))) (\<lambda>r.
     bnd (lift_sum r) (\<lambda>(ids, selectors, policy_ids).
     bnd current_material_transaction (\<lambda>_.
     bnd (declare_on_owner ''credential'' ids) (\<lambda>_.
     bnd (declare_on_owner ''policy'' policy_ids) (\<lambda>_.
     bnd (lock_policies env policy_ids) (\<lambda>pols.
     let engine_ids = map (\<lambda>(_, p). pol_engine_id p) pols @ opt_ids (map (\<lambda>(_, c). cr_engine_id c) selectors)
                      @ opt_ids (map cr_engine_id subjects) in
     bnd (declare_on_owner ''engine'' engine_ids) (\<lambda>_.
     bnd (lock_engines env engine_ids) (\<lambda>engs.
     bnd (lock_credentials env ids) (\<lambda>locked.
     bnd (lift_sum (check_material_participants locked selectors pols engs locked)) (\<lambda>_.
     bnd (update_owner (\<lambda>t. t\<lparr>mt_graph_frozen := True\<rparr>)) (\<lambda>_.
     ret locked)))))))))))"

text \<open>\<open>refresh_material_selectors\<close>: both related rows must exist.\<close>

definition refresh_material_selectors :: "credential \<Rightarrow> ('x, 'b, unit) prog" where
  "refresh_material_selectors c =
     bnd (gets (\<lambda>s. policy_of (db s) c)) (\<lambda>p. bnd (get_or p ObjectDoesNotExist) (\<lambda>_.
     bnd (gets (\<lambda>s. engine_of (db s) c)) (\<lambda>e. bnd (get_or e ObjectDoesNotExist) (\<lambda>_. ret ()))))"

definition take_version_state :: "credential \<Rightarrow> credential \<Rightarrow> credential" where
  "take_version_state fresh c =
     c\<lparr>cr_kv_version := cr_kv_version fresh, cr_live_kv_version := cr_live_kv_version fresh,
       cr_staged_kv_version := cr_staged_kv_version fresh,
       cr_live_key_fingerprint := cr_live_key_fingerprint fresh, cr_live_key_version := cr_live_key_version fresh,
       cr_staged_key_fingerprint := cr_staged_key_fingerprint fresh,
       cr_staged_key_version := cr_staged_key_version fresh\<rparr>"

text \<open>\<open>lock_material_subject\<close> gives the subject with its version state refreshed; the destination
  policy is given by its primary key.\<close>

definition lock_material_subject ::
  "('x, 'b, 'c) env \<Rightarrow> credential option \<Rightarrow> nat option \<Rightarrow> ('x, 'b, credential option) prog" where
  "lock_material_subject env subject target_policy =
     (case subject of
        None \<Rightarrow>
          (case target_policy of
             None \<Rightarrow> raise (openbao_err ''A material subject or destination policy must be declared before persistence.'')
           | Some p \<Rightarrow> bnd (lock_material_subjects env [] [p]) (\<lambda>_. ret None))
      | Some c \<Rightarrow>
          bnd (lock_material_subjects env [c] (opt_ids [case target_policy of Some p \<Rightarrow> Some p | None \<Rightarrow> cr_policy_id c])) (\<lambda>locked.
          case cr_pk c of
            None \<Rightarrow> bnd (refresh_material_selectors c) (\<lambda>_. ret (Some c))
          | Some k \<Rightarrow>
              bnd (lift_sum (at_key locked (Some k))) (\<lambda>fresh.
              bnd (refresh_material_selectors (take_version_state fresh c)) (\<lambda>_.
              bnd (case target_policy of
                     None \<Rightarrow> ret ()
                   | Some p \<Rightarrow>
                       bnd (gets (\<lambda>s. Option.bind (row (policies (db s)) p) (\<lambda>r. row (engines (db s)) (pol_engine_id r))))
                         (\<lambda>e. bnd (get_or e ObjectDoesNotExist) (\<lambda>_. ret ()))) (\<lambda>_.
              ret (Some (take_version_state fresh c)))))))"

text \<open>
  \<open>synchronized_material_change\<close>: the operation runs on the row as it is under the locks. A
  failure is recorded outside the transaction it rolled back, on the caller's object, which is
  the refreshed row once the locks were obtained.
\<close>

definition did_not_complete :: string where
  "did_not_complete = ''Material operation did not complete; inspect its reconciliation records.''"

definition synchronized_body ::
  "('x, 'b, 'c) env \<Rightarrow> (credential \<Rightarrow> ('x, 'b, 'a) prog) \<Rightarrow> credential \<Rightarrow> ('x, 'b, 'a) prog" where
  "synchronized_body env operation c =
     bnd (lock_material_subjects env [c] []) (\<lambda>locked.
     bnd (lift_sum (at_key locked (cr_pk c))) (\<lambda>_.
     bnd (gets (\<lambda>s. Option.bind (cr_pk c) (load_credential (db s)))) (\<lambda>r.
     bnd (get_or r ObjectDoesNotExist) (\<lambda>fresh.
     bnd (modify (\<lambda>s. s\<lparr>held := Some fresh\<rparr>)) (\<lambda>_. operation fresh)))))"

definition synchronized_material_change ::
  "('x, 'b, 'c) env \<Rightarrow> (hook \<Rightarrow> ('x, 'b, unit) prog) \<Rightarrow> access_action \<Rightarrow> user option \<Rightarrow> http_request option
   \<Rightarrow> (credential \<Rightarrow> ('x, 'b, 'a) prog) \<Rightarrow> credential \<Rightarrow> ('x, 'b, 'a) prog" where
  "synchronized_material_change env run_hook action user request operation c =
     bnd (modify (\<lambda>s. s\<lparr>held := Some c\<rparr>)) (\<lambda>_.
     on_exn (material_transaction env run_hook (synchronized_body env operation c))
       (\<lambda>e. bnd (gets held) (\<lambda>h.
            bnd (log_access_p env (case h of None \<Rightarrow> c | Some f \<Rightarrow> f) user action False [] did_not_complete request True)
              (\<lambda>_. raise e))))"

section \<open>Atomicity\<close>

lemma others_wait: "(others env)\<^sup>*\<^sup>* d (e_lock_wait env h ls d)"
  by (rule r_into_rtranclp) (auto simp: others_def)

lemma tx_framed_acquire: "framed (tx_step env) (acquire env ls)"
  unfolding acquire_def
  by (rule tx.framed_modify) (auto simp: tx_step_def in_tx_def others_wait)

lemma tx_framed_locks:
  "framed (tx_step env) (lock_policies env ids)" "framed (tx_step env) (lock_engines env ids)"
  "framed (tx_step env) (lock_credentials env ids)"
  unfolding lock_policies_def lock_engines_def lock_credentials_def
  by (intro tx_framed tx_framed_acquire)+

lemma tx_framed_declare: "framed (tx_step env) (declare_on_owner kind ids)"
  unfolding declare_on_owner_def by (intro tx_framed)

lemma tx_framed_subjects: "framed (tx_step env) (lock_material_subjects env cs ps)"
  unfolding lock_material_subjects_def
  by (intro tx_framed tx_framed_locks tx_framed_declare)

lemma tx_framed_refresh: "framed (tx_step env) (refresh_material_selectors c)"
  unfolding refresh_material_selectors_def by (intro tx_framed)

lemma tx_framed_subject: "framed (tx_step env) (lock_material_subject env subj tp)"
  unfolding lock_material_subject_def
  by (intro tx_framed tx_framed_subjects tx_framed_refresh)

lemma tx_framed_held: "framed (tx_step env) (modify (\<lambda>s. s\<lparr>held := z\<rparr>))"
  by (rule tx.framed_modify) (auto simp: tx_step_def in_tx_def)

lemma tx_framed_synchronized:
  "(\<And>c. framed (tx_step env) (operation c)) \<Longrightarrow> framed (tx_step env) (synchronized_body env operation c)"
  unfolding synchronized_body_def
  by (intro tx_framed tx_framed_subjects tx_framed_held)

lemmas tx_framed_sync = tx_framed_locks tx_framed_declare tx_framed_subjects tx_framed_refresh tx_framed_subject
  tx_framed_held tx_framed_synchronized

lemma log_framed_held: "framed log_step (modify (\<lambda>s. s\<lparr>held := z\<rparr>))"
  by (simp add: framed_def log_step_def modify_def)

lemma synchronized_atomic:
  assumes op: "\<And>c. framed (tx_step env) (operation c)" and hook: "\<And>h. framed log_step (rh h)"
    and idle: "owner s = None" "autocommit s"
    and run: "synchronized_material_change env rh action u rq operation c s = (r, s')"
  shows "(\<exists>d. (others env)\<^sup>*\<^sup>* (db s) d \<and> same_inventory d (db s') \<and> (\<forall>y. r \<noteq> Inr y))
       \<or> (\<exists>y s1. tx_body env (synchronized_body env operation c) (begin_tx env (s\<lparr>held := Some c\<rparr>)) = (Inr y, s1) \<and>
             e_commit env (db s1) \<noteq> CommitRejected \<and> same_inventory (db s1) (db s') \<and> (\<forall>z. r = Inr z \<longrightarrow> z = y))"
proof -
  let ?s = "s\<lparr>held := Some c\<rparr>"
  obtain q s2 where q: "run_owner env rh (synchronized_body env operation c) ?s = (q, s2)" by fastforce
  with idle run have "same_inventory (db s2) (db s') \<and> ((\<exists>y. r = Inr y) \<longrightarrow> q = r)"
    by (auto simp: synchronized_material_change_def bnd_def modify_def on_exn_def material_transaction_def gets_def
        log_access_p_def with_db_def raise_def split_beta split: sum.splits)
  with run_owner_atomic [OF tx_framed_synchronized [OF op] hook q] show ?thesis
    by (auto intro: same_inventory_trans)
qed

end
