(* ===== verification/Auth_Material.thy ===== *)
theory Auth_Material
  imports Models
begin

text \<open>
  Encrypted service identities (\<^verbatim>\<open>models/auth.py\<close>). The cipher itself, HKDF and Fernet of
  the \<^verbatim>\<open>cryptography\<close> package, is the parameter \<open>cx\<close>: \<open>cx_derive\<close> is the key derivation,
  \<open>cx_encrypt\<close> and \<open>cx_decrypt\<close> are \<^verbatim>\<open>Fernet.encrypt\<close> and \<^verbatim>\<open>Fernet.decrypt\<close>, the latter
  \<open>None\<close> where it raises. Its documented round trip is the hypothesis \<open>fernet_roundtrip\<close>.
\<close>

record 'k crypto =
  cx_derive :: "string \<Rightarrow> 'k"
  cx_encrypt :: "'k \<Rightarrow> string \<Rightarrow> string"
  cx_decrypt :: "'k \<Rightarrow> string \<Rightarrow> string option"
  cx_secret_key :: "string option" \<comment> \<open>\<^verbatim>\<open>settings.SECRET_KEY\<close>; \<open>None\<close> when it is not a string\<close>

definition fernet_roundtrip :: "'k crypto \<Rightarrow> bool" where
  "fernet_roundtrip cx = (\<forall>k v. cx_decrypt cx k (cx_encrypt cx k v) = Some v)"

section \<open>Fields\<close>

definition AUTH_MATERIAL_FIELDS :: "string list" where
  "AUTH_MATERIAL_FIELDS =
     [''role_id'', ''secret_id'', ''token'', ''k8s_role'', ''k8s_jwt_path'', ''client_cert'', ''client_key'']"

definition CIPHERTEXT_PREFIX :: string where
  "CIPHERTEXT_PREFIX = ''v1:''"

definition ciphertext_of :: "string \<Rightarrow> engine_auth_material \<Rightarrow> string" where
  "ciphertext_of name m =
     (if name = ''role_id'' then am_role_id_ciphertext m
      else if name = ''secret_id'' then am_secret_id_ciphertext m
      else if name = ''token'' then am_token_ciphertext m
      else if name = ''k8s_role'' then am_k8s_role_ciphertext m
      else if name = ''k8s_jwt_path'' then am_k8s_jwt_path_ciphertext m
      else if name = ''client_cert'' then am_client_cert_ciphertext m
      else am_client_key_ciphertext m)"

definition set_ciphertext :: "string \<Rightarrow> string \<Rightarrow> engine_auth_material \<Rightarrow> engine_auth_material" where
  "set_ciphertext name v m =
     (if name = ''role_id'' then m\<lparr>am_role_id_ciphertext := v\<rparr>
      else if name = ''secret_id'' then m\<lparr>am_secret_id_ciphertext := v\<rparr>
      else if name = ''token'' then m\<lparr>am_token_ciphertext := v\<rparr>
      else if name = ''k8s_role'' then m\<lparr>am_k8s_role_ciphertext := v\<rparr>
      else if name = ''k8s_jwt_path'' then m\<lparr>am_k8s_jwt_path_ciphertext := v\<rparr>
      else if name = ''client_cert'' then m\<lparr>am_client_cert_ciphertext := v\<rparr>
      else m\<lparr>am_client_key_ciphertext := v\<rparr>)"

section \<open>Encryption\<close>

definition decryption_error :: exn where
  "decryption_error = PythonError ''AuthMaterialDecryptionError''"

definition fernet :: "'k crypto \<Rightarrow> string option \<Rightarrow> exn + 'k" where
  "fernet cx secret_key =
     (case (case secret_key of None \<Rightarrow> cx_secret_key cx | Some k \<Rightarrow> Some k) of
        None \<Rightarrow> Inl decryption_error
      | Some source \<Rightarrow> if source = [] then Inl decryption_error else Inr (cx_derive cx source))"

definition encrypt :: "'k crypto \<Rightarrow> string option \<Rightarrow> string \<Rightarrow> exn + string" where
  "encrypt cx secret_key value =
     (if value = [] then Inr []
      else case fernet cx secret_key of
        Inl e \<Rightarrow> Inl e
      | Inr k \<Rightarrow> Inr (CIPHERTEXT_PREFIX @ cx_encrypt cx k value))"

definition decrypt :: "'k crypto \<Rightarrow> string option \<Rightarrow> string \<Rightarrow> exn + string" where
  "decrypt cx secret_key value =
     (if value = [] then Inr []
      else if \<not> prefix CIPHERTEXT_PREFIX value then Inl decryption_error
      else case fernet cx secret_key of
        Inl e \<Rightarrow> Inl e
      | Inr k \<Rightarrow>
          (case cx_decrypt cx k (drop (length CIPHERTEXT_PREFIX) value) of
             None \<Rightarrow> Inl decryption_error
           | Some v \<Rightarrow> Inr v))"

section \<open>Access to one identity\<close>

definition unknown_field :: exn where
  "unknown_field = PythonError ''ValueError''"

definition get_secret ::
  "'k crypto \<Rightarrow> string option \<Rightarrow> engine_auth_material \<Rightarrow> string \<Rightarrow> exn + string" where
  "get_secret cx secret_key m name =
     (if name \<notin> set AUTH_MATERIAL_FIELDS then Inl unknown_field
      else decrypt cx secret_key (ciphertext_of name m))"

definition set_secret ::
  "'k crypto \<Rightarrow> string option \<Rightarrow> engine_auth_material \<Rightarrow> string \<Rightarrow> string \<Rightarrow> exn + engine_auth_material" where
  "set_secret cx secret_key m name value =
     (if name \<notin> set AUTH_MATERIAL_FIELDS then Inl unknown_field
      else case encrypt cx secret_key value of
        Inl e \<Rightarrow> Inl e
      | Inr t \<Rightarrow> Inr (set_ciphertext name t m))"

definition clear_secret :: "'k crypto \<Rightarrow> engine_auth_material \<Rightarrow> string \<Rightarrow> exn + engine_auth_material" where
  "clear_secret cx m name = set_secret cx None m name []"

definition is_configured :: "engine_auth_material \<Rightarrow> string \<Rightarrow> exn + bool" where
  "is_configured m name =
     (if name \<notin> set AUTH_MATERIAL_FIELDS then Inl unknown_field
      else Inr (ciphertext_of name m \<noteq> []))"

definition configured :: "engine_auth_material \<Rightarrow> string \<Rightarrow> bool" where
  "configured m name = (is_configured m name = Inr True)"

definition auth_clean :: "engine_auth_material \<Rightarrow> exn + unit" where
  "auth_clean m =
     (if length (filter (\<lambda>v. v \<noteq> None) [am_engine_id m, am_policy_id m, am_cluster_id m]) \<noteq> 1
      then Inl (ValidationError [] ''Choose exactly one engine, policy, or cluster.'') else Inr ())"

definition cache_identity :: "engine_auth_material \<Rightarrow> string" where
  "cache_identity m = (case am_pk m of None \<Rightarrow> ''None'' | Some k \<Rightarrow> digits k) @ '':'' @ digits (am_revision m)"

definition token_cache_key :: "engine_auth_material \<Rightarrow> string" where
  "token_cache_key m = ''netbox_openbao:token:'' @ cache_identity m"

text \<open>The part of a stored ciphertext before its first colon, over all configured fields.\<close>

definition ciphertext_version :: "engine_auth_material \<Rightarrow> string" where
  "ciphertext_version m =
     (let vs = remdups (map (\<lambda>n. hd (split_on (CHR '':'') (ciphertext_of n m)))
                          (filter (configured m) AUTH_MATERIAL_FIELDS))
      in case vs of [] \<Rightarrow> [] | [v] \<Rightarrow> v | _ \<Rightarrow> ''mixed'')"

section \<open>Saving\<close>

text \<open>
  The columns an update may submit, as (name, attribute) pairs. An instance remembers the
  values it was loaded with (\<open>_loaded_auth_values\<close>, here the attributes captured and the
  instance they were captured from); an update submits what differs from them, merges it
  onto the row locked \<^verbatim>\<open>FOR UPDATE\<close> and increments that row's revision.
\<close>

definition auth_columns :: "(string \<times> string) list" where
  "auth_columns =
     [(''engine'', ''engine_id''), (''policy'', ''policy_id''), (''cluster'', ''cluster_id'')]
     @ map (\<lambda>n. (n @ ''_ciphertext'', n @ ''_ciphertext'')) AUTH_MATERIAL_FIELDS"

definition copy_column :: "string \<Rightarrow> engine_auth_material \<Rightarrow> engine_auth_material \<Rightarrow> engine_auth_material" where
  "copy_column a src dst =
     (if a = ''engine_id'' then dst\<lparr>am_engine_id := am_engine_id src\<rparr>
      else if a = ''policy_id'' then dst\<lparr>am_policy_id := am_policy_id src\<rparr>
      else if a = ''cluster_id'' then dst\<lparr>am_cluster_id := am_cluster_id src\<rparr>
      else set_ciphertext (take (length a - 11) a) (ciphertext_of (take (length a - 11) a) src) dst)"

definition column_differs :: "string \<Rightarrow> engine_auth_material \<Rightarrow> engine_auth_material \<Rightarrow> bool" where
  "column_differs a x y =
     (if a = ''engine_id'' then am_engine_id x \<noteq> am_engine_id y
      else if a = ''policy_id'' then am_policy_id x \<noteq> am_policy_id y
      else if a = ''cluster_id'' then am_cluster_id x \<noteq> am_cluster_id y
      else ciphertext_of (take (length a - 11) a) x \<noteq> ciphertext_of (take (length a - 11) a) y)"

definition submitted_fields ::
  "string list option \<Rightarrow> engine_auth_material \<Rightarrow> string list \<times> engine_auth_material \<Rightarrow> string list" where
  "submitted_fields update_fields self loaded =
     (case update_fields of
        Some names \<Rightarrow> map snd (filter (\<lambda>(n, a). n \<in> set names \<or> a \<in> set names) auth_columns)
      | None \<Rightarrow>
          map snd (filter (\<lambda>(n, a). a \<notin> set (fst loaded) \<or> column_differs a self (snd loaded)) auth_columns))"

definition owner_taken :: "auth_tbl \<Rightarrow> nat option \<Rightarrow> engine_auth_material \<Rightarrow> bool" where
  "owner_taken t self_pk m =
     list_ex (\<lambda>(k, r). Some k \<noteq> self_pk \<and>
        (am_engine_id m \<noteq> None \<and> am_engine_id r = am_engine_id m \<or>
         am_policy_id m \<noteq> None \<and> am_policy_id r = am_policy_id m \<or>
         am_cluster_id m \<noteq> None \<and> am_cluster_id r = am_cluster_id m)) t"

text \<open>The one-owner check constraint and the one-to-one columns of the table.\<close>

definition auth_row_ok :: "auth_tbl \<Rightarrow> nat option \<Rightarrow> engine_auth_material \<Rightarrow> bool" where
  "auth_row_ok t self_pk m = (auth_clean m = Inr () \<and> \<not> owner_taken t self_pk m)"

definition auth_save ::
  "int \<Rightarrow> string list option \<Rightarrow> engine_auth_material \<Rightarrow> string list \<times> engine_auth_material \<Rightarrow> nat
   \<Rightarrow> auth_tbl \<Rightarrow> exn + engine_auth_material \<times> auth_tbl \<times> nat option" where
  "auth_save now update_fields self loaded new_pk t =
     (case am_pk self of
        None \<Rightarrow>
          if auth_row_ok t None self
          then let saved = self\<lparr>am_pk := Some new_pk, am_last_updated := Some now\<rparr>
               in Inr (saved, t @ [(new_pk, saved)], None)
          else Inl IntegrityError
      | Some k \<Rightarrow>
          (case row t k of
             None \<Rightarrow> Inl ObjectDoesNotExist
           | Some locked \<Rightarrow>
               (let merged = fold (\<lambda>a m. copy_column a self m) (submitted_fields update_fields self loaded) locked;
                    saved = merged\<lparr>am_revision := am_revision locked + 1, am_last_updated := Some now\<rparr>
                in if auth_row_ok t (Some k) saved
                   then Inr (saved, put_row k saved t, Some (am_revision locked))
                   else Inl IntegrityError)))"

text \<open>\<open>reencrypt\<close>: every configured value is decrypted under the old key before any is
  encrypted again, so one that cannot be opened changes nothing.\<close>

fun decrypt_all ::
  "'k crypto \<Rightarrow> string \<Rightarrow> engine_auth_material \<Rightarrow> string list \<Rightarrow> exn + (string \<times> string) list" where
  "decrypt_all cx old m [] = Inr []"
| "decrypt_all cx old m (n # ns) =
     (if configured m n then
        (case get_secret cx (Some old) m n of
           Inl e \<Rightarrow> Inl e
         | Inr v \<Rightarrow> (case decrypt_all cx old m ns of Inl e \<Rightarrow> Inl e | Inr vs \<Rightarrow> Inr ((n, v) # vs)))
      else decrypt_all cx old m ns)"

fun set_secrets ::
  "'k crypto \<Rightarrow> engine_auth_material \<Rightarrow> (string \<times> string) list \<Rightarrow> exn + engine_auth_material" where
  "set_secrets cx m [] = Inr m"
| "set_secrets cx m ((n, v) # vs) =
     (case set_secret cx None m n v of Inl e \<Rightarrow> Inl e | Inr m' \<Rightarrow> set_secrets cx m' vs)"

definition reencrypt ::
  "'k crypto \<Rightarrow> int \<Rightarrow> string \<Rightarrow> engine_auth_material \<Rightarrow> string list \<times> engine_auth_material \<Rightarrow> nat
   \<Rightarrow> auth_tbl \<Rightarrow> exn + engine_auth_material \<times> auth_tbl \<times> nat option" where
  "reencrypt cx now old m loaded new_pk t =
     (case decrypt_all cx old m AUTH_MATERIAL_FIELDS of
        Inl e \<Rightarrow> Inl e
      | Inr values \<Rightarrow>
          (case set_secrets cx m values of
             Inl e \<Rightarrow> Inl e
           | Inr m' \<Rightarrow> auth_save now None m' loaded new_pk t))"

text \<open>What event and changelog serializers see: identifiers, the revision and one
  configured flag per field.\<close>

datatype serialized = SNat "nat option" | STime "int option" | SBool bool

definition serialize_object :: "string list \<Rightarrow> engine_auth_material \<Rightarrow> (string \<times> serialized) list" where
  "serialize_object exclude m =
     filter (\<lambda>(k, _). k \<notin> set exclude)
       ([(''id'', SNat (am_pk m)), (''engine'', SNat (am_engine_id m)), (''policy'', SNat (am_policy_id m)),
         (''cluster'', SNat (am_cluster_id m)), (''revision'', SNat (Some (am_revision m))),
         (''last_updated'', STime (am_last_updated m))]
        @ map (\<lambda>n. (n @ ''_configured'', SBool (configured m n))) AUTH_MATERIAL_FIELDS)"

section \<open>Reading back what was stored\<close>

lemma fields_cases:
  assumes "n \<in> set AUTH_MATERIAL_FIELDS"
  obtains "n = ''role_id''" | "n = ''secret_id''" | "n = ''token''" | "n = ''k8s_role''"
    | "n = ''k8s_jwt_path''" | "n = ''client_cert''" | "n = ''client_key''"
proof -
  from assms have "n = ''role_id'' \<or> n = ''secret_id'' \<or> n = ''token'' \<or> n = ''k8s_role''
    \<or> n = ''k8s_jwt_path'' \<or> n = ''client_cert'' \<or> n = ''client_key''"
    by (simp add: AUTH_MATERIAL_FIELDS_def)
  then show thesis by (elim disjE) (fact that)+
qed

lemma ciphertext_of_set_same:
  "n \<in> set AUTH_MATERIAL_FIELDS \<Longrightarrow> ciphertext_of n (set_ciphertext n v m) = v"
  by (erule fields_cases) (simp_all add: ciphertext_of_def set_ciphertext_def)

lemma ciphertext_of_set_other:
  assumes "n \<in> set AUTH_MATERIAL_FIELDS" and "n' \<in> set AUTH_MATERIAL_FIELDS" and "n \<noteq> n'"
  shows "ciphertext_of n (set_ciphertext n' v m) = ciphertext_of n m"
  using assms(2)
proof (cases rule: fields_cases)
  case 7
  with assms(1,3) have "n \<in> set (butlast AUTH_MATERIAL_FIELDS)"
    by (simp add: AUTH_MATERIAL_FIELDS_def)
  with 7 show ?thesis
    by (auto simp: ciphertext_of_def set_ciphertext_def AUTH_MATERIAL_FIELDS_def)
qed (use assms(3) in \<open>simp_all add: ciphertext_of_def set_ciphertext_def\<close>)

lemmas ciphertext_of_set = ciphertext_of_set_same ciphertext_of_set_other

lemma encrypt_prefix: "encrypt cx sk v = Inr t \<Longrightarrow> t \<noteq> [] \<Longrightarrow> prefix CIPHERTEXT_PREFIX t"
  by (auto simp: encrypt_def split: if_splits sum.splits)

lemma encrypt_empty_iff: "encrypt cx sk v = Inr t \<Longrightarrow> t = [] \<longleftrightarrow> v = []"
  by (auto simp: encrypt_def CIPHERTEXT_PREFIX_def split: if_splits sum.splits)

lemma decrypt_encrypt:
  "fernet_roundtrip cx \<Longrightarrow> encrypt cx sk v = Inr t \<Longrightarrow> decrypt cx sk t = Inr v"
  by (auto simp: encrypt_def decrypt_def fernet_roundtrip_def CIPHERTEXT_PREFIX_def
      split: if_splits sum.splits)

lemma set_secret_ciphertext:
  assumes "set_secret cx sk m n v = Inr m'"
  obtains t where "n \<in> set AUTH_MATERIAL_FIELDS" "encrypt cx sk v = Inr t" "m' = set_ciphertext n t m"
  using assms by (auto simp: set_secret_def split: if_splits sum.splits)

lemma get_set_secret:
  assumes "fernet_roundtrip cx" and "set_secret cx sk m n v = Inr m'"
  shows "get_secret cx sk m' n = Inr v"
  using assms by (auto elim!: set_secret_ciphertext simp: get_secret_def ciphertext_of_set_same decrypt_encrypt)

lemma get_set_secret_other:
  assumes "set_secret cx sk m n v = Inr m'" and "n' \<in> set AUTH_MATERIAL_FIELDS" and "n' \<noteq> n"
  shows "get_secret cx sk' m' n' = get_secret cx sk' m n'"
  using assms by (auto elim!: set_secret_ciphertext simp: get_secret_def ciphertext_of_set_other)

section \<open>Merging an update\<close>

lemma ciphertext_column:
  "n @ ''_ciphertext'' \<noteq> ''engine_id''" "n @ ''_ciphertext'' \<noteq> ''policy_id''"
  "n @ ''_ciphertext'' \<noteq> ''cluster_id''"
  "take (length (n @ ''_ciphertext'') - 11) (n @ ''_ciphertext'') = n"
  by (auto dest: arg_cong [where f = last])

lemma copy_column_ciphertext_eq:
  "copy_column (n @ ''_ciphertext'') src dst = set_ciphertext n (ciphertext_of n src) dst"
  unfolding copy_column_def by (simp only: ciphertext_column if_False)

lemma column_differs_ciphertext_eq:
  "column_differs (n @ ''_ciphertext'') x y = (ciphertext_of n x \<noteq> ciphertext_of n y)"
  unfolding column_differs_def by (simp only: ciphertext_column if_False)

lemma auth_columns_cases:
  assumes "a \<in> set (map snd auth_columns)"
  obtains "a = ''engine_id''" | "a = ''policy_id''" | "a = ''cluster_id''"
    | n where "n \<in> set AUTH_MATERIAL_FIELDS" "a = n @ ''_ciphertext''"
  using assms by (auto simp: auth_columns_def)

lemma copy_column_ciphertext:
  assumes "a \<in> set (map snd auth_columns)" and "n \<in> set AUTH_MATERIAL_FIELDS"
  shows "ciphertext_of n (copy_column a src dst) =
           (if a = n @ ''_ciphertext'' then ciphertext_of n src else ciphertext_of n dst)"
proof -
  have owner: "ciphertext_of n (m\<lparr>am_engine_id := f\<rparr>) = ciphertext_of n m"
    "ciphertext_of n (m\<lparr>am_policy_id := f\<rparr>) = ciphertext_of n m"
    "ciphertext_of n (m\<lparr>am_cluster_id := f\<rparr>) = ciphertext_of n m" for m f
    by (simp_all add: ciphertext_of_def)
  note ne = ciphertext_column(1-3) [of n, symmetric]
  from assms(1) show ?thesis
  proof (cases rule: auth_columns_cases)
    case (4 n')
    then show ?thesis
      using assms(2) by (cases "n = n'") (simp_all add: copy_column_ciphertext_eq ciphertext_of_set)
  qed (simp_all only: ne if_False, simp_all add: copy_column_def owner)
qed

lemma fold_copy_column_ciphertext:
  assumes "set as \<subseteq> set (map snd auth_columns)" and "n \<in> set AUTH_MATERIAL_FIELDS"
  shows "ciphertext_of n (fold (\<lambda>a m. copy_column a src m) as dst) =
           (if n @ ''_ciphertext'' \<in> set as then ciphertext_of n src else ciphertext_of n dst)"
  using assms(1)
proof (induction as arbitrary: dst)
  case (Cons a as)
  then have "ciphertext_of n (copy_column a src dst) =
      (if a = n @ ''_ciphertext'' then ciphertext_of n src else ciphertext_of n dst)"
    by (intro copy_column_ciphertext assms(2)) simp
  with Cons show ?case by (cases "a = n @ ''_ciphertext''") simp_all
qed simp

lemma set_submitted_fields: "set (submitted_fields u self loaded) \<subseteq> set (map snd auth_columns)"
  by (auto simp: submitted_fields_def split: option.splits)

lemma submitted_ciphertext:
  assumes "n \<in> set AUTH_MATERIAL_FIELDS"
  shows "n @ ''_ciphertext'' \<in> set (submitted_fields None self loaded) \<longleftrightarrow>
           n @ ''_ciphertext'' \<notin> set (fst loaded) \<or> ciphertext_of n self \<noteq> ciphertext_of n (snd loaded)"
proof -
  have "(n @ ''_ciphertext'', n @ ''_ciphertext'') \<in> set auth_columns"
    using assms by (simp add: auth_columns_def)
  then show ?thesis
    by (auto simp: submitted_fields_def column_differs_ciphertext_eq image_iff) blast?
qed

lemma ciphertext_of_revision [simp]:
  "ciphertext_of n (m\<lparr>am_revision := r, am_last_updated := u\<rparr>) = ciphertext_of n m"
  by (simp add: ciphertext_of_def)

lemma auth_save_update:
  assumes "auth_save now u self loaded npk t = Inr (saved, t', prev)" and "am_pk self = Some k"
  obtains locked where "row t k = Some locked" "prev = Some (am_revision locked)"
    "am_revision saved = am_revision locked + 1" "t' = put_row k saved t"
    "saved = (fold (\<lambda>a m. copy_column a self m) (submitted_fields u self loaded) locked)
               \<lparr>am_revision := am_revision locked + 1, am_last_updated := Some now\<rparr>"
proof (cases "row t k")
  case (Some locked)
  define saved' where "saved' = (fold (\<lambda>a m. copy_column a self m) (submitted_fields u self loaded) locked)
               \<lparr>am_revision := am_revision locked + 1, am_last_updated := Some now\<rparr>"
  have "auth_save now u self loaded npk t =
      (if auth_row_ok t (Some k) saved' then Inr (saved', put_row k saved' t, Some (am_revision locked))
       else Inl IntegrityError)"
    unfolding auth_save_def saved'_def Let_def by (simp only: assms(2) Some option.case)
  with assms(1) have "saved = saved'" "t' = put_row k saved t" "prev = Some (am_revision locked)"
    by (auto split: if_splits)
  then show thesis using that [OF Some] by (simp add: saved'_def)
qed (use assms in \<open>simp add: auth_save_def\<close>)

lemma auth_save_ciphertext:
  assumes "auth_save now None self loaded npk t = Inr (saved, t', prev)" and "am_pk self = Some k"
    and "row t k = Some locked" and "n \<in> set AUTH_MATERIAL_FIELDS"
  shows "ciphertext_of n saved =
           (if n @ ''_ciphertext'' \<notin> set (fst loaded) \<or> ciphertext_of n self \<noteq> ciphertext_of n (snd loaded)
            then ciphertext_of n self else ciphertext_of n locked)"
  using assms(1,2)
proof (rule auth_save_update)
  fix locked'
  assume "row t k = Some locked'"
    and "saved = (fold (\<lambda>a m. copy_column a self m) (submitted_fields None self loaded) locked')
               \<lparr>am_revision := am_revision locked' + 1, am_last_updated := Some now\<rparr>"
  then show ?thesis
    using assms(3) by (simp add: fold_copy_column_ciphertext [OF set_submitted_fields assms(4)]
        submitted_ciphertext [OF assms(4)])
qed

section \<open>Re-encryption\<close>

lemma decrypt_all_entries:
  "decrypt_all cx old m ns = Inr vs \<Longrightarrow> distinct ns \<Longrightarrow>
     map fst vs = filter (configured m) ns \<and> (\<forall>(n, v) \<in> set vs. get_secret cx (Some old) m n = Inr v)"
  by (induction ns arbitrary: vs) (auto split: if_splits sum.splits)

lemma set_secrets_get:
  assumes "fernet_roundtrip cx" and "set_secrets cx m vs = Inr m'" and "distinct (map fst vs)"
    and "n \<in> set AUTH_MATERIAL_FIELDS"
  shows "get_secret cx None m' n =
           (case map_of vs n of Some v \<Rightarrow> Inr v | None \<Rightarrow> get_secret cx None m n)"
  using assms
proof (induction cx m vs rule: set_secrets.induct)
  case (2 cx m n' v vs)
  from "2.prems"(2) obtain m1 where m1: "set_secret cx None m n' v = Inr m1"
    and rest: "set_secrets cx m1 vs = Inr m'" by (auto split: sum.splits)
  have ih: "get_secret cx None m' n =
      (case map_of vs n of Some v \<Rightarrow> Inr v | None \<Rightarrow> get_secret cx None m1 n)"
    using "2.IH"[OF m1 "2.prems"(1) rest] "2.prems" by simp
  show ?case
  proof (cases "n = n'")
    case True
    with "2.prems"(3) have "map_of vs n = None" by (simp add: map_of_eq_None_iff)
    with ih True get_set_secret[OF "2.prems"(1) m1] show ?thesis by simp
  next
    case False
    with ih get_set_secret_other[OF m1 "2.prems"(4), of None] show ?thesis
      by (simp split: option.splits)
  qed
qed simp

section \<open>Properties\<close>

text \<open>A toy cipher with the documented round trip, for the examples.\<close>

definition example_crypto :: "string crypto" where
  "example_crypto =
     \<lparr>cx_derive = (\<lambda>k. k), cx_encrypt = (\<lambda>k v. k @ v),
      cx_decrypt = (\<lambda>k t. if prefix k t then Some (drop (length k) t) else None), cx_secret_key = Some ''new''\<rparr>"

definition example_identity :: engine_auth_material where
  "example_identity = \<lparr>am_pk = Some 1, am_engine_id = Some 1, am_policy_id = None, am_cluster_id = None,
     am_role_id_ciphertext = ''v1:oldrole'', am_secret_id_ciphertext = ''v1:oldsid'', am_token_ciphertext = [],
     am_k8s_role_ciphertext = [], am_k8s_jwt_path_ciphertext = [], am_client_cert_ciphertext = [],
     am_client_key_ciphertext = [], am_revision = 1, am_last_updated = None\<rparr>"

text \<open>An instance as it was loaded: every column is captured.\<close>

definition loaded_from :: "engine_auth_material \<Rightarrow> string list \<times> engine_auth_material" where
  "loaded_from m = (map snd auth_columns, m)"

lemma example_roundtrip: "fernet_roundtrip example_crypto"
  by (simp add: fernet_roundtrip_def example_crypto_def)

lemma field_columns:
  "n \<in> set AUTH_MATERIAL_FIELDS \<Longrightarrow> n @ ''_ciphertext'' \<in> set (fst (loaded_from m))"
  by (auto simp: loaded_from_def auth_columns_def)

lemma am_pk_set_ciphertext [simp]:
  "am_pk (set_ciphertext n v m) = am_pk m" "am_revision (set_ciphertext n v m) = am_revision m"
  by (simp_all add: set_ciphertext_def)

lemma am_pk_set_secrets: "set_secrets cx m vs = Inr m' \<Longrightarrow> am_pk m' = am_pk m"
  by (induction cx m vs rule: set_secrets.induct) (auto split: sum.splits elim!: set_secret_ciphertext)

text \<open>Secrets of a service identity round-trip through the encrypted columns: after storing a value in a field,
  reading that field under the same key gives the value, and every other field reads as before.\<close>

theorem secret_roundtrip:
  assumes "fernet_roundtrip cx" and "set_secret cx sk m n v = Inr m'"
  shows "get_secret cx sk m' n = Inr v \<and>
    (\<forall>n'. n' \<in> set AUTH_MATERIAL_FIELDS - {n} \<longrightarrow> get_secret cx sk m' n' = get_secret cx sk m n')"
  using get_set_secret [OF assms] get_set_secret_other [OF assms(2)] by blast

theorem secret_roundtrip_witness:
  "get_secret example_crypto None (projr (set_secret example_crypto None example_identity ''token'' ''t0k'')) ''token'' = Inr ''t0k''"
proof -
  have "set_secret example_crypto None example_identity ''token'' ''t0k'' =
      Inr (projr (set_secret example_crypto None example_identity ''token'' ''t0k''))"
    by code_simp
  from secret_roundtrip [OF example_roundtrip this] show ?thesis by blast
qed

text \<open>C15: Concurrent edits of one identity do not overwrite each other: two sessions load the same row, each changes a
  different secret and saves; the row then holds both new ciphertexts and its revision counts both saves.\<close>

theorem concurrent_edits_merge:
  assumes r: "row t k = Some m" "am_pk m = Some k"
    and n: "n1 \<in> set AUTH_MATERIAL_FIELDS" "n2 \<in> set AUTH_MATERIAL_FIELDS" "n1 \<noteq> n2"
    and s1: "auth_save now1 None (set_ciphertext n1 v1 m) (loaded_from m) p1 t = Inr (m1, t1, prev1)"
    and s2: "auth_save now2 None (set_ciphertext n2 v2 m) (loaded_from m) p2 t1 = Inr (m2, t2, prev2)"
  shows "row t2 k = Some m2 \<and> ciphertext_of n1 m2 = v1 \<and> ciphertext_of n2 m2 = v2 \<and> am_revision m2 = am_revision m + 2"
proof -
  have pk: "am_pk (set_ciphertext n v m) = Some k" for n v using r by simp
  have snd_loaded: "snd (loaded_from m) = m" by (simp add: loaded_from_def)
  obtain l1 where l1: "row t k = Some l1" "t1 = put_row k m1 t" "am_revision m1 = am_revision l1 + 1"
    using auth_save_update [OF s1 pk] by metis
  then have row1: "row t1 k = Some m1" by simp
  obtain l2 where l2: "row t1 k = Some l2" "t2 = put_row k m2 t1" "am_revision m2 = am_revision l2 + 1"
    using auth_save_update [OF s2 pk] by metis
  have c1: "ciphertext_of n m1 = (if ciphertext_of n (set_ciphertext n1 v1 m) \<noteq> ciphertext_of n m
       then ciphertext_of n (set_ciphertext n1 v1 m) else ciphertext_of n m)" if "n \<in> set AUTH_MATERIAL_FIELDS" for n
    using auth_save_ciphertext [OF s1 pk r(1) that] field_columns [OF that, of m] by (simp add: snd_loaded)
  have c2: "ciphertext_of n m2 = (if ciphertext_of n (set_ciphertext n2 v2 m) \<noteq> ciphertext_of n m
       then ciphertext_of n (set_ciphertext n2 v2 m) else ciphertext_of n m1)" if "n \<in> set AUTH_MATERIAL_FIELDS" for n
    using auth_save_ciphertext [OF s2 pk row1 that] field_columns [OF that, of m] by (simp add: snd_loaded)
  have "ciphertext_of n1 m2 = v1" "ciphertext_of n2 m2 = v2"
    using c1 [OF n(1)] c2 [OF n(1)] c1 [OF n(2)] c2 [OF n(2)] n by (simp_all add: ciphertext_of_set)
  moreover have "am_revision m2 = am_revision m + 2" using l1 l2 row1 r by simp
  ultimately show ?thesis using l2 by simp
qed

theorem concurrent_edits_merge_witness:
  "\<exists>m2 t2 prev. auth_save 9 None (set_ciphertext ''token'' ''v1:t'' example_identity) (loaded_from example_identity) 7
       (fst (snd (projr (auth_save 8 None (set_ciphertext ''role_id'' ''v1:r'' example_identity)
          (loaded_from example_identity) 7 [(1, example_identity)])))) = Inr (m2, t2, prev) \<and>
     ciphertext_of ''role_id'' m2 = ''v1:r'' \<and> ciphertext_of ''token'' m2 = ''v1:t''"
proof -
  let ?s1 = "auth_save 8 None (set_ciphertext ''role_id'' ''v1:r'' example_identity) (loaded_from example_identity) 7 [(1, example_identity)]"
  let ?t1 = "fst (snd (projr ?s1))"
  let ?s2 = "auth_save 9 None (set_ciphertext ''token'' ''v1:t'' example_identity) (loaded_from example_identity) 7 ?t1"
  have ok: "\<not> isl ?s1" "\<not> isl ?s2" by code_simp+
  have e: "\<not> isl R \<Longrightarrow> R = Inr (fst (projr R), fst (snd (projr R)), snd (snd (projr R)))"
    for R :: "exn + engine_auth_material \<times> auth_tbl \<times> nat option" by (cases R) simp_all
  have r: "row [(1, example_identity)] 1 = Some example_identity" "am_pk example_identity = Some 1"
    "''role_id'' \<in> set AUTH_MATERIAL_FIELDS" "''token'' \<in> set AUTH_MATERIAL_FIELDS" "''role_id'' \<noteq> ''token''"
    by (simp_all add: row_def example_identity_def AUTH_MATERIAL_FIELDS_def)
  from concurrent_edits_merge [OF r e [OF ok(1)] e [OF ok(2)]] e [OF ok(2)] show ?thesis by blast
qed


text \<open>Cached login tokens are never shared: two stored identities have the same token cache key only if they are
  the same row at the same revision, and saving a change moves an identity to a key no earlier revision used.\<close>

theorem token_cache_isolated:
  assumes "am_pk m = Some k" and "am_pk m' = Some k'"
  shows "(token_cache_key m = token_cache_key m' \<longleftrightarrow> k = k' \<and> am_revision m = am_revision m') \<and>
    (auth_save now None m loaded npk t = Inr (saved, t', prev) \<longrightarrow>
       prev \<noteq> None \<and> token_cache_key saved \<noteq> token_cache_key (m\<lparr>am_revision := the prev\<rparr>))"
proof -
  have key: "cache_identity x = digits i @ CHR '':'' # digits (am_revision x)" if "am_pk x = Some i" for x i
    using that by (simp add: cache_identity_def)
  have eq: "token_cache_key x = token_cache_key y \<longleftrightarrow> i = j \<and> am_revision x = am_revision y"
    if "am_pk x = Some i" "am_pk y = Some j" for x y i j
    by (simp add: token_cache_key_def key [OF that(1)] key [OF that(2)] append_sep_eq colon_not_digit)
  have "prev \<noteq> None \<and> token_cache_key saved \<noteq> token_cache_key (m\<lparr>am_revision := the prev\<rparr>)"
    if sv: "auth_save now None m loaded npk t = Inr (saved, t', prev)"
  proof -
    obtain l :: engine_auth_material where l: "prev = Some (am_revision l)" "am_revision saved = am_revision l + 1"
      by (rule auth_save_update [OF sv assms(1)]) (rule that)
    have ne: "digits i @ CHR '':'' # digits (am_revision saved) \<noteq> digits j @ CHR '':'' # digits (am_revision l)" for i j
      using l by (simp add: append_sep_eq colon_not_digit)
    have ne': "''None'' @ CHR '':'' # digits (am_revision saved) \<noteq> digits j @ CHR '':'' # digits (am_revision l)" for j
      using l(2) by (subst append_sep_eq) (simp_all add: colon_not_digit)
    show ?thesis
      using l(1) ne ne' by (simp add: token_cache_key_def cache_identity_def assms(1) split: option.splits)
  qed
  with eq [OF assms] show ?thesis by blast
qed

theorem token_cache_isolated_witness:
  "token_cache_key example_identity \<noteq> token_cache_key (example_identity\<lparr>am_revision := 2\<rparr>)"
  using token_cache_isolated [of example_identity 1 "example_identity\<lparr>am_revision := 2\<rparr>" 1]
  by (simp add: example_identity_def)

text \<open>C19: Re-encryption keeps every secret: when it succeeds on a freshly loaded row, each configured field reads under the
  current key what it read under the old key, and the revision moves on.\<close>

theorem reencrypt_keeps_secrets:
  assumes rt: "fernet_roundtrip cx" and r: "row t k = Some m" "am_pk m = Some k"
    and run: "reencrypt cx now old m (loaded_from m) npk t = Inr (m', t', prev)"
  shows "am_revision m' = am_revision m + 1 \<and>
    (\<forall>n. n \<in> set AUTH_MATERIAL_FIELDS \<and> configured m n \<longrightarrow> get_secret cx None m' n = get_secret cx (Some old) m n)"
proof -
  from run obtain vs m1 where vs: "decrypt_all cx old m AUTH_MATERIAL_FIELDS = Inr vs" and m1: "set_secrets cx m vs = Inr m1"
    and sv: "auth_save now None m1 (loaded_from m) npk t = Inr (m', t', prev)"
    by (auto simp: reencrypt_def split: sum.splits)
  have dist: "distinct AUTH_MATERIAL_FIELDS" by (simp add: AUTH_MATERIAL_FIELDS_def)
  note ent = decrypt_all_entries [OF vs dist]
  have pk: "am_pk m1 = Some k" using am_pk_set_secrets [OF m1] r by simp
  obtain l where l: "row t k = Some l" "am_revision m' = am_revision l + 1"
    using auth_save_update [OF sv pk] by metis
  have "get_secret cx None m' n = get_secret cx (Some old) m n" if n: "n \<in> set AUTH_MATERIAL_FIELDS" "configured m n" for n
  proof -
    have "ciphertext_of n m' = ciphertext_of n m1"
      using auth_save_ciphertext [OF sv pk r(1) n(1)] field_columns [OF n(1), of m] by (simp add: loaded_from_def split: if_splits)
    then have eq: "get_secret cx None m' n = get_secret cx None m1 n" by (simp add: get_secret_def)
    have "n \<in> set (map fst vs)" using ent n by simp
    then have "map_of vs n \<noteq> None" by (simp add: map_of_eq_None_iff)
    then obtain v where v: "map_of vs n = Some v" by blast
    then have "(n, v) \<in> set vs" by (rule map_of_SomeD)
    with ent have "get_secret cx (Some old) m n = Inr v" by blast
    moreover have "distinct (map fst vs)" using ent dist by simp
    ultimately show ?thesis using set_secrets_get [OF rt m1 _ n(1)] v eq by simp
  qed
  with l r show ?thesis by simp
qed

theorem reencrypt_keeps_secrets_witness:
  "get_secret example_crypto None (fst (projr (reencrypt example_crypto 5 ''old'' example_identity (loaded_from example_identity)
      7 [(1, example_identity)]))) ''role_id'' = Inr ''role''"
proof -
  let ?r = "reencrypt example_crypto 5 ''old'' example_identity (loaded_from example_identity) 7 [(1, example_identity)]"
  have "\<not> isl ?r" by code_simp
  then have e: "?r = Inr (fst (projr ?r), fst (snd (projr ?r)), snd (snd (projr ?r)))" by (cases ?r) simp_all
  have "''role_id'' \<in> set AUTH_MATERIAL_FIELDS" "configured example_identity ''role_id''"
    "get_secret example_crypto (Some ''old'') example_identity ''role_id'' = Inr ''role''" by code_simp+
  with reencrypt_keeps_secrets [OF example_roundtrip _ _ e] show ?thesis
    by (simp add: row_def example_identity_def)
qed

lemma serialized_keys:
  assumes "k \<in> set (map fst (serialize_object ex m))"
  shows "last k \<noteq> CHR ''t''"
proof -
  let ?flags = "map (\<lambda>n. (n @ ''_configured'', SBool (configured m n))) AUTH_MATERIAL_FIELDS"
  let ?own = "[(''id'', SNat (am_pk m)), (''engine'', SNat (am_engine_id m)), (''policy'', SNat (am_policy_id m)),
         (''cluster'', SNat (am_cluster_id m)), (''revision'', SNat (Some (am_revision m))),
         (''last_updated'', STime (am_last_updated m))]"
  have "k \<in> set (map fst ?own) \<or> k \<in> set (map fst ?flags)"
    using assms unfolding serialize_object_def by (auto simp only: set_map set_filter set_append image_iff)
  moreover have "\<forall>k \<in> set (map fst ?own). last k \<noteq> CHR ''t''" by simp
  moreover have "\<forall>k \<in> set (map fst ?flags). last k \<noteq> CHR ''t''" by simp
  ultimately show ?thesis by blast
qed

text \<open>Event and changelog serialization reveals nothing of a stored secret: two identities that agree on their keys,
  owner, revision, update time and on which fields are configured serialize to the same value, whatever their
  ciphertexts; and the serialized value has no ciphertext entry.\<close>

theorem serialization_hides_ciphertexts:
  assumes "am_pk m' = am_pk m" "am_engine_id m' = am_engine_id m" "am_policy_id m' = am_policy_id m"
    "am_cluster_id m' = am_cluster_id m" "am_revision m' = am_revision m" "am_last_updated m' = am_last_updated m"
    and "\<And>n. n \<in> set AUTH_MATERIAL_FIELDS \<Longrightarrow> configured m' n = configured m n"
  shows "serialize_object ex m' = serialize_object ex m \<and>
    set (map fst (serialize_object ex m)) \<inter> {n @ ''_ciphertext'' | n. True} = {}"
proof
  have flags: "map (\<lambda>n. (n @ ''_configured'', SBool (configured m' n))) AUTH_MATERIAL_FIELDS =
      map (\<lambda>n. (n @ ''_configured'', SBool (configured m n))) AUTH_MATERIAL_FIELDS"
    using assms(7) by simp
  show "serialize_object ex m' = serialize_object ex m"
    unfolding serialize_object_def assms(1-6) flags ..
  show "set (map fst (serialize_object ex m)) \<inter> {n @ ''_ciphertext'' | n. True} = {}"
    using serialized_keys [of _ ex m] by fastforce
qed

theorem serialization_hides_ciphertexts_witness:
  "serialize_object [] (set_ciphertext ''token'' ''v1:other'' (set_ciphertext ''token'' ''v1:one'' example_identity)) =
   serialize_object [] (set_ciphertext ''token'' ''v1:one'' example_identity)"
proof -
  let ?m = "set_ciphertext ''token'' ''v1:one'' example_identity"
  let ?m' = "set_ciphertext ''token'' ''v1:other'' ?m"
  have "configured ?m' n = configured ?m n" if "n \<in> set AUTH_MATERIAL_FIELDS" for n
    using that by (rule fields_cases) (simp_all add: configured_def is_configured_def set_ciphertext_def ciphertext_of_def)
  then show ?thesis
    using serialization_hides_ciphertexts [of ?m' ?m "[]"] by (simp add: set_ciphertext_def)
qed

end
