(* ===== verification/Backend_World.thy ===== *)
theory Backend_World
  imports Auth_Material Backend_Contract
begin

text \<open>
  The process state the backends share: the private temporary files of \<^verbatim>\<open>backends/tls.py\<close>,
  Django's cache with the login tokens, the two pools of HTTP sessions, the backend objects
  themselves, and the remote services (\<open>'w\<close>, a parameter of the model).
\<close>

section \<open>Private temporary files (backends/tls.py)\<close>

text \<open>A file has a mode and contents. \<open>registered\<close> is the module's set of paths to remove at
  exit. \<^verbatim>\<open>mkstemp\<close> names are unique and its files are created with mode 0600.

  The operating system is free to fail. The argument \<open>outcome\<close> says how far the creation of a file
  gets: it is written, \<^verbatim>\<open>mkstemp\<close> itself fails, or setting the mode or writing fails after some of
  the text is on disk. \<open>pf_unlink_fails n\<close> says whether the \<open>n\<close>-th removal of an existing file is
  refused with an \<^verbatim>\<open>OSError\<close>; \<open>pf_refused\<close> records the paths whose removal was.\<close>

datatype tmp_outcome = TmpWritten | TmpNotCreated | TmpWriteFailed nat

record private_files =
  pf_files :: "(string \<times> nat \<times> string) list"
  pf_registered :: "string list"
  pf_counter :: nat
  pf_unlink_fails :: "nat \<Rightarrow> bool"
  pf_unlinks :: nat
  pf_refused :: "string list"

definition tmp_path :: "nat \<Rightarrow> string \<Rightarrow> string" where
  "tmp_path n suf = ''/tmp/netbox-openbao-'' @ digits n @ suf"

text \<open>\<^verbatim>\<open>os.unlink(path)\<close>.\<close>

definition unlink_file :: "string \<Rightarrow> private_files \<Rightarrow> (exn + unit) \<times> private_files" where
  "unlink_file path fs =
     (if path \<notin> set (map fst (pf_files fs)) then (Inl (PythonError ''FileNotFoundError''), fs)
      else
        (let fs1 = fs\<lparr>pf_unlinks := Suc (pf_unlinks fs)\<rparr>
         in if pf_unlink_fails fs (pf_unlinks fs)
            then (Inl (PythonError ''OSError''), fs1\<lparr>pf_refused := List.insert path (pf_refused fs1)\<rparr>)
            else (Inr (), fs1\<lparr>pf_files := AList.delete path (pf_files fs1)\<rparr>)))"

text \<open>A failed write removes the file again; when that removal is refused too, the error is swallowed, the
  file stays and nothing is registered.\<close>

definition materialize_private_pem ::
  "tmp_outcome \<Rightarrow> string \<Rightarrow> string \<Rightarrow> private_files \<Rightarrow> (exn + string) \<times> private_files" where
  "materialize_private_pem outcome value suf fs =
     (let path = tmp_path (pf_counter fs) suf; fs1 = fs\<lparr>pf_counter := Suc (pf_counter fs)\<rparr>
      in case outcome of
           TmpNotCreated \<Rightarrow> (Inl (PythonError ''OSError''), fs)
         | TmpWriteFailed n \<Rightarrow>
             (let fs2 = fs1\<lparr>pf_files := AList.update path (384, take n value) (pf_files fs1)\<rparr>
              in case unlink_file path fs2 of (_, fs3) \<Rightarrow> (Inl (PythonError ''OSError''), fs3))
         | TmpWritten \<Rightarrow>
             (Inr path, fs1\<lparr>pf_files := AList.update path (384, value) (pf_files fs1),
                            pf_registered := List.insert path (pf_registered fs1)\<rparr>))"

text \<open>A file that is already gone is passed over; any other failure ends the loop. In every case the path
  is dropped from the set first (\<^verbatim>\<open>finally\<close>), so it is not tried again.\<close>

fun remove_private_files :: "string list \<Rightarrow> private_files \<Rightarrow> (exn + unit) \<times> private_files" where
  "remove_private_files [] fs = (Inr (), fs)"
| "remove_private_files (p # ps) fs =
     (case unlink_file p fs of (r, fs1) \<Rightarrow>
        let fs2 = fs1\<lparr>pf_registered := removeAll p (pf_registered fs1)\<rparr>
        in case r of
             Inr _ \<Rightarrow> remove_private_files ps fs2
           | Inl e \<Rightarrow> if e = PythonError ''FileNotFoundError'' then remove_private_files ps fs2 else (Inl e, fs2))"

definition cleanup_private_files :: "private_files \<Rightarrow> (exn + unit) \<times> private_files" where
  "cleanup_private_files fs = remove_private_files (pf_registered fs) fs"

text \<open>Every file present is private, and is registered for removal unless a removal of it was refused.\<close>

definition files_accounted :: "private_files \<Rightarrow> bool" where
  "files_accounted fs =
     (fst ` set (pf_files fs) \<subseteq> set (pf_registered fs) \<union> set (pf_refused fs) \<and>
      (\<forall>(_, mode, _) \<in> set (pf_files fs). mode = 384))"

section \<open>The shared process state\<close>

text \<open>
  A pooled session is keyed by the endpoint and, for certificate authentication, by the
  identity revision that connected it; it carries the temporary files it was built from.
  A backend object remembers its engine, the identity it resolved and the client it built.
\<close>

record session_key =
  sk_api_url :: string
  sk_tls_verify :: bool
  sk_ca_cert_path :: string
  sk_identity :: "string option"

record hvac_client =
  cl_url :: string
  cl_namespace :: "string option"
  cl_ca_cert_path :: string \<comment> \<open>\<^verbatim>\<open>verify\<close>: this path when it is not empty, else \<open>cl_tls_verify\<close>\<close>
  cl_tls_verify :: bool
  cl_session :: session_key
  cl_token :: "string option"

record backend_object =
  bo_class :: backend_choice
  bo_engine :: secret_engine
  bo_auth :: "engine_auth_material option"
  bo_client :: "hvac_client option"
  bo_session :: "session_key option"

record 'w backend_world =
  bw_files :: private_files
  bw_cache :: "(string \<times> string \<times> int) list" \<comment> \<open>token and the time it is dropped at\<close>
  bw_sessions :: "(session_key \<times> string list) list" \<comment> \<open>\<^verbatim>\<open>backends/openbao.py\<close>\<close>
  bw_broker_sessions :: "(session_key \<times> string list) list" \<comment> \<open>\<^verbatim>\<open>backends/broker.py\<close>\<close>
  bw_objects :: "backend_object tbl"
  bw_next_object :: nat
  bw_remote :: 'w

definition cache_get :: "int \<Rightarrow> string \<Rightarrow> 'w backend_world \<Rightarrow> string option" where
  "cache_get now k x =
     (case map_of (bw_cache x) k of
        None \<Rightarrow> None
      | Some (token, deadline) \<Rightarrow> if now < deadline then Some token else None)"

definition cache_set :: "int \<Rightarrow> string \<Rightarrow> string \<Rightarrow> int \<Rightarrow> 'w backend_world \<Rightarrow> 'w backend_world" where
  "cache_set now k token ttl x = x\<lparr>bw_cache := AList.update k (token, now + ttl) (bw_cache x)\<rparr>"

definition cache_delete :: "string \<Rightarrow> 'w backend_world \<Rightarrow> 'w backend_world" where
  "cache_delete k x = x\<lparr>bw_cache := AList.delete k (bw_cache x)\<rparr>"

definition get_object :: "nat \<Rightarrow> ('w backend_world, exn, backend_object) sem" where
  "get_object b = bnd (gets (\<lambda>x. row (bw_objects x) b)) (\<lambda>r. get_or r (PythonError ''AttributeError''))"

definition set_object :: "nat \<Rightarrow> backend_object \<Rightarrow> ('w backend_world, exn, unit) sem" where
  "set_object b ob = modify (\<lambda>x. x\<lparr>bw_objects := put_row b ob (bw_objects x)\<rparr>)"

text \<open>A call on the remote services.\<close>

definition remote :: "('w, 'e, 'a) sem \<Rightarrow> ('w backend_world, 'e, 'a) sem" where
  "remote m x = (case m (bw_remote x) of (r, w) \<Rightarrow> (r, x\<lparr>bw_remote := w\<rparr>))"

definition with_files ::
  "(private_files \<Rightarrow> (exn + 'a) \<times> private_files) \<Rightarrow> ('w backend_world, exn, 'a) sem" where
  "with_files f x = (case f (bw_files x) of (r, fs) \<Rightarrow> (r, x\<lparr>bw_files := fs\<rparr>))"

definition close_files :: "string list \<Rightarrow> ('w backend_world, exn, unit) sem" where
  "close_files ps = with_files (remove_private_files ps)"

section \<open>Lemmas\<close>

lemma set_pf_delete [simp]: "fst ` set (AList.delete k al) = fst ` set al - {k}"
proof -
  have "set (map fst (AList.delete k al)) = set (removeAll k (map fst al))"
    by (simp only: delete_keys)
  then show ?thesis by simp
qed

lemma set_delete_subset: "set (AList.delete k al) \<subseteq> set al"
  by (induction al) auto

text \<open>One step of the module on the files: what it keeps.\<close>

definition files_step :: "private_files \<Rightarrow> private_files \<Rightarrow> bool" where
  "files_step fs fs' =
     ((files_accounted fs \<longrightarrow> files_accounted fs') \<and> pf_unlink_fails fs' = pf_unlink_fails fs \<and>
      ((\<forall>n. \<not> pf_unlink_fails fs n) \<longrightarrow> pf_refused fs' = pf_refused fs))"

lemma files_step_refl [simp]: "files_step fs fs"
  by (simp add: files_step_def)

lemma files_step_trans: "files_step fs fs1 \<Longrightarrow> files_step fs1 fs2 \<Longrightarrow> files_step fs fs2"
  by (simp add: files_step_def)

lemma unlink_step:
  "files_step fs ((snd (unlink_file p fs))\<lparr>pf_registered := removeAll p (pf_registered fs)\<rparr>)"
proof -
  consider "p \<notin> fst ` set (pf_files fs)"
    | "p \<in> fst ` set (pf_files fs)" "pf_unlink_fails fs (pf_unlinks fs)"
    | "p \<in> fst ` set (pf_files fs)" "\<not> pf_unlink_fails fs (pf_unlinks fs)" by blast
  then show ?thesis
  proof cases
    case 1
    then show ?thesis by (auto simp: files_step_def files_accounted_def unlink_file_def subset_iff)
  next
    case 2
    then show ?thesis by (auto simp: files_step_def files_accounted_def unlink_file_def Let_def subset_iff)
  next
    case 3
    let ?d = "AList.delete p (pf_files fs)"
    have k: "fst ` set ?d = fst ` set (pf_files fs) - {p}" by (rule set_pf_delete)
    have d: "set ?d \<subseteq> set (pf_files fs)" by (rule set_delete_subset)
    from 3 have u: "snd (unlink_file p fs) = fs\<lparr>pf_unlinks := Suc (pf_unlinks fs), pf_files := ?d\<rparr>"
      by (simp add: unlink_file_def Let_def)
    have "files_accounted fs \<Longrightarrow> fst ` set ?d \<subseteq> set (pf_registered fs) - {p} \<union> set (pf_refused fs)"
      unfolding k files_accounted_def by blast
    moreover have "files_accounted fs \<Longrightarrow> \<forall>(_, mode, _) \<in> set ?d. mode = 384"
      using d unfolding files_accounted_def by blast
    ultimately show ?thesis unfolding u by (simp add: files_step_def files_accounted_def)
  qed
qed

lemma unlink_registered [simp]: "pf_registered (snd (unlink_file p fs)) = pf_registered fs"
  by (simp add: unlink_file_def Let_def)

lemma unlink_absent:
  assumes "unlink_file p fs = (r, fs1)"
  shows "(r = Inl (PythonError ''OSError'') \<and> p \<in> set (pf_refused fs1)) \<or>
    (p \<notin> fst ` set (pf_files fs1) \<and> (r = Inr () \<or> r = Inl (PythonError ''FileNotFoundError'')))"
proof (cases "p \<in> set (map fst (pf_files fs)) \<and> \<not> pf_unlink_fails fs (pf_unlinks fs)")
  case True
  with assms have "r = Inr ()" "pf_files fs1 = AList.delete p (pf_files fs)" by (auto simp: unlink_file_def Let_def)
  moreover have "p \<notin> fst ` set (AList.delete p (pf_files fs))" by simp
  ultimately show ?thesis by simp
next
  case False
  with assms show ?thesis by (simp add: unlink_file_def Let_def split: if_splits) auto
qed

lemma materialize_step: "files_step fs (snd (materialize_private_pem outcome v suf fs))"
proof -
  have upd: "set (AList.update k w al) \<subseteq> insert (k, w) (set al)" for k w and al :: "('a \<times> 'b) list"
    by (induction al) auto
  show ?thesis
  proof (cases outcome)
    case TmpWritten
    show ?thesis unfolding TmpWritten
      using upd [of "tmp_path (pf_counter fs) suf" "(384, v)" "pf_files fs"]
      by (fastforce simp: files_step_def files_accounted_def materialize_private_pem_def Let_def dom_update)
  next
    case (TmpWriteFailed n)
    show ?thesis unfolding TmpWriteFailed
      using upd [of "tmp_path (pf_counter fs) suf" "(384, take n v)" "pf_files fs"]
        set_delete_subset [of "tmp_path (pf_counter fs) suf" "AList.update (tmp_path (pf_counter fs) suf) (384, take n v) (pf_files fs)"]
      by (fastforce simp: files_step_def files_accounted_def materialize_private_pem_def unlink_file_def Let_def dom_update)
  qed (simp add: materialize_private_pem_def Let_def)
qed

lemma remove_step: "files_step fs (snd (remove_private_files ps fs))"
proof (induction ps arbitrary: fs)
  case (Cons p ps)
  obtain r fs1 where u: "unlink_file p fs = (r, fs1)" by fastforce
  let ?fs2 = "fs1\<lparr>pf_registered := removeAll p (pf_registered fs1)\<rparr>"
  have "files_step fs ?fs2" using unlink_step [of fs p] unlink_registered [of p fs] by (simp add: u)
  moreover have "files_step ?fs2 (snd (remove_private_files ps ?fs2))" by (rule Cons.IH)
  ultimately show ?case
    by (auto simp: u Let_def split: sum.splits intro: files_step_trans)
qed simp

text \<open>A removal that comes to its end has emptied the set of the paths it was given; a removal that
  raises stopped at a refused one.\<close>

lemma remove_ends:
  "remove_private_files ps fs = (r, fs') \<Longrightarrow>
     (r = Inr () \<and> set (pf_registered fs') = set (pf_registered fs) - set ps) \<or> (r \<noteq> Inr () \<and> pf_refused fs' \<noteq> [])"
proof (induction ps arbitrary: fs)
  case (Cons p ps)
  obtain q fs1 where u: "unlink_file p fs = (q, fs1)" by fastforce
  have reg: "pf_registered fs1 = pf_registered fs" using unlink_registered [of p fs] by (simp add: u)
  show ?case
    using unlink_absent [OF u] Cons.prems Cons.IH [of "fs1\<lparr>pf_registered := removeAll p (pf_registered fs1)\<rparr>"]
    by (auto simp: u reg Let_def)
qed simp

lemma cleanup_ends:
  assumes ok: "files_accounted fs" and run: "cleanup_private_files fs = (r, fs')"
  shows "files_accounted fs'" "r = Inr () \<Longrightarrow> fst ` set (pf_files fs') \<subseteq> set (pf_refused fs')"
    "pf_refused fs' = [] \<Longrightarrow> r = Inr () \<and> pf_files fs' = []"
proof -
  have run': "remove_private_files (pf_registered fs) fs = (r, fs')" using run by (simp add: cleanup_private_files_def)
  from remove_step [of fs "pf_registered fs"] ok run' show acc: "files_accounted fs'" by (simp add: files_step_def)
  show left: "fst ` set (pf_files fs') \<subseteq> set (pf_refused fs')" if "r = Inr ()"
    using remove_ends [OF run'] that acc by (auto simp: files_accounted_def)
  show "r = Inr () \<and> pf_files fs' = []" if "pf_refused fs' = []"
    using remove_ends [OF run'] that left by auto
qed

lemma wp_get_object [wp_rules]:
  "wp (get_object b) Q R x =
     (case row (bw_objects x) b of None \<Rightarrow> R (PythonError ''AttributeError'') x | Some ob \<Rightarrow> Q ob x)"
  by (simp add: get_object_def wp_rules)

lemma wp_set_object [wp_rules]:
  "wp (set_object b ob) Q R x = Q () (x\<lparr>bw_objects := put_row b ob (bw_objects x)\<rparr>)"
  by (simp add: set_object_def wp_rules)

lemma wp_remote [wp_rules]:
  "wp (remote m) Q R x =
     wp m (\<lambda>r w. Q r (x\<lparr>bw_remote := w\<rparr>)) (\<lambda>e w. R e (x\<lparr>bw_remote := w\<rparr>)) (bw_remote x)"
  by (simp add: wp_def remote_def split: prod.splits sum.splits)

lemma wp_with_files [wp_rules]:
  "wp (with_files f) Q R x =
     (case f (bw_files x) of (Inl e, fs) \<Rightarrow> R e (x\<lparr>bw_files := fs\<rparr>) | (Inr r, fs) \<Rightarrow> Q r (x\<lparr>bw_files := fs\<rparr>))"
  by (simp add: wp_def with_files_def split: prod.splits sum.splits)

lemma wp_close_files [wp_rules]:
  "wp (close_files ps) Q R x =
     (case remove_private_files ps (bw_files x) of
        (Inl e, fs) \<Rightarrow> R e (x\<lparr>bw_files := fs\<rparr>) | (Inr r, fs) \<Rightarrow> Q r (x\<lparr>bw_files := fs\<rparr>))"
  by (simp add: close_files_def wp_rules)

end
