(* ===== verification/OpenBao_Backend.thy ===== *)
theory OpenBao_Backend
  imports Backend_World
begin

text \<open>
  The direct backend (\<^verbatim>\<open>backends/openbao.py\<close>) and its HashiCorp Vault subclass
  (\<^verbatim>\<open>backends/vault.py\<close>). The \<^verbatim>\<open>hvac\<close> client and the server behind it are the parameter
  \<open>hv\<close>: one field per client call the code makes, over the remote state \<open>'w\<close>. A call that
  fails raises an \<^verbatim>\<open>hvac\<close> exception, which carries the server's text; a response of an
  unexpected shape (a \<^verbatim>\<open>KeyError\<close> on a subscript inside the \<^verbatim>\<open>try\<close>) is one of the other
  exceptions. Log lines are not modelled.
\<close>

section \<open>The client the backend calls\<close>

datatype hvac_class =
  Forbidden | Unauthorized | InvalidPath | InvalidRequest | VaultDown | VaultNotInitialized | OtherException

record hvac_exception =
  hx_class :: hvac_class
  hx_text :: string
  hx_status :: "nat option"

record login_response =
  lr_client_token :: "string option"
  lr_lease_duration :: "int option"

record version_meta =
  vm_created_time :: "string option"
  vm_deletion_time :: "string option"
  vm_destroyed :: bool

record secret_metadata =
  sm_current_version :: "nat option"
  sm_custom_metadata :: "(string \<times> string) list"
  sm_versions :: "(nat \<times> version_meta) list"

record health_payload =
  hp_initialized :: "bool option"
  hp_sealed :: bool
  hp_standby :: bool
  hp_version :: "string option"
  hp_performance_standby :: bool
  hp_enterprise :: bool

record 'w hvac =
  hv_installed :: bool
  hv_tmp_outcome :: "string \<Rightarrow> tmp_outcome"
  hv_read_file :: "string \<Rightarrow> string option"
  hv_approle_login :: "hvac_client \<Rightarrow> string \<Rightarrow> string \<Rightarrow> ('w, hvac_exception, login_response) sem"
  hv_kubernetes_login :: "hvac_client \<Rightarrow> string \<Rightarrow> string \<Rightarrow> ('w, hvac_exception, login_response) sem"
  hv_cert_login :: "hvac_client \<Rightarrow> ('w, hvac_exception, login_response) sem"
  hv_kv2_read :: "hvac_client \<Rightarrow> string \<Rightarrow> string \<Rightarrow> nat option \<Rightarrow> ('w, hvac_exception, json) sem"
  hv_kv2_write :: "hvac_client \<Rightarrow> string \<Rightarrow> string \<Rightarrow> payload \<Rightarrow> nat option \<Rightarrow> ('w, hvac_exception, nat) sem"
  hv_kv2_delete_versions :: "hvac_client \<Rightarrow> string \<Rightarrow> string \<Rightarrow> nat list \<Rightarrow> ('w, hvac_exception, unit) sem"
  hv_kv2_delete_all :: "hvac_client \<Rightarrow> string \<Rightarrow> string \<Rightarrow> ('w, hvac_exception, unit) sem"
  hv_kv2_metadata :: "hvac_client \<Rightarrow> string \<Rightarrow> string \<Rightarrow> ('w, hvac_exception, secret_metadata option) sem"
  hv_kv2_update_metadata ::
    "hvac_client \<Rightarrow> string \<Rightarrow> string \<Rightarrow> (string \<times> string) list \<Rightarrow> ('w, hvac_exception, unit) sem"
  hv_kv1_read :: "hvac_client \<Rightarrow> string \<Rightarrow> string \<Rightarrow> ('w, hvac_exception, json) sem"
  hv_kv1_write :: "hvac_client \<Rightarrow> string \<Rightarrow> string \<Rightarrow> payload \<Rightarrow> ('w, hvac_exception, unit) sem"
  hv_kv1_delete :: "hvac_client \<Rightarrow> string \<Rightarrow> string \<Rightarrow> ('w, hvac_exception, unit) sem"
  hv_health :: "hvac_client \<Rightarrow> ('w, hvac_exception, health_payload) sem"

section \<open>Error translation\<close>

definition translate :: "hvac_exception \<Rightarrow> openbao_error" where
  "translate exc =
     (case hx_class exc of
        Forbidden \<Rightarrow> openbao_exn OpenBaoAuthErrorC None (Some 403)
      | Unauthorized \<Rightarrow> openbao_exn OpenBaoAuthErrorC None (Some 403)
      | InvalidPath \<Rightarrow> openbao_exn OpenBaoNotFoundC None (Some 404)
      | InvalidRequest \<Rightarrow>
          (let txt = lower (hx_text exc)
           in if sublist ''check-and-set'' txt \<or> ''cas'' \<in> set (words txt)
              then openbao_exn OpenBaoConflictC None (Some 409)
              else openbao_exn OpenBaoErrorC (Some ''OpenBao rejected the request.'') (Some 400))
      | VaultDown \<Rightarrow> openbao_exn OpenBaoUnavailableC None (Some 503)
      | VaultNotInitialized \<Rightarrow> openbao_exn OpenBaoUnavailableC None (Some 503)
      | OtherException \<Rightarrow> openbao_exn OpenBaoUnavailableC None (hx_status exc))"

text \<open>\<open>except Exception as exc: raise self._translate(exc) from None\<close> around a client call.\<close>

definition translated :: "('w, hvac_exception, 'a) sem \<Rightarrow> ('w backend_world, exn, 'a) sem" where
  "translated m x =
     (case remote m x of
        (Inl e, x') \<Rightarrow> (Inl (OpenBaoExn (translate e)), x')
      | (Inr r, x') \<Rightarrow> (Inr r, x'))"

definition config_error :: "string \<Rightarrow> exn" where
  "config_error m = OpenBaoExn (openbao_exn BackendConfigurationErrorC (Some m) None)"

section \<open>Connection and authentication\<close>

definition bao_cache_key :: "backend_object \<Rightarrow> string" where
  "bao_cache_key ob =
     (case bo_auth ob of
        None \<Rightarrow> ''netbox_openbao:token:'' @ eng_slug (bo_engine ob) @ '':missing''
      | Some m \<Rightarrow> token_cache_key m)"

definition not_configured :: "string \<Rightarrow> string \<Rightarrow> exn" where
  "not_configured meth slug =
     config_error (meth @ '' authentication is not configured for engine '' @ slug
       @ ''. Configure it on OpenBao > Configuration > Settings or with `manage.py openbao_configure auth`.'')"

definition required_material ::
  "'k crypto \<Rightarrow> backend_object \<Rightarrow> string \<Rightarrow> string \<Rightarrow> exn + string" where
  "required_material cx ob name meth =
     (case bo_auth ob of
        Some m \<Rightarrow>
          if configured m name
          then (case get_secret cx None m name of
                  Inl _ \<Rightarrow> Inl (config_error ''Stored OpenBao authentication material cannot be decrypted.'')
                | Inr v \<Rightarrow> Inr v)
          else Inl (not_configured meth (eng_slug (bo_engine ob)))
      | None \<Rightarrow> Inl (not_configured meth (eng_slug (bo_engine ob))))"

definition bao_session_key :: "backend_object \<Rightarrow> session_key" where
  "bao_session_key ob =
     \<lparr>sk_api_url = eng_api_url (bo_engine ob), sk_tls_verify = eng_tls_verify (bo_engine ob),
      sk_ca_cert_path = eng_ca_cert_path (bo_engine ob),
      sk_identity =
        (if eng_auth_method (bo_engine ob) = METHOD_CERT
         then Some (case bo_auth ob of Some m \<Rightarrow> cache_identity m | None \<Rightarrow> ''missing'') else None)\<rparr>"

definition bao_get_session ::
  "'w hvac \<Rightarrow> 'k crypto \<Rightarrow> backend_object \<Rightarrow> ('w backend_world, exn, session_key) sem" where
  "bao_get_session hv cx ob =
     (let key = bao_session_key ob
      in bnd (gets (\<lambda>x. map_of (bw_sessions x) key \<noteq> None)) (\<lambda>pooled.
         if pooled then ret key
         else bnd (if sk_identity key = None then ret []
                   else
                     bnd (lift_sum (required_material cx ob ''client_cert'' ''Certificate'')) (\<lambda>cert.
                     bnd (lift_sum (required_material cx ob ''client_key'' ''Certificate'')) (\<lambda>pkey.
                     bnd (with_files (materialize_private_pem (hv_tmp_outcome hv cert) cert ''.crt'')) (\<lambda>cert_path.
                     bnd (on_exn (with_files (materialize_private_pem (hv_tmp_outcome hv pkey) pkey ''.key''))
                            (\<lambda>e. bnd (close_files [cert_path]) (\<lambda>_. raise e))) (\<lambda>key_path.
                     ret [cert_path, key_path])))))
              (\<lambda>paths. bnd (modify (\<lambda>x. x\<lparr>bw_sessions := bw_sessions x @ [(key, paths)]\<rparr>)) (\<lambda>_. ret key))))"

definition build_client ::
  "'w hvac \<Rightarrow> 'k crypto \<Rightarrow> backend_object \<Rightarrow> string option \<Rightarrow> ('w backend_world, exn, hvac_client) sem" where
  "build_client hv cx ob token =
     (if \<not> hv_installed hv then raise (config_error ''The hvac package is required but is not installed.'')
      else bnd (bao_get_session hv cx ob) (\<lambda>key.
        ret \<lparr>cl_url = eng_api_url (bo_engine ob),
             cl_namespace = (if eng_namespace (bo_engine ob) = [] then None else Some (eng_namespace (bo_engine ob))),
             cl_ca_cert_path = eng_ca_cert_path (bo_engine ob), cl_tls_verify = eng_tls_verify (bo_engine ob),
             cl_session = key, cl_token = (case token of Some (t # ts) \<Rightarrow> Some (t # ts) | _ \<Rightarrow> None)\<rparr>))"

text \<open>\<open>int(get_config('token_cache_ttl') or 3600)\<close>: zero counts as not set.\<close>

definition int_or :: "int option \<Rightarrow> int \<Rightarrow> int" where
  "int_or x d = (case x of None \<Rightarrow> d | Some n \<Rightarrow> if n = 0 then d else n)"

definition login ::
  "'w hvac \<Rightarrow> 'k crypto \<Rightarrow> backend_ctx \<Rightarrow> backend_object \<Rightarrow> hvac_client
   \<Rightarrow> ('w backend_world, exn, string \<times> int) sem" where
  "login hv cx ctx ob client =
     (let finish = (\<lambda>response.
            (case lr_client_token response of
               Some (t # ts) \<Rightarrow>
                 ret (t # ts, int_or (lr_lease_duration response) (int_or (bc_token_cache_ttl ctx) 3600))
             | _ \<Rightarrow> raise (OpenBaoExn (openbao_exn OpenBaoAuthErrorC (Some ''OpenBao returned no client token.'') None))))
      in case eng_auth_method (bo_engine ob) of
           METHOD_APPROLE \<Rightarrow>
             bnd (lift_sum (required_material cx ob ''role_id'' ''AppRole'')) (\<lambda>role_id.
             bnd (lift_sum (required_material cx ob ''secret_id'' ''AppRole'')) (\<lambda>secret_id.
             bnd (translated (hv_approle_login hv client role_id secret_id)) finish))
         | METHOD_TOKEN \<Rightarrow>
             bnd (lift_sum (required_material cx ob ''token'' ''Token'')) (\<lambda>token.
             ret (token, int_or (bc_token_cache_ttl ctx) 3600))
         | METHOD_KUBERNETES \<Rightarrow>
             bnd (lift_sum (required_material cx ob ''k8s_role'' ''Kubernetes'')) (\<lambda>role.
             bnd (case bo_auth ob of
                    None \<Rightarrow> raise (OpenBaoExn (openbao_exn OpenBaoUnavailableC None None))
                  | Some m \<Rightarrow>
                      (case get_secret cx None m ''k8s_jwt_path'' of
                         Inl _ \<Rightarrow> raise (OpenBaoExn (openbao_exn OpenBaoUnavailableC None None))
                       | Inr p \<Rightarrow> ret (str_or p ''/var/run/secrets/kubernetes.io/serviceaccount/token''))) (\<lambda>jwt_path.
             case hv_read_file hv jwt_path of
               None \<Rightarrow> raise (config_error ''Unable to read the configured Kubernetes service account token.'')
             | Some contents \<Rightarrow> bnd (translated (hv_kubernetes_login hv client role (strip contents))) finish))
         | METHOD_CERT \<Rightarrow> bnd (translated (hv_cert_login hv client)) finish)"

text \<open>\<open>TOKEN_CACHE_LEASE_FRACTION\<close> is \<open>0.8\<close>; \<open>int\<close> of the product is the integer part of
  four fifths of the lease, and the result is at least one second.\<close>

definition token_ttl :: "int \<Rightarrow> int" where
  "token_ttl lease = max ((4 * lease) div 5) 1"

definition obtain_client ::
  "'w hvac \<Rightarrow> 'k crypto \<Rightarrow> backend_ctx \<Rightarrow> nat \<Rightarrow> backend_object \<Rightarrow> ('w backend_world, exn, hvac_client) sem" where
  "obtain_client hv cx ctx b ob =
     (case bo_client ob of
        Some client \<Rightarrow> ret client
      | None \<Rightarrow>
          bnd (gets (cache_get (bc_now ctx) (bao_cache_key ob))) (\<lambda>cached.
          case cached of
            Some (t # ts) \<Rightarrow>
              bnd (build_client hv cx ob (Some (t # ts))) (\<lambda>client.
              bnd (set_object b (ob\<lparr>bo_client := Some client\<rparr>)) (\<lambda>_. ret client))
          | _ \<Rightarrow>
              bnd (build_client hv cx ob None) (\<lambda>anonymous.
              bnd (login hv cx ctx ob anonymous) (\<lambda>(token, lease).
              let client = anonymous\<lparr>cl_token := Some token\<rparr> in
              bnd (modify (cache_set (bc_now ctx) (bao_cache_key ob) token (token_ttl lease))) (\<lambda>_.
              bnd (set_object b (ob\<lparr>bo_client := Some client\<rparr>)) (\<lambda>_. ret client))))))"

text \<open>\<open>_get_client\<close>: a rotated identity drops the client built with the old one.\<close>

definition get_client ::
  "'w hvac \<Rightarrow> 'k crypto \<Rightarrow> backend_ctx \<Rightarrow> nat \<Rightarrow> ('w backend_world, exn, hvac_client) sem" where
  "get_client hv cx ctx b =
     bnd (get_object b) (\<lambda>ob0.
       let (rotated, material) = refresh_auth_material (bc_auth ctx) (bo_auth ob0);
           ob = ob0\<lparr>bo_auth := material, bo_client := (if rotated then None else bo_client ob0)\<rparr>
       in bnd (set_object b ob) (\<lambda>_. obtain_client hv cx ctx b ob))"

definition invalidate_token :: "nat \<Rightarrow> ('w backend_world, exn, unit) sem" where
  "invalidate_token b =
     bnd (get_object b) (\<lambda>ob.
     bnd (modify (cache_delete (bao_cache_key ob))) (\<lambda>_.
     bnd (set_object b (ob\<lparr>bo_client := None\<rparr>)) (\<lambda>_.
     if eng_auth_method (bo_engine ob) \<noteq> METHOD_CERT then ret ()
     else bnd (gets (\<lambda>x. map_of (bw_sessions x) (bao_session_key ob))) (\<lambda>paths.
       bnd (modify (\<lambda>x. x\<lparr>bw_sessions := AList.delete (bao_session_key ob) (bw_sessions x)\<rparr>)) (\<lambda>_.
       case paths of None \<Rightarrow> ret () | Some ps \<Rightarrow> close_files ps)))))"

text \<open>\<open>close_auth_material_sessions\<close>: every pooled session of one identity revision is dropped
  and its private files removed.\<close>

definition close_auth_material_sessions :: "nat \<Rightarrow> nat \<Rightarrow> ('w backend_world, exn, unit) sem" where
  "close_auth_material_sessions material_id revision =
     (let identity = Some (digits material_id @ '':'' @ digits revision)
      in bnd (gets (\<lambda>x. filter (\<lambda>(k, _). sk_identity k = identity) (bw_sessions x))) (\<lambda>matches.
         bnd (modify (\<lambda>x. x\<lparr>bw_sessions := filter (\<lambda>(k, _). sk_identity k \<noteq> identity) (bw_sessions x)\<rparr>)) (\<lambda>_.
         for_each (\<lambda>(_, paths). close_files paths) matches)))"

section \<open>SecretBackend operations\<close>

definition require_kv2 :: "string \<Rightarrow> backend_object \<Rightarrow> ('w backend_world, exn, unit) sem" where
  "require_kv2 operation ob =
     check (eng_kv_version (bo_engine ob) = 2)
       (config_error (operation @ '' requires a KV version 2 mount; engine '' @ eng_slug (bo_engine ob)
          @ '' is configured for version '' @ digits (eng_kv_version (bo_engine ob)) @ ''.''))"

definition bao_read ::
  "'w hvac \<Rightarrow> 'k crypto \<Rightarrow> backend_ctx \<Rightarrow> nat \<Rightarrow> string \<Rightarrow> nat option \<Rightarrow> ('w backend_world, exn, json) sem" where
  "bao_read hv cx ctx b path version =
     bnd (get_object b) (\<lambda>ob. let mount = eng_kv_mount (bo_engine ob) in
     bnd (get_client hv cx ctx b) (\<lambda>client.
     if eng_kv_version (bo_engine ob) = 2 then translated (hv_kv2_read hv client mount path version)
     else translated (hv_kv1_read hv client mount path)))"

definition bao_write ::
  "'w hvac \<Rightarrow> 'k crypto \<Rightarrow> backend_ctx \<Rightarrow> nat \<Rightarrow> string \<Rightarrow> payload \<Rightarrow> nat option \<Rightarrow> ('w backend_world, exn, nat) sem" where
  "bao_write hv cx ctx b path data cas =
     bnd (get_object b) (\<lambda>ob. let mount = eng_kv_mount (bo_engine ob) in
     bnd (get_client hv cx ctx b) (\<lambda>client.
     if eng_kv_version (bo_engine ob) = 2 then translated (hv_kv2_write hv client mount path data cas)
     else bnd (translated (hv_kv1_write hv client mount path data)) (\<lambda>_. ret 1)))"

definition bao_delete ::
  "'w hvac \<Rightarrow> 'k crypto \<Rightarrow> backend_ctx \<Rightarrow> nat \<Rightarrow> string \<Rightarrow> nat list option \<Rightarrow> ('w backend_world, exn, unit) sem" where
  "bao_delete hv cx ctx b path versions =
     bnd (get_object b) (\<lambda>ob. let mount = eng_kv_mount (bo_engine ob) in
     bnd (get_client hv cx ctx b) (\<lambda>client.
     if eng_kv_version (bo_engine ob) = 2
     then translated (case versions of
                        Some (v # vs) \<Rightarrow> hv_kv2_delete_versions hv client mount path (v # vs)
                      | _ \<Rightarrow> hv_kv2_delete_all hv client mount path)
     else translated (hv_kv1_delete hv client mount path)))"

text \<open>The versions of a metadata response, newest first.\<close>

definition version_list :: "secret_metadata option \<Rightarrow> version_info list" where
  "version_list response =
     rev (sort_key vi_version
       (map (\<lambda>(number, meta).
          \<lparr>vi_version = number, vi_created_time = vm_created_time meta,
           vi_deletion_time = (case vm_deletion_time meta of Some [] \<Rightarrow> None | t \<Rightarrow> t),
           vi_destroyed = vm_destroyed meta\<rparr>) (rev (case response of None \<Rightarrow> [] | Some m \<Rightarrow> sm_versions m))))"

definition bao_list_versions ::
  "'w hvac \<Rightarrow> 'k crypto \<Rightarrow> backend_ctx \<Rightarrow> nat \<Rightarrow> string \<Rightarrow> ('w backend_world, exn, version_info list) sem" where
  "bao_list_versions hv cx ctx b path =
     bnd (get_object b) (\<lambda>ob.
     bnd (require_kv2 ''Listing versions'' ob) (\<lambda>_.
     bnd (get_client hv cx ctx b) (\<lambda>client.
     bnd (translated (hv_kv2_metadata hv client (eng_kv_mount (bo_engine ob)) path)) (\<lambda>response.
     ret (version_list response)))))"

definition bao_read_metadata ::
  "'w hvac \<Rightarrow> 'k crypto \<Rightarrow> backend_ctx \<Rightarrow> nat \<Rightarrow> string \<Rightarrow> ('w backend_world, exn, kv_metadata) sem" where
  "bao_read_metadata hv cx ctx b path =
     bnd (get_object b) (\<lambda>ob.
     bnd (require_kv2 ''Reading metadata'' ob) (\<lambda>_.
     bnd (get_client hv cx ctx b) (\<lambda>client.
     bnd (translated (hv_kv2_metadata hv client (eng_kv_mount (bo_engine ob)) path)) (\<lambda>response.
     ret (case response of
            None \<Rightarrow> \<lparr>km_current_version = None, km_custom_metadata = []\<rparr>
          | Some m \<Rightarrow> \<lparr>km_current_version = sm_current_version m, km_custom_metadata = sm_custom_metadata m\<rparr>)))))"

definition bao_set_metadata ::
  "'w hvac \<Rightarrow> 'k crypto \<Rightarrow> backend_ctx \<Rightarrow> nat \<Rightarrow> string \<Rightarrow> (string \<times> string) list \<Rightarrow> ('w backend_world, exn, unit) sem" where
  "bao_set_metadata hv cx ctx b path metadata =
     bnd (get_object b) (\<lambda>ob.
     bnd (require_kv2 ''Setting custom metadata'' ob) (\<lambda>_.
     bnd (get_client hv cx ctx b) (\<lambda>client.
     translated (hv_kv2_update_metadata hv client (eng_kv_mount (bo_engine ob)) path metadata))))"

definition health_status :: "health_payload \<Rightarrow> health_result" where
  "health_status p =
     (if hp_initialized p = Some False then \<lparr>hr_status = STATUS_UNREACHABLE, hr_message = ''Instance is not initialized.''\<rparr>
      else if hp_sealed p then \<lparr>hr_status = STATUS_SEALED, hr_message = ''Instance is sealed.''\<rparr>
      else if hp_standby p then \<lparr>hr_status = STATUS_STANDBY, hr_message = ''Standby node.''\<rparr>
      else \<lparr>hr_status = STATUS_HEALTHY,
            hr_message = ''Version '' @ (case hp_version p of None \<Rightarrow> ''unknown'' | Some v \<Rightarrow> v) @ ''.''\<rparr>)"

text \<open>\<open>health\<close> reports a failed probe in its result instead of raising; only a missing client
  package or missing certificate material, before the probe, raises.\<close>

definition bao_health_raw ::
  "'w hvac \<Rightarrow> 'k crypto \<Rightarrow> nat \<Rightarrow> ('w backend_world, exn, health_result \<times> health_payload option) sem" where
  "bao_health_raw hv cx b =
     bnd (get_object b) (\<lambda>ob.
     bnd (build_client hv cx ob None) (\<lambda>client x.
       case remote (hv_health hv client) x of
         (Inl e, x') \<Rightarrow>
           (Inr (\<lparr>hr_status = (if is_subclass (oe_class (translate e)) OpenBaoAuthErrorC then STATUS_UNAUTHORIZED
                             else STATUS_UNREACHABLE),
                 hr_message = oe_message (translate e)\<rparr>, None), x')
       | (Inr p, x') \<Rightarrow> (Inr (health_status p, Some p), x')))"

definition bao_health :: "'w hvac \<Rightarrow> 'k crypto \<Rightarrow> nat \<Rightarrow> ('w backend_world, exn, health_result) sem" where
  "bao_health hv cx b = bnd (bao_health_raw hv cx b) (\<lambda>r. ret (fst r))"

definition vault_health :: "'w hvac \<Rightarrow> 'k crypto \<Rightarrow> nat \<Rightarrow> ('w backend_world, exn, health_result) sem" where
  "vault_health hv cx b =
     bnd (bao_health_raw hv cx b) (\<lambda>(result, raw).
     ret (case raw of
            None \<Rightarrow> result
          | Some p \<Rightarrow>
              (let r1 = (if hr_status result = STATUS_STANDBY \<and> hp_performance_standby p
                         then result\<lparr>hr_message := ''Performance standby node; serving reads.''\<rparr> else result)
               in if hp_enterprise p then r1\<lparr>hr_message := hr_message r1 @ '' Enterprise build.''\<rparr> else r1)))"

end
