(* ===== verification/Broker_Backend.thy ===== *)
theory Broker_Backend
  imports OpenBao_Backend
begin

text \<open>
  Broker mode (\<^verbatim>\<open>backends/broker.py\<close>): the same operations, asked of a service that holds the
  OpenBao identity, over mutual TLS. The \<^verbatim>\<open>requests\<close> session and the broker behind it are
  the parameter \<open>rq\<close>. A response is a status and a body, \<open>None\<close> when it is not JSON.
\<close>

section \<open>The HTTP session\<close>

record http_response =
  ht_status :: nat
  ht_body :: "json option"

record 'w requests =
  rq_installed :: bool
  rq_tmp_outcome :: "string \<Rightarrow> tmp_outcome"
  rq_post :: "session_key \<Rightarrow> string \<Rightarrow> json \<Rightarrow> ('w, string, http_response) sem"
  rq_get :: "session_key \<Rightarrow> string \<Rightarrow> ('w, string, http_response) sem"

definition broker_not_configured :: "string \<Rightarrow> exn" where
  "broker_not_configured slug =
     config_error (''Broker authentication is not configured for engine '' @ slug
       @ ''. Configure the client certificate and client key on OpenBao > Configuration > Settings ''
       @ ''or with `manage.py openbao_configure auth`.'')"

definition client_certificate ::
  "'w requests \<Rightarrow> 'k crypto \<Rightarrow> backend_object \<Rightarrow> ('w backend_world, exn, string list) sem" where
  "client_certificate rq cx ob =
     (case bo_auth ob of
        None \<Rightarrow> raise (broker_not_configured (eng_slug (bo_engine ob)))
      | Some m \<Rightarrow>
          if \<not> configured m ''client_cert'' \<or> \<not> configured m ''client_key''
          then raise (broker_not_configured (eng_slug (bo_engine ob)))
          else
            bnd (lift_sum (get_secret cx None m ''client_cert'')) (\<lambda>cert.
            bnd (lift_sum (get_secret cx None m ''client_key'')) (\<lambda>pkey.
            bnd (with_files (materialize_private_pem (rq_tmp_outcome rq cert) cert ''.crt'')) (\<lambda>cert_path.
            bnd (on_exn (with_files (materialize_private_pem (rq_tmp_outcome rq pkey) pkey ''.key''))
                   (\<lambda>e. bnd (close_files [cert_path]) (\<lambda>_. raise e))) (\<lambda>key_path.
            ret [cert_path, key_path])))))"

text \<open>The pool key: endpoint, identity revision and how the broker's certificate is verified.\<close>

definition broker_session_key :: "backend_object \<Rightarrow> session_key" where
  "broker_session_key ob =
     \<lparr>sk_api_url = eng_api_url (bo_engine ob),
      sk_tls_verify = (eng_ca_cert_path (bo_engine ob) \<noteq> [] \<or> eng_tls_verify (bo_engine ob)),
      sk_ca_cert_path = eng_ca_cert_path (bo_engine ob),
      sk_identity = Some (case bo_auth ob of Some m \<Rightarrow> cache_identity m | None \<Rightarrow> ''missing'')\<rparr>"

definition broker_get_session ::
  "'w requests \<Rightarrow> 'k crypto \<Rightarrow> backend_ctx \<Rightarrow> nat \<Rightarrow> ('w backend_world, exn, session_key) sem" where
  "broker_get_session rq cx ctx b =
     bnd (get_object b) (\<lambda>ob0.
       let (rotated, material) = refresh_auth_material (bc_auth ctx) (bo_auth ob0);
           ob = ob0\<lparr>bo_auth := material, bo_session := (if rotated then None else bo_session ob0)\<rparr>
       in bnd (set_object b ob) (\<lambda>_.
          case bo_session ob of
            Some key \<Rightarrow> ret key
          | None \<Rightarrow>
              if \<not> rq_installed rq
              then raise (config_error ''The requests package is required but is not installed.'')
              else if eng_ca_cert_path (bo_engine ob) = [] \<and> \<not> eng_tls_verify (bo_engine ob)
              then raise (config_error (''Broker mode requires TLS verification: the client certificate is the ''
                @ ''credential, and presenting it to an unverified peer hands it over. Set a CA certificate path ''
                @ ''on engine '' @ eng_slug (bo_engine ob) @ '', or re-enable TLS verification.''))
              else
                (let key = broker_session_key ob
                 in bnd (gets (\<lambda>x. map_of (bw_broker_sessions x) key \<noteq> None)) (\<lambda>pooled.
                    bnd (if pooled then ret ()
                         else bnd (client_certificate rq cx ob) (\<lambda>cert.
                           modify (\<lambda>x. x\<lparr>bw_broker_sessions := bw_broker_sessions x @ [(key, cert)]\<rparr>))) (\<lambda>_.
                    bnd (set_object b (ob\<lparr>bo_session := Some key\<rparr>)) (\<lambda>_. ret key))))))"

definition broker_invalidate_token :: "nat \<Rightarrow> ('w backend_world, exn, unit) sem" where
  "broker_invalidate_token b =
     bnd (get_object b) (\<lambda>ob.
     bnd (set_object b (ob\<lparr>bo_session := None\<rparr>)) (\<lambda>_.
     case bo_session ob of
       None \<Rightarrow> ret ()
     | Some key \<Rightarrow>
         bnd (gets (\<lambda>x. map_of (bw_broker_sessions x) key)) (\<lambda>paths.
         bnd (modify (\<lambda>x. x\<lparr>bw_broker_sessions := AList.delete key (bw_broker_sessions x)\<rparr>)) (\<lambda>_.
         case paths of None \<Rightarrow> ret () | Some ps \<Rightarrow> close_files ps))))"

definition broker_close_auth_material_sessions :: "nat \<Rightarrow> nat \<Rightarrow> ('w backend_world, exn, unit) sem" where
  "broker_close_auth_material_sessions material_id revision =
     (let identity = Some (digits material_id @ '':'' @ digits revision)
      in bnd (gets (\<lambda>x. filter (\<lambda>(k, _). sk_identity k = identity) (bw_broker_sessions x))) (\<lambda>matches.
         bnd (modify (\<lambda>x. x\<lparr>bw_broker_sessions :=
                filter (\<lambda>(k, _). sk_identity k \<noteq> identity) (bw_broker_sessions x)\<rparr>)) (\<lambda>_.
         for_each (\<lambda>(_, paths). close_files paths) matches)))"

section \<open>Requests and error translation\<close>

definition translate_status :: "nat \<Rightarrow> openbao_error" where
  "translate_status status =
     (if status = 404 then openbao_exn OpenBaoNotFoundC None (Some 404)
      else if status = 409 then openbao_exn OpenBaoConflictC None (Some 409)
      else if status = 401
      then openbao_exn OpenBaoAuthErrorC
             (Some ''The broker did not accept this NetBox instance's client certificate.'') (Some 401)
      else if status = 403
      then openbao_exn OpenBaoAuthErrorC
             (Some (''The broker refused this request for this NetBox instance. Check the instance's ''
                @ ''permitted path prefixes and whether it may write or delete.'')) (Some 403)
      else if status \<in> {502, 503, 504} then openbao_exn OpenBaoUnavailableC None (Some status)
      else openbao_exn OpenBaoErrorC (Some ''The broker rejected the request.'') (Some status))"

definition unreadable_response :: exn where
  "unreadable_response = openbao_err ''The broker returned an unreadable response.''"

definition rstrip_slash :: "string \<Rightarrow> string" where
  "rstrip_slash s = rev (dropWhile (\<lambda>c. c = CHR ''/'') (rev s))"

definition broker_post ::
  "'w requests \<Rightarrow> 'k crypto \<Rightarrow> backend_ctx \<Rightarrow> nat \<Rightarrow> string \<Rightarrow> json \<Rightarrow> ('w backend_world, exn, json) sem" where
  "broker_post rq cx ctx b endpoint body =
     bnd (broker_get_session rq cx ctx b) (\<lambda>key.
     bnd (get_object b) (\<lambda>ob x.
       case remote (rq_post rq key (rstrip_slash (eng_api_url (bo_engine ob)) @ endpoint) body) x of
         (Inl _, x') \<Rightarrow>
           (Inl (OpenBaoExn (openbao_exn OpenBaoUnavailableC (Some ''The broker is unreachable.'') None)), x')
       | (Inr response, x') \<Rightarrow>
           (if 400 \<le> ht_status response then Inl (OpenBaoExn (translate_status (ht_status response)))
            else case ht_body response of None \<Rightarrow> Inl unreadable_response | Some j \<Rightarrow> Inr j, x')))"

definition broker_field :: "json \<Rightarrow> string \<Rightarrow> ('w backend_world, exn, json) sem" where
  "broker_field body name =
     (case body of
        JObj kvs \<Rightarrow> get_or (dict_get kvs name) unreadable_response
      | _ \<Rightarrow> raise unreadable_response)"

definition broker_require_kv2 :: "string \<Rightarrow> nat \<Rightarrow> ('w backend_world, exn, unit) sem" where
  "broker_require_kv2 operation b =
     bnd (get_object b) (\<lambda>ob.
     check (eng_kv_version (bo_engine ob) = 2)
       (config_error (operation @ '' requires a KV version 2 mount; engine '' @ eng_slug (bo_engine ob)
          @ '' is configured for version '' @ digits (eng_kv_version (bo_engine ob))
          @ '', which the broker does not serve.'')))"

section \<open>Decoding\<close>

text \<open>The broker's documented response shapes. The code passes these values on undecoded; a
  value of another type fails where it is first used, here with the Python error of that use.\<close>

definition as_version :: "json \<Rightarrow> exn + nat" where
  "as_version j = (case j of JNum n \<Rightarrow> if 0 \<le> n then Inr (nat n) else Inl (PythonError ''ValueError'')
                   | _ \<Rightarrow> Inl (PythonError ''ValueError''))"

definition as_text :: "json option \<Rightarrow> string option" where
  "as_text j = (case j of Some (JStr s) \<Rightarrow> if s = [] then None else Some s | _ \<Rightarrow> None)"

definition as_version_info :: "json \<Rightarrow> exn + version_info" where
  "as_version_info j =
     (case j of
        JObj kvs \<Rightarrow>
          (case dict_get kvs ''version'' of
             None \<Rightarrow> Inl (PythonError ''KeyError'')
           | Some v \<Rightarrow>
               (case as_version v of
                  Inl e \<Rightarrow> Inl e
                | Inr n \<Rightarrow> Inr \<lparr>vi_version = n, vi_created_time = as_text (dict_get kvs ''created_time''),
                    vi_deletion_time = as_text (dict_get kvs ''deletion_time''),
                    vi_destroyed = (case dict_get kvs ''destroyed'' of None \<Rightarrow> False | Some d \<Rightarrow> truthy d)\<rparr>))
      | _ \<Rightarrow> Inl (PythonError ''TypeError''))"

fun as_version_infos :: "json list \<Rightarrow> exn + version_info list" where
  "as_version_infos [] = Inr []"
| "as_version_infos (j # js) =
     (case as_version_info j of
        Inl e \<Rightarrow> Inl e
      | Inr v \<Rightarrow> (case as_version_infos js of Inl e \<Rightarrow> Inl e | Inr vs \<Rightarrow> Inr (v # vs)))"

definition as_strings :: "(string \<times> json) list \<Rightarrow> (string \<times> string) list" where
  "as_strings kvs = map (\<lambda>(k, v). (k, case v of JStr s \<Rightarrow> s | _ \<Rightarrow> [])) kvs"

definition as_metadata :: "json \<Rightarrow> exn + kv_metadata" where
  "as_metadata j =
     (case j of
        JObj kvs \<Rightarrow>
          Inr \<lparr>km_current_version =
                 (case dict_get kvs ''current_version'' of
                    Some v \<Rightarrow> (case as_version v of Inr n \<Rightarrow> Some n | Inl _ \<Rightarrow> None) | None \<Rightarrow> None),
               km_custom_metadata = (case dict_get kvs ''custom_metadata'' of Some (JObj c) \<Rightarrow> as_strings c | _ \<Rightarrow> [])\<rparr>
      | _ \<Rightarrow> Inl (PythonError ''AttributeError''))"

section \<open>SecretBackend operations\<close>

definition broker_read ::
  "'w requests \<Rightarrow> 'k crypto \<Rightarrow> backend_ctx \<Rightarrow> nat \<Rightarrow> string \<Rightarrow> nat option \<Rightarrow> ('w backend_world, exn, json) sem" where
  "broker_read rq cx ctx b path version =
     bnd (broker_require_kv2 ''Reading a secret through the broker'' b) (\<lambda>_.
     bnd (broker_post rq cx ctx b ''/v1/secret/read''
            (JObj ([(''path'', JStr path)] @ (case version of None \<Rightarrow> [] | Some v \<Rightarrow> [(''version'', JNum (int v))]))))
       (\<lambda>body. broker_field body ''data''))"

definition broker_write ::
  "'w requests \<Rightarrow> 'k crypto \<Rightarrow> backend_ctx \<Rightarrow> nat \<Rightarrow> string \<Rightarrow> payload \<Rightarrow> nat option \<Rightarrow> ('w backend_world, exn, nat) sem" where
  "broker_write rq cx ctx b path data cas =
     bnd (broker_require_kv2 ''Writing a secret through the broker'' b) (\<lambda>_.
     bnd (broker_post rq cx ctx b ''/v1/secret/write''
            (JObj ([(''path'', JStr path), (''data'', JObj data)]
                   @ (case cas of None \<Rightarrow> [] | Some v \<Rightarrow> [(''cas'', JNum (int v))])))) (\<lambda>body.
     bnd (broker_field body ''version'') (\<lambda>v. lift_sum (as_version v))))"

definition broker_delete ::
  "'w requests \<Rightarrow> 'k crypto \<Rightarrow> backend_ctx \<Rightarrow> nat \<Rightarrow> string \<Rightarrow> nat list option \<Rightarrow> ('w backend_world, exn, unit) sem" where
  "broker_delete rq cx ctx b path versions =
     bnd (broker_require_kv2 ''Deleting a secret through the broker'' b) (\<lambda>_.
     bnd (broker_post rq cx ctx b ''/v1/secret/delete''
            (JObj ([(''path'', JStr path)]
                   @ (case versions of
                        Some (v # vs) \<Rightarrow> [(''versions'', JArr (map (\<lambda>n. JNum (int n)) (v # vs)))]
                      | _ \<Rightarrow> [])))) (\<lambda>_. ret ()))"

definition broker_list_versions ::
  "'w requests \<Rightarrow> 'k crypto \<Rightarrow> backend_ctx \<Rightarrow> nat \<Rightarrow> string \<Rightarrow> ('w backend_world, exn, version_info list) sem" where
  "broker_list_versions rq cx ctx b path =
     bnd (broker_require_kv2 ''Listing versions through the broker'' b) (\<lambda>_.
     bnd (broker_post rq cx ctx b ''/v1/secret/versions'' (JObj [(''path'', JStr path)])) (\<lambda>body.
     bnd (broker_field body ''versions'') (\<lambda>vs.
     case vs of JArr js \<Rightarrow> lift_sum (as_version_infos js) | _ \<Rightarrow> raise (PythonError ''TypeError''))))"

definition broker_read_metadata ::
  "'w requests \<Rightarrow> 'k crypto \<Rightarrow> backend_ctx \<Rightarrow> nat \<Rightarrow> string \<Rightarrow> ('w backend_world, exn, kv_metadata) sem" where
  "broker_read_metadata rq cx ctx b path =
     bnd (broker_require_kv2 ''Reading metadata through the broker'' b) (\<lambda>_.
     bnd (broker_post rq cx ctx b ''/v1/secret/metadata/read'' (JObj [(''path'', JStr path)])) (\<lambda>body.
     bnd (broker_field body ''metadata'') (\<lambda>m. lift_sum (as_metadata m))))"

definition broker_set_metadata ::
  "'w requests \<Rightarrow> 'k crypto \<Rightarrow> backend_ctx \<Rightarrow> nat \<Rightarrow> string \<Rightarrow> (string \<times> string) list \<Rightarrow> ('w backend_world, exn, unit) sem" where
  "broker_set_metadata rq cx ctx b path metadata =
     bnd (broker_require_kv2 ''Setting custom metadata through the broker'' b) (\<lambda>_.
     bnd (broker_post rq cx ctx b ''/v1/secret/metadata/write''
            (JObj [(''path'', JStr path), (''custom_metadata'', JObj (map (\<lambda>(k, v). (k, JStr v)) metadata))]))
       (\<lambda>_. ret ()))"

definition broker_health_status :: "json option \<Rightarrow> health_result" where
  "broker_health_status body =
     (let bao = (case body of Some (JObj kvs) \<Rightarrow> (case dict_get kvs ''openbao'' of Some (JObj st) \<Rightarrow> st | _ \<Rightarrow> []) | _ \<Rightarrow> []);
          flag = (\<lambda>n. case dict_get bao n of None \<Rightarrow> False | Some v \<Rightarrow> truthy v)
      in if \<not> flag ''reachable''
         then \<lparr>hr_status = STATUS_UNREACHABLE, hr_message = ''The broker is up, but cannot reach OpenBao.''\<rparr>
         else if flag ''sealed'' then \<lparr>hr_status = STATUS_SEALED, hr_message = ''Instance is sealed.''\<rparr>
         else \<lparr>hr_status = STATUS_HEALTHY,
               hr_message = ''Version '' @ (case as_text (dict_get bao ''version'') of None \<Rightarrow> ''unknown'' | Some v \<Rightarrow> v)
                 @ '', through the broker.''\<rparr>)"

definition broker_health ::
  "'w requests \<Rightarrow> 'k crypto \<Rightarrow> backend_ctx \<Rightarrow> nat \<Rightarrow> ('w backend_world, exn, health_result) sem" where
  "broker_health rq cx ctx b x =
     (case broker_get_session rq cx ctx b x of
        (Inl (OpenBaoExn e), x1) \<Rightarrow>
          if is_subclass (oe_class e) BackendConfigurationErrorC
          then (Inr \<lparr>hr_status = STATUS_UNREACHABLE, hr_message = oe_message e\<rparr>, x1)
          else (Inl (OpenBaoExn e), x1)
      | (Inl e, x1) \<Rightarrow> (Inl e, x1)
      | (Inr key, x1) \<Rightarrow>
          bnd (get_object b) (\<lambda>ob x2.
            case remote (rq_get rq key (rstrip_slash (eng_api_url (bo_engine ob)) @ ''/healthz'')) x2 of
              (Inl _, x3) \<Rightarrow>
                (Inr \<lparr>hr_status = STATUS_UNREACHABLE, hr_message = ''The broker is unreachable.''\<rparr>, x3)
            | (Inr response, x3) \<Rightarrow>
                (Inr (if ht_status response \<in> {401, 403}
                      then \<lparr>hr_status = STATUS_UNAUTHORIZED,
                            hr_message = ''The broker refused this NetBox instance's client certificate.''\<rparr>
                      else if 400 \<le> ht_status response
                      then \<lparr>hr_status = STATUS_UNREACHABLE,
                            hr_message = ''The broker returned HTTP '' @ digits (ht_status response) @ ''.''\<rparr>
                      else broker_health_status (ht_body response)), x3)) x1)"

end
