(* ===== verification/Backend_Registry.thy ===== *)
theory Backend_Registry
  imports Broker_Backend
begin

text \<open>
  The backend factory (\<^verbatim>\<open>backends/__init__.py\<close>): which class serves an engine, which stored
  identity it authenticates with, and the methods of each class as one \<open>secret_backend\<close>.
\<close>

text \<open>\<open>owner.auth_material\<close>: the reverse of the one-to-one column, \<open>None\<close> where it raises.\<close>

definition engine_identity :: "auth_tbl \<Rightarrow> nat \<Rightarrow> engine_auth_material option" where
  "engine_identity t pk = List.find (\<lambda>m. am_engine_id m = Some pk) (rows t)"

definition policy_identity :: "auth_tbl \<Rightarrow> nat \<Rightarrow> engine_auth_material option" where
  "policy_identity t pk = List.find (\<lambda>m. am_policy_id m = Some pk) (rows t)"

definition resolve_auth_material ::
  "auth_tbl \<Rightarrow> secret_engine \<Rightarrow> credential_policy option \<Rightarrow> engine_auth_material option" where
  "resolve_auth_material t eng pol =
     (case pol of
        None \<Rightarrow> engine_identity t (eng_pk eng)
      | Some p \<Rightarrow>
          (case policy_identity t (pol_pk p) of
             Some m \<Rightarrow> Some m
           | None \<Rightarrow> engine_identity t (eng_pk eng)))"

definition new_object ::
  "secret_engine \<Rightarrow> engine_auth_material option \<Rightarrow> 'w backend_world \<Rightarrow> nat \<times> 'w backend_world" where
  "new_object eng material x =
     (bw_next_object x,
      x\<lparr>bw_objects := put_row (bw_next_object x)
          \<lparr>bo_class = eng_backend eng, bo_engine = eng, bo_auth = material, bo_client = None, bo_session = None\<rparr>
          (bw_objects x),
        bw_next_object := Suc (bw_next_object x)\<rparr>)"

definition get_backend ::
  "('x, 'b) secret_backend \<Rightarrow> auth_tbl \<Rightarrow> secret_engine \<Rightarrow> credential_policy option \<Rightarrow> 'x \<Rightarrow> 'b \<times> 'x" where
  "get_backend bk t eng pol = b_new bk eng (resolve_auth_material t eng pol)"

text \<open>Method dispatch on the class of the object.\<close>

definition by_class ::
  "nat \<Rightarrow> ('w backend_world, exn, 'a) sem \<Rightarrow> ('w backend_world, exn, 'a) sem \<Rightarrow> ('w backend_world, exn, 'a) sem" where
  "by_class b direct broker =
     bnd (get_object b) (\<lambda>ob. if bo_class ob = BACKEND_BROKER then broker else direct)"

definition plugin_backends ::
  "'w hvac \<Rightarrow> 'w requests \<Rightarrow> 'k crypto \<Rightarrow> ('w backend_world, nat) secret_backend" where
  "plugin_backends hv rq cx =
     \<lparr>b_new = new_object,
      b_read = (\<lambda>ctx b path v. by_class b (bao_read hv cx ctx b path v) (broker_read rq cx ctx b path v)),
      b_write = (\<lambda>ctx b path d cas. by_class b (bao_write hv cx ctx b path d cas) (broker_write rq cx ctx b path d cas)),
      b_delete = (\<lambda>ctx b path vs. by_class b (bao_delete hv cx ctx b path vs) (broker_delete rq cx ctx b path vs)),
      b_list_versions = (\<lambda>ctx b path. by_class b (bao_list_versions hv cx ctx b path) (broker_list_versions rq cx ctx b path)),
      b_read_metadata = (\<lambda>ctx b path. by_class b (bao_read_metadata hv cx ctx b path) (broker_read_metadata rq cx ctx b path)),
      b_set_metadata = (\<lambda>ctx b path m. by_class b (bao_set_metadata hv cx ctx b path m) (broker_set_metadata rq cx ctx b path m)),
      b_health = (\<lambda>ctx b. bnd (get_object b) (\<lambda>ob.
         case bo_class ob of
           BACKEND_OPENBAO \<Rightarrow> bao_health hv cx b
         | BACKEND_VAULT \<Rightarrow> vault_health hv cx b
         | BACKEND_BROKER \<Rightarrow> broker_health rq cx ctx b))\<rparr>"

end
