(* ===== verification/Services.thy ===== *)
theory Services
  imports Synchronization Backend_Registry
begin

text \<open>
  The service layer (\<^verbatim>\<open>services.py\<close>): everything that touches secret material. Authorization by
  policy groups, the custom metadata projection, the write path with its ownership of the
  commit, the reveal and the staged rotation.
\<close>

section \<open>Authorization\<close>

definition group_permitted :: "credential_policy \<Rightarrow> user option \<Rightarrow> bool" where
  "group_permitted p u =
     (case u of
        None \<Rightarrow> True
      | Some v \<Rightarrow> usr_is_superuser v \<or> pol_groups p = [] \<or> list_ex (\<lambda>g. g \<in> set (pol_groups p)) (usr_groups v))"

text \<open>\<open>credential.policy\<close>; attribute access on a credential without one raises.\<close>

definition policy_p :: "credential \<Rightarrow> ('x, 'b, credential_policy) prog" where
  "policy_p c = bnd (gets (\<lambda>s. policy_of (db s) c)) (\<lambda>p. get_or p ObjectDoesNotExist)"

definition engine_p :: "credential \<Rightarrow> ('x, 'b, secret_engine) prog" where
  "engine_p c = bnd (gets (\<lambda>s. engine_of (db s) c)) (\<lambda>e. get_or e ObjectDoesNotExist)"

definition bypasses_groups :: "user option \<Rightarrow> bool" where
  "bypasses_groups u = (case u of None \<Rightarrow> True | Some v \<Rightarrow> usr_is_superuser v)"

definition enforce_policy_access ::
  "('x, 'b, 'c) env \<Rightarrow> credential \<Rightarrow> user option \<Rightarrow> access_action option \<Rightarrow> http_request option \<Rightarrow> ('x, 'b, unit) prog" where
  "enforce_policy_access env c u action request =
     (if bypasses_groups u then ret ()
      else bnd (policy_p c) (\<lambda>p.
        if pol_groups p = [] then ret ()
        else if (case u of None \<Rightarrow> False | Some v \<Rightarrow> list_ex (\<lambda>g. g \<in> set (pol_groups p)) (usr_groups v)) then ret ()
        else bnd (case action of
                    None \<Rightarrow> ret None
                  | Some a \<Rightarrow> log_access_p env c u a False [] ''Policy group membership required.'' request True)
               (\<lambda>_. raise (PermissionDenied ''Your groups are not permitted to access credentials under this policy.''))))"

definition enforce_update_access ::
  "('x, 'b, 'c) env \<Rightarrow> credential option \<Rightarrow> user option \<Rightarrow> access_action option \<Rightarrow> http_request option \<Rightarrow> ('x, 'b, unit) prog" where
  "enforce_update_access env c u action request =
     (case Option.bind c cr_pk of
        None \<Rightarrow> ret ()
      | Some k \<Rightarrow>
          bnd (gets (\<lambda>s. load_credential (db s) k)) (\<lambda>committed.
          case committed of None \<Rightarrow> ret () | Some r \<Rightarrow> enforce_policy_access env r u action request))"

section \<open>Custom metadata\<close>

definition assignment_label :: "credential_assignment \<Rightarrow> string" where
  "assignment_label a =
     (case asg_object_type a of
        None \<Rightarrow> []
      | Some t \<Rightarrow> ct_app_label t @ ''.'' @ ct_model t @ '':'' @ digits (asg_object_id a))"

definition rstrip_slashes :: "string \<Rightarrow> string" where
  "rstrip_slashes s = rev (dropWhile (\<lambda>c. c = CHR ''/'') (rev s))"

definition build_custom_metadata :: "('x, 'b, 'c) env \<Rightarrow> database \<Rightarrow> credential \<Rightarrow> (string \<times> string) list" where
  "build_custom_metadata env d c =
     (let labels = join_with '','' (map assignment_label (case cr_pk c of None \<Rightarrow> [] | Some k \<Rightarrow> assignments_of d k));
          base = rstrip_slashes (e_site_url env);
          entries =
            [(''managed_by'', ''netbox-openbao''),
             (''netbox_credential_id'', case cr_pk c of None \<Rightarrow> ''None'' | Some k \<Rightarrow> digits k),
             (''netbox_credential_uuid'', cr_uuid c),
             (''netbox_credential_type'', cr_credential_type c),
             (''netbox_policy'', case policy_of d c of None \<Rightarrow> [] | Some p \<Rightarrow> pol_slug p),
             (''netbox_assignments'', labels)]
            @ (if cr_import_source c = [] then [] else [(''netbox_import_source'', cr_import_source c)])
            @ (if base = [] then []
               else case e_absolute_url env c of None \<Rightarrow> [] | Some u \<Rightarrow> [(''netbox_url'', base @ u)])
      in filter (\<lambda>(_, v). v \<noteq> []) entries)"

definition get_backend_p ::
  "('x, 'b, 'c) env \<Rightarrow> secret_engine \<Rightarrow> credential_policy \<Rightarrow> ('x, 'b, 'b) prog" where
  "get_backend_p env eng pol s =
     (case get_backend (e_backend env) (auth_materials (db s)) eng (Some pol) (ext s) of
        (b, x) \<Rightarrow> (Inr b, s\<lparr>ext := x\<rparr>))"

text \<open>The advisory lock of \<open>lock_custom_metadata_projection\<close> orders a publication against a deletion;
  in one request's sequence of steps it has no effect. Both failures are logged, never raised.\<close>

definition publish_custom_metadata :: "('x, 'b, 'c) env \<Rightarrow> nat \<Rightarrow> ('x, 'b, unit) prog" where
  "publish_custom_metadata env k =
     bnd (gets (\<lambda>s. load_credential (db s) k)) (\<lambda>r.
     case r of
       None \<Rightarrow> ret ()
     | Some c \<Rightarrow>
         on_exn
           (bnd (engine_p c) (\<lambda>eng. bnd (policy_p c) (\<lambda>pol.
            bnd (get_backend_p env eng pol) (\<lambda>b.
            bnd (gets (\<lambda>s. build_custom_metadata env (db s) c)) (\<lambda>m.
            backend_call env (\<lambda>ctx. b_set_metadata (e_backend env) ctx b (cr_path c) m))))))
           (\<lambda>_. ret ()))"

definition run_metadata_projection :: "('x, 'b, 'c) env \<Rightarrow> nat \<Rightarrow> ('x, 'b, unit) prog" where
  "run_metadata_projection env k = on_exn (publish_custom_metadata env k) (\<lambda>_. ret ())"

section \<open>Deleting material\<close>

definition row_exists :: "database \<Rightarrow> credential \<Rightarrow> bool" where
  "row_exists d c = (case cr_pk c of None \<Rightarrow> False | Some k \<Rightarrow> row (credentials d) k \<noteq> None)"

definition error_text :: "exn \<Rightarrow> string" where
  "error_text e = (case e of OpenBaoExn x \<Rightarrow> oe_message x | _ \<Rightarrow> [])"

text \<open>An \<open>except OpenBaoError as exc: log; raise\<close> around a backend call.\<close>

definition audited_call ::
  "('x, 'b, 'c) env \<Rightarrow> credential \<Rightarrow> user option \<Rightarrow> access_action \<Rightarrow> string \<Rightarrow> http_request option \<Rightarrow> bool
   \<Rightarrow> ('x, 'b, 'a) prog \<Rightarrow> ('x, 'b, 'a) prog" where
  "audited_call env c u action reason request link m =
     on_exn m (\<lambda>e. if is_openbao e
        then bnd (log_access_p env c u action False reason (error_text e) request link) (\<lambda>_. raise e)
        else raise e)"

definition delete_material ::
  "('x, 'b, 'c) env \<Rightarrow> credential \<Rightarrow> secret_engine \<Rightarrow> user option \<Rightarrow> http_request option \<Rightarrow> ('x, 'b, unit) prog" where
  "delete_material env c eng u request =
     bnd (policy_p c) (\<lambda>pol.
     bnd (get_backend_p env eng pol) (\<lambda>b.
     bnd (gets (\<lambda>s. row_exists (db s) c)) (\<lambda>link.
     bnd (audited_call env c u ACTION_DELETE [] request link
            (backend_call env (\<lambda>ctx. b_delete (e_backend env) ctx b (cr_path c) None))) (\<lambda>_.
     bnd (log_access_p env c u ACTION_DELETE True [] [] request link) (\<lambda>_. ret ())))))"

section \<open>Callbacks run after a commit\<close>

text \<open>\<^verbatim>\<open>signals.destroy_material_on_delete\<close>'s callback and the metadata projection: neither raises.\<close>

definition run_hook :: "('x, 'b, 'c) env \<Rightarrow> hook \<Rightarrow> ('x, 'b, unit) prog" where
  "run_hook env h =
     (case h of
        PublishMetadata k \<Rightarrow> run_metadata_projection env k
      | DestroyMaterial c eng \<Rightarrow> on_exn (delete_material env c eng None None) (\<lambda>_. ret ()))"

definition defer_custom_metadata :: "('x, 'b, 'c) env \<Rightarrow> nat option list \<Rightarrow> ('x, 'b, unit) prog" where
  "defer_custom_metadata env ids =
     for_each (\<lambda>k. on_commit (run_hook env) (PublishMetadata k)) (sorted_ids (filter (\<lambda>k. k \<noteq> 0) (opt_ids ids)))"

section \<open>The write path\<close>

definition prepare_material ::
  "('x, 'b, 'c) env \<Rightarrow> database \<Rightarrow> string \<Rightarrow> json \<Rightarrow> exn + (payload \<times> metadata)" where
  "prepare_material env d ctype p =
     (case validate_payload (e_lib env) d ctype p of
        Inl e \<Rightarrow> Inl e
      | Inr cleaned \<Rightarrow>
          (case extract_metadata (e_lib env) (e_cfg env) d ctype cleaned of
             Inl e \<Rightarrow> Inl e
           | Inr m \<Rightarrow> Inr (cleaned, m)))"

text \<open>The in-memory changes between the backend write and the save, with the fields the save
  names.\<close>

definition record_version ::
  "int \<Rightarrow> string \<Rightarrow> nat \<Rightarrow> bool \<Rightarrow> access_action \<Rightarrow> credential \<Rightarrow> credential \<times> string list" where
  "record_version now fp version promote action c0 =
     (let c1 = c0\<lparr>cr_kv_version := Some version, cr_last_verified := Some now\<rparr>;
          (c2, kf) = record_key_version c1 fp (Some version) promote;
          (c3, vf) = (if promote
                      then (c2\<lparr>cr_live_kv_version := Some version, cr_staged_kv_version := None\<rparr>,
                            [''live_kv_version'', ''staged_kv_version''])
                      else (c2\<lparr>cr_staged_kv_version := Some version\<rparr>, [''staged_kv_version'']));
          (c4, rf) = (if action = ACTION_ROTATE then (c3\<lparr>cr_last_rotated := Some now\<rparr>, [''last_rotated'']) else (c3, []));
          (c5, sf) = (if action = ACTION_STAGE then (c4\<lparr>cr_status := STATUS_STAGED\<rparr>, [''status'']) else (c4, []))
      in (c5, [''kv_version'', ''last_verified''] @ kf @ vf @ rf @ sf))"

definition set_attempt :: "('b material_attempt \<Rightarrow> 'b material_attempt) \<Rightarrow> 'b MaterialTransaction \<Rightarrow> 'b MaterialTransaction" where
  "set_attempt f t =
     (case rev (mt_attempts t) of [] \<Rightarrow> t | a # as \<Rightarrow> t\<lparr>mt_attempts := rev as @ [f a]\<rparr>)"

definition append_attempt :: "'b material_attempt \<Rightarrow> 'b MaterialTransaction \<Rightarrow> 'b MaterialTransaction" where
  "append_attempt a t = t\<lparr>mt_attempts := mt_attempts t @ [a]\<rparr>"

text \<open>
  \<open>store_credential\<close>'s body. \<open>persist\<close> is the injected persistence step; it gets the subject as
  the locks refreshed it and returns the saved credential.
\<close>

definition write_attempt ::
  "('x, 'b, 'c) env \<Rightarrow> credential \<Rightarrow> payload \<Rightarrow> string \<Rightarrow> nat option \<Rightarrow> user option \<Rightarrow> http_request option
   \<Rightarrow> access_action \<Rightarrow> bool \<Rightarrow> ('x, 'b, credential \<times> nat) prog" where
  "write_attempt env c cleaned fp cas u request action promote =
     bnd (engine_p c) (\<lambda>eng. bnd (policy_p c) (\<lambda>pol.
     bnd (get_backend_p env eng pol) (\<lambda>b.
     bnd (update_owner (append_attempt \<lparr>ma_credential = c, ma_backend = b, ma_path = cr_path c, ma_user = u,
            ma_action = action, ma_version = None, ma_audit_id = None\<rparr>)) (\<lambda>_.
     bnd (backend_call env (\<lambda>ctx. b_write (e_backend env) ctx b (cr_path c) cleaned cas)) (\<lambda>version.
     bnd (update_owner (set_attempt (\<lambda>a. a\<lparr>ma_version := Some version\<rparr>))) (\<lambda>_.
     case record_version (e_now env) fp version promote action c of
       (c', names) \<Rightarrow>
         bnd (try_db (credential_save_fields names c')) (\<lambda>_.
         bnd (defer_custom_metadata env [cr_pk c']) (\<lambda>_.
         bnd (log_access_p env c' u action True [] [] request True) (\<lambda>audit.
         bnd (update_owner (set_attempt (\<lambda>a. a\<lparr>ma_audit_id := audit\<rparr>))) (\<lambda>_.
         ret (c', version)))))))))))"

definition store_body ::
  "('x, 'b, 'c) env \<Rightarrow> (credential option \<Rightarrow> metadata \<Rightarrow> ('x, 'b, credential) prog) \<Rightarrow> string \<Rightarrow> json \<Rightarrow> nat option
   \<Rightarrow> user option \<Rightarrow> http_request option \<Rightarrow> access_action \<Rightarrow> credential option \<Rightarrow> bool \<Rightarrow> nat option \<Rightarrow> bool
   \<Rightarrow> ('x, 'b, credential \<times> nat) prog" where
  "store_body env persist ctype p cas u request action subject promote target_policy prelocked =
     bnd (gets (\<lambda>s. prepare_material env (db s) ctype p)) (\<lambda>r.
     bnd (lift_sum r) (\<lambda>(cleaned, metadata).
     bnd (gets (\<lambda>s. derive_key_fingerprint (e_lib env) (db s) ctype cleaned)) (\<lambda>f.
     bnd (lift_sum f) (\<lambda>fp.
     bnd (if prelocked then ret subject else lock_material_subject env subject target_policy) (\<lambda>subj.
     bnd (persist subj metadata) (\<lambda>c.
     bnd (refresh_material_selectors c) (\<lambda>_.
     bnd current_material_transaction (\<lambda>_.
     bnd (update_owner (add_graph ''credential'' (opt_ids [cr_pk c]))) (\<lambda>_.
     write_attempt env c cleaned fp cas u request action promote)))))))))"

definition store_credential ::
  "('x, 'b, 'c) env \<Rightarrow> (credential option \<Rightarrow> metadata \<Rightarrow> ('x, 'b, credential) prog) \<Rightarrow> string \<Rightarrow> json \<Rightarrow> nat option
   \<Rightarrow> user option \<Rightarrow> http_request option \<Rightarrow> access_action \<Rightarrow> credential option \<Rightarrow> bool \<Rightarrow> nat option \<Rightarrow> bool
   \<Rightarrow> ('x, 'b, credential \<times> nat) prog" where
  "store_credential env persist ctype p cas u request action subject promote target_policy prelocked =
     material_transaction env (run_hook env)
       (store_body env persist ctype p cas u request action subject promote target_policy prelocked)"

text \<open>\<open>write_material\<close>'s closure: stamp the extracted metadata, validate, save.\<close>

definition persist_instance ::
  "('x, 'b, 'c) env \<Rightarrow> credential \<Rightarrow> credential option \<Rightarrow> metadata \<Rightarrow> ('x, 'b, credential) prog" where
  "persist_instance env c subj metadata =
     bnd (gets (\<lambda>s. credential_full_clean (e_field_errors env) (db s)
            (set_metadata metadata (case subj of None \<Rightarrow> c | Some c' \<Rightarrow> c')))) (\<lambda>r.
     bnd (lift_sum r) (\<lambda>clean. try_db (credential_save (e_cfg env) (e_now env) clean)))"

definition write_material ::
  "('x, 'b, 'c) env \<Rightarrow> credential \<Rightarrow> json \<Rightarrow> nat option \<Rightarrow> user option \<Rightarrow> http_request option \<Rightarrow> access_action \<Rightarrow> bool
   \<Rightarrow> ('x, 'b, credential \<times> nat) prog" where
  "write_material env c p cas u request action promote =
     store_credential env (persist_instance env c) (cr_credential_type c) p cas u request action (Some c) promote None False"

definition rotate_body ::
  "('x, 'b, 'c) env \<Rightarrow> json \<Rightarrow> user option \<Rightarrow> http_request option \<Rightarrow> credential \<Rightarrow> ('x, 'b, credential \<times> nat) prog" where
  "rotate_body env p u request c =
     bnd (enforce_policy_access env c u (Some ACTION_ROTATE) request) (\<lambda>_.
     write_material env c p (cr_kv_version c) u request ACTION_ROTATE True)"

definition rotate_material ::
  "('x, 'b, 'c) env \<Rightarrow> credential \<Rightarrow> json \<Rightarrow> user option \<Rightarrow> http_request option \<Rightarrow> ('x, 'b, credential \<times> nat) prog" where
  "rotate_material env c p u request =
     synchronized_material_change env (run_hook env) ACTION_ROTATE u request (rotate_body env p u request) c"

section \<open>Reading\<close>

text \<open>\<open>min(int(get_config('reveal_ttl') or 300), policy.max_reveal_ttl)\<close>.\<close>

definition reveal_ttl_of :: "('x, 'b, 'c) env \<Rightarrow> credential_policy \<Rightarrow> int" where
  "reveal_ttl_of env pol =
     min (if set_reveal_ttl (e_cfg env) = 0 then 300 else set_reveal_ttl (e_cfg env)) (pol_max_reveal_ttl pol)"

definition effective_version :: "credential \<Rightarrow> nat option \<Rightarrow> nat option" where
  "effective_version c version = (case version of Some v \<Rightarrow> Some v | None \<Rightarrow> cr_live_kv_version c)"

text \<open>What follows the checks of a reveal: the read on the engine's handle, and the audit row.\<close>

definition reveal_read ::
  "('x, 'b, 'c) env \<Rightarrow> credential \<Rightarrow> credential_policy \<Rightarrow> user option \<Rightarrow> http_request option \<Rightarrow> string \<Rightarrow> nat option \<Rightarrow> ('x, 'b, json \<times> int) prog" where
  "reveal_read env c pol u request reason v =
     bnd (engine_p c) (\<lambda>eng.
     bnd (get_backend_p env eng pol) (\<lambda>b.
     bnd (audited_call env c u ACTION_REVEAL reason request True
            (backend_call env (\<lambda>ctx. b_read (e_backend env) ctx b (cr_path c) v))) (\<lambda>data.
     bnd (log_access_p env c u ACTION_REVEAL True reason [] request True) (\<lambda>_.
     ret (data, reveal_ttl_of env pol)))))"

definition reveal_material ::
  "('x, 'b, 'c) env \<Rightarrow> credential \<Rightarrow> user option \<Rightarrow> http_request option \<Rightarrow> string \<Rightarrow> nat option \<Rightarrow> ('x, 'b, json \<times> int) prog" where
  "reveal_material env c u request reason version =
     bnd (enforce_policy_access env c u (Some ACTION_REVEAL) request) (\<lambda>_.
     bnd (policy_p c) (\<lambda>pol.
     bnd (if pol_require_reason pol \<and> strip reason = []
          then bnd (log_access_p env c u ACTION_REVEAL False [] ''Reason required by policy.'' request True)
                 (\<lambda>_. raise (ValidationError ''reason''
                    (''This credential'' @ [CHR 0x27] @ ''s policy requires a reason for every reveal.'')))
          else ret ()) (\<lambda>_.
     reveal_read env c pol u request reason (effective_version c version))))"

definition MAX_BUNDLE_VALUE :: nat where
  "MAX_BUNDLE_VALUE = 262144"

definition invalid_payload :: exn where
  "invalid_payload = openbao_err ''The credential payload is invalid.''"

text \<open>The projection of a payload onto the declared fields; a string's length is its length in
  bytes.\<close>

fun project_fields :: "(string \<times> bool) list \<Rightarrow> payload \<Rightarrow> exn + (string \<times> string) list" where
  "project_fields [] data = Inr []"
| "project_fields ((f, required) # fs) data =
     (case dict_get data f of
        None \<Rightarrow> if required then Inl invalid_payload else project_fields fs data
      | Some (JStr v) \<Rightarrow>
          if length v > MAX_BUNDLE_VALUE then Inl invalid_payload
          else (case project_fields fs data of Inl e \<Rightarrow> Inl e | Inr r \<Rightarrow> Inr ((f, v) # r))
      | Some _ \<Rightarrow> Inl invalid_payload)"

definition read_automation_bundle ::
  "('x, 'b, 'c) env \<Rightarrow> credential \<Rightarrow> secret_engine \<Rightarrow> credential_policy \<Rightarrow> nat \<Rightarrow> (string \<times> bool) list \<Rightarrow> string option
   \<Rightarrow> ('x, 'b, (string \<times> string) list \<times> int) prog" where
  "read_automation_bundle env c eng pol version flds expected =
     bnd (get_backend_p env eng pol) (\<lambda>b.
     bnd (backend_call env (\<lambda>ctx. b_read (e_backend env) ctx b (cr_path c) (Some version))) (\<lambda>j.
     case j of
       JObj data \<Rightarrow>
         bnd (gets (\<lambda>s. verify_bundle_identity (e_lib env) (db s) c data expected)) (\<lambda>r.
         bnd (lift_sum r) (\<lambda>_.
         bnd (lift_sum (project_fields flds data)) (\<lambda>result.
         ret (result, reveal_ttl_of env pol))))
     | _ \<Rightarrow> raise invalid_payload))"

section \<open>Staged rotation\<close>

definition stage_body ::
  "('x, 'b, 'c) env \<Rightarrow> json \<Rightarrow> user option \<Rightarrow> http_request option \<Rightarrow> credential \<Rightarrow> ('x, 'b, credential \<times> nat) prog" where
  "stage_body env p u request c =
     bnd (enforce_policy_access env c u (Some ACTION_STAGE) request) (\<lambda>_.
     bnd (check (\<not> has_staged_version c)
            (ValidationError ''status'' ''This credential already has a staged version. Promote or discard it first.'')) (\<lambda>_.
     let pin = (cr_live_kv_version c = None \<and> cr_kv_version c \<noteq> None);
         c' = (if pin then c\<lparr>cr_live_kv_version := cr_kv_version c\<rparr> else c) in
     bnd (if pin then try_db (credential_save_fields [''live_kv_version''] c') else ret ()) (\<lambda>_.
     write_material env c' p (cr_kv_version c') u request ACTION_STAGE False)))"

definition stage_material ::
  "('x, 'b, 'c) env \<Rightarrow> credential \<Rightarrow> json \<Rightarrow> user option \<Rightarrow> http_request option \<Rightarrow> ('x, 'b, credential \<times> nat) prog" where
  "stage_material env c p u request =
     synchronized_material_change env (run_hook env) ACTION_STAGE u request (stage_body env p u request) c"

definition rstrip_colons :: "string \<Rightarrow> string" where
  "rstrip_colons s = rev (dropWhile (\<lambda>c. c = CHR '':'') (rev s))"

definition promote_reason :: "bool \<Rightarrow> string \<Rightarrow> string" where
  "promote_reason verified text = (if verified then rstrip_colons (strip (''verified: '' @ text)) else text)"

definition promoted :: "int \<Rightarrow> credential \<Rightarrow> credential \<times> string list" where
  "promoted now c =
     (let (c1, kf) = promote_key_identity c
      in (c1\<lparr>cr_live_kv_version := cr_staged_kv_version c1, cr_staged_kv_version := None, cr_status := STATUS_ACTIVE,
             cr_last_rotated := Some now\<rparr>,
          [''live_kv_version'', ''staged_kv_version'', ''status'', ''last_rotated''] @ kf))"

definition promote_body ::
  "('x, 'b, 'c) env \<Rightarrow> user option \<Rightarrow> http_request option \<Rightarrow> bool \<Rightarrow> string \<Rightarrow> credential \<Rightarrow> ('x, 'b, credential) prog" where
  "promote_body env u request verified text c =
     bnd (enforce_policy_access env c u (Some ACTION_PROMOTE) request) (\<lambda>_.
     bnd (check (has_staged_version c)
            (ValidationError ''status'' ''This credential has no staged version to promote.'')) (\<lambda>_.
     bnd (engine_p c) (\<lambda>eng. bnd (policy_p c) (\<lambda>pol.
     bnd (get_backend_p env eng pol) (\<lambda>b.
     bnd (audited_call env c u ACTION_PROMOTE [] request True
            (backend_call env (\<lambda>ctx. b_list_versions (e_backend env) ctx b (cr_path c)))) (\<lambda>versions.
     bnd (if version_present versions (cr_staged_kv_version c) then ret ()
          else bnd (log_access_p env c u ACTION_PROMOTE False [] ''Staged version is no longer present.'' request True)
                 (\<lambda>_. raise (ValidationError ''status'' (''Version ''
                    @ (case cr_staged_kv_version c of None \<Rightarrow> ''None'' | Some k \<Rightarrow> digits k)
                    @ '' is no longer present in OpenBao and cannot be promoted.'')))) (\<lambda>_.
     case promoted (e_now env) c of
       (c', names) \<Rightarrow>
         bnd (try_db (credential_save_fields names c')) (\<lambda>_.
         bnd (log_access_p env c' u ACTION_PROMOTE True (promote_reason verified text) [] request True) (\<lambda>_.
         ret c')))))))))"

definition promote_staged ::
  "('x, 'b, 'c) env \<Rightarrow> credential \<Rightarrow> user option \<Rightarrow> http_request option \<Rightarrow> bool \<Rightarrow> string \<Rightarrow> ('x, 'b, credential) prog" where
  "promote_staged env c u request verified text =
     synchronized_material_change env (run_hook env) ACTION_PROMOTE u request (promote_body env u request verified text) c"

definition discarded :: "credential \<Rightarrow> credential \<times> string list" where
  "discarded c =
     (let (c1, kf) = clear_staged_key c
      in (c1\<lparr>cr_staged_kv_version := None, cr_status := STATUS_ACTIVE\<rparr>, [''staged_kv_version'', ''status''] @ kf))"

definition discard_body ::
  "('x, 'b, 'c) env \<Rightarrow> user option \<Rightarrow> http_request option \<Rightarrow> credential \<Rightarrow> ('x, 'b, credential) prog" where
  "discard_body env u request c =
     bnd (enforce_policy_access env c u (Some ACTION_DISCARD) request) (\<lambda>_.
     bnd (get_or (cr_staged_kv_version c)
            (ValidationError ''status'' ''This credential has no staged version to discard.'')) (\<lambda>staged.
     bnd (engine_p c) (\<lambda>eng. bnd (policy_p c) (\<lambda>pol.
     bnd (get_backend_p env eng pol) (\<lambda>b.
     case discarded c of
       (c', names) \<Rightarrow>
         bnd (try_db (credential_save_fields names c')) (\<lambda>_.
         bnd (log_access_p env c' u ACTION_DISCARD False (''discarded version '' @ digits staged)
                ''Staged pointer cleared; exact-version cleanup is pending commit.'' request True) (\<lambda>audit.
         bnd current_material_transaction (\<lambda>_.
         bnd (update_owner (\<lambda>t. t\<lparr>mt_deletions := mt_deletions t @
                [\<lparr>ma_credential = c', ma_backend = b, ma_path = cr_path c', ma_user = u, ma_action = ACTION_DISCARD,
                  ma_version = Some staged, ma_audit_id = audit\<rparr>]\<rparr>)) (\<lambda>_.
         ret c')))))))))"

definition discard_staged ::
  "('x, 'b, 'c) env \<Rightarrow> credential \<Rightarrow> user option \<Rightarrow> http_request option \<Rightarrow> ('x, 'b, credential) prog" where
  "discard_staged env c u request =
     synchronized_material_change env (run_hook env) ACTION_DISCARD u request (discard_body env u request) c"

section \<open>Frames of the operations\<close>

lemma tx_framed_fk: "framed (tx_step env) (policy_p c)" "framed (tx_step env) (engine_p c)"
  unfolding policy_p_def engine_p_def by (intro tx_framed)+

lemma tx_framed_get_backend: "framed (tx_step env) (get_backend_p env' eng pol)"
  by (auto simp: framed_def tx_step_def in_tx_def get_backend_p_def split: prod.splits)

lemma tx_framed_enforce: "framed (tx_step env) (enforce_policy_access env' c u a rq)"
  unfolding enforce_policy_access_def
  by (intro tx_framed tx_framed_fk)

lemma tx_framed_defer: "framed (tx_step env) (defer_custom_metadata env' ids)"
  unfolding defer_custom_metadata_def by (intro tx_framed)

lemma tx_framed_write_attempt: "framed (tx_step env) (write_attempt env' c d fp cas u rq a promote)"
  unfolding write_attempt_def
  by (intro tx_framed tx_framed_fk tx_framed_get_backend tx_framed_defer)

lemma tx_framed_store_body:
  "(\<And>subj m. framed (tx_step env) (persist subj m)) \<Longrightarrow>
   framed (tx_step env) (store_body env persist ct p cas u rq a subject promote tp pre)"
  unfolding store_body_def
  by (intro tx_framed tx_framed_sync tx_framed_write_attempt)

lemma tx_framed_persist: "framed (tx_step env) (persist_instance env' c subj m)"
  unfolding persist_instance_def by (intro tx_framed)

lemma tx_framed_write_material: "framed (tx_step env) (write_material env c p cas u rq a promote)"
  unfolding write_material_def store_credential_def
  by (intro tx_framed_nested tx_framed_store_body tx_framed_persist)

lemma tx_framed_audited: "framed (tx_step env) m \<Longrightarrow> framed (tx_step env) (audited_call env' c u a r rq l m)"
  unfolding audited_call_def by (intro tx_framed)

lemma tx_framed_bodies:
  "framed (tx_step env) (rotate_body env p u rq c)" "framed (tx_step env) (stage_body env p u rq c)"
  "framed (tx_step env) (promote_body env u rq v txt c)" "framed (tx_step env) (discard_body env u rq c)"
  unfolding rotate_body_def stage_body_def promote_body_def discard_body_def
  by (intro tx_framed tx_framed_enforce tx_framed_write_material tx_framed_fk tx_framed_get_backend tx_framed_audited)+

lemma log_framed_parts:
  "framed log_step (policy_p c)" "framed log_step (engine_p c)" "framed log_step (get_backend_p env eng pol)"
    unfolding policy_p_def engine_p_def
    by (intro log_framed)+ (simp add: framed_def log_step_def get_backend_p_def split_beta)

lemma log_framed_hook: "framed log_step (run_hook env h)"
proof (cases h)
  case (PublishMetadata k)
  then show ?thesis
    unfolding run_hook_def
    by (simp add: run_metadata_projection_def publish_custom_metadata_def) (intro log_framed log_framed_parts)
next
  case (DestroyMaterial c eng)
  then show ?thesis
    unfolding run_hook_def
    by (simp add: delete_material_def audited_call_def) (intro log_framed log_framed_parts)
qed

end
