(* ===== verification/Automation.thy ===== *)
theory Automation
  imports Services
begin

text \<open>
  One-use resolution of a credential for an automation dispatch (\<^verbatim>\<open>automation.py\<close>,
  \<^verbatim>\<open>models/automation.py\<close>, \<^verbatim>\<open>api/automation.py\<close>). The dispatch authority is loaded and checked by the
  RPC plugin (\<^verbatim>\<open>netbox_rpc\<close>, not part of this repository): its three functions are the parameters
  \<open>aut_authorize\<close>, \<open>aut_lifetime\<close> and \<open>aut_permissions\<close>, which may read the database and the outside world
  and may fail in any way. NetBox's object permissions (\<^verbatim>\<open>restrict(user, action)\<close>) are the parameter
  \<open>aut_visible\<close>; \<open>aut_sha256\<close> is \<^verbatim>\<open>hashlib.sha256(..).hexdigest()\<close> and \<open>aut_dumps\<close> is \<^verbatim>\<open>json.dumps\<close> with sorted keys
  and no blanks.
\<close>

section \<open>A transaction of the caller\<close>

text \<open>\<^verbatim>\<open>with transaction.atomic()\<close>: the outermost block begins and ends the transaction, an inner
  one is a savepoint. The callbacks run after the commit.\<close>

definition enter_tx :: "('x, 'b) sys \<Rightarrow> ('x, 'b) sys" where
  "enter_tx s = s\<lparr>hooks := [], autocommit := False, committed_db := db s, locks := []\<rparr>"

definition atomic :: "('x, 'b, 'c) env \<Rightarrow> ('x, 'b, 'a) prog \<Rightarrow> ('x, 'b, 'a) prog" where
  "atomic env body s =
     (if \<not> autocommit s then savepoint body s
      else case body (enter_tx s) of
        (Inl e, s') \<Rightarrow> (Inl e, leave_tx (committed_db s') s')
      | (Inr r, s') \<Rightarrow>
          (case e_commit env (db s') of
             CommitOk \<Rightarrow> bnd (for_each (run_hook env) (hooks s')) (\<lambda>_. ret r) (leave_tx (db s') s')
           | CommitRejected \<Rightarrow> (Inl IntegrityError, leave_tx (committed_db s') s')
           | CommitLost applied \<Rightarrow>
               (Inl (PythonError ''OperationalError''), leave_tx (if applied then db s' else committed_db s') s')))"

section \<open>The authority\<close>

text \<open>What RPC hands over. An identity frozen at admission that is not one of this module's snapshots
  is \<open>None\<close>: it equals none of them.\<close>

datatype version_policy = PinnedVersion nat | OtherVersionPolicy string

record secret_reference =
  ref_object_type :: string
  ref_object_id :: nat
  ref_purpose :: string
  ref_assignment_id :: "nat option"
  ref_credential_uuid :: "string option"
  ref_version :: version_policy
  ref_fields :: "string list"

record provider_identity =
  pid_credential_uuid :: string
  pid_assignment_id :: nat
  pid_object_type :: string
  pid_object_id :: nat
  pid_purpose :: string
  pid_username :: string
  pid_fingerprint :: string
  pid_credential_type :: string
  pid_policy_id :: "nat option"
  pid_engine_id :: "nat option"
  pid_engine_identity_sha256 :: string
  pid_schema_sha256 :: string

record reference_request =
  au_reference :: secret_reference
  au_actor :: user
  au_target_type :: content_type
  au_target_pk :: nat
  au_reason :: string

record authority = reference_request +
  au_correlation_id :: string
  au_intent_run_id :: "nat option"
  au_nonce :: string
  au_execution_id :: nat
  au_step_id :: string
  au_reference_name :: string
  au_provider_identity :: "provider_identity option"

record automation_params =
  ap_execution_id :: nat
  ap_step_id :: string
  ap_reference_name :: string
  ap_dispatch_lease :: payload

record 'x automation =
  aut_authorize :: "database \<Rightarrow> user \<Rightarrow> automation_params \<Rightarrow> ('x, exn, authority) sem"
  aut_lifetime :: "database \<Rightarrow> authority \<Rightarrow> ('x, exn, unit) sem"
  aut_permissions :: "database \<Rightarrow> authority \<Rightarrow> ('x, exn, unit) sem"
  aut_visible :: "'x \<Rightarrow> database \<Rightarrow> user \<Rightarrow> string \<Rightarrow> content_type \<Rightarrow> nat \<Rightarrow> bool"
  aut_sha256 :: "string \<Rightarrow> string"
  aut_dumps :: "json \<Rightarrow> string"

text \<open>Any exception becomes the value-free refusal.\<close>

definition or_denied :: "('x, 'b, 'a) prog \<Rightarrow> ('x, 'b, 'a) prog" where
  "or_denied m = on_exn m (\<lambda>_. raise AutomationResolutionDenied)"

definition require :: "bool \<Rightarrow> ('x, 'b, unit) prog" where
  "require c = check c AutomationResolutionDenied"

definition outside_call :: "(database \<Rightarrow> ('x, exn, 'a) sem) \<Rightarrow> ('x, 'b, 'a) prog" where
  "outside_call m s = on_ext (m (db s)) s"

definition authorize_dispatch :: "'x automation \<Rightarrow> user \<Rightarrow> automation_params \<Rightarrow> ('x, 'b, authority) prog" where
  "authorize_dispatch au u ps = or_denied (outside_call (\<lambda>d. aut_authorize au d u ps))"

definition nonce_digest :: "'x automation \<Rightarrow> authority \<Rightarrow> string" where
  "nonce_digest au a = aut_sha256 au (au_nonce a)"

definition check_lifetime :: "'x automation \<Rightarrow> authority \<Rightarrow> ('x, 'b, unit) prog" where
  "check_lifetime au a = or_denied (outside_call (\<lambda>d. aut_lifetime au d a))"

definition check_rpc_permissions :: "'x automation \<Rightarrow> authority \<Rightarrow> ('x, 'b, unit) prog" where
  "check_rpc_permissions au a = or_denied (outside_call (\<lambda>d. aut_permissions au d a))"

definition check_dispatch :: "'x automation \<Rightarrow> authority \<Rightarrow> ('x, 'b, unit) prog" where
  "check_dispatch au a =
     bnd (check_lifetime au a) (\<lambda>_. bnd (check_rpc_permissions au a) (\<lambda>_. check_lifetime au a))"

section \<open>Authorization against the inventory\<close>

definition actor_p :: "'z reference_request_scheme \<Rightarrow> ('x, 'b, user) prog" where
  "actor_p a =
     bnd (gets (\<lambda>s. row (users (db s)) (usr_pk (au_actor a)))) (\<lambda>u.
     bnd (get_or u AutomationResolutionDenied) (\<lambda>v.
     bnd (require (usr_is_active v)) (\<lambda>_. ret v)))"

definition service_type :: content_type where
  "service_type = \<lparr>ct_app_label = ''ipam'', ct_model = ''service''\<rparr>"

definition credential_ct :: content_type where
  "credential_ct = \<lparr>ct_app_label = ''netbox_openbao'', ct_model = ''credential''\<rparr>"

definition assignment_ct :: content_type where
  "assignment_ct = \<lparr>ct_app_label = ''netbox_openbao'', ct_model = ''credentialassignment''\<rparr>"

definition ct_label :: "content_type \<Rightarrow> string" where
  "ct_label ct = ct_app_label ct @ ''.'' @ ct_model ct"

definition visible :: "'x automation \<Rightarrow> user \<Rightarrow> string \<Rightarrow> content_type \<Rightarrow> nat \<Rightarrow> ('x, 'b, unit) prog" where
  "visible au u action ct k = bnd (gets (\<lambda>s. aut_visible au (ext s) (db s) u action ct k)) require"

definition target :: "('x, 'b, 'c) env \<Rightarrow> 'x automation \<Rightarrow> 'z reference_request_scheme \<Rightarrow> user \<Rightarrow> ('x, 'b, unit) prog" where
  "target env au a u =
     (let label = ct_label (au_target_type a)
      in bnd (require (label = ref_object_type (au_reference a) \<and> au_target_pk a = ref_object_id (au_reference a))) (\<lambda>_.
         bnd (require (label \<in> set (assignable_model_labels (e_cfg env) (e_labels env)))) (\<lambda>_.
         visible au u ''view'' (au_target_type a) (au_target_pk a))))"

definition services_of :: "database \<Rightarrow> content_type \<Rightarrow> nat \<Rightarrow> nat list" where
  "services_of d ct k =
     map fst (filter (\<lambda>(_, v). svc_parent_type v = Some ct \<and> svc_parent_id v = k) (app_services d))"

definition assignment_matches :: "database \<Rightarrow> 'z reference_request_scheme \<Rightarrow> nat \<Rightarrow> credential_assignment \<Rightarrow> bool" where
  "assignment_matches d a k g =
     ((asg_object_type g = Some (au_target_type a) \<and> asg_object_id g = ref_object_id (au_reference a)
       \<or> asg_object_type g = Some service_type
         \<and> asg_object_id g \<in> set (services_of d (au_target_type a) (ref_object_id (au_reference a))))
      \<and> purpose_value (asg_purpose g) = ref_purpose (au_reference a) \<and> asg_enabled g
      \<and> (case ref_assignment_id (au_reference a) of
           Some i \<Rightarrow> k = i
         | None \<Rightarrow>
             (case ref_credential_uuid (au_reference a) of
                None \<Rightarrow> False
              | Some u \<Rightarrow> (case Option.bind (asg_credential_id g) (row (credentials d)) of
                           None \<Rightarrow> False | Some c \<Rightarrow> cr_uuid c = u))))"

text \<open>The rows are in primary key order.\<close>

definition assignment_rows :: "database \<Rightarrow> 'z reference_request_scheme \<Rightarrow> (nat \<times> credential_assignment) list" where
  "assignment_rows d a = sort_key fst (filter (\<lambda>(k, g). assignment_matches d a k g) (assignments d))"

definition check_service_visible :: "'x automation \<Rightarrow> credential_assignment \<Rightarrow> user \<Rightarrow> ('x, 'b, unit) prog" where
  "check_service_visible au g u =
     (if asg_object_type g \<noteq> Some service_type then ret () else visible au u ''view'' service_type (asg_object_id g))"

text \<open>The result says whether the assignment is bound through a service.\<close>

definition lock_candidate_service :: "('x, 'b, 'c) env \<Rightarrow> credential_assignment \<Rightarrow> ('x, 'b, bool) prog" where
  "lock_candidate_service env g =
     (if asg_object_type g \<noteq> Some service_type then ret False
      else bnd (acquire env [ServiceLock (asg_object_id g)]) (\<lambda>_.
           bnd (gets (\<lambda>s. row (app_services (db s)) (asg_object_id g))) (\<lambda>v.
           bnd (get_or v AutomationResolutionDenied) (\<lambda>_. ret True))))"

definition the_schema :: "string \<Rightarrow> ('x, 'b, type_schema) prog" where
  "the_schema ct = bnd (gets (\<lambda>s. get_schema (db s) ct)) lift_sum"

text \<open>The key of the stored schema behind a type, if it is not built in.\<close>

definition stored_key :: "database \<Rightarrow> string \<Rightarrow> nat option" where
  "stored_key d ct =
     (if map_of CREDENTIAL_SCHEMAS ct \<noteq> None then None
      else map_option fst (List.find (\<lambda>(_, r). sch_slug r = ct) (type_schemas d)))"

record resolution =
  rs_assignment_id :: nat
  rs_assignment :: credential_assignment
  rs_credential :: credential
  rs_policy :: credential_policy
  rs_engine :: secret_engine

definition lock_metadata :: "('x, 'b, 'c) env \<Rightarrow> 'z reference_request_scheme \<Rightarrow> ('x, 'b, resolution) prog" where
  "lock_metadata env a =
     bnd (gets (\<lambda>s. assignment_rows (db s) a)) (\<lambda>ms.
     case ms of
       [(k, cand)] \<Rightarrow>
         bnd (lock_candidate_service env cand) (\<lambda>service.
         bnd (get_or (asg_credential_id cand) ObjectDoesNotExist) (\<lambda>cid.
         bnd (lock_credential_graph env cid None) (\<lambda>(c, p, e).
         bnd (acquire env [AssignmentLock k]) (\<lambda>_.
         bnd (gets (\<lambda>s. row (assignments (db s)) k)) (\<lambda>r.
         bnd (get_or r ObjectDoesNotExist) (\<lambda>g.
         bnd (require (asg_credential_id g = cr_pk c)) (\<lambda>_.
         bnd (gets (\<lambda>s. k \<in> set (map fst (assignment_rows (db s) a)))) (\<lambda>still.
         bnd (require (\<not> service \<or> still)) (\<lambda>_.
         bnd (the_schema (cr_credential_type c)) (\<lambda>_.
         bnd (gets (\<lambda>s. stored_key (db s) (cr_credential_type c))) (\<lambda>stored.
         bnd (case stored of
                None \<Rightarrow> ret ()
              | Some i \<Rightarrow>
                  bnd (acquire env [SchemaLock i]) (\<lambda>_.
                  bnd (gets (\<lambda>s. row (type_schemas (db s)) i)) (\<lambda>q.
                  bnd (get_or q ObjectDoesNotExist) (\<lambda>_. ret ())))) (\<lambda>_.
         ret \<lparr>rs_assignment_id = k, rs_assignment = g, rs_credential = c, rs_policy = p, rs_engine = e\<rparr>))))))))))))
     | _ \<Rightarrow> raise AutomationResolutionDenied)"

definition valid_now :: "int \<Rightarrow> credential \<Rightarrow> bool" where
  "valid_now now c =
     (cr_status c \<in> {STATUS_ACTIVE, STATUS_STAGED}
      \<and> (case cr_valid_from c of None \<Rightarrow> True | Some t \<Rightarrow> t \<le> now)
      \<and> (case cr_valid_until c of None \<Rightarrow> True | Some t \<Rightarrow> now < t))"

definition group_member :: "nat list \<Rightarrow> user \<Rightarrow> bool" where
  "group_member groups u = (groups = [] \<or> usr_is_superuser u \<or> list_ex (\<lambda>g. g \<in> set groups) (usr_groups u))"

definition check_credential :: "('x, 'b, 'c) env \<Rightarrow> 'x automation \<Rightarrow> resolution \<Rightarrow> user \<Rightarrow> ('x, 'b, unit) prog" where
  "check_credential env au r u =
     bnd (get_or (cr_pk (rs_credential r)) AutomationResolutionDenied) (\<lambda>k.
     bnd (visible au u ''reveal'' credential_ct k) (\<lambda>_.
     bnd (require (valid_now (e_now env) (rs_credential r))) (\<lambda>_.
     bnd (gets (\<lambda>s. case row (policies (db s)) (pol_pk (rs_policy r)) of None \<Rightarrow> [] | Some p \<Rightarrow> pol_groups p)) (\<lambda>groups.
     require (group_member groups u)))))"

definition resolved_version :: "credential \<Rightarrow> 'z reference_request_scheme \<Rightarrow> nat option" where
  "resolved_version c a =
     (case cr_live_kv_version c of
        None \<Rightarrow> None
      | Some v \<Rightarrow>
          if v = 0 \<or> cr_staged_kv_version c = Some v then None
          else case ref_version (au_reference a) of
            PinnedVersion n \<Rightarrow> if n \<noteq> v then None else Some v
          | OtherVersionPolicy _ \<Rightarrow> Some v)"

text \<open>Insertion order of a dict built from a list of keys.\<close>

definition first_occurrences :: "'a list \<Rightarrow> 'a list" where
  "first_occurrences xs = rev (remdups (rev xs))"

definition resolved_fields :: "type_schema \<Rightarrow> 'z reference_request_scheme \<Rightarrow> (string \<times> field_spec) list option" where
  "resolved_fields sch a =
     (let declared = ts_vault_fields sch; flds = ref_fields (au_reference a)
      in if flds = [] \<or> list_ex (\<lambda>f. map_of declared f = None) flds then None
         else Some (List.map_filter (\<lambda>f. map_option (Pair f) (map_of declared f)) (first_occurrences flds)))"

definition resolve_metadata ::
  "('x, 'b, 'c) env \<Rightarrow> 'x automation \<Rightarrow> 'z reference_request_scheme
   \<Rightarrow> ('x, 'b, resolution \<times> nat \<times> (string \<times> field_spec) list) prog" where
  "resolve_metadata env au a =
     bnd (lock_metadata env a) (\<lambda>r.
     bnd (actor_p a) (\<lambda>u.
     bnd (target env au a u) (\<lambda>_.
     bnd (gets (\<lambda>s. rs_assignment_id r \<in> set (map fst (assignment_rows (db s) a)))) (\<lambda>found.
     bnd (require found) (\<lambda>_.
     bnd (visible au u ''view'' assignment_ct (rs_assignment_id r)) (\<lambda>_.
     bnd (check_service_visible au (rs_assignment r) u) (\<lambda>_.
     bnd (check_credential env au r u) (\<lambda>_.
     bnd (require (pol_require_reason (rs_policy r) \<longrightarrow> strip (au_reason a) \<noteq> [])) (\<lambda>_.
     bnd (get_or (resolved_version (rs_credential r) a) AutomationResolutionDenied) (\<lambda>v.
     bnd (the_schema (cr_credential_type (rs_credential r))) (\<lambda>sch.
     bnd (get_or (resolved_fields sch a) AutomationResolutionDenied) (\<lambda>flds.
     ret (r, v, flds)))))))))))))"

section \<open>The frozen identity\<close>

definition metadata_digest :: "'x automation \<Rightarrow> json \<Rightarrow> string" where
  "metadata_digest au v = aut_sha256 au (aut_dumps au v)"

definition engine_selectors :: "secret_engine \<Rightarrow> credential \<Rightarrow> json" where
  "engine_selectors e c =
     JObj [(''backend'', JStr (backend_value (eng_backend e))), (''api_url'', JStr (eng_api_url e)),
           (''namespace'', JStr (eng_namespace e)), (''kv_mount'', JStr (eng_kv_mount e)),
           (''kv_version'', JNum (int (eng_kv_version e))), (''auth_method'', JStr (auth_method_value (eng_auth_method e))),
           (''tls_verify'', JBool (eng_tls_verify e)), (''ca_cert_path'', JStr (eng_ca_cert_path e)),
           (''credential_path'', JStr (cr_path c))]"

definition schema_selectors :: "type_schema \<Rightarrow> json" where
  "schema_selectors sch =
     JObj [(''vault_fields'', JObj (map (\<lambda>(f, sp). (f, JObj [(''required'', JBool (fs_required sp)),
              (''secret'', JBool (fs_secret sp))])) (ts_vault_fields sch))),
           (''json_schema'', case ts_json_schema sch of None \<Rightarrow> JObj [] | Some j \<Rightarrow> j),
           (''extractor'', case ts_extractor sch of None \<Rightarrow> JNull | Some x \<Rightarrow> JStr x)]"

definition identity :: "'x automation \<Rightarrow> resolution \<Rightarrow> 'z reference_request_scheme \<Rightarrow> ('x, 'b, provider_identity) prog" where
  "identity au r a =
     (let c = rs_credential r; e = rs_engine r
      in bnd (require (pol_engine_id (rs_policy r) = eng_pk e)) (\<lambda>_.
         bnd (the_schema (cr_credential_type c)) (\<lambda>sch.
         bnd (lift_sum (live_key_fingerprint c sch)) (\<lambda>fp.
         ret \<lparr>pid_credential_uuid = cr_uuid c, pid_assignment_id = rs_assignment_id r,
              pid_object_type = ref_object_type (au_reference a), pid_object_id = ref_object_id (au_reference a),
              pid_purpose = purpose_value (asg_purpose (rs_assignment r)), pid_username = cr_username c,
              pid_fingerprint = fp, pid_credential_type = cr_credential_type c, pid_policy_id = cr_policy_id c,
              pid_engine_id = cr_engine_id c, pid_engine_identity_sha256 = metadata_digest au (engine_selectors e c),
              pid_schema_sha256 = metadata_digest au (schema_selectors sch)\<rparr>))))"

definition capture_reference_identity ::
  "('x, 'b, 'c) env \<Rightarrow> 'x automation \<Rightarrow> reference_request \<Rightarrow> ('x, 'b, provider_identity) prog" where
  "capture_reference_identity env au a =
     or_denied (atomic env (bnd (resolve_metadata env au a) (\<lambda>(r, _, _). identity au r a)))"

definition require_identity :: "'x automation \<Rightarrow> resolution \<Rightarrow> authority \<Rightarrow> ('x, 'b, unit) prog" where
  "require_identity au r a = bnd (identity au r a) (\<lambda>i. require (Some i = au_provider_identity a))"

section \<open>Evidence\<close>

definition delivered_message :: string where
  "delivered_message = ''Automation bundle delivered.''"

definition refused_message :: string where
  "refused_message = ''Automation bundle refused or outcome unknown.''"

definition automation_row ::
  "('x, 'b, 'c) env \<Rightarrow> 'x automation \<Rightarrow> user \<Rightarrow> automation_params \<Rightarrow> authority option \<Rightarrow> credential option
   \<Rightarrow> automation_receipt option \<Rightarrow> bool \<Rightarrow> credential_access_log" where
  "automation_row env au u ps a c rc success =
     \<lparr>log_credential = Option.bind c cr_pk, log_name_snapshot = [], log_uuid_snapshot = map_option cr_uuid c,
      log_user = map_option (\<lambda>x. usr_pk (au_actor x)) a,
      log_username_snapshot = (case a of None \<Rightarrow> [] | Some x \<Rightarrow> take 150 (usr_username (au_actor x))),
      log_action = ACTION_REVEAL, log_source_ip = None,
      log_reason = (case a of None \<Rightarrow> [] | Some x \<Rightarrow> take 500 (au_reason x)),
      log_request_id = (case a of None \<Rightarrow> [] | Some x \<Rightarrow> take 64 (au_correlation_id x)),
      log_success = success, log_message = (if success then delivered_message else refused_message),
      log_timestamp = e_now env, log_resolved_version = map_option rc_resolved_version rc,
      log_execution_id = Some (ap_execution_id ps),
      log_dispatch_nonce_digest = (case a of None \<Rightarrow> [] | Some x \<Rightarrow> nonce_digest au x),
      log_executor = (if usr_is_authenticated u then Some (usr_pk u) else None),
      log_executor_snapshot = take 150 (usr_username u),
      log_intent_run_id = Option.bind a au_intent_run_id, log_step_id = ap_step_id ps,
      log_reference_name = ap_reference_name ps, log_assignment_id = map_option rc_assignment_id rc,
      log_purpose = (case a of None \<Rightarrow> [] | Some x \<Rightarrow> ref_purpose (au_reference x))\<rparr>"

text \<open>\<^verbatim>\<open>objects.create\<close>: unlike the services' log, a refused insert raises.\<close>

definition create_log :: "('x, 'b, 'c) env \<Rightarrow> credential_access_log \<Rightarrow> ('x, 'b, nat) prog" where
  "create_log env l =
     try_db (\<lambda>d. if ae_log_ok (e_audit env) l then (case insert_log l d of (k, d') \<Rightarrow> (Inr k, d'))
                 else (Inl (PythonError ''DatabaseError''), d))"

definition record_automation_access ::
  "('x, 'b, 'c) env \<Rightarrow> 'x automation \<Rightarrow> user \<Rightarrow> automation_params \<Rightarrow> authority option \<Rightarrow> credential option
   \<Rightarrow> automation_receipt option \<Rightarrow> bool \<Rightarrow> ('x, 'b, nat) prog" where
  "record_automation_access env au u ps a c rc success = create_log env (automation_row env au u ps a c rc success)"

section \<open>Reservation and delivery\<close>

definition receipt_key :: "automation_receipt \<Rightarrow> nat \<times> string \<times> string \<times> string" where
  "receipt_key r = (rc_execution_id r, rc_nonce_digest r, rc_step_id r, rc_reference_name r)"

definition authority_key :: "'x automation \<Rightarrow> authority \<Rightarrow> nat \<times> string \<times> string \<times> string" where
  "authority_key au a = (au_execution_id a, nonce_digest au a, au_step_id a, au_reference_name a)"

text \<open>The unique constraint \<^verbatim>\<open>openbao_automation_once\<close> refuses a second receipt of one key.\<close>

definition spent :: "database \<Rightarrow> nat \<times> string \<times> string \<times> string \<Rightarrow> bool" where
  "spent d key = list_ex (\<lambda>r. receipt_key r = key) (rows (receipts d))"

definition insert_receipt :: "automation_receipt \<Rightarrow> database \<Rightarrow> (exn + automation_receipt) \<times> database" where
  "insert_receipt r d =
     (if spent d (receipt_key r) then (Inl IntegrityError, d)
      else (Inr r, d\<lparr>receipts := receipts d @ [(next_id d, r)], next_id := Suc (next_id d)\<rparr>))"

definition new_receipt :: "('x, 'b, 'c) env \<Rightarrow> 'x automation \<Rightarrow> authority \<Rightarrow> resolution \<Rightarrow> nat \<Rightarrow> automation_receipt" where
  "new_receipt env au a r v =
     \<lparr>rc_execution_id = au_execution_id a, rc_nonce_digest = nonce_digest au a, rc_step_id = au_step_id a,
      rc_reference_name = au_reference_name a, rc_credential_uuid = cr_uuid (rs_credential r),
      rc_assignment_id = rs_assignment_id r, rc_resolved_version = v, rc_created = e_now env\<rparr>"

definition reserve_body :: "('x, 'b, 'c) env \<Rightarrow> 'x automation \<Rightarrow> authority \<Rightarrow> ('x, 'b, automation_receipt) prog" where
  "reserve_body env au a =
     bnd (resolve_metadata env au a) (\<lambda>(r, v, _).
     bnd (check_dispatch au a) (\<lambda>_.
     bnd (require_identity au r a) (\<lambda>_.
     try_db (insert_receipt (new_receipt env au a r v)))))"

definition reserve :: "('x, 'b, 'c) env \<Rightarrow> 'x automation \<Rightarrow> authority \<Rightarrow> ('x, 'b, automation_receipt) prog" where
  "reserve env au a =
     on_exn (atomic env (reserve_body env au a))
       (\<lambda>e. raise (if e = IntegrityError then AutomationResolutionDenied else e))"

record automation_result =
  ar_credential_uuid :: string
  ar_assignment_id :: nat
  ar_resolved_version :: nat
  ar_ttl :: int
  ar_fields :: "(string \<times> string) list"
  ar_access_log_id :: nat

definition mark_delivered :: "nat \<Rightarrow> database \<Rightarrow> database" where
  "mark_delivered k d =
     (case row (access_log d) k of
        None \<Rightarrow> d
      | Some l \<Rightarrow> d\<lparr>access_log := put_row k (l\<lparr>log_success := True, log_message := delivered_message\<rparr>) (access_log d)\<rparr>)"

definition deliver_body ::
  "('x, 'b, 'c) env \<Rightarrow> 'x automation \<Rightarrow> user \<Rightarrow> automation_params \<Rightarrow> automation_receipt \<Rightarrow> ('x, 'b, automation_result) prog" where
  "deliver_body env au u ps rc =
     bnd (authorize_dispatch au u ps) (\<lambda>a.
     bnd (resolve_metadata env au a) (\<lambda>(r, v, flds).
     bnd (check_dispatch au a) (\<lambda>_.
     bnd (require_identity au r a) (\<lambda>_.
     bnd (require ((cr_uuid (rs_credential r), rs_assignment_id r, v, nonce_digest au a)
            = (rc_credential_uuid rc, rc_assignment_id rc, rc_resolved_version rc, rc_nonce_digest rc))) (\<lambda>_.
     bnd (record_automation_access env au u ps (Some a) (Some (rs_credential r)) (Some rc) False) (\<lambda>audit.
     bnd (check_dispatch au a) (\<lambda>_.
     bnd (read_automation_bundle env (rs_credential r) (rs_engine r) (rs_policy r) v
            (map (\<lambda>(f, sp). (f, fs_required sp)) flds) (map_option pid_fingerprint (au_provider_identity a))) (\<lambda>(material, ttl).
     bnd (resolve_metadata env au a) (\<lambda>(r', v', _).
     bnd (require_identity au r' a) (\<lambda>_.
     bnd (require (v' = v)) (\<lambda>_.
     bnd (check_dispatch au a) (\<lambda>_.
     bnd (modify (\<lambda>s. s\<lparr>db := mark_delivered audit (db s)\<rparr>)) (\<lambda>_.
     ret \<lparr>ar_credential_uuid = cr_uuid (rs_credential r), ar_assignment_id = rs_assignment_id r, ar_resolved_version = v,
          ar_ttl = ttl, ar_fields = material, ar_access_log_id = audit\<rparr>)))))))))))))"

definition deliver ::
  "('x, 'b, 'c) env \<Rightarrow> 'x automation \<Rightarrow> user \<Rightarrow> automation_params \<Rightarrow> automation_receipt \<Rightarrow> ('x, 'b, automation_result) prog" where
  "deliver env au u ps rc = atomic env (deliver_body env au u ps rc)"

text \<open>A refusal is recorded with what was known when it came; a log that refuses it changes nothing.\<close>

definition refuse ::
  "('x, 'b, 'c) env \<Rightarrow> 'x automation \<Rightarrow> user \<Rightarrow> automation_params \<Rightarrow> authority option \<Rightarrow> automation_receipt option
   \<Rightarrow> ('x, 'b, 'a) prog" where
  "refuse env au u ps a rc =
     bnd (on_exn (bnd (record_automation_access env au u ps a None rc False) (\<lambda>_. ret ()))
            (\<lambda>_. raise AutomationResolutionDenied))
       (\<lambda>_. raise AutomationResolutionDenied)"

definition resolve_reserved ::
  "('x, 'b, 'c) env \<Rightarrow> 'x automation \<Rightarrow> user \<Rightarrow> automation_params \<Rightarrow> authority \<Rightarrow> ('x, 'b, automation_result) prog" where
  "resolve_reserved env au u ps a s =
     (case reserve env au a s of
        (Inl _, s') \<Rightarrow> refuse env au u ps (Some a) None s'
      | (Inr rc, s') \<Rightarrow> on_exn (deliver env au u ps rc) (\<lambda>_. refuse env au u ps (Some a) (Some rc)) s')"

definition resolve_automation ::
  "('x, 'b, 'c) env \<Rightarrow> 'x automation \<Rightarrow> user \<Rightarrow> automation_params \<Rightarrow> ('x, 'b, automation_result) prog" where
  "resolve_automation env au u ps s =
     (if \<not> autocommit s then (Inl AutomationResolutionDenied, s)
      else case authorize_dispatch au u ps s of
        (Inl _, s') \<Rightarrow> refuse env au u ps None None s'
      | (Inr a, s') \<Rightarrow> resolve_reserved env au u ps a s')"

end
