(* ===== verification/Lifecycle.thy ===== *)
theory Lifecycle
  imports Automation OpenBao_Backend Broker_Backend
begin

text \<open>
  What happens around the rows (\<^verbatim>\<open>signals.py\<close>, and \<^verbatim>\<open>assign_credential\<close> of \<^verbatim>\<open>services.py\<close>): saving and
  deleting assignments refreshes the published metadata of every owner concerned, deleting a
  credential destroys its material once the deletion has committed, and changing a service
  identity drops the tokens and TLS sessions of its previous revision. The receivers' order is the one of
  Django's \<^verbatim>\<open>Model.save\<close> and \<^verbatim>\<open>Collector.delete\<close>.
\<close>

section \<open>Assignments\<close>

text \<open>The two unique constraints of the table.\<close>

definition assignment_conflict :: "database \<Rightarrow> credential_assignment \<Rightarrow> bool" where
  "assignment_conflict d a =
     list_ex (\<lambda>(k, b). Some k \<noteq> asg_pk a \<and>
        ((asg_credential_id b, asg_object_type b, asg_object_id b, asg_purpose b)
           = (asg_credential_id a, asg_object_type a, asg_object_id a, asg_purpose a)
         \<or> asg_is_primary a \<and> asg_is_primary b \<and>
           (asg_object_type b, asg_object_id b, asg_purpose b) = (asg_object_type a, asg_object_id a, asg_purpose a)))
       (assignments d)"

definition assignment_full_clean ::
  "openbao_settings \<Rightarrow> label_registry \<Rightarrow> database \<Rightarrow> credential_assignment \<Rightarrow> exn + unit" where
  "assignment_full_clean cfg rg d a =
     (if Option.bind (asg_credential_id a) (row (credentials d)) = None
      then Inl (ValidationError ''credential'' ''credential instance does not exist.'')
      else if asg_object_type a = None
      then Inl (ValidationError ''assigned_object_type'' ''This field cannot be null.'')
      else case assignment_clean cfg rg d a of
        Inl e \<Rightarrow> Inl e
      | Inr _ \<Rightarrow>
          if assignment_conflict d a
          then Inl (ValidationError [] ''This credential is already assigned to that object for that purpose.'')
          else Inr ())"

text \<open>\<^verbatim>\<open>pre_save\<close>: the owner the row had in the database.\<close>

definition previous_credential :: "database \<Rightarrow> credential_assignment \<Rightarrow> nat option" where
  "previous_credential d a =
     (case asg_pk a of None \<Rightarrow> None | Some k \<Rightarrow> Option.bind (row (assignments d) k) asg_credential_id)"

definition write_assignment :: "int \<Rightarrow> credential_assignment \<Rightarrow> database \<Rightarrow> (exn + credential_assignment) \<times> database" where
  "write_assignment now a d =
     (if assignment_conflict d a then (Inl IntegrityError, d)
      else let k = (case asg_pk a of None \<Rightarrow> next_id d | Some i \<Rightarrow> i); a' = a\<lparr>asg_pk := Some k, asg_last_updated := now\<rparr>
           in (Inr a', d\<lparr>assignments := put_row k a' (assignments d), next_id := max (next_id d) (Suc k)\<rparr>))"

definition refresh_custom_metadata ::
  "('x, 'b, 'c) env \<Rightarrow> nat option \<Rightarrow> credential_assignment \<Rightarrow> ('x, 'b, unit) prog" where
  "refresh_custom_metadata env previous a = defer_custom_metadata env [previous, asg_credential_id a]"

definition save_assignment :: "('x, 'b, 'c) env \<Rightarrow> credential_assignment \<Rightarrow> ('x, 'b, credential_assignment) prog" where
  "save_assignment env a =
     bnd (gets (\<lambda>s. previous_credential (db s) a)) (\<lambda>previous.
     bnd (try_db (write_assignment (e_now env) a)) (\<lambda>a'.
     bnd (refresh_custom_metadata env previous a') (\<lambda>_. ret a')))"

definition assign_credential :: "('x, 'b, 'c) env \<Rightarrow> credential_assignment \<Rightarrow> ('x, 'b, credential_assignment) prog" where
  "assign_credential env a =
     bnd (gets (\<lambda>s. assignment_full_clean (e_cfg env) (e_labels env) (db s) a)) (\<lambda>r.
     bnd (lift_sum r) (\<lambda>_.
     bnd (save_assignment env a) (\<lambda>a'.
     bnd (defer_custom_metadata env [asg_credential_id a']) (\<lambda>_. ret a'))))"

text \<open>A deleted row never passed \<^verbatim>\<open>pre_save\<close>: only its own credential is refreshed.\<close>

definition delete_assignment :: "('x, 'b, 'c) env \<Rightarrow> nat \<times> credential_assignment \<Rightarrow> ('x, 'b, unit) prog" where
  "delete_assignment env ka =
     bnd (modify (\<lambda>s. s\<lparr>db := (db s)\<lparr>assignments := drop_row (fst ka) (assignments (db s))\<rparr>\<rparr>)) (\<lambda>_.
     refresh_custom_metadata env None (snd ka))"

section \<open>Deleting a credential\<close>

text \<open>Audit rows survive with their snapshot; the foreign key is nulled.\<close>

definition unlink_logs :: "nat \<Rightarrow> database \<Rightarrow> database" where
  "unlink_logs k d =
     d\<lparr>access_log := map (\<lambda>(i, l). (i, if log_credential l = Some k then l\<lparr>log_credential := None\<rparr> else l)) (access_log d)\<rparr>"

definition destroy_material_on_delete :: "('x, 'b, 'c) env \<Rightarrow> credential \<Rightarrow> secret_engine \<Rightarrow> ('x, 'b, unit) prog" where
  "destroy_material_on_delete env c eng = on_commit (run_hook env) (DestroyMaterial c eng)"

text \<open>\<^verbatim>\<open>Credential.delete()\<close> runs in a transaction of its own, or in a savepoint of the caller's. The
  instance the callback keeps has no primary key any more.\<close>

definition delete_body :: "('x, 'b, 'c) env \<Rightarrow> nat \<Rightarrow> ('x, 'b, unit) prog" where
  "delete_body env k =
     bnd (gets (\<lambda>s. load_credential (db s) k)) (\<lambda>r.
     bnd (get_or r ObjectDoesNotExist) (\<lambda>c.
     bnd (gets (\<lambda>s. filter (\<lambda>(_, a). asg_credential_id a = Some k) (assignments (db s)))) (\<lambda>as.
     bnd (modify (\<lambda>s. s\<lparr>db := unlink_logs k (db s)\<rparr>)) (\<lambda>_.
     bnd (for_each (delete_assignment env) as) (\<lambda>_.
     bnd (modify (\<lambda>s. s\<lparr>db := (db s)\<lparr>credentials := drop_row k (credentials (db s))\<rparr>\<rparr>)) (\<lambda>_.
     bnd (engine_p c) (\<lambda>eng.
     destroy_material_on_delete env (c\<lparr>cr_pk := None\<rparr>) eng)))))))"

definition delete_credential :: "('x, 'b, 'c) env \<Rightarrow> nat \<Rightarrow> ('x, 'b, unit) prog" where
  "delete_credential env k = atomic env (delete_body env k)"

section \<open>Service identities\<close>

text \<open>The callback \<open>invalidate\<close>: the revision whose tokens and sessions die is the deleted row's own,
  or the one before the save.\<close>

definition invalidate_auth_material ::
  "nat option \<Rightarrow> nat \<Rightarrow> nat option \<Rightarrow> bool \<Rightarrow> ('w backend_world, exn, unit) sem" where
  "invalidate_auth_material material_id revision previous deleted =
     (case (material_id, if deleted then Some revision else previous) of
        (Some m, Some r) \<Rightarrow>
          if m = 0 then ret ()
          else bnd (close_auth_material_sessions m r) (\<lambda>_.
               bnd (broker_close_auth_material_sessions m r) (\<lambda>_.
               modify (\<lambda>x. x\<lparr>bw_cache := filter (\<lambda>(k, _, _). k \<noteq>
                  ''netbox_openbao:token:'' @ digits m @ '':'' @ digits r) (bw_cache x)\<rparr>)))
      | _ \<Rightarrow> ret ())"

text \<open>A committed save: the row is written, then the callback runs with the revision it replaced.\<close>

definition save_auth_material ::
  "int \<Rightarrow> string list option \<Rightarrow> engine_auth_material \<Rightarrow> string list \<times> engine_auth_material \<Rightarrow> nat \<Rightarrow> auth_tbl
   \<Rightarrow> ('w backend_world, exn, engine_auth_material \<times> auth_tbl) sem" where
  "save_auth_material now update_fields self loaded new_pk t =
     (case auth_save now update_fields self loaded new_pk t of
        Inl e \<Rightarrow> raise e
      | Inr (saved, t', previous) \<Rightarrow>
          bnd (invalidate_auth_material (am_pk saved) (am_revision saved) previous False) (\<lambda>_. ret (saved, t')))"

end
