(* ===== verification/Jobs.thy ===== *)
theory Jobs
  imports Lifecycle
begin

text \<open>
  The background jobs (\<^verbatim>\<open>jobs.py\<close>), the connection target of a service (\<^verbatim>\<open>connection.py\<close>) and the helpers of
  \<^verbatim>\<open>utils.py\<close>. A job returns its summary line; warnings it logs are not kept. Each iterates the rows it
  selected in key order and writes with \<^verbatim>\<open>QuerySet.update\<close>, which runs no model code.
\<close>

definition int_str :: "int \<Rightarrow> string" where
  "int_str n = (if n < 0 then CHR ''-'' # digits (nat (- n)) else digits (nat n))"

section \<open>Settings per run\<close>

text \<open>\<^verbatim>\<open>_fresh_settings_per_run\<close>: the worker's snapshot is dropped before and after, also when the job raises.\<close>

definition fresh_settings_per_run ::
  "(string \<Rightarrow> bool) \<Rightarrow> (conf_state \<Rightarrow> (exn + 'a) \<times> conf_state) \<Rightarrow> conf_state \<Rightarrow> (exn + 'a) \<times> conf_state" where
  "fresh_settings_per_run open_tx job c =
     (case job (clear_config False ''default'' open_tx c) of (r, c') \<Rightarrow> (r, clear_config False ''default'' open_tx c'))"

text \<open>\<^verbatim>\<open>_static_job_interval\<close>: an unreadable table gives the caller's default, an absent row the field's.\<close>

definition static_job_interval ::
  "(openbao_settings \<Rightarrow> int) \<Rightarrow> int \<Rightarrow> (exn + openbao_settings option) \<Rightarrow> int" where
  "static_job_interval key fallback q =
     (case q of Inl _ \<Rightarrow> fallback | Inr None \<Rightarrow> key default_settings | Inr (Some r) \<Rightarrow> key r)"

section \<open>Engine health\<close>

definition set_engine_health :: "nat \<Rightarrow> health_result \<Rightarrow> int \<Rightarrow> database \<Rightarrow> database" where
  "set_engine_health k h now d =
     (case row (engines d) k of
        None \<Rightarrow> d
      | Some e \<Rightarrow> d\<lparr>engines := put_row k (e\<lparr>eng_status := hr_status h, eng_status_message := take 500 (hr_message h),
                     eng_last_checked := Some now\<rparr>) (engines d)\<rparr>)"

definition check_engine :: "('x, 'b, 'c) env \<Rightarrow> nat \<times> secret_engine \<Rightarrow> ('x, 'b, unit) prog" where
  "check_engine env ke =
     bnd (\<lambda>s. case get_backend (e_backend env) (auth_materials (db s)) (snd ke) None (ext s) of (b, x) \<Rightarrow> (Inr b, s\<lparr>ext := x\<rparr>)) (\<lambda>b.
     bnd (backend_call env (\<lambda>ctx. b_health (e_backend env) ctx b)) (\<lambda>h.
     modify (\<lambda>s. s\<lparr>db := set_engine_health (fst ke) h (e_now env) (db s)\<rparr>)))"

definition engine_health_job :: "('x, 'b, 'c) env \<Rightarrow> ('x, 'b, string) prog" where
  "engine_health_job env =
     bnd (gets (\<lambda>s. engines (db s))) (\<lambda>es.
     bnd (for_each (check_engine env) es) (\<lambda>_.
     ret (''Checked '' @ digits (length es) @ '' engine(s).'')))"

section \<open>Expiry\<close>

definition past_validity :: "int \<Rightarrow> credential \<Rightarrow> bool" where
  "past_validity now c =
     ((case cr_valid_until c of None \<Rightarrow> False | Some t \<Rightarrow> t \<le> now) \<and> cr_status c \<notin> {STATUS_EXPIRED, STATUS_RETIRED})"

definition expiring_within :: "int \<Rightarrow> int \<Rightarrow> credential \<Rightarrow> bool" where
  "expiring_within now days c =
     ((case cr_valid_until c of None \<Rightarrow> False | Some t \<Rightarrow> now < t \<and> t \<le> now + 86400 * days) \<and> cr_status c \<noteq> STATUS_RETIRED)"

definition expire_rows :: "int \<Rightarrow> credential tbl \<Rightarrow> credential tbl" where
  "expire_rows now t = map (\<lambda>(k, c). (k, if past_validity now c then c\<lparr>cr_status := STATUS_EXPIRED\<rparr> else c)) t"

definition expiry_warning :: "int \<Rightarrow> credential list \<Rightarrow> int \<Rightarrow> string option" where
  "expiry_warning now cs days =
     (let n = length (filter (expiring_within now days) cs)
      in if n = 0 then None else Some (digits n @ '' expiring within '' @ int_str days @ '' day(s)''))"

definition expiry_scan_job :: "('x, 'b, 'c) env \<Rightarrow> ('x, 'b, string) prog" where
  "expiry_scan_job env =
     (let now = e_now env in
      bnd (gets (\<lambda>s. length (filter (past_validity now) (rows (credentials (db s)))))) (\<lambda>n.
      bnd (modify (\<lambda>s. if n = 0 then s
             else s\<lparr>db := (db s)\<lparr>credentials := expire_rows now (credentials (db s))\<rparr>\<rparr>)) (\<lambda>_.
      bnd (gets (\<lambda>s. List.map_filter (expiry_warning now (rows (credentials (db s))))
             (rev (sort (set_expiry_warning_days (e_cfg env)))))) (\<lambda>warnings.
      ret (digits n @ '' expired'' @ (if warnings = [] then [] else ''; '' @ join_with '', '' warnings))))))"

section \<open>Verification\<close>

datatype verification = Verified | Missing | Errored

definition refresh_verified :: "nat \<Rightarrow> kv_metadata \<Rightarrow> credential \<Rightarrow> int \<Rightarrow> database \<Rightarrow> database" where
  "refresh_verified k m c now d =
     (case row (credentials d) k of
        None \<Rightarrow> d
      | Some r \<Rightarrow> d\<lparr>credentials := put_row k (r\<lparr>cr_kv_version :=
                       (case km_current_version m of None \<Rightarrow> cr_kv_version c | Some v \<Rightarrow> if v = 0 then cr_kv_version c else Some v),
                     cr_last_verified := Some now\<rparr>) (credentials d)\<rparr>)"

text \<open>\<open>get_backend\<close> stands before the \<^verbatim>\<open>try\<close>; only \<^verbatim>\<open>OpenBaoError\<close> is caught.\<close>

definition verify_credential :: "('x, 'b, 'c) env \<Rightarrow> nat \<times> credential \<Rightarrow> ('x, 'b, verification) prog" where
  "verify_credential env kc =
     bnd (engine_p (snd kc)) (\<lambda>eng. bnd (policy_p (snd kc)) (\<lambda>pol.
     bnd (get_backend_p env eng pol) (\<lambda>b.
     bnd (on_exn (bnd (backend_call env (\<lambda>ctx. b_read_metadata (e_backend env) ctx b (cr_path (snd kc)))) (\<lambda>m. ret (Inr m)))
            (\<lambda>e. case e of
               OpenBaoExn x \<Rightarrow> ret (Inl (if is_subclass (oe_class x) OpenBaoNotFoundC then Missing else Errored))
             | _ \<Rightarrow> raise e)) (\<lambda>r.
     case r of
       Inl v \<Rightarrow> ret v
     | Inr m \<Rightarrow>
         bnd (modify (\<lambda>s. s\<lparr>db := refresh_verified (fst kc) m (snd kc) (e_now env) (db s)\<rparr>)) (\<lambda>_. ret Verified)))))"

primrec verify_each :: "('x, 'b, 'c) env \<Rightarrow> (nat \<times> credential) list \<Rightarrow> ('x, 'b, verification list) prog" where
  "verify_each env [] = ret []"
| "verify_each env (c # cs) = bnd (verify_credential env c) (\<lambda>v. bnd (verify_each env cs) (\<lambda>vs. ret (v # vs)))"

definition credential_verify_job :: "('x, 'b, 'c) env \<Rightarrow> ('x, 'b, string) prog" where
  "credential_verify_job env =
     bnd (gets (\<lambda>s. credentials (db s))) (\<lambda>cs.
     bnd (verify_each env cs) (\<lambda>vs.
     ret (digits (count_list vs Verified) @ '' verified, '' @ digits (count_list vs Missing) @ '' missing, ''
          @ digits (count_list vs Errored) @ '' unreachable.'')))"

section \<open>Rotation and retention\<close>

definition rotation_due :: "int \<Rightarrow> credential \<Rightarrow> bool" where
  "rotation_due now c =
     (case cr_rotation_interval c of
        None \<Rightarrow> False
      | Some days \<Rightarrow>
          cr_status c \<notin> {STATUS_RETIRED, STATUS_EXPIRED}
          \<and> (case or_else (cr_last_rotated c) (cr_created c) of
               None \<Rightarrow> False | Some t \<Rightarrow> t + 86400 * int days \<le> now))"

definition rotation_due_job :: "('x, 'b, 'c) env \<Rightarrow> ('x, 'b, string) prog" where
  "rotation_due_job env =
     gets (\<lambda>s. digits (length (filter (rotation_due (e_now env)) (rows (credentials (db s))))) @ '' credential(s) due for rotation.'')"

definition retention_days :: "openbao_settings \<Rightarrow> int" where
  "retention_days cfg = (if set_audit_retention_days cfg = 0 then 365 else set_audit_retention_days cfg)"

definition access_log_prune_job :: "('x, 'b, 'c) env \<Rightarrow> ('x, 'b, string) prog" where
  "access_log_prune_job env =
     (let keep = (\<lambda>(_, l). e_now env - 86400 * retention_days (e_cfg env) \<le> log_timestamp l) in
      bnd (gets (\<lambda>s. length (filter (Not \<circ> keep) (access_log (db s))))) (\<lambda>n.
      bnd (modify (\<lambda>s. s\<lparr>db := (db s)\<lparr>access_log := filter keep (access_log (db s))\<rparr>\<rparr>)) (\<lambda>_.
      ret (''Pruned '' @ digits n @ '' entr(ies).''))))"

section \<open>Where to connect (connection.py)\<close>

record connection_target =
  sc_host :: string
  sc_port :: "nat option"
  sc_error :: string

definition conn_error :: "string \<Rightarrow> connection_target" where
  "conn_error e = \<lparr>sc_host = [], sc_port = None, sc_error = e\<rparr>"

definition sc_usable :: "connection_target \<Rightarrow> bool" where
  "sc_usable c = (sc_error c = [])"

definition sc_message :: "connection_target \<Rightarrow> string" where
  "sc_message c =
     (case map_of [(''no_ip'', ''Fill in the IP address on the Application Service.''),
                   (''multiple_ips'', ''The Application Service must list exactly one IP address.''),
                   (''no_tcp_port'', ''The Application Service must expose a TCP port.''),
                   (''multiple_tcp_ports'', ''The Application Service must expose exactly one TCP port.'')] (sc_error c) of
        None \<Rightarrow> [] | Some m \<Rightarrow> m)"

text \<open>\<^verbatim>\<open>str.isdigit\<close> on ASCII text, \<^verbatim>\<open>int(..)\<close> of it, and \<^verbatim>\<open>partition('/')\<close>.\<close>

definition is_digit :: "char \<Rightarrow> bool" where
  "is_digit c = (48 \<le> (of_char c :: nat) \<and> (of_char c :: nat) \<le> 57)"

definition partition_slash :: "string \<Rightarrow> string \<times> string" where
  "partition_slash s = (takeWhile (\<lambda>c. c \<noteq> CHR ''/'') s, drop 1 (dropWhile (\<lambda>c. c \<noteq> CHR ''/'') s))"

definition tcp_port :: "string \<Rightarrow> nat option" where
  "tcp_port mapping =
     (case partition_slash mapping of (protocol, port) \<Rightarrow>
        if lower (strip protocol) = ''tcp'' \<and> strip port \<noteq> [] \<and> list_all is_digit (strip port)
        then Some (undigits (strip port)) else None)"

definition tcp_ports :: "string list \<Rightarrow> nat list" where
  "tcp_ports mappings = sorted_ids (List.map_filter tcp_port mappings)"

definition service_connection :: "app_service \<Rightarrow> connection_target" where
  "service_connection v =
     (case svc_addresses v of
        [] \<Rightarrow> conn_error ''no_ip''
      | [host] \<Rightarrow>
          (case tcp_ports (svc_port_mappings v) of
             [] \<Rightarrow> conn_error ''no_tcp_port''
           | [p] \<Rightarrow> \<lparr>sc_host = host, sc_port = Some p, sc_error = []\<rparr>
           | _ \<Rightarrow> conn_error ''multiple_tcp_ports'')
      | _ \<Rightarrow> conn_error ''multiple_ips'')"

section \<open>Helpers (utils.py)\<close>

definition assignable_content_types :: "openbao_settings \<Rightarrow> label_registry \<Rightarrow> content_type list \<Rightarrow> content_type list" where
  "assignable_content_types cfg rg known =
     filter (\<lambda>ct. list_ex (\<lambda>label. takeWhile (\<lambda>c. c \<noteq> CHR ''.'') label = ct_app_label ct
                             \<and> drop 1 (dropWhile (\<lambda>c. c \<noteq> CHR ''.'') label) = ct_model ct)
                  (assignable_model_labels cfg rg)) known"

definition get_default_engine :: "database \<Rightarrow> secret_engine option" where
  "get_default_engine d = List.find eng_is_default (rows (engines d))"

end
