(* ===== verification/Credential_Views.thy ===== *)
theory Credential_Views
  imports Automation Jobs
begin

text \<open>
  The REST views over credentials, their assignments and their resolution (\<^verbatim>\<open>api/views.py\<close>, \<^verbatim>\<open>api/transactions.py\<close>,
  \<^verbatim>\<open>api/automation.py\<close>, and the checks of \<^verbatim>\<open>api/serializers.py\<close>). A request is what the field declarations of the REST
  framework let through. NetBox's object permissions, Django's \<^verbatim>\<open>parse_datetime\<close> and the generation of keys are parameters; the
  model-level permission NetBox checks before a view runs is not modelled. Tags, custom fields and headers are left out.
\<close>

record 'x api_params =
  api_permits :: "'x \<Rightarrow> database \<Rightarrow> user \<Rightarrow> string \<Rightarrow> content_type \<Rightarrow> nat \<Rightarrow> bool"
  api_parse_datetime :: "string \<Rightarrow> exn + int option"
  api_private_key :: "ssh_key_type_choice \<Rightarrow> string"
  api_dumps :: "json \<Rightarrow> string"

section \<open>Answers\<close>

text \<open>
  What a view answers. What it raises is left to the framework, which answers a missing object and a refused permission; any
  other exception is a server error.
\<close>

datatype 'r answer =
  Answer nat 'r
| Invalid string string \<comment> \<open>400, with the field and the message\<close>
| Refused nat string
| Mismatch string string \<comment> \<open>409, with the detail and what differs\<close>
| UnknownOutcome \<comment> \<open>503\<close>

fun answer_status :: "'r answer \<Rightarrow> nat" where
  "answer_status (Answer n _) = n"
| "answer_status (Invalid _ _) = 400"
| "answer_status (Refused n _) = n"
| "answer_status (Mismatch _ _) = 409"
| "answer_status UnknownOutcome = 503"

definition not_found :: exn where
  "not_found = PythonError ''Http404''"

text \<open>\<open>exc.status_code or 502\<close>.\<close>

definition refusal_status :: "openbao_error \<Rightarrow> nat" where
  "refusal_status x = (case oe_status x of None \<Rightarrow> 502 | Some n \<Rightarrow> if n = 0 then 502 else n)"

definition backend_answers :: "('x, 'b, 'r answer) prog \<Rightarrow> ('x, 'b, 'r answer) prog" where
  "backend_answers m =
     on_exn m (\<lambda>e. case e of OpenBaoExn x \<Rightarrow> ret (Refused (refusal_status x) (oe_message x)) | _ \<Rightarrow> raise e)"

definition validation_answers :: "('x, 'b, 'r answer) prog \<Rightarrow> ('x, 'b, 'r answer) prog" where
  "validation_answers m = on_exn m (\<lambda>e. case e of ValidationError f t \<Rightarrow> ret (Invalid f t) | _ \<Rightarrow> raise e)"

section \<open>Permissions\<close>

text \<open>\<open>restrict(user, action).filter(pk=k).exists()\<close>.\<close>

definition credential_selectable :: "'x api_params \<Rightarrow> user \<Rightarrow> string \<Rightarrow> nat \<Rightarrow> ('x, 'b) sys \<Rightarrow> bool" where
  "credential_selectable ap u action k s =
     (row (credentials (db s)) k \<noteq> None \<and> api_permits ap (ext s) (db s) u action credential_ct k)"

definition assignment_selectable :: "'x api_params \<Rightarrow> user \<Rightarrow> string \<Rightarrow> nat \<Rightarrow> ('x, 'b) sys \<Rightarrow> bool" where
  "assignment_selectable ap u action k s =
     (row (assignments (db s)) k \<noteq> None \<and> api_permits ap (ext s) (db s) u action assignment_ct k)"

definition GATE_AUDIT_ACTION :: "(string \<times> access_action) list" where
  "GATE_AUDIT_ACTION = [(''reveal'', ACTION_REVEAL), (''rotate'', ACTION_ROTATE)]"

text \<open>\<open>get_object_or_404\<close> over the rows the user may act on.\<close>

definition selected :: "bool \<Rightarrow> 'r option \<Rightarrow> ('x, 'b, 'r) prog" where
  "selected ok r = get_or (if ok then r else None) not_found"

definition authorize ::
  "('x, 'b, 'c) env \<Rightarrow> 'x api_params \<Rightarrow> user \<Rightarrow> http_request \<Rightarrow> nat \<Rightarrow> string \<Rightarrow> ('x, 'b, credential) prog" where
  "authorize env ap u request k action =
     bnd (gets (credential_selectable ap u action k)) (\<lambda>ok.
     bnd (gets (\<lambda>s. load_credential (db s) k)) (\<lambda>r.
     bnd (selected ok r) (\<lambda>c.
     bnd (enforce_policy_access env c (Some u) (map_of GATE_AUDIT_ACTION action) (Some request)) (\<lambda>_. ret c))))"

section \<open>Actions on one credential\<close>

record revealed =
  va_id :: "nat option"
  va_uuid :: string
  va_name :: string
  va_credential_type :: string
  va_username :: string
  va_kv_version :: "nat option"
  va_ttl :: int
  va_secret_data :: json

definition reveal_view ::
  "('x, 'b, 'c) env \<Rightarrow> 'x api_params \<Rightarrow> user \<Rightarrow> http_request \<Rightarrow> nat \<Rightarrow> string \<Rightarrow> nat option \<Rightarrow> ('x, 'b, revealed answer) prog" where
  "reveal_view env ap u request k reason version =
     bnd (authorize env ap u request k ''reveal'') (\<lambda>c.
     backend_answers (validation_answers
       (bnd (reveal_material env c (Some u) (Some request) reason version) (\<lambda>(data, ttl).
        ret (Answer 200 \<lparr>va_id = cr_pk c, va_uuid = cr_uuid c, va_name = cr_name c, va_credential_type = cr_credential_type c,
          va_username = cr_username c, va_kv_version = cr_kv_version c, va_ttl = ttl, va_secret_data = data\<rparr>)))))"

definition rotate_view ::
  "('x, 'b, 'c) env \<Rightarrow> 'x api_params \<Rightarrow> user \<Rightarrow> http_request \<Rightarrow> nat \<Rightarrow> json \<Rightarrow> ('x, 'b, nat answer) prog" where
  "rotate_view env ap u request k p =
     bnd (authorize env ap u request k ''rotate'') (\<lambda>c.
     if \<not> truthy p then ret (Invalid ''secret_data'' ''Secret data is required to rotate a credential.'')
     else backend_answers
       (bnd (rotate_material env c p (Some u) (Some request)) (\<lambda>(_, version). ret (Answer 200 version))))"

record version_state =
  vs_id :: "nat option"
  vs_status :: credential_status
  vs_kv_version :: "nat option"
  vs_live_kv_version :: "nat option"
  vs_has_staged_version :: bool

definition version_state_of :: "credential \<Rightarrow> nat option \<Rightarrow> version_state" where
  "version_state_of c version =
     \<lparr>vs_id = cr_pk c, vs_status = cr_status c, vs_kv_version = version, vs_live_kv_version = cr_live_kv_version c,
      vs_has_staged_version = has_staged_version c\<rparr>"

definition stage_view ::
  "('x, 'b, 'c) env \<Rightarrow> 'x api_params \<Rightarrow> user \<Rightarrow> http_request \<Rightarrow> nat \<Rightarrow> json \<Rightarrow> ('x, 'b, version_state answer) prog" where
  "stage_view env ap u request k p =
     bnd (authorize env ap u request k ''rotate'') (\<lambda>c.
     if \<not> truthy p then ret (Invalid ''secret_data'' ''Secret data is required to stage a rotation.'')
     else backend_answers (validation_answers
       (bnd (stage_material env c p (Some u) (Some request)) (\<lambda>(c', version).
        ret (Answer 200 (version_state_of c' (Some version)))))))"

definition promote_view ::
  "('x, 'b, 'c) env \<Rightarrow> 'x api_params \<Rightarrow> user \<Rightarrow> http_request \<Rightarrow> nat \<Rightarrow> bool \<Rightarrow> string \<Rightarrow> ('x, 'b, version_state answer) prog" where
  "promote_view env ap u request k verified text =
     bnd (authorize env ap u request k ''rotate'') (\<lambda>c.
     validation_answers
       (bnd (promote_staged env c (Some u) (Some request) verified text) (\<lambda>c'.
        ret (Answer 200 (version_state_of c' (cr_kv_version c'))))))"

definition discard_view ::
  "('x, 'b, 'c) env \<Rightarrow> 'x api_params \<Rightarrow> user \<Rightarrow> http_request \<Rightarrow> nat \<Rightarrow> ('x, 'b, version_state answer) prog" where
  "discard_view env ap u request k =
     bnd (authorize env ap u request k ''rotate'') (\<lambda>c.
     backend_answers (validation_answers
       (bnd (discard_staged env c (Some u) (Some request)) (\<lambda>c'.
        ret (Answer 200 (version_state_of c' (cr_kv_version c')))))))"

definition versions_view ::
  "('x, 'b, 'c) env \<Rightarrow> 'x api_params \<Rightarrow> user \<Rightarrow> http_request \<Rightarrow> nat \<Rightarrow> ('x, 'b, version_info list answer) prog" where
  "versions_view env ap u request k =
     bnd (authorize env ap u request k ''view'') (\<lambda>c.
     bnd (engine_p c) (\<lambda>eng. bnd (policy_p c) (\<lambda>pol.
     bnd (get_backend_p env eng pol) (\<lambda>b.
     backend_answers
       (bnd (backend_call env (\<lambda>ctx. b_list_versions (e_backend env) ctx b (cr_path c))) (\<lambda>vs. ret (Answer 200 vs)))))))"

section \<open>The owner of a request's material\<close>

text \<open>
  \<open>material_api_operation\<close>. An answer the view had already given survives a refused owner when the rollback is known: the owner
  was refused inside its block, on a live connection.
\<close>

definition kept_answer :: "('x, 'b, 'c) env \<Rightarrow> ('x, 'b, 'r answer) prog \<Rightarrow> ('x, 'b) sys \<Rightarrow> 'r answer option" where
  "kept_answer env body s =
     (if owner s \<noteq> None \<or> \<not> autocommit s \<or> e_connection_lost env then None
      else case (fst (body (begin_tx env s)), fst (tx_body env body (begin_tx env s))) of
        (Inr a, Inl _) \<Rightarrow> if answer_status a \<ge> 400 then Some a else None
      | _ \<Rightarrow> None)"

definition outcome_unknown :: "exn \<Rightarrow> bool" where
  "outcome_unknown e = (case e of OpenBaoExn x \<Rightarrow> is_subclass (oe_class x) OpenBaoMutationUnknownC | _ \<Rightarrow> False)"

definition material_api_operation :: "('x, 'b, 'c) env \<Rightarrow> ('x, 'b, 'r answer) prog \<Rightarrow> ('x, 'b, 'r answer) prog" where
  "material_api_operation env body s =
     on_exn (material_transaction env (run_hook env) body)
       (\<lambda>e. if outcome_unknown e then ret UnknownOutcome
            else if is_openbao e then (case kept_answer env body s of Some a \<Rightarrow> ret a | None \<Rightarrow> raise e)
            else raise e) s"

section \<open>Requests of the serializer\<close>

text \<open>The writable fields, \<open>None\<close> when the request leaves them out, and the material.\<close>

record credential_patch =
  pt_name :: "string option"
  pt_credential_type :: "string option"
  pt_policy :: "nat option"
  pt_engine :: "nat option"
  pt_username :: "string option"
  pt_public_key :: "string option"
  pt_fingerprint :: "string option"
  pt_cert_serial :: "string option"
  pt_cert_subject :: "string option"
  pt_cert_issuer :: "string option"
  pt_valid_from :: "int option option"
  pt_valid_until :: "int option option"
  pt_status :: "credential_status option"
  pt_rotation_interval :: "nat option option"
  pt_last_rotated :: "int option option"

definition given :: "'a option \<Rightarrow> 'a \<Rightarrow> 'a" where
  "given new old = (case new of None \<Rightarrow> old | Some v \<Rightarrow> v)"

text \<open>A foreign key in a request is never null.\<close>

definition apply_patch :: "credential_patch \<Rightarrow> credential \<Rightarrow> credential" where
  "apply_patch p c =
     c\<lparr>cr_name := given (pt_name p) (cr_name c), cr_credential_type := given (pt_credential_type p) (cr_credential_type c),
       cr_policy_id := or_else (pt_policy p) (cr_policy_id c), cr_engine_id := or_else (pt_engine p) (cr_engine_id c),
       cr_username := given (pt_username p) (cr_username c), cr_public_key := given (pt_public_key p) (cr_public_key c),
       cr_fingerprint := given (pt_fingerprint p) (cr_fingerprint c), cr_cert_serial := given (pt_cert_serial p) (cr_cert_serial c),
       cr_cert_subject := given (pt_cert_subject p) (cr_cert_subject c), cr_cert_issuer := given (pt_cert_issuer p) (cr_cert_issuer c),
       cr_valid_from := given (pt_valid_from p) (cr_valid_from c), cr_valid_until := given (pt_valid_until p) (cr_valid_until c),
       cr_status := given (pt_status p) (cr_status c), cr_rotation_interval := given (pt_rotation_interval p) (cr_rotation_interval c),
       cr_last_rotated := given (pt_last_rotated p) (cr_last_rotated c)\<rparr>"

record credential_request =
  cq_fields :: credential_patch
  cq_secret_data :: "payload option"
  cq_generate :: bool
  cq_key_type :: "ssh_key_type_choice option"

definition validate_generation ::
  "openbao_settings \<Rightarrow> bool \<Rightarrow> string \<Rightarrow> credential_request \<Rightarrow> exn + unit" where
  "validate_generation cfg creating ctype q =
     (if \<not> cq_generate q
      then (if cq_key_type q \<noteq> None
            then Inl (ValidationError ''ssh_key_type'' ''ssh_key_type is valid only when generate_ssh_key is enabled.'') else Inr ())
      else if \<not> creating
      then Inl (ValidationError ''generate_ssh_key'' ''Server-side SSH key generation is supported only during creation.'')
      else if ctype \<noteq> ''ssh-keypair''
      then Inl (ValidationError ''generate_ssh_key'' ''Server-side generation requires the ssh-keypair credential type.'')
      else if cq_secret_data q \<noteq> None
      then Inl (ValidationError ''secret_data'' ''Do not supply secret_data when generate_ssh_key is enabled.'')
      else if \<not> set_allow_generation cfg
      then Inl (ValidationError ''generate_ssh_key'' ''Server-side SSH key generation is disabled.'')
      else Inr ())"

definition supplied :: "credential_request \<Rightarrow> bool" where
  "supplied q = (case cq_secret_data q of None \<Rightarrow> False | Some p \<Rightarrow> p \<noteq> [])"

text \<open>\<open>validate\<close>; \<open>c\<close> is the instance with the fields of the request on it, which is what the model's own validation sees.\<close>

definition validate_request ::
  "('x, 'b, 'c) env \<Rightarrow> database \<Rightarrow> bool \<Rightarrow> credential \<Rightarrow> credential_request \<Rightarrow> exn + credential" where
  "validate_request env d creating c q =
     (case validate_generation (e_cfg env) creating (cr_credential_type c) q of
        Inl e \<Rightarrow> Inl e
      | Inr _ \<Rightarrow>
          if creating \<and> \<not> supplied q \<and> \<not> cq_generate q
          then Inl (ValidationError ''secret_data'' ''Secret data is required when creating a credential.'')
          else case (if supplied q then map_sum id (\<lambda>_. ()) (validate_payload (e_lib env) d (cr_credential_type c) (JObj (given (cq_secret_data q) [])))
                     else Inr ()) of
            Inl e \<Rightarrow> Inl e
          | Inr _ \<Rightarrow> credential_full_clean (e_field_errors env) d c)"

section \<open>Creating\<close>

text \<open>\<open>_conform\<close>: the saved row must still be one the user may act on.\<close>

definition conform :: "'x api_params \<Rightarrow> user \<Rightarrow> string \<Rightarrow> credential \<Rightarrow> ('x, 'b, unit) prog" where
  "conform ap u action c =
     bnd (get_or (cr_pk c) ObjectDoesNotExist) (\<lambda>k.
     bnd (gets (credential_selectable ap u action k)) (\<lambda>ok. check ok ObjectDoesNotExist))"

definition denied_if_missing :: "('x, 'b, 'a) prog \<Rightarrow> ('x, 'b, 'a) prog" where
  "denied_if_missing m = on_exn m (\<lambda>e. raise (if e = ObjectDoesNotExist then PermissionDenied [] else e))"

definition request_material :: "('x, 'b, 'c) env \<Rightarrow> 'x api_params \<Rightarrow> credential_request \<Rightarrow> json" where
  "request_material env ap q =
     (if cq_generate q
      then JObj [(''private_key'', JStr (api_private_key ap (given (cq_key_type q) (set_default_ssh_key_type (e_cfg env)))))]
      else case cq_secret_data q of None \<Rightarrow> JNull | Some p \<Rightarrow> JObj p)"

definition persist_new ::
  "('x, 'b, 'c) env \<Rightarrow> 'x api_params \<Rightarrow> user \<Rightarrow> credential \<Rightarrow> credential option \<Rightarrow> metadata \<Rightarrow> ('x, 'b, credential) prog" where
  "persist_new env ap u c _ metadata =
     bnd (try_db (credential_save (e_cfg env) (e_now env) (set_metadata metadata c))) (\<lambda>saved.
     bnd (conform ap u ''add'' saved) (\<lambda>_. ret saved))"

definition store_new ::
  "('x, 'b, 'c) env \<Rightarrow> 'x api_params \<Rightarrow> user \<Rightarrow> http_request \<Rightarrow> bool \<Rightarrow> credential \<Rightarrow> credential_request \<Rightarrow> ('x, 'b, credential) prog" where
  "store_new env ap u request prelocked c q =
     bnd (store_credential env (persist_new env ap u c) (cr_credential_type c) (request_material env ap q) (Some 0) (Some u)
            (Some request) ACTION_WRITE None True (cr_policy_id c) prelocked) (\<lambda>(saved, _). ret saved)"

text \<open>\<open>blank\<close> is the instance a request fills: the defaults of the table and a new UUID.\<close>

definition create_view ::
  "('x, 'b, 'c) env \<Rightarrow> 'x api_params \<Rightarrow> user \<Rightarrow> http_request \<Rightarrow> credential \<Rightarrow> credential_request \<Rightarrow> ('x, 'b, credential answer) prog" where
  "create_view env ap u request blank q =
     material_api_operation env
       (bnd (gets (\<lambda>s. validate_request env (db s) True (apply_patch (cq_fields q) blank) q)) (\<lambda>r.
        bnd (lift_sum r) (\<lambda>_.
        bnd (denied_if_missing (store_new env ap u request False (apply_patch (cq_fields q) blank) q)) (\<lambda>c.
        ret (Answer 201 c)))))"

definition named_policies :: "database \<Rightarrow> credential_patch list \<Rightarrow> nat list" where
  "named_policies d ps = filter (\<lambda>k. row (policies d) k \<noteq> None) (List.map_filter pt_policy ps)"

definition lock_batch_participants ::
  "('x, 'b, 'c) env \<Rightarrow> credential list \<Rightarrow> credential_patch list \<Rightarrow> ('x, 'b, unit) prog" where
  "lock_batch_participants env subjects ps =
     bnd (gets (\<lambda>s. named_policies (db s) ps)) (\<lambda>ids. bnd (lock_material_subjects env subjects ids) (\<lambda>_. ret ()))"

primrec traverse :: "('a \<Rightarrow> ('s, 'e, 'r) sem) \<Rightarrow> 'a list \<Rightarrow> ('s, 'e, 'r list) sem" where
  "traverse f [] = ret []"
| "traverse f (x # xs) = bnd (f x) (\<lambda>y. bnd (traverse f xs) (\<lambda>ys. ret (y # ys)))"

definition bulk_create_view ::
  "('x, 'b, 'c) env \<Rightarrow> 'x api_params \<Rightarrow> user \<Rightarrow> http_request \<Rightarrow> (credential \<times> credential_request) list \<Rightarrow> ('x, 'b, credential list answer) prog" where
  "bulk_create_view env ap u request entries =
     material_api_operation env
       (bnd (lock_batch_participants env [] (map (\<lambda>(_, q). cq_fields q) entries)) (\<lambda>_.
        bnd (traverse (\<lambda>(blank, q). bnd (gets (\<lambda>s. validate_request env (db s) True (apply_patch (cq_fields q) blank) q)) lift_sum) entries) (\<lambda>_.
        bnd (denied_if_missing (traverse (\<lambda>(blank, q). store_new env ap u request True (apply_patch (cq_fields q) blank) q) entries)) (\<lambda>cs.
        ret (Answer 201 cs)))))"

section \<open>Updating\<close>

definition require_rotate :: "'x api_params \<Rightarrow> user \<Rightarrow> credential \<Rightarrow> ('x, 'b, unit) prog" where
  "require_rotate ap u c =
     bnd (get_or (cr_pk c) ObjectDoesNotExist) (\<lambda>k.
     bnd (gets (credential_selectable ap u ''rotate'' k)) (\<lambda>ok.
     check ok (PermissionDenied ''Replacing secret material requires the rotate permission on this credential.'')))"

definition save_instance ::
  "('x, 'b, 'c) env \<Rightarrow> 'x api_params \<Rightarrow> user \<Rightarrow> credential \<Rightarrow> ('x, 'b, credential) prog" where
  "save_instance env ap u c =
     bnd (try_db (credential_save (e_cfg env) (e_now env) c)) (\<lambda>saved.
     bnd (conform ap u ''change'' saved) (\<lambda>_. ret saved))"

definition persist_update ::
  "('x, 'b, 'c) env \<Rightarrow> 'x api_params \<Rightarrow> user \<Rightarrow> credential \<Rightarrow> credential_patch \<Rightarrow> credential option \<Rightarrow> metadata
     \<Rightarrow> ('x, 'b, credential) prog" where
  "persist_update env ap u c p subject metadata =
     bnd (save_instance env ap u (set_metadata metadata (apply_patch p (given subject c)))) (\<lambda>saved.
     bnd (require_rotate ap u saved) (\<lambda>_. ret saved))"

text \<open>\<open>c\<close> carries the fields of the request already; the locks refresh its version state.\<close>

definition perform_update ::
  "('x, 'b, 'c) env \<Rightarrow> 'x api_params \<Rightarrow> user \<Rightarrow> http_request \<Rightarrow> credential \<Rightarrow> credential_request \<Rightarrow> ('x, 'b, credential) prog" where
  "perform_update env ap u request c q =
     bnd (lock_material_subject env (Some c) (pt_policy (cq_fields q))) (\<lambda>subject.
     bnd (enforce_update_access env subject (Some u) (Some ACTION_WRITE) (Some request)) (\<lambda>_.
     let fresh = given subject c in
     denied_if_missing
       (if \<not> supplied q then savepoint (save_instance env ap u (apply_patch (cq_fields q) fresh))
        else bnd (require_rotate ap u fresh) (\<lambda>_.
             bnd (store_credential env (persist_update env ap u fresh (cq_fields q)) (cr_credential_type fresh)
                    (request_material env ap q) (cr_kv_version fresh) (Some u) (Some request) ACTION_ROTATE (Some fresh) True
                    (pt_policy (cq_fields q)) False) (\<lambda>(saved, _). ret saved)))))"

definition update_loaded ::
  "('x, 'b, 'c) env \<Rightarrow> 'x api_params \<Rightarrow> user \<Rightarrow> http_request \<Rightarrow> credential \<Rightarrow> credential_request \<Rightarrow> ('x, 'b, credential) prog" where
  "update_loaded env ap u request c q =
     bnd (gets (\<lambda>s. validate_request env (db s) False (apply_patch (cq_fields q) c) q)) (\<lambda>v.
     bnd (lift_sum v) (\<lambda>cleaned. perform_update env ap u request cleaned q))"

definition update_view ::
  "('x, 'b, 'c) env \<Rightarrow> 'x api_params \<Rightarrow> user \<Rightarrow> http_request \<Rightarrow> nat \<Rightarrow> credential_request \<Rightarrow> ('x, 'b, credential answer) prog" where
  "update_view env ap u request k q =
     material_api_operation env
       (bnd (gets (credential_selectable ap u ''change'' k)) (\<lambda>ok.
        bnd (gets (\<lambda>s. load_credential (db s) k)) (\<lambda>r.
        bnd (selected ok r) (\<lambda>c.
        bnd (update_loaded env ap u request c q) (\<lambda>saved. ret (Answer 200 saved))))))"

text \<open>\<open>perform_bulk_update\<close>, within the owner of \<open>bulk_update\<close>: material is refused, then every participant is locked at once.\<close>

definition bulk_offenders :: "(nat \<times> credential_request) list \<Rightarrow> string list" where
  "bulk_offenders entries = sort (map (\<lambda>(k, _). digits k) (filter (\<lambda>(_, q). supplied q) entries))"

definition bulk_update_view ::
  "('x, 'b, 'c) env \<Rightarrow> 'x api_params \<Rightarrow> user \<Rightarrow> http_request \<Rightarrow> (nat \<times> credential_request) list \<Rightarrow> ('x, 'b, credential list answer) prog" where
  "bulk_update_view env ap u request entries =
     material_api_operation env (material_transaction env (run_hook env)
       (if bulk_offenders entries \<noteq> []
        then raise (ValidationError ''secret_data''
          (''Secret material cannot be written through a bulk update. Rotate these credentials individually, ''
           @ ''through the detail endpoint or the rotate action. Offending credential ID(s): ''
           @ join_with '', '' (bulk_offenders entries) @ ''.''))
        else bnd (gets (\<lambda>s. List.map_filter (\<lambda>(k, q). map_option (\<lambda>c. (c, q)) (load_credential (db s) k))
                    (filter (\<lambda>(k, _). credential_selectable ap u ''change'' k s) entries))) (\<lambda>objects.
             bnd (lock_batch_participants env (map fst objects) (map (\<lambda>(_, q). cq_fields q) entries)) (\<lambda>_.
             bnd (savepoint (traverse (\<lambda>(c, q). update_loaded env ap u request c q) objects)) (\<lambda>cs.
             ret (Answer 200 cs))))))"

section \<open>Revealing through an assignment\<close>

text \<open>What the caller approved.\<close>

record approval =
  xp_reason :: string
  xp_assignment_revision :: string
  xp_object_type :: string
  xp_object_id :: nat
  xp_purpose :: string
  xp_credential_uuid :: string
  xp_credential_type :: string
  xp_kv_version :: nat
  xp_host :: "string option"
  xp_port :: "nat option"

definition served_version :: "credential \<Rightarrow> nat option" where
  "served_version c = (case cr_live_kv_version c of Some v \<Rightarrow> Some v | None \<Rightarrow> cr_kv_version c)"

definition connection_mismatch :: "database \<Rightarrow> credential_assignment \<Rightarrow> approval \<Rightarrow> string option" where
  "connection_mismatch d g x =
     (if asg_object_type g \<noteq> Some service_type
      then (if xp_host x \<noteq> None \<or> xp_port x \<noteq> None then Some ''connection'' else None)
      else case (row (app_services d) (asg_object_id g), xp_host x, xp_port x) of
        (Some v, Some host, Some port) \<Rightarrow>
          (let connection = service_connection v
           in if \<not> sc_usable connection then Some (sc_error connection)
              else if sc_host connection \<noteq> host then Some ''host''
              else if sc_port connection \<noteq> Some port then Some ''port'' else None)
      | _ \<Rightarrow> Some ''connection'')"

definition first_difference :: "(string \<times> bool) list \<Rightarrow> string option" where
  "first_difference checks = map_option fst (List.find (\<lambda>(_, ok). \<not> ok) checks)"

text \<open>The revision is parsed before anything is compared.\<close>

definition identity_mismatch ::
  "'x api_params \<Rightarrow> database \<Rightarrow> credential_assignment \<Rightarrow> credential \<Rightarrow> approval \<Rightarrow> exn + string option" where
  "identity_mismatch ap d g c x =
     (case api_parse_datetime ap (xp_assignment_revision x) of
        Inl e \<Rightarrow> Inl e
      | Inr revision \<Rightarrow>
          (case first_difference
             [(''enabled'', asg_enabled g), (''credential_id'', asg_credential_id g = cr_pk c),
              (''assignment_revision'', Some (asg_last_updated g) = revision),
              (''object_type'', map_option ct_label (asg_object_type g) = Some (xp_object_type x)),
              (''object_id'', asg_object_id g = xp_object_id x),
              (''purpose'', purpose_value (asg_purpose g) = xp_purpose x),
              (''credential_uuid'', cr_uuid c = xp_credential_uuid x),
              (''credential_type'', cr_credential_type c = xp_credential_type x),
              (''kv_version'', served_version c = Some (xp_kv_version x))] of
             Some name \<Rightarrow> Inr (Some name)
           | None \<Rightarrow> Inr (connection_mismatch d g x)))"

definition reauthorize ::
  "('x, 'b, 'c) env \<Rightarrow> 'x api_params \<Rightarrow> user \<Rightarrow> http_request \<Rightarrow> nat \<Rightarrow> credential \<Rightarrow> ('x, 'b, unit) prog" where
  "reauthorize env ap u request k c =
     bnd (gets (\<lambda>s. assignment_selectable ap u ''view'' k s
                    \<and> (case cr_pk c of None \<Rightarrow> False | Some i \<Rightarrow> credential_selectable ap u ''reveal'' i s))) (\<lambda>ok.
     bnd (check ok (PermissionDenied ''The assignment or credential is no longer permitted.'')) (\<lambda>_.
     enforce_policy_access env c (Some u) (map_of GATE_AUDIT_ACTION ''reveal'') (Some request)))"

definition assignment_gone :: exn where
  "assignment_gone = PythonError ''CredentialAssignment.DoesNotExist''"

record bound_reveal =
  br_assignment_id :: nat
  br_id :: "nat option"
  br_uuid :: string
  br_credential_type :: string
  br_username :: string
  br_kv_version :: nat
  br_ttl :: int
  br_secret_data :: json

text \<open>What runs under the locks; \<open>g0\<close> is the assignment the view found, \<open>cid\<close> its credential then.\<close>

definition bound_read ::
  "('x, 'b, 'c) env \<Rightarrow> 'x api_params \<Rightarrow> user \<Rightarrow> http_request \<Rightarrow> nat \<Rightarrow> approval \<Rightarrow> credential \<Rightarrow> credential_assignment
     \<Rightarrow> ('x, 'b, bound_reveal answer) prog" where
  "bound_read env ap u request k x c g =
     bnd (reveal_material env c (Some u) (Some request) (xp_reason x) (Some (xp_kv_version x))) (\<lambda>(data, ttl).
     bnd (reauthorize env ap u request k c) (\<lambda>_.
     bnd (gets (\<lambda>s. connection_mismatch (db s) g x)) (\<lambda>changed.
     if changed \<noteq> None then ret (Mismatch ''The service connection changed during the reveal.'' ''connection'')
     else ret (Answer 200 \<lparr>br_assignment_id = k, br_id = cr_pk c, br_uuid = cr_uuid c, br_credential_type = cr_credential_type c,
       br_username = cr_username c, br_kv_version = xp_kv_version x, br_ttl = ttl, br_secret_data = data\<rparr>))))"

definition bound_checked ::
  "('x, 'b, 'c) env \<Rightarrow> 'x api_params \<Rightarrow> user \<Rightarrow> http_request \<Rightarrow> nat \<Rightarrow> approval \<Rightarrow> credential \<Rightarrow> ('x, 'b, bound_reveal answer) prog" where
  "bound_checked env ap u request k x c =
     bnd (acquire env [AssignmentLock k]) (\<lambda>_.
     bnd (gets (\<lambda>s. row (assignments (db s)) k)) (\<lambda>r.
     bnd (get_or r assignment_gone) (\<lambda>g.
     bnd (reauthorize env ap u request k c) (\<lambda>_.
     bnd (gets (\<lambda>s. identity_mismatch ap (db s) g c x)) (\<lambda>m.
     bnd (lift_sum m) (\<lambda>mismatch.
     case mismatch of
       Some name \<Rightarrow> ret (Mismatch ''The assignment no longer matches.'' name)
     | None \<Rightarrow> bound_read env ap u request k x c g))))))"

definition bound_reveal_body ::
  "('x, 'b, 'c) env \<Rightarrow> 'x api_params \<Rightarrow> user \<Rightarrow> http_request \<Rightarrow> nat \<Rightarrow> approval \<Rightarrow> credential_assignment \<Rightarrow> nat
     \<Rightarrow> ('x, 'b, bound_reveal answer) prog" where
  "bound_reveal_body env ap u request k x g0 cid =
     bnd (if map_option ct_model (asg_object_type g0) = Some ''service'' then acquire env [ServiceLock (asg_object_id g0)] else ret ()) (\<lambda>_.
     bnd (lock_credential_graph env cid None) (\<lambda>(c, _, _). bound_checked env ap u request k x c))"

definition reveal_credential_view ::
  "('x, 'b, 'c) env \<Rightarrow> 'x api_params \<Rightarrow> user \<Rightarrow> http_request \<Rightarrow> nat \<Rightarrow> approval \<Rightarrow> ('x, 'b, bound_reveal answer) prog" where
  "reveal_credential_view env ap u request k x =
     bnd (gets (assignment_selectable ap u ''view'' k)) (\<lambda>ok.
     bnd (gets (\<lambda>s. row (assignments (db s)) k)) (\<lambda>r.
     bnd (selected ok r) (\<lambda>g.
     bnd (get_or (asg_credential_id g) not_found) (\<lambda>cid.
     bnd (authorize env ap u request cid ''reveal'') (\<lambda>_.
     backend_answers (validation_answers
       (on_exn (atomic env (bound_reveal_body env ap u request k x g cid))
         (\<lambda>e. if e = assignment_gone then ret (Mismatch ''The assignment no longer exists.'' []) else raise e))))))))"

section \<open>Resolving an object\<close>

record resolve_request =
  rr_object_type :: string
  rr_object_id :: "nat option"
  rr_service_type :: string
  rr_purpose :: string

record credential_view =
  cv_id :: nat
  cv_uuid :: string
  cv_credential_type :: string
  cv_username :: string
  cv_reveal_url :: string
  cv_kv_version :: "nat option"

record assignment_view =
  av_id :: nat
  av_purpose :: purpose_choice
  av_is_primary :: bool
  av_enabled :: bool
  av_revision :: int
  av_known_hosts_entry :: string
  av_strict_host_key_checking :: bool
  av_credential :: "credential_view option"

record service_view =
  sv_id :: nat
  sv_name :: string
  sv_service_type :: string
  sv_connection :: connection_target
  sv_assignments :: "assignment_view list"

record resolved =
  rd_services :: "service_view list"
  rd_assignments :: "assignment_view list"

definition credential_view_of :: "'x api_params \<Rightarrow> 'x \<Rightarrow> database \<Rightarrow> user \<Rightarrow> nat option \<Rightarrow> credential_view option" where
  "credential_view_of ap x d u cid =
     (case Option.bind cid (load_credential d) of
        None \<Rightarrow> None
      | Some c \<Rightarrow>
          (case cr_pk c of
             Some k \<Rightarrow>
               if \<not> api_permits ap x d u ''view'' credential_ct k then None
               else Some \<lparr>cv_id = k, cv_uuid = cr_uuid c, cv_credential_type = cr_credential_type c, cv_username = cr_username c,
                 cv_reveal_url = ''/api/plugins/openbao/credentials/'' @ digits k @ ''/reveal/'', cv_kv_version = served_version c\<rparr>
           | None \<Rightarrow> None))"

definition assignment_view_of :: "'x api_params \<Rightarrow> 'x \<Rightarrow> database \<Rightarrow> user \<Rightarrow> nat \<times> credential_assignment \<Rightarrow> assignment_view" where
  "assignment_view_of ap x d u kg =
     (case kg of (k, g) \<Rightarrow>
      \<lparr>av_id = k, av_purpose = asg_purpose g, av_is_primary = asg_is_primary g, av_enabled = asg_enabled g,
       av_revision = asg_last_updated g, av_known_hosts_entry = asg_known_hosts_entry g,
       av_strict_host_key_checking = asg_strict_host_key_checking g, av_credential = credential_view_of ap x d u (asg_credential_id g)\<rparr>)"

definition visible_assignments :: "'x api_params \<Rightarrow> 'x \<Rightarrow> database \<Rightarrow> user \<Rightarrow> string \<Rightarrow> content_type \<Rightarrow> nat \<Rightarrow> (nat \<times> credential_assignment) list" where
  "visible_assignments ap x d u purpose ct i =
     filter (\<lambda>(k, g). api_permits ap x d u ''view'' assignment_ct k \<and> (purpose = [] \<or> purpose_value (asg_purpose g) = purpose)
               \<and> asg_object_type g = Some ct \<and> asg_object_id g = i) (assignments d)"

definition visible_services :: "'x api_params \<Rightarrow> 'x \<Rightarrow> database \<Rightarrow> user \<Rightarrow> resolve_request \<Rightarrow> content_type \<Rightarrow> (nat \<times> app_service) list" where
  "visible_services ap x d u q ct =
     filter (\<lambda>(k, v). api_permits ap x d u ''view'' service_type k
               \<and> (if ct = service_type then rr_object_id q = Some k else svc_parent_type v = Some ct \<and> rr_object_id q = Some (svc_parent_id v))
               \<and> (rr_service_type q = [] \<or> lower (svc_name v) = lower (rr_service_type q))) (app_services d)"

text \<open>\<open>known\<close> are the content types; an object the user may not view and one that does not exist are the same to \<open>api_permits\<close>.\<close>

definition resolve_view ::
  "'x api_params \<Rightarrow> content_type list \<Rightarrow> user \<Rightarrow> resolve_request \<Rightarrow> ('x, 'b, resolved answer) prog" where
  "resolve_view ap known u q s =
     (let x = ext s; d = db s
      in case (if CHR ''.'' \<in> set (rr_object_type q) then rr_object_id q else None) of
           None \<Rightarrow> ret (Invalid ''detail'' ''object_type and object_id are required.'') s
         | Some i \<Rightarrow>
             (case List.find (\<lambda>ct. ct_label ct = rr_object_type q) known of
                None \<Rightarrow> ret (Invalid ''object_type'' ''Unknown object type.'') s
              | Some ct \<Rightarrow>
                  if \<not> api_permits ap x d u ''view'' ct i
                  then raise (PermissionDenied ''View permission is required for the assigned object.'') s
                  else ret (Answer 200
                    \<lparr>rd_services = List.map_filter (\<lambda>(k, v).
                       case visible_assignments ap x d u (rr_purpose q) service_type k of
                         [] \<Rightarrow> None
                       | gs \<Rightarrow> Some \<lparr>sv_id = k, sv_name = svc_name v, sv_service_type = lower (svc_name v),
                           sv_connection = service_connection v, sv_assignments = map (assignment_view_of ap x d u) gs\<rparr>)
                       (visible_services ap x d u q ct),
                     rd_assignments = map (assignment_view_of ap x d u) (visible_assignments ap x d u (rr_purpose q) ct i)\<rparr>) s))"

end
