(* ===== verification/KV2_Store.thy ===== *)
theory KV2_Store
  imports Backend_Registry
begin

text \<open>
  The direct backend implements the store contract. \<open>kv2_server\<close> states what the code relies on
  of a KV version 2 server reached through \<^verbatim>\<open>hvac\<close>; from it the operations of
  \<^verbatim>\<open>backends/openbao.py\<close>, with their login, token cache and session pool, are shown to be a
  \<open>secret_store\<close>, and so is what \<^verbatim>\<open>get_backend\<close> hands out. A reference server kept in memory
  shows that the assumptions can hold.
\<close>

section \<open>The backend implements the store contract\<close>

text \<open>A mount: the server, the namespace and the mount point.\<close>

type_synonym kv_location = "string \<times> string option \<times> string"

definition obj_namespace :: "backend_object \<Rightarrow> string option" where
  "obj_namespace ob = (if eng_namespace (bo_engine ob) = [] then None else Some (eng_namespace (bo_engine ob)))"

definition obj_location :: "backend_object \<Rightarrow> kv_location" where
  "obj_location ob = (eng_api_url (bo_engine ob), obj_namespace ob, eng_kv_mount (bo_engine ob))"

definition client_for :: "backend_object \<Rightarrow> hvac_client \<Rightarrow> bool" where
  "client_for ob cl = (cl_url cl = eng_api_url (bo_engine ob) \<and> cl_namespace cl = obj_namespace ob)"

definition usable :: "backend_object \<Rightarrow> bool" where
  "usable ob = (bo_class ob \<noteq> BACKEND_BROKER \<and> eng_kv_version (bo_engine ob) = 2 \<and>
     (case bo_client ob of None \<Rightarrow> True | Some cl \<Rightarrow> client_for ob cl))"

definition engine_target :: "secret_engine \<Rightarrow> kv_location option" where
  "engine_target e =
     (if eng_backend e \<noteq> BACKEND_BROKER \<and> eng_kv_version e = 2
      then Some (eng_api_url e, if eng_namespace e = [] then None else Some (eng_namespace e), eng_kv_mount e) else None)"

definition bao_loc :: "nat \<Rightarrow> 'w backend_world \<Rightarrow> kv_location option" where
  "bao_loc b x =
     (if b < bw_next_object x
      then case row (bw_objects x) b of None \<Rightarrow> None | Some ob \<Rightarrow> if usable ob then Some (obj_location ob) else None
      else None)"

text \<open>The connection handling leaves the objects and the secrets as they were.\<close>

definition same_world :: "('w \<Rightarrow> kv_location \<Rightarrow> kv_view) \<Rightarrow> 'w backend_world \<Rightarrow> 'w backend_world \<Rightarrow> bool" where
  "same_world kv x x' = (bw_objects x' = bw_objects x \<and> bw_next_object x' = bw_next_object x \<and> kv (bw_remote x') = kv (bw_remote x))"

lemma same_world_refl: "same_world kv x x"
  by (simp add: same_world_def)

lemma session_same: "wp (bao_get_session hv cx ob) (\<lambda>_. same_world kv x) (\<lambda>_. same_world kv x) x"
  by (simp add: bao_get_session_def Let_def wp_rules same_world_def split: prod.splits sum.splits)

lemma build_client_same:
  "wp (build_client hv cx ob tok) (\<lambda>cl x'. same_world kv x x' \<and> client_for ob cl) (\<lambda>_. same_world kv x) x"
  by (auto simp: build_client_def wp_rules same_world_refl client_for_def obj_namespace_def
      intro!: session_same [THEN wp_conseq])

text \<open>What the code relies on of a KV version 2 server reached through \<^verbatim>\<open>hvac\<close>: logging in and
  reading change no secret; a write creates the next version under check-and-set and may drop
  only versions outside the retention window; deleting versions deletes those; no call reaches
  another path or mount.\<close>

locale kv2_server =
  fixes hv :: "'w hvac"
    and kv :: "'w \<Rightarrow> kv_location \<Rightarrow> kv_view"
    and retain :: nat
  assumes approle_kv: "hv_approle_login hv cl r1 r2 w = (rl, w') \<Longrightarrow> kv w' = kv w"
    and kubernetes_kv: "hv_kubernetes_login hv cl r1 r2 w = (rl, w') \<Longrightarrow> kv w' = kv w"
    and cert_kv: "hv_cert_login hv cl w = (rl, w') \<Longrightarrow> kv w' = kv w"
    and read_kv: "hv_kv2_read hv cl mt p v w = (r, w') \<Longrightarrow> kv w' = kv w"
    and read_kv_value: "hv_kv2_read hv cl mt p v w = (Inr j, w') \<Longrightarrow> l = (cl_url cl, cl_namespace cl, mt) \<Longrightarrow>
          \<exists>d. j = JObj d \<and> data_of (kv w l p) (case v of None \<Rightarrow> current_of (kv w l p) | Some k \<Rightarrow> k) = Some d"
    and write_kv: "hv_kv2_write hv cl mt p d cas w = (Inr n, w') \<Longrightarrow> l = (cl_url cl, cl_namespace cl, mt) \<Longrightarrow>
          n = Suc (current_of (kv w l p)) \<and> current_of (kv w' l p) = n \<and> data_of (kv w' l p) n = Some d \<and>
          (case cas of None \<Rightarrow> True | Some k \<Rightarrow> current_of (kv w l p) = k) \<and>
          (\<forall>m e. m \<noteq> n \<longrightarrow> data_of (kv w' l p) m = Some e \<longrightarrow> data_of (kv w l p) m = Some e)"
    and write_kv_cases: "hv_kv2_write hv cl mt p d cas w = (rw, w') \<Longrightarrow> l = (cl_url cl, cl_namespace cl, mt) \<Longrightarrow>
          (\<forall>n. rw \<noteq> Inr n) \<and> kv w' l p = kv w l p \<or>
          current_of (kv w' l p) = Suc (current_of (kv w l p)) \<and>
          (\<forall>m. m \<le> current_of (kv w l p) \<longrightarrow> Suc (current_of (kv w l p)) < m + retain \<longrightarrow>
            data_of (kv w' l p) m = data_of (kv w l p) m)"
    and write_kv_frame: "hv_kv2_write hv cl mt p d cas w = (rw, w') \<Longrightarrow>
          (l', q) \<noteq> ((cl_url cl, cl_namespace cl, mt), p) \<Longrightarrow> kv w' l' q = kv w l' q"
    and delete_kv: "hv_kv2_delete_versions hv cl mt p vs w = (Inr u, w') \<Longrightarrow> l = (cl_url cl, cl_namespace cl, mt) \<Longrightarrow>
          data_of (kv w' l p) = (\<lambda>m. if m \<in> set vs then None else data_of (kv w l p) m)"
    and delete_kv_current: "hv_kv2_delete_versions hv cl mt p vs w = (rd, w') \<Longrightarrow> l = (cl_url cl, cl_namespace cl, mt) \<Longrightarrow>
          current_of (kv w' l p) = current_of (kv w l p)"
    and delete_kv_only: "hv_kv2_delete_versions hv cl mt p vs w = (rd, w') \<Longrightarrow> l = (cl_url cl, cl_namespace cl, mt) \<Longrightarrow>
          m \<notin> set vs \<Longrightarrow> data_of (kv w' l p) m = data_of (kv w l p) m"
    and delete_kv_frame: "hv_kv2_delete_versions hv cl mt p vs w = (rd, w') \<Longrightarrow>
          (l', q) \<noteq> ((cl_url cl, cl_namespace cl, mt), p) \<Longrightarrow> kv w' l' q = kv w l' q"
    and destroy_kv: "hv_kv2_delete_all hv cl mt p w = (Inr u, w') \<Longrightarrow> l = (cl_url cl, cl_namespace cl, mt) \<Longrightarrow>
          data_of (kv w' l p) = Map.empty"
    and destroy_kv_frame: "hv_kv2_delete_all hv cl mt p w = (rd, w') \<Longrightarrow>
          (l', q) \<noteq> ((cl_url cl, cl_namespace cl, mt), p) \<Longrightarrow> kv w' l' q = kv w l' q"
    and metadata_kv: "hv_kv2_metadata hv cl mt p w = (rm, w') \<Longrightarrow> kv w' = kv w"
    and metadata_present: "hv_kv2_metadata hv cl mt p w = (Inr (Some m'), w') \<Longrightarrow> l = (cl_url cl, cl_namespace cl, mt) \<Longrightarrow>
          (k, vm) \<in> set (sm_versions m') \<Longrightarrow> \<not> vm_destroyed vm \<Longrightarrow> vm_deletion_time vm \<in> {None, Some []} \<Longrightarrow>
          data_of (kv w l p) k \<noteq> None"
    and update_kv: "hv_kv2_update_metadata hv cl mt p md w = (rd, w') \<Longrightarrow>
          data_of (kv w' l' q) = data_of (kv w l' q) \<and> current_of (kv w' l' q) = current_of (kv w l' q)"
begin

lemma translated_same:
  assumes "\<And>r w w'. m w = (r, w') \<Longrightarrow> kv w' = kv w"
  shows "wp (translated m) (\<lambda>_. same_world kv x) (\<lambda>_. same_world kv x) x"
  using assms by (auto simp: wp_def translated_def remote_def same_world_def split: prod.splits sum.splits)

lemma login_same: "wp (login hv cx ctx ob cl) (\<lambda>_. same_world kv x) (\<lambda>_. same_world kv x) x"
proof -
  note tr = translated_same [THEN wp_conseq]
  show ?thesis
    unfolding login_def Let_def
    by (auto simp: wp_rules same_world_refl split: auth_method_choice.splits sum.splits option.splits list.splits
        intro!: tr dest: approle_kv kubernetes_kv cert_kv)
qed

end


definition keeps_locs :: "'w backend_world \<Rightarrow> 'w backend_world \<Rightarrow> bool" where
  "keeps_locs x x' = (\<forall>b l. bao_loc b x = Some l \<longrightarrow> bao_loc b x' = Some l)"

definition untouched :: "('w \<Rightarrow> kv_location \<Rightarrow> kv_view) \<Rightarrow> 'w backend_world \<Rightarrow> 'w backend_world \<Rightarrow> bool" where
  "untouched kv x x' = (kv (bw_remote x') = kv (bw_remote x) \<and> keeps_locs x x')"

lemma usable_update:
  assumes "usable ob" and "\<And>cl. c = Some cl \<Longrightarrow> client_for ob cl"
  shows "usable (ob\<lparr>bo_auth := a, bo_client := c\<rparr>)" "obj_location (ob\<lparr>bo_auth := a, bo_client := c\<rparr>) = obj_location ob"
  using assms by (auto simp: usable_def client_for_def obj_namespace_def obj_location_def split: option.splits)

lemma untouched_put:
  assumes "row (bw_objects x) b = Some ob" and "usable ob" and "\<And>cl. c = Some cl \<Longrightarrow> client_for ob cl"
    and "bw_objects x' = put_row b (ob\<lparr>bo_auth := a, bo_client := c\<rparr>) (bw_objects x)"
    and "kv (bw_remote x') = kv (bw_remote x)" and "bw_next_object x' = bw_next_object x"
  shows "untouched kv x x'"
  using assms(1,2,4-) usable_update [OF assms(2), where a = a and c = c, OF assms(3)]
  by (simp add: untouched_def keeps_locs_def bao_loc_def)

lemma bao_loc_remote [simp]: "bao_loc b (x\<lparr>bw_remote := w\<rparr>) = bao_loc b x"
  by (simp add: bao_loc_def)

context kv2_server
begin

lemma obtain_client_untouched:
  assumes us: "usable ob1" and row1: "row (bw_objects x1) b = Some ob1"
  shows "wp (obtain_client hv cx ctx b ob1) (\<lambda>cl x'. untouched kv x1 x' \<and> client_for ob1 cl) (\<lambda>_. untouched kv x1) x1"
proof -
  have k1: "untouched kv x1 x'" if "same_world kv x1 x'" for x'
    using that by (simp add: untouched_def same_world_def keeps_locs_def bao_loc_def)
  have k2: "untouched kv x1 (x2\<lparr>bw_objects := put_row b (ob1\<lparr>bo_client := Some cl\<rparr>) (bw_objects x2)\<rparr>)"
    if "same_world kv x1 x2" "client_for ob1 cl" for x2 cl
    by (rule untouched_put [where c = "Some cl" and a = "bo_auth ob1", OF row1 us])
       (use that in \<open>simp_all add: same_world_def put_row_def\<close>)
  have k3: "untouched kv x1 (cache_set i k t n x2\<lparr>bw_objects := put_row b (ob1\<lparr>bo_client := Some (cl\<lparr>cl_token := tk\<rparr>)\<rparr>)
      (bw_objects (cache_set i k t n x2))\<rparr>)"
    if "same_world kv x1 x2" "client_for ob1 cl" for x2 cl i k t n tk
    by (rule k2) (use that in \<open>simp_all add: same_world_def client_for_def cache_set_def\<close>)
  have built: "wp (build_client hv cx ob1 tok) (\<lambda>cl x'. same_world kv x1 x' \<and> client_for ob1 cl) (\<lambda>_. untouched kv x1) x1" for tok
    by (rule wp_conseq [OF build_client_same [where kv = kv]]) (auto intro: k1)
  have logged: "wp (login hv cx ctx ob1 cl) (\<lambda>_. same_world kv x1) (\<lambda>_. untouched kv x1) x2"
    if "same_world kv x1 x2" for cl x2
    by (rule wp_conseq [OF login_same]) (use that in \<open>auto simp: same_world_def intro!: k1\<close>)
  show ?thesis
  proof (cases "bo_client ob1")
    case (Some cl)
    then show ?thesis
      using us k1 [OF same_world_refl] by (simp add: obtain_client_def wp_rules usable_def)
  next
    case None
    have anon: "wp (bnd (build_client hv cx ob1 None) (\<lambda>anonymous.
              bnd (login hv cx ctx ob1 anonymous) (\<lambda>(token, lease).
              let client = anonymous\<lparr>cl_token := Some token\<rparr> in
              bnd (modify (cache_set (bc_now ctx) (bao_cache_key ob1) token (token_ttl lease))) (\<lambda>_.
              bnd (set_object b (ob1\<lparr>bo_client := Some client\<rparr>)) (\<lambda>_. ret client)))))
            (\<lambda>cl x'. untouched kv x1 x' \<and> client_for ob1 cl) (\<lambda>_. untouched kv x1) x1"
      by (auto simp: wp_rules case_prod_beta Let_def client_for_def [of _ "cl_token_update _ _"]
          simp flip: client_for_def intro!: wp_conseq [OF built] wp_conseq [OF logged] k3)
    have pooled: "wp (bnd (build_client hv cx ob1 tok) (\<lambda>client.
              bnd (set_object b (ob1\<lparr>bo_client := Some client\<rparr>)) (\<lambda>_. ret client)))
            (\<lambda>cl x'. untouched kv x1 x' \<and> client_for ob1 cl) (\<lambda>_. untouched kv x1) x1" for tok
      by (auto simp: wp_rules intro!: wp_conseq [OF built] k2)
    from None anon pooled show ?thesis
      by (simp add: obtain_client_def wp_bnd [of "gets _"] wp_gets split: option.split list.split)
  qed
qed

lemma get_client_untouched:
  assumes ob: "row (bw_objects x) b = Some ob" and us: "usable ob"
  shows "wp (get_client hv cx ctx b) (\<lambda>cl x'. untouched kv x x' \<and> client_for ob cl) (\<lambda>_. untouched kv x) x"
proof -
  obtain rot mat where r: "refresh_auth_material (bc_auth ctx) (bo_auth ob) = (rot, mat)" by fastforce
  define ob1 where "ob1 = ob\<lparr>bo_auth := mat, bo_client := (if rot then None else bo_client ob)\<rparr>"
  define x1 where "x1 = x\<lparr>bw_objects := put_row b ob1 (bw_objects x)\<rparr>"
  have us1: "usable ob1" and cf: "client_for ob1 = client_for ob"
    using us by (auto simp: ob1_def usable_def client_for_def obj_namespace_def fun_eq_iff split: option.splits)
  have "untouched kv x x1"
    by (rule untouched_put [where c = "if rot then None else bo_client ob" and a = mat, OF ob us])
       (use us in \<open>auto simp: x1_def ob1_def usable_def split: if_splits\<close>)
  moreover have "row (bw_objects x1) b = Some ob1" by (simp add: x1_def)
  ultimately have "wp (obtain_client hv cx ctx b ob1) (\<lambda>cl x'. untouched kv x x' \<and> client_for ob cl) (\<lambda>_. untouched kv x) x1"
    by (auto simp: cf [symmetric] untouched_def keeps_locs_def intro!: wp_conseq [OF obtain_client_untouched [OF us1]])
  then show ?thesis
    unfolding get_client_def by (simp add: wp_bnd wp_get_object wp_set_object ob r ob1_def x1_def Let_def split del: if_split)
qed

text \<open>Every operation obtains a client for its own mount, touching no secret, and then makes
  one call to the server.\<close>

lemma kv2_op_run:
  assumes l: "bao_loc b x = Some l"
    and run: "bnd (get_object b) (\<lambda>ob. let mount = eng_kv_mount (bo_engine ob) in
      bnd (get_client hv cx ctx b) (\<lambda>client.
        if eng_kv_version (bo_engine ob) = 2 then F client mount else G client mount)) x = (r, x')"
  obtains (client) e where "r = Inl e" "untouched kv x x'"
    | (call) cl mt x1 where "untouched kv x x1" "l = (cl_url cl, cl_namespace cl, mt)" "F cl mt x1 = (r, x')"
proof -
  from l obtain ob where ob: "row (bw_objects x) b = Some ob" "usable ob" "l = obj_location ob"
    by (auto simp: bao_loc_def split: option.splits if_splits)
  from ob(2) have kv2: "eng_kv_version (bo_engine ob) = 2" by (simp add: usable_def)
  note gc = get_client_untouched [OF ob(1,2), of cx ctx]
  obtain q x1 where q: "get_client hv cx ctx b x = (q, x1)" by fastforce
  show thesis
  proof (cases q)
    case (Inl e)
    with q gc have "untouched kv x x1" by (auto dest: wp_InlD)
    with run ob(1) q Inl show thesis
      by (intro client [of e]) (auto simp: bnd_def get_object_def gets_def get_or_def ret_def Let_def)
  next
    case (Inr cl)
    with q gc have "untouched kv x x1" "client_for ob cl" by (auto dest: wp_InrD)
    moreover have "F cl (eng_kv_mount (bo_engine ob)) x1 = (r, x')"
      using run ob(1) q Inr kv2 by (simp add: bnd_def get_object_def gets_def get_or_def ret_def Let_def)
    ultimately show thesis
      by (intro call [of x1 cl]) (simp_all add: ob(3) obj_location_def client_for_def)
  qed
qed

lemma translated_run:
  assumes "translated m x = (r, x')"
  obtains q w where "m (bw_remote x) = (q, w)" "x' = x\<lparr>bw_remote := w\<rparr>"
    "r = (case q of Inl e \<Rightarrow> Inl (OpenBaoExn (translate e)) | Inr y \<Rightarrow> Inr y)"
  using assms by (auto simp: translated_def remote_def split: prod.splits sum.splits)

lemma untouched_locs: "untouched kv x x1 \<Longrightarrow> bao_loc b x = Some l \<Longrightarrow> bao_loc b (x1\<lparr>bw_remote := w\<rparr>) = Some l"
  "untouched kv x x1 \<Longrightarrow> bao_loc b x = Some l \<Longrightarrow> bao_loc b x1 = Some l"
  unfolding untouched_def keeps_locs_def bao_loc_remote by blast+

lemma untouched_kv: "untouched kv x x1 \<Longrightarrow> kv (bw_remote x1) = kv (bw_remote x)"
  by (simp add: untouched_def)

end

context kv2_server
begin

lemma write_kv_others:
  "hv_kv2_write hv cl mt p d cas w = (Inr n, w') \<Longrightarrow> m \<noteq> n \<Longrightarrow> data_of (kv w' l p) m = Some e \<Longrightarrow>
     l = (cl_url cl, cl_namespace cl, mt) \<Longrightarrow> data_of (kv w l p) m = Some e"
  by (drule (1) write_kv) simp

lemma kv2_call_run:
  assumes l: "bao_loc b x = Some l"
    and run: "bnd (get_object b) (\<lambda>ob. let mount = eng_kv_mount (bo_engine ob) in
      bnd (get_client hv cx ctx b) (\<lambda>client.
        if eng_kv_version (bo_engine ob) = 2 then translated (M client mount) else G client mount)) x = (r, x')"
  obtains (client) e where "r = Inl e" "untouched kv x x'"
    | (call) cl mt x1 q w where "untouched kv x x1" "l = (cl_url cl, cl_namespace cl, mt)"
      "M cl mt (bw_remote x1) = (q, w)" "x' = x1\<lparr>bw_remote := w\<rparr>" "\<And>y. r = Inr y \<Longrightarrow> q = Inr y"
proof (cases rule: kv2_op_run [OF l run])
  case (1 e)
  then show thesis by (rule client)
next
  case (2 cl mt x1)
  from 2(3) obtain q w where q: "M cl mt (bw_remote x1) = (q, w)" "x' = x1\<lparr>bw_remote := w\<rparr>"
    "r = (case q of Inl e \<Rightarrow> Inl (OpenBaoExn (translate e)) | Inr y \<Rightarrow> Inr y)"
    by (rule translated_run)
  show thesis
    by (rule call [OF 2(1,2) q(1,2)]) (use q(3) in \<open>auto split: sum.splits\<close>)
qed

lemmas bao_read_run = kv2_call_run [where M = "\<lambda>cl mt. hv_kv2_read hv cl mt p v" and G = "\<lambda>cl mt. translated (hv_kv1_read hv cl mt p)" for p v, folded bao_read_def]
lemmas bao_write_run = kv2_call_run [where M = "\<lambda>cl mt. hv_kv2_write hv cl mt p d cas"
    and G = "\<lambda>cl mt. bnd (translated (hv_kv1_write hv cl mt p d)) (\<lambda>_. ret 1)" for p d cas, folded bao_write_def]
lemmas bao_delete_run = kv2_call_run [where M = "\<lambda>cl mt. case vs of Some (v # ws) \<Rightarrow> hv_kv2_delete_versions hv cl mt p (v # ws)
         | _ \<Rightarrow> hv_kv2_delete_all hv cl mt p"
    and G = "\<lambda>cl mt. translated (hv_kv1_delete hv cl mt p)" for vs p, folded bao_delete_def]

end

section \<open>What get\_backend hands out\<close>

lemma by_class_direct: "bao_loc b x = Some l \<Longrightarrow> by_class b m n x = m x"
  by (auto simp: by_class_def bao_loc_def usable_def bnd_def get_object_def gets_def get_or_def ret_def
      split: option.splits if_splits)

lemma plugin_ops:
  assumes "bao_loc b x = Some l"
  shows "b_read (plugin_backends hv rq cx) ctx b p v x = bao_read hv cx ctx b p v x"
    and "b_write (plugin_backends hv rq cx) ctx b p d cas x = bao_write hv cx ctx b p d cas x"
    and "b_delete (plugin_backends hv rq cx) ctx b p vs x = bao_delete hv cx ctx b p vs x"
    and "b_list_versions (plugin_backends hv rq cx) ctx b p x = bao_list_versions hv cx ctx b p x"
    and "b_set_metadata (plugin_backends hv rq cx) ctx b p md x = bao_set_metadata hv cx ctx b p md x"
  using assms by (simp_all add: plugin_backends_def by_class_direct)

lemma version_list_present:
  assumes "version_present (version_list (Some m)) (Some k)"
  shows "\<exists>vm. (k, vm) \<in> set (sm_versions m) \<and> \<not> vm_destroyed vm \<and> vm_deletion_time vm \<in> {None, Some []}"
proof -
  from assms obtain v where f: "List.find (\<lambda>v. vi_version v = k) (rev (version_list (Some m))) = Some v"
    and d: "\<not> vi_destroyed v" "vi_deletion_time v = None \<or> vi_deletion_time v = Some []"
    by (auto simp: version_present_def split: option.splits)
  from f have v: "v \<in> set (version_list (Some m))" "vi_version v = k"
    by (auto dest!: find_SomeD)
  then obtain vm where "(k, vm) \<in> set (sm_versions m)" "vi_destroyed v = vm_destroyed vm"
    "vi_deletion_time v = (case vm_deletion_time vm of Some [] \<Rightarrow> None | t \<Rightarrow> t)"
    by (auto simp: version_list_def)
  with d show ?thesis by (intro exI [of _ vm]) (auto split: option.splits list.splits)
qed

lemma kv2_only_ops:
  assumes "bao_loc b x = Some l"
  shows "bao_list_versions hv cx ctx b p x =
     bnd (get_object b) (\<lambda>ob. let mount = eng_kv_mount (bo_engine ob) in
       bnd (get_client hv cx ctx b) (\<lambda>client. if eng_kv_version (bo_engine ob) = 2
         then bnd (translated (hv_kv2_metadata hv client mount p)) (\<lambda>response. ret (version_list response))
         else raise IntegrityError)) x"
    and "bao_set_metadata hv cx ctx b p md x =
     bnd (get_object b) (\<lambda>ob. let mount = eng_kv_mount (bo_engine ob) in
       bnd (get_client hv cx ctx b) (\<lambda>client. if eng_kv_version (bo_engine ob) = 2
         then translated (hv_kv2_update_metadata hv client mount p md) else raise IntegrityError)) x"
  using assms
  by (auto simp: bao_loc_def usable_def bao_list_versions_def bao_set_metadata_def require_kv2_def check_def
      get_object_def bnd_def [of "gets _"] bnd_def [of "ret _"] bnd_def [of "bnd _ _"] gets_def get_or_def ret_def
      split: option.splits if_splits)

lemma new_object_loc: "snd (new_object eng am x) = x' \<Longrightarrow> bao_loc b x = Some l \<Longrightarrow> bao_loc b x' = Some l"
  by (auto simp: new_object_def bao_loc_def split: option.splits if_splits)

context kv2_server
begin

lemma bao_list_run:
  assumes l: "bao_loc b x = Some l" and run: "bao_list_versions hv cx ctx b p x = (r, x')"
  obtains (client) e where "r = Inl e" "untouched kv x x'"
    | (call) cl mt x1 q w where "untouched kv x x1" "l = (cl_url cl, cl_namespace cl, mt)"
      "hv_kv2_metadata hv cl mt p (bw_remote x1) = (q, w)" "x' = x1\<lparr>bw_remote := w\<rparr>"
      "\<And>y. r = Inr y \<Longrightarrow> \<exists>z. q = Inr z \<and> y = version_list z"
proof (cases rule: kv2_op_run [OF l run [unfolded kv2_only_ops(1) [OF l]]])
  case (1 e)
  then show thesis by (rule client)
next
  case (2 cl mt x1)
  obtain r1 x2 where t: "translated (hv_kv2_metadata hv cl mt p) x1 = (r1, x2)" by fastforce
  then obtain q w where q: "hv_kv2_metadata hv cl mt p (bw_remote x1) = (q, w)" "x2 = x1\<lparr>bw_remote := w\<rparr>"
    "r1 = (case q of Inl e \<Rightarrow> Inl (OpenBaoExn (translate e)) | Inr y \<Rightarrow> Inr y)"
    by (rule translated_run)
  from 2(3) t have x2: "x' = x2" and r: "r = (case r1 of Inl e \<Rightarrow> Inl e | Inr z \<Rightarrow> Inr (version_list z))"
    by (auto simp: bnd_def ret_def split: sum.splits)
  show thesis
    by (rule call [OF 2(1,2) q(1)]) (use q(2,3) r x2 in \<open>auto split: sum.splits\<close>)
qed

lemma bao_meta_run:
  assumes l: "bao_loc b x = Some l" and run: "bao_set_metadata hv cx ctx b p md x = (r, x')"
  obtains (client) e where "r = Inl e" "untouched kv x x'"
    | (call) cl mt x1 q w where "untouched kv x x1" "l = (cl_url cl, cl_namespace cl, mt)"
      "hv_kv2_update_metadata hv cl mt p md (bw_remote x1) = (q, w)" "x' = x1\<lparr>bw_remote := w\<rparr>"
      "\<And>y. r = Inr y \<Longrightarrow> q = Inr y"
proof (cases rule: kv2_call_run [OF l run [unfolded kv2_only_ops(2) [OF l]]])
  case (1 e)
  then show thesis by (rule client)
next
  case (2 cl mt x1 q w)
  then show thesis by (rule call)
qed

end

sublocale kv2_server \<subseteq> plugin: secret_store "plugin_backends hv rq cx" engine_target bao_loc "\<lambda>x. kv (bw_remote x)" retain
proof (unfold_locales, goal_cases)
  case (1 eng am x b x')
  then show ?case
    by (auto simp: plugin_backends_def new_object_def bao_loc_def engine_target_def usable_def obj_location_def obj_namespace_def)
next
  case (2 eng am x b x' b' l')
  then have "snd (new_object eng am x) = x'" by (simp add: plugin_backends_def)
  from new_object_loc [OF this 2(2)] show ?case .
next
  case (3 eng am x b x')
  then show ?case by (auto simp: plugin_backends_def new_object_def)
next
  case (4 b x l c p v r x' b' l')
  show ?case
    using 4(3-) by (cases rule: bao_read_run [OF 4(1) 4(2) [unfolded plugin_ops(1) [OF 4(1)]]]) (auto dest: untouched_locs)
next
  case (5 b x l c p v r x')
  show ?case
    by (cases rule: bao_read_run [OF 5(1) 5(2) [unfolded plugin_ops(1) [OF 5(1)]]]) (auto dest!: read_kv untouched_kv)
next
  case (6 b x l c p v j x')
  show ?case
    by (cases rule: bao_read_run [OF 6(1) 6(2) [unfolded plugin_ops(1) [OF 6(1)]]]) (auto dest!: read_kv_value dest!: untouched_kv split: option.splits)
next
  case (7 b x l c p d cas rw x' b' l')
  show ?case
    using 7(3-) by (cases rule: bao_write_run [OF 7(1) 7(2) [unfolded plugin_ops(2) [OF 7(1)]]]) (auto dest: untouched_locs)
next
  case (8 b x l c p d cas n x')
  show ?case
    by (cases rule: bao_write_run [OF 8(1) 8(2) [unfolded plugin_ops(2) [OF 8(1)]]]) (auto dest!: write_kv dest!: untouched_kv split: option.splits)
next
  case (9 b x l c p d k n x')
  show ?case
    by (cases rule: bao_write_run [OF 9(1) 9(2) [unfolded plugin_ops(2) [OF 9(1)]]]) (auto dest!: write_kv dest!: untouched_kv split: option.splits)
next
  case (10 b x l c p d cas n x')
  show ?case
    by (cases rule: bao_write_run [OF 10(1) 10(2) [unfolded plugin_ops(2) [OF 10(1)]]]) (auto dest!: write_kv dest!: untouched_kv split: option.splits)
next
  case (11 b x l c p d cas n x')
  show ?case
    by (cases rule: bao_write_run [OF 11(1) 11(2) [unfolded plugin_ops(2) [OF 11(1)]]]) (auto dest!: write_kv dest!: untouched_kv split: option.splits)
next
  case (12 b x l c p d cas rw x')
  show ?case
  proof (cases rule: bao_write_run [OF 12(1) 12(2) [unfolded plugin_ops(2) [OF 12(1)]]])
    case (1 e)
    then show ?thesis by (simp add: untouched_kv)
  next
    case (2 cl mt x1 q w)
    then show ?thesis using write_kv_cases [OF 2(3,2)] untouched_kv [OF 2(1)] by auto
  qed
next
  case (13 b x l c p d cas n x' m e)
  show ?case
  proof (cases rule: bao_write_run [OF 13(1) 13(2) [unfolded plugin_ops(2) [OF 13(1)]]])
    case (2 cl mt x1 q w)
    then have "hv_kv2_write hv cl mt p d cas (bw_remote x1) = (Inr n, w)" by simp
    from write_kv_others [OF this 13(3) _ 2(2)] 13(4) 2(4) untouched_kv [OF 2(1)] show ?thesis by simp
  qed simp
next
  case (14 b x l c p d cas rw x' l' q)
  show ?case
    using 14(3-) by (cases rule: bao_write_run [OF 14(1) 14(2) [unfolded plugin_ops(2) [OF 14(1)]]]) (auto dest!: write_kv_frame [where l' = l' and q = q] dest!: untouched_kv)
next
  case (15 b x l c p w rd x' b' l')
  show ?case
    using 15(3-) by (cases rule: bao_delete_run [OF 15(1) 15(2) [unfolded plugin_ops(3) [OF 15(1)]]]) (auto dest: untouched_locs)
next
  case (16 b x l c p vs u x')
  show ?case
    using 16(3-) by (cases rule: bao_delete_run [OF 16(1) 16(2) [unfolded plugin_ops(3) [OF 16(1)]]]) (auto dest!: delete_kv dest!: untouched_kv split: list.splits)
next
  case (17 b x l c p vs rd x')
  show ?case
    using 17(3-) by (cases rule: bao_delete_run [OF 17(1) 17(2) [unfolded plugin_ops(3) [OF 17(1)]]]) (auto dest!: delete_kv_current dest!: untouched_kv split: list.splits)
next
  case (18 b x l c p vs rd x' m)
  show ?case
    using 18(3-) by (cases rule: bao_delete_run [OF 18(1) 18(2) [unfolded plugin_ops(3) [OF 18(1)]]]) (auto dest!: delete_kv_only dest!: untouched_kv split: list.splits)
next
  case (19 b x l c p u x')
  show ?case
    by (cases rule: bao_delete_run [OF 19(1) 19(2) [unfolded plugin_ops(3) [OF 19(1)]]]) (auto dest!: destroy_kv)
next
  case (20 b x l c p w rd x' l' q)
  show ?case
    using 20(3-) by (cases rule: bao_delete_run [OF 20(1) 20(2) [unfolded plugin_ops(3) [OF 20(1)]]]) (auto dest!: delete_kv_frame [where l' = l' and q = q] destroy_kv_frame [where l' = l' and q = q] dest!: untouched_kv split: option.splits list.splits)
next
  case (21 b x l c p rl x' b' l')
  show ?case
    using 21(3-) by (cases rule: bao_list_run [OF 21(1) 21(2) [unfolded plugin_ops(4) [OF 21(1)]]]) (auto dest: untouched_locs)
next
  case (22 b x l c p rl x')
  show ?case
    by (cases rule: bao_list_run [OF 22(1) 22(2) [unfolded plugin_ops(4) [OF 22(1)]]]) (auto dest!: metadata_kv untouched_kv)
next
  case (23 b x l c p infos x' m)
  show ?case
  proof (cases rule: bao_list_run [OF 23(1) 23(2) [unfolded plugin_ops(4) [OF 23(1)]]])
    case (2 cl mt x1 q w)
    from 2(5) obtain z where z: "q = Inr z" "infos = version_list z" by blast
    from z 23(3) obtain m' where m': "z = Some m'"
      by (cases z) (auto simp: version_present_def version_list_def)
    from 23(3) obtain vm where vm: "(m, vm) \<in> set (sm_versions m')" "\<not> vm_destroyed vm"
      "vm_deletion_time vm \<in> {None, Some []}"
      unfolding z(2) m' by (blast dest: version_list_present)
    from metadata_present [OF 2(3) [unfolded z(1) m'] 2(2) vm] untouched_kv [OF 2(1)] show ?thesis by simp
  qed auto
next
  case (24 b x l c p md rd x' b' l')
  show ?case
    using 24(3-) by (cases rule: bao_meta_run [OF 24(1) 24(2) [unfolded plugin_ops(5) [OF 24(1)]]]) (auto dest: untouched_locs)
next
  case (25 b x l c p md rd x' l' q)
  show ?case
    by (cases rule: bao_meta_run [OF 25(1) 25(2) [unfolded plugin_ops(5) [OF 25(1)]]]) (auto dest!: update_kv [where l' = l' and q = q] untouched_kv)
next
  case (26 b x l c p md rd x' l' q)
  show ?case
    by (cases rule: bao_meta_run [OF 26(1) 26(2) [unfolded plugin_ops(5) [OF 26(1)]]]) (auto dest!: update_kv [where l' = l' and q = q] untouched_kv)
qed

section \<open>A reference server\<close>

text \<open>A KV version 2 server in memory: per mount and path the version counter and the readable
  versions, of which the newest \<open>keep\<close> are retained.\<close>

record mem_entry =
  me_current :: nat
  me_versions :: "(nat \<times> payload) list"
  me_custom :: "(string \<times> string) list"

type_synonym mem_server = "((kv_location \<times> string) \<times> mem_entry) list"

definition mem_kv :: "mem_server \<Rightarrow> kv_location \<Rightarrow> kv_view" where
  "mem_kv w l p = map_option (\<lambda>e. \<lparr>kv_current = me_current e, kv_data = map_of (me_versions e)\<rparr>) (map_of w (l, p))"

definition client_mount :: "hvac_client \<Rightarrow> string \<Rightarrow> kv_location" where
  "client_mount cl mt = (cl_url cl, cl_namespace cl, mt)"

definition mem_get :: "mem_server \<Rightarrow> hvac_client \<Rightarrow> string \<Rightarrow> string \<Rightarrow> mem_entry option" where
  "mem_get w cl mt p = map_of w (client_mount cl mt, p)"

definition mem_put :: "hvac_client \<Rightarrow> string \<Rightarrow> string \<Rightarrow> mem_entry \<Rightarrow> mem_server \<Rightarrow> mem_server" where
  "mem_put cl mt p e w = AList.update (client_mount cl mt, p) e w"

definition mem_error :: "hvac_class \<Rightarrow> string \<Rightarrow> hvac_exception" where
  "mem_error c t = \<lparr>hx_class = c, hx_text = t, hx_status = None\<rparr>"

definition empty_entry :: mem_entry where
  "empty_entry = \<lparr>me_current = 0, me_versions = [], me_custom = []\<rparr>"

definition mem_read :: "hvac_client \<Rightarrow> string \<Rightarrow> string \<Rightarrow> nat option \<Rightarrow> (mem_server, hvac_exception, json) sem" where
  "mem_read cl mt p v w =
     (case Option.bind (mem_get w cl mt p)
             (\<lambda>e. map_of (me_versions e) (case v of None \<Rightarrow> me_current e | Some k \<Rightarrow> k)) of
        None \<Rightarrow> (Inl (mem_error InvalidPath []), w)
      | Some d \<Rightarrow> (Inr (JObj d), w))"

definition mem_write ::
  "nat \<Rightarrow> hvac_client \<Rightarrow> string \<Rightarrow> string \<Rightarrow> payload \<Rightarrow> nat option \<Rightarrow> (mem_server, hvac_exception, nat) sem" where
  "mem_write keep cl mt p d cas w =
     (let e = (case mem_get w cl mt p of None \<Rightarrow> empty_entry | Some e \<Rightarrow> e); n = Suc (me_current e)
      in if (case cas of None \<Rightarrow> True | Some k \<Rightarrow> me_current e = k)
         then (Inr n, mem_put cl mt p (e\<lparr>me_current := n,
                 me_versions := (n, d) # filter (\<lambda>(m, _). n < m + keep) (me_versions e)\<rparr>) w)
         else (Inl (mem_error InvalidRequest ''check-and-set parameter did not match the current version''), w))"

definition mem_delete ::
  "hvac_client \<Rightarrow> string \<Rightarrow> string \<Rightarrow> nat list \<Rightarrow> (mem_server, hvac_exception, unit) sem" where
  "mem_delete cl mt p vs w =
     (case mem_get w cl mt p of
        None \<Rightarrow> (Inr (), w)
      | Some e \<Rightarrow> (Inr (), mem_put cl mt p (e\<lparr>me_versions := filter (\<lambda>(m, _). m \<notin> set vs) (me_versions e)\<rparr>) w))"

definition mem_destroy :: "hvac_client \<Rightarrow> string \<Rightarrow> string \<Rightarrow> (mem_server, hvac_exception, unit) sem" where
  "mem_destroy cl mt p w = (Inr (), AList.delete (client_mount cl mt, p) w)"

definition mem_metadata ::
  "hvac_client \<Rightarrow> string \<Rightarrow> string \<Rightarrow> (mem_server, hvac_exception, secret_metadata option) sem" where
  "mem_metadata cl mt p w =
     (Inr (map_option (\<lambda>e. \<lparr>sm_current_version = Some (me_current e), sm_custom_metadata = me_custom e,
             sm_versions = map (\<lambda>(m, _). (m, \<lparr>vm_created_time = None, vm_deletion_time = None, vm_destroyed = False\<rparr>))
                             (me_versions e)\<rparr>) (mem_get w cl mt p)), w)"

definition mem_update_metadata ::
  "hvac_client \<Rightarrow> string \<Rightarrow> string \<Rightarrow> (string \<times> string) list \<Rightarrow> (mem_server, hvac_exception, unit) sem" where
  "mem_update_metadata cl mt p m w =
     (Inr (), mem_put cl mt p ((case mem_get w cl mt p of None \<Rightarrow> empty_entry | Some e \<Rightarrow> e)\<lparr>me_custom := m\<rparr>) w)"

definition mem_login :: login_response where
  "mem_login = \<lparr>lr_client_token = Some ''s.token'', lr_lease_duration = Some 3600\<rparr>"

definition reference_hvac :: "nat \<Rightarrow> mem_server hvac" where
  "reference_hvac keep =
     \<lparr>hv_installed = True, hv_tmp_outcome = (\<lambda>_. TmpWritten), hv_read_file = (\<lambda>_. Some ''jwt''),
      hv_approle_login = (\<lambda>_ _ _. ret mem_login), hv_kubernetes_login = (\<lambda>_ _ _. ret mem_login),
      hv_cert_login = (\<lambda>_. ret mem_login),
      hv_kv2_read = mem_read, hv_kv2_write = mem_write keep, hv_kv2_delete_versions = mem_delete,
      hv_kv2_delete_all = mem_destroy, hv_kv2_metadata = mem_metadata,
      hv_kv2_update_metadata = mem_update_metadata,
      hv_kv1_read = (\<lambda>cl mt p. mem_read cl mt p None),
      hv_kv1_write = (\<lambda>cl mt p d. bnd (mem_write keep cl mt p d None) (\<lambda>_. ret ())),
      hv_kv1_delete = mem_destroy,
      hv_health = (\<lambda>_. ret \<lparr>hp_initialized = Some True, hp_sealed = False, hp_standby = False,
         hp_version = Some ''2.0.0'', hp_performance_standby = False, hp_enterprise = False\<rparr>)\<rparr>"

lemma mem_kv_put:
  "mem_kv (mem_put cl mt p e w) l q =
     (if (l, q) = (client_mount cl mt, p) then Some \<lparr>kv_current = me_current e, kv_data = map_of (me_versions e)\<rparr>
      else mem_kv w l q)"
  by (simp add: mem_kv_def mem_put_def update_conv)

lemma mem_kv_get:
  "mem_kv w (client_mount cl mt) p =
     map_option (\<lambda>e. \<lparr>kv_current = me_current e, kv_data = map_of (me_versions e)\<rparr>) (mem_get w cl mt p)"
  by (simp add: mem_kv_def mem_get_def)

lemma mem_get_put [simp]: "mem_get (mem_put cl mt p e w) cl mt p = Some e"
  by (simp add: mem_get_def mem_put_def update_conv)

lemma map_of_filter_key: "map_of (filter (\<lambda>(k, _). P k) xs) k = (if P k then map_of xs k else None)"
  by (induction xs) auto

interpretation reference: kv2_server "reference_hvac keep" mem_kv keep
proof (unfold_locales, goal_cases)
  case (5 cl mt p v w j w' l)
  then show ?case
    by (auto simp: reference_hvac_def mem_read_def mem_kv_get [unfolded client_mount_def] data_of_def current_of_def
        split: option.splits bind_splits)
next
  case (6 cl mt p d cas w n w' l)
  then show ?case
    by (auto simp: reference_hvac_def mem_write_def Let_def mem_kv_put mem_kv_get client_mount_def [symmetric]
        data_of_def current_of_def map_of_filter_key empty_entry_def split: option.splits if_splits)
next
  case (7 cl mt p d cas w rw w' l)
  then show ?case
    by (auto simp: reference_hvac_def mem_write_def Let_def mem_kv_put mem_kv_get client_mount_def [symmetric]
        data_of_def current_of_def map_of_filter_key empty_entry_def split: option.splits if_splits)
next
  case (8 cl mt p d cas w rw w' l' q)
  then show ?case
    by (auto simp: reference_hvac_def mem_write_def Let_def mem_kv_put client_mount_def split: if_splits)
next
  case (9 cl mt p vs w u w' l)
  then show ?case
    by (auto simp: reference_hvac_def mem_delete_def mem_kv_put mem_kv_get client_mount_def [symmetric]
        data_of_def current_of_def map_of_filter_key fun_eq_iff split: option.splits)
next
  case (10 cl mt p vs w rd w' l)
  then show ?case
    by (auto simp: reference_hvac_def mem_delete_def mem_kv_put mem_kv_get client_mount_def [symmetric]
        current_of_def split: option.splits)
next
  case (11 cl mt p vs w rd w' l m)
  then show ?case
    by (auto simp: reference_hvac_def mem_delete_def mem_kv_put mem_kv_get client_mount_def [symmetric]
        data_of_def map_of_filter_key split: option.splits)
next
  case (12 cl mt p vs w rd w' l' q)
  then show ?case
    by (auto simp: reference_hvac_def mem_delete_def mem_kv_put client_mount_def split: option.splits)
next
  case (13 cl mt p w u w' l)
  then show ?case
    by (auto simp: reference_hvac_def mem_destroy_def mem_kv_def client_mount_def delete_conv data_of_def)
next
  case (14 cl mt p w rd w' l' q)
  then show ?case
    by (auto simp: reference_hvac_def mem_destroy_def mem_kv_def client_mount_def delete_conv)
next
  case (16 cl mt p w m' w' l k vm)
  then show ?case
    by (auto simp: reference_hvac_def mem_metadata_def mem_kv_get [unfolded client_mount_def] data_of_def
        dest: weak_map_of_SomeI split: option.splits)
next
  case (17 cl mt p md w rd w' l' q)
  then show ?case
    by (cases "(l', q) = (client_mount cl mt, p)"; cases "mem_get w cl mt p")
       (auto simp: reference_hvac_def mem_update_metadata_def mem_kv_put mem_kv_get data_of_def current_of_def empty_entry_def)
qed (auto simp: reference_hvac_def ret_def mem_read_def mem_metadata_def split: option.splits)

end
