(* ===== verification/Material_Store.thy ===== *)
theory Material_Store
  imports Services KV2_Store
begin

text \<open>
  What the operations do to the stored secrets, proved once from the store contract. The locale
  \<open>material_backend\<close> is the interface between the service layer and the backend: the contract of
  the backend the environment holds, and that no transaction configures an engine that is not
  a versioned store. Its main lemma, \<open>owner_preserves\<close>, covers every outcome of an owner: success,
  a refused or lost commit, a failure before it, a failing compensation or callback.
\<close>

definition versioned :: "(secret_engine \<Rightarrow> 'l option) \<Rightarrow> database \<Rightarrow> bool" where
  "versioned target d = (\<forall>e \<in> set (rows (engines d)). target e \<noteq> None)"

lemma versioned_engine_of:
  assumes "versioned target d" and "engine_of d c = Some eng"
  obtains l where "target eng = Some l"
  using assms by (auto simp: versioned_def engine_of_def rows_def bind_eq_Some_conv dest!: row_SomeD)

type_synonym 'b target_version = "'b \<times> string \<times> nat option"

definition aims_at :: "'b material_attempt \<Rightarrow> 'b target_version" where
  "aims_at a = (ma_backend a, ma_path a, ma_version a)"

definition owner_writes :: "('x, 'b) sys \<Rightarrow> 'b target_version list \<times> 'b target_version list" where
  "owner_writes s =
     (case owner s of None \<Rightarrow> ([], []) | Some t \<Rightarrow> (map aims_at (mt_attempts t), map aims_at (mt_deletions t)))"

definition calm_step :: "(secret_engine \<Rightarrow> 'l option) \<Rightarrow> ('x, 'b) sys \<Rightarrow> ('x, 'b) sys \<Rightarrow> bool" where
  "calm_step target s s' =
     (ext s' = ext s \<and> owner_writes s' = owner_writes s \<and> hooks s' = hooks s \<and> (in_tx s \<longrightarrow> in_tx s') \<and>
      (versioned target (db s) \<longrightarrow> versioned target (db s')))"

interpretation calm: state_frame "calm_step target"
  by unfold_locales (auto simp: calm_step_def)

lemma calm_db:
  "(\<And>d. engines (snd (f d)) = engines d) \<Longrightarrow> framed (calm_step target) (with_db f)"
  "(\<And>d. engines (snd (g d)) = engines d) \<Longrightarrow> framed (calm_step target) (try_db g)"
  by (simp_all add: framed_def calm_step_def with_db_def try_db_def split_beta in_tx_def owner_writes_def versioned_def)

lemma calm_log: "framed (calm_step target) (log_access_p env c u a ok r txt q l)"
  unfolding log_access_p_def by (rule calm_db) simp

lemma calm_owner:
  "(\<And>t. map aims_at (mt_attempts (h t)) = map aims_at (mt_attempts t) \<and> mt_deletions (h t) = mt_deletions t) \<Longrightarrow> framed (calm_step target) (update_owner h)"
  by (auto simp: framed_def update_owner_def modify_def calm_step_def in_tx_def owner_writes_def split: option.splits)

lemma calm_current: "framed (calm_step target) current_material_transaction"
  unfolding current_material_transaction_def by (intro calm.framed_bnd calm.framed_basic)

lemma engines_save: "engines (snd (credential_save cfg now c d)) = engines d"
  by (auto simp: credential_save_def Let_def split: option.splits sum.splits)

lemma engines_save_fields: "engines (snd (credential_save_fields ns c d)) = engines d"
  by (auto simp: credential_save_fields_def split: option.splits)

lemmas calm_framed = calm.framed_basic calm.framed_bnd calm.framed_on_exn calm.framed_for_each calm_log calm_current framed_cases

lemma calm_declare: "framed (calm_step target) (declare_on_owner kind ids)"
  by (auto simp: framed_def declare_on_owner_def current_material_transaction_def bnd_def gets_def get_or_def ret_def raise_def
      lift_sum_def update_owner_def modify_def declare_graph_def add_graph_def calm_step_def in_tx_def owner_writes_def
      split: option.splits sum.splits if_splits)

locale material_backend = secret_store "e_backend env" target loc store retain
  for env :: "('x, 'b, 'c) env" and target :: "secret_engine \<Rightarrow> 'l option" and loc and store and retain +
  assumes wait_versioned: "versioned target d \<Longrightarrow> versioned target (e_lock_wait env h ls d)"
begin

lemma calm_acquire: "framed (calm_step target) (acquire env ls)"
  unfolding acquire_def
  by (rule calm.framed_modify) (auto simp: calm_step_def in_tx_def owner_writes_def wait_versioned)

lemma calm_locks:
  "framed (calm_step target) (lock_policies env ids)" "framed (calm_step target) (lock_engines env ids)"
  "framed (calm_step target) (lock_credentials env ids)"
  unfolding lock_policies_def lock_engines_def lock_credentials_def by (intro calm_framed calm_acquire)+

lemma calm_subjects: "framed (calm_step target) (lock_material_subjects env cs ps)"
  unfolding lock_material_subjects_def
  by (intro calm_framed calm_locks calm_declare calm_owner) simp_all

lemma calm_refresh: "framed (calm_step target) (refresh_material_selectors c)"
  unfolding refresh_material_selectors_def by (intro calm_framed)

lemma calm_subject: "framed (calm_step target) (lock_material_subject env subj tp)"
  unfolding lock_material_subject_def by (intro calm_framed calm_subjects calm_refresh)

lemma calm_persist: "framed (calm_step target) (persist_instance env c subj m)"
  unfolding persist_instance_def by (intro calm_framed calm_db engines_save)

lemma calm_enforce: "framed (calm_step target) (enforce_policy_access env c u a rq)"
  unfolding enforce_policy_access_def policy_p_def by (intro calm_framed)


definition cur :: "'x \<Rightarrow> 'l \<Rightarrow> string \<Rightarrow> nat" where
  "cur x l q = current_of (store x l q)"

definition data :: "'x \<Rightarrow> 'l \<Rightarrow> string \<Rightarrow> nat \<Rightarrow> payload option" where
  "data x l q = data_of (store x l q)"

definition locs_kept :: "'x \<Rightarrow> 'x \<Rightarrow> bool" where
  "locs_kept x x' = (\<forall>b l. loc b x = Some l \<longrightarrow> loc b x' = Some l)"

definition same_store :: "'x \<Rightarrow> 'x \<Rightarrow> bool" where
  "same_store x x' = (locs_kept x x' \<and> (\<forall>l q. cur x' l q = cur x l q \<and> data x' l q = data x l q))"

definition grown_store :: "'x \<Rightarrow> 'x \<Rightarrow> bool" where
  "grown_store x x' = (locs_kept x x' \<and> (\<forall>l q. cur x l q \<le> cur x' l q \<and>
     (\<forall>m. m \<le> cur x l q \<longrightarrow> cur x' l q < m + retain \<longrightarrow> data x' l q m = data x l q m)))"

definition new_attempt :: "'x \<Rightarrow> 'x \<Rightarrow> 'b target_version \<Rightarrow> bool" where
  "new_attempt x x' a = (case a of (b, p, v) \<Rightarrow> \<exists>l. loc b x' = Some l \<and> (\<forall>n. v = Some n \<longrightarrow> cur x l p < n))"

definition body_step :: "('x, 'b) sys \<Rightarrow> ('x, 'b) sys \<Rightarrow> bool" where
  "body_step s s' = (in_tx s \<and> versioned target (db s) \<longrightarrow>
     in_tx s' \<and> versioned target (db s') \<and> grown_store (ext s) (ext s') \<and>
     (\<exists>new. owner_writes s' = (fst (owner_writes s) @ new, snd (owner_writes s)) \<and> list_all (new_attempt (ext s) (ext s')) new) \<and>
     (\<exists>ks. hooks s' = hooks s @ map PublishMetadata ks))"

lemma same_store_refl: "same_store x x"
  by (simp add: same_store_def locs_kept_def)

lemma grown_cur: "grown_store x y \<Longrightarrow> cur x l q \<le> cur y l q"
  by (simp add: grown_store_def)

lemma grown_data: "grown_store x y \<Longrightarrow> m \<le> cur x l q \<Longrightarrow> cur y l q < m + retain \<Longrightarrow> data y l q m = data x l q m"
  by (simp add: grown_store_def)

lemma grown_trans:
  assumes "grown_store x y" and "grown_store y z"
  shows "grown_store x z"
  unfolding grown_store_def
proof (intro conjI allI impI)
  show "locs_kept x z" using assms by (simp add: grown_store_def locs_kept_def)
  fix l q
  from assms have c: "cur x l q \<le> cur y l q" "cur y l q \<le> cur z l q" by (simp_all add: grown_store_def)
  then show "cur x l q \<le> cur z l q" by simp
  fix m
  assume m: "m \<le> cur x l q" "cur z l q < m + retain"
  have "data z l q m = data y l q m" by (rule grown_data [OF assms(2)]) (use c m in linarith)+
  also have "\<dots> = data x l q m" by (rule grown_data [OF assms(1)]) (use c m in linarith)+
  finally show "data z l q m = data x l q m" .
qed

lemma same_grown: "same_store x y \<Longrightarrow> grown_store x y"
  by (simp add: grown_store_def same_store_def)

lemma new_attempt_later: "grown_store x y \<Longrightarrow> grown_store y z \<Longrightarrow> new_attempt x y a \<Longrightarrow> new_attempt x z a"
  by (cases a) (auto simp: new_attempt_def grown_store_def locs_kept_def)

lemma new_attempt_earlier: "grown_store x y \<Longrightarrow> new_attempt y z a \<Longrightarrow> new_attempt x z a"
  by (cases a) (auto simp: new_attempt_def intro: le_less_trans [OF grown_cur])

lemma body_stepI:
  assumes "in_tx s \<Longrightarrow> versioned target (db s) \<Longrightarrow> in_tx s' \<and> versioned target (db s') \<and> grown_store (ext s) (ext s')
      \<and> owner_writes s' = (fst (owner_writes s) @ new, snd (owner_writes s)) \<and> list_all (new_attempt (ext s) (ext s')) new
      \<and> hooks s' = hooks s @ map PublishMetadata ks"
  shows "body_step s s'"
  using assms unfolding body_step_def by blast

lemma body_stepE:
  assumes "body_step s s'" "in_tx s" "versioned target (db s)"
  obtains new ks where "in_tx s'" "versioned target (db s')" "grown_store (ext s) (ext s')"
    "owner_writes s' = (fst (owner_writes s) @ new, snd (owner_writes s))" "list_all (new_attempt (ext s) (ext s')) new"
    "hooks s' = hooks s @ map PublishMetadata ks"
  using assms unfolding body_step_def by blast

lemma body_idle: "\<not> (in_tx s \<and> versioned target (db s)) \<Longrightarrow> body_step s s'"
  unfolding body_step_def by blast

lemma body_calm: "calm_step target s s' \<Longrightarrow> body_step s s'"
  by (rule body_stepI [where new = "[]" and ks = "[]"]) (simp add: calm_step_def same_grown same_store_refl)

lemma body_refl: "body_step s s"
  by (rule body_calm) (rule calm.frame_refl)

lemma body_trans:
  assumes st: "body_step s t" and tu: "body_step t u"
  shows "body_step s u"
proof (cases "in_tx s \<and> versioned target (db s)")
  case True
  then obtain n1 k1 where 1: "in_tx t" "versioned target (db t)" "grown_store (ext s) (ext t)"
    "owner_writes t = (fst (owner_writes s) @ n1, snd (owner_writes s))" "list_all (new_attempt (ext s) (ext t)) n1"
    "hooks t = hooks s @ map PublishMetadata k1"
    by (auto elim: body_stepE [OF st])
  from 1(1,2) obtain n2 k2 where 2: "in_tx u" "versioned target (db u)" "grown_store (ext t) (ext u)"
    "owner_writes u = (fst (owner_writes t) @ n2, snd (owner_writes t))" "list_all (new_attempt (ext t) (ext u)) n2"
    "hooks u = hooks t @ map PublishMetadata k2"
    by (auto elim: body_stepE [OF tu])
  have "list_all (new_attempt (ext s) (ext u)) (n1 @ n2)"
    using 1(3,5) 2(3,5) by (auto simp: list_all_iff intro: new_attempt_later new_attempt_earlier)
  with 1 2 grown_trans [OF 1(3) 2(3)] show ?thesis
    by (intro body_stepI [where new = "n1 @ n2" and ks = "k1 @ k2"]) simp
next
  case False
  then show ?thesis by (rule body_idle)
qed

end

sublocale material_backend \<subseteq> body: state_frame body_step
  by unfold_locales (blast intro: body_refl body_trans)+

context material_backend
begin

lemma calm_body: "framed (calm_step target) m \<Longrightarrow> framed body_step m"
  by (simp add: framed_def body_calm)

lemmas body_framed = body.framed_basic body.framed_bnd body.framed_on_exn body.framed_for_each framed_cases

text \<open>A handle made for a versioned engine is valid, and making it touches no secret.\<close>

lemma handle_run:
  assumes v: "versioned target (db s)"
    and run: "bnd (engine_p c) (\<lambda>eng. bnd (policy_p c) (\<lambda>pol. bnd (get_backend_p env eng pol) (F eng pol))) s = (r, s')"
  obtains (missing) "s' = s"
    | (call) eng pol b x l where "same_store (ext s) x" "loc b x = Some l" "F eng pol b (s\<lparr>ext := x\<rparr>) = (r, s')"
proof (cases "engine_of (db s) c = None \<or> policy_of (db s) c = None")
  case True
  with run show thesis
    by (intro missing) (auto simp: bnd_def engine_p_def policy_p_def gets_def get_or_def raise_def ret_def split: option.splits)
next
  case False
  then obtain eng pol where e: "engine_of (db s) c = Some eng" "policy_of (db s) c = Some pol" by auto
  obtain b x where g: "get_backend (e_backend env) (auth_materials (db s)) eng (Some pol) (ext s) = (b, x)"
    by fastforce
  note g' = g [unfolded get_backend_def]
  from v e(1) obtain l where "target eng = Some l" by (rule versioned_engine_of)
  with new_target [OF g'] have "loc b x = Some l" by simp
  moreover have "same_store (ext s) x"
    using new_loc [OF g'] new_store [OF g'] by (simp add: same_store_def locs_kept_def cur_def data_def)
  moreover have "F eng pol b (s\<lparr>ext := x\<rparr>) = (r, s')"
    using run e g by (simp add: bnd_def engine_p_def policy_p_def gets_def get_or_def ret_def get_backend_p_def)
  ultimately show thesis by (intro call)
qed

lemma body_handle:
  assumes F: "\<And>eng pol b s l. in_tx s \<Longrightarrow> versioned target (db s) \<Longrightarrow> loc b (ext s) = Some l \<Longrightarrow> body_step s (snd (F eng pol b s))"
  shows "framed body_step (bnd (engine_p c) (\<lambda>eng. bnd (policy_p c) (\<lambda>pol. bnd (get_backend_p env eng pol) (F eng pol))))"
proof (rule framedI)
  fix s r s'
  assume run: "bnd (engine_p c) (\<lambda>eng. bnd (policy_p c) (\<lambda>pol. bnd (get_backend_p env eng pol) (F eng pol))) s = (r, s')"
  show "body_step s s'"
  proof (cases "in_tx s \<and> versioned target (db s)")
    case True
    then have v: "versioned target (db s)" by simp
    show ?thesis
    proof (cases rule: handle_run [OF v run])
      case 1
      then show ?thesis by (simp add: body_refl)
    next
      case (2 eng pol b x l)
      have "body_step s (s\<lparr>ext := x\<rparr>)"
        by (rule body_stepI [where new = "[]" and ks = "[]"]) (use 2(1) in \<open>simp add: same_grown in_tx_def owner_writes_def\<close>)
      moreover have "body_step (s\<lparr>ext := x\<rparr>) s'"
        using F [of "s\<lparr>ext := x\<rparr>" b l eng pol] True 2(2,3) by (simp add: in_tx_def)
      ultimately show ?thesis by (rule body_trans)
    qed
  next
    case False
    then show ?thesis by (rule body_idle)
  qed
qed

lemma grown_write:
  assumes l: "loc b x = Some l" and w: "b_write (e_backend env) ctx b p d cas x = (r, x')"
  shows "grown_store x x'"
  unfolding grown_store_def
proof (intro conjI allI)
  show "locs_kept x x'" using write_loc [OF l w] by (simp add: locs_kept_def)
  fix l' q
  show "cur x l' q \<le> cur x' l' q"
    using write_cases [OF l w] write_frame [OF l w, of l' q] by (cases "(l', q) = (l, p)") (auto simp: cur_def)
  fix m
  show "m \<le> cur x l' q \<longrightarrow> cur x' l' q < m + retain \<longrightarrow> data x' l' q m = data x l' q m"
    using write_cases [OF l w] write_frame [OF l w, of l' q]
    by (cases "(l', q) = (l, p)") (auto simp: cur_def data_def)
qed

lemma body_defer: "framed body_step (defer_custom_metadata env' ids)"
  unfolding defer_custom_metadata_def
proof (rule body.framed_for_each, rule framedI)
  fix k s r s'
  assume "on_commit (run_hook env') (PublishMetadata k) s = (r, s')"
  then show "body_step s s'"
    by (intro body_stepI [where new = "[]" and ks = "[k]"])
       (auto simp: on_commit_def in_tx_def owner_writes_def same_grown same_store_refl split: if_splits)
qed

lemma set_attempt_aims:
  "(\<And>a. aims_at (f a) = aims_at a) \<Longrightarrow> map aims_at (mt_attempts (set_attempt f t)) = map aims_at (mt_attempts t)"
  by (cases "mt_attempts t" rule: rev_cases) (simp_all add: set_attempt_def)

lemma set_attempt_deletions: "mt_deletions (set_attempt f t) = mt_deletions t"
  by (simp add: set_attempt_def split: list.splits)

lemma set_append_attempt: "set_attempt f (append_attempt a t) = append_attempt (f a) t"
  by (simp add: set_attempt_def append_attempt_def)

lemma write_attempt_tail:
  "framed body_step (bnd (try_db (credential_save_fields names c')) (\<lambda>_.
         bnd (defer_custom_metadata env [cr_pk c']) (\<lambda>_.
         bnd (log_access_p env c' u action True [] [] request True) (\<lambda>audit.
         bnd (update_owner (set_attempt (\<lambda>a. a\<lparr>ma_audit_id := audit\<rparr>))) (\<lambda>_.
         ret (c', version))))))"
proof -
  have "framed body_step (update_owner (set_attempt (\<lambda>a. a\<lparr>ma_audit_id := audit\<rparr>)))" for audit
    by (rule calm_body, rule calm_owner) (simp add: set_attempt_aims set_attempt_deletions aims_at_def)
  moreover have "framed body_step (try_db (credential_save_fields names c'))"
    by (rule calm_body, rule calm_db, rule engines_save_fields)
  moreover have "framed body_step (log_access_p env c' u action True [] [] request True)"
    by (rule calm_body, rule calm_log)
  ultimately show ?thesis by (intro body_framed body_defer)
qed

lemma body_write_attempt: "framed body_step (write_attempt env c cleaned fp cas u rq action promote)"
  unfolding write_attempt_def
proof (rule body_handle, goal_cases)
  case (1 eng pol b s l)
  let ?A = "\<lparr>ma_credential = c, ma_backend = b, ma_path = cr_path c, ma_user = u, ma_action = action,
     ma_version = None, ma_audit_id = None\<rparr>"
  obtain t where t: "owner s = Some t" using 1(1) by (auto simp: in_tx_def)
  obtain r x where w: "b_write (e_backend env) (backend_context env (db s)) b (cr_path c) cleaned cas (ext s) = (r, x)"
    by fastforce
  note g = grown_write [OF 1(3) w] and lx = write_loc [OF 1(3) w 1(3)]
  let ?s1 = "s\<lparr>owner := Some (append_attempt ?A t), ext := x\<rparr>"
  show ?case
  proof (cases r)
    case (Inl e)
    have "body_step s ?s1"
      by (rule body_stepI [where new = "[aims_at ?A]" and ks = "[]"])
         (use g lx t in \<open>simp add: in_tx_def owner_writes_def append_attempt_def new_attempt_def aims_at_def\<close>)
    with w Inl t show ?thesis
      by (simp add: run_update_owner run_backend_call)
  next
    case (Inr n)
    let ?s2 = "s\<lparr>ext := x, owner := Some (append_attempt (?A\<lparr>ma_version := Some n\<rparr>) t)\<rparr>"
    from write_version [OF 1(3) w [unfolded Inr]] have n: "cur (ext s) l (cr_path c) < n" by (simp add: cur_def)
    have s2: "body_step s ?s2"
      by (rule body_stepI [where new = "[aims_at (?A\<lparr>ma_version := Some n\<rparr>)]" and ks = "[]"])
         (use g lx t n in \<open>simp add: in_tx_def owner_writes_def append_attempt_def new_attempt_def aims_at_def\<close>)
    obtain c' names where rv: "record_version (e_now env) fp n promote action c = (c', names)" by fastforce
    let ?tail = "bnd (try_db (credential_save_fields names c')) (\<lambda>_.
         bnd (defer_custom_metadata env [cr_pk c']) (\<lambda>_.
         bnd (log_access_p env c' u action True [] [] rq True) (\<lambda>audit.
         bnd (update_owner (set_attempt (\<lambda>a. a\<lparr>ma_audit_id := audit\<rparr>))) (\<lambda>_.
         ret (c', n)))))"
    have "body_step ?s2 (snd (?tail ?s2))"
      using write_attempt_tail [of names c' u action rq n] by (simp add: framed_def)
    with s2 have "body_step s (snd (?tail ?s2))" by (rule body_trans)
    then show ?thesis
      using w Inr t rv
      by (simp add: run_update_owner run_backend_call set_append_attempt)
  qed
qed

lemma body_nested:
  assumes "framed body_step body"
  shows "framed body_step (material_transaction env' rh body)"
proof (rule framedI)
  fix s r s'
  assume run: "material_transaction env' rh body s = (r, s')"
  show "body_step s s'"
  proof (cases "owner s")
    case None
    then show ?thesis by (intro body_idle) (simp add: in_tx_def)
  next
    case (Some t)
    have "framed body_step (update_owner (\<lambda>t. t\<lparr>mt_failed := True\<rparr>))"
      by (rule calm_body, rule calm_owner) simp
    then have "framed body_step (on_exn body (\<lambda>e. bnd (update_owner (\<lambda>t. t\<lparr>mt_failed := True\<rparr>)) (\<lambda>_. raise e)))"
      by (intro body_framed assms)
    with run Some show ?thesis by (auto simp: material_transaction_def dest: framedD)
  qed
qed

lemma body_store:
  "(\<And>subj m. framed (calm_step target) (persist subj m)) \<Longrightarrow>
   framed body_step (store_body env persist ct p cas u rq a subject promote tp pre)"
  unfolding store_body_def
  by (intro body_framed calm_body [OF calm_subject] calm_body [OF calm_refresh] calm_body [OF calm_current]
      calm_body [OF calm_owner] body_write_attempt calm_body)
     (simp_all add: add_graph_def)

lemma body_write_material: "framed body_step (write_material env c p cas u rq a promote)"
  unfolding write_material_def store_credential_def
  by (intro body_nested body_store calm_persist)

lemma body_rotate: "framed body_step (rotate_body env p u rq c)"
  unfolding rotate_body_def
  by (intro body_framed calm_body [OF calm_enforce] body_write_material)

lemma body_stage: "framed body_step (stage_body env p u rq c)"
  unfolding stage_body_def
  by (intro body_framed calm_body [OF calm_enforce] body_write_material calm_body [OF calm_db(2)] engines_save_fields)

lemma same_list:
  assumes l: "loc b x = Some l" and w: "b_list_versions (e_backend env) ctx b p x = (r, x')"
  shows "same_store x x'"
  using list_loc [OF l w] list_store [OF l w] by (simp add: same_store_def locs_kept_def cur_def data_def)

lemma body_same_call:
  assumes "\<And>ctx r x'. m ctx (ext s) = (r, x') \<Longrightarrow> same_store (ext s) x'"
  shows "body_step s (snd (backend_call env m s))"
proof -
  obtain r x where m: "m (backend_context env (db s)) (ext s) = (r, x)" by fastforce
  show ?thesis
    by (rule body_stepI [where new = "[]" and ks = "[]"])
       (use same_grown [OF assms [OF m]] m in \<open>simp add: backend_call_def on_ext_def in_tx_def owner_writes_def\<close>)
qed

lemma body_promote: "framed body_step (promote_body env u rq verified txt c)"
  unfolding promote_body_def
proof (intro body.framed_bnd [OF calm_body [OF calm_enforce]] body.framed_bnd [OF body.framed_basic(4)] body_handle, goal_cases)
  case (1 y z eng pol b s l)
  have "body_step s (snd (audited_call env c u ACTION_PROMOTE [] rq True
      (backend_call env (\<lambda>ctx. b_list_versions (e_backend env) ctx b (cr_path c))) s))"
    unfolding audited_call_def
    by (rule body.at_on_exn [OF body_same_call])
       (use same_list [OF 1(3)] in \<open>auto intro!: body_framed calm_body [OF calm_log]\<close>)
  then show ?case
    by (rule body.at_bnd)
       (intro body_framed calm_body [OF calm_log] calm_body [OF calm_db(2)] engines_save_fields)
qed

text \<open>What every outcome of an owner keeps: version numbers only grow, and each version that existed before and is still inside
  the retention window reads the same. A sequence of owners keeps it too.\<close>

definition preserved :: "'x \<Rightarrow> 'x \<Rightarrow> bool" where
  "preserved x x' = (\<forall>l q. cur x l q \<le> cur x' l q \<and> (\<forall>m. m \<le> cur x l q \<longrightarrow> cur x' l q < m + retain \<longrightarrow> data x' l q m = data x l q m))"

lemma preserved_refl: "preserved x x"
  by (simp add: preserved_def)

lemma preserved_trans:
  assumes "preserved x y" "preserved y z"
  shows "preserved x z"
  unfolding preserved_def
proof (intro allI conjI impI)
  fix l q m
  have g: "cur x l q \<le> cur y l q" "cur y l q \<le> cur z l q" using assms by (simp_all add: preserved_def)
  then show "cur x l q \<le> cur z l q" by simp
  assume m: "m \<le> cur x l q" "cur z l q < m + retain"
  then have "m \<le> cur y l q" "cur y l q < m + retain" using g by simp_all
  with m have "data z l q m = data y l q m" "data y l q m = data x l q m" using assms by (simp_all add: preserved_def)
  then show "data z l q m = data x l q m" by simp
qed

text \<open>Compensation deletes only versions issued after \<open>x0\<close>.\<close>

definition compensated :: "'x \<Rightarrow> 'x \<Rightarrow> 'x \<Rightarrow> bool" where
  "compensated x0 x x' = (locs_kept x x' \<and> (\<forall>l q. cur x' l q = cur x l q \<and> (\<forall>m. m \<le> cur x0 l q \<longrightarrow> data x' l q m = data x l q m)))"

lemma compensated_refl: "compensated x0 x x"
  by (simp add: compensated_def locs_kept_def)

lemma compensated_trans: "compensated x0 x y \<Longrightarrow> compensated x0 y z \<Longrightarrow> compensated x0 x z"
  by (simp add: compensated_def locs_kept_def)

lemma same_compensated: "same_store x y \<Longrightarrow> compensated x0 x y"
  by (simp add: compensated_def same_store_def)

lemma delete_compensated:
  assumes l: "loc b x = Some l" and d: "b_delete (e_backend env) ctx b p (Some [v]) x = (r, x')" and v: "cur x0 l p < v"
  shows "compensated x0 x x'"
  unfolding compensated_def
proof (intro conjI allI impI)
  show "locs_kept x x'" using delete_loc [OF l d] by (simp add: locs_kept_def)
  fix l' q
  show "cur x' l' q = cur x l' q"
    using delete_current [OF l d] delete_frame [OF l d, of l' q] by (cases "(l', q) = (l, p)") (auto simp: cur_def)
  fix m
  assume "m \<le> cur x0 l' q"
  with v show "data x' l' q m = data x l' q m"
    using delete_only [OF l d, of m] delete_frame [OF l d, of l' q] by (cases "(l', q) = (l, p)") (auto simp: data_def)
qed

lemma preserved_compensated: "grown_store x0 x \<Longrightarrow> compensated x0 x x' \<Longrightarrow> preserved x0 x'"
  by (simp add: preserved_def compensated_def grown_data grown_cur)

definition recovering :: "'x \<Rightarrow> ('x, 'b) sys \<Rightarrow> ('x, 'b) sys \<Rightarrow> bool" where
  "recovering x0 s s' = compensated x0 (ext s) (ext s')"

lemma recovering_ext: "ext s' = ext s \<Longrightarrow> recovering x0 s s'"
  by (simp add: recovering_def compensated_refl)

end

sublocale material_backend \<subseteq> rec: state_frame "recovering x0"
  by unfold_locales (auto simp: recovering_def intro: compensated_refl compensated_trans)

context material_backend
begin

lemma rec_framed_log: "framed (recovering x0) (with_db f)" "framed (recovering x0) (try_db g)"
  "framed (recovering x0) (log_access_p env' c u a ok r txt q l)"
  by (auto simp: framed_def with_db_def try_db_def log_access_p_def split_beta intro!: recovering_ext)

lemma rec_framed_record: "framed (recovering x0) (record_recovery env t a m)"
  unfolding record_recovery_def by (intro rec.framed_bnd rec_framed_log rec.framed_basic)

lemma rec_call:
  assumes "\<And>ctx r x'. m ctx (ext s) = (r, x') \<Longrightarrow> compensated x0 (ext s) x'"
  shows "recovering x0 s (snd (backend_call env m s))"
proof -
  obtain r x where m: "m (backend_context env (db s)) (ext s) = (r, x)" by fastforce
  with assms [OF m] show ?thesis by (simp add: recovering_def backend_call_def on_ext_def)
qed

lemma recover_attempt_step:
  assumes a: "\<exists>l. loc (ma_backend a) (ext s) = Some l \<and> (\<forall>n. ma_version a = Some n \<longrightarrow> cur x0 l (ma_path a) < n)"
  shows "recovering x0 s (snd (recover_attempt env t unknown a s))"
  unfolding recover_attempt_def
proof (rule rec.at_bnd [OF _ rec_framed_record], goal_cases)
  case 1
  from a obtain l where l: "loc (ma_backend a) (ext s) = Some l" "\<And>n. ma_version a = Some n \<Longrightarrow> cur x0 l (ma_path a) < n"
    by blast
  have "recovering x0 s (snd (on_exn (bnd (backend_call env (\<lambda>ctx. b_delete (e_backend env) ctx (ma_backend a) (ma_path a) (Some [v])))
         (\<lambda>_. ret m1)) (\<lambda>_. ret m2) s))" if "ma_version a = Some v" for v m1 m2
    by (intro rec.at_on_exn rec.at_bnd rec_call rec.framed_basic delete_compensated [OF l(1) _ l(2) [OF that]])
  note del = this
  have done1: "recovering x0 s (snd (ret m s))" for m :: string by (simp add: ret_def rec.frame_refl)
  show ?case
    by (cases "mt_committed t"; cases unknown; cases "ma_version a") (simp_all add: done1 del)
qed

lemma recover_attempts_step:
  assumes "list_all (new_attempt x0 (ext s)) (map aims_at as)"
  shows "recovering x0 s (snd (for_each (recover_attempt env t unknown) as s))"
  using assms
proof (induction as arbitrary: s)
  case Nil
  then show ?case by (simp add: ret_def rec.frame_refl)
next
  case (Cons a as)
  obtain r s1 where r: "recover_attempt env t unknown a s = (r, s1)" by fastforce
  from Cons.prems have "recovering x0 s s1"
    using recover_attempt_step [of a s x0 t unknown] r by (simp add: new_attempt_def aims_at_def)
  moreover from this Cons.prems have "list_all (new_attempt x0 (ext s1)) (map aims_at as)"
    by (auto simp: list_all_iff new_attempt_def aims_at_def recovering_def compensated_def locs_kept_def)
  ultimately show ?case
    using Cons.IH [of s1] r by (cases r) (auto simp: bnd_def intro: rec.frame_trans)
qed

lemma unwind_step:
  assumes "list_all (new_attempt x0 (ext s)) (map aims_at (mt_attempts t))"
  shows "recovering x0 s (snd (unwind env e unknown t s))"
  unfolding unwind_def recover_def Let_def
proof -
  let ?t = "t\<lparr>mt_known_rollback := \<not> unknown \<and> \<not> mt_committed t\<rparr>" and ?s = "s\<lparr>owner := None\<rparr>"
  let ?rest = "\<lambda>_. for_each (\<lambda>a. record_recovery env ?t a (discard_recovery_message ?t unknown)) (mt_deletions ?t)"
  have "recovering x0 ?s (snd (bnd (bnd (for_each (recover_attempt env ?t unknown) (rev (mt_attempts ?t))) ?rest) (\<lambda>_. raise e) ?s))"
    by (intro rec.at_bnd recover_attempts_step rec.framed_for_each rec_framed_record rec.framed_basic)
       (use assms in \<open>simp add: list_all_iff\<close>)
  then show "recovering x0 s (snd (bnd (modify (\<lambda>s. s\<lparr>owner := None\<rparr>)) (\<lambda>_. bnd (bnd (for_each (recover_attempt env ?t unknown) (rev (mt_attempts ?t))) ?rest)
     (\<lambda>_. raise e)) s))"
    by (simp add: bnd_def [of "modify _"] modify_def recovering_def)
qed

lemma unwind_run:
  assumes "unwind env e unknown t s = (r, s')" and "list_all (new_attempt x0 (ext s)) (map aims_at (mt_attempts t))"
  shows "recovering x0 s s'"
  using unwind_step [OF assms(2), of e unknown] assms(1) by (metis snd_conv)

text \<open>Publishing metadata after the commit touches no version.\<close>

definition hook_step :: "('x, 'b) sys \<Rightarrow> ('x, 'b) sys \<Rightarrow> bool" where
  "hook_step s s' = (versioned target (db s) \<longrightarrow> versioned target (db s') \<and> same_store (ext s) (ext s'))"

lemma same_store_trans: "same_store x y \<Longrightarrow> same_store y z \<Longrightarrow> same_store x z"
  by (simp add: same_store_def locs_kept_def)

lemma publish_step: "framed hook_step (run_hook env (PublishMetadata k))"
proof (rule framedI)
  fix s r s'
  assume run: "run_hook env (PublishMetadata k) s = (r, s')"
  show "hook_step s s'"
  proof (cases "versioned target (db s)")
    case v: True
    show ?thesis
    proof (cases "load_credential (db s) k")
      case None
      with run show ?thesis
        by (auto simp: run_hook_def run_metadata_projection_def publish_custom_metadata_def on_exn_def bnd_def gets_def
            ret_def hook_step_def same_store_refl)
    next
      case (Some c)
      let ?F = "\<lambda>eng pol b. bnd (gets (\<lambda>s. build_custom_metadata env (db s) c))
         (\<lambda>m. backend_call env (\<lambda>ctx. b_set_metadata (e_backend env) ctx b (cr_path c) m))"
      obtain r1 s1 where r1: "bnd (engine_p c) (\<lambda>eng. bnd (policy_p c) (\<lambda>pol. bnd (get_backend_p env eng pol) (?F eng pol))) s = (r1, s1)"
        by fastforce
      have "s' = s1"
        using run Some r1
        by (auto simp: run_hook_def run_metadata_projection_def publish_custom_metadata_def on_exn_def
            run_gets [of _ "case_option _ _"] ret_def [of "()"] split: sum.splits)
      moreover have "hook_step s s1"
      proof (cases rule: handle_run [OF v r1])
        case 1
        then show ?thesis by (simp add: hook_step_def same_store_refl)
      next
        case (2 eng pol b x l)
        then obtain md r2 x2 where m: "b_set_metadata (e_backend env) (backend_context env (db s)) b (cr_path c) md x = (r2, x2)"
          "s1 = s\<lparr>ext := x2\<rparr>"
          by (auto simp: bnd_def gets_def backend_call_def on_ext_def split: prod.splits)
        have "same_store x x2"
          using meta_loc [OF 2(2) m(1)] meta_data [OF 2(2) m(1)] meta_current [OF 2(2) m(1)]
          by (simp add: same_store_def locs_kept_def cur_def data_def)
        with 2(1) m(2) v show ?thesis by (auto simp: hook_step_def intro: same_store_trans)
      qed
      ultimately show ?thesis by simp
    qed
  qed (simp add: hook_step_def)
qed

end

sublocale material_backend \<subseteq> hook: state_frame hook_step
  by unfold_locales (auto simp: hook_step_def intro: same_store_refl same_store_trans)

context material_backend
begin

lemma hooks_step: "framed hook_step (for_each (run_hook env) (map PublishMetadata ks))"
  by (rule hook.framed_for_each) (auto intro: publish_step)

lemma tx_body_step: "framed body_step body \<Longrightarrow> framed body_step (tx_body env body)"
  unfolding tx_body_def by (intro body_framed)

text \<open>The outcome of an owner that deferred no deletion.\<close>

lemma owner_preserves:
  assumes body: "framed body_step body" and idle: "owner s = None" "autocommit s" and v: "versioned target (db s)"
    and run: "run_owner env (run_hook env) body s = (r, s')"
  shows "preserved (ext s) (ext s')"
proof -
  obtain q s1 where t: "tx_body env body (begin_tx env s) = (q, s1)" by fastforce
  have b: "body_step (begin_tx env s) s1" by (rule framedD [OF tx_body_step [OF body] t])
  have i: "in_tx (begin_tx env s)" "versioned target (db (begin_tx env s))" using v by (simp_all add: in_tx_begin)
  obtain new ks where n: "in_tx s1" "versioned target (db s1)" "grown_store (ext (begin_tx env s)) (ext s1)"
    "owner_writes s1 = (fst (owner_writes (begin_tx env s)) @ new, snd (owner_writes (begin_tx env s)))"
    "list_all (new_attempt (ext (begin_tx env s)) (ext s1)) new"
    "hooks s1 = hooks (begin_tx env s) @ map PublishMetadata ks"
    by (rule body_stepE [OF b i])
  then have s1: "versioned target (db s1)" "grown_store (ext s) (ext s1)"
    "owner_writes s1 = (new, [])" "list_all (new_attempt (ext s) (ext s1)) new" "hooks s1 = map PublishMetadata ks" "owner s1 \<noteq> None"
    by (simp_all add: begin_tx_def in_tx_def owner_writes_def new_transaction_def)
  let ?t = "the_owner env s1"
  have att: "map aims_at (mt_attempts ?t) = new" and del: "mt_deletions ?t = []"
    using s1(3,6) by (auto simp: owner_writes_def the_owner_def)
  have unw: "preserved (ext s) (ext s')"
    if "unwind env e unk t0 (leave_tx d0 s1) = (r, s')" "mt_attempts t0 = mt_attempts ?t" for e unk t0 d0
    using unwind_run [OF that(1), of "ext s"] that(2) s1(2,4) att
    by (auto simp: leave_tx_def recovering_def intro: preserved_compensated)
  show ?thesis
  proof (cases q)
    case (Inl e)
    with run t unw show ?thesis by (auto simp: run_owner_def)
  next
    case (Inr y)
    show ?thesis
    proof (cases "e_commit env (db s1)")
      case CommitOk
      let ?t' = "?t\<lparr>mt_committed := True\<rparr>" and ?s2 = "leave_tx (db s1) s1\<lparr>owner := Some (?t\<lparr>mt_committed := True\<rparr>)\<rparr>"
      obtain h s3 where h: "for_each (run_hook env) (hooks s1) ?s2 = (h, s3)" by fastforce
      have same: "same_store (ext s1) (ext s3)"
        using framedD [OF hooks_step, of ks ?s2 h s3] h s1(1,5) by (simp add: hook_step_def leave_tx_def)
      note run' = run [unfolded run_owner_def t prod.case Inr sum.case CommitOk commit_outcome.case after_commit_def Let_def]
      show ?thesis
      proof (cases h)
        case (Inl e)
        with h run' obtain r2 :: "exn + unit" where "unwind env e True ?t' s3 = (r2, s')"
          by (auto simp: bnd_def modify_def on_exn_def unwind_def raise_def split: prod.splits sum.splits)
        moreover have "list_all (new_attempt (ext s) (ext s3)) (map aims_at (mt_attempts ?t'))"
          using s1(2,4) att same by (auto simp: list_all_iff intro: new_attempt_later [OF _ same_grown])
        ultimately have "recovering (ext s) s3 s'" by (rule unwind_run)
        then have "compensated (ext s) (ext s3) (ext s')" by (simp add: recovering_def)
        with grown_trans [OF s1(2) same_grown [OF same]] show ?thesis by (rule preserved_compensated)
      next
        case (Inr u)
        with h run' del have "ext s' = ext s3"
          by (auto simp: bnd_def modify_def on_exn_def finish_deletions_def check_def ret_def split: prod.splits)
        with grown_trans [OF s1(2) same_grown [OF same]] show ?thesis
          by (simp add: preserved_def grown_data grown_cur)
      qed
    next
      case CommitRejected
      with run t Inr unw show ?thesis by (auto simp: run_owner_def)
    next
      case (CommitLost b)
      with run t Inr unw show ?thesis by (auto simp: run_owner_def)
    qed
  qed
qed

text \<open>The refusal a synchronized operation records outside its transaction touches no secret.\<close>

lemma synchronized_preserves:
  assumes op: "\<And>f. framed body_step (operation f)" and idle: "owner s = None" "autocommit s" and v: "versioned target (db s)"
    and run: "synchronized_material_change env (run_hook env) act u rq operation c s = (r, s')"
  shows "preserved (ext s) (ext s')"
proof -
  let ?s = "s\<lparr>held := Some c\<rparr>"
  obtain q s2 where q: "run_owner env (run_hook env) (synchronized_body env operation c) ?s = (q, s2)" by fastforce
  have "framed body_step (synchronized_body env operation c)"
    unfolding synchronized_body_def
    by (intro body_framed op calm_body [OF calm_subjects] body.framed_modify body_calm)
       (simp add: calm_step_def in_tx_def owner_writes_def)
  from owner_preserves [OF this _ _ _ q] idle v have "preserved (ext s) (ext s2)" by simp
  moreover from q idle run have "ext s' = ext s2"
    by (auto simp: synchronized_material_change_def bnd_def modify_def on_exn_def material_transaction_def gets_def
        log_access_p_def with_db_def raise_def split_beta split: sum.splits)
  ultimately show ?thesis by simp
qed


end

section \<open>The plugin's own backends\<close>

text \<open>The contract holds of the plugin's backends on any server with the documented behaviour of
  KV version 2, so the locale's lemmas apply to every environment built from them.\<close>

definition plugin_env ::
  "('w \<Rightarrow> kv_location \<Rightarrow> kv_view) \<Rightarrow> nat \<Rightarrow> ('w backend_world, nat, 'c) env \<Rightarrow> 'w hvac \<Rightarrow> 'w requests \<Rightarrow> 'k crypto \<Rightarrow> bool" where
  "plugin_env kv retain env hv rq cx =
     (kv2_server hv kv retain \<and> e_backend env = plugin_backends hv rq cx \<and>
      (\<forall>h ls d. versioned engine_target d \<longrightarrow> versioned engine_target (e_lock_wait env h ls d)))"

text \<open>What a mount holds, seen from the state of a request: the payload of a version, and the
  highest version issued at a path.\<close>

definition stored ::
  "('w \<Rightarrow> kv_location \<Rightarrow> kv_view) \<Rightarrow> ('w backend_world, nat) sys \<Rightarrow> kv_location \<Rightarrow> string \<Rightarrow> nat \<Rightarrow> payload option" where
  "stored kv s l q = data_of (kv (bw_remote (ext s)) l q)"

definition issued ::
  "('w \<Rightarrow> kv_location \<Rightarrow> kv_view) \<Rightarrow> ('w backend_world, nat) sys \<Rightarrow> kv_location \<Rightarrow> string \<Rightarrow> nat" where
  "issued kv s l q = current_of (kv (bw_remote (ext s)) l q)"

context kv2_server
begin

lemma plugin_store: "secret_store (plugin_backends hv rq cx) engine_target bao_loc (\<lambda>x. kv (bw_remote x)) retain"
  by unfold_locales

end

lemma plugin_material_backend:
  assumes "plugin_env kv retain env hv rq cx"
  shows "material_backend env engine_target bao_loc (\<lambda>x. kv (bw_remote x)) retain"
  using assms kv2_server.plugin_store [of hv kv retain rq cx]
  by (simp add: plugin_env_def material_backend_def material_backend_axioms_def)

end
