(* ===== verification/Rotation.thy ===== *)
theory Rotation
  imports Material_Store
begin

text \<open>
  What a successful rotation, staging, promotion and discard leave in the database. The row locks
  of \<^verbatim>\<open>synchronization.py\<close> give the invariant: a row whose lock the request holds changes only by
  its own writes (\<open>lock_step\<close>, under \<open>row_locks\<close>: the database keeps a locked row). Each operation
  then has a postcondition on the version pointers (\<open>wp_rotate\<close>, \<open>wp_stage\<close>, \<open>wp_promote\<close>,
  \<open>wp_discard\<close>), and \<open>synchronized_success\<close> carries it through the commit.
\<close>

section \<open>What the row locks guarantee\<close>

text \<open>What the database guarantees: while a transaction waits, no other one changes a row it has
  locked.\<close>

definition row_locks :: "('x, 'b, 'c) env \<Rightarrow> bool" where
  "row_locks env = (\<forall>held_locks req d k. CredentialLock k \<in> set held_locks \<longrightarrow>
     row (credentials (e_lock_wait env held_locks req d)) k = row (credentials d) k)"

text \<open>Rows this transaction has locked do not change.\<close>

definition lock_step :: "('x, 'b) sys \<Rightarrow> ('x, 'b) sys \<Rightarrow> bool" where
  "lock_step s s' = (set (locks s) \<subseteq> set (locks s') \<and> (in_tx s \<longrightarrow> in_tx s') \<and>
     (\<forall>k. CredentialLock k \<in> set (locks s) \<longrightarrow> row (credentials (db s')) k = row (credentials (db s)) k))"

interpretation locking: state_frame lock_step
  by unfold_locales (auto simp: lock_step_def)

text \<open>Only other transactions change the database, and the owner has no new attempt.\<close>

definition read_step :: "('x, 'b, 'c) env \<Rightarrow> ('x, 'b) sys \<Rightarrow> ('x, 'b) sys \<Rightarrow> bool" where
  "read_step env s s' =
     ((others env)\<^sup>*\<^sup>* (db s) (db s') \<and> (in_tx s \<longrightarrow> in_tx s') \<and> owner_writes s' = owner_writes s)"

interpretation reading: state_frame "read_step env"
  by unfold_locales (auto simp: read_step_def)

lemma lock_framed_acquire: "row_locks env \<Longrightarrow> framed lock_step (acquire env ls)"
  by (auto simp: framed_def acquire_def modify_def lock_step_def in_tx_def row_locks_def)

lemma lock_framed_owner: "framed lock_step (update_owner h)"
  by (auto simp: framed_def update_owner_def modify_def lock_step_def in_tx_def)

lemma lock_framed_db: "(\<And>d. credentials (snd (f d)) = credentials d) \<Longrightarrow> framed lock_step (with_db f)"
  by (simp add: framed_def with_db_def lock_step_def in_tx_def split_beta)

lemma lock_framed_log: "framed lock_step (log_access_p env c u a ok r txt q l)"
  unfolding log_access_p_def by (rule lock_framed_db) simp

lemma lock_framed_current: "framed lock_step current_material_transaction"
  unfolding current_material_transaction_def by (intro locking.framed_bnd locking.framed_basic)

lemmas lock_framed = locking.framed_basic locking.framed_bnd locking.framed_on_exn locking.framed_for_each lock_framed_owner
  lock_framed_log lock_framed_current framed_cases

lemma lock_framed_subjects: "row_locks env \<Longrightarrow> framed lock_step (lock_material_subjects env cs ps)"
  unfolding lock_material_subjects_def declare_on_owner_def lock_policies_def lock_engines_def lock_credentials_def
  by (intro lock_framed lock_framed_acquire)

lemma lock_framed_refresh: "framed lock_step (refresh_material_selectors c)"
  unfolding refresh_material_selectors_def by (intro lock_framed)

lemma read_framed_acquire: "framed (read_step env) (acquire env ls)"
  by (simp add: framed_def acquire_def modify_def read_step_def in_tx_def owner_writes_def others_wait)

lemma read_framed_owner:
  "(\<And>t. mt_attempts (h t) = mt_attempts t \<and> mt_deletions (h t) = mt_deletions t) \<Longrightarrow> framed (read_step env) (update_owner h)"
  by (auto simp: framed_def update_owner_def modify_def read_step_def in_tx_def owner_writes_def split: option.splits)

lemma read_framed_declare: "framed (read_step env) (declare_on_owner kind ids)"
  by (auto simp: framed_def declare_on_owner_def current_material_transaction_def bnd_def gets_def get_or_def ret_def raise_def
      lift_sum_def update_owner_def modify_def declare_graph_def add_graph_def read_step_def in_tx_def owner_writes_def
      split: option.splits sum.splits if_splits)

lemma read_framed_current: "framed (read_step env) current_material_transaction"
  unfolding current_material_transaction_def by (intro reading.framed_bnd reading.framed_basic)

lemmas read_framed = reading.framed_basic reading.framed_bnd reading.framed_on_exn reading.framed_for_each
  read_framed_current framed_cases

lemma read_framed_subjects: "framed (read_step env) (lock_material_subjects env cs ps)"
  unfolding lock_material_subjects_def lock_policies_def lock_engines_def lock_credentials_def
  by (intro read_framed read_framed_acquire read_framed_declare read_framed_owner) simp_all

lemma wp_framed: "framed R m \<Longrightarrow> wp m (\<lambda>_ s'. R s s') (\<lambda>_ s'. R s s') s"
  by (auto simp: wp_def dest: framedD split: prod.splits sum.splits)

lemma wp_acquire [wp_rules]:
  "wp (acquire env ls) Q R s = Q () (s\<lparr>db := e_lock_wait env (locks s) ls (db s),
      committed_db := e_lock_wait env (locks s) ls (committed_db s), locks := locks s @ ls\<rparr>)"
  by (simp add: acquire_def wp_rules)

lemma wp_update_owner [wp_rules]: "wp (update_owner h) Q R s = Q () (s\<lparr>owner := map_option h (owner s)\<rparr>)"
  by (simp add: update_owner_def wp_rules)

lemma map_of_rows_with: "map_of (rows_with t ids) k = (if k \<in> set ids then row t k else None)"
  by (induction ids) (auto simp: rows_with_def map_filter_simps split: option.splits)

lemma wp_pass: "(\<And>x s'. wp (f x) Q (\<lambda>_ _. True) s') \<Longrightarrow> wp (bnd m f) Q (\<lambda>_ _. True) s"
  unfolding wp_bnd by (rule wp_conseq [OF wp_True]) simp_all

text \<open>After the locks: the credential is locked and the returned rows are the current ones.\<close>

lemma wp_lock_subjects:
  assumes "cr_pk c = Some k"
  shows "wp (lock_material_subjects env [c] ps)
     (\<lambda>locked s'. CredentialLock k \<in> set (locks s') \<and> map_of locked k = row (credentials (db s')) k) (\<lambda>_ _. True) s"
proof -
  have tail: "wp (bnd (lock_credentials env ids) (\<lambda>locked.
     bnd (lift_sum (f locked)) (\<lambda>_.
     bnd (update_owner h) (\<lambda>_. ret locked))))
     (\<lambda>locked s'. CredentialLock k \<in> set (locks s') \<and> map_of locked k = row (credentials (db s')) k) (\<lambda>_ _. True) s"
    if "ids = [k]" for ids f s and h :: "'b MaterialTransaction \<Rightarrow> 'b MaterialTransaction"
    using that by (auto simp: lock_credentials_def wp_rules sorted_ids_def map_of_rows_with split: sum.splits)
  have ids: "participant_selectors [c] ps d = Inr (ids, sel, pids) \<Longrightarrow> ids = [k]" for d ids sel pids
    using assms by (auto simp: participant_selectors_def opt_ids_def map_filter_simps Let_def split: if_splits)
  show ?thesis
    unfolding lock_material_subjects_def
    by (auto simp: wp_gets wp_lift_sum wp_bnd [of "gets _"] wp_bnd [of "lift_sum (participant_selectors _ _ _)"] Let_def
        split: sum.splits dest!: ids intro!: wp_pass tail)
qed



lemma wp_tx_body: "wp body Q (\<lambda>_ _. True) s \<Longrightarrow> wp (tx_body env body) Q (\<lambda>_ _. True) s"
  unfolding tx_body_def wp_bnd [of body]
  by (erule wp_conseq) (simp_all add: wp_rules split: sum.splits)

lemma wp_synchronized_body:
  assumes op: "\<And>f s2. in_tx s2 \<Longrightarrow> cr_pk f = Some k \<Longrightarrow> load_credential (db s2) k = Some f \<Longrightarrow>
      CredentialLock k \<in> set (locks s2) \<Longrightarrow> (others env)\<^sup>*\<^sup>* (db s) (db s2) \<Longrightarrow> owner_writes s2 = owner_writes s \<Longrightarrow>
      wp (operation f) (P f) (\<lambda>_ _. True) s2"
    and k: "cr_pk c = Some k" and t: "in_tx s"
  shows "wp (synchronized_body env operation c)
     (\<lambda>y s'. \<exists>d old. (others env)\<^sup>*\<^sup>* (db s) d \<and> load_credential d k = Some old \<and> P old y s') (\<lambda>_ _. True) s"
proof -
  define Q where "Q y s' = (\<exists>d old. (others env)\<^sup>*\<^sup>* (db s) d \<and> load_credential d k = Some old \<and> P old y s')" for y s'
  have l: "wp (lock_material_subjects env [c] [])
     (\<lambda>locked s'. (CredentialLock k \<in> set (locks s') \<and> map_of locked k = row (credentials (db s')) k) \<and> read_step env s s')
     (\<lambda>_ s'. True \<and> read_step env s s') s"
    by (rule wp_conj [OF wp_lock_subjects [OF k] wp_framed [OF read_framed_subjects]])
  have "wp (synchronized_body env operation c) Q (\<lambda>_ _. True) s"
    unfolding synchronized_body_def wp_bnd [of "lock_material_subjects _ _ _"]
  proof (rule wp_conseq [OF l], goal_cases)
    case (1 locked s1)
    then have r: "(others env)\<^sup>*\<^sup>* (db s) (db s1)" "in_tx s1" "owner_writes s1 = owner_writes s"
      using t by (auto simp: read_step_def)
    show ?case
    proof (cases "load_credential (db s1) k")
      case None
      then show ?thesis by (simp add: wp_rules k split: sum.splits)
    next
      case (Some f)
      have "cr_pk f = Some k" using Some by (auto simp: load_credential_def)
      with op [of "s1\<lparr>held := Some f\<rparr>" f] r Some 1
      have "wp (operation f) (P f) (\<lambda>_ _. True) (s1\<lparr>held := Some f\<rparr>)"
        by (simp add: in_tx_def owner_writes_def)
      then have "wp (operation f) Q (\<lambda>_ _. True) (s1\<lparr>held := Some f\<rparr>)"
        by (rule wp_conseq) (use r(1) Some in \<open>auto simp: Q_def\<close>)
      then show ?thesis
        using Some by (simp add: wp_rules k split: sum.splits)
    qed
  qed simp_all
  then show ?thesis by (simp add: Q_def [abs_def])
qed

lemma load_inventory: "same_inventory d d' \<Longrightarrow> load_credential d' k = load_credential d k"
  by (simp add: same_inventory_def load_credential_def)

text \<open>A successful run committed, and what follows the commit is \<open>after_commit\<close>.\<close>

lemma synchronized_commit:
  assumes idle: "owner s = None" "autocommit s"
    and run: "synchronized_material_change env rh action u rq operation c s = (Inr z, s')"
  obtains s1 where "tx_body env (synchronized_body env operation c) (begin_tx env (s\<lparr>held := Some c\<rparr>)) = (Inr z, s1)"
    "e_commit env (db s1) = CommitOk"
    "after_commit env rh (hooks s1) (the_owner env s1) z (leave_tx (db s1) s1) = (Inr z, s')"
proof -
  let ?s = "s\<lparr>held := Some c\<rparr>"
  from idle run have ro: "run_owner env rh (synchronized_body env operation c) ?s = (Inr z, s')"
    by (auto simp: synchronized_material_change_def bnd_def modify_def on_exn_def material_transaction_def gets_def
        log_access_p_def with_db_def raise_def split_beta prod_eq_iff split: sum.splits)
  obtain q s1 where q: "tx_body env (synchronized_body env operation c) (begin_tx env ?s) = (q, s1)" by fastforce
  have unw: "fst (unwind env e b t s2) \<noteq> Inr z" for e b t s2
    by (auto simp: unwind_def bnd_def raise_def split: prod.splits sum.splits)
  obtain y where y: "q = Inr y" "e_commit env (db s1) = CommitOk"
    using ro q unw by (auto simp: run_owner_def split: sum.splits commit_outcome.splits) (metis fst_conv)+
  with ro q have ac: "after_commit env rh (hooks s1) (the_owner env s1) y (leave_tx (db s1) s1) = (Inr z, s')"
    by (simp add: run_owner_def)
  then have "z = y"
    by (auto simp: after_commit_def bnd_def modify_def on_exn_def ret_def Let_def split: prod.splits sum.splits)
  with q y ac show thesis by (intro that) simp_all
qed

lemma synchronized_success:
  assumes op: "\<And>f s2. in_tx s2 \<Longrightarrow> cr_pk f = Some k \<Longrightarrow> load_credential (db s2) k = Some f \<Longrightarrow>
      CredentialLock k \<in> set (locks s2) \<Longrightarrow> (others env)\<^sup>*\<^sup>* (db s) (db s2) \<Longrightarrow> owner_writes s2 = ([], []) \<Longrightarrow>
      wp (operation f) (P f) (\<lambda>_ _. True) s2"
    and hook: "\<And>h. framed log_step (rh h)"
    and k: "cr_pk c = Some k" and idle: "owner s = None" "autocommit s"
    and run: "synchronized_material_change env rh action u rq operation c s = (Inr z, s')"
  obtains d old s1 where "(others env)\<^sup>*\<^sup>* (db s) d" "load_credential d k = Some old" "P old z s1"
    "same_inventory (db s1) (db s')"
    "tx_body env (synchronized_body env operation c) (begin_tx env (s\<lparr>held := Some c\<rparr>)) = (Inr z, s1)"
    "after_commit env rh (hooks s1) (the_owner env s1) z (leave_tx (db s1) s1) = (Inr z, s')"
proof -
  let ?s = "begin_tx env (s\<lparr>held := Some c\<rparr>)"
  obtain s1 where s1: "tx_body env (synchronized_body env operation c) ?s = (Inr z, s1)"
    and ac: "after_commit env rh (hooks s1) (the_owner env s1) z (leave_tx (db s1) s1) = (Inr z, s')"
    by (rule synchronized_commit [OF idle run])
  have "wp (tx_body env (synchronized_body env operation c))
     (\<lambda>y s'. \<exists>d old. (others env)\<^sup>*\<^sup>* (db ?s) d \<and> load_credential d k = Some old \<and> P old y s')
     (\<lambda>_ _. True) ?s"
    by (rule wp_tx_body, rule wp_synchronized_body [OF _ k in_tx_begin(1)]) (simp add: op in_tx_begin begin_tx_def owner_writes_def new_transaction_def)
  from wp_InrD [OF this s1] obtain d old where "(others env)\<^sup>*\<^sup>* (db s) d" "load_credential d k = Some old" "P old z s1"
    by (auto simp: in_tx_begin)
  moreover have "same_inventory (db s1) (db s')"
    using framedD [OF log_framed_after_commit [OF hook] ac] by (simp add: log_step_def leave_tx_def)
  ultimately show thesis using s1 ac that by blast
qed

section \<open>The write path\<close>

lemma wp_get_backend_p [wp_rules]:
  "wp (get_backend_p env eng pol) Q R s =
     (case get_backend (e_backend env) (auth_materials (db s)) eng (Some pol) (ext s) of (b, x) \<Rightarrow> Q b (s\<lparr>ext := x\<rparr>))"
  by (simp add: wp_def get_backend_p_def split: prod.splits)

lemma wp_fk [wp_rules]:
  shows wp_policy: "wp (policy_p c) Q R s = (case policy_of (db s) c of None \<Rightarrow> R ObjectDoesNotExist s | Some p \<Rightarrow> Q p s)"
    and wp_engine: "wp (engine_p c) Q' R s = (case engine_of (db s) c of None \<Rightarrow> R ObjectDoesNotExist s | Some e \<Rightarrow> Q' e s)"
  by (simp_all add: policy_p_def engine_p_def wp_rules split: option.splits)

lemma record_version_copy:
  assumes "record_version now fp n promote act c = (c', names)"
  shows "fold (\<lambda>f. copy_field f c') names c = c'"
  using assms
  by (auto simp: record_version_def record_key_version_def clear_staged_key_def copy_field_def Let_def
      split: if_splits prod.splits)

lemma record_version_frame:
  assumes "record_version now fp n promote act c = (c', names)"
  shows "cr_pk c' = cr_pk c" "cr_path c' = cr_path c" "cr_uuid c' = cr_uuid c" "cr_policy_id c' = cr_policy_id c"
    "cr_kv_version c' = Some n"
    "cr_live_kv_version c' = (if promote then Some n else cr_live_kv_version c)"
    "cr_staged_kv_version c' = (if promote then None else Some n)"
    "cr_status c' = (if act = ACTION_STAGE then STATUS_STAGED else cr_status c)"
    "cr_credential_type c' = cr_credential_type c" "cr_engine_id c' = cr_engine_id c"
  using assms
  by (auto simp: record_version_def record_key_version_def clear_staged_key_def Let_def split: if_splits prod.splits)

lemma copy_field_pk: "(copy_field n src c)\<lparr>cr_pk := x\<rparr> = copy_field n src (c\<lparr>cr_pk := x\<rparr>)"
  by (simp add: copy_field_def)

lemma fold_copy_pk: "(fold (\<lambda>f. copy_field f src) ns c)\<lparr>cr_pk := x\<rparr> = fold (\<lambda>f. copy_field f src) ns (c\<lparr>cr_pk := x\<rparr>)"
  by (induction ns arbitrary: c) (simp_all add: copy_field_pk)

lemma load_save_fields:
  assumes "cr_pk c' = Some k" and "load_credential d k = Some c"
  shows "credential_save_fields names c' d =
     (Inr (), write_row k (fold (\<lambda>f. copy_field f c') names (the (row (credentials d) k))) d)"
    and "load_credential (snd (credential_save_fields names c' d)) k = Some (fold (\<lambda>f. copy_field f c') names c)"
  using assms by (auto simp: credential_save_fields_def load_credential_def fold_copy_pk)

definition db_step :: "('x, 'b) sys \<Rightarrow> ('x, 'b) sys \<Rightarrow> bool" where
  "db_step s s' = (in_tx s \<longrightarrow> in_tx s' \<and> credentials (db s') = credentials (db s))"

interpretation quiet: state_frame db_step
  by unfold_locales (auto simp: db_step_def)

lemma quiet_framed_defer: "framed db_step (defer_custom_metadata env ids)"
  unfolding defer_custom_metadata_def
  by (rule quiet.framed_for_each) (auto simp: framed_def db_step_def on_commit_def in_tx_def)

lemma wp_write_attempt:
  assumes t: "in_tx s" and k: "cr_pk c = Some k" and r: "load_credential (db s) k = Some c"
  shows "wp (write_attempt env c cleaned fp cas u rq act promote)
     (\<lambda>(c', n) s'. (\<exists>names. record_version (e_now env) fp n promote act c = (c', names)) \<and> load_credential (db s') k = Some c')
     (\<lambda>_ _. True) s"
proof -
  have tail: "wp (bnd (try_db (credential_save_fields names c')) (\<lambda>_.
         bnd (defer_custom_metadata env [cr_pk c']) (\<lambda>_.
         bnd (log_access_p env c' u act True [] [] rq True) (\<lambda>audit.
         bnd (update_owner (set_attempt (\<lambda>a. a\<lparr>ma_audit_id := audit\<rparr>))) (\<lambda>_.
         ret (c', n))))))
     (\<lambda>(c', n) s'. (\<exists>names. record_version (e_now env) fp n promote act c = (c', names)) \<and> load_credential (db s') k = Some c')
     (\<lambda>_ _. True) s2"
    if rv: "record_version (e_now env) fp n promote act c = (c', names)" and s2: "in_tx s2" "db s2 = db s" for c' names n s2
  proof -
    have pk: "cr_pk c' = Some k" using record_version_frame(1) [OF rv] k by simp
    let ?s3 = "s2\<lparr>db := snd (credential_save_fields names c' (db s))\<rparr>"
    have "load_credential (db ?s3) k = Some c'"
      using load_save_fields(2) [OF pk r] record_version_copy [OF rv] by simp
    moreover have "wp (defer_custom_metadata env [cr_pk c']) (\<lambda>_. db_step ?s3) (\<lambda>_. db_step ?s3) ?s3"
      by (rule wp_framed [OF quiet_framed_defer])
    ultimately have "wp (defer_custom_metadata env [cr_pk c'])
        (\<lambda>_ s'. load_credential (db s') k = Some c') (\<lambda>_ _. True) ?s3"
      using s2(1) by - (erule wp_conseq, simp_all add: db_step_def in_tx_def load_credential_def)
    then have "wp (bnd (defer_custom_metadata env [cr_pk c']) (\<lambda>_.
         bnd (log_access_p env c' u act True [] [] rq True) (\<lambda>audit.
         bnd (update_owner (set_attempt (\<lambda>a. a\<lparr>ma_audit_id := audit\<rparr>))) (\<lambda>_.
         ret (c', n)))))
       (\<lambda>(c', n) s'. (\<exists>names. record_version (e_now env) fp n promote act c = (c', names)) \<and> load_credential (db s') k = Some c')
       (\<lambda>_ _. True) ?s3"
      unfolding wp_bnd [of "defer_custom_metadata _ _"]
      by (rule wp_conseq) (use rv in \<open>simp_all add: wp_rules load_credential_def\<close>)
    then show ?thesis
      using load_save_fields(1) [OF pk r] s2(2) by (simp add: wp_bnd [of "try_db _"] wp_try_db)
  qed
  have call: "wp (bnd (backend_call env m) (\<lambda>version. bnd (update_owner (h version)) (\<lambda>_.
       case record_version (e_now env) fp version promote act c of (c', names) \<Rightarrow>
         bnd (try_db (credential_save_fields names c')) (\<lambda>_.
         bnd (defer_custom_metadata env [cr_pk c']) (\<lambda>_.
         bnd (log_access_p env c' u act True [] [] rq True) (\<lambda>audit.
         bnd (update_owner (set_attempt (\<lambda>a. a\<lparr>ma_audit_id := audit\<rparr>))) (\<lambda>_.
         ret (c', version))))))))
     (\<lambda>(c', n) s'. (\<exists>names. record_version (e_now env) fp n promote act c = (c', names)) \<and> load_credential (db s') k = Some c')
     (\<lambda>_ _. True) s2"
    if s2: "in_tx s2" "db s2 = db s" for m h s2
    unfolding wp_bnd [of "backend_call _ _"] wp_backend_call
  proof (rule wp_conseq [OF wp_True], goal_cases)
    case (1 n x)
    obtain c' names where rv: "record_version (e_now env) fp n promote act c = (c', names)" by fastforce
    have "in_tx (s2\<lparr>ext := x, owner := map_option (h n) (owner s2)\<rparr>)" using s2(1) by (simp add: in_tx_def)
    from tail [OF rv this] s2(2) rv show ?case by (simp add: wp_bnd [of "update_owner (h n)"] wp_update_owner)
  qed simp
  show ?thesis
    unfolding write_attempt_def wp_bnd [of "engine_p _"] wp_bnd [of "policy_p _"] wp_bnd [of "get_backend_p _ _ _"]
      wp_bnd [of "update_owner (append_attempt _)"] wp_engine wp_policy wp_get_backend_p wp_update_owner
    using t by (auto split: option.splits prod.splits intro!: call simp: in_tx_def)
qed



definition pointers :: "credential \<Rightarrow> nat option \<times> nat option \<times> nat option \<times> credential_status \<times> string \<times> string \<times> nat option \<times> string" where
  "pointers c = (cr_kv_version c, cr_live_kv_version c, cr_staged_kv_version c, cr_status c, cr_path c, cr_uuid c, cr_policy_id c,
     cr_credential_type c)"

definition written ::
  "('x, 'b, 'c) env \<Rightarrow> credential \<Rightarrow> nat \<Rightarrow> nat \<Rightarrow> bool \<Rightarrow> access_action \<Rightarrow> credential \<Rightarrow> bool" where
  "written env f k n promote act c' =
     (\<exists>c fp names. pointers c = pointers f \<and> cr_pk c = Some k \<and>
        record_version (e_now env) fp n promote act c = (c', names))"

lemma full_clean_pointers:
  assumes "credential_full_clean fe d c = Inr c'"
  shows "pointers c' = pointers c" "cr_pk c' = cr_pk c"
  using assms by (auto simp: credential_full_clean_def credential_clean_def Let_def pointers_def split: option.splits if_splits prod.splits)

lemma save_existing:
  assumes "cr_pk c = Some k" and "credential_save cfg now c d = (Inr c', d')"
  shows "pointers c' = pointers c" "cr_pk c' = Some k" "load_credential d' k = Some c'"
  using assms by (auto simp: credential_save_def Let_def pointers_def load_credential_def split: if_splits)

lemma set_metadata_pointers: "pointers (set_metadata m c) = pointers c"
  by (simp add: pointers_def)

lemma take_version_state_same: "take_version_state f (f\<lparr>cr_pk := x\<rparr>) = f\<lparr>cr_pk := x\<rparr>"
  by (simp add: take_version_state_def)

lemma wp_persist:
  assumes "in_tx s" and "cr_pk f = Some k"
  shows "wp (persist_instance env c (Some f) m)
     (\<lambda>c' s'. in_tx s' \<and> load_credential (db s') k = Some c' \<and> cr_pk c' = Some k \<and> pointers c' = pointers f) (\<lambda>_ _. True) s"
  using assms full_clean_pointers [of "e_field_errors env" "db s" "set_metadata m f"]
  by (auto simp: persist_instance_def wp_rules set_metadata_pointers in_tx_def split: sum.splits)
     (use save_existing in \<open>metis prod.collapse set_metadata_frame(1)\<close>)+

lemma wp_lock_subject:
  assumes rl: "row_locks env" and t: "in_tx s" and k: "cr_pk f = Some k" and r: "load_credential (db s) k = Some f"
    and lk: "CredentialLock k \<in> set (locks s)"
  shows "wp (lock_material_subject env (Some f) None)
     (\<lambda>subj s'. subj = Some f \<and> in_tx s' \<and> load_credential (db s') k = Some f) (\<lambda>_ _. True) s"
proof -
  let ?ps = "opt_ids [cr_policy_id f]"
  from r obtain r0 where r0: "row (credentials (db s)) k = Some r0" "f = r0\<lparr>cr_pk := Some k\<rparr>"
    by (auto simp: load_credential_def)
  have "wp (lock_material_subjects env [f] ?ps)
     (\<lambda>locked s'. (CredentialLock k \<in> set (locks s') \<and> map_of locked k = row (credentials (db s')) k) \<and> lock_step s s')
     (\<lambda>_ s'. True \<and> lock_step s s') s"
    by (rule wp_conj [OF wp_lock_subjects [OF k] wp_framed [OF lock_framed_subjects [OF rl]]])
  then have l: "wp (lock_material_subjects env [f] ?ps)
     (\<lambda>locked s'. map_of locked k = Some r0 \<and> in_tx s' \<and> load_credential (db s') k = Some f) (\<lambda>_ _. True) s"
    by (rule wp_conseq) (use t lk r0 in \<open>auto simp: lock_step_def load_credential_def\<close>)
  have same: "take_version_state r0 f = f" using r0(2) take_version_state_same by simp
  show ?thesis
    unfolding lock_material_subject_def option.case k wp_bnd [of "lock_material_subjects _ _ _"]
    by (rule wp_conseq [OF l])
       (auto simp: wp_rules at_key_def same refresh_material_selectors_def split: option.splits)
qed

lemma wp_store_existing:
  assumes rl: "row_locks env" and t: "in_tx s" and k: "cr_pk f = Some k" and r: "load_credential (db s) k = Some f"
    and lk: "CredentialLock k \<in> set (locks s)"
  shows "wp (store_body env (persist_instance env f) ct p cas u rq act (Some f) promote None False)
     (\<lambda>(c', n) s'. written env f k n promote act c' \<and> load_credential (db s') k = Some c')
     (\<lambda>_ _. True) s"
proof -
  have wr: "wp (bnd (refresh_material_selectors c) (\<lambda>_. bnd current_material_transaction (\<lambda>_.
        bnd (update_owner (add_graph ''credential'' (opt_ids [cr_pk c]))) (\<lambda>_.
        write_attempt env c cleaned fp cas u rq act promote))))
     (\<lambda>(c', n) s'. written env f k n promote act c' \<and> load_credential (db s') k = Some c')
     (\<lambda>_ _. True) s2"
    if s2: "in_tx s2" "load_credential (db s2) k = Some c" "cr_pk c = Some k" "pointers c = pointers f" for c cleaned fp s2
  proof -
    have "wp (write_attempt env c cleaned fp cas u rq act promote)
     (\<lambda>(c', n) s'. written env f k n promote act c' \<and> load_credential (db s') k = Some c')
     (\<lambda>_ _. True) (s2\<lparr>owner := ow\<rparr>)" if "ow \<noteq> None" for ow
      by (rule wp_conseq [OF wp_write_attempt [OF _ s2(3)]]) (use s2 that in \<open>auto simp: in_tx_def written_def\<close>)
    with s2(1) show ?thesis
      by (auto simp: wp_rules refresh_material_selectors_def current_material_transaction_def in_tx_def split: option.splits)
  qed
  have lock: "wp (bnd (lock_material_subject env (Some f) None) (\<lambda>subj. bnd (persist_instance env f subj m) (\<lambda>c.
        bnd (refresh_material_selectors c) (\<lambda>_. bnd current_material_transaction (\<lambda>_.
        bnd (update_owner (add_graph ''credential'' (opt_ids [cr_pk c]))) (\<lambda>_.
        write_attempt env c cleaned fp cas u rq act promote))))))
     (\<lambda>(c', n) s'. written env f k n promote act c' \<and> load_credential (db s') k = Some c')
     (\<lambda>_ _. True) s" for m cleaned fp
    unfolding wp_bnd [of "lock_material_subject _ _ _"]
  proof (rule wp_conseq [OF wp_lock_subject [OF rl t k r lk]], elim conjE, goal_cases)
    case (1 subj s1)
    show ?case unfolding 1(1) wp_bnd [of "persist_instance _ _ _ _"]
      by (rule wp_conseq [OF wp_persist [OF 1(2) k]]) (elim conjE, rule wr, simp_all)
  qed simp_all
  show ?thesis
    unfolding store_body_def
    by (auto simp: wp_rules(3) wp_gets wp_lift_sum if_False split: sum.splits prod.splits intro!: lock [unfolded wp_bnd [of "lock_material_subject _ _ _"]])
qed

lemma wp_nested:
  assumes "in_tx s" and "wp body Q (\<lambda>_ _. True) s"
  shows "wp (material_transaction env rh body) Q (\<lambda>_ _. True) s"
proof -
  obtain t where "owner s = Some t" using assms(1) by (auto simp: in_tx_def)
  moreover have "wp (on_exn body (\<lambda>e. bnd (update_owner (\<lambda>t. t\<lparr>mt_failed := True\<rparr>)) (\<lambda>_. raise e))) Q (\<lambda>_ _. True) s"
    unfolding wp_on_exn by (rule wp_conseq [OF assms(2)]) (simp_all add: wp_rules)
  ultimately show ?thesis by (simp add: wp_def material_transaction_def)
qed

lemma wp_write_existing:
  assumes "row_locks env" and "in_tx s" and "cr_pk f = Some k" and "load_credential (db s) k = Some f"
    and "CredentialLock k \<in> set (locks s)"
  shows "wp (write_material env f p cas u rq act promote)
     (\<lambda>(c', n) s'. written env f k n promote act c' \<and> load_credential (db s') k = Some c') (\<lambda>_ _. True) s"
  unfolding write_material_def store_credential_def
  by (rule wp_nested [OF assms(2) wp_store_existing [OF assms]])

lemma lock_framed_enforce: "framed lock_step (enforce_policy_access env c u a rq)"
  unfolding enforce_policy_access_def policy_p_def by (intro lock_framed)

lemma wp_enforce:
  assumes "in_tx s" and "load_credential (db s) k = Some f" and "CredentialLock k \<in> set (locks s)"
  shows "wp (enforce_policy_access env c u a rq)
     (\<lambda>_ s'. in_tx s' \<and> load_credential (db s') k = Some f \<and> CredentialLock k \<in> set (locks s')) (\<lambda>_ _. True) s"
  by (rule wp_conseq [OF wp_framed [OF lock_framed_enforce]])
     (use assms in \<open>auto simp: lock_step_def load_credential_def\<close>)

lemma written_pointers:
  assumes "written env f k n promote act c'"
  shows "cr_kv_version c' = Some n" "cr_live_kv_version c' = (if promote then Some n else cr_live_kv_version f)"
    "cr_staged_kv_version c' = (if promote then None else Some n)"
    "cr_status c' = (if act = ACTION_STAGE then STATUS_STAGED else cr_status f)"
    "cr_path c' = cr_path f" "cr_uuid c' = cr_uuid f" "cr_policy_id c' = cr_policy_id f" "cr_pk c' = Some k"
    "cr_credential_type c' = cr_credential_type f"
  using assms by (auto simp: written_def pointers_def record_version_frame)

lemma wp_rotate:
  assumes "row_locks env" and "in_tx s" and "cr_pk f = Some k" and "load_credential (db s) k = Some f"
    and "CredentialLock k \<in> set (locks s)"
  shows "wp (rotate_body env p u rq f)
     (\<lambda>(c', n) s'. written env f k n True ACTION_ROTATE c' \<and> load_credential (db s') k = Some c') (\<lambda>_ _. True) s"
  unfolding rotate_body_def wp_bnd [of "enforce_policy_access _ _ _ _ _"]
  by (rule wp_conseq [OF wp_enforce [OF assms(2,4,5)]]) (auto intro: wp_write_existing [OF assms(1) _ assms(3)])

definition pinned :: "credential \<Rightarrow> credential" where
  "pinned f = (if cr_live_kv_version f = None then f\<lparr>cr_live_kv_version := cr_kv_version f\<rparr> else f)"

lemma wp_stage:
  assumes "row_locks env" and "in_tx s" and "cr_pk f = Some k" and "load_credential (db s) k = Some f"
    and "CredentialLock k \<in> set (locks s)"
  shows "wp (stage_body env p u rq f)
     (\<lambda>(c', n) s'. \<not> has_staged_version f \<and> written env (pinned f) k n False ACTION_STAGE c' \<and>
        load_credential (db s') k = Some c') (\<lambda>_ _. True) s"
  unfolding stage_body_def wp_bnd [of "enforce_policy_access _ _ _ _ _"]
proof (rule wp_conseq [OF wp_enforce [OF assms(2,4,5)]], goal_cases)
  case (1 x s1)
  have pk: "cr_pk (pinned f) = Some k" using assms(3) by (simp add: pinned_def)
  have nopin: "pinned f = f" if "\<not> (cr_live_kv_version f = None \<and> cr_kv_version f \<noteq> None)"
    using that by (cases f) (auto simp: pinned_def)
  have pin: "pinned f = f\<lparr>cr_live_kv_version := cr_kv_version f\<rparr>" if "cr_live_kv_version f = None"
    using that by (simp add: pinned_def)
  show ?case
  proof (cases "cr_live_kv_version f = None \<and> cr_kv_version f \<noteq> None")
    case True
    let ?d = "snd (credential_save_fields [''live_kv_version''] (pinned f) (db s1))"
    have "load_credential ?d k = Some (pinned f)"
      using load_save_fields(2) [OF pk, of "db s1" f "[''live_kv_version'']"] 1 True by (simp add: copy_field_def pin)
    then have w: "wp (write_material env (pinned f) p (cr_kv_version (pinned f)) u rq ACTION_STAGE False)
       (\<lambda>(c', n) s'. written env (pinned f) k n False ACTION_STAGE c' \<and> load_credential (db s') k = Some c') (\<lambda>_ _. True)
       (s1\<lparr>db := ?d\<rparr>)"
      by (intro wp_write_existing [OF assms(1) _ pk]) (use 1 in \<open>simp_all add: in_tx_def\<close>)
    show ?thesis
      using True 1 w load_save_fields(1) [OF pk, of "db s1" f "[''live_kv_version'']"]
      by (auto simp: wp_rules(3,4,5,7) wp_if wp_try_db Let_def pin [symmetric] elim!: wp_conseq)
  next
    case False
    have w: "wp (write_material env f p (cr_kv_version f) u rq ACTION_STAGE False)
       (\<lambda>(c', n) s'. written env f k n False ACTION_STAGE c' \<and> load_credential (db s') k = Some c') (\<lambda>_ _. True) s1"
      by (intro wp_write_existing [OF assms(1) _ assms(3)]) (use 1 in simp_all)
    show ?thesis
      using False w nopin [OF False]
      by (auto simp: wp_rules wp_if elim!: wp_conseq)
  qed
qed simp



section \<open>Promotion and discard\<close>

text \<open>The request holds the lock of a row, and sees it as \<open>f\<close>.\<close>

definition holds_row :: "nat \<Rightarrow> credential \<Rightarrow> ('x, 'b) sys \<Rightarrow> bool" where
  "holds_row k f s = (in_tx s \<and> load_credential (db s) k = Some f \<and> CredentialLock k \<in> set (locks s))"

lemma wp_keep:
  assumes "framed lock_step m" and "holds_row k f s" and "\<And>x s'. holds_row k f s' \<Longrightarrow> wp (g x) Q (\<lambda>_ _. True) s'"
  shows "wp (bnd m g) Q (\<lambda>_ _. True) s"
  unfolding wp_bnd
  by (rule wp_conseq [OF wp_framed [OF assms(1)]])
     (use assms(2) in \<open>auto simp: holds_row_def lock_step_def load_credential_def intro!: assms(3)\<close>)

lemma lock_framed_parts:
  "framed lock_step (policy_p c)" "framed lock_step (engine_p c)" "framed lock_step (get_backend_p env eng pol)"
  "framed lock_step (backend_call env m)"
  unfolding policy_p_def engine_p_def
  by (intro lock_framed)+ (simp_all add: framed_def lock_step_def in_tx_def get_backend_p_def backend_call_def on_ext_def split_beta)

lemma lock_framed_audited: "framed lock_step m \<Longrightarrow> framed lock_step (audited_call env c u a r rq l m)"
  unfolding audited_call_def by (intro lock_framed)

text \<open>Saving the named fields of a changed instance whose other columns are the stored ones.\<close>

lemma wp_save_held:
  assumes "holds_row k f s" and "cr_pk c' = Some k" and "fold (\<lambda>n. copy_field n c') names f = c'"
    and "\<And>s'. holds_row k c' s' \<Longrightarrow> wp (g ()) Q (\<lambda>_ _. True) s'"
  shows "wp (bnd (try_db (credential_save_fields names c')) g) Q (\<lambda>_ _. True) s"
proof -
  have "load_credential (db s) k = Some f" using assms(1) by (simp add: holds_row_def)
  note l = load_save_fields [OF assms(2) this, of names]
  let ?s = "s\<lparr>db := snd (credential_save_fields names c' (db s))\<rparr>"
  have "holds_row k c' ?s" using assms(1,3) l(2) by (simp add: holds_row_def in_tx_def)
  from assms(4) [OF this] show ?thesis unfolding wp_bnd wp_try_db using l(1) by simp
qed

lemma promoted_copy:
  assumes "promoted now c = (c', names)"
  shows "fold (\<lambda>n. copy_field n c') names c = c'" "cr_pk c' = cr_pk c"
  using assms
  by (auto simp: promoted_def promote_key_identity_def record_key_version_def clear_staged_key_def copy_field_def Let_def
      split: if_splits)

lemma discarded_copy:
  assumes "discarded c = (c', names)"
  shows "fold (\<lambda>n. copy_field n c') names c = c'" "cr_pk c' = cr_pk c"
  using assms by (auto simp: discarded_def clear_staged_key_def copy_field_def)

lemma wp_promote:
  assumes h: "holds_row k f s" and k: "cr_pk f = Some k"
  shows "wp (promote_body env u rq verified txt f)
     (\<lambda>y s'. has_staged_version f \<and> y = fst (promoted (e_now env) f) \<and> load_credential (db s') k = Some y) (\<lambda>_ _. True) s"
proof -
  obtain c' names where p: "promoted (e_now env) f = (c', names)" by fastforce
  note c' = promoted_copy [OF p]
  define Q where "Q y s' = (has_staged_version f \<and> y = c' \<and> load_credential (db s') k = Some y)"
    for y and s' :: "('a, 'b) sys"
  have tail: "wp (bnd (try_db (credential_save_fields names c')) (\<lambda>_.
         bnd (log_access_p env c' u ACTION_PROMOTE True rs [] rq True) (\<lambda>_. ret c'))) Q (\<lambda>_ _. True) s1"
    if "holds_row k f s1" "has_staged_version f" for s1 rs
    by (rule wp_save_held [OF that(1)], simp add: c' k, simp add: c', rule wp_keep [OF lock_framed_log], assumption)
       (simp add: wp_rules holds_row_def that(2) p Q_def)
  have body: "wp (bnd (engine_p f) (\<lambda>eng. bnd (policy_p f) (\<lambda>pol. bnd (get_backend_p env eng pol) (\<lambda>b.
      bnd (audited_call env f u ACTION_PROMOTE [] rq True (backend_call env (m b))) (\<lambda>vs.
      bnd (if P vs then ret () else bnd (log_access_p env f u ACTION_PROMOTE False [] msg rq True) (\<lambda>_. raise e)) (\<lambda>_.
      bnd (try_db (credential_save_fields names c')) (\<lambda>_.
         bnd (log_access_p env c' u ACTION_PROMOTE True rs [] rq True) (\<lambda>_. ret c')))))))) Q (\<lambda>_ _. True) s1"
    if "holds_row k f s1" "has_staged_version f" for s1 rs msg e and m :: "'b \<Rightarrow> backend_ctx \<Rightarrow> ('a, exn, version_info list) sem" and P
    by (rule wp_keep [OF lock_framed_parts(2) that(1)], rule wp_keep [OF lock_framed_parts(1)], assumption,
        rule wp_keep [OF lock_framed_parts(3)], assumption,
        rule wp_keep [OF lock_framed_audited [OF lock_framed_parts(4)]], assumption,
        rule wp_keep [rotated], assumption, erule tail [OF _ that(2)], intro lock_framed)
  have "wp (promote_body env u rq verified txt f) Q (\<lambda>_ _. True) s"
    unfolding promote_body_def p prod.case
    by (rule wp_keep [OF lock_framed_enforce h], unfold wp_bnd [of "check _ _"] wp_check) (simp add: body)
  then show ?thesis by (rule wp_conseq) (simp_all add: Q_def p)
qed

lemma wp_discard:
  assumes h: "holds_row k f s" and k: "cr_pk f = Some k"
  shows "wp (discard_body env u rq f)
     (\<lambda>y s'. has_staged_version f \<and> y = fst (discarded f) \<and> load_credential (db s') k = Some y) (\<lambda>_ _. True) s"
proof -
  obtain c' names where p: "discarded f = (c', names)" by fastforce
  note c' = discarded_copy [OF p]
  define Q where "Q y s' = (has_staged_version f \<and> y = c' \<and> load_credential (db s') k = Some y)"
    for y and s' :: "('a, 'b) sys"
  have body: "wp (bnd (engine_p f) (\<lambda>eng. bnd (policy_p f) (\<lambda>pol. bnd (get_backend_p env eng pol) (\<lambda>b.
         bnd (try_db (credential_save_fields names c')) (\<lambda>_.
         bnd (log_access_p env c' u ACTION_DISCARD False rs msg rq True) (\<lambda>audit.
         bnd current_material_transaction (\<lambda>_. bnd (update_owner (g b audit)) (\<lambda>_. ret c'))))))))
       Q (\<lambda>_ _. True) s1"
    if "holds_row k f s1" "has_staged_version f" for s1 rs msg g
    by (rule wp_keep [OF lock_framed_parts(2) that(1)], rule wp_keep [OF lock_framed_parts(1)], assumption,
        rule wp_keep [OF lock_framed_parts(3)], assumption,
        rule wp_save_held, assumption, simp add: c' k, simp add: c', rule wp_keep [OF lock_framed_log], assumption,
        rule wp_keep [OF lock_framed_current], assumption, rule wp_keep [OF lock_framed_owner], assumption)
       (simp add: wp_rules holds_row_def that(2) p Q_def)
  have "wp (discard_body env u rq f) Q (\<lambda>_ _. True) s"
    unfolding discard_body_def p prod.case
  proof (rule wp_keep [OF lock_framed_enforce h], unfold wp_bnd [of "get_or _ _"] wp_get_or, goal_cases)
    case (1 x s1)
    show ?case
    proof (cases "cr_staged_kv_version f")
      case (Some v)
      show ?thesis unfolding Some option.case
        using body [OF 1, of "''discarded version '' @ digits v" "''Staged pointer cleared; exact-version cleanup is pending commit.''"
          "\<lambda>b audit t. t\<lparr>mt_deletions := mt_deletions t @
                [\<lparr>ma_credential = c', ma_backend = b, ma_path = cr_path c', ma_user = u, ma_action = ACTION_DISCARD,
                  ma_version = Some v, ma_audit_id = audit\<rparr>]\<rparr>"] by (simp add: has_staged_version_def Some)
    qed simp
  qed
  then show ?thesis by (rule wp_conseq) (simp_all add: Q_def p)
qed

section \<open>The committed row\<close>

lemma written_pinned:
  assumes "written env (pinned f) k n False ACTION_STAGE c'"
  shows "cr_kv_version c' = Some n" "cr_staged_kv_version c' = Some n" "cr_status c' = STATUS_STAGED"
    "cr_live_kv_version c' = (case cr_live_kv_version f of None \<Rightarrow> cr_kv_version f | Some m \<Rightarrow> Some m)"
    "cr_path c' = cr_path f" "cr_uuid c' = cr_uuid f" "cr_policy_id c' = cr_policy_id f"
  using written_pointers [OF assms] by (auto simp: pinned_def split: option.splits if_splits)

lemma promoted_row:
  assumes "promoted now f = (c', names)"
  shows "cr_live_kv_version c' = cr_staged_kv_version f" "cr_staged_kv_version c' = None" "cr_status c' = STATUS_ACTIVE"
    "cr_kv_version c' = cr_kv_version f" "cr_path c' = cr_path f" "cr_engine_id c' = cr_engine_id f"
  using assms
  by (auto simp: promoted_def promote_key_identity_def record_key_version_def clear_staged_key_def Let_def split: if_splits)

lemma discarded_row:
  "cr_live_kv_version (fst (discarded f)) = cr_live_kv_version f" "cr_staged_kv_version (fst (discarded f)) = None"
  "cr_status (fst (discarded f)) = STATUS_ACTIVE" "cr_kv_version (fst (discarded f)) = cr_kv_version f"
  "cr_path (fst (discarded f)) = cr_path f" "cr_engine_id (fst (discarded f)) = cr_engine_id f"
  by (simp_all add: discarded_def clear_staged_key_def)

lemma promote_result:
  assumes k: "cr_pk c = Some k" and idle: "owner s = None" "autocommit s"
    and run: "promote_staged env c u rq verified txt s = (Inr c', s')"
  shows "\<exists>d old. (others env)\<^sup>*\<^sup>* (db s) d \<and> load_credential d k = Some old \<and> has_staged_version old \<and>
     c' = fst (promoted (e_now env) old) \<and> load_credential (db s') k = Some c'"
proof (rule synchronized_success [where P = "\<lambda>f y s3. has_staged_version f \<and> y = fst (promoted (e_now env) f) \<and>
      load_credential (db s3) k = Some y", OF _ log_framed_hook k idle run [unfolded promote_staged_def]], goal_cases)
  case (1 f s2)
  then show ?case by (intro wp_promote) (simp_all add: holds_row_def)
next
  case (2 d old s1)
  then show ?case using load_inventory [OF 2(4), of k] by (intro exI [of _ d] exI [of _ old]) auto
qed

text \<open>When the commit is refused, the tables are as the other transactions left them.\<close>

lemma synchronized_refused:
  assumes op: "\<And>f. framed (tx_step env) (operation f)" and idle: "owner s = None" "autocommit s"
    and ref: "\<forall>d. e_commit env d = CommitRejected"
    and s': "s' = snd (synchronized_material_change env (run_hook env) act u rq operation c s)"
  shows "\<exists>d. (others env)\<^sup>*\<^sup>* (db s) d \<and> same_inventory d (db s')"
proof -
  obtain r where "synchronized_material_change env (run_hook env) act u rq operation c s = (r, s')"
    using s' by (metis prod.collapse)
  from synchronized_atomic [OF op log_framed_hook idle this] ref show ?thesis by auto
qed

end
