(* ===== verification/Stored_Material.thy ===== *)
theory Stored_Material
  imports Rotation
begin

text \<open>
  Where the row's version pointers and the stored secrets meet, inside the interface
  \<open>material_backend\<close>: a successful write leaves the validated payload readable under the version the
  row records (\<open>synchronized_stored\<close>), a discard deletes at most the version that was staged
  (\<open>discard_outcome\<close>), and a reveal returns the payload of the version it resolves
  (\<open>reveal_value\<close>).
\<close>

section \<open>Writing\<close>

text \<open>A computation of the transaction that leaves the secrets and the engines alone.\<close>

definition still_step :: "('x, 'b) sys \<Rightarrow> ('x, 'b) sys \<Rightarrow> bool" where
  "still_step s s' = (in_tx s \<longrightarrow> in_tx s' \<and> ext s' = ext s \<and> engines (db s') = engines (db s))"

interpretation still: state_frame still_step
  by unfold_locales (auto simp: still_step_def)

lemma still_framed_basic:
  "framed still_step (log_access_p env c u a ok r txt q l)" "framed still_step (update_owner h)"
  "framed still_step (try_db (credential_save_fields ns c))" "framed still_step (on_commit rh hk)"
  by (auto simp: framed_def still_step_def in_tx_def log_access_p_def with_db_def try_db_def update_owner_def modify_def
      on_commit_def engines_save_fields split_beta)

lemma still_framed_defer: "framed still_step (defer_custom_metadata env ids)"
  unfolding defer_custom_metadata_def by (intro still.framed_for_each still_framed_basic)

lemma still_framed_tail:
  "framed still_step (bnd (try_db (credential_save_fields names c')) (\<lambda>_.
         bnd (defer_custom_metadata env [cr_pk c']) (\<lambda>_.
         bnd (log_access_p env c' u action True [] [] request True) (\<lambda>audit.
         bnd (update_owner (set_attempt (\<lambda>a. a\<lparr>ma_audit_id := audit\<rparr>))) (\<lambda>_.
         ret (c', version))))))"
  by (intro still.framed_bnd still.framed_basic still_framed_basic still_framed_defer)

context material_backend
begin

lemma body_synchronized: "(\<And>f. framed body_step (operation f)) \<Longrightarrow> framed body_step (synchronized_body env operation c)"
  unfolding synchronized_body_def
  by (intro body_framed calm_body [OF calm_subjects] body.framed_modify body_calm)
     (simp_all add: calm_step_def in_tx_def owner_writes_def)

text \<open>The backend's version \<open>n\<close> of the row \<open>c\<close> holds the payload \<open>d\<close>, at the location of its engine.\<close>

definition in_store :: "credential \<Rightarrow> nat \<Rightarrow> payload \<Rightarrow> ('x, 'b) sys \<Rightarrow> bool" where
  "in_store c n d s =
     (\<exists>eng l. engine_of (db s) c = Some eng \<and> target eng = Some l \<and> data (ext s) l (cr_path c) n = Some d)"

text \<open>The row fields an update of the version pointers leaves alone.\<close>

lemma in_store_same:
  "in_store c n d s \<Longrightarrow> cr_engine_id c' = cr_engine_id c \<Longrightarrow> cr_path c' = cr_path c \<Longrightarrow>
   engines (db s') = engines (db s) \<Longrightarrow> same_store (ext s) (ext s') \<Longrightarrow> in_store c' n d s'"
  by (auto simp: in_store_def engine_of_def same_store_def)

lemma wp_write_stored:
  assumes t: "in_tx s" and v: "versioned target (db s)"
  shows "wp (write_attempt env c cleaned fp cas u rq act promote) (\<lambda>(c', n) s'. in_store c' n cleaned s') (\<lambda>_ _. True) s"
proof -
  have call: "wp (bnd (backend_call env (\<lambda>ctx. b_write (e_backend env) ctx b (cr_path c) cleaned cas)) (\<lambda>version.
       bnd (update_owner (h version)) (\<lambda>_.
       case record_version (e_now env) fp version promote act c of (c', names) \<Rightarrow>
         bnd (try_db (credential_save_fields names c')) (\<lambda>_.
         bnd (defer_custom_metadata env [cr_pk c']) (\<lambda>_.
         bnd (log_access_p env c' u act True [] [] rq True) (\<lambda>audit.
         bnd (update_owner (set_attempt (\<lambda>a. a\<lparr>ma_audit_id := audit\<rparr>))) (\<lambda>_.
         ret (c', version)))))))) (\<lambda>(c', n) s'. in_store c' n cleaned s') (\<lambda>_ _. True) s2"
    if s2: "in_tx s2" "loc b (ext s2) = Some l" "engine_of (db s2) c = Some eng" "target eng = Some l" for b l eng h s2
  proof -
    obtain rw x where w: "b_write (e_backend env) (backend_context env (db s2)) b (cr_path c) cleaned cas (ext s2) = (rw, x)"
      by fastforce
    show ?thesis
    proof (cases rw)
      case (Inl e)
      with w show ?thesis by (simp add: wp_bnd [of "backend_call _ _"] wp_backend_call wp_def [of "b_write _ _ _ _ _ _"])
    next
      case (Inr n)
      obtain c' names where rv: "record_version (e_now env) fp n promote act c = (c', names)" by fastforce
      have eng: "cr_engine_id c' = cr_engine_id c"
        using rv by (auto simp: record_version_def record_key_version_def clear_staged_key_def Let_def split: if_splits prod.splits)
      let ?s3 = "s2\<lparr>ext := x, owner := map_option (h n) (owner s2)\<rparr>"
      have i: "in_store c n cleaned ?s3"
        using write_data [OF s2(2) w [unfolded Inr]] s2(3,4) by (simp add: in_store_def data_def)
      have "wp (bnd (try_db (credential_save_fields names c')) (\<lambda>_.
         bnd (defer_custom_metadata env [cr_pk c']) (\<lambda>_.
         bnd (log_access_p env c' u act True [] [] rq True) (\<lambda>audit.
         bnd (update_owner (set_attempt (\<lambda>a. a\<lparr>ma_audit_id := audit\<rparr>))) (\<lambda>_.
         ret (c', n)))))) (\<lambda>y s'. y = (c', n) \<and> still_step ?s3 s') (\<lambda>_ s'. still_step ?s3 s') ?s3"
        using framedD [OF still_framed_tail, of names c' env u act rq n ?s3]
        by (auto simp: wp_def bnd_def ret_def split: prod.splits sum.splits)
      then have "wp (bnd (try_db (credential_save_fields names c')) (\<lambda>_.
         bnd (defer_custom_metadata env [cr_pk c']) (\<lambda>_.
         bnd (log_access_p env c' u act True [] [] rq True) (\<lambda>audit.
         bnd (update_owner (set_attempt (\<lambda>a. a\<lparr>ma_audit_id := audit\<rparr>))) (\<lambda>_.
         ret (c', n)))))) (\<lambda>(c', n) s'. in_store c' n cleaned s') (\<lambda>_ _. True) ?s3"
        by (rule wp_conseq)
           (use s2(1) i in_store_same [OF i] record_version_frame [OF rv] eng same_store_refl in \<open>auto simp: still_step_def in_tx_def\<close>)
      with w Inr rv show ?thesis
        by (simp add: wp_bnd [of "backend_call _ _"] wp_backend_call wp_def [of "b_write _ _ _ _ _ _"]
            wp_bnd [of "update_owner (h n)"] wp_update_owner)
    qed
  qed
  show ?thesis
  proof (cases "engine_of (db s) c")
    case None
    then show ?thesis by (simp add: write_attempt_def wp_bnd [of "engine_p _"] wp_engine)
  next
    case (Some eng)
    from v Some obtain l where l: "target eng = Some l" by (rule versioned_engine_of)
    have "wp (bnd (get_backend_p env eng pol) (\<lambda>b. bnd (update_owner (f b)) (\<lambda>_.
       bnd (backend_call env (\<lambda>ctx. b_write (e_backend env) ctx b (cr_path c) cleaned cas)) (\<lambda>version.
       bnd (update_owner (h version)) (\<lambda>_.
       case record_version (e_now env) fp version promote act c of (c', names) \<Rightarrow>
         bnd (try_db (credential_save_fields names c')) (\<lambda>_.
         bnd (defer_custom_metadata env [cr_pk c']) (\<lambda>_.
         bnd (log_access_p env c' u act True [] [] rq True) (\<lambda>audit.
         bnd (update_owner (set_attempt (\<lambda>a. a\<lparr>ma_audit_id := audit\<rparr>))) (\<lambda>_.
         ret (c', version)))))))))) (\<lambda>(c', n) s'. in_store c' n cleaned s') (\<lambda>_ _. True) s" for pol f h
    proof -
      obtain b x where g: "get_backend (e_backend env) (auth_materials (db s)) eng (Some pol) (ext s) = (b, x)" by fastforce
      have "loc b x = Some l" using new_target [OF g [unfolded get_backend_def]] l by simp
      with t Some l show ?thesis
        unfolding wp_bnd [of "get_backend_p _ _ _"] wp_get_backend_p g prod.case wp_bnd [of "update_owner (f b)"] wp_update_owner
        by (intro call [where l = l and eng = eng]) (auto simp: in_tx_def)
    qed
    with Some show ?thesis
      by (simp add: write_attempt_def wp_bnd [of "engine_p _"] wp_engine wp_bnd [of "policy_p _"] wp_policy split: option.split)
  qed
qed

lemma wp_calm:
  assumes "framed (calm_step target) m" and "in_tx s" and "versioned target (db s)"
    and "\<And>x s'. in_tx s' \<Longrightarrow> versioned target (db s') \<Longrightarrow> wp (g x) Q (\<lambda>_ _. True) s'"
  shows "wp (bnd m g) Q (\<lambda>_ _. True) s"
  unfolding wp_bnd by (rule wp_conseq [OF wp_framed [OF assms(1)]]) (use assms(2-4) in \<open>auto simp: calm_step_def\<close>)

text \<open>What \<open>store_credential\<close> wrote is the validated payload.\<close>

definition wrote :: "string \<Rightarrow> json \<Rightarrow> credential \<times> nat \<Rightarrow> ('x, 'b) sys \<Rightarrow> bool" where
  "wrote ct p y s = (\<exists>d cleaned md. prepare_material env d ct p = Inr (cleaned, md) \<and> in_store (fst y) (snd y) cleaned s)"

lemma wp_store_stored:
  assumes t: "in_tx s" and v: "versioned target (db s)" and p: "\<And>subj m. framed (calm_step target) (persist subj m)"
  shows "wp (store_body env persist ct pl cas u rq act subject promote tp pre) (wrote ct pl) (\<lambda>_ _. True) s"
proof -
  have wr: "wp (write_attempt env c cleaned fp cas u rq act promote) (wrote ct pl) (\<lambda>_ _. True) s1"
    if "in_tx s1" "versioned target (db s1)" "prepare_material env d ct pl = Inr (cleaned, md)" for c cleaned fp s1 d md
    by (rule wp_conseq [OF wp_write_stored [OF that(1,2)]]) (use that(3) in \<open>auto simp: wrote_def, blast\<close>)
  have graph: "framed (calm_step target) (update_owner (add_graph kd ids))" for kd ids
    by (rule calm_owner) (simp add: add_graph_def)
  show ?thesis
    unfolding store_body_def
    by (auto simp: wp_bnd [of "gets _"] wp_gets wp_bnd [of "lift_sum _"] wp_lift_sum split: sum.splits
        intro!: wp_calm [OF calm.framed_basic(1)] wp_calm [OF calm_subject] wp_calm [OF p] wp_calm [OF calm_refresh] wp_calm [OF calm_current]
        wp_calm [OF graph] wr t v)
qed

lemma wp_material_stored:
  assumes "in_tx s" and "versioned target (db s)"
  shows "wp (write_material env c p cas u rq act promote) (wrote (cr_credential_type c) p) (\<lambda>_ _. True) s"
  unfolding write_material_def store_credential_def
  by (rule wp_nested [OF assms(1) wp_store_stored [OF assms calm_persist]])

lemma wp_rotate_stored:
  assumes "in_tx s" and "versioned target (db s)"
  shows "wp (rotate_body env p u rq c) (wrote (cr_credential_type c) p) (\<lambda>_ _. True) s"
  unfolding rotate_body_def by (intro wp_calm [OF calm_enforce] wp_material_stored assms)

lemma wp_stage_stored:
  assumes "in_tx s" and "versioned target (db s)"
  shows "wp (stage_body env p u rq c) (wrote (cr_credential_type c) p) (\<lambda>_ _. True) s"
proof -
  have pin: "framed (calm_step target) (if b then try_db (credential_save_fields ns c') else ret ())" for b ns c'
    by (intro framed_if calm_db(2) engines_save_fields calm.framed_basic)
  have w: "wp (write_material env c' p (cr_kv_version c') u rq ACTION_STAGE False) (wrote (cr_credential_type c) p) (\<lambda>_ _. True) s1"
    if "in_tx s1" "versioned target (db s1)" "cr_credential_type c' = cr_credential_type c" for c' s1
    using wp_material_stored [OF that(1,2), of c'] that(3) by simp
  show ?thesis
    unfolding stage_body_def Let_def
    by (intro wp_calm [OF calm_enforce] wp_calm [OF calm.framed_basic(4)] wp_calm [OF pin] assms) (assumption | rule w | simp)+
qed

text \<open>After a commit that deferred no deletion only metadata is published.\<close>

lemma after_commit_same:
  assumes body: "framed body_step body" and v: "versioned target (db s)"
    and run: "tx_body env body (begin_tx env s) = (Inr z, s1)"
    and ac: "after_commit env (run_hook env) (hooks s1) (the_owner env s1) z (leave_tx (db s1) s1) = (Inr z, s')"
  shows "same_store (ext s1) (ext s')"
proof -
  have b: "body_step (begin_tx env s) s1" by (rule framedD [OF tx_body_step [OF body] run])
  have i: "in_tx (begin_tx env s)" "versioned target (db (begin_tx env s))" using v by (simp_all add: in_tx_begin)
  obtain ks where s1: "versioned target (db s1)" "snd (owner_writes s1) = []" "hooks s1 = map PublishMetadata ks" "in_tx s1"
    by (rule body_stepE [OF b i]) (auto simp: begin_tx_def owner_writes_def new_transaction_def)
  from s1(2,4) have del: "mt_deletions (the_owner env s1) = []"
    by (auto simp: owner_writes_def the_owner_def in_tx_def)
  let ?s2 = "leave_tx (db s1) s1\<lparr>owner := Some ((the_owner env s1)\<lparr>mt_committed := True\<rparr>)\<rparr>"
  obtain h s3 where h: "for_each (run_hook env) (hooks s1) ?s2 = (h, s3)" by fastforce
  have same: "same_store (ext s1) (ext s3)"
    using framedD [OF hooks_step, of ks ?s2 h s3] h s1(1,3) by (simp add: hook_step_def leave_tx_def)
  note ac' = ac [unfolded after_commit_def Let_def]
  show ?thesis
  proof (cases h)
    case (Inl e)
    with h ac' have False
      by (auto simp: bnd_def modify_def on_exn_def unwind_def raise_def split: prod.splits sum.splits)
    then show ?thesis ..
  next
    case (Inr u)
    with h ac' del have "ext s' = ext s3"
      by (auto simp: bnd_def modify_def on_exn_def finish_deletions_def check_def ret_def split: prod.splits)
    with same show ?thesis by simp
  qed
qed

text \<open>A synchronized write that succeeds leaves the submitted payload readable under its version.\<close>

lemma wait_versioned_rtranclp: "(others env)\<^sup>*\<^sup>* d d' \<Longrightarrow> versioned target d \<Longrightarrow> versioned target d'"
  by (induction rule: rtranclp_induct) (auto simp: others_def intro: wait_versioned)

lemma synchronized_stored:
  assumes row: "\<And>f s2. in_tx s2 \<Longrightarrow> cr_pk f = Some k \<Longrightarrow> load_credential (db s2) k = Some f \<Longrightarrow>
      CredentialLock k \<in> set (locks s2) \<Longrightarrow> wp (operation f) (\<lambda>y s3. P f y (load_credential (db s3) k)) (\<lambda>_ _. True) s2"
    and op: "\<And>f s2. in_tx s2 \<Longrightarrow> versioned target (db s2) \<Longrightarrow> wp (operation f) (wrote (cr_credential_type f) p) (\<lambda>_ _. True) s2"
    and fr: "\<And>f. framed body_step (operation f)" and v: "versioned target (db s)"
    and k: "cr_pk c = Some k" and idle: "owner s = None" "autocommit s"
    and run: "synchronized_material_change env (run_hook env) act u rq operation c s = (Inr z, s')"
  shows "\<exists>d old. (others env)\<^sup>*\<^sup>* (db s) d \<and> load_credential d k = Some old \<and>
     P old z (load_credential (db s') k) \<and> wrote (cr_credential_type old) p z s'"
proof -
  define Q where "Q f y s3 = (P f y (load_credential (db s3) k) \<and> wrote (cr_credential_type f) p y s3)" for f y s3
  have op': "wp (operation f) (Q f) (\<lambda>_ _. True) s2"
    if s2: "in_tx s2" "cr_pk f = Some k" "load_credential (db s2) k = Some f" "CredentialLock k \<in> set (locks s2)"
      "(others env)\<^sup>*\<^sup>* (db s) (db s2)" for f s2
    by (rule wp_conseq [OF wp_conj [OF row [OF s2(1-4)] op [OF s2(1) wait_versioned_rtranclp [OF s2(5) v]]]])
       (simp_all add: Q_def)
  obtain d old s1 where o: "(others env)\<^sup>*\<^sup>* (db s) d" "load_credential d k = Some old" "Q old z s1" "same_inventory (db s1) (db s')"
    and t: "tx_body env (synchronized_body env operation c) (begin_tx env (s\<lparr>held := Some c\<rparr>)) = (Inr z, s1)"
    and ac: "after_commit env (run_hook env) (hooks s1) (the_owner env s1) z (leave_tx (db s1) s1) = (Inr z, s')"
    by (rule synchronized_success [where P = Q, OF _ log_framed_hook k idle run]) (auto intro: op')
  have "same_store (ext s1) (ext s')"
    using after_commit_same [OF body_synchronized [OF fr] _ t ac] v by simp
  then have "wrote (cr_credential_type old) p z s'"
    using o(3,4) by (auto simp: Q_def wrote_def same_inventory_def intro: in_store_same)
  with o show ?thesis by (auto simp: Q_def load_inventory)
qed

lemma rotate_result:
  assumes rl: "row_locks env" and v: "versioned target (db s)" and k: "cr_pk c = Some k" and idle: "owner s = None" "autocommit s"
    and run: "rotate_material env c p u rq s = (Inr (c', n), s')"
  shows "\<exists>d old. (others env)\<^sup>*\<^sup>* (db s) d \<and> load_credential d k = Some old \<and> written env old k n True ACTION_ROTATE c' \<and>
     load_credential (db s') k = Some c' \<and> wrote (cr_credential_type old) p (c', n) s'"
proof -
  have "wp (rotate_body env p u rq f) (\<lambda>y s3. case y of (c', n) \<Rightarrow> written env f k n True ACTION_ROTATE c' \<and>
      load_credential (db s3) k = Some c') (\<lambda>_ _. True) s2"
    if "in_tx s2" "cr_pk f = Some k" "load_credential (db s2) k = Some f" "CredentialLock k \<in> set (locks s2)" for f s2
    by (rule wp_conseq [OF wp_rotate [OF rl that]]) auto
  from synchronized_stored [where P = "\<lambda>f y r. case y of (c', n) \<Rightarrow> written env f k n True ACTION_ROTATE c' \<and> r = Some c'",
      OF this wp_rotate_stored body_rotate v k idle run [unfolded rotate_material_def]]
  show ?thesis unfolding prod.case conj_assoc .
qed

lemma stage_result:
  assumes rl: "row_locks env" and v: "versioned target (db s)" and k: "cr_pk c = Some k" and idle: "owner s = None" "autocommit s"
    and run: "stage_material env c p u rq s = (Inr (c', n), s')"
  shows "\<exists>d old. (others env)\<^sup>*\<^sup>* (db s) d \<and> load_credential d k = Some old \<and> \<not> has_staged_version old \<and>
     written env (pinned old) k n False ACTION_STAGE c' \<and>
     load_credential (db s') k = Some c' \<and> wrote (cr_credential_type old) p (c', n) s'"
proof -
  have "wp (stage_body env p u rq f) (\<lambda>y s3. case y of (c', n) \<Rightarrow> \<not> has_staged_version f \<and> written env (pinned f) k n False ACTION_STAGE c' \<and>
      load_credential (db s3) k = Some c') (\<lambda>_ _. True) s2"
    if "in_tx s2" "cr_pk f = Some k" "load_credential (db s2) k = Some f" "CredentialLock k \<in> set (locks s2)" for f s2
    by (rule wp_conseq [OF wp_stage [OF rl that]]) auto
  from synchronized_stored [where P = "\<lambda>f y r. case y of (c', n) \<Rightarrow> \<not> has_staged_version f \<and>
      written env (pinned f) k n False ACTION_STAGE c' \<and> r = Some c'",
      OF this wp_stage_stored body_stage v k idle run [unfolded stage_material_def]]
  show ?thesis unfolding prod.case conj_assoc .
qed

section \<open>Discarding\<close>

text \<open>Until the commit a discard touches no secret and issues no version; it only defers deletions,
  each on a valid handle.\<close>

definition defer_step :: "('x, 'b) sys \<Rightarrow> ('x, 'b) sys \<Rightarrow> bool" where
  "defer_step s s' = (in_tx s \<and> versioned target (db s) \<longrightarrow>
     in_tx s' \<and> versioned target (db s') \<and> same_store (ext s) (ext s') \<and> hooks s' = hooks s \<and>
     fst (owner_writes s') = fst (owner_writes s) \<and>
     (\<exists>new. snd (owner_writes s') = snd (owner_writes s) @ new \<and> list_all (\<lambda>(b, _). loc b (ext s') \<noteq> None) new))"

lemma defer_idle: "\<not> (in_tx s \<and> versioned target (db s)) \<Longrightarrow> defer_step s s'"
  by (auto simp: defer_step_def)

lemma defer_calm: "calm_step target s s' \<Longrightarrow> defer_step s s'"
  by (auto simp: calm_step_def defer_step_def same_store_refl)

lemma defer_trans:
  assumes "defer_step s s'" and "defer_step s' s''"
  shows "defer_step s s''"
proof (cases "in_tx s \<and> versioned target (db s)")
  case True
  with assms(1) obtain new where a: "in_tx s'" "versioned target (db s')" "same_store (ext s) (ext s')" "hooks s' = hooks s"
    "fst (owner_writes s') = fst (owner_writes s)" "snd (owner_writes s') = snd (owner_writes s) @ new"
    "list_all (\<lambda>(b, _). loc b (ext s') \<noteq> None) new"
    by (auto simp: defer_step_def)
  with assms(2) obtain new' where b: "in_tx s''" "versioned target (db s'')" "same_store (ext s') (ext s'')" "hooks s'' = hooks s'"
    "fst (owner_writes s'') = fst (owner_writes s')" "snd (owner_writes s'') = snd (owner_writes s') @ new'"
    "list_all (\<lambda>(b, _). loc b (ext s'') \<noteq> None) new'"
    by (auto simp: defer_step_def)
  have "list_all (\<lambda>(b, _). loc b (ext s'') \<noteq> None) new"
    using a(7) b(3) by (auto simp: list_all_iff same_store_def locs_kept_def)
  with a b same_store_trans [OF a(3) b(3)] show ?thesis by (auto simp: defer_step_def)
qed (rule defer_idle)

end

sublocale material_backend \<subseteq> deferring: state_frame defer_step
  by unfold_locales (auto intro: defer_trans defer_calm calm.frame_refl)

context material_backend
begin

lemma calm_defer: "framed (calm_step target) m \<Longrightarrow> framed defer_step m"
  by (simp add: framed_def defer_calm)

lemmas defer_framed = deferring.framed_basic deferring.framed_bnd deferring.framed_on_exn framed_cases

lemma defer_synchronized: "(\<And>f. framed defer_step (operation f)) \<Longrightarrow> framed defer_step (tx_body env (synchronized_body env operation c))"
  unfolding tx_body_def synchronized_body_def
  by (intro defer_framed calm_defer [OF calm_subjects] deferring.framed_modify defer_calm)
     (simp_all add: calm_step_def in_tx_def owner_writes_def)

lemma defer_deletion:
  assumes "loc b (ext s) \<noteq> None" and "aims_at a = (b, p, v)"
  shows "defer_step s (snd (update_owner (\<lambda>t. t\<lparr>mt_deletions := mt_deletions t @ [a]\<rparr>) s))"
  using assms same_store_refl
  by (auto simp: defer_step_def update_owner_def modify_def in_tx_def owner_writes_def split: option.splits)

lemma defer_discard: "framed defer_step (discard_body env u rq f)"
  unfolding discard_body_def
proof (intro deferring.framed_bnd [OF calm_defer [OF calm_enforce]] deferring.framed_bnd [OF deferring.framed_basic(6)], rule framedI, goal_cases)
  case (1 x staged s r s')
  obtain c' names where d: "discarded f = (c', names)" by fastforce
  show ?case
  proof (cases "in_tx s \<and> versioned target (db s)")
    case True
    then have v: "versioned target (db s)" by simp
    show ?thesis
    proof (cases rule: handle_run [OF v 1])
      case 1
      then show ?thesis by (simp add: deferring.frame_refl)
    next
      case (2 eng pol b y l)
      let ?s = "s\<lparr>ext := y\<rparr>"
      have "defer_step s ?s" using 2(1) by (simp add: defer_step_def in_tx_def owner_writes_def)
      moreover have "defer_step ?s s'"
        using 2(2,3) True same_store_refl [of y]
        by (auto simp: d bnd_def try_db_def log_access_p_def with_db_def current_material_transaction_def gets_def get_or_def
            update_owner_def modify_def ret_def raise_def defer_step_def in_tx_def owner_writes_def aims_at_def versioned_def
            engines_save_fields split_beta split: sum.splits option.splits)
      ultimately show ?thesis by (rule defer_trans)
    qed
  qed (rule defer_idle)
qed

end

text \<open>A computation that leaves the owner's attempts and deletions alone.\<close>

definition aims_step :: "('x, 'b) sys \<Rightarrow> ('x, 'b) sys \<Rightarrow> bool" where
  "aims_step s s' = (owner_writes s' = owner_writes s)"

interpretation aims: state_frame aims_step
  by unfold_locales (auto simp: aims_step_def)

lemma aims_framed_parts:
  "framed aims_step (log_access_p env c u a ok r txt q l)" "framed aims_step (get_backend_p env eng pol)"
  "framed aims_step (try_db g)"
  by (simp_all add: framed_def aims_step_def owner_writes_def log_access_p_def with_db_def get_backend_p_def try_db_def split_beta)

lemma aims_framed_fk: "framed aims_step (policy_p c)" "framed aims_step (engine_p c)"
  unfolding policy_p_def engine_p_def by (intro aims.framed_bnd aims.framed_basic)+

lemma aims_framed_enforce: "framed aims_step (enforce_policy_access env c u a rq)"
  unfolding enforce_policy_access_def
  by (intro aims.framed_bnd aims.framed_basic aims_framed_parts aims_framed_fk framed_cases)

lemma aims_framed_current: "framed aims_step current_material_transaction"
  unfolding current_material_transaction_def by (intro aims.framed_bnd aims.framed_basic)

lemma wp_aims:
  assumes "framed aims_step m" and "owner_writes s = w" and "\<And>x s'. owner_writes s' = w \<Longrightarrow> wp (g x) Q (\<lambda>_ _. True) s'"
  shows "wp (bnd m g) Q (\<lambda>_ _. True) s"
  unfolding wp_bnd by (rule wp_conseq [OF wp_framed [OF assms(1)]]) (use assms(2,3) in \<open>auto simp: aims_step_def\<close>)

text \<open>A discard defers exactly one deletion: the staged version at the credential's path.\<close>

lemma wp_discard_aims:
  assumes "owner_writes s = ([], [])"
  shows "wp (discard_body env u rq f)
     (\<lambda>_ s'. \<exists>b v. cr_staged_kv_version f = Some v \<and> owner_writes s' = ([], [(b, cr_path f, Some v)])) (\<lambda>_ _. True) s"
proof -
  obtain c' names where d: "discarded f = (c', names)" by fastforce
  then have p: "cr_path c' = cr_path f" by (auto simp: discarded_def clear_staged_key_def)
  show ?thesis
    unfolding discard_body_def d prod.case
  proof (rule wp_aims [OF aims_framed_enforce assms], unfold wp_bnd [of "get_or _ _"] wp_get_or, goal_cases)
    case (1 x s1)
    show ?case
    proof (cases "cr_staged_kv_version f")
      case (Some v)
      show ?thesis
        unfolding Some option.case
        by (rule wp_aims [OF aims_framed_fk(2) 1], rule wp_aims [OF aims_framed_fk(1)], assumption,
            rule wp_aims [OF aims_framed_parts(2)], assumption, rule wp_aims [OF aims_framed_parts(3)], assumption,
            rule wp_aims [OF aims_framed_parts(1)], assumption, unfold current_material_transaction_def)
           (auto simp: wp_rules owner_writes_def aims_at_def p split: option.splits)
    qed simp
  qed
qed

text \<open>A computation that makes no call to the secret store.\<close>

definition offline_step :: "('x, 'b) sys \<Rightarrow> ('x, 'b) sys \<Rightarrow> bool" where
  "offline_step s s' = (ext s' = ext s)"

interpretation offline: state_frame offline_step
  by unfold_locales (auto simp: offline_step_def)

lemma offline_record: "framed offline_step (record_recovery env t a m)"
  by (simp add: framed_def offline_step_def record_recovery_def bnd_def with_db_def ret_def split_beta)

lemma offline_recover:
  "unknown \<or> mt_committed t \<or> mt_attempts t = [] \<Longrightarrow> framed offline_step (recover env unknown t)"
  unfolding recover_def Let_def
  by (intro offline.framed_bnd offline.framed_for_each offline_record)
     (auto simp: recover_attempt_def intro!: offline.framed_bnd offline.framed_basic offline_record)

lemma offline_unwind:
  "unknown \<or> mt_committed t \<or> mt_attempts t = [] \<Longrightarrow> framed offline_step (unwind env e unknown t)"
  unfolding unwind_def
  by (intro offline.framed_bnd offline_recover offline.framed_basic offline.framed_modify) (simp_all add: offline_step_def)

text \<open>Completing one deferred deletion is one backend call for exactly its version.\<close>

lemma finish_deletion_run:
  assumes d: "b_delete (e_backend env) (backend_context env (db s)) (ma_backend a) (ma_path a)
      (map_option (\<lambda>v. [v]) (ma_version a)) (ext s) = (rd, x)"
  shows "\<exists>ok s1. finish_deletion env t a s = (Inr ok, s1) \<and> ext s1 = x \<and> (ok \<longrightarrow> rd = Inr ())"
  using d by (cases rd; cases "fst (mark_discarded (ma_audit_id a) (db s))")
    (simp_all add: finish_deletion_def bnd_def on_exn_def backend_call_def on_ext_def record_recovery_def
        with_db_def try_db_def ret_def split_beta ex_bool_eq)

lemma bnd_ret_run:
  assumes "bnd m (\<lambda>_. ret y) s = (q, s')"
  obtains res where "m s = (res, s')" "(\<exists>z. q = Inr z) \<longrightarrow> res = Inr ()"
  using assms by (cases "fst (m s)") (auto simp: bnd_def ret_def split: prod.splits)

lemma after_commit_no_hooks:
  "after_commit env rh [] t r s =
     bnd (finish_deletions env (t\<lparr>mt_committed := True\<rparr>)) (\<lambda>_. ret r) (s\<lparr>owner := Some (t\<lparr>mt_committed := True\<rparr>), owner := None\<rparr>)"
  by (simp add: after_commit_def Let_def bnd_def modify_def on_exn_def ret_def)

lemma finish_one:
  assumes run: "finish_deletions env t s = (res, s')" and t: "mt_deletions t = [a]" "mt_committed t"
  obtains rd x where
    "b_delete (e_backend env) (backend_context env (db s)) (ma_backend a) (ma_path a) (map_option (\<lambda>v. [v]) (ma_version a)) (ext s) = (rd, x)"
    "ext s' = x" "res = Inr () \<longrightarrow> rd = Inr ()"
proof -
  obtain rd x where d: "b_delete (e_backend env) (backend_context env (db s)) (ma_backend a) (ma_path a)
      (map_option (\<lambda>v. [v]) (ma_version a)) (ext s) = (rd, x)" by fastforce
  obtain ok s1 where f: "finish_deletion env t a s = (Inr ok, s1)" "ext s1 = x" "ok \<longrightarrow> rd = Inr ()"
    using finish_deletion_run [OF d] by blast
  have "res = (if ok then Inr () else Inl (openbao_err ''Discard committed; cleanup is incomplete and requires reconciliation.''))" "s' = s1"
    using run t f(1) by (simp_all add: finish_deletions_def check_def bnd_def ret_def raise_def split: if_splits)
  with d f show thesis by (intro that) (auto split: if_splits)
qed

context material_backend
begin

text \<open>Every outcome of a discard: nothing is deleted, or the row committed its discard and at most
  the version it had staged, at its own path, is gone.\<close>

lemma discard_outcome:
  assumes v: "versioned target (db s)" and k: "cr_pk c = Some k" and idle: "owner s = None" "autocommit s"
    and run: "discard_staged env c u rq s = (r, s')"
  shows "(same_store (ext s) (ext s') \<and> (\<forall>y. r \<noteq> Inr y)) \<or>
    (\<exists>d old n. (others env)\<^sup>*\<^sup>* (db s) d \<and> load_credential d k = Some old \<and> cr_staged_kv_version old = Some n \<and>
       load_credential (db s') k = Some (fst (discarded old)) \<and>
       (\<forall>l q m. (q, m) \<noteq> (cr_path old, n) \<longrightarrow> data (ext s') l q m = data (ext s) l q m) \<and>
       ((\<exists>y. r = Inr y) \<longrightarrow> (\<exists>l. data (ext s') l (cr_path old) n = None)))"
proof -
  let ?s = "begin_tx env (s\<lparr>held := Some c\<rparr>)" and ?b = "synchronized_body env (discard_body env u rq) c"
  obtain q s2 where ro: "run_owner env (run_hook env) ?b (s\<lparr>held := Some c\<rparr>) = (q, s2)" by fastforce
  with idle run have rs: "ext s' = ext s2" "same_inventory (db s2) (db s')" "(\<exists>y. r = Inr y) \<longrightarrow> (\<exists>y. q = Inr y)"
    by (auto simp: discard_staged_def synchronized_material_change_def bnd_def modify_def on_exn_def material_transaction_def gets_def
        log_access_p_def with_db_def raise_def split_beta split: sum.splits)
  obtain p s1 where t: "tx_body env ?b ?s = (p, s1)" by fastforce
  have "defer_step ?s s1" by (rule framedD [OF defer_synchronized [OF defer_discard] t])
  then have s1: "same_store (ext s) (ext s1)" "hooks s1 = []" "fst (owner_writes s1) = []" "in_tx s1"
    "list_all (\<lambda>(b, _). loc b (ext s1) \<noteq> None) (snd (owner_writes s1))"
    using v by (auto simp: defer_step_def in_tx_begin) (auto simp: begin_tx_def owner_writes_def new_transaction_def)
  then have att: "mt_attempts (the_owner env s1) = []" "map aims_at (mt_deletions (the_owner env s1)) = snd (owner_writes s1)"
    by (auto simp: owner_writes_def the_owner_def in_tx_def)
  have unw: "same_store (ext s) (ext s') \<and> (\<forall>y. r \<noteq> Inr y)"
    if "unwind env e unk (the_owner env s1) (leave_tx d0 s1) = (q, s2)" for e unk d0
  proof -
    have "framed offline_step (unwind env e unk (the_owner env s1) :: ('x, 'b, credential) prog)"
      by (rule offline_unwind) (simp add: att)
    with that have "ext s2 = ext s1" by (auto simp: offline_step_def leave_tx_def dest: framedD)
    moreover have "\<forall>y. q \<noteq> Inr y" using that by (auto simp: unwind_def bnd_def raise_def split: prod.splits sum.splits)
    ultimately show ?thesis using s1(1) rs by auto
  qed
  show ?thesis
  proof (cases "\<exists>y. p = Inr y \<and> e_commit env (db s1) = CommitOk")
    case False
    with ro t have "\<exists>e unk d0. unwind env e unk (the_owner env s1) (leave_tx d0 s1) = (q, s2)"
      by (cases p; cases "e_commit env (db s1)") (auto simp: run_owner_def)
    with unw show ?thesis by blast
  next
    case True
    then obtain y where y: "p = Inr y" "e_commit env (db s1) = CommitOk" by blast
    let ?P = "\<lambda>f y s'. (has_staged_version f \<and> y = fst (discarded f) \<and> load_credential (db s') k = Some y) \<and>
      (\<exists>b n. cr_staged_kv_version f = Some n \<and> owner_writes s' = ([], [(b, cr_path f, Some n)]))"
    have "wp (tx_body env ?b) (\<lambda>y s'. \<exists>d old. (others env)\<^sup>*\<^sup>* (db ?s) d \<and> load_credential d k = Some old \<and> ?P old y s') (\<lambda>_ _. True) ?s"
      by (rule wp_tx_body, rule wp_synchronized_body [OF _ k in_tx_begin(1)],
          rule wp_conseq [OF wp_conj [OF wp_discard wp_discard_aims]])
         (auto simp: holds_row_def begin_tx_def owner_writes_def new_transaction_def)
    from wp_InrD [OF this t [unfolded y(1)]] obtain d old b n where o: "(others env)\<^sup>*\<^sup>* (db s) d" "load_credential d k = Some old"
      "cr_staged_kv_version old = Some n" "load_credential (db s1) k = Some (fst (discarded old))"
      "snd (owner_writes s1) = [(b, cr_path old, Some n)]"
      by (auto simp: in_tx_begin)
    let ?t = "(the_owner env s1)\<lparr>mt_committed := True\<rparr>"
    from att(2) o(5) obtain a where a: "mt_deletions ?t = [a]" "aims_at a = (b, cr_path old, Some n)" by auto
    from o(5) s1(5) obtain l where l: "loc b (ext s1) = Some l" by auto
    let ?s3 = "(leave_tx (db s1) s1)\<lparr>owner := Some ?t, owner := None\<rparr>"
    have fin: "bnd (finish_deletions env ?t) (\<lambda>_. ret y) ?s3 = (q, s2)"
      using ro unfolding run_owner_def t y(1) prod.case sum.case y(2) commit_outcome.case s1(2) after_commit_no_hooks .
    obtain res where res: "finish_deletions env ?t ?s3 = (res, s2)" "(\<exists>y. q = Inr y) \<longrightarrow> res = Inr ()"
      by (rule bnd_ret_run [OF fin])
    have com: "mt_committed ?t" by simp
    obtain rd x where dl: "b_delete (e_backend env) (backend_context env (db ?s3)) (ma_backend a) (ma_path a)
        (map_option (\<lambda>v. [v]) (ma_version a)) (ext ?s3) = (rd, x)" "ext s2 = x" "res = Inr () \<longrightarrow> rd = Inr ()"
      by (rule finish_one [OF res(1) a(1) com])
    then have dl': "b_delete (e_backend env) (backend_context env (db ?s3)) b (cr_path old) (Some [n]) (ext s1) = (rd, ext s')"
      using a(2) rs(1) by (simp add: aims_at_def leave_tx_def)
    have only: "data (ext s') l' q' m = data (ext s) l' q' m" if "(q', m) \<noteq> (cr_path old, n)" for l' q' m
      using that s1(1) delete_only [OF l dl', of m] delete_frame [OF l dl', of l' q']
      by (cases "(l', q') = (l, cr_path old)") (auto simp: data_def same_store_def)
    have gone: "data (ext s') l (cr_path old) n = None" if "\<exists>y. r = Inr y"
      using that rs(3) res(2) dl(3) delete_versions [OF l, of "backend_context env (db ?s3)" "cr_path old" "[n]" "()" "ext s'"] dl'
      by (simp add: data_def)
    have ld: "load_credential (db s') k = Some (fst (discarded old))"
    proof -
      have "same_inventory (db s1) (db s2)"
        using framedD [OF log_framed_finish res(1)] by (simp add: log_step_def leave_tx_def)
      with rs(2) o(4) show ?thesis by (simp add: load_inventory same_inventory_trans)
    qed
    show ?thesis
      by (rule disjI2, rule exI [of _ d], rule exI [of _ old], rule exI [of _ n])
         (intro conjI allI impI o(1-3) ld only exI [of _ l] gone)
  qed
qed

end

section \<open>Revealing\<close>

text \<open>A computation that writes nothing but audit rows.\<close>

definition audit_step :: "('x, 'b) sys \<Rightarrow> ('x, 'b) sys \<Rightarrow> bool" where
  "audit_step s s' = (log_step s s' \<and> offline_step s s')"

interpretation auditing: state_frame audit_step
  by unfold_locales
     (auto simp: audit_step_def intro: logging.frame_refl logging.frame_trans offline.frame_refl offline.frame_trans)

lemma audit_framed_log: "framed audit_step (log_access_p env c u a ok r txt q l)"
  by (simp add: framed_def audit_step_def log_step_def offline_step_def log_access_p_def with_db_def split_beta)

lemma audit_framed_enforce: "framed audit_step (enforce_policy_access env c u a rq)"
  unfolding enforce_policy_access_def policy_p_def
  by (intro auditing.framed_bnd auditing.framed_basic audit_framed_log framed_cases)

lemma policy_of_audit: "audit_step s s' \<Longrightarrow> policy_of (db s') c = policy_of (db s) c"
  by (simp add: audit_step_def log_step_def same_inventory_def policy_of_def)

lemma engine_of_audit: "audit_step s s' \<Longrightarrow> engine_of (db s') c = engine_of (db s) c"
  by (simp add: audit_step_def log_step_def same_inventory_def engine_of_def)

lemma run_policy_p:
  "bnd (policy_p c) f s = (case policy_of (db s) c of None \<Rightarrow> (Inl ObjectDoesNotExist, s) | Some p \<Rightarrow> f p s)"
  by (simp add: policy_p_def bnd_def gets_def get_or_def raise_def ret_def split: option.splits)

lemma reveal_success:
  assumes run: "reveal_material env c u rq reason version s = (Inr (j, ttl), s')"
  obtains pol s1 where "policy_of (db s) c = Some pol" "audit_step s s1" "pol_require_reason pol \<longrightarrow> strip reason \<noteq> []"
    "reveal_read env c pol u rq reason (effective_version c version) s1 = (Inr (j, ttl), s')"
proof -
  obtain q s1 where e: "enforce_policy_access env c u (Some ACTION_REVEAL) rq s = (q, s1)" by fastforce
  have a: "audit_step s s1" by (rule framedD [OF audit_framed_enforce e])
  from run e obtain x where q: "q = Inr x"
    by (cases q) (auto simp: reveal_material_def bnd_def [of "enforce_policy_access _ _ _ _ _"])
  note run' = run [unfolded reveal_material_def bnd_def [of "enforce_policy_access _ _ _ _ _"] e q prod.case sum.case]
  obtain pol where p: "policy_of (db s) c = Some pol"
    using run' policy_of_audit [OF a, of c] by (cases "policy_of (db s) c") (auto simp: run_policy_p)
  have "bnd (if pol_require_reason pol \<and> strip reason = []
          then bnd (log_access_p env c u ACTION_REVEAL False [] ''Reason required by policy.'' rq True)
                 (\<lambda>_. raise (ValidationError ''reason''
                    (''This credential'' @ [CHR 0x27] @ ''s policy requires a reason for every reveal.'')))
          else ret ()) (\<lambda>_. reveal_read env c pol u rq reason (effective_version c version)) s1 = (Inr (j, ttl), s')"
    using run' unfolding run_policy_p policy_of_audit [OF a] p option.case .
  then have r: "pol_require_reason pol \<longrightarrow> strip reason \<noteq> []"
    "reveal_read env c pol u rq reason (effective_version c version) s1 = (Inr (j, ttl), s')"
    by (auto simp: bnd_def raise_def ret_def log_access_p_def with_db_def split_beta split: if_splits)
  show thesis by (rule that [OF p a r])
qed

lemma reveal_read_success:
  assumes run: "reveal_read env c pol u rq reason v s = (Inr (j, ttl), s')"
  obtains eng b x x' s2 where "engine_of (db s) c = Some eng"
    "b_new (e_backend env) eng (resolve_auth_material (auth_materials (db s)) eng (Some pol)) (ext s) = (b, x)"
    "b_read (e_backend env) (backend_context env (db s)) b (cr_path c) v x = (Inr j, x')"
    "ttl = reveal_ttl_of env pol" "ext s' = x'"
    "db s' = snd (log_access (e_audit env) c u ACTION_REVEAL True reason [] rq True (db s))"
proof -
  obtain eng where e: "engine_of (db s) c = Some eng"
    using run by (cases "engine_of (db s) c") (auto simp: reveal_read_def bnd_def engine_p_def gets_def get_or_def raise_def)
  obtain b x where g: "b_new (e_backend env) eng (resolve_auth_material (auth_materials (db s)) eng (Some pol)) (ext s) = (b, x)"
    by fastforce
  obtain rr x' where r: "b_read (e_backend env) (backend_context env (db s)) b (cr_path c) v x = (rr, x')" by fastforce
  obtain j' where j': "rr = Inr j'"
    using run e g r
    by (cases rr) (auto simp: reveal_read_def bnd_def engine_p_def gets_def get_or_def ret_def raise_def get_backend_p_def get_backend_def
        audited_call_def on_exn_def backend_call_def on_ext_def log_access_p_def with_db_def split_beta split: if_splits)
  with run e g r have "j' = j" "ttl = reveal_ttl_of env pol" "ext s' = x'"
    "db s' = snd (log_access (e_audit env) c u ACTION_REVEAL True reason [] rq True (db s))"
    by (auto simp: reveal_read_def bnd_def engine_p_def gets_def get_or_def ret_def get_backend_p_def get_backend_def
        audited_call_def on_exn_def backend_call_def on_ext_def log_access_p_def with_db_def split_beta)
  with e g r j' show thesis by (intro that) auto
qed

context material_backend
begin

text \<open>A reveal returns the payload of the version it resolves: the requested one, else the live one.\<close>

lemma reveal_value:
  assumes e: "engine_of (db s) c = Some eng" and l: "target eng = Some l"
    and run: "reveal_material env c u rq reason version s = (Inr (j, ttl), s')"
  shows "\<exists>d. j = JObj d \<and>
     data (ext s) l (cr_path c) (case effective_version c version of None \<Rightarrow> cur (ext s) l (cr_path c) | Some n \<Rightarrow> n) = Some d"
proof -
  obtain pol s1 where s1: "audit_step s s1" "reveal_read env c pol u rq reason (effective_version c version) s1 = (Inr (j, ttl), s')"
    by (rule reveal_success [OF run])
  then have x1: "ext s1 = ext s" by (simp add: audit_step_def offline_step_def)
  obtain eng' b x x' s2 where r: "engine_of (db s1) c = Some eng'"
    "b_new (e_backend env) eng' (resolve_auth_material (auth_materials (db s1)) eng' (Some pol)) (ext s1) = (b, x)"
    "b_read (e_backend env) (backend_context env (db s1)) b (cr_path c) (effective_version c version) x = (Inr j, x')"
    by (rule reveal_read_success [OF s1(2)])
  have "eng' = eng" using r(1) e engine_of_audit [OF s1(1), of c] by simp
  with new_target [OF r(2)] l have "loc b x = Some l" by simp
  from read_value [OF this r(3)] new_store [OF r(2)] x1 show ?thesis
    by (auto simp: data_def cur_def split: option.splits)
qed

lemma reveal_in_store:
  assumes "reveal_material env c u rq reason None s = (Inr (j, ttl), s')"
    and "in_store c n d s" and "cr_live_kv_version c = Some n"
  shows "j = JObj d"
  using assms(2,3) reveal_value [OF _ _ assms(1)] by (fastforce simp: in_store_def effective_version_def)

end

end
