(* ===== verification/Example.thy ===== *)
theory Example
  imports Stored_Material
begin

text \<open>
  A concrete deployment the properties are evaluated on: one engine with AppRole authentication on
  the reference KV version 2 server, one policy with a group gate, one credential with two
  versions of its material, and the environment of a request. Nothing of the model depends on it.
\<close>

definition ex_engine :: secret_engine where
  "ex_engine = \<lparr>eng_pk = 1, eng_name = ''prod'', eng_slug = ''prod'', eng_backend = BACKEND_OPENBAO,
     eng_api_url = ''https://bao:8200'', eng_namespace = [], eng_kv_mount = ''secret'', eng_kv_version = 2,
     eng_auth_method = METHOD_APPROLE, eng_tls_verify = True, eng_ca_cert_path = [], eng_is_default = True,
     eng_status = STATUS_UNKNOWN, eng_status_message = [], eng_last_checked = None\<rparr>"

definition ex_policy :: credential_policy where
  "ex_policy = \<lparr>pol_pk = 1, pol_name = ''tier'', pol_slug = ''tier'', pol_engine_id = 1, pol_openbao_policy = ''tier'',
     pol_groups = [7], pol_max_reveal_ttl = 120, pol_require_reason = True\<rparr>"

definition ex_credential :: credential where
  "ex_credential = \<lparr>cr_pk = Some 5, cr_name = ''admin'', cr_uuid = ''u-5'', cr_credential_type = ''password'',
     cr_policy_id = Some 1, cr_engine_id = Some 1, cr_path = ''netbox/u-5'', cr_username = ''admin'', cr_public_key = [],
     cr_fingerprint = [], cr_key_type = [], cr_cert_serial = [], cr_cert_subject = [], cr_cert_issuer = [],
     cr_valid_from = None, cr_valid_until = None, cr_import_source = [], cr_status = STATUS_ACTIVE,
     cr_rotation_interval = None, cr_last_rotated = None, cr_created = Some 10, cr_kv_version = Some 2,
     cr_live_kv_version = Some 2, cr_staged_kv_version = None, cr_live_key_fingerprint = [], cr_live_key_version = None,
     cr_staged_key_fingerprint = [], cr_staged_key_version = None, cr_last_verified = None\<rparr>"

definition ex_material :: engine_auth_material where
  "ex_material = \<lparr>am_pk = Some 1, am_engine_id = Some 1, am_policy_id = None, am_cluster_id = None,
     am_role_id_ciphertext = ''v1:role'', am_secret_id_ciphertext = ''v1:sid'', am_token_ciphertext = [],
     am_k8s_role_ciphertext = [], am_k8s_jwt_path_ciphertext = [], am_client_cert_ciphertext = [],
     am_client_key_ciphertext = [], am_revision = 1, am_last_updated = None\<rparr>"

definition ex_db :: database where
  "ex_db = \<lparr>credentials = [(5, ex_credential)], policies = [(1, ex_policy)], engines = [(1, ex_engine)],
     assignments = [], access_log = [], settings_row = None, type_schemas = [], auth_materials = [(1, ex_material)],
     receipts = [], users = [], app_services = [], next_id = 100\<rparr>"

definition ex_location :: kv_location where
  "ex_location = (''https://bao:8200'', None, ''secret'')"

definition ex_server :: mem_server where
  "ex_server = [((ex_location, ''netbox/u-5''), \<lparr>me_current = 2,
     me_versions = [(2, [(''password'', JStr ''two'')]), (1, [(''password'', JStr ''one'')])], me_custom = []\<rparr>)]"

definition ex_world :: "mem_server backend_world" where
  "ex_world = \<lparr>bw_files = \<lparr>pf_files = [], pf_registered = [], pf_counter = 0, pf_unlink_fails = (\<lambda>_. False),
     pf_unlinks = 0, pf_refused = []\<rparr>, bw_cache = [], bw_sessions = [],
     bw_broker_sessions = [], bw_objects = [], bw_next_object = 0, bw_remote = ex_server\<rparr>"

definition ex_crypto :: "unit crypto" where
  "ex_crypto = \<lparr>cx_derive = (\<lambda>_. ()), cx_encrypt = (\<lambda>_ v. v), cx_decrypt = (\<lambda>_ v. Some v), cx_secret_key = Some ''key''\<rparr>"

definition ex_lib :: "unit crypto_lib" where
  "ex_lib = \<lparr>lb_load_ssh_private_key = (\<lambda>_ _. None), lb_load_pem_private_key = (\<lambda>_ _. None),
     lb_openssh_public = (\<lambda>_. None), lb_ssh_key_type = (\<lambda>_. []), lb_b64decode = (\<lambda>_. None), lb_b64encode = (\<lambda>s. s),
     lb_sha256 = (\<lambda>s. s), lb_load_pem_cert = (\<lambda>_. None), lb_load_der_cert = (\<lambda>_. None), lb_jsonschema = None,
     lb_check_schema = (\<lambda>_. None), lb_str = (\<lambda>_. [])\<rparr>"

text \<open>The broker is not used: every request is refused.\<close>

definition ex_requests :: "mem_server requests" where
  "ex_requests = \<lparr>rq_installed = True, rq_tmp_outcome = (\<lambda>_. TmpWritten), rq_post = (\<lambda>_ _ _. raise ''refused''), rq_get = (\<lambda>_ _. raise ''refused'')\<rparr>"

definition ex_env :: "(database \<Rightarrow> commit_outcome) \<Rightarrow> (mem_server backend_world, nat, unit) env" where
  "ex_env commit =
     \<lparr>e_backend = plugin_backends (reference_hvac 10) ex_requests ex_crypto,
      e_audit = \<lparr>ae_now = 1000, ae_log_ok = (\<lambda>_. True)\<rparr>, e_cfg = default_settings, e_lib = ex_lib,
      e_labels = \<lparr>lb_registered = [], lb_rejected = []\<rparr>, e_field_errors = (\<lambda>_ _. None), e_site_url = [],
      e_absolute_url = (\<lambda>_. None), e_operation_id = ''op'', e_commit = commit, e_connection_lost = False,
      e_lock_wait = (\<lambda>_ _ d. d)\<rparr>"

definition ex_user :: user where
  "ex_user = \<lparr>usr_pk = 3, usr_username = ''ops'', usr_is_authenticated = True, usr_is_superuser = False,
     usr_is_active = True, usr_groups = [7]\<rparr>"

definition ex_state :: "(mem_server backend_world, nat) sys" where
  "ex_state = \<lparr>db = ex_db, ext = ex_world, owner = None, hooks = [], autocommit = True, committed_db = ex_db,
     locks = [], held = None\<rparr>"

definition ex_payload :: json where
  "ex_payload = JObj [(''password'', JStr ''three'')]"

section \<open>Evaluation\<close>

text \<open>
  Runs of the model are evaluated by the simplifier. A program is unfolded only once it is applied
  to a state, and the continuation of a bind only once its first computation has a result: the
  congruence rules keep the simplifier out of code that has not been reached. The concrete records
  stay folded and are read through their selectors.
\<close>

lemmas run_values =
  ret_def raise_def gets_def modify_def row_def put_row_def drop_row_def rows_def newline_def is_space_def strip_def
  words_def join_with_def lower_char_def lower_def or_else_def str_or_def TYPE_PASSWORD_def TYPE_SSH_KEYPAIR_def
  TYPE_SSH_PASSWORD_def TYPE_API_TOKEN_def TYPE_X509_KEYPAIR_def TYPE_X509_CA_def TYPE_SNMP_V3_def TYPE_WIREGUARD_def
  TYPE_GENERIC_KV_def credential_type_values_def openbao_exn_def openbao_err_def is_openbao_def dict_get_def
  dict_ok_def policy_of_def engine_of_def load_credential_def assignments_of_def insert_log_def request_context_def
  try_insert_log_def actor_pk_def actor_name_def access_row_def log_access_def settings_row_log_def
  log_settings_change_def validate_reveal_rate_def prefix_message_def prefix_malformed_def validate_path_prefix_def
  path_for_prefix_def audited_fields_def setting_differs_def copy_setting_def changed_field_names_def
  audit_refusal_def validate_prefix_change_def audit_settings_change_def audit_settings_deletion_def
  settings_save_locked_def settings_save_def ensure_deletable_def settings_delete_def
  settings_write_is_uncommitted_def current_config_def clear_config_def get_config_def effective_def label_start_def
  label_char_def label_part_def label_re_def classify_label_def register_assignable_models_def normalize_labels_def
  assignable_model_labels_def AUTH_MATERIAL_FIELDS_def CIPHERTEXT_PREFIX_def ciphertext_of_def set_ciphertext_def
  decryption_error_def fernet_def encrypt_def decrypt_def unknown_field_def get_secret_def set_secret_def
  clear_secret_def is_configured_def configured_def auth_clean_def cache_identity_def token_cache_key_def
  ciphertext_version_def auth_columns_def copy_column_def column_differs_def submitted_fields_def owner_taken_def
  auth_row_ok_def auth_save_def reencrypt_def serialize_object_def rstrip_char_def ssh_fingerprint_def as_bytes_def
  extract_ssh_metadata_def extract_certificate_metadata_def builtin_schema_def CREDENTIAL_SCHEMAS_def
  EXTRACTABLE_FIELDS_def EXTRACTORS_def json_get_def obj_keys_def str_items_def stored_schema_def as_schema_def
  unknown_type_def get_schema_def is_known_credential_type_def clean_items_def missing_fields_def unknown_fields_def
  secret_data_error_def schema_violation_def validate_payload_def run_extractor_def extract_metadata_def
  schema_clean_def public_fields_def uses_ssh_identity_def meta_str_def payload_private_key_def
  derive_key_fingerprint_def b64_char_def ssh_fingerprint_re_def live_key_fingerprint_def verify_bundle_identity_def
  clear_staged_key_def record_key_version_def promote_key_identity_def has_staged_version_def is_expired_def
  derived_path_def apply_defaults_def SSH_CREDENTIAL_TYPES_def DIRECT_SSH_FORBIDDEN_TARGETS_def forbidden_target_def
  ssh_type_with_direct_assignments_def credential_clean_def credential_full_clean_def credential_row_ok_def
  write_row_def credential_save_def copy_field_def credential_save_fields_def set_metadata_field_def set_metadata_def
  is_new_direct_ssh_binding_def assignment_clean_def refresh_auth_material_def current_of_def data_of_def
  version_present_def tmp_path_def materialize_private_pem_def cleanup_private_files_def cache_get_def cache_set_def
  cache_delete_def remote_def with_files_def translate_def translated_def config_error_def bao_cache_key_def
  not_configured_def required_material_def bao_session_key_def int_or_def token_ttl_def version_list_def
  health_status_def engine_identity_def policy_identity_def resolve_auth_material_def new_object_def get_backend_def
  obj_namespace_def obj_location_def client_for_def usable_def engine_target_def bao_loc_def mem_kv_def
  client_mount_def mem_get_def mem_put_def mem_error_def empty_entry_def mem_read_def mem_write_def mem_delete_def
  mem_destroy_def mem_metadata_def mem_update_metadata_def mem_login_def e_now_def with_db_def try_db_def on_ext_def
  backend_context_def backend_call_def new_transaction_def graph_of_def add_graph_def declare_graph_def witnessed_def
  witness_def recovery_row_def discard_recovery_message_def mark_discarded_def on_commit_def savepoint_def
  begin_tx_def leave_tx_def the_owner_def run_owner_def material_transaction_def sorted_ids_def opt_ids_def
  rows_with_def key_error_def at_key_def participant_selectors_def check_material_participants_def
  take_version_state_def did_not_complete_def group_permitted_def bypasses_groups_def assignment_label_def
  rstrip_slashes_def build_custom_metadata_def get_backend_p_def row_exists_def error_text_def prepare_material_def
  record_version_def set_attempt_def append_attempt_def reveal_ttl_of_def effective_version_def MAX_BUNDLE_VALUE_def
  invalid_payload_def rstrip_colons_def promote_reason_def promoted_def discarded_def ex_db_def ex_location_def
  ex_server_def ex_world_def ex_state_def ex_payload_def

lemmas run_programs =
  check_def [THEN fun_cong] lift_sum_def [THEN fun_cong] get_or_def [THEN fun_cong] get_object_def [THEN fun_cong]
  set_object_def [THEN fun_cong] close_files_def [THEN fun_cong] bao_get_session_def [THEN fun_cong] build_client_def
  [THEN fun_cong] login_def [THEN fun_cong] obtain_client_def [THEN fun_cong] get_client_def [THEN fun_cong]
  invalidate_token_def [THEN fun_cong] close_auth_material_sessions_def [THEN fun_cong] require_kv2_def [THEN
  fun_cong] bao_read_def [THEN fun_cong] bao_write_def [THEN fun_cong] bao_delete_def [THEN fun_cong]
  bao_list_versions_def [THEN fun_cong] bao_read_metadata_def [THEN fun_cong] bao_set_metadata_def [THEN fun_cong]
  bao_health_raw_def [THEN fun_cong] bao_health_def [THEN fun_cong] vault_health_def [THEN fun_cong] by_class_def
  [THEN fun_cong] log_access_p_def [THEN fun_cong] record_recovery_def [THEN fun_cong] recover_attempt_def [THEN
  fun_cong] recover_def [THEN fun_cong] finish_deletion_def [THEN fun_cong] finish_deletions_def [THEN fun_cong]
  current_material_transaction_def [THEN fun_cong] update_owner_def [THEN fun_cong] unwind_def [THEN fun_cong]
  tx_body_def [THEN fun_cong] after_commit_def [THEN fun_cong] acquire_def [THEN fun_cong] lock_policies_def [THEN
  fun_cong] lock_engines_def [THEN fun_cong] lock_credentials_def [THEN fun_cong] lock_credential_graph_def [THEN
  fun_cong] declare_on_owner_def [THEN fun_cong] lock_material_subjects_def [THEN fun_cong]
  refresh_material_selectors_def [THEN fun_cong] lock_material_subject_def [THEN fun_cong] synchronized_body_def [THEN
  fun_cong] synchronized_material_change_def [THEN fun_cong] policy_p_def [THEN fun_cong] engine_p_def [THEN fun_cong]
  enforce_policy_access_def [THEN fun_cong] enforce_update_access_def [THEN fun_cong] publish_custom_metadata_def
  [THEN fun_cong] run_metadata_projection_def [THEN fun_cong] audited_call_def [THEN fun_cong] delete_material_def
  [THEN fun_cong] run_hook_def [THEN fun_cong] defer_custom_metadata_def [THEN fun_cong] write_attempt_def [THEN
  fun_cong] store_body_def [THEN fun_cong] store_credential_def [THEN fun_cong] persist_instance_def [THEN fun_cong]
  write_material_def [THEN fun_cong] rotate_body_def [THEN fun_cong] rotate_material_def [THEN fun_cong]
  reveal_read_def [THEN fun_cong] reveal_material_def [THEN fun_cong] read_automation_bundle_def [THEN fun_cong]
  stage_body_def [THEN fun_cong] stage_material_def [THEN fun_cong] promote_body_def [THEN fun_cong]
  promote_staged_def [THEN fun_cong] discard_body_def [THEN fun_cong] discard_staged_def [THEN fun_cong]
  for_each.simps [THEN fun_cong] finish_each.simps [THEN fun_cong]

lemmas run_selectors =
  ex_env_def [THEN arg_cong [where f = e_backend], simplified env.simps] ex_env_def [THEN arg_cong [where f =
  e_audit], simplified env.simps] ex_env_def [THEN arg_cong [where f = e_cfg], simplified env.simps] ex_env_def [THEN
  arg_cong [where f = e_lib], simplified env.simps] ex_env_def [THEN arg_cong [where f = e_labels], simplified
  env.simps] ex_env_def [THEN arg_cong [where f = e_field_errors], simplified env.simps] ex_env_def [THEN arg_cong
  [where f = e_site_url], simplified env.simps] ex_env_def [THEN arg_cong [where f = e_absolute_url], simplified
  env.simps] ex_env_def [THEN arg_cong [where f = e_operation_id], simplified env.simps] ex_env_def [THEN arg_cong
  [where f = e_commit], simplified env.simps] ex_env_def [THEN arg_cong [where f = e_connection_lost], simplified
  env.simps] ex_env_def [THEN arg_cong [where f = e_lock_wait], simplified env.simps] reference_hvac_def [THEN
  arg_cong [where f = hv_installed], simplified hvac.simps] reference_hvac_def [THEN arg_cong [where f = hv_tmp_outcome],
  simplified hvac.simps] reference_hvac_def [THEN arg_cong [where f = hv_read_file], simplified hvac.simps]
  reference_hvac_def [THEN arg_cong [where f = hv_approle_login], simplified hvac.simps] reference_hvac_def [THEN
  arg_cong [where f = hv_kubernetes_login], simplified hvac.simps] reference_hvac_def [THEN arg_cong [where f =
  hv_cert_login], simplified hvac.simps] reference_hvac_def [THEN arg_cong [where f = hv_kv2_read], simplified
  hvac.simps] reference_hvac_def [THEN arg_cong [where f = hv_kv2_write], simplified hvac.simps] reference_hvac_def
  [THEN arg_cong [where f = hv_kv2_delete_versions], simplified hvac.simps] reference_hvac_def [THEN arg_cong [where f
  = hv_kv2_delete_all], simplified hvac.simps] reference_hvac_def [THEN arg_cong [where f = hv_kv2_metadata],
  simplified hvac.simps] reference_hvac_def [THEN arg_cong [where f = hv_kv2_update_metadata], simplified hvac.simps]
  reference_hvac_def [THEN arg_cong [where f = hv_kv1_read], simplified hvac.simps] reference_hvac_def [THEN arg_cong
  [where f = hv_kv1_write], simplified hvac.simps] reference_hvac_def [THEN arg_cong [where f = hv_kv1_delete],
  simplified hvac.simps] reference_hvac_def [THEN arg_cong [where f = hv_health], simplified hvac.simps]
  plugin_backends_def [THEN arg_cong [where f = b_new], simplified secret_backend.simps] plugin_backends_def [THEN
  arg_cong [where f = b_read], simplified secret_backend.simps] plugin_backends_def [THEN arg_cong [where f =
  b_write], simplified secret_backend.simps] plugin_backends_def [THEN arg_cong [where f = b_delete], simplified
  secret_backend.simps] plugin_backends_def [THEN arg_cong [where f = b_list_versions], simplified
  secret_backend.simps] plugin_backends_def [THEN arg_cong [where f = b_read_metadata], simplified
  secret_backend.simps] plugin_backends_def [THEN arg_cong [where f = b_set_metadata], simplified
  secret_backend.simps] ex_crypto_def [THEN arg_cong [where f = cx_derive], simplified crypto.simps] ex_crypto_def
  [THEN arg_cong [where f = cx_encrypt], simplified crypto.simps] ex_crypto_def [THEN arg_cong [where f = cx_decrypt],
  simplified crypto.simps] ex_crypto_def [THEN arg_cong [where f = cx_secret_key], simplified crypto.simps] ex_lib_def
  [THEN arg_cong [where f = lb_load_ssh_private_key], simplified crypto_lib.simps] ex_lib_def [THEN arg_cong [where f
  = lb_load_pem_private_key], simplified crypto_lib.simps] ex_lib_def [THEN arg_cong [where f = lb_jsonschema],
  simplified crypto_lib.simps] ex_engine_def [THEN arg_cong [where f = eng_pk], simplified secret_engine.simps]
  ex_engine_def [THEN arg_cong [where f = eng_name], simplified secret_engine.simps] ex_engine_def [THEN arg_cong
  [where f = eng_slug], simplified secret_engine.simps] ex_engine_def [THEN arg_cong [where f = eng_backend],
  simplified secret_engine.simps] ex_engine_def [THEN arg_cong [where f = eng_api_url], simplified
  secret_engine.simps] ex_engine_def [THEN arg_cong [where f = eng_namespace], simplified secret_engine.simps]
  ex_engine_def [THEN arg_cong [where f = eng_kv_mount], simplified secret_engine.simps] ex_engine_def [THEN arg_cong
  [where f = eng_kv_version], simplified secret_engine.simps] ex_engine_def [THEN arg_cong [where f =
  eng_auth_method], simplified secret_engine.simps] ex_engine_def [THEN arg_cong [where f = eng_tls_verify],
  simplified secret_engine.simps] ex_engine_def [THEN arg_cong [where f = eng_ca_cert_path], simplified
  secret_engine.simps] ex_engine_def [THEN arg_cong [where f = eng_is_default], simplified secret_engine.simps]
  ex_engine_def [THEN arg_cong [where f = eng_status], simplified secret_engine.simps] ex_engine_def [THEN arg_cong
  [where f = eng_status_message], simplified secret_engine.simps] ex_engine_def [THEN arg_cong [where f =
  eng_last_checked], simplified secret_engine.simps] ex_policy_def [THEN arg_cong [where f = pol_pk], simplified
  credential_policy.simps] ex_policy_def [THEN arg_cong [where f = pol_name], simplified credential_policy.simps]
  ex_policy_def [THEN arg_cong [where f = pol_slug], simplified credential_policy.simps] ex_policy_def [THEN arg_cong
  [where f = pol_engine_id], simplified credential_policy.simps] ex_policy_def [THEN arg_cong [where f =
  pol_openbao_policy], simplified credential_policy.simps] ex_policy_def [THEN arg_cong [where f = pol_groups],
  simplified credential_policy.simps] ex_policy_def [THEN arg_cong [where f = pol_max_reveal_ttl], simplified
  credential_policy.simps] ex_policy_def [THEN arg_cong [where f = pol_require_reason], simplified
  credential_policy.simps] ex_credential_def [THEN arg_cong [where f = cr_pk], simplified credential.simps]
  ex_credential_def [THEN arg_cong [where f = cr_name], simplified credential.simps] ex_credential_def [THEN arg_cong
  [where f = cr_uuid], simplified credential.simps] ex_credential_def [THEN arg_cong [where f = cr_credential_type],
  simplified credential.simps] ex_credential_def [THEN arg_cong [where f = cr_policy_id], simplified credential.simps]
  ex_credential_def [THEN arg_cong [where f = cr_engine_id], simplified credential.simps] ex_credential_def [THEN
  arg_cong [where f = cr_path], simplified credential.simps] ex_credential_def [THEN arg_cong [where f = cr_username],
  simplified credential.simps] ex_credential_def [THEN arg_cong [where f = cr_public_key], simplified
  credential.simps] ex_credential_def [THEN arg_cong [where f = cr_fingerprint], simplified credential.simps]
  ex_credential_def [THEN arg_cong [where f = cr_key_type], simplified credential.simps] ex_credential_def [THEN
  arg_cong [where f = cr_cert_serial], simplified credential.simps] ex_credential_def [THEN arg_cong [where f =
  cr_cert_subject], simplified credential.simps] ex_credential_def [THEN arg_cong [where f = cr_cert_issuer],
  simplified credential.simps] ex_credential_def [THEN arg_cong [where f = cr_valid_from], simplified
  credential.simps] ex_credential_def [THEN arg_cong [where f = cr_valid_until], simplified credential.simps]
  ex_credential_def [THEN arg_cong [where f = cr_import_source], simplified credential.simps] ex_credential_def [THEN
  arg_cong [where f = cr_status], simplified credential.simps] ex_credential_def [THEN arg_cong [where f =
  cr_rotation_interval], simplified credential.simps] ex_credential_def [THEN arg_cong [where f = cr_last_rotated],
  simplified credential.simps] ex_credential_def [THEN arg_cong [where f = cr_created], simplified credential.simps]
  ex_credential_def [THEN arg_cong [where f = cr_kv_version], simplified credential.simps] ex_credential_def [THEN
  arg_cong [where f = cr_live_kv_version], simplified credential.simps] ex_credential_def [THEN arg_cong [where f =
  cr_staged_kv_version], simplified credential.simps] ex_credential_def [THEN arg_cong [where f =
  cr_live_key_fingerprint], simplified credential.simps] ex_credential_def [THEN arg_cong [where f =
  cr_live_key_version], simplified credential.simps] ex_credential_def [THEN arg_cong [where f =
  cr_staged_key_fingerprint], simplified credential.simps] ex_credential_def [THEN arg_cong [where f =
  cr_staged_key_version], simplified credential.simps] ex_credential_def [THEN arg_cong [where f = cr_last_verified],
  simplified credential.simps] ex_material_def [THEN arg_cong [where f = am_pk], simplified
  engine_auth_material.simps] ex_material_def [THEN arg_cong [where f = am_engine_id], simplified
  engine_auth_material.simps] ex_material_def [THEN arg_cong [where f = am_policy_id], simplified
  engine_auth_material.simps] ex_material_def [THEN arg_cong [where f = am_cluster_id], simplified
  engine_auth_material.simps] ex_material_def [THEN arg_cong [where f = am_role_id_ciphertext], simplified
  engine_auth_material.simps] ex_material_def [THEN arg_cong [where f = am_secret_id_ciphertext], simplified
  engine_auth_material.simps] ex_material_def [THEN arg_cong [where f = am_token_ciphertext], simplified
  engine_auth_material.simps] ex_material_def [THEN arg_cong [where f = am_k8s_role_ciphertext], simplified
  engine_auth_material.simps] ex_material_def [THEN arg_cong [where f = am_k8s_jwt_path_ciphertext], simplified
  engine_auth_material.simps] ex_material_def [THEN arg_cong [where f = am_client_cert_ciphertext], simplified
  engine_auth_material.simps] ex_material_def [THEN arg_cong [where f = am_client_key_ciphertext], simplified
  engine_auth_material.simps] ex_material_def [THEN arg_cong [where f = am_revision], simplified
  engine_auth_material.simps] ex_material_def [THEN arg_cong [where f = am_last_updated], simplified
  engine_auth_material.simps] default_settings_def [THEN arg_cong [where f = set_pk], simplified
  openbao_settings.simps] default_settings_def [THEN arg_cong [where f = set_path_prefix], simplified
  openbao_settings.simps] default_settings_def [THEN arg_cong [where f = set_assignable_models], simplified
  openbao_settings.simps] default_settings_def [THEN arg_cong [where f = set_assignable_models_deny], simplified
  openbao_settings.simps] default_settings_def [THEN arg_cong [where f = set_store_public_material], simplified
  openbao_settings.simps] default_settings_def [THEN arg_cong [where f = set_reveal_rate_limit], simplified
  openbao_settings.simps] default_settings_def [THEN arg_cong [where f = set_reveal_ttl], simplified
  openbao_settings.simps] default_settings_def [THEN arg_cong [where f = set_token_cache_ttl], simplified
  openbao_settings.simps] default_settings_def [THEN arg_cong [where f = set_audit_retention_days], simplified
  openbao_settings.simps] default_settings_def [THEN arg_cong [where f = set_allow_generation], simplified
  openbao_settings.simps] default_settings_def [THEN arg_cong [where f = set_default_ssh_key_type], simplified
  openbao_settings.simps] default_settings_def [THEN arg_cong [where f = set_expiry_warning_days], simplified
  openbao_settings.simps] default_settings_def [THEN arg_cong [where f = set_engine_health_interval], simplified
  openbao_settings.simps] default_settings_def [THEN arg_cong [where f = set_expiry_scan_interval], simplified
  openbao_settings.simps] default_settings_def [THEN arg_cong [where f = set_credential_verify_interval], simplified
  openbao_settings.simps] default_settings_def [THEN arg_cong [where f = set_rotation_due_interval], simplified
  openbao_settings.simps] default_settings_def [THEN arg_cong [where f = set_access_log_prune_interval], simplified
  openbao_settings.simps] ex_user_def [THEN arg_cong [where f = usr_pk], simplified user.simps] ex_user_def [THEN
  arg_cong [where f = usr_username], simplified user.simps] ex_user_def [THEN arg_cong [where f =
  usr_is_authenticated], simplified user.simps] ex_user_def [THEN arg_cong [where f = usr_is_superuser], simplified
  user.simps] ex_user_def [THEN arg_cong [where f = usr_is_active], simplified user.simps] ex_user_def [THEN arg_cong
  [where f = usr_groups], simplified user.simps]

lemmas run = run_steps run_values run_programs run_selectors map_filter_simps Let_def digits.simps

section \<open>Facts about the deployment\<close>

lemma ex_plugin_env: "plugin_env mem_kv 10 (ex_env commit) (reference_hvac 10) ex_requests ex_crypto"
  by (simp add: plugin_env_def reference.kv2_server_axioms ex_env_def)

lemma ex_versioned: "versioned engine_target ex_db"
  by (simp add: versioned_def ex_db_def rows_def engine_target_def ex_engine_def usable_def)

lemma ex_idle: "owner ex_state = None" "autocommit ex_state" "db ex_state = ex_db"
  by (simp_all add: ex_state_def)

lemma ex_row_locks: "row_locks (ex_env commit)"
  by (simp add: row_locks_def ex_env_def)

lemma ex_pk: "cr_pk ex_credential = Some 5"
  by (simp add: ex_credential_def)

text \<open>Reading a run by its components.\<close>

lemma inr_pair: "\<not> isl (fst R) \<Longrightarrow> R = (Inr (fst (projr (fst R)), snd (projr (fst R))), snd R)"
  by (cases R; cases "fst R") auto

lemma inr_value: "\<not> isl (fst R) \<Longrightarrow> R = (Inr (projr (fst R)), snd R)"
  by (cases R; cases "fst R") auto

interpretation deployment: material_backend "ex_env commit" engine_target bao_loc "\<lambda>x. mem_kv (bw_remote x)" 10
  by (rule plugin_material_backend [OF ex_plugin_env])

end
