(* ===== verification/Example_Runs.thy ===== *)
theory Example_Runs
  imports Example
begin

text \<open>
  Runs of the services on the example deployment: a rotation, a staging, a promotion and a discard
  that succeed, and the reveals that follow them. Each run is evaluated once; the lemmas record
  the result and the parts of the final state the witnesses of the properties need.
\<close>

section \<open>Runs\<close>

type_synonym 'a ex_run = "(exn + 'a) \<times> (mem_server backend_world, nat) sys"

definition ex_ok :: "database \<Rightarrow> commit_outcome" where
  "ex_ok = (\<lambda>_. CommitOk)"

definition ex_rotated :: "(credential \<times> nat) ex_run" where
  "ex_rotated = rotate_material (ex_env ex_ok) ex_credential ex_payload (Some ex_user) None ex_state"

definition ex_staged :: "(credential \<times> nat) ex_run" where
  "ex_staged = stage_material (ex_env ex_ok) ex_credential ex_payload (Some ex_user) None ex_state"

text \<open>The credential with a staged version: version 3 waits, version 2 is live.\<close>

definition ex_pending :: credential where
  "ex_pending = ex_credential\<lparr>cr_kv_version := Some 3, cr_staged_kv_version := Some 3, cr_status := STATUS_STAGED\<rparr>"

definition ex_pending_db :: database where
  "ex_pending_db = ex_db\<lparr>credentials := [(5, ex_pending)]\<rparr>"

definition ex_pending_server :: mem_server where
  "ex_pending_server = [((ex_location, ''netbox/u-5''), \<lparr>me_current = 3,
     me_versions = [(3, [(''password'', JStr ''three'')]), (2, [(''password'', JStr ''two'')]),
       (1, [(''password'', JStr ''one'')])], me_custom = []\<rparr>)]"

definition ex_pending_state :: "(mem_server backend_world, nat) sys" where
  "ex_pending_state = ex_state\<lparr>db := ex_pending_db, committed_db := ex_pending_db,
     ext := ex_world\<lparr>bw_remote := ex_pending_server\<rparr>\<rparr>"

definition ex_promoted :: "credential ex_run" where
  "ex_promoted = promote_staged (ex_env ex_ok) ex_pending (Some ex_user) None True ''checked'' ex_pending_state"

definition ex_discarded :: "credential ex_run" where
  "ex_discarded = discard_staged (ex_env ex_ok) ex_pending (Some ex_user) None ex_pending_state"

text \<open>Revealing the current version of the credential a run ended with.\<close>

definition ex_reveal :: "credential \<Rightarrow> (mem_server backend_world, nat) sys \<Rightarrow> (json \<times> int) ex_run" where
  "ex_reveal c s = reveal_material (ex_env ex_ok) c (Some ex_user) None ''audit'' None s"

section \<open>Their results\<close>

lemmas ex_pending_defs = ex_pending_state_def ex_pending_db_def ex_pending_def ex_pending_server_def

lemma ex_target: "engine_target ex_engine = Some ex_location"
  by (simp add: engine_target_def ex_engine_def usable_def obj_location_def obj_namespace_def ex_location_def)

lemma ex_issued: "issued mem_kv ex_state ex_location ''netbox/u-5'' = 2"
  by (simp add: issued_def current_of_def ex_state_def ex_world_def ex_server_def mem_kv_def)

lemma ex_pending_facts:
  "owner ex_pending_state = None" "autocommit ex_pending_state" "versioned engine_target (db ex_pending_state)"
  "cr_pk ex_pending = Some 5" "issued mem_kv ex_pending_state ex_location ''netbox/u-5'' = 3"
  using ex_versioned
  by (simp_all add: ex_pending_defs ex_state_def versioned_def ex_db_def ex_credential_def issued_def current_of_def
      mem_kv_def ex_world_def)

lemma ex_rotated_run:
  "\<exists>c n s'. ex_rotated = (Inr (c, n), s') \<and> cr_credential_type c = ''password'' \<and> (\<exists>j ttl s''. ex_reveal c s' = (Inr (j, ttl), s''))"
  by (simp add: ex_rotated_def ex_ok_def ex_reveal_def run cong: run_congs)

lemma ex_staged_run:
  "\<exists>c n s'. ex_staged = (Inr (c, n), s') \<and> cr_live_kv_version c = Some 2 \<and> cr_path c = ''netbox/u-5'' \<and>
     engine_of (db s') c = Some ex_engine \<and> issued mem_kv s' ex_location ''netbox/u-5'' = 3 \<and>
     (\<exists>j ttl s''. ex_reveal c s' = (Inr (j, ttl), s''))"
  by (simp add: ex_staged_def ex_ok_def ex_reveal_def issued_def run cong: run_congs)

lemma ex_promoted_run:
  "\<exists>c s'. ex_promoted = (Inr c, s') \<and> cr_live_kv_version c = Some 3 \<and> cr_path c = ''netbox/u-5'' \<and>
     engine_of (db s') c = Some ex_engine \<and> issued mem_kv s' ex_location ''netbox/u-5'' = 3 \<and>
     (\<exists>j ttl s''. ex_reveal c s' = (Inr (j, ttl), s''))"
  by (simp add: ex_promoted_def ex_pending_defs ex_ok_def ex_reveal_def issued_def run cong: run_congs)

lemma ex_promoted_policy:
  "\<exists>c s' j ttl s''. ex_promoted = (Inr c, s') \<and> ex_reveal c s' = (Inr (j, ttl), s'') \<and> policy_of (db s') c = Some ex_policy"
  by (simp add: ex_promoted_def ex_pending_defs ex_ok_def ex_reveal_def run cong: run_congs)


lemma ex_discarded_run: "\<exists>c s'. ex_discarded = (Inr c, s')"
  by (simp add: ex_discarded_def ex_pending_defs ex_ok_def run cong: run_congs)

text \<open>No other transaction runs beside the example.\<close>

lemma ex_alone: "(others (ex_env commit))\<^sup>*\<^sup>* d d' \<longleftrightarrow> d' = d"
proof
  show "(others (ex_env commit))\<^sup>*\<^sup>* d d' \<Longrightarrow> d' = d"
    by (induction rule: rtranclp_induct) (auto simp: others_def ex_env_def)
qed simp

end
