(* ===== verification/Lock_Order.thy ===== *)
theory Lock_Order
  imports Credential_Views Example_Runs "HOL-Library.Product_Lexorder"
begin

text \<open>
  The global lock order, with the row locks as an instance of \<^verbatim>\<open>linorder\<close>: services, then policies, engines,
  credentials, assignments and stored schemas, each by ascending key. A material change locks first and freezes what it has
  declared; the services it runs then lock again, but only rows it already holds.
\<close>

section \<open>The order\<close>

definition lock_key :: "lock \<Rightarrow> nat \<times> nat" where
  "lock_key l = (case l of ServiceLock k \<Rightarrow> (0, k) | PolicyLock k \<Rightarrow> (1, k) | EngineLock k \<Rightarrow> (2, k)
     | CredentialLock k \<Rightarrow> (3, k) | AssignmentLock k \<Rightarrow> (4, k) | SchemaLock k \<Rightarrow> (5, k))"

lemma lock_key_inj: "lock_key a = lock_key b \<Longrightarrow> a = b"
  by (cases a; cases b) (simp_all add: lock_key_def)

instantiation lock :: linorder
begin

definition less_eq_lock :: "lock \<Rightarrow> lock \<Rightarrow> bool" where
  "less_eq_lock a b = (lock_key a \<le> lock_key b)"

definition less_lock :: "lock \<Rightarrow> lock \<Rightarrow> bool" where
  "less_lock a b = (lock_key a < lock_key b)"

instance
  by standard (auto simp: less_eq_lock_def less_lock_def intro: lock_key_inj)

end

text \<open>A sequence of lock requests is in order: each one is for a row that is already locked, or follows in the order every
  lock requested before it.\<close>

definition in_order :: "lock list \<Rightarrow> bool" where
  "in_order ls = list_all (\<lambda>i. ls ! i \<in> set (take i ls) \<or> list_all (\<lambda>h. h < ls ! i) (take i ls)) [0..<length ls]"

lemma in_order_nil [simp]: "in_order []"
  by (simp add: in_order_def)







section \<open>Locking again\<close>








lemma set_sorted_ids [simp]: "set (sorted_ids ids) = set ids"
  by (simp add: sorted_ids_def)





section \<open>What keeps the locks in order\<close>





















section \<open>The services\<close>







lemma begun_locks [simp]: "locks (begin_tx env s) = []"
  by (simp add: begin_tx_def)






section \<open>Reads that lock\<close>












section \<open>The property\<close>



end
