(* ===== verification/Importer.thy ===== *)
theory Importer
  imports Lifecycle
begin

text \<open>
  The migration from \<^verbatim>\<open>netbox-secrets\<close> (\<^verbatim>\<open>importers/netbox_secrets.py\<close>, \<^verbatim>\<open>management/commands/openbao_import_secrets.py\<close>).
  That plugin's rows and their decryption, Django's \<^verbatim>\<open>slugify\<close> and the instance a constructor makes (the defaults of the
  table and a new UUID) are parameters. What the command prints is left out, except its counts.
\<close>

section \<open>Sources\<close>

record source_secret =
  src_pk :: nat
  src_name :: string
  src_plaintext :: string
  src_role_name :: string
  src_username :: string
  src_object_type :: "content_type option"
  src_object_id :: "nat option"

definition SOURCE_SYSTEM :: string where
  "SOURCE_SYSTEM = ''netbox_secrets''"

definition source_marker :: "nat \<Rightarrow> string" where
  "source_marker k = SOURCE_SYSTEM @ '':'' @ digits k"

record import_result =
  ir_imported :: nat
  ir_skipped :: nat
  ir_failed :: nat
  ir_details :: "(nat \<times> string \<times> string \<times> string) list"
  ir_policies :: "string list" \<comment> \<open>\<^verbatim>\<open>policies_needing_setup\<close>, a set\<close>

definition empty_result :: import_result where
  "empty_result = \<lparr>ir_imported = 0, ir_skipped = 0, ir_failed = 0, ir_details = [], ir_policies = []\<rparr>"

definition noted :: "source_secret \<Rightarrow> string \<Rightarrow> string \<Rightarrow> import_result \<Rightarrow> import_result" where
  "noted src outcome detail r = r\<lparr>ir_details := ir_details r @ [(src_pk src, src_name src, outcome, detail)]\<rparr>"

section \<open>Typing a secret\<close>

text \<open>\<open>_parses_as\<close> swallows every failure of the extractor.\<close>

definition parses_as :: "(json \<Rightarrow> exn + metadata) \<Rightarrow> string \<Rightarrow> bool" where
  "parses_as extractor txt = (case extractor (JStr txt) of Inl _ \<Rightarrow> False | Inr _ \<Rightarrow> True)"

definition infer_credential_type :: "'c crypto_lib \<Rightarrow> string \<Rightarrow> string \<times> payload" where
  "infer_credential_type lib original =
     (let txt = strip original;
          has_certificate = sublist ''BEGIN CERTIFICATE'' txt;
          has_private_key = sublist ''PRIVATE KEY'' txt;
          parses_as_key = (has_private_key \<and> parses_as (\<lambda>j. extract_ssh_metadata lib j None) txt)
      in if has_certificate \<and> parses_as (extract_certificate_metadata lib) txt
         then (if parses_as_key
               then (TYPE_X509_KEYPAIR, [(''private_key'', JStr original), (''certificate'', JStr original)])
               else (TYPE_X509_CA, [(''certificate'', JStr original)]))
         else if parses_as_key then (TYPE_SSH_KEYPAIR, [(''private_key'', JStr original)])
         else if txt \<noteq> [] \<and> newline \<notin> set txt then (TYPE_PASSWORD, [(''password'', JStr original)])
         else (TYPE_GENERIC_KV, [(''value'', JStr original)]))"

section \<open>Policies of roles\<close>

record import_state =
  im_result :: import_result
  im_cache :: "(string \<times> nat) list"
  im_done :: "string list" \<comment> \<open>\<^verbatim>\<open>already_imported\<close>, a set\<close>

definition policy_by_slug :: "string \<Rightarrow> database \<Rightarrow> nat option" where
  "policy_by_slug slug d = map_option fst (List.find (\<lambda>(_, p). pol_slug p = slug) (policies d))"

text \<open>The insert of \<^verbatim>\<open>get_or_create\<close>; name and slug are unique.\<close>

definition create_policy :: "nat \<Rightarrow> string \<Rightarrow> string \<Rightarrow> database \<Rightarrow> (exn + nat) \<times> database" where
  "create_policy engine slug name d =
     (if list_ex (\<lambda>(_, p). pol_slug p = slug \<or> pol_name p = name) (policies d) then (Inl IntegrityError, d)
      else let k = next_id d
           in (Inr k, d\<lparr>policies := put_row k \<lparr>pol_pk = k, pol_name = name, pol_slug = slug, pol_engine_id = engine,
                 pol_openbao_policy = ''netbox-'' @ slug, pol_groups = [], pol_max_reveal_ttl = 300, pol_require_reason = False\<rparr>
                 (policies d), next_id := Suc k\<rparr>))"

definition policy_for ::
  "(string \<Rightarrow> string) \<Rightarrow> nat \<Rightarrow> nat \<Rightarrow> bool \<Rightarrow> source_secret \<Rightarrow> import_state \<Rightarrow> ('x, 'b, nat \<times> import_state) prog" where
  "policy_for slugify engine fallback_policy map_roles src st =
     (if \<not> map_roles \<or> src_role_name src = [] then ret (fallback_policy, st)
      else let slug = str_or (take 100 (slugify (src_role_name src))) ''imported''
           in case map_of (im_cache st) slug of
                Some k \<Rightarrow> ret (k, st)
              | None \<Rightarrow>
                  bnd (gets (\<lambda>s. policy_by_slug slug (db s))) (\<lambda>found.
                  case found of
                    Some k \<Rightarrow> ret (k, st\<lparr>im_cache := (slug, k) # im_cache st\<rparr>)
                  | None \<Rightarrow>
                      bnd (try_db (create_policy engine slug (take 100 (src_role_name src)))) (\<lambda>k.
                      ret (k, st\<lparr>im_cache := (slug, k) # im_cache st,
                                 im_result := (im_result st)\<lparr>ir_policies :=
                                   List.insert (''netbox-'' @ slug) (ir_policies (im_result st))\<rparr>\<rparr>))))"

section \<open>The run\<close>

definition exn_class_name :: "exn \<Rightarrow> string" where
  "exn_class_name e =
     (case e of
        OpenBaoExn x \<Rightarrow>
          (case oe_class x of
             OpenBaoErrorC \<Rightarrow> ''OpenBaoError'' | BackendConfigurationErrorC \<Rightarrow> ''BackendConfigurationError''
           | OpenBaoAuthErrorC \<Rightarrow> ''OpenBaoAuthError'' | OpenBaoNotFoundC \<Rightarrow> ''OpenBaoNotFound''
           | OpenBaoConflictC \<Rightarrow> ''OpenBaoConflict'' | OpenBaoUnavailableC \<Rightarrow> ''OpenBaoUnavailable''
           | OpenBaoMutationUnknownC \<Rightarrow> ''OpenBaoMutationUnknown'')
      | ValidationError _ _ \<Rightarrow> ''ValidationError''
      | PermissionDenied _ \<Rightarrow> ''PermissionDenied''
      | AutomationResolutionDenied \<Rightarrow> ''AutomationResolutionDenied''
      | AbortRequest _ \<Rightarrow> ''AbortRequest''
      | IntegrityError \<Rightarrow> ''IntegrityError''
      | ObjectDoesNotExist \<Rightarrow> ''DoesNotExist''
      | CapabilitySchemaError _ \<Rightarrow> ''CapabilitySchemaError''
      | PythonError name \<Rightarrow> name)"

text \<open>The markers on the rows of the engine.\<close>

definition marks_on :: "nat \<Rightarrow> database \<Rightarrow> string list" where
  "marks_on engine d =
     map cr_import_source (filter (\<lambda>c. cr_engine_id c = Some engine \<and> prefix (SOURCE_SYSTEM @ '':'') (cr_import_source c))
       (rows (credentials d)))"

definition source_credential :: "credential \<Rightarrow> source_secret \<Rightarrow> string \<Rightarrow> nat \<Rightarrow> nat \<Rightarrow> credential" where
  "source_credential blank src ctype policy engine =
     blank\<lparr>cr_name := take 200 (str_or (src_name src) (''netbox-secrets #'' @ digits (src_pk src))),
       cr_credential_type := ctype, cr_policy_id := Some policy, cr_engine_id := Some engine,
       cr_username := take 200 (src_username src), cr_import_source := source_marker (src_pk src)\<rparr>"

definition source_assignment :: "credential \<Rightarrow> content_type \<Rightarrow> nat \<Rightarrow> credential_assignment" where
  "source_assignment c t k =
     \<lparr>asg_pk = None, asg_credential_id = cr_pk c, asg_object_type = Some t, asg_object_id = k, asg_purpose = PURPOSE_LOGIN,
      asg_is_primary = False, asg_enabled = True, asg_known_hosts_entry = [], asg_strict_host_key_checking = True,
      asg_last_updated = 0\<rparr>"

text \<open>The transaction of one secret. The instance handed over is the subject, so the closure stamps and saves it.\<close>

definition import_body ::
  "('x, 'b, 'c) env \<Rightarrow> user option \<Rightarrow> source_secret \<Rightarrow> credential \<Rightarrow> payload \<Rightarrow> ('x, 'b, unit) prog" where
  "import_body env u src c p =
     bnd (store_credential env (persist_instance env c) (cr_credential_type c) (JObj p) (Some 0) u None ACTION_WRITE (Some c) True
            None False) (\<lambda>(saved, _).
     case (src_object_type src, src_object_id src) of
       (Some t, Some k) \<Rightarrow> if k = 0 then ret () else bnd (save_assignment env (source_assignment saved t k)) (\<lambda>_. ret ())
     | _ \<Rightarrow> ret ())"

record import_options =
  io_engine :: nat
  io_policy :: nat
  io_dry_run :: bool
  io_map_roles :: bool
  io_slugify :: "string \<Rightarrow> string"

definition imported_note :: "source_secret \<Rightarrow> string \<Rightarrow> import_state \<Rightarrow> import_state" where
  "imported_note src ctype st =
     st\<lparr>im_done := List.insert (source_marker (src_pk src)) (im_done st),
        im_result := noted src ''imported'' ctype ((im_result st)\<lparr>ir_imported := Suc (ir_imported (im_result st))\<rparr>)\<rparr>"

definition failed_note :: "source_secret \<Rightarrow> exn \<Rightarrow> import_state \<Rightarrow> import_state" where
  "failed_note src e st =
     st\<lparr>im_result := noted src ''failed'' (exn_class_name e) ((im_result st)\<lparr>ir_failed := Suc (ir_failed (im_result st))\<rparr>)\<rparr>"

definition import_one ::
  "('x, 'b, 'c) env \<Rightarrow> import_options \<Rightarrow> user option \<Rightarrow> credential \<times> source_secret \<Rightarrow> import_state \<Rightarrow> ('x, 'b, import_state) prog" where
  "import_one env opts u bs st =
     (case bs of (blank, src) \<Rightarrow>
        if source_marker (src_pk src) \<in> set (im_done st)
        then ret (st\<lparr>im_result := noted src ''skipped'' ''already imported''
                       ((im_result st)\<lparr>ir_skipped := Suc (ir_skipped (im_result st))\<rparr>)\<rparr>)
        else case infer_credential_type (e_lib env) (src_plaintext src) of (ctype, p) \<Rightarrow>
          if io_dry_run opts
          then ret (st\<lparr>im_result := noted src ''planned'' ctype
                         ((im_result st)\<lparr>ir_imported := Suc (ir_imported (im_result st))\<rparr>)\<rparr>)
          else bnd (policy_for (io_slugify opts) (io_engine opts) (io_policy opts) (io_map_roles opts) src st) (\<lambda>(policy, st1).
               on_exn
                 (bnd (material_transaction env (run_hook env)
                         (import_body env u src (source_credential blank src ctype policy (io_engine opts)) p))
                    (\<lambda>_. ret (imported_note src ctype st1)))
                 (\<lambda>e. ret (failed_note src e st1))))"

primrec import_all ::
  "('x, 'b, 'c) env \<Rightarrow> import_options \<Rightarrow> user option \<Rightarrow> (credential \<times> source_secret) list \<Rightarrow> import_state \<Rightarrow> ('x, 'b, import_state) prog" where
  "import_all env opts u [] st = ret st"
| "import_all env opts u (bs # rest) st = bnd (import_one env opts u bs st) (import_all env opts u rest)"

definition import_secrets ::
  "('x, 'b, 'c) env \<Rightarrow> import_options \<Rightarrow> user option \<Rightarrow> (credential \<times> source_secret) list \<Rightarrow> ('x, 'b, import_result) prog" where
  "import_secrets env opts u sources =
     bnd (gets (\<lambda>s. marks_on (io_engine opts) (db s))) (\<lambda>marks.
     bnd (import_all env opts u sources \<lparr>im_result = empty_result, im_cache = [], im_done = marks\<rparr>) (\<lambda>st.
     ret (im_result st)))"

section \<open>The command\<close>

text \<open>The other plugin: its rows, and what decrypting one gives.\<close>

record 'r secrets_plugin =
  sp_rows :: "'r list"
  sp_pk :: "'r \<Rightarrow> nat"
  sp_decrypt :: "string \<Rightarrow> 'r \<Rightarrow> exn + string"
  sp_name :: "'r \<Rightarrow> string"
  sp_role_name :: "'r \<Rightarrow> string"
  sp_object_type :: "'r \<Rightarrow> content_type option"
  sp_object_id :: "'r \<Rightarrow> nat option"

abbreviation command_error :: exn where
  "command_error \<equiv> PythonError ''CommandError''"

fun decrypt_rows :: "'r secrets_plugin \<Rightarrow> string \<Rightarrow> 'r list \<Rightarrow> exn + source_secret list" where
  "decrypt_rows sp key [] = Inr []"
| "decrypt_rows sp key (r # rest) =
     (case sp_decrypt sp key r of
        Inl _ \<Rightarrow> Inl command_error
      | Inr txt \<Rightarrow> map_sum id (\<lambda>xs. \<lparr>src_pk = sp_pk sp r, src_name = sp_name sp r, src_plaintext = txt,
          src_role_name = sp_role_name sp r, src_username = [], src_object_type = sp_object_type sp r,
          src_object_id = sp_object_id sp r\<rparr> # xs) (decrypt_rows sp key rest))"

text \<open>\<open>plugin\<close> is absent when \<^verbatim>\<open>netbox-secrets\<close> is not installed; \<open>key\<close> is what the file or the prompt gives. A limit of zero is
  no limit.\<close>

definition load_sources ::
  "'r secrets_plugin option \<Rightarrow> exn + string \<Rightarrow> nat option \<Rightarrow> exn + source_secret list" where
  "load_sources plugin key limit =
     (case plugin of
        None \<Rightarrow> Inl command_error
      | Some sp \<Rightarrow>
          (case key of
             Inl e \<Rightarrow> Inl e
           | Inr k \<Rightarrow> decrypt_rows sp k
               (case limit of None \<Rightarrow> sp_rows sp | Some n \<Rightarrow> if n = 0 then sp_rows sp else take n (sp_rows sp))))"

definition engine_by_slug :: "string \<Rightarrow> database \<Rightarrow> nat option" where
  "engine_by_slug slug d = map_option fst (List.find (\<lambda>(_, e). eng_slug e = slug) (engines d))"

text \<open>The session key: a protected file, an interactive prompt, or a refusal.\<close>

definition resolve_session_key :: "(exn + string) option \<Rightarrow> bool \<Rightarrow> string \<Rightarrow> exn + string" where
  "resolve_session_key file tty prompted =
     (case file of
        Some (Inl _) \<Rightarrow> Inl command_error
      | Some (Inr txt) \<Rightarrow> Inr (strip txt)
      | None \<Rightarrow> if tty then Inr (strip prompted) else Inl command_error)"

definition import_command ::
  "('x, 'b, 'c) env \<Rightarrow> (string \<Rightarrow> string) \<Rightarrow> 'r secrets_plugin option \<Rightarrow> exn + string \<Rightarrow> (nat \<Rightarrow> credential)
   \<Rightarrow> string \<Rightarrow> string \<Rightarrow> bool \<Rightarrow> bool \<Rightarrow> nat option \<Rightarrow> ('x, 'b, import_result option) prog" where
  "import_command env slugify plugin key blank engine_slug policy_slug map_roles dry_run limit =
     bnd (gets (\<lambda>s. engine_by_slug engine_slug (db s))) (\<lambda>e. bnd (get_or e command_error) (\<lambda>engine.
     bnd (gets (\<lambda>s. policy_by_slug policy_slug (db s))) (\<lambda>p. bnd (get_or p command_error) (\<lambda>policy.
     bnd (gets (\<lambda>s. map_option pol_engine_id (row (policies (db s)) policy))) (\<lambda>pe.
     bnd (check (pe = Some engine) command_error) (\<lambda>_.
     bnd (lift_sum (load_sources plugin key limit)) (\<lambda>sources.
     if sources = [] then ret None
     else bnd (import_secrets env
            \<lparr>io_engine = engine, io_policy = policy, io_dry_run = dry_run, io_map_roles = map_roles, io_slugify = slugify\<rparr>
            None (map (\<lambda>x. (blank (src_pk x), x)) sources)) (\<lambda>r. ret (Some r)))))))))"

end
