(* ===== verification/Service_Properties.thy ===== *)
theory Service_Properties
  imports Example_Runs
begin

text \<open>
  Properties of the services that hold on every path: the policy gate and the authorization of a reveal, the release of a material
  transaction, what an automation bundle may contain, and the public key identity of versions.
\<close>

section \<open>Authorization\<close>

text \<open>The policy gate: an operation on a credential under a policy proceeds, with no effect, exactly when there is no user, the
  user is a superuser, the policy lists no group or the user is in one of its groups; otherwise it is refused,
  and when the caller named an action the refusal is recorded in the access log with that action.\<close>

theorem policy_gate:
  assumes p: "policy_of (db s) c = Some p"
  shows "enforce_policy_access env c u a rq s =
    (if group_permitted p u then (Inr (), s)
     else (Inl (PermissionDenied ''Your groups are not permitted to access credentials under this policy.''),
       case a of None \<Rightarrow> s
       | Some act \<Rightarrow> s\<lparr>db := snd (log_access (e_audit env) c u act False [] ''Policy group membership required.'' rq True (db s))\<rparr>))"
proof (cases u)
  case None
  then show ?thesis by (simp add: enforce_policy_access_def bypasses_groups_def group_permitted_def ret_def)
next
  case (Some v)
  then show ?thesis
    by (simp add: enforce_policy_access_def bypasses_groups_def group_permitted_def policy_p_def p bnd_def gets_def get_or_def
        ret_def raise_def log_access_p_def with_db_def split: option.splits prod.splits)
qed

theorem policy_gate_witness:
  "fst (enforce_policy_access (ex_env ex_ok) ex_credential (Some (ex_user\<lparr>usr_groups := []\<rparr>)) (Some ACTION_REVEAL) None ex_state)
     = Inl (PermissionDenied ''Your groups are not permitted to access credentials under this policy.'')"
proof -
  have "policy_of (db ex_state) ex_credential = Some ex_policy"
    by (simp add: policy_of_def ex_credential_def ex_state_def ex_db_def row_def)
  note gate = policy_gate [OF this, of "ex_env ex_ok" "Some (ex_user\<lparr>usr_groups := []\<rparr>)" "Some ACTION_REVEAL" None]
  show ?thesis unfolding gate by (simp add: group_permitted_def ex_user_def ex_policy_def)
qed


text \<open>C10: A reveal is authorized, bounded and recorded: whenever it returns data, the policy admits the user, a reason was given if
  the policy demands one, the lifetime it reports exceeds neither the policy's nor the configured ceiling, and the
  access log gained exactly the successful reveal with that user and reason (if the log accepts it).\<close>

theorem reveal_is_authorized:
  assumes p: "policy_of (db s) c = Some pol"
    and run: "reveal_material env c u rq reason version s = (Inr (j, ttl), s')"
  shows "group_permitted pol u \<and> (pol_require_reason pol \<longrightarrow> strip reason \<noteq> []) \<and>
    ttl \<le> pol_max_reveal_ttl pol \<and> ttl \<le> (if set_reveal_ttl (e_cfg env) = 0 then 300 else set_reveal_ttl (e_cfg env)) \<and>
    (ae_log_ok (e_audit env) (access_row (e_audit env) c u ACTION_REVEAL True reason [] rq True) \<longrightarrow>
       access_log (db s') = access_log (db s) @ [(next_id (db s), access_row (e_audit env) c u ACTION_REVEAL True reason [] rq True)])"
proof -
  note gate = policy_gate [OF p, of env u "Some ACTION_REVEAL" rq]
  have perm: "group_permitted pol u"
    using run gate by (auto simp: reveal_material_def bnd_def split: if_splits)
  have rsn: "\<not> (pol_require_reason pol \<and> strip reason = [])"
    using run gate perm
    by (auto simp: reveal_material_def bnd_def policy_p_def gets_def get_or_def ret_def raise_def p log_access_p_def with_db_def
        split: prod.splits)
  have "reveal_read env c pol u rq reason (effective_version c version) s = (Inr (j, ttl), s')"
    using run gate perm rsn
    by (simp add: reveal_material_def bnd_def policy_p_def gets_def get_or_def ret_def p)
  then obtain "ttl = reveal_ttl_of env pol"
    "db s' = snd (log_access (e_audit env) c u ACTION_REVEAL True reason [] rq True (db s))"
    by (rule reveal_read_success)
  with perm rsn show ?thesis
    by (auto simp: reveal_ttl_of_def log_access_def try_insert_log_def insert_log_def)
qed

theorem reveal_is_authorized_witness:
  "\<exists>c s' j ttl s''. ex_promoted = (Inr c, s') \<and> ex_reveal c s' = (Inr (j, ttl), s'') \<and> ttl \<le> 120"
proof -
  obtain c s' j ttl s'' where r: "ex_promoted = (Inr c, s')" "ex_reveal c s' = (Inr (j, ttl), s'')"
    and pol: "policy_of (db s') c = Some ex_policy"
    using ex_promoted_policy by blast
  from reveal_is_authorized [OF pol r(2) [unfolded ex_reveal_def]] have "ttl \<le> 120"
    by (simp add: ex_policy_def)
  with r show ?thesis by blast
qed

section \<open>Release of the transaction\<close>

definition outside_step :: "('x, 'b) sys \<Rightarrow> ('x, 'b) sys \<Rightarrow> bool" where
  "outside_step s s' = (owner s' = owner s \<and> autocommit s' = autocommit s \<and> locks s' = locks s)"

interpretation outside: state_frame outside_step
  by unfold_locales (auto simp: outside_step_def)

lemma outside_framed_lift:
  "framed outside_step (with_db f)" "framed outside_step (try_db g)" "framed outside_step (backend_call env k)"
  "framed outside_step (log_access_p env c u a ok r m q l)" "framed outside_step (get_backend_p env eng pol)"
  by (auto simp: framed_def outside_step_def with_db_def try_db_def backend_call_def on_ext_def log_access_p_def get_backend_p_def
      split: prod.splits)

lemmas outside_framed = outside.framed_basic outside.framed_bnd outside.framed_on_exn outside.framed_for_each
  outside_framed_lift framed_cases

lemma outside_framed_record: "framed outside_step (record_recovery env t a m)"
  unfolding record_recovery_def by (intro outside_framed)

lemma outside_framed_recover: "framed outside_step (recover env unknown t)"
  unfolding recover_def recover_attempt_def by (intro outside_framed outside_framed_record)

lemma outside_framed_finish: "framed outside_step (finish_deletions env t)"
proof -
  have "framed outside_step (finish_each env t as)" for as
  proof (induction as)
    case (Cons a as)
    have "framed outside_step (finish_deletion env t a)"
      unfolding finish_deletion_def by (intro outside_framed outside_framed_record)
    with Cons show ?case by simp (intro outside_framed; simp)
  qed (simp add: outside.framed_basic)
  then show ?thesis unfolding finish_deletions_def by (intro outside_framed)
qed

lemma outside_framed_hook: "framed outside_step (run_hook env h)"
proof -
  have fk: "framed outside_step (policy_p c)" "framed outside_step (engine_p c)" for c
    unfolding policy_p_def engine_p_def by (intro outside_framed)+
  show ?thesis
    by (cases h) (simp_all add: run_hook_def run_metadata_projection_def publish_custom_metadata_def delete_material_def audited_call_def,
        (intro outside_framed fk)+)
qed

definition released :: "('x, 'b) sys \<Rightarrow> bool" where
  "released s = (owner s = None \<and> autocommit s \<and> locks s = [])"

lemma released_step: "outside_step s s' \<Longrightarrow> released s' = released s"
  by (simp add: outside_step_def released_def)

lemma released_unwind:
  assumes "autocommit s" "locks s = []"
  shows "released (snd (unwind env e unknown t s))"
proof -
  have "outside_step (s\<lparr>owner := None\<rparr>) (snd (bnd (recover env unknown t) (\<lambda>_. raise e) (s\<lparr>owner := None\<rparr>)))"
    by (rule framedD [OF _ prod.collapse [symmetric]]) (intro outside_framed outside_framed_recover)
  from released_step [OF this] assms show ?thesis by (simp add: unwind_def bnd_def [of "modify _"] modify_def released_def)
qed

lemma unwind_raises: "\<exists>e'. fst (unwind env e unknown t s) = Inl e'"
  by (auto simp: unwind_def bnd_def raise_def split: prod.splits sum.splits)

lemma released_after_commit:
  assumes "autocommit s" "locks s = []"
  shows "released (snd (after_commit env (run_hook env) hs t y s))"
proof -
  let ?t = "t\<lparr>mt_committed := True\<rparr>"
  obtain q s2 where h: "for_each (run_hook env) hs (s\<lparr>owner := Some ?t\<rparr>) = (q, s2)" by fastforce
  have "framed outside_step (for_each (run_hook env) hs)" by (intro outside_framed outside_framed_hook)
  from framedD [OF this h] have l: "autocommit s2" "locks s2 = []" using assms by (simp_all add: outside_step_def)
  show ?thesis
  proof (cases q)
    case (Inl e)
    obtain z :: "exn + unit" and s3 where u: "unwind env e True ?t s2 = (z, s3)" by fastforce
    have "\<exists>e'. z = Inl e'" by (metis fst_conv u unwind_raises)
    then obtain e' where z: "z = Inl e'" by (metis fst_conv)
    have "released s3" by (metis released_unwind l u snd_conv)
    with h Inl u z show ?thesis by (simp add: after_commit_def bnd_def modify_def on_exn_def Let_def)
  next
    case (Inr x)
    have "outside_step (s2\<lparr>owner := None\<rparr>) (snd (bnd (finish_deletions env ?t) (\<lambda>_. ret y) (s2\<lparr>owner := None\<rparr>)))"
      by (rule framedD [OF _ prod.collapse [symmetric]]) (intro outside_framed outside_framed_finish)
    from released_step [OF this] l
    have "released (snd (bnd (finish_deletions env ?t) (\<lambda>_. ret y) (s2\<lparr>owner := None\<rparr>)))" by (simp add: released_def)
    with h Inr show ?thesis
      by (simp add: after_commit_def Let_def bnd_def [of "modify _"] bnd_def [of "on_exn _ _"] modify_def on_exn_def)
  qed
qed

lemma released_run_owner: "released (snd (run_owner env (run_hook env) body s))"
proof -
  have left: "autocommit (leave_tx d s1)" "locks (leave_tx d s1) = []" for d and s1 :: "('a, 'b) sys"
    by (simp_all add: leave_tx_def)
  obtain q s1 where b: "tx_body env body (begin_tx env s) = (q, s1)" by fastforce
  show ?thesis
    by (cases q; cases "e_commit env (db s1)") (simp_all add: run_owner_def b released_unwind released_after_commit left)
qed

text \<open>C9: A material transaction always ends outside of any transaction: whatever its body does, however the commit ends and
  whatever its callbacks, recovery and deferred deletions run into, afterwards there is no current owner,
  autocommit is back on and no row lock is held.\<close>

theorem transaction_is_released: "released (snd (run_owner env (run_hook env) body s))"
  by (rule released_run_owner)

section \<open>The automation bundle\<close>

text \<open>What an automation bundle may contain: each value of a projection is the string the payload has under a declared field and
  is at most 262144 bytes long, every required field is present, and the fields come in their declared order.\<close>

theorem bundle_is_bounded:
  assumes "project_fields flds data = Inr out"
  shows "(\<forall>f v. (f, v) \<in> set out \<longrightarrow> (\<exists>required. (f, required) \<in> set flds) \<and> dict_get data f = Some (JStr v) \<and> length v \<le> 262144) \<and>
    (\<forall>f. (f, True) \<in> set flds \<longrightarrow> f \<in> fst ` set out) \<and> subseq (map fst out) (map fst flds)"
  using assms
proof (induction flds data arbitrary: out rule: project_fields.induct)
  case (2 f required fs data)
  show ?case
  proof (cases "dict_get data f")
    case None
    with 2(3) have "\<not> required" "project_fields fs data = Inr out" by (auto split: if_splits)
    with 2(1) [OF None] show ?thesis by (simp; blast)
  next
    case (Some j)
    with 2(3) obtain v where j: "j = JStr v" by (cases j) auto
    with 2(3) Some obtain r where r: "length v \<le> 262144" "project_fields fs data = Inr r" "out = (f, v) # r"
      by (auto simp: MAX_BUNDLE_VALUE_def split: if_splits sum.splits)
    from r(1) have "\<not> MAX_BUNDLE_VALUE < length v" by (simp add: MAX_BUNDLE_VALUE_def)
    from 2(2) [OF Some j this r(2)] show ?thesis using Some j r by (simp; blast)
  qed
qed simp

theorem bundle_is_bounded_witness:
  "project_fields [(''password'', True), (''note'', False)] [(''password'', JStr ''x'')] = Inr [(''password'', ''x'')] \<and>
   subseq [''password''] [''password'', ''note'']"
proof -
  have e: "project_fields [(''password'', True), (''note'', False)] [(''password'', JStr ''x'')] = Inr [(''password'', ''x'')]"
    by (simp add: dict_get_def MAX_BUNDLE_VALUE_def)
  from bundle_is_bounded [OF e] e show ?thesis by simp
qed

section \<open>Key identity of versions\<close>

text \<open>The public key identity follows the version pointers. Staging a version leaves the identity of the live version as it was; if
  the staged version is then promoted, the live identity is exactly the fingerprint derived from the staged key
  and it is bound to the promoted version.\<close>

theorem staged_identity_promotes:
  assumes ssh: "ts_extractor sch = Some ''ssh''" and fp: "ssh_fingerprint_re fp"
  shows "let staged = fst (record_version now fp n False ACTION_STAGE c); live = fst (promoted now' staged)
    in live_key_fingerprint staged sch = live_key_fingerprint c sch \<and> live_key_fingerprint live sch = Inr fp \<and>
       cr_live_key_version live = Some n \<and> cr_live_kv_version live = Some n \<and> cr_staged_key_fingerprint live = []"
proof -
  have "fp \<noteq> []" using fp by (auto simp: ssh_fingerprint_re_def)
  then show ?thesis
    using ssh fp
    by (simp add: record_version_def promoted_def promote_key_identity_def record_key_version_def clear_staged_key_def
        live_key_fingerprint_def Let_def)
qed

theorem staged_identity_promotes_witness:
  "live_key_fingerprint (fst (promoted 9 (fst (record_version 8 (''SHA256:'' @ replicate 43 (CHR ''a'')) 3 False ACTION_STAGE ex_credential))))
     (builtin_schema [] (Some ''ssh'') False) = Inr (''SHA256:'' @ replicate 43 (CHR ''a''))"
proof -
  have "ts_extractor (builtin_schema [] (Some ''ssh'') False) = Some ''ssh''"
    "ssh_fingerprint_re (''SHA256:'' @ replicate 43 (CHR ''a''))" by code_simp+
  from staged_identity_promotes [OF this] show ?thesis by (simp add: Let_def)
qed

end
