(* ===== verification/Automation_Properties.thy ===== *)
theory Automation_Properties
  imports Automation Example_Runs
begin

text \<open>
  What a one-use resolution guarantees: a delivery is spent, authorized and recorded; a second one of
  the same dispatch never reaches the vault; every failure ends in the same refusal. Other transactions are
  assumed to keep the evidence (\<open>evidence_kept\<close>): receipts have no deleting code, and the retention job prunes only log
  rows older than the window.
\<close>

section \<open>What other transactions leave in place\<close>

text \<open>Receipts are never removed, keys of the sequence are not reused, and a recent row of the access
  log keeps all it says but its outcome.\<close>

definition evidence :: "credential_access_log \<Rightarrow> credential_access_log" where
  "evidence l = l\<lparr>log_success := False, log_message := []\<rparr>"

definition keeps :: "int \<Rightarrow> database \<Rightarrow> database \<Rightarrow> bool" where
  "keeps now d d' =
     (set (receipts d) \<subseteq> set (receipts d') \<and> (fresh_ids d \<longrightarrow> fresh_ids d') \<and>
      (\<forall>k l. row (access_log d) k = Some l \<longrightarrow> now \<le> log_timestamp l \<longrightarrow>
         (\<exists>l'. row (access_log d') k = Some l' \<and> evidence l' = evidence l)))"

lemma evidence_time: "evidence l' = evidence l \<Longrightarrow> log_timestamp l' = log_timestamp l"
  by (metis evidence_def credential_access_log.select_convs(12) credential_access_log.surjective credential_access_log.update_convs(10,11))

lemma evidence_marked:
  "evidence l' = evidence l \<Longrightarrow> l'\<lparr>log_success := ok, log_message := m\<rparr> = l\<lparr>log_success := ok, log_message := m\<rparr>"
  by (cases l; cases l') (simp add: evidence_def)

lemma mark_delivered_row:
  assumes "row (access_log d) k = Some l'" and "evidence l' = evidence l"
  shows "row (access_log (mark_delivered k d)) k = Some (l\<lparr>log_success := True, log_message := delivered_message\<rparr>)"
  using assms(1) evidence_marked [OF assms(2)] by (simp add: mark_delivered_def)

definition evidence_kept :: "('x, 'b, 'c) env \<Rightarrow> bool" where
  "evidence_kept env = (\<forall>h ls d. keeps (e_now env) d (e_lock_wait env h ls d))"

definition keep_step :: "int \<Rightarrow> ('x, 'b) sys \<Rightarrow> ('x, 'b) sys \<Rightarrow> bool" where
  "keep_step now s s' = (keeps now (db s) (db s') \<and> hooks s' = hooks s \<and> autocommit s' = autocommit s)"

lemma keeps_refl: "keeps now d d"
  by (simp add: keeps_def)

lemma keeps_trans:
  assumes a: "keeps now d e" and b: "keeps now e f"
  shows "keeps now d f"
proof -
  have "\<exists>l''. row (access_log f) k = Some l'' \<and> evidence l'' = evidence l"
    if l: "row (access_log d) k = Some l" "now \<le> log_timestamp l" for k l
  proof -
    from a l obtain l' where l': "row (access_log e) k = Some l'" "evidence l' = evidence l"
      unfolding keeps_def by blast
    from l(2) evidence_time [OF l'(2)] have "now \<le> log_timestamp l'" by simp
    with b l'(1) obtain l'' where "row (access_log f) k = Some l''" "evidence l'' = evidence l'"
      unfolding keeps_def by blast
    with l'(2) show ?thesis by simp
  qed
  with a b show ?thesis unfolding keeps_def by blast
qed

interpretation keeping: state_frame "keep_step now" for now
  by unfold_locales (auto simp: keep_step_def intro: keeps_refl keeps_trans)

lemma keep_framed_lift:
  "framed (keep_step now) (on_ext m)" "framed (keep_step now) (outside_call g)" "framed (keep_step now) (backend_call env k)"
  "framed (keep_step now) (get_backend_p env eng pol)"
  by (auto simp: framed_def keep_step_def keeps_refl on_ext_def outside_call_def backend_call_def get_backend_p_def
      split: prod.splits)

lemma keeps_insert_log: "keeps now d (snd (insert_log l d))"
  using fresh_ids_insert_log [of d l]
  by (simp add: keeps_def) (simp add: insert_log_def row_append)

lemma keep_framed_log: "framed (keep_step now) (create_log env l)"
  using keeps_insert_log
  by (auto simp: framed_def keep_step_def create_log_def try_db_def keeps_refl split: prod.splits) (metis snd_conv)

lemma keep_framed_receipt: "framed (keep_step now) (try_db (insert_receipt r))"
  by (auto simp: framed_def keep_step_def try_db_def insert_receipt_def keeps_def fresh_ids_def list_all_iff
      split: prod.splits)

lemma keep_framed_acquire: "evidence_kept env \<Longrightarrow> framed (keep_step (e_now env)) (acquire env ls)"
  by (auto simp: framed_def keep_step_def acquire_def modify_def evidence_kept_def)

lemmas keep_framed = keeping.framed_basic keeping.framed_bnd keeping.framed_on_exn framed_cases keep_framed_lift
  keep_framed_acquire keep_framed_log keep_framed_receipt

lemma keep_framed_graph:
  assumes ev: "evidence_kept env"
  shows "framed (keep_step (e_now env)) (lock_credential_graph env k p)"
  unfolding lock_credential_graph_def lock_policies_def lock_engines_def lock_credentials_def
  by (intro keep_framed ev)

lemma keep_framed_checks:
  "framed (keep_step now) (check_dispatch au a)" "framed (keep_step now) (require q)" "framed (keep_step now) (visible au u act ct k)"
  "framed (keep_step now) (the_schema t)" "framed (keep_step now) (authorize_dispatch au u ps)"
  unfolding check_dispatch_def check_lifetime_def check_rpc_permissions_def or_denied_def require_def visible_def
    the_schema_def authorize_dispatch_def
  by (intro keep_framed)+

lemma keep_framed_resolve:
  assumes ev: "evidence_kept env"
  shows "framed (keep_step (e_now env)) (resolve_metadata env au a)"
proof -
  have "framed (keep_step (e_now env)) (lock_metadata env a)"
    unfolding lock_metadata_def lock_candidate_service_def
    by (intro keep_framed keep_framed_graph keep_framed_checks framed_case_list ev)
  then show ?thesis
    unfolding resolve_metadata_def actor_p_def target_def check_service_visible_def check_credential_def
    by (intro keep_framed keep_framed_checks)
qed


section \<open>Refusals\<close>

definition refusal :: "automation_params \<Rightarrow> credential_access_log \<Rightarrow> bool" where
  "refusal ps l = (\<not> log_success l \<and> log_message l = refused_message \<and> log_action l = ACTION_REVEAL \<and>
     log_execution_id l = Some (ap_execution_id ps) \<and> log_step_id l = ap_step_id ps \<and>
     log_reference_name l = ap_reference_name ps)"

lemma refuse_run:
  assumes "refuse env au u ps a rc s = (r, s')"
  shows "r = Inl AutomationResolutionDenied \<and> autocommit s' = autocommit s \<and>
    (ae_log_ok (e_audit env) (automation_row env au u ps a None rc False) \<longrightarrow>
       access_log (db s') = access_log (db s) @ [(next_id (db s), automation_row env au u ps a None rc False)])"
  using assms
  by (auto simp: refuse_def record_automation_access_def create_log_def bnd_def on_exn_def try_db_def insert_log_def
      ret_def raise_def split: if_splits)

lemma refusal_row: "refusal ps (automation_row env au u ps a c rc False)"
  by (simp add: refusal_def automation_row_def)

lemma keep_framed_identity: "framed (keep_step now) (require_identity au r a)"
  unfolding require_identity_def identity_def by (intro keep_framed keep_framed_checks)

lemma keep_framed_bundle: "framed (keep_step now) (read_automation_bundle env c e p v flds x)"
  unfolding read_automation_bundle_def
  by (intro keep_framed)+ (auto split: json.splits intro!: keep_framed)

lemma keep_framed_reserve:
  assumes ev: "evidence_kept env"
  shows "framed (keep_step (e_now env)) (reserve_body env au a)"
  unfolding reserve_body_def
  by (intro keep_framed keep_framed_checks keep_framed_identity keep_framed_resolve ev)

lemma atomic_success:
  assumes "atomic env body s = (Inr r, s')" and ac: "autocommit s" and fr: "framed (keep_step now) body"
  obtains s1 where "body (enter_tx s) = (Inr r, s1)" and "keep_step now (enter_tx s) s1" and "db s' = db s1" and "autocommit s'"
proof -
  obtain q s1 where b: "body (enter_tx s) = (q, s1)" by fastforce
  from framedD [OF fr b] have k: "keep_step now (enter_tx s) s1" .
  then have h: "hooks s1 = []" by (simp add: keep_step_def enter_tx_def)
  from assms(1) ac b h have "q = Inr r \<and> db s' = db s1 \<and> autocommit s'"
    by (auto simp: atomic_def leave_tx_def bnd_def ret_def split: sum.splits commit_outcome.splits)
  with b k that show ?thesis by blast
qed

lemma atomic_failure:
  assumes "atomic env body s = (Inl e, s')" and ac: "autocommit s" and fr: "framed (keep_step now) body"
  shows "autocommit s'"
proof -
  obtain q s1 where b: "body (enter_tx s) = (q, s1)" by fastforce
  from framedD [OF fr b] have h: "hooks s1 = []" by (simp add: keep_step_def enter_tx_def)
  with assms(1) ac b show ?thesis
    by (auto simp: atomic_def leave_tx_def bnd_def ret_def split: sum.splits commit_outcome.splits)
qed


lemma keep_framed_record: "framed (keep_step now) (record_automation_access env au u ps a c rc k)"
  unfolding record_automation_access_def by (rule keep_framed_log)

text \<open>Marking a delivery rewrites an audit row, so the frame covers what comes before it.\<close>

definition deliver_read ::
  "('x, 'b, 'c) env \<Rightarrow> 'x automation \<Rightarrow> resolution \<Rightarrow> nat \<Rightarrow> (string \<times> field_spec) list \<Rightarrow> authority
   \<Rightarrow> ('x, 'b, (string \<times> string) list \<times> int) prog" where
  "deliver_read env au r v flds a =
     bnd (check_dispatch au a) (\<lambda>_.
     bnd (read_automation_bundle env (rs_credential r) (rs_engine r) (rs_policy r) v
            (map (\<lambda>(f, sp). (f, fs_required sp)) flds) (map_option pid_fingerprint (au_provider_identity a))) (\<lambda>out.
     bnd (resolve_metadata env au a) (\<lambda>(r', v', _).
     bnd (require_identity au r' a) (\<lambda>_.
     bnd (require (v' = v)) (\<lambda>_.
     bnd (check_dispatch au a) (\<lambda>_. ret out))))))"

lemma keep_framed_deliver_read:
  assumes ev: "evidence_kept env"
  shows "framed (keep_step (e_now env)) (deliver_read env au r v flds a)"
  unfolding deliver_read_def
  by (intro keep_framed keep_framed_checks keep_framed_identity keep_framed_bundle keep_framed_resolve ev)

lemma deliver_body_parts:
  "deliver_body env au u ps rc =
     bnd (authorize_dispatch au u ps) (\<lambda>a.
     bnd (resolve_metadata env au a) (\<lambda>(r, v, flds).
     bnd (check_dispatch au a) (\<lambda>_.
     bnd (require_identity au r a) (\<lambda>_.
     bnd (require ((cr_uuid (rs_credential r), rs_assignment_id r, v, nonce_digest au a)
            = (rc_credential_uuid rc, rc_assignment_id rc, rc_resolved_version rc, rc_nonce_digest rc))) (\<lambda>_.
     bnd (record_automation_access env au u ps (Some a) (Some (rs_credential r)) (Some rc) False) (\<lambda>audit.
     bnd (deliver_read env au r v flds a) (\<lambda>(material, ttl).
     bnd (modify (\<lambda>s. s\<lparr>db := mark_delivered audit (db s)\<rparr>)) (\<lambda>_.
     ret \<lparr>ar_credential_uuid = cr_uuid (rs_credential r), ar_assignment_id = rs_assignment_id r, ar_resolved_version = v,
          ar_ttl = ttl, ar_fields = material, ar_access_log_id = audit\<rparr>))))))))"
  unfolding deliver_body_def deliver_read_def
  by (intro ext arg_cong2 [where f = bnd] refl)
    (auto simp: bnd_def ret_def fun_eq_iff split: prod.splits sum.splits)


section \<open>What a delivery implies\<close>

definition granted :: "('x, 'b, 'c) env \<Rightarrow> authority \<Rightarrow> resolution \<Rightarrow> nat \<Rightarrow> bool" where
  "granted env a r v =
     (valid_now (e_now env) (rs_credential r) \<and> cr_live_kv_version (rs_credential r) = Some v \<and>
      cr_staged_kv_version (rs_credential r) \<noteq> Some v \<and>
      (\<forall>n. ref_version (au_reference a) = PinnedVersion n \<longrightarrow> n = v) \<and>
      (pol_require_reason (rs_policy r) \<longrightarrow> strip (au_reason a) \<noteq> []))"

lemma gets_InrE: "gets f s = (Inr y, s') \<Longrightarrow> f s = y \<and> s' = s"
  by (auto simp: gets_def)

lemma ret_InrE: "ret x s = (Inr y, s') \<Longrightarrow> y = x \<and> s' = s"
  by (simp add: ret_def)

lemma check_InrE: "check c e s = (Inr y, s') \<Longrightarrow> c \<and> s' = s"
  by (auto simp: check_def raise_def ret_def split: if_splits)

lemma lift_sum_InrE: "lift_sum r s = (Inr y, s') \<Longrightarrow> r = Inr y \<and> s' = s"
  by (auto simp: lift_sum_def raise_def ret_def split: sum.splits)

lemma get_or_InrE: "get_or x e s = (Inr y, s') \<Longrightarrow> x = Some y \<and> s' = s"
  by (auto simp: get_or_def raise_def ret_def split: option.splits)

lemma require_InrE: "require c s = (Inr y, s') \<Longrightarrow> c \<and> s' = s"
  by (auto simp: require_def check_def raise_def ret_def split: if_splits)

lemma resolved_version_granted:
  "resolved_version c a = Some v \<Longrightarrow> cr_live_kv_version c = Some v \<and> cr_staged_kv_version c \<noteq> Some v \<and>
     (\<forall>n. ref_version (au_reference a) = PinnedVersion n \<longrightarrow> n = v)"
  by (auto simp: resolved_version_def split: option.splits if_splits version_policy.splits)

text \<open>What the authorization of one resolution says of the state \<open>t1\<close> it ends in, \<open>t0\<close> being the one it started from: the
  credential is the row as it was when its lock was obtained and leads from the locked assignment; an assignment row of
  that key is enabled and matches target, purpose and selector; the active actor may view the target and the assignment, may reveal the
  credential and is in a group of its policy.\<close>

definition actor_entitled ::
  "'x automation \<Rightarrow> authority \<Rightarrow> resolution \<Rightarrow> ('x, 'b) sys \<Rightarrow> bool" where
  "actor_entitled au a r t =
     (\<exists>w k. row (users (db t)) (usr_pk (au_actor a)) = Some w \<and> usr_is_active w \<and> cr_pk (rs_credential r) = Some k \<and>
        aut_visible au (ext t) (db t) w ''view'' (au_target_type a) (au_target_pk a) \<and>
        aut_visible au (ext t) (db t) w ''view'' assignment_ct (rs_assignment_id r) \<and>
        aut_visible au (ext t) (db t) w ''reveal'' credential_ct k \<and>
        group_member (case row (policies (db t)) (pol_pk (rs_policy r)) of None \<Rightarrow> [] | Some p \<Rightarrow> pol_groups p) w)"

definition locked_resolution :: "('x, 'b, 'c) env \<Rightarrow> resolution \<Rightarrow> ('x, 'b) sys \<Rightarrow> ('x, 'b) sys \<Rightarrow> bool" where
  "locked_resolution env r t0 t1 =
     (AssignmentLock (rs_assignment_id r) \<in> set (locks t1) \<and> asg_credential_id (rs_assignment r) = cr_pk (rs_credential r) \<and>
      (\<exists>k d. cr_pk (rs_credential r) = Some k \<and> CredentialLock k \<in> set (locks t1) \<and> (others env)\<^sup>*\<^sup>* (db t0) d \<and>
         load_credential d k = Some (rs_credential r)))"

definition authorised ::
  "('x, 'b, 'c) env \<Rightarrow> 'x automation \<Rightarrow> authority \<Rightarrow> resolution \<Rightarrow> nat \<Rightarrow> (string \<times> field_spec) list
   \<Rightarrow> ('x, 'b) sys \<Rightarrow> ('x, 'b) sys \<Rightarrow> bool" where
  "authorised env au a r v flds t0 t1 =
     (granted env a r v \<and> locked_resolution env r t0 t1 \<and> actor_entitled au a r t1 \<and>
      (\<exists>g. (rs_assignment_id r, g) \<in> set (assignment_rows (db t1) a) \<and> asg_enabled g \<and> purpose_value (asg_purpose g) = ref_purpose (au_reference a)) \<and>
      fst ` set flds \<subseteq> set (ref_fields (au_reference a)))"

definition waits :: "('x, 'b, 'c) env \<Rightarrow> ('x, 'b) sys \<Rightarrow> ('x, 'b) sys \<Rightarrow> bool" where
  "waits env s s' = ((others env)\<^sup>*\<^sup>* (db s) (db s') \<and> set (locks s) \<subseteq> set (locks s'))"

interpretation waiting: state_frame "waits env"
  by unfold_locales (auto simp: waits_def)

lemma waits_acquire: "framed (waits env) (acquire env ls)"
  by (auto simp: framed_def waits_def acquire_def modify_def others_wait)

lemmas waits_framed = waiting.framed_basic waiting.framed_bnd waits_acquire framed_cases

lemma credentials_locked:
  assumes "lock_credentials env ids s = (Inr creds, s')" and "map_of creds k = Some c"
  shows "CredentialLock k \<in> set (locks s') \<and> row (credentials (db s')) k = Some c"
  using assms unfolding lock_credentials_def
  by (elim bnd_InrE) (auto dest!: gets_InrE simp: map_of_rows_with acquire_def modify_def sorted_ids_def split: if_splits)

lemma locked_graph:
  assumes run: "lock_credential_graph env cid p s = (Inr (c, pol, e), s')"
  shows "cr_pk c = Some cid \<and> CredentialLock cid \<in> set (locks s') \<and> load_credential (db s') cid = Some c \<and> waits env s s'"
proof -
  have "framed (waits env) (lock_credential_graph env cid p)"
    unfolding lock_credential_graph_def lock_policies_def lock_engines_def lock_credentials_def by (intro waits_framed)
  with run have "waits env s s'" by (rule framedD [rotated])
  with run show ?thesis
    unfolding lock_credential_graph_def
    by (elim bnd_InrE) (auto dest!: gets_InrE ret_InrE check_InrE lift_sum_InrE get_or_InrE credentials_locked simp: load_credential_def)
qed

lemma the_schema_InrE: "the_schema ct s = (Inr y, s') \<Longrightarrow> s' = s"
  unfolding the_schema_def by (elim bnd_InrE) (auto dest!: gets_InrE lift_sum_InrE)

lemma waits_parts: "framed (waits env) (lock_candidate_service env cand)" "framed (waits env) (lock_credential_graph env cid p)"
  unfolding lock_candidate_service_def lock_credential_graph_def lock_policies_def lock_engines_def lock_credentials_def
  by (intro waits_framed)+

lemma waits_schema:
  "framed (waits env) (case key of None \<Rightarrow> ret () | Some i \<Rightarrow> bnd (acquire env [SchemaLock i]) (\<lambda>_.
     bnd (gets (\<lambda>s. row (type_schemas (db s)) i)) (\<lambda>q. bnd (get_or q ObjectDoesNotExist) (\<lambda>_. ret ()))))"
  by (intro waits_framed)

lemma lock_metadata_success:
  assumes run: "lock_metadata env a s = (Inr r, s')"
  shows "locked_resolution env r s s'"
proof -
  obtain k cand where ms: "assignment_rows (db s) a = [(k, cand)]"
    using run unfolding lock_metadata_def by (auto elim!: bnd_InrE dest!: gets_InrE simp: raise_def split: list.splits)
  from run ms obtain service cid c p e s1 s2 s3 g key where
    sv: "lock_candidate_service env cand s = (Inr service, s1)"
    and gr: "lock_credential_graph env cid None s1 = (Inr (c, p, e), s2)"
    and aq: "acquire env [AssignmentLock k] s2 = (Inr (), s3)" and link: "asg_credential_id g = cr_pk c"
    and st: "(case key of None \<Rightarrow> ret () | Some i \<Rightarrow> bnd (acquire env [SchemaLock i]) (\<lambda>_.
       bnd (gets (\<lambda>s. row (type_schemas (db s)) i)) (\<lambda>q. bnd (get_or q ObjectDoesNotExist) (\<lambda>_. ret ())))) s3 = (Inr (), s')"
    and r: "r = \<lparr>rs_assignment_id = k, rs_assignment = g, rs_credential = c, rs_policy = p, rs_engine = e\<rparr>"
    unfolding lock_metadata_def
    by (auto elim!: bnd_InrE dest!: gets_InrE get_or_InrE require_InrE ret_InrE the_schema_InrE)
  note graph = locked_graph [OF gr]
  have "waits env s s2" using framedD [OF waits_parts(1) sv] graph by (blast intro: waiting.frame_trans)
  moreover have "waits env s3 s'" by (rule framedD [OF waits_schema st])
  moreover have "locks s3 = locks s2 @ [AssignmentLock k]" using aq by (auto simp: acquire_def modify_def)
  ultimately show ?thesis using graph link by (auto simp: locked_resolution_def r waits_def)
qed

lemma check_credential_success:
  "check_credential env au r u s = (Inr y, s') \<Longrightarrow> s' = s \<and> valid_now (e_now env) (rs_credential r) \<and>
     (\<exists>k. cr_pk (rs_credential r) = Some k \<and> aut_visible au (ext s) (db s) u ''reveal'' credential_ct k) \<and>
     group_member (case row (policies (db s)) (pol_pk (rs_policy r)) of None \<Rightarrow> [] | Some p \<Rightarrow> pol_groups p) u"
  unfolding check_credential_def visible_def
  by (elim bnd_InrE) (auto dest!: gets_InrE get_or_InrE require_InrE)

lemma visible_InrE: "visible au u act ct k s = (Inr y, s') \<Longrightarrow> s' = s \<and> aut_visible au (ext s) (db s) u act ct k"
  unfolding visible_def by (elim bnd_InrE) (auto dest!: gets_InrE require_InrE)

lemma resolved_fields_subset: "resolved_fields sch a = Some flds \<Longrightarrow> fst ` set flds \<subseteq> set (ref_fields (au_reference a))"
  by (auto simp: resolved_fields_def Let_def first_occurrences_def List.map_filter_def split: if_splits option.splits)

lemma actor_InrE: "actor_p a s = (Inr u, s') \<Longrightarrow> s' = s \<and> row (users (db s)) (usr_pk (au_actor a)) = Some u \<and> usr_is_active u"
  unfolding actor_p_def by (elim bnd_InrE) (auto dest!: gets_InrE get_or_InrE require_InrE ret_InrE)

lemma target_InrE: "target env au a u s = (Inr y, s') \<Longrightarrow> s' = s \<and> aut_visible au (ext s) (db s) u ''view'' (au_target_type a) (au_target_pk a)"
  unfolding target_def Let_def by (elim bnd_InrE) (auto dest!: require_InrE visible_InrE)

lemma service_visible_InrE: "check_service_visible au g u s = (Inr y, s') \<Longrightarrow> s' = s"
  by (auto simp: check_service_visible_def dest!: ret_InrE visible_InrE split: if_splits)

lemma assignment_row_matches:
  "(k, g) \<in> set (assignment_rows d a) \<Longrightarrow> asg_enabled g \<and> purpose_value (asg_purpose g) = ref_purpose (au_reference a)"
  by (auto simp: assignment_rows_def assignment_matches_def)

lemma resolve_metadata_success:
  assumes run: "resolve_metadata env au a s = (Inr (r, v, flds), s')"
  shows "authorised env au a r v flds s s'"
proof -
  from run obtain s1 u s2 where l: "lock_metadata env a s = (Inr r, s1)"
    and u: "row (users (db s1)) (usr_pk (au_actor a)) = Some u" "usr_is_active u"
    and t: "aut_visible au (ext s1) (db s1) u ''view'' (au_target_type a) (au_target_pk a)"
    and f: "rs_assignment_id r \<in> set (map fst (assignment_rows (db s1) a))"
    and g: "aut_visible au (ext s1) (db s1) u ''view'' assignment_ct (rs_assignment_id r)"
    and c: "check_credential env au r u s1 = (Inr (), s2)"
    and q: "pol_require_reason (rs_policy r) \<longrightarrow> strip (au_reason a) \<noteq> []"
    and v: "resolved_version (rs_credential r) a = Some v" and flds: "\<exists>sch. resolved_fields sch a = Some flds" and s': "s' = s2"
    unfolding resolve_metadata_def
    by (auto elim!: bnd_InrE dest!: gets_InrE get_or_InrE require_InrE ret_InrE the_schema_InrE visible_InrE actor_InrE
        target_InrE service_visible_InrE)
  note check = check_credential_success [OF c]
  from f obtain g' where g': "(rs_assignment_id r, g') \<in> set (assignment_rows (db s1) a)" by auto
  have "granted env a r v" using check resolved_version_granted [OF v] q by (simp add: granted_def)
  moreover have "actor_entitled au a r s1" using u t g check by (auto simp: actor_entitled_def)
  moreover from flds have "fst ` set flds \<subseteq> set (ref_fields (au_reference a))" by (blast dest: resolved_fields_subset)
  ultimately show ?thesis
    using lock_metadata_success [OF l] g' assignment_row_matches [OF g'] check by (auto simp: authorised_def s')
qed

lemma project_fields_bounds:
  "project_fields flds data = Inr out \<Longrightarrow> (f, v) \<in> set out \<Longrightarrow> f \<in> fst ` set flds \<and> length v \<le> MAX_BUNDLE_VALUE"
proof (induction flds data arbitrary: out rule: project_fields.induct)
  case (2 g required fs data)
  show ?case
  proof (cases "dict_get data g")
    case None
    with 2(3) have "\<not> required" "project_fields fs data = Inr out" by (auto split: if_splits)
    from 2(1) [OF None this 2(4)] show ?thesis by simp
  next
    case (Some j)
    with 2(3) obtain w where j: "j = JStr w" by (cases j) auto
    with 2(3) Some obtain r where r: "\<not> MAX_BUNDLE_VALUE < length w" "project_fields fs data = Inr r" "out = (g, w) # r"
      by (auto split: if_splits sum.splits)
    with 2(4) 2(2) [OF Some j r(1,2)] show ?thesis by auto
  qed
qed simp

lemma bundle_bounds:
  assumes "read_automation_bundle env c e p n flds x s = (Inr (out, ttl), s')" and "(f, v) \<in> set out"
  shows "f \<in> fst ` set flds \<and> length v \<le> MAX_BUNDLE_VALUE"
proof -
  from assms(1) obtain data where "project_fields flds data = Inr out"
    unfolding read_automation_bundle_def
    by (elim bnd_InrE) (auto simp: raise_def ret_def lift_sum_def elim!: bnd_InrE split: json.splits sum.splits)
  with assms(2) show ?thesis by (blast dest: project_fields_bounds)
qed


definition delivered :: "automation_params \<Rightarrow> automation_receipt \<Rightarrow> credential_access_log \<Rightarrow> bool" where
  "delivered ps rc l = (log_success l \<and> log_message l = delivered_message \<and> log_action l = ACTION_REVEAL \<and>
     log_execution_id l = Some (ap_execution_id ps) \<and> log_step_id l = ap_step_id ps \<and>
     log_reference_name l = ap_reference_name ps \<and> log_uuid_snapshot l = Some (rc_credential_uuid rc) \<and>
     log_assignment_id l = Some (rc_assignment_id rc) \<and> log_resolved_version l = Some (rc_resolved_version rc))"

lemma create_log_success:
  assumes "create_log env l s = (Inr k, s')" and "fresh_ids (db s)"
  shows "row (access_log (db s')) k = Some l"
  using assms fresh_row_access_log [OF assms(2)]
  by (auto simp: create_log_def try_db_def insert_log_def row_append split: if_splits prod.splits) (simp add: row_def)

definition steady :: "('x, 'b) sys \<Rightarrow> ('x, 'b) sys \<Rightarrow> bool" where
  "steady s s' = (db s' = db s)"

interpretation steady_frame: state_frame steady
  by unfold_locales (auto simp: steady_def)

lemma steady_outside: "framed steady (outside_call g)" "framed steady (require c)"
  by (auto simp: framed_def steady_def outside_call_def on_ext_def require_def check_def ret_def raise_def split: prod.splits)

lemmas steady_framed = steady_frame.framed_basic steady_frame.framed_bnd steady_frame.framed_on_exn steady_outside framed_cases

lemma steady_checks: "framed steady (check_dispatch au a)" "framed steady (require_identity au r a)"
  unfolding check_dispatch_def check_lifetime_def check_rpc_permissions_def or_denied_def require_identity_def identity_def
    the_schema_def Let_def
  by (intro steady_framed)+

lemma require_identity_InrE:
  assumes "require_identity au r a s = (Inr y, s')"
  shows "db s' = db s \<and> (\<exists>i. fst (identity au r a s) = Inr i \<and> au_provider_identity a = Some i)"
proof -
  from assms obtain i s1 where "identity au r a s = (Inr i, s1)" "Some i = au_provider_identity a"
    unfolding require_identity_def by (elim bnd_InrE) (auto dest!: require_InrE)
  with framedD [OF steady_checks(2) assms] show ?thesis by (auto simp: steady_def)
qed

text \<open>The run of a delivery, from the state \<open>s\<close> its transaction begins in to the state \<open>s'\<close> that is committed. The dispatch is
  authorised again; the metadata is resolved and locked (\<open>t0\<close> to \<open>t1\<close>); the row of the attempt is written before the vault is read
  (\<open>t2\<close>); what comes out is that read, of the resolved version, for the resolved fields and for the identity frozen at admission; the
  metadata is then resolved once more from the state the read left (\<open>t3\<close> to \<open>t4\<close>), with the same version and the frozen identity; and the
  row of the attempt is marked as a delivery.\<close>

definition delivery_run ::
  "('x, 'b, 'c) env \<Rightarrow> 'x automation \<Rightarrow> user \<Rightarrow> automation_params \<Rightarrow> automation_receipt \<Rightarrow> automation_result
   \<Rightarrow> ('x, 'b) sys \<Rightarrow> database \<Rightarrow> bool" where
  "delivery_run env au u ps rc res s d' =
     (\<exists>a r v flds r' flds' t0 t1 t2 t3 t4.
        authorize_dispatch au u ps s = (Inr a, t0) \<and>
        resolve_metadata env au a t0 = (Inr (r, v, flds), t1) \<and> authorised env au a r v flds t0 t1 \<and>
        db t2 = snd (insert_log (automation_row env au u ps (Some a) (Some (rs_credential r)) (Some rc) False) (db t1)) \<and>
        read_automation_bundle env (rs_credential r) (rs_engine r) (rs_policy r) v
          (map (\<lambda>(f, sp). (f, fs_required sp)) flds) (map_option pid_fingerprint (au_provider_identity a)) t2
          = (Inr (ar_fields res, ar_ttl res), t3) \<and>
        resolve_metadata env au a t3 = (Inr (r', v, flds'), t4) \<and> authorised env au a r' v flds' t3 t4 \<and>
        (\<exists>i. fst (identity au r' a t4) = Inr i \<and> au_provider_identity a = Some i) \<and>
        d' = mark_delivered (ar_access_log_id res) (db t4) \<and>
        ar_credential_uuid res = cr_uuid (rs_credential r) \<and> ar_assignment_id res = rs_assignment_id r \<and> ar_resolved_version res = v \<and>
        nonce_digest au a = rc_nonce_digest rc \<and>
        (\<forall>f w. (f, w) \<in> set (ar_fields res) \<longrightarrow> f \<in> set (ref_fields (au_reference a)) \<and> length w \<le> MAX_BUNDLE_VALUE))"

lemma deliver_body_success:
  assumes ev: "evidence_kept env" and fresh: "fresh_ids (db s)"
    and run: "deliver_body env au u ps rc s = (Inr res, s')"
  shows "set (receipts (db s)) \<subseteq> set (receipts (db s')) \<and>
    ar_credential_uuid res = rc_credential_uuid rc \<and> ar_assignment_id res = rc_assignment_id rc \<and>
    ar_resolved_version res = rc_resolved_version rc \<and>
    (\<exists>l. row (access_log (db s')) (ar_access_log_id res) = Some l \<and> delivered ps rc l) \<and>
    delivery_run env au u ps rc res s (db s')"
proof -
  from run obtain a r v flds material ttl audit s1 s2 s3 s4 s5 s6 s7 where
    a: "authorize_dispatch au u ps s = (Inr a, s1)" and m: "resolve_metadata env au a s1 = (Inr (r, v, flds), s2)"
    and c: "check_dispatch au a s2 = (Inr (), s3)" and i: "require_identity au r a s3 = (Inr (), s4)"
    and q: "require ((cr_uuid (rs_credential r), rs_assignment_id r, v, nonce_digest au a)
            = (rc_credential_uuid rc, rc_assignment_id rc, rc_resolved_version rc, rc_nonce_digest rc)) s4 = (Inr (), s5)"
    and l: "record_automation_access env au u ps (Some a) (Some (rs_credential r)) (Some rc) False s5 = (Inr audit, s6)"
    and b: "deliver_read env au r v flds a s6 = (Inr (material, ttl), s7)"
    and s': "s' = s7\<lparr>db := mark_delivered audit (db s7)\<rparr>"
    and res: "res = \<lparr>ar_credential_uuid = cr_uuid (rs_credential r), ar_assignment_id = rs_assignment_id r, ar_resolved_version = v,
          ar_ttl = ttl, ar_fields = material, ar_access_log_id = audit\<rparr>"
    unfolding deliver_body_parts by (elim bnd_InrE) (auto simp: modify_def ret_def elim!: bnd_InrE)
  note ks = keep_framed_checks [of "e_now env"] keep_framed_resolve [OF ev] keep_framed_identity [of "e_now env"] keep_framed_record [of "e_now env"] keep_framed_deliver_read [OF ev]
  have s54: "s5 = s4" using require_InrE [OF q] by simp
  have before: "keep_step (e_now env) s s5"
    using ks [THEN framedD] a m c i unfolding s54 by (meson keeping.frame_trans)
  then have fresh5: "fresh_ids (db s5)" using fresh by (simp add: keep_step_def keeps_def)
  have after: "keep_step (e_now env) s5 s7" "keep_step (e_now env) s6 s7"
    using framedD [OF ks(8) l] framedD [OF ks(9) b] keeping.frame_trans by blast+
  let ?l = "automation_row env au u ps (Some a) (Some (rs_credential r)) (Some rc) False"
  have "row (access_log (db s6)) audit = Some ?l"
    by (rule create_log_success [OF l [unfolded record_automation_access_def] fresh5])
  moreover have "e_now env \<le> log_timestamp ?l" by (simp add: automation_row_def)
  ultimately obtain l' where "row (access_log (db s7)) audit = Some l'" "evidence l' = evidence ?l"
    using after(2) unfolding keep_step_def keeps_def by blast
  from mark_delivered_row [OF this]
  have log: "row (access_log (db s')) audit = Some (?l\<lparr>log_success := True, log_message := delivered_message\<rparr>)"
    by (simp add: s')
  have rcv: "set (receipts (db s)) \<subseteq> set (receipts (db s'))"
    using before after(1) by (auto simp: keep_step_def keeps_def s' mark_delivered_def split: option.splits)
  note eqs = require_InrE [OF q]
  from b obtain s8 s9 r' v' flds' s10 s11 s12 s13 where cd: "check_dispatch au a s6 = (Inr (), s8)"
    and rd: "read_automation_bundle env (rs_credential r) (rs_engine r) (rs_policy r) v
      (map (\<lambda>(f, sp). (f, fs_required sp)) flds) (map_option pid_fingerprint (au_provider_identity a)) s8 = (Inr (material, ttl), s9)"
    and m0: "resolve_metadata env au a s9 = (Inr (r', v', flds'), s10)" and i': "require_identity au r' a s10 = (Inr (), s11)"
    and q': "require (v' = v) s11 = (Inr (), s12)" and c': "check_dispatch au a s12 = (Inr (), s13)" and s7: "s7 = s13"
    unfolding deliver_read_def by (elim bnd_InrE) (auto dest!: ret_InrE elim!: bnd_InrE)
  have m': "resolve_metadata env au a s9 = (Inr (r', v, flds'), s10)" using m0 require_InrE [OF q'] by simp
  note steady = framedD [OF steady_checks(1)] framedD [OF steady_checks(2)]
  have "db s5 = db s2" using steady(1) [OF c] steady(2) [OF i] by (simp add: steady_def s54)
  moreover have "db s6 = snd (insert_log ?l (db s5))" using l
    by (auto simp: record_automation_access_def create_log_def try_db_def split: prod.splits if_splits)
  moreover have "db s8 = db s6" using steady(1) [OF cd] by (simp add: steady_def)
  ultimately have d8: "db s8 = snd (insert_log ?l (db s2))" by simp
  have "db s7 = db s10" using require_identity_InrE [OF i'] require_InrE [OF q'] steady(1) [OF c'] by (simp add: steady_def s7)
  then have d': "db s' = mark_delivered audit (db s10)" by (simp add: s')
  note auth = resolve_metadata_success [OF m]
  have fst_map: "fst ` set (map (\<lambda>(f, sp). (f, fs_required sp)) flds) = fst ` set flds"
    by (simp add: image_image case_prod_beta)
  have bounds: "f \<in> set (ref_fields (au_reference a)) \<and> length w \<le> MAX_BUNDLE_VALUE" if "(f, w) \<in> set material" for f w
    using bundle_bounds [OF rd that] auth unfolding fst_map authorised_def by blast
  have "delivery_run env au u ps rc res s (db s')"
    unfolding delivery_run_def
    by (rule exI [of _ a], rule exI [of _ r], rule exI [of _ v], rule exI [of _ flds], rule exI [of _ r'], rule exI [of _ flds'],
      rule exI [of _ s1], rule exI [of _ s2], rule exI [of _ s8], rule exI [of _ s9], rule exI [of _ s10])
      (use a m auth d8 rd m' resolve_metadata_success [OF m'] require_identity_InrE [OF i'] d' eqs bounds in \<open>simp add: res\<close>)
  moreover have "delivered ps rc (?l\<lparr>log_success := True, log_message := delivered_message\<rparr>)"
    using eqs by (simp add: delivered_def automation_row_def)
  ultimately show ?thesis using log rcv eqs by (simp add: res)
qed


lemma put_row_keys: "P k \<Longrightarrow> list_all (\<lambda>(j, _). P j) t \<Longrightarrow> list_all (\<lambda>(j, _). P j) (put_row k r t)"
  unfolding put_row_def by (induction t) auto

lemma keeps_mark_delivered: "keeps now d (mark_delivered k d)"
proof (cases "row (access_log d) k")
  case (Some l)
  then have "fresh_ids d \<Longrightarrow> k < next_id d" by (auto simp: fresh_ids_def list_all_iff dest!: row_SomeD)
  then have "fresh_ids d \<Longrightarrow> fresh_ids (mark_delivered k d)"
    by (simp add: fresh_ids_def mark_delivered_def Some put_row_keys)
  then show ?thesis using Some by (simp add: keeps_def mark_delivered_def evidence_def)
qed (simp add: mark_delivered_def keeps_refl)

lemma keep_framed_deliver:
  assumes ev: "evidence_kept env"
  shows "framed (keep_step (e_now env)) (deliver_body env au u ps rc)"
proof -
  have "framed (keep_step (e_now env)) (modify (\<lambda>s. s\<lparr>db := mark_delivered k (db s)\<rparr>))" for k
    by (simp add: framed_def modify_def keep_step_def keeps_mark_delivered)
  then show ?thesis unfolding deliver_body_parts
    by (intro keep_framed keep_framed_checks keep_framed_identity keep_framed_record keep_framed_deliver_read
        keep_framed_resolve ev)
qed

lemma reserve_body_success:
  assumes ev: "evidence_kept env" and b: "reserve_body env au a s = (Inr rc, s1)"
  shows "rc \<in> set (rows (receipts (db s1))) \<and> receipt_key rc = authority_key au a \<and> \<not> spent (db s) (authority_key au a)"
proof -
  from b obtain r v flds s2 s3 s4 where m: "resolve_metadata env au a s = (Inr (r, v, flds), s2)"
    and c: "check_dispatch au a s2 = (Inr (), s3)" and i: "require_identity au r a s3 = (Inr (), s4)"
    and ins: "try_db (insert_receipt (new_receipt env au a r v)) s4 = (Inr rc, s1)"
    unfolding reserve_body_def by (elim bnd_InrE) (auto elim!: bnd_InrE)
  note ks = keep_framed_resolve [OF ev] keep_framed_checks(1) [of "e_now env"] keep_framed_identity [of "e_now env"]
  have "keep_step (e_now env) s s4"
    using ks [THEN framedD] m c i by (meson keeping.frame_trans)
  then have "\<not> spent (db s4) key \<Longrightarrow> \<not> spent (db s) key" for key
    by (auto simp: keep_step_def keeps_def spent_def list_ex_iff rows_def)
  moreover have "rc = new_receipt env au a r v \<and> \<not> spent (db s4) (receipt_key rc) \<and> rc \<in> set (rows (receipts (db s1)))"
    using ins by (auto simp: try_db_def insert_receipt_def rows_def split: if_splits prod.splits)
  ultimately show ?thesis by (auto simp: receipt_key_def new_receipt_def authority_key_def)
qed

lemma reserve_success:
  assumes ev: "evidence_kept env" and ac: "autocommit s" and run: "reserve env au a s = (Inr rc, s')"
  shows "rc \<in> set (rows (receipts (db s'))) \<and> receipt_key rc = authority_key au a \<and> \<not> spent (db s) (receipt_key rc) \<and>
    autocommit s' \<and> (fresh_ids (db s) \<longrightarrow> fresh_ids (db s'))"
proof -
  from run have "atomic env (reserve_body env au a) s = (Inr rc, s')"
    by (auto simp: reserve_def on_exn_def raise_def split: prod.splits sum.splits)
  then obtain s1 where b: "reserve_body env au a (enter_tx s) = (Inr rc, s1)" and d: "db s' = db s1" and a: "autocommit s'"
    and k: "keep_step (e_now env) (enter_tx s) s1"
    using ac keep_framed_reserve [OF ev] by (rule atomic_success)
  have "fresh_ids (db s) \<longrightarrow> fresh_ids (db s')" using k d by (simp add: keep_step_def keeps_def enter_tx_def)
  with reserve_body_success [OF ev b] d a show ?thesis by (simp add: enter_tx_def)
qed

section \<open>Properties\<close>

lemma resolve_automation_success:
  assumes run: "resolve_automation env au u ps s = (Inr res, s')"
  obtains a s1 rc s2 where "autocommit s" and "authorize_dispatch au u ps s = (Inr a, s1)"
    and "reserve env au a s1 = (Inr rc, s2)" and "deliver env au u ps rc s2 = (Inr res, s')"
proof -
  have no: "refuse env au u ps a rc s0 \<noteq> (Inr res, s1)" for a rc s0 s1
    using refuse_run [of env au u ps a rc s0 "Inr res" s1] by auto
  from run no that show ?thesis
    by (auto simp: resolve_automation_def resolve_reserved_def on_exn_def split: if_splits prod.splits sum.splits)
qed

lemma authorize_db:
  "authorize_dispatch au u ps s = (r, s1) \<Longrightarrow> db s1 = db s \<and> autocommit s1 = autocommit s"
  by (auto simp: authorize_dispatch_def or_denied_def on_exn_def outside_call_def on_ext_def raise_def
      split: prod.splits sum.splits)

text \<open>C23: A delivered automation bundle is spent, authorized and recorded. Whenever a resolution returns material, its run is this:
  the dispatch was authorised; a receipt of its execution, nonce, step and reference, new to the table,
  was reserved and committed; a second transaction authorised the dispatch again and resolved and
  locked the metadata; only then was the vault read, and after the read the metadata was resolved again. In the state each
  resolution ended in, the credential read under its lock is active or staged and inside its validity window, the version read
  is its live one, not the staged one, and a pinned reference names it; an enabled assignment for the purpose binds it
  to the target; the actor is active, may view both, may reveal the credential and passes its group gate; the second
  one has the identity of admission. The receipt names what was delivered, the access
  log holds the successful delivery, and only fields the reference names
  came out, each of at most 262144 bytes.\<close>

theorem automation_delivery:
  assumes others: "evidence_kept env" and ids: "fresh_ids (db s)"
    and run: "resolve_automation env au u ps s = (Inr res, s')"
  shows "\<exists>a s1 rc s2. authorize_dispatch au u ps s = (Inr a, s1) \<and> reserve env au a s1 = (Inr rc, s2) \<and>
    receipt_key rc = authority_key au a \<and> \<not> spent (db s) (receipt_key rc) \<and> rc \<in> set (rows (receipts (db s'))) \<and>
    delivery_run env au u ps rc res (enter_tx s2) (db s') \<and>
    ar_credential_uuid res = rc_credential_uuid rc \<and> ar_assignment_id res = rc_assignment_id rc \<and>
    ar_resolved_version res = rc_resolved_version rc \<and>
    (\<exists>l. row (access_log (db s')) (ar_access_log_id res) = Some l \<and> delivered ps rc l)"
proof -
  from run obtain a s1 rc s2 where ac: "autocommit s" and au: "authorize_dispatch au u ps s = (Inr a, s1)"
    and rs: "reserve env au a s1 = (Inr rc, s2)" and dl: "deliver env au u ps rc s2 = (Inr res, s')"
    by (rule resolve_automation_success)
  from authorize_db [OF au] ac ids have s1: "db s1 = db s" "autocommit s1" "fresh_ids (db s1)" by simp_all
  from reserve_success [OF others s1(2) rs, unfolded s1(1)] ids have rc: "rc \<in> set (rows (receipts (db s2)))" "\<not> spent (db s) (receipt_key rc)"
    "autocommit s2" "fresh_ids (db s2)" "receipt_key rc = authority_key au a" by blast+
  from dl [unfolded deliver_def] rc(3) keep_framed_deliver [OF others]
  obtain s3 where b: "deliver_body env au u ps rc (enter_tx s2) = (Inr res, s3)" and d: "db s' = db s3"
    by (rule atomic_success)
  have "fresh_ids (db (enter_tx s2))" using rc(4) by (simp add: enter_tx_def)
  note done1 = deliver_body_success [OF others this b]
  with rc(1) have "rc \<in> set (rows (receipts (db s3)))" by (auto simp: enter_tx_def rows_def)
  with done1 rc au rs show ?thesis unfolding d by metis
qed

text \<open>C25: Automation resolution fails closed. Every failure, of the dispatch authority, of an authorization check, of the
  vault, of the audit insert or of the commit, ends in the same value-free refusal; a caller with an open transaction is
  refused with no effect at all; and otherwise no transaction stays open and, if the log accepts it, the last row of the
  access log is the refusal of this execution, step and reference.\<close>

theorem automation_fails_closed:
  assumes others: "evidence_kept env" and run: "resolve_automation env au u ps s = (Inl e, s')"
  shows "e = AutomationResolutionDenied \<and> (\<not> autocommit s \<longrightarrow> s' = s) \<and>
    (autocommit s \<longrightarrow> autocommit s' \<and>
       ((\<forall>l. ae_log_ok (e_audit env) l) \<longrightarrow> (\<exists>k l. access_log (db s') \<noteq> [] \<and> last (access_log (db s')) = (k, l) \<and> refusal ps l)))"
proof (cases "autocommit s")
  case True
  have goal: ?thesis if "refuse env au u ps a rc s1 = (Inl e, s')" "autocommit s1" for a rc s1
    using refuse_run [OF that(1)] that(2) True by (auto simp: refusal_row)
  obtain q s1 where au: "authorize_dispatch au u ps s = (q, s1)" by fastforce
  with authorize_db True have ac1: "autocommit s1" by metis
  show ?thesis
  proof (cases q)
    case (Inl e1)
    with run au True ac1 goal show ?thesis by (simp add: resolve_automation_def)
  next
    case (Inr a)
    obtain q2 s2 where rs: "reserve env au a s1 = (q2, s2)" by fastforce
    have ac2: "autocommit s2"
    proof (cases q2)
      case (Inl e2)
      with rs obtain e3 where "atomic env (reserve_body env au a) s1 = (Inl e3, s2)"
        by (auto simp: reserve_def on_exn_def raise_def split: prod.splits sum.splits)
      then show ?thesis using ac1 keep_framed_reserve [OF others] by (rule atomic_failure)
    qed (use reserve_success [OF others ac1] rs in blast)
    show ?thesis
    proof (cases q2)
      case (Inl e2)
      with run au rs Inr True ac2 goal show ?thesis by (simp add: resolve_automation_def resolve_reserved_def)
    next
      case (Inr rc)
      obtain q3 s3 where dl: "deliver env au u ps rc s2 = (q3, s3)" by fastforce
      from run au rs \<open>q = Inr a\<close> Inr True dl obtain e3
        where "q3 = Inl e3" "refuse env au u ps (Some a) (Some rc) s3 = (Inl e :: exn + automation_result, s')"
        by (cases q3) (auto simp: resolve_automation_def resolve_reserved_def on_exn_def)
      moreover from this dl have "autocommit s3"
        using atomic_failure [OF _ ac2 keep_framed_deliver [OF others]] by (simp add: deliver_def)
      ultimately show ?thesis using goal by blast
    qed
  qed
qed (use run in \<open>simp add: resolve_automation_def\<close>)


section \<open>One use\<close>

lemma acquire_backend: "acquire (env\<lparr>e_backend := B\<rparr>) = acquire env"
  by (simp add: fun_eq_iff acquire_def)

lemma reserve_body_backend: "reserve_body (env\<lparr>e_backend := B\<rparr>) au a = reserve_body env au a"
proof -
  have now: "e_now (env\<lparr>e_backend := B\<rparr>) = e_now env" by (simp add: e_now_def)
  have sel: "e_cfg (env\<lparr>e_backend := B\<rparr>) = e_cfg env" "e_labels (env\<lparr>e_backend := B\<rparr>) = e_labels env" by simp_all
  show ?thesis
    unfolding reserve_body_def new_receipt_def resolve_metadata_def lock_metadata_def lock_candidate_service_def
      lock_credential_graph_def lock_policies_def lock_engines_def lock_credentials_def target_def check_credential_def
      acquire_backend now sel by (rule refl)
qed

lemma reserve_spent:
  assumes ev: "evidence_kept env" and ac: "autocommit s" and sp: "spent (db s) (authority_key au a)"
  obtains e s' where "\<And>B. reserve (env\<lparr>e_backend := B\<rparr>) au a s = (Inl e, s')"
proof -
  obtain z s1 where b: "reserve_body env au a (enter_tx s) = (z, s1)" by fastforce
  have "spent (db (enter_tx s)) (authority_key au a)" using sp by (simp add: enter_tx_def)
  with reserve_body_success [OF ev] b obtain e where "z = Inl e" by (cases z) auto
  with b ac have "reserve (env\<lparr>e_backend := B\<rparr>) au a s
      = (Inl (if e = IntegrityError then AutomationResolutionDenied else e), leave_tx (committed_db s1) s1)" for B
    by (simp add: reserve_def atomic_def reserve_body_backend on_exn_def raise_def)
  then show ?thesis by (rule that)
qed

text \<open>C26: A dispatch reveals a bundle at most once. When the table already holds the receipt of its execution, nonce, step
  and reference, the resolution is refused and the secret backend is not called: the run is the same whatever the
  backend would do.\<close>

theorem automation_once:
  assumes others: "evidence_kept env"
    and used: "\<And>a s1. authorize_dispatch au u ps s = (Inr a, s1) \<Longrightarrow> spent (db s) (authority_key au a)"
  shows "fst (resolve_automation env au u ps s) = Inl AutomationResolutionDenied \<and>
    resolve_automation (env\<lparr>e_backend := B\<rparr>) au u ps s = resolve_automation env au u ps s"
proof -
  have ref: "refuse (env\<lparr>e_backend := B\<rparr>) au u ps a rc = refuse env au u ps a rc" for a rc
    by (simp add: refuse_def record_automation_access_def create_log_def automation_row_def e_now_def)
  have den: "fst (refuse env au u ps a rc s1) = Inl AutomationResolutionDenied" for a rc s1
    using refuse_run [OF prod.collapse [symmetric]] by blast
  obtain q s1 where au: "authorize_dispatch au u ps s = (q, s1)" by fastforce
  show ?thesis
  proof (cases "autocommit s")
    case True
    show ?thesis
    proof (cases q)
      case (Inl e)
      with au True show ?thesis by (simp add: resolve_automation_def ref den)
    next
      case (Inr a)
      from authorize_db [OF au] used au Inr True have "autocommit s1" "spent (db s1) (authority_key au a)" by simp_all
      then obtain e s2 where r: "\<And>B. reserve (env\<lparr>e_backend := B\<rparr>) au a s1 = (Inl e, s2)"
        by (rule reserve_spent [OF others]) blast
      from r [of "e_backend env"] have "reserve env au a s1 = (Inl e, s2)" by simp
      with r au Inr True show ?thesis by (simp add: resolve_automation_def resolve_reserved_def ref den)
    qed
  qed (simp add: resolve_automation_def)
qed


section \<open>A dispatch on the example deployment\<close>

definition ex_assignment :: credential_assignment where
  "ex_assignment = \<lparr>asg_pk = Some 8, asg_credential_id = Some 5,
     asg_object_type = Some \<lparr>ct_app_label = ''dcim'', ct_model = ''device''\<rparr>, asg_object_id = 9,
     asg_purpose = PURPOSE_LOGIN, asg_is_primary = True, asg_enabled = True,
     asg_known_hosts_entry = [], asg_strict_host_key_checking = True, asg_last_updated = 800\<rparr>"

definition ex_identity :: provider_identity where
  "ex_identity = \<lparr>pid_credential_uuid = ''u-5'', pid_assignment_id = 8, pid_object_type = ''dcim.device'',
     pid_object_id = 9, pid_purpose = ''login'', pid_username = ''admin'', pid_fingerprint = [],
     pid_credential_type = ''password'', pid_policy_id = Some 1, pid_engine_id = Some 1,
     pid_engine_identity_sha256 = ''d'', pid_schema_sha256 = ''d''\<rparr>"

definition ex_authority :: authority where
  "ex_authority = \<lparr>au_reference = \<lparr>ref_object_type = ''dcim.device'', ref_object_id = 9, ref_purpose = ''login'',
       ref_assignment_id = Some 8, ref_credential_uuid = None, ref_version = PinnedVersion 2, ref_fields = [''password'']\<rparr>,
     au_actor = ex_user, au_target_type = \<lparr>ct_app_label = ''dcim'', ct_model = ''device''\<rparr>, au_target_pk = 9,
     au_reason = ''upgrade'', au_correlation_id = ''r-1'', au_intent_run_id = None, au_nonce = ''n-1'', au_execution_id = 40,
     au_step_id = ''step'', au_reference_name = ''login'', au_provider_identity = Some ex_identity\<rparr>"

definition ex_automation :: "mem_server backend_world automation" where
  "ex_automation = \<lparr>aut_authorize = (\<lambda>_ _ _. ret ex_authority), aut_lifetime = (\<lambda>_ _. ret ()), aut_permissions = (\<lambda>_ _. ret ()),
     aut_visible = (\<lambda>_ _ _ _ _ _. True), aut_sha256 = (\<lambda>s. s), aut_dumps = (\<lambda>_. ''d'')\<rparr>"

definition ex_params :: automation_params where
  "ex_params = \<lparr>ap_execution_id = 40, ap_step_id = ''step'', ap_reference_name = ''login'', ap_dispatch_lease = []\<rparr>"

definition ex_dispatch_db :: database where
  "ex_dispatch_db = ex_db\<lparr>assignments := [(8, ex_assignment)], users := [(3, ex_user)]\<rparr>"

definition ex_dispatch_state :: "(mem_server backend_world, nat) sys" where
  "ex_dispatch_state = ex_state\<lparr>db := ex_dispatch_db, committed_db := ex_dispatch_db\<rparr>"

definition ex_dispatch :: "automation_result ex_run" where
  "ex_dispatch = resolve_automation (ex_env ex_ok) ex_automation ex_user ex_params ex_dispatch_state"

lemma ex_evidence: "evidence_kept (ex_env commit)"
  by (simp add: evidence_kept_def ex_env_def keeps_refl)

lemmas run_automation = enter_tx_def atomic_def or_denied_def require_def outside_call_def authorize_dispatch_def nonce_digest_def
  check_lifetime_def check_rpc_permissions_def check_dispatch_def actor_p_def service_type_def credential_ct_def
  assignment_ct_def ct_label_def visible_def target_def services_of_def assignment_matches_def assignment_rows_def
  check_service_visible_def lock_candidate_service_def the_schema_def stored_key_def lock_metadata_def valid_now_def
  group_member_def check_credential_def resolved_version_def first_occurrences_def resolved_fields_def
  resolve_metadata_def metadata_digest_def engine_selectors_def schema_selectors_def identity_def require_identity_def
  delivered_message_def refused_message_def automation_row_def create_log_def record_automation_access_def receipt_key_def
  authority_key_def spent_def insert_receipt_def new_receipt_def reserve_body_def reserve_def mark_delivered_def
  deliver_body_def deliver_def refuse_def resolve_reserved_def resolve_automation_def
  ex_assignment_def ex_identity_def ex_authority_def ex_automation_def ex_params_def ex_dispatch_db_def ex_dispatch_state_def

lemma ex_dispatch_run:
  "\<exists>res s'. ex_dispatch = (Inr res, s') \<and> ar_fields res = [(''password'', ''two'')] \<and> ar_resolved_version res = 2"
  by (simp add: ex_dispatch_def ex_ok_def run_automation run del: set_filter cong: run_congs)


theorem automation_delivery_witness:
  "\<exists>res s' rc s2. ex_dispatch = (Inr res, s') \<and> rc \<in> set (rows (receipts (db s'))) \<and> rc_resolved_version rc = 2 \<and>
     ar_fields res = [(''password'', ''two'')] \<and> delivery_run (ex_env ex_ok) ex_automation ex_user ex_params rc res (enter_tx s2) (db s')"
proof -
  obtain res s' where r: "ex_dispatch = (Inr res, s')" "ar_resolved_version res = 2" "ar_fields res = [(''password'', ''two'')]"
    using ex_dispatch_run by blast
  have "fresh_ids (db ex_dispatch_state)"
    by (simp add: fresh_ids_def ex_dispatch_state_def ex_dispatch_db_def ex_db_def)
  from automation_delivery [OF ex_evidence this r(1) [unfolded ex_dispatch_def]] r show ?thesis by metis
qed

text \<open>The receipt of the dispatch is already there.\<close>

definition ex_receipt :: automation_receipt where
  "ex_receipt = \<lparr>rc_execution_id = 40, rc_nonce_digest = ''n-1'', rc_step_id = ''step'', rc_reference_name = ''login'',
     rc_credential_uuid = ''u-5'', rc_assignment_id = 8, rc_resolved_version = 1, rc_created = 900\<rparr>"

definition ex_spent_state :: "(mem_server backend_world, nat) sys" where
  "ex_spent_state = ex_dispatch_state\<lparr>db := ex_dispatch_db\<lparr>receipts := [(50, ex_receipt)]\<rparr>\<rparr>"

theorem automation_once_witness:
  "fst (resolve_automation (ex_env ex_ok) ex_automation ex_user ex_params ex_spent_state) = Inl AutomationResolutionDenied"
proof -
  have "spent (db ex_spent_state) (authority_key ex_automation a)"
    if "authorize_dispatch ex_automation ex_user ex_params ex_spent_state = (Inr a, s1)" for a s1
    using that
    by (auto simp: authorize_dispatch_def or_denied_def on_exn_def outside_call_def on_ext_def ret_def ex_automation_def
        spent_def ex_spent_state_def rows_def receipt_key_def ex_receipt_def authority_key_def nonce_digest_def ex_authority_def)
  then show ?thesis by (rule conjunct1 [OF automation_once [OF ex_evidence]])
qed

theorem automation_fails_closed_witness:
  "\<exists>e s'. resolve_automation (ex_env ex_ok) (ex_automation\<lparr>aut_authorize := \<lambda>_ _ _. raise IntegrityError\<rparr>) ex_user ex_params
     ex_dispatch_state = (Inl e, s') \<and> e = AutomationResolutionDenied"
proof -
  let ?au = "ex_automation\<lparr>aut_authorize := \<lambda>_ _ _. raise IntegrityError\<rparr>"
  obtain e s' where r: "resolve_automation (ex_env ex_ok) ?au ex_user ex_params ex_dispatch_state = (Inl e, s')"
    by (cases "resolve_automation (ex_env ex_ok) ?au ex_user ex_params ex_dispatch_state")
      (auto simp: run_automation run cong: run_congs)
  from automation_fails_closed [OF ex_evidence r] r show ?thesis by blast
qed

end
