(* ===== verification/Importer_Properties.thy ===== *)
theory Importer_Properties
  imports Importer Service_Properties Automation_Properties
begin

text \<open>
  What an import leaves. The markers of the rows (\<open>marked\<close>) only grow, on every path of a run; a run that reports no failure is repeated
  as a run that writes nothing; a marker is claimed once, whatever the engine; and no run loses a version the store has.
\<close>

section \<open>Markers\<close>

definition marked :: "nat \<Rightarrow> string \<Rightarrow> database \<Rightarrow> bool" where
  "marked e m d = (\<exists>k c. row (credentials d) k = Some c \<and> cr_engine_id c = Some e \<and> cr_import_source c = m)"

definition markers_kept :: "database \<Rightarrow> database \<Rightarrow> bool" where
  "markers_kept d d' = (fresh_ids d \<longrightarrow> fresh_ids d' \<and> (\<forall>e m. marked e m d \<longrightarrow> marked e m d'))"

text \<open>What the run needs of the transactions it waits for: none removes an imported credential.\<close>

definition keeps_markers :: "('x, 'b, 'c) env \<Rightarrow> bool" where
  "keeps_markers env = (\<forall>h ls d. markers_kept d (e_lock_wait env h ls d))"

lemma markers_kept_refl [simp]: "markers_kept d d"
  by (simp add: markers_kept_def)

lemma markers_kept_trans: "markers_kept d d' \<Longrightarrow> markers_kept d' d'' \<Longrightarrow> markers_kept d d''"
  by (simp add: markers_kept_def)

lemma markers_kept_credentials: "credentials d' = credentials d \<Longrightarrow> (fresh_ids d \<Longrightarrow> fresh_ids d') \<Longrightarrow> markers_kept d d'"
  by (simp add: markers_kept_def marked_def)

lemma marked_fold [simp]:
  "cr_import_source (copy_field n s c) = cr_import_source c"
  "cr_import_source (fold (\<lambda>n. copy_field n s) ns c) = cr_import_source c"
proof -
  show one: "cr_import_source (copy_field n s c) = cr_import_source c" for n c by (simp add: copy_field_def)
  show "cr_import_source (fold (\<lambda>n. copy_field n s) ns c) = cr_import_source c"
    by (induction ns arbitrary: c) (simp_all add: one)
qed

lemma marked_metadata [simp]: "cr_import_source (set_metadata m c) = cr_import_source c"
proof -
  have one: "cr_import_source (set_metadata_field kv c) = cr_import_source c" for kv c
    by (simp add: set_metadata_field_def split: prod.splits meta_value.splits)
  show ?thesis unfolding set_metadata_def by (induction m arbitrary: c) (simp_all add: one)
qed

lemma marked_defaults [simp]:
  "cr_import_source (apply_defaults d c) = cr_import_source c"
  "cr_engine_id c = Some e \<Longrightarrow> cr_engine_id (apply_defaults d c) = Some e"
  by (simp_all add: apply_defaults_def split: option.splits)

lemma full_clean_marker:
  assumes "credential_full_clean fe d c = Inr c'" and "cr_engine_id c = Some e"
  shows "cr_pk c' = cr_pk c \<and> cr_engine_id c' = Some e \<and> cr_import_source c' = cr_import_source c"
  using assms by (auto simp: credential_full_clean_def credential_clean_def Let_def split: option.splits if_splits)

lemma put_row_below: "row t k = Some x \<Longrightarrow> list_all (\<lambda>(j, _). j < (n::nat)) t \<Longrightarrow> list_all (\<lambda>(j, _). j < n) (put_row k r t)"
  by (rule put_row_keys) (auto simp: list_all_iff dest!: row_SomeD)

lemma put_row_next: "list_all (\<lambda>(j, _). j < (n::nat)) t \<Longrightarrow> list_all (\<lambda>(j, _). j < Suc n) (put_row n r t)"
  by (rule put_row_keys) (auto simp: list_all_iff)

lemma below_Suc: "list_all (\<lambda>(j, _). j < (n::nat)) t \<Longrightarrow> list_all (\<lambda>(j, _). j < Suc n) t"
  by (auto simp: list_all_iff)

lemma markers_log:
  "markers_kept d (snd (try_insert_log ae l d))" "markers_kept d (snd (log_access ae c u a ok r m q k d))"
  "markers_kept d (snd (mark_discarded i d))"
proof -
  show "markers_kept d (snd (try_insert_log ae l d))"
    using same_inventory_log(1) [of d ae l] by (auto intro: markers_kept_credentials fresh_ids_try_insert_log simp: same_inventory_def)
  show "markers_kept d (snd (log_access ae c u a ok r m q k d))"
    using same_inventory_log(2) [of d ae c u a ok r m q k] by (auto intro: markers_kept_credentials fresh_ids_log_access simp: same_inventory_def)
  show "markers_kept d (snd (mark_discarded i d))"
  proof (rule markers_kept_credentials)
    assume "fresh_ids d"
    then show "fresh_ids (snd (mark_discarded i d))"
      by (auto simp: mark_discarded_def fresh_ids_def bind_eq_Some_conv put_row_below split: option.splits)
  qed (simp add: mark_discarded_def split: option.splits)
qed

lemma markers_save_fields: "markers_kept d (snd (credential_save_fields ns c d))"
proof (cases "\<exists>k r. cr_pk c = Some k \<and> row (credentials d) k = Some r")
  case True
  then obtain k r where k: "cr_pk c = Some k" "row (credentials d) k = Some r" by blast
  let ?r = "fold (\<lambda>n acc. copy_field n c acc) ns r"
  have "marked e m (write_row k ?r d)" if "marked e m d" for e m
  proof -
    from that obtain j x where x: "row (credentials d) j = Some x" "cr_engine_id x = Some e" "cr_import_source x = m"
      by (auto simp: marked_def)
    show ?thesis
      by (cases "j = k") (use x k in \<open>auto simp: marked_def write_row_def intro: exI [of _ j]\<close>)
  qed
  moreover have "fresh_ids d \<Longrightarrow> fresh_ids (write_row k ?r d)"
    using k(2) by (simp add: fresh_ids_def write_row_def put_row_below)
  ultimately show ?thesis using k by (simp add: markers_kept_def credential_save_fields_def)
qed (auto simp: credential_save_fields_def split: option.splits)

lemma save_new:
  assumes "credential_save cfg now c d = (r, d')" and "cr_pk c = None"
  shows "markers_kept d d' \<and>
    (\<forall>saved e. r = Inr saved \<longrightarrow> cr_engine_id c = Some e \<longrightarrow> fresh_ids d \<longrightarrow> marked e (cr_import_source c) d') \<and>
    (\<forall>saved e. r = Inr saved \<longrightarrow> cr_import_source c \<noteq> [] \<longrightarrow> \<not> marked e (cr_import_source c) d)"
proof (cases r)
  case (Inl e)
  with assms have "d' = d" by (auto simp: credential_save_def Let_def split: option.splits sum.splits if_splits)
  with Inl show ?thesis by simp
next
  case (Inr saved)
  let ?k = "next_id d"
  from assms Inr have s: "cr_engine_id saved = cr_engine_id (apply_defaults d c)" "cr_import_source saved = cr_import_source c"
    "credential_row_ok d None saved" "d' = (write_row ?k saved d)\<lparr>next_id := Suc ?k\<rparr>"
    by (auto simp: credential_save_def Let_def split: option.splits sum.splits if_splits)
  have new: "fresh_ids d \<Longrightarrow> row (credentials d) ?k = None"
    by (auto simp: fresh_ids_def list_all_iff row_def map_of_eq_None_iff)
  have "marked e m d'" if "fresh_ids d" "marked e m d" for e m
    using that new by (auto simp: marked_def s(4) write_row_def) (metis option.distinct(1))
  moreover have "fresh_ids d \<Longrightarrow> fresh_ids d'"
    by (simp add: s(4) fresh_ids_def write_row_def put_row_next below_Suc)
  moreover have "cr_engine_id c = Some e \<Longrightarrow> marked e (cr_import_source c) d'" for e
    using s by (auto simp: marked_def write_row_def intro!: exI [of _ ?k])
  moreover have "cr_import_source c \<noteq> [] \<Longrightarrow> \<not> marked e (cr_import_source c) d" for e
    using s(2,3) by (auto simp: marked_def credential_row_ok_def list_all_iff dest!: row_SomeD)
  ultimately show ?thesis by (simp add: markers_kept_def)
qed

lemma markers_assignment: "markers_kept d (snd (write_assignment now a d))"
  by (rule markers_kept_credentials) (auto simp: write_assignment_def Let_def fresh_ids_def list_all_iff less_max_iff_disj)

lemma markers_policy: "markers_kept d (snd (create_policy e slug name d))"
  by (rule markers_kept_credentials) (auto simp: create_policy_def Let_def fresh_ids_def list_all_iff less_SucI)

section \<open>Every step keeps them\<close>

definition marks_step :: "('x, 'b) sys \<Rightarrow> ('x, 'b) sys \<Rightarrow> bool" where
  "marks_step s s' = (markers_kept (db s) (db s') \<and> markers_kept (committed_db s) (committed_db s'))"

interpretation marking: state_frame marks_step
  by unfold_locales (auto simp: marks_step_def intro: markers_kept_trans)

lemma marks_framed_db:
  "(\<And>d. markers_kept d (snd (f d))) \<Longrightarrow> framed marks_step (with_db f)"
  "(\<And>d. markers_kept d (snd (g d))) \<Longrightarrow> framed marks_step (try_db g)"
  by (simp_all add: framed_def marks_step_def with_db_def try_db_def split_beta)

lemma marks_framed_lift:
  "framed marks_step (backend_call env k)" "framed marks_step (update_owner h)" "framed marks_step (get_backend_p env eng pol)"
  "framed marks_step (modify (\<lambda>s. s\<lparr>owner := z\<rparr>))" "framed marks_step (log_access_p env c u a ok r txt q l)"
proof -
  show "framed marks_step (log_access_p env c u a ok r txt q l)"
    unfolding log_access_p_def by (intro marks_framed_db markers_log)
qed (simp_all add: framed_def marks_step_def backend_call_def on_ext_def update_owner_def modify_def get_backend_p_def split_beta)

lemma marks_framed_current: "framed marks_step current_material_transaction"
  unfolding current_material_transaction_def by (intro marking.framed_bnd marking.framed_basic)

lemmas marks_framed = marking.framed_basic marking.framed_bnd marking.framed_on_exn marking.framed_for_each marks_framed_lift
  marks_framed_current framed_cases

lemma marks_framed_record: "framed marks_step (record_recovery env t a m)"
  unfolding record_recovery_def by (intro marks_framed marks_framed_db markers_log)

lemma marks_framed_unwind: "framed marks_step (unwind env e unknown t)"
  unfolding unwind_def recover_def recover_attempt_def by (intro marks_framed marks_framed_record)

lemma marks_framed_finish: "framed marks_step (finish_deletions env t)"
proof -
  have "framed marks_step (finish_each env t as)" for as
  proof (induction as)
    case (Cons a as)
    have "framed marks_step (finish_deletion env t a)"
      unfolding finish_deletion_def by (intro marks_framed marks_framed_record marks_framed_db markers_log)
    with Cons show ?case by simp (intro marks_framed; simp)
  qed (simp add: marking.framed_basic)
  then show ?thesis unfolding finish_deletions_def by (intro marks_framed)
qed

lemma marks_framed_rows: "framed marks_step (policy_p c)" "framed marks_step (engine_p c)"
  unfolding policy_p_def engine_p_def by (intro marks_framed)+

lemma marks_framed_hook: "framed marks_step (run_hook env h)"
  by (cases h) (simp_all add: run_hook_def run_metadata_projection_def publish_custom_metadata_def delete_material_def audited_call_def,
      (intro marks_framed marks_framed_rows)+)

lemma marks_framed_after_commit: "framed marks_step (after_commit env (run_hook env) hs t r)"
  unfolding after_commit_def Let_def by (intro marks_framed marks_framed_hook marks_framed_unwind marks_framed_finish)

lemma marks_framed_defer: "framed marks_step (defer_custom_metadata env ids)"
proof -
  have "framed marks_step (on_commit (run_hook env) h)" for h
    using marks_framed_hook [of env h] by (simp add: framed_def on_commit_def marks_step_def)
  then show ?thesis unfolding defer_custom_metadata_def by (intro marks_framed)
qed

lemma marks_framed_write: "framed marks_step (write_attempt env c cleaned fp cas u rq a promote)"
  unfolding write_attempt_def
  by (intro marks_framed marks_framed_rows marks_framed_defer marks_framed_db markers_save_fields)

lemma marks_framed_locks:
  assumes "keeps_markers env"
  shows "framed marks_step (lock_material_subject env subj tp)"
proof -
  have a: "framed marks_step (acquire env ls)" for ls
    using assms by (simp add: framed_def acquire_def modify_def marks_step_def keeps_markers_def)
  have "framed marks_step (lock_material_subjects env cs ps)" for cs ps
    unfolding lock_material_subjects_def declare_on_owner_def lock_policies_def lock_engines_def lock_credentials_def
    by (intro marks_framed a)
  then show ?thesis
    unfolding lock_material_subject_def refresh_material_selectors_def by (intro marks_framed)
qed

text \<open>A new instance is inserted: the marker it carries was free, and is on a row afterwards.\<close>

lemma persist_new_run:
  assumes run: "persist_instance env c (Some c) md s = (r, s')" and c: "cr_pk c = None" "cr_engine_id c = Some e"
  shows "marks_step s s' \<and> (\<forall>y. r = Inr y \<longrightarrow> (fresh_ids (db s) \<longrightarrow> marked e (cr_import_source c) (db s')) \<and>
     (cr_import_source c \<noteq> [] \<longrightarrow> (\<forall>e'. \<not> marked e' (cr_import_source c) (db s))))"
proof (cases "credential_full_clean (e_field_errors env) (db s) (set_metadata md c)")
  case (Inl x)
  with run show ?thesis
    by (auto simp: persist_instance_def bnd_def gets_def lift_sum_def raise_def marks_step_def)
next
  case (Inr x)
  then have x: "cr_pk x = None" "cr_engine_id x = Some e" "cr_import_source x = cr_import_source c"
    using full_clean_marker [OF Inr] c by simp_all
  obtain d' where d': "credential_save (e_cfg env) (e_now env) x (db s) = (r, d')" "s' = s\<lparr>db := d'\<rparr>"
    using run Inr by (auto simp: persist_instance_def bnd_def gets_def lift_sum_def ret_def try_db_def split: prod.splits)
  from save_new [OF d'(1) x(1)] x d'(2) show ?thesis by (auto simp: marks_step_def)
qed

lemma marks_framed_assignment: "framed marks_step (save_assignment env a)"
  unfolding save_assignment_def refresh_custom_metadata_def
  by (intro marks_framed marks_framed_defer marks_framed_db markers_assignment)

lemma marks_framed_policy: "framed marks_step (policy_for sl e fb mr src st)"
  unfolding policy_for_def by (intro marks_framed marks_framed_db markers_policy)

section \<open>One secret\<close>

lemma lock_new:
  assumes "lock_material_subject env (Some c) tp s = (Inr y, s')" and "cr_pk c = None"
  shows "y = Some c"
  using assms unfolding lock_material_subject_def
  by (simp) (elim bnd_InrE, simp add: ret_def)

definition claims :: "nat \<Rightarrow> string \<Rightarrow> exn + 'a \<Rightarrow> ('x, 'b) sys \<Rightarrow> ('x, 'b) sys \<Rightarrow> bool" where
  "claims e m r s s' = (marks_step s s' \<and> (\<forall>y. r = Inr y \<longrightarrow> fresh_ids (db s) \<longrightarrow>
     marked e m (db s') \<and> (m \<noteq> [] \<longrightarrow> (\<forall>e'. \<not> marked e' m (db s)))))"

text \<open>Steps before and after the insert keep the claim.\<close>

lemma claims_before:
  assumes "marks_step s s1" and "claims e m r s1 s'"
  shows "claims e m r s s'"
proof -
  have "marks_step s s'" using assms by (auto simp: claims_def intro: marking.frame_trans)
  moreover have "markers_kept (db s) (db s1)" using assms(1) by (simp add: marks_step_def)
  ultimately show ?thesis using assms(2) unfolding claims_def markers_kept_def by blast
qed

lemma claims_after:
  assumes "claims e m (Inr y) s s1" and "marks_step s1 s'"
  shows "claims e m r s s'"
proof -
  have "marks_step s s'" using assms by (auto simp: claims_def intro: marking.frame_trans)
  moreover have "markers_kept (db s) (db s1)" "markers_kept (db s1) (db s')" using assms by (simp_all add: claims_def marks_step_def)
  ultimately show ?thesis using assms(1) unfolding claims_def markers_kept_def by blast
qed

lemma claims_bnd:
  assumes run: "bnd m f s = (r, s')" and fr: "\<And>x. framed marks_step (f x)"
    and first: "\<And>q s1. m s = (q, s1) \<Longrightarrow> claims e mk q s s1"
  shows "claims e mk r s s'"
proof -
  obtain q s1 where m: "m s = (q, s1)" by fastforce
  show ?thesis
  proof (cases q)
    case (Inl x)
    with run m first [OF m] show ?thesis by (auto simp: bnd_def claims_def)
  next
    case (Inr x)
    with run m have "f x s1 = (r, s')" by (simp add: bnd_def)
    from framedD [OF fr this] first [OF m] Inr show ?thesis by (auto intro: claims_after)
  qed
qed

lemma run_ret: "bnd (ret x) f s = f x s"
  by (simp add: bnd_def ret_def)

lemma store_claims:
  assumes env: "keeps_markers env" and c: "cr_pk c = None" "cr_engine_id c = Some e"
    and run: "store_body env (persist_instance env c) ct p cas u rq a (Some c) promote tp False s = (r, s')"
  shows "claims e (cr_import_source c) r s s'"
proof -
  have stop: "claims e (cr_import_source c) (Inl x) s s" for x :: exn and s :: "('a, 'b) sys"
    by (simp add: claims_def marks_step_def)
  let ?rest = "\<lambda>cleaned fp c. bnd (refresh_material_selectors c) (\<lambda>_. bnd current_material_transaction (\<lambda>_.
     bnd (update_owner (add_graph ''credential'' (opt_ids [cr_pk c]))) (\<lambda>_. write_attempt env c cleaned fp cas u rq a promote)))"
  have rest: "framed marks_step (?rest cleaned fp y)" for cleaned fp y
    unfolding refresh_material_selectors_def by (intro marks_framed marks_framed_write)
  have persist: "claims e (cr_import_source c) q s1 s2" if "persist_instance env c (Some c) md s1 = (q, s2)" for md q s1 s2
    using persist_new_run [OF that c] by (auto simp: claims_def)
  show ?thesis
  proof (cases "prepare_material env (db s) ct p")
    case (Inl x)
    with run show ?thesis by (auto simp: store_body_def bnd_def gets_def lift_sum_def raise_def stop)
  next
    case (Inr cm)
    then obtain cleaned md where cm: "prepare_material env (db s) ct p = Inr (cleaned, md)" by (cases cm) simp
    show ?thesis
    proof (cases "derive_key_fingerprint (e_lib env) (db s) ct cleaned")
      case (Inl x)
      with run cm show ?thesis by (auto simp: store_body_def bnd_def gets_def lift_sum_def raise_def ret_def stop)
    next
      case (Inr fp)
      obtain q s1 where l: "lock_material_subject env (Some c) tp s = (q, s1)" by fastforce
      from framedD [OF marks_framed_locks [OF env] l] have ls: "marks_step s s1" .
      show ?thesis
      proof (cases q)
        case (Inl x)
        with run cm Inr l ls show ?thesis
          by (auto simp: store_body_def bnd_def gets_def lift_sum_def ret_def claims_def)
      next
        case (Inr y)
        with lock_new [OF _ c(1)] l have y: "y = Some c" by metis
        have "bnd (persist_instance env c (Some c) md) (?rest cleaned fp) s1 = (r, s')"
          using run cm \<open>derive_key_fingerprint (e_lib env) (db s) ct cleaned = Inr fp\<close> l Inr y
          by (simp add: store_body_def run_gets lift_sum_def run_ret bnd_def [of "lock_material_subject _ _ _"])
        then have "claims e (cr_import_source c) r s1 s'" by (rule claims_bnd [OF _ rest persist])
        with ls show ?thesis by (rule claims_before)
      qed
    qed
  qed
qed

lemma released_material:
  assumes "material_transaction env (run_hook env) body s = (r, s')" and "released s"
  shows "released s'"
  using released_run_owner [of env body s] assms by (simp add: material_transaction_def released_def)

lemma import_body_claims:
  assumes env: "keeps_markers env" and c: "cr_pk c = None" "cr_engine_id c = Some e" and t: "owner s \<noteq> None"
    and run: "import_body env u src c p s = (r, s')"
  shows "claims e (cr_import_source c) r s s'"
proof -
  note run' = run [unfolded import_body_def]
  show ?thesis
  proof (rule claims_bnd [OF run'])
    show "framed marks_step (case x of (saved, _) \<Rightarrow> case (src_object_type src, src_object_id src) of
        (Some t, Some k) \<Rightarrow> if k = 0 then ret () else bnd (save_assignment env (source_assignment saved t k)) (\<lambda>_. ret ())
      | _ \<Rightarrow> ret ())" for x :: "credential \<times> nat"
      by (intro marks_framed marks_framed_assignment)
    fix q s1
    assume m: "store_credential env (persist_instance env c) (cr_credential_type c) (JObj p) (Some 0) u None ACTION_WRITE (Some c) True
      None False s = (q, s1)"
    obtain z s2 where st: "store_body env (persist_instance env c) (cr_credential_type c) (JObj p) (Some 0) u None ACTION_WRITE (Some c)
      True None False s = (z, s2)" by fastforce
    note cl = store_claims [OF env c st]
    show "claims e (cr_import_source c) q s s1"
    proof (cases z)
      case (Inl x)
      have "framed marks_step (bnd (update_owner (\<lambda>t. t\<lparr>mt_failed := True\<rparr>)) (\<lambda>_. raise x))" by (intro marks_framed)
      moreover have "bnd (update_owner (\<lambda>t. t\<lparr>mt_failed := True\<rparr>)) (\<lambda>_. raise x) s2 = (q, s1)"
        using m t st Inl by (auto simp: store_credential_def material_transaction_def on_exn_def)
      ultimately have "marks_step s2 s1" by (rule framedD)
      with cl have "marks_step s s1" by (auto simp: claims_def intro: marking.frame_trans)
      moreover have "q = Inl x"
        using m t st Inl by (auto simp: store_credential_def material_transaction_def on_exn_def run_update_owner raise_def)
      ultimately show ?thesis by (simp add: claims_def)
    next
      case (Inr x)
      with m t st cl show ?thesis by (auto simp: store_credential_def material_transaction_def on_exn_def)
    qed
  qed
qed

text \<open>The transaction of a secret from the outside. Whatever happens, the markers are kept and the transaction is released; success means
  that the marker was free and is taken now.\<close>

lemma import_transaction:
  assumes env: "keeps_markers env" and c: "cr_pk c = None" "cr_engine_id c = Some e" and idle: "released s"
    and run: "material_transaction env (run_hook env) (import_body env u src c p) s = (r, s')"
  shows "released s' \<and> markers_kept (db s) (db s') \<and> (\<forall>y. r = Inr y \<longrightarrow> fresh_ids (db s) \<longrightarrow>
    marked e (cr_import_source c) (db s') \<and> (cr_import_source c \<noteq> [] \<longrightarrow> (\<forall>e'. \<not> marked e' (cr_import_source c) (db s))))"
proof -
  from run idle have ro: "run_owner env (run_hook env) (import_body env u src c p) s = (r, s')"
    by (simp add: material_transaction_def released_def)
  have rel: "released s'" by (rule released_material [OF run idle])
  obtain q s1 where b: "tx_body env (import_body env u src c p) (begin_tx env s) = (q, s1)" by fastforce
  have cl: "claims e (cr_import_source c) q (begin_tx env s) s1"
  proof (rule claims_bnd [OF b [unfolded tx_body_def]])
    fix z and s2 :: "('a, 'b) sys"
    assume "import_body env u src c p (begin_tx env s) = (z, s2)"
    then show "claims e (cr_import_source c) z (begin_tx env s) s2"
      by (rule import_body_claims [OF env c, rotated]) (simp add: begin_tx_def)
  qed (intro marks_framed)
  then have kept: "markers_kept (db s) (db s1)" "markers_kept (db s) (committed_db s1)"
    by (simp_all add: claims_def marks_step_def begin_tx_def)
  have left: "markers_kept (db s) (db s')" if "marks_step (leave_tx d s1) s'" "d \<in> {db s1, committed_db s1}" for d
    using that kept by (auto simp: marks_step_def leave_tx_def intro: markers_kept_trans)
  have unw: "markers_kept (db s) (db s') \<and> (\<forall>y. r \<noteq> Inr y)"
    if "unwind env x unk t0 (leave_tx d s1) = (r, s')" "d \<in> {db s1, committed_db s1}" for x unk t0 d
  proof
    show "markers_kept (db s) (db s')" by (rule left [OF framedD [OF marks_framed_unwind that(1)] that(2)])
    have "\<exists>x'. r = Inl x'" using unwind_raises [of env x unk t0 "leave_tx d s1"] that(1) by (metis fst_conv)
    then show "\<forall>y. r \<noteq> Inr y" by auto
  qed
  show ?thesis
  proof (cases q)
    case (Inl x)
    with ro b have "unwind env x (e_connection_lost env) (the_owner env s1) (leave_tx (committed_db s1) s1) = (r, s')"
      by (simp add: run_owner_def)
    from unw [OF this] rel show ?thesis by auto
  next
    case (Inr y)
    show ?thesis
    proof (cases "e_commit env (db s1)")
      case CommitOk
      with ro b Inr have ac: "after_commit env (run_hook env) (hooks s1) (the_owner env s1) y (leave_tx (db s1) s1) = (r, s')"
        by (simp add: run_owner_def)
      have st: "marks_step (leave_tx (db s1) s1) s'" by (rule framedD [OF marks_framed_after_commit ac])
      then have "markers_kept (db s1) (db s')" by (simp add: marks_step_def leave_tx_def)
      with cl Inr kept rel left [OF st] show ?thesis
        by (simp add: claims_def begin_tx_def) (simp add: markers_kept_def)
    next
      case CommitRejected
      with ro b Inr have "unwind env IntegrityError False (the_owner env s1) (leave_tx (committed_db s1) s1) = (r, s')"
        by (simp add: run_owner_def)
      from unw [OF this] rel show ?thesis by auto
    next
      case (CommitLost a)
      with ro b Inr have "unwind env (PythonError ''OperationalError'') True (the_owner env s1)
          (leave_tx (if a then db s1 else committed_db s1) s1) = (r, s')" by (simp add: run_owner_def)
      from unw [OF this] rel show ?thesis by auto
    qed
  qed
qed

section \<open>The run\<close>

definition runnable :: "nat \<Rightarrow> import_state \<Rightarrow> ('x, 'b) sys \<Rightarrow> bool" where
  "runnable e st s = (released s \<and> fresh_ids (db s) \<and> (\<forall>m \<in> set (im_done st). marked e m (db s)))"

lemma policy_run:
  assumes "policy_for sl e fb mr src st s = (r, s')"
  shows "(released s \<longrightarrow> released s') \<and> markers_kept (db s) (db s') \<and>
    (\<forall>k st'. r = Inr (k, st') \<longrightarrow> im_done st' = im_done st \<and> ir_details (im_result st') = ir_details (im_result st) \<and>
       ir_failed (im_result st') = ir_failed (im_result st) \<and> ir_imported (im_result st') = ir_imported (im_result st) \<and>
       ir_skipped (im_result st') = ir_skipped (im_result st))"
proof -
  have "framed outside_step (policy_for sl e fb mr src st)"
    unfolding policy_for_def by (intro outside_framed)
  with assms have "outside_step s s'" by (auto dest: framedD)
  then have "released s \<longrightarrow> released s'" by (simp add: released_step)
  moreover have "markers_kept (db s) (db s')" using framedD [OF marks_framed_policy assms] by (simp add: marks_step_def)
  ultimately show ?thesis
    using assms by (auto simp: policy_for_def Let_def ret_def bnd_def gets_def try_db_def split: if_splits option.splits prod.splits sum.splits)
qed

lemma marker_nonempty: "source_marker k \<noteq> []"
  by (simp add: source_marker_def SOURCE_SYSTEM_def)

text \<open>One source: what the result says of it, and what the rows say.\<close>

lemma import_one_run:
  assumes env: "keeps_markers env" and ok: "runnable (io_engine opts) st s" and blank: "cr_pk blank = None"
    and wet: "\<not> io_dry_run opts" and run: "import_one env opts u (blank, src) st s = (r, s')"
  shows "(released s' \<and> markers_kept (db s) (db s')) \<and> (\<forall>st'. r = Inr st' \<longrightarrow> runnable (io_engine opts) st' s' \<and>
     (\<exists>outcome x. ir_details (im_result st') = ir_details (im_result st) @ [(src_pk src, src_name src, outcome, x)] \<and>
        (outcome = ''imported'' \<longrightarrow> (\<forall>e'. \<not> marked e' (source_marker (src_pk src)) (db s))) \<and>
        set (im_done st) \<subseteq> set (im_done st') \<and>
        (source_marker (src_pk src) \<in> set (im_done st') \<and> ir_failed (im_result st') = ir_failed (im_result st) \<or>
         ir_failed (im_result st') = Suc (ir_failed (im_result st)))))"
proof (cases "source_marker (src_pk src) \<in> set (im_done st)")
  case True
  with run have "s' = s" "r = Inr (st\<lparr>im_result := noted src ''skipped'' ''already imported''
      ((im_result st)\<lparr>ir_skipped := Suc (ir_skipped (im_result st))\<rparr>)\<rparr>)"
    by (simp_all add: import_one_def ret_def)
  with True ok show ?thesis by (auto simp: runnable_def noted_def)
next
  case False
  let ?m = "source_marker (src_pk src)"
  obtain ctype p where i: "infer_credential_type (e_lib env) (src_plaintext src) = (ctype, p)" by fastforce
  obtain q s1 where pol: "policy_for (io_slugify opts) (io_engine opts) (io_policy opts) (io_map_roles opts) src st s = (q, s1)"
    by fastforce
  note pr = policy_run [OF pol]
  from ok have idle: "released s1" and kept: "markers_kept (db s) (db s1)" and fresh: "fresh_ids (db s)" "fresh_ids (db s1)"
    using pr by (auto simp: runnable_def markers_kept_def)
  show ?thesis
  proof (cases q)
    case (Inl x)
    with run False i pol wet have "r = Inl x" "s' = s1" by (auto simp: import_one_def bnd_def)
    with idle kept show ?thesis by simp
  next
    case (Inr kst)
    then obtain k st1 where k: "q = Inr (k, st1)" by (cases kst) simp
    let ?c = "source_credential blank src ctype k (io_engine opts)"
    have c: "cr_pk ?c = None" "cr_engine_id ?c = Some (io_engine opts)" "cr_import_source ?c = ?m"
      using blank by (simp_all add: source_credential_def)
    obtain z s2 where t: "material_transaction env (run_hook env) (import_body env u src ?c p) s1 = (z, s2)" by fastforce
    note tr = import_transaction [OF env c(1,2) idle t, unfolded c(3)]
    have res: "s' = s2" "r = Inr (case z of Inl x \<Rightarrow> failed_note src x st1 | Inr _ \<Rightarrow> imported_note src ctype st1)"
      using run False i pol wet k t by (auto simp: import_one_def bnd_def on_exn_def ret_def split: sum.splits)
    have st1: "im_done st1 = im_done st" "ir_details (im_result st1) = ir_details (im_result st)"
      "ir_failed (im_result st1) = ir_failed (im_result st)" using pr k by simp_all
    have old: "\<forall>m \<in> set (im_done st). marked (io_engine opts) m (db s2)" "fresh_ids (db s2)" "markers_kept (db s) (db s2)"
      using ok kept tr fresh by (auto simp: runnable_def markers_kept_def)
    show ?thesis
    proof (cases z)
      case (Inl x)
      with res st1 old tr show ?thesis by (auto simp: runnable_def failed_note_def noted_def)
    next
      case z: (Inr y)
      have "marked (io_engine opts) ?m (db s2)" "\<not> marked e' ?m (db s)" for e'
        using tr z fresh marker_nonempty kept unfolding markers_kept_def by blast+
      with z res st1 old tr show ?thesis by (auto simp: runnable_def imported_note_def noted_def)
    qed
  qed
qed

lemma import_all_run:
  assumes env: "keeps_markers env" and wet: "\<not> io_dry_run opts"
  shows "runnable (io_engine opts) st s \<Longrightarrow> \<forall>(b, _) \<in> set xs. cr_pk b = None \<Longrightarrow> import_all env opts u xs st s = (Inr st', s') \<Longrightarrow>
    runnable (io_engine opts) st' s' \<and> markers_kept (db s) (db s') \<and> set (im_done st) \<subseteq> set (im_done st') \<and>
    ir_failed (im_result st) \<le> ir_failed (im_result st') \<and>
    (ir_failed (im_result st') = ir_failed (im_result st) \<longrightarrow> (\<forall>(_, x) \<in> set xs. source_marker (src_pk x) \<in> set (im_done st'))) \<and>
    (\<exists>new. ir_details (im_result st') = ir_details (im_result st) @ new \<and>
       (\<forall>(k, _, outcome, _) \<in> set new. outcome = ''imported'' \<longrightarrow> (\<forall>e'. \<not> marked e' (source_marker k) (db s))))"
proof (induction xs arbitrary: st s)
  case Nil
  then show ?case by (simp add: ret_def)
next
  case (Cons bs xs)
  obtain blank src where bs: "bs = (blank, src)" by fastforce
  obtain q s1 where one: "import_one env opts u bs st s = (q, s1)" by fastforce
  with Cons.prems(3) obtain st1 where q: "q = Inr st1" and rest: "import_all env opts u xs st1 s1 = (Inr st', s')"
    by (auto simp: bnd_def split: sum.splits)
  from Cons.prems(2) bs have b: "cr_pk blank = None" by simp
  note o = import_one_run [OF env Cons.prems(1) b wet one [unfolded bs]]
  have r1: "runnable (io_engine opts) st1 s1" and k1: "markers_kept (db s) (db s1)" and d1: "set (im_done st) \<subseteq> set (im_done st1)"
    using o q by auto
  obtain outcome y where n1: "ir_details (im_result st1) = ir_details (im_result st) @ [(src_pk src, src_name src, outcome, y)]"
    "outcome = ''imported'' \<longrightarrow> (\<forall>e'. \<not> marked e' (source_marker (src_pk src)) (db s))"
    using o q by blast
  have f1: "source_marker (src_pk src) \<in> set (im_done st1) \<and> ir_failed (im_result st1) = ir_failed (im_result st) \<or>
      ir_failed (im_result st1) = Suc (ir_failed (im_result st))"
    using o q by blast
  have "\<forall>(b, _) \<in> set xs. cr_pk b = None" using Cons.prems(2) by simp
  note ih = Cons.IH [OF r1 this rest]
  obtain new where new: "ir_details (im_result st') = ir_details (im_result st1) @ new"
    "\<forall>(k, _, outcome, _) \<in> set new. outcome = ''imported'' \<longrightarrow> (\<forall>e'. \<not> marked e' (source_marker k) (db s1))"
    using ih by blast
  have fresh: "fresh_ids (db s)" using Cons.prems(1) by (simp add: runnable_def)
  have older: "\<not> marked e' m (db s1) \<Longrightarrow> \<not> marked e' m (db s)" for e' m
    using k1 fresh unfolding markers_kept_def by blast
  have "\<forall>(k, _, outcome, _) \<in> set ((src_pk src, src_name src, outcome, y) # new).
      outcome = ''imported'' \<longrightarrow> (\<forall>e'. \<not> marked e' (source_marker k) (db s))"
    using n1(2) new(2) older by fastforce
  moreover have "markers_kept (db s) (db s')" using k1 ih by (blast intro: markers_kept_trans)
  moreover have "\<forall>(_, x) \<in> set (bs # xs). source_marker (src_pk x) \<in> set (im_done st')"
    if "ir_failed (im_result st') = ir_failed (im_result st)"
    using that f1 ih bs by auto
  ultimately show ?case using ih d1 f1 new(1) n1(1) by auto
qed

text \<open>What the rows say of a marker is what a run reads at its start.\<close>

lemma marks_on_marked: "tbl_ok (credentials d) \<Longrightarrow> m \<in> set (marks_on e d) \<Longrightarrow> marked e m d"
  by (auto simp: marks_on_def marked_def rows_def row_iff) blast

lemma marked_marks_on: "marked e (source_marker k) d \<Longrightarrow> source_marker k \<in> set (marks_on e d)"
  by (auto simp: marks_on_def marked_def rows_def source_marker_def dest!: row_SomeD intro!: image_eqI)

lemma import_secrets_start:
  "import_secrets env opts u xs s =
     bnd (import_all env opts u xs \<lparr>im_result = empty_result, im_cache = [], im_done = marks_on (io_engine opts) (db s)\<rparr>)
       (\<lambda>st. ret (im_result st)) s"
  by (simp add: import_secrets_def run_gets)

lemma import_secrets_run:
  assumes "import_secrets env opts u xs s = (Inr r, s')"
  obtains st where "import_all env opts u xs \<lparr>im_result = empty_result, im_cache = [], im_done = marks_on (io_engine opts) (db s)\<rparr> s
      = (Inr st, s')" "r = im_result st"
  using assms by (auto simp: import_secrets_start bnd_def ret_def split: prod.splits sum.splits)

lemma skip_all:
  "\<forall>(_, x) \<in> set xs. source_marker (src_pk x) \<in> set (im_done st) \<Longrightarrow>
   \<exists>st'. import_all env opts u xs st s = (Inr st', s) \<and> ir_imported (im_result st') = ir_imported (im_result st) \<and>
     ir_failed (im_result st') = ir_failed (im_result st) \<and> ir_skipped (im_result st') = ir_skipped (im_result st) + length xs"
proof (induction xs arbitrary: st)
  case (Cons bs xs)
  obtain blank src where bs: "bs = (blank, src)" by fastforce
  let ?st = "st\<lparr>im_result := noted src ''skipped'' ''already imported''
      ((im_result st)\<lparr>ir_skipped := Suc (ir_skipped (im_result st))\<rparr>)\<rparr>"
  from Cons.prems bs have one: "import_one env opts u bs st s = (Inr ?st, s)" by (simp add: import_one_def ret_def)
  from Cons.IH [of ?st] Cons.prems show ?case by (simp add: bnd_def one) (fastforce simp: noted_def)
qed (simp add: ret_def)

section \<open>Every source is reported\<close>

lemma import_one_reports:
  assumes "\<not> io_map_roles opts"
  shows "\<exists>st' s' outcome x. import_one env opts u (blank, src) st s = (Inr st', s') \<and>
    ir_details (im_result st') = ir_details (im_result st) @ [(src_pk src, src_name src, outcome, x)] \<and>
    ir_imported (im_result st') + ir_skipped (im_result st') + ir_failed (im_result st') =
      Suc (ir_imported (im_result st) + ir_skipped (im_result st) + ir_failed (im_result st))"
proof -
  obtain ctype p where i: "infer_credential_type (e_lib env) (src_plaintext src) = (ctype, p)" by fastforce
  let ?tx = "material_transaction env (run_hook env)
     (import_body env u src (source_credential blank src ctype (io_policy opts) (io_engine opts)) p)"
  obtain z s1 where z: "?tx s = (z, s1)" by fastforce
  show ?thesis
  proof (cases z)
    case (Inl e)
    with z i assms show ?thesis
      by (simp add: import_one_def policy_for_def run_ret on_exn_def bnd_def [of ?tx] ret_def)
         (auto simp: noted_def failed_note_def)
  next
    case (Inr y)
    with z i assms show ?thesis
      by (simp add: import_one_def policy_for_def run_ret on_exn_def bnd_def [of ?tx] ret_def)
         (auto simp: noted_def imported_note_def)
  qed
qed

lemma import_all_reports:
  assumes "\<not> io_map_roles opts"
  shows "\<exists>st' s' new. import_all env opts u xs st s = (Inr st', s') \<and>
    ir_details (im_result st') = ir_details (im_result st) @ new \<and>
    map (\<lambda>d. (fst d, fst (snd d))) new = map (\<lambda>b. (src_pk (snd b), src_name (snd b))) xs \<and>
    ir_imported (im_result st') + ir_skipped (im_result st') + ir_failed (im_result st') =
      ir_imported (im_result st) + ir_skipped (im_result st) + ir_failed (im_result st) + length xs"
proof (induction xs arbitrary: st s)
  case (Cons bs xs)
  obtain blank src where bs: "bs = (blank, src)" by fastforce
  obtain st1 s1 outcome x where one: "import_one env opts u bs st s = (Inr st1, s1)"
    "ir_details (im_result st1) = ir_details (im_result st) @ [(src_pk src, src_name src, outcome, x)]"
    "ir_imported (im_result st1) + ir_skipped (im_result st1) + ir_failed (im_result st1) =
       Suc (ir_imported (im_result st) + ir_skipped (im_result st) + ir_failed (im_result st))"
    using import_one_reports [OF assms] bs by metis
  obtain st2 s2 new where "import_all env opts u xs st1 s1 = (Inr st2, s2)"
    "ir_details (im_result st2) = ir_details (im_result st1) @ new"
    "map (\<lambda>d. (fst d, fst (snd d))) new = map (\<lambda>b. (src_pk (snd b), src_name (snd b))) xs"
    "ir_imported (im_result st2) + ir_skipped (im_result st2) + ir_failed (im_result st2) =
       ir_imported (im_result st1) + ir_skipped (im_result st1) + ir_failed (im_result st1) + length xs"
    using Cons.IH by blast
  with one bs show ?case by (auto simp: bnd_def)
qed (simp add: ret_def)

section \<open>What a run does to the store\<close>

lemma tx_framed_import: "framed (tx_step env) (import_body env u src c p)"
  unfolding import_body_def store_credential_def save_assignment_def refresh_custom_metadata_def
  by (intro tx_framed tx_framed_nested tx_framed_store_body tx_framed_persist tx_framed_defer)

lemma engines_assignment: "engines (snd (write_assignment now a d)) = engines d"
  by (simp add: write_assignment_def Let_def)

lemma engines_policy: "engines (snd (create_policy e slug name d)) = engines d"
  by (simp add: create_policy_def Let_def)

context material_backend
begin

lemma body_import: "framed body_step (import_body env u src c p)"
  unfolding import_body_def store_credential_def save_assignment_def refresh_custom_metadata_def
  by (intro body_framed body_nested body_store calm_persist body_defer calm_body [OF calm_db(2)] engines_assignment)

lemma import_transaction_preserves:
  assumes idle: "released s" and v: "versioned target (db s)"
    and run: "material_transaction env (run_hook env) (import_body env u src c p) s = (r, s')"
  shows "preserved (ext s) (ext s') \<and> versioned target (db s')"
proof -
  have i: "owner s = None" "autocommit s" using idle by (simp_all add: released_def)
  from run i have ro: "run_owner env (run_hook env) (import_body env u src c p) s = (r, s')"
    by (simp add: material_transaction_def)
  have begun: "in_tx (begin_tx env s)" "versioned target (db (begin_tx env s))" using v by (simp_all add: in_tx_begin)
  have same: "same_inventory d (db s') \<Longrightarrow> versioned target d \<Longrightarrow> versioned target (db s')" for d
    by (simp add: same_inventory_def versioned_def)
  have "versioned target (db s')"
    using run_owner_atomic [OF tx_framed_import log_framed_hook ro]
  proof (elim disjE exE conjE)
    fix d
    assume "(others env)\<^sup>*\<^sup>* (db s) d" "same_inventory d (db s')"
    with v show ?thesis by (blast intro: same wait_versioned_rtranclp)
  next
    fix y s1
    assume b: "tx_body env (import_body env u src c p) (begin_tx env s) = (Inr y, s1)" and d: "same_inventory (db s1) (db s')"
    have "versioned target (db s1)" by (rule body_stepE [OF framedD [OF tx_body_step [OF body_import] b] begun])
    with d show ?thesis by (rule same)
  qed
  with owner_preserves [OF body_import i v ro] show ?thesis by simp
qed

lemma import_one_preserves:
  assumes idle: "released s" and v: "versioned target (db s)" and run: "import_one env opts u bs st s = (r, s')"
  shows "released s' \<and> versioned target (db s') \<and> preserved (ext s) (ext s')"
proof -
  obtain blank src where bs: "bs = (blank, src)" by fastforce
  obtain ctype p where i: "infer_credential_type (e_lib env) (src_plaintext src) = (ctype, p)" by fastforce
  show ?thesis
  proof (cases "source_marker (src_pk src) \<in> set (im_done st) \<or> io_dry_run opts")
    case True
    with run bs i idle v show ?thesis by (auto simp: import_one_def ret_def preserved_refl split: if_splits)
  next
    case False
    obtain q s1 where pol: "policy_for (io_slugify opts) (io_engine opts) (io_policy opts) (io_map_roles opts) src st s = (q, s1)"
      by fastforce
    have "framed (calm_step target) (policy_for (io_slugify opts) (io_engine opts) (io_policy opts) (io_map_roles opts) src st)"
      unfolding policy_for_def by (intro calm_framed calm_db engines_policy)
    with pol v have s1: "ext s1 = ext s" "versioned target (db s1)" by (auto dest!: framedD simp: calm_step_def)
    have rel: "released s1" using policy_run [OF pol] idle by simp
    show ?thesis
    proof (cases q)
      case (Inl x)
      with run bs i False pol s1 rel show ?thesis by (auto simp: import_one_def bnd_def preserved_refl)
    next
      case (Inr kst)
      obtain k st1 where k: "kst = (k, st1)" by fastforce
      obtain z s2 where t: "material_transaction env (run_hook env)
          (import_body env u src (source_credential blank src ctype k (io_engine opts)) p) s1 = (z, s2)" by fastforce
      have "s' = s2"
        using run bs i False pol Inr k t by (auto simp: import_one_def bnd_def on_exn_def ret_def split: sum.splits)
      moreover have "released s2" by (rule released_material [OF t rel])
      ultimately show ?thesis using import_transaction_preserves [OF rel s1(2) t] s1(1) by simp
    qed
  qed
qed

lemma import_preserves:
  "released s \<Longrightarrow> versioned target (db s) \<Longrightarrow> import_all env opts u xs st s = (r, s') \<Longrightarrow>
   released s' \<and> versioned target (db s') \<and> preserved (ext s) (ext s')"
proof (induction xs arbitrary: st s)
  case (Cons bs xs)
  obtain q s1 where one: "import_one env opts u bs st s = (q, s1)" by fastforce
  note o = import_one_preserves [OF Cons.prems(1,2) one]
  show ?case
  proof (cases q)
    case (Inl e)
    with Cons.prems(3) one o show ?thesis by (simp add: bnd_def)
  next
    case (Inr st1)
    with Cons.prems(3) one have "import_all env opts u xs st1 s1 = (r, s')" by (simp add: bnd_def)
    from Cons.IH [OF _ _ this] o show ?thesis by (blast intro: preserved_trans)
  qed
qed (simp add: ret_def preserved_refl)

end

section \<open>A source that is claimed already\<close>



















section \<open>On the example deployment\<close>

definition ex_source :: source_secret where
  "ex_source = \<lparr>src_pk = 7, src_name = ''router'', src_plaintext = ''pw '', src_role_name = [], src_username = ''admin'',
     src_object_type = Some \<lparr>ct_app_label = ''dcim'', ct_model = ''device''\<rparr>, src_object_id = Some 3\<rparr>"

definition ex_blank :: credential where
  "ex_blank = ex_credential\<lparr>cr_pk := None, cr_uuid := ''u-9'', cr_path := [], cr_created := None, cr_kv_version := None,
     cr_live_kv_version := None\<rparr>"

definition ex_options :: import_options where
  "ex_options = \<lparr>io_engine = 1, io_policy = 1, io_dry_run = False, io_map_roles = False, io_slugify = id\<rparr>"

definition ex_import :: "import_result ex_run" where
  "ex_import = import_secrets (ex_env ex_ok) ex_options None [(ex_blank, ex_source)] ex_state"

abbreviation ex_new :: credential where
  "ex_new \<equiv> source_credential ex_blank ex_source ''password'' 1 1"

text \<open>The trailing blank of the secret is kept.\<close>

lemma ex_inferred: "infer_credential_type ex_lib ''pw '' = (''password'', [(''password'', JStr ''pw '')])"
  by code_simp

lemma ex_unmarked: "marks_on e ex_db = []"
  by (simp add: marks_on_def ex_db_def rows_def ex_credential_def SOURCE_SYSTEM_def)

lemmas run_import = ex_blank_def ex_source_def source_credential_def import_body_def [THEN fun_cong] save_assignment_def [THEN fun_cong]
  refresh_custom_metadata_def [THEN fun_cong] source_assignment_def write_assignment_def previous_credential_def assignment_conflict_def

lemma ex_transaction_run:
  "\<exists>s'. material_transaction (ex_env ex_ok) (run_hook (ex_env ex_ok))
     (import_body (ex_env ex_ok) None ex_source ex_new [(''password'', JStr ''pw '')]) ex_state = (Inr (), s')"
  by (simp add: ex_ok_def run_import run marker_nonempty marker_nonempty [symmetric] del: set_filter cong: run_congs)

lemma ex_import_run: "\<exists>r s'. ex_import = (Inr r, s') \<and> ir_failed r = 0 \<and> ir_imported r = 1"
proof -
  obtain s' where t: "material_transaction (ex_env ex_ok) (run_hook (ex_env ex_ok))
     (import_body (ex_env ex_ok) None ex_source ex_new [(''password'', JStr ''pw '')]) ex_state = (Inr (), s')"
    using ex_transaction_run by blast
  have i: "infer_credential_type (e_lib (ex_env ex_ok)) (src_plaintext ex_source) = (''password'', [(''password'', JStr ''pw '')])"
    using ex_inferred by (simp add: ex_env_def ex_source_def)
  have m: "marks_on (io_engine ex_options) (db ex_state) = []" by (simp add: ex_options_def ex_state_def ex_unmarked)
  have o: "io_policy ex_options = 1" "io_engine ex_options = 1" "\<not> io_dry_run ex_options" "\<not> io_map_roles ex_options"
    by (simp_all add: ex_options_def)
  have "import_one (ex_env ex_ok) ex_options None (ex_blank, ex_source) \<lparr>im_result = empty_result, im_cache = [], im_done = []\<rparr> ex_state
      = (Inr (imported_note ex_source ''password'' \<lparr>im_result = empty_result, im_cache = [], im_done = []\<rparr>), s')"
    using t by (simp add: import_one_def i o policy_for_def run_ret on_exn_def bnd_def ret_def)
  then show ?thesis
    by (simp add: ex_import_def import_secrets_start m bnd_def ret_def imported_note_def noted_def empty_result_def)
qed

lemma ex_import_ready:
  "keeps_markers (ex_env ex_ok)" "released ex_state" "fresh_ids (db ex_state)" "tbl_ok (credentials (db ex_state))"
  "\<not> io_dry_run ex_options" "\<forall>(b, _) \<in> set [(ex_blank, ex_source)]. cr_pk b = None"
  by (simp_all add: keeps_markers_def ex_env_def released_def ex_state_def fresh_ids_def ex_db_def tbl_ok_def ex_options_def ex_blank_def)




section \<open>The properties\<close>

text \<open>C28: A migration is idempotent. After a run that reports no failure, running it again over the same sources writes nothing: every source is
  skipped, nothing is imported or fails, and the state (rows, audit log, store) is the one the first run left. The run starts outside any transaction.\<close>

theorem import_is_idempotent:
  assumes "keeps_markers env" and "released s" "fresh_ids (db s)" "tbl_ok (credentials (db s))"
    and "\<not> io_dry_run opts" and "\<forall>(b, _) \<in> set sources. cr_pk b = None"
    and run: "import_secrets env opts u sources s = (Inr r, s')" and "ir_failed r = 0"
  shows "\<exists>r'. import_secrets env opts u' sources s' = (Inr r', s') \<and> ir_skipped r' = length sources \<and> ir_imported r' = 0 \<and> ir_failed r' = 0"
proof -
  let ?st = "\<lambda>s. \<lparr>im_result = empty_result, im_cache = [], im_done = marks_on (io_engine opts) (db s)\<rparr>"
  obtain st where all: "import_all env opts u sources (?st s) s = (Inr st, s')" and r: "r = im_result st"
    by (rule import_secrets_run [OF run])
  have "runnable (io_engine opts) (?st s) s" using assms(2-4) by (simp add: runnable_def marks_on_marked)
  from import_all_run [OF assms(1,5) this assms(6) all] r assms(8)
  have "runnable (io_engine opts) st s'" "\<forall>(_, x) \<in> set sources. source_marker (src_pk x) \<in> set (im_done st)"
    by (simp_all add: empty_result_def)
  then have "\<forall>(_, x) \<in> set sources. source_marker (src_pk x) \<in> set (im_done (?st s'))"
    by (auto simp: runnable_def intro: marked_marks_on)
  from skip_all [OF this, of env opts u' s'] show ?thesis
    by (auto simp: import_secrets_start bnd_def ret_def empty_result_def)
qed

theorem import_is_idempotent_witness:
  "\<exists>r s' r'. ex_import = (Inr r, s') \<and> ir_imported r = 1 \<and>
     import_secrets (ex_env ex_ok) ex_options None [(ex_blank, ex_source)] s' = (Inr r', s') \<and> ir_skipped r' = 1"
proof -
  obtain r s' where r: "ex_import = (Inr r, s')" "ir_failed r = 0" "ir_imported r = 1" using ex_import_run by blast
  obtain r' where "import_secrets (ex_env ex_ok) ex_options None [(ex_blank, ex_source)] s' = (Inr r', s')" "ir_skipped r' = 1"
    using import_is_idempotent [OF ex_import_ready r(1) [unfolded ex_import_def] r(2), where u' = None] by auto
  with r show ?thesis by blast
qed



text \<open>C30: One failure never abandons a migration. Unless policies are created from roles, a run always returns, whatever fails
  underneath: its report has exactly one line for each source, in their order, and its three counts add up to the number of sources.\<close>

theorem every_source_is_reported:
  assumes "\<not> io_map_roles opts"
  shows "\<exists>r s'. import_secrets env opts u sources s = (Inr r, s') \<and>
    map (\<lambda>d. (fst d, fst (snd d))) (ir_details r) = map (\<lambda>b. (src_pk (snd b), src_name (snd b))) sources \<and>
    ir_imported r + ir_skipped r + ir_failed r = length sources"
proof -
  let ?st = "\<lparr>im_result = empty_result, im_cache = [], im_done = marks_on (io_engine opts) (db s)\<rparr>"
  obtain st' s' new where "import_all env opts u sources ?st s = (Inr st', s')" "ir_details (im_result st') = ir_details (im_result ?st) @ new"
    "map (\<lambda>d. (fst d, fst (snd d))) new = map (\<lambda>b. (src_pk (snd b), src_name (snd b))) sources"
    "ir_imported (im_result st') + ir_skipped (im_result st') + ir_failed (im_result st') =
       ir_imported (im_result ?st) + ir_skipped (im_result ?st) + ir_failed (im_result ?st) + length sources"
    using import_all_reports [OF assms] by blast
  then show ?thesis by (simp add: import_secrets_start bnd_def ret_def empty_result_def)
qed

theorem every_source_is_reported_witness:
  "\<exists>r s'. import_secrets (ex_env (\<lambda>_. CommitRejected)) ex_options None [(ex_blank, ex_source), (ex_blank, ex_source)] ex_state = (Inr r, s') \<and>
     map (\<lambda>d. (fst d, fst (snd d))) (ir_details r) = [(7, ''router''), (7, ''router'')] \<and>
     ir_imported r + ir_skipped r + ir_failed r = 2"
  using every_source_is_reported [of ex_options "ex_env (\<lambda>_. CommitRejected)" None "[(ex_blank, ex_source), (ex_blank, ex_source)]" ex_state]
  by (auto simp: ex_options_def ex_source_def)

end
