(* ===== verification/Quick_Add.thy ===== *)
theory Quick_Add
  imports Credential_Views Example
begin

text \<open>
  SSH access in one action (\<^verbatim>\<open>quickadd.py\<close>, the quick-add endpoint of \<^verbatim>\<open>api/views.py\<close> with its request check in
  \<^verbatim>\<open>api/serializers.py\<close>). NetBox's own tables are a record
  \<open>ipam\<close> beside the plugin's database: a run returns what it made of them, and a run that raises leaves them to the
  rollback. NetBox's permissions and validation, \<^verbatim>\<open>netaddr\<close> and the generation of keys are parameters. What other transactions do to
  NetBox's tables while a lock is awaited is not expressed.
\<close>

section \<open>NetBox's tables\<close>

record ip_address =
  ia_address :: string
  ia_vrf :: "nat option"

record service_template =
  tp_name :: string
  tp_port_mappings :: "string list"
  tp_description :: string

record ipam_service =
  sv_parent :: "content_type \<times> nat"
  sv_name :: string
  sv_port_mappings :: "string list"
  sv_description :: string
  sv_addresses :: "nat list"

record ipam =
  ip_addresses :: "ip_address tbl"
  ip_templates :: "service_template tbl"
  ip_services :: "ipam_service tbl"
  ip_next_id :: nat

type_synonym 'a ipam_prog = "(ipam, exn, 'a) sem"

text \<open>\<open>na_permits i u action model k\<close>: the object is in \<open>restrict(u, action)\<close>. \<open>na_has_perm\<close> is the model-level permission.\<close>

record netbox_api =
  na_permits :: "ipam \<Rightarrow> user \<Rightarrow> string \<Rightarrow> string \<Rightarrow> nat \<Rightarrow> bool"
  na_has_perm :: "user \<Rightarrow> string \<Rightarrow> bool"
  na_service_error :: "ipam_service \<Rightarrow> exn option" \<comment> \<open>\<^verbatim>\<open>full_clean\<close>\<close>
  na_address_error :: "ip_address \<Rightarrow> exn option"
  na_network :: "string \<Rightarrow> string option" \<comment> \<open>\<^verbatim>\<open>str(netaddr.IPNetwork(..))\<close>\<close>

definition may :: "netbox_api \<Rightarrow> ipam \<Rightarrow> user option \<Rightarrow> string \<Rightarrow> string \<Rightarrow> nat \<Rightarrow> bool" where
  "may na i u action model k = (case u of None \<Rightarrow> True | Some v \<Rightarrow> na_permits na i v action model k)"

text \<open>The object a credential is added to; \<open>tg_primary\<close> is its primary address.\<close>

record quick_target =
  tg_type :: content_type
  tg_pk :: nat
  tg_label :: string
  tg_primary :: "nat option"

section \<open>Port mappings\<close>

definition is_tcp :: "string \<Rightarrow> bool" where
  "is_tcp m = prefix ''tcp/'' (lower m)"

definition get_ssh_service_template :: "ipam \<Rightarrow> (nat \<times> service_template) option" where
  "get_ssh_service_template i = List.find (\<lambda>(_, t). lower (tp_name t) = ''ssh'') (ip_templates i)"

text \<open>\<open>list(dict.fromkeys(xs))\<close>.\<close>

definition first_of_each :: "string list \<Rightarrow> string list" where
  "first_of_each xs = rev (remdups (rev xs))"

fun replace_tcp :: "string \<Rightarrow> string list \<Rightarrow> string list option" where
  "replace_tcp chosen [] = None"
| "replace_tcp chosen (m # ms) = (if is_tcp m then Some (chosen # ms) else map_option (Cons m) (replace_tcp chosen ms))"

definition port_mappings :: "service_template option \<Rightarrow> nat option \<Rightarrow> string list" where
  "port_mappings template port =
     (let mappings = (case template of None \<Rightarrow> [] | Some t \<Rightarrow> tp_port_mappings t)
      in case port of
           None \<Rightarrow> if mappings = [] then [''tcp/22''] else mappings
         | Some p \<Rightarrow>
             (let chosen = ''tcp/'' @ digits p
              in case replace_tcp chosen mappings of None \<Rightarrow> mappings @ [chosen] | Some ms \<Rightarrow> first_of_each ms))"

section \<open>Addresses\<close>

definition require_service_permission :: "netbox_api \<Rightarrow> user option \<Rightarrow> string \<Rightarrow> nat option \<Rightarrow> unit ipam_prog" where
  "require_service_permission na u action service =
     (case u of
        None \<Rightarrow> ret ()
      | Some v \<Rightarrow>
          if \<not> na_has_perm na v (''ipam.'' @ action @ ''_service'')
          then raise (PermissionDenied (''ipam.'' @ action @ ''_service is required to manage the SSH service.''))
          else case service of
            None \<Rightarrow> ret ()
          | Some k \<Rightarrow>
              bnd (gets (\<lambda>i. row (ip_services i) k \<noteq> None \<and> na_permits na i v action ''service'' k)) (\<lambda>ok.
              check ok (PermissionDenied (''ipam.'' @ action @ ''_service does not permit this service.''))))"

definition visible_ip_addresses :: "netbox_api \<Rightarrow> user option \<Rightarrow> nat list \<Rightarrow> nat list ipam_prog" where
  "visible_ip_addresses na u ids =
     bnd (gets (\<lambda>i. filter (\<lambda>k. k \<in> set ids \<and> may na i u ''view'' ''ipaddress'' k) (map fst (ip_addresses i)))) (\<lambda>visible.
     bnd (check (u = None \<or> length visible = card (set ids)) (PermissionDenied ''You do not have permission to use that IP address.''))
       (\<lambda>_. ret visible))"

definition primary_ip_addresses :: "netbox_api \<Rightarrow> user option \<Rightarrow> quick_target \<Rightarrow> nat list ipam_prog" where
  "primary_ip_addresses na u t =
     (case tg_primary t of
        None \<Rightarrow> ret []
      | Some k \<Rightarrow> gets (\<lambda>i. if row (ip_addresses i) k \<noteq> None \<and> may na i u ''view'' ''ipaddress'' k then [k] else []))"

definition address_format :: exn where
  "address_format = ValidationError [] ''Enter the IP address as an address with a prefix length, for example 10.0.0.5/24.''"

definition create_ip_address :: "netbox_api \<Rightarrow> string \<Rightarrow> nat ipam_prog" where
  "create_ip_address na network =
     (let a = \<lparr>ia_address = network, ia_vrf = None\<rparr>
      in case na_address_error na a of
           Some e \<Rightarrow> raise e
         | None \<Rightarrow>
             bnd (gets ip_next_id) (\<lambda>k.
             bnd (modify (\<lambda>i. i\<lparr>ip_addresses := put_row k a (ip_addresses i), ip_next_id := Suc k\<rparr>)) (\<lambda>_. ret k)))"

definition new_ip_address :: "netbox_api \<Rightarrow> user option \<Rightarrow> string \<Rightarrow> nat list ipam_prog" where
  "new_ip_address na u cidr =
     (case na_network na (strip cidr) of
        None \<Rightarrow> raise address_format
      | Some network \<Rightarrow>
          bnd (check (CHR ''/'' \<in> set cidr) address_format) (\<lambda>_.
          bnd (gets (\<lambda>i. map fst (filter (\<lambda>(k, a). ia_vrf a = None \<and> ia_address a = network \<and> may na i u ''view'' ''ipaddress'' k)
                 (ip_addresses i)))) (\<lambda>matches.
          bnd (check (length matches \<le> 1)
                 (ValidationError [] (''More than one IP address '' @ network @ '' exists; choose one.''))) (\<lambda>_.
          if matches \<noteq> [] then ret matches
          else bnd (check (case u of None \<Rightarrow> True | Some v \<Rightarrow> na_has_perm na v ''ipam.add_ipaddress'')
                      (PermissionDenied ''ipam.add_ipaddress is required to create the IP address.'')) (\<lambda>_.
               bnd (create_ip_address na network) (\<lambda>k.
               bnd (gets (\<lambda>i. may na i u ''add'' ''ipaddress'' k)) (\<lambda>ok.
               bnd (check ok (PermissionDenied ''ipam.add_ipaddress does not permit this IP address.'')) (\<lambda>_. ret [k]))))))))"

definition connection_ip_addresses ::
  "netbox_api \<Rightarrow> user option \<Rightarrow> quick_target \<Rightarrow> nat list \<Rightarrow> string option \<Rightarrow> nat list ipam_prog" where
  "connection_ip_addresses na u t ips new =
     (let cidr = (case new of None \<Rightarrow> [] | Some s \<Rightarrow> s)
      in if ips \<noteq> [] \<and> cidr \<noteq> [] then raise (ValidationError [] ''Choose an existing IP address or enter a new one, not both.'')
         else if cidr \<noteq> [] then new_ip_address na u cidr
         else if ips \<noteq> [] then ret ips
         else primary_ip_addresses na u t)"

definition require_requested_ip :: "nat \<Rightarrow> nat list \<Rightarrow> unit ipam_prog" where
  "require_requested_ip k ips =
     bnd (gets (\<lambda>i. row (ip_services i) k)) (\<lambda>r.
     bnd (get_or r ObjectDoesNotExist) (\<lambda>v.
     check (sv_addresses v = [] \<or> set ips \<subseteq> set (sv_addresses v))
       (ValidationError [] (''The existing '' @ [CHR 0x22] @ sv_name v @ [CHR 0x22]
          @ '' service already has a different IP address; change it in NetBox, or leave the address empty to keep it.''))))"

section \<open>The service\<close>

definition save_service :: "netbox_api \<Rightarrow> nat \<Rightarrow> ipam_service \<Rightarrow> unit ipam_prog" where
  "save_service na k v =
     (case na_service_error na v of
        Some e \<Rightarrow> raise e
      | None \<Rightarrow> modify (\<lambda>i. i\<lparr>ip_services := put_row k v (ip_services i)\<rparr>))"

definition set_addresses :: "nat \<Rightarrow> nat list \<Rightarrow> unit ipam_prog" where
  "set_addresses k ips =
     modify (\<lambda>i. case row (ip_services i) k of
                   None \<Rightarrow> i | Some v \<Rightarrow> i\<lparr>ip_services := put_row k (v\<lparr>sv_addresses := ips\<rparr>) (ip_services i)\<rparr>)"

definition service_named :: "quick_target \<Rightarrow> string \<Rightarrow> ipam \<Rightarrow> (nat \<times> ipam_service) option" where
  "service_named t name i = List.find (\<lambda>(_, v). sv_parent v = (tg_type t, tg_pk t) \<and> sv_name v = name) (ip_services i)"

definition widen_service ::
  "netbox_api \<Rightarrow> user option \<Rightarrow> nat \<times> ipam_service \<Rightarrow> string list \<Rightarrow> nat list \<Rightarrow> unit ipam_prog" where
  "widen_service na u kv mappings ips =
     (case kv of (k, v) \<Rightarrow>
        bnd (check (list_ex is_tcp (sv_port_mappings v))
               (ValidationError [] (''A service named '' @ [CHR 0x22] @ sv_name v @ [CHR 0x22]
                  @ '' already exists on this object and is not a TCP service.''))) (\<lambda>_.
        bnd (let missing = filter (\<lambda>m. m \<notin> set (sv_port_mappings v)) mappings
             in if missing = [] then ret ()
                else bnd (require_service_permission na u ''change'' (Some k)) (\<lambda>_.
                     save_service na k (v\<lparr>sv_port_mappings := sv_port_mappings v @ missing\<rparr>))) (\<lambda>_.
        if ips \<noteq> [] \<and> sv_addresses v = []
        then bnd (require_service_permission na u ''change'' (Some k)) (\<lambda>_. set_addresses k ips)
        else ret ())))"

definition add_service ::
  "netbox_api \<Rightarrow> user option \<Rightarrow> quick_target \<Rightarrow> service_template option \<Rightarrow> string \<Rightarrow> string list \<Rightarrow> nat list \<Rightarrow> nat ipam_prog" where
  "add_service na u t template name mappings ips =
     bnd (require_service_permission na u ''add'' None) (\<lambda>_.
     bnd (gets ip_next_id) (\<lambda>k.
     bnd (save_service na k \<lparr>sv_parent = (tg_type t, tg_pk t), sv_name = name, sv_port_mappings = mappings,
            sv_description = (case template of None \<Rightarrow> [] | Some x \<Rightarrow> tp_description x), sv_addresses = []\<rparr>) (\<lambda>_.
     bnd (modify (\<lambda>i. i\<lparr>ip_next_id := Suc k\<rparr>)) (\<lambda>_.
     bnd (if ips = [] then ret () else set_addresses k ips) (\<lambda>_. ret k)))))"

definition get_or_create_service ::
  "netbox_api \<Rightarrow> user option \<Rightarrow> quick_target \<Rightarrow> service_template option \<Rightarrow> nat option \<Rightarrow> string \<Rightarrow> nat list \<Rightarrow> (nat \<times> bool) ipam_prog" where
  "get_or_create_service na u t template port name ips =
     (let mappings = port_mappings template port
      in bnd (check (list_ex is_tcp mappings) (ValidationError [] ''The service template must define a TCP port for SSH.'')) (\<lambda>_.
         bnd (if ips = [] then ret [] else visible_ip_addresses na u ips) (\<lambda>visible.
         bnd (gets (service_named t name)) (\<lambda>existing.
         case existing of
           Some kv \<Rightarrow> bnd (widen_service na u kv mappings visible) (\<lambda>_. ret (fst kv, False))
         | None \<Rightarrow> bnd (add_service na u t template name mappings visible) (\<lambda>k. ret (k, True))))))"

section \<open>The action\<close>

record quick_add =
  qa_username :: string
  qa_name :: "string option"
  qa_existing :: "credential option"
  qa_private_key :: "string option"
  qa_passphrase :: "string option"
  qa_password :: "string option"
  qa_auth_method :: string
  qa_generate :: bool
  qa_key_type :: "ssh_key_type_choice option"
  qa_port :: "nat option"
  qa_template :: "nat option"
  qa_service_name :: "string option"
  qa_ips :: "nat list"
  qa_new_ip :: "string option"
  qa_purpose :: purpose_choice

definition text_given :: "string option \<Rightarrow> bool" where
  "text_given s = (case s of None \<Rightarrow> False | Some x \<Rightarrow> x \<noteq> [])"

definition text_or :: "string option \<Rightarrow> string \<Rightarrow> string" where
  "text_or s d = (case s of None \<Rightarrow> d | Some x \<Rightarrow> str_or x d)"

definition uses_password :: "quick_add \<Rightarrow> bool" where
  "uses_password q = (str_or (qa_auth_method q) ''keypair'' = ''password'')"

definition source_check :: "quick_add \<Rightarrow> exn + unit" where
  "source_check q =
     (if uses_password q
      then (if text_given (qa_password q) then Inr () else Inl (ValidationError [] ''An SSH login password is required.''))
      else if length (filter id [qa_existing q \<noteq> None, text_given (qa_private_key q), qa_generate q]) = 1 then Inr ()
      else Inl (ValidationError []
        ''Choose exactly one of: reuse an existing credential, paste a private key, or generate one.''))"

definition chosen_template :: "quick_add \<Rightarrow> ipam \<Rightarrow> (nat \<times> service_template) option" where
  "chosen_template q i =
     (case qa_template q of
        None \<Rightarrow> get_ssh_service_template i
      | Some k \<Rightarrow> map_option (Pair k) (row (ip_templates i) k))"

text \<open>What the action does to NetBox's tables: the service the credential will belong to.\<close>

definition ssh_service :: "netbox_api \<Rightarrow> user option \<Rightarrow> quick_target \<Rightarrow> quick_add \<Rightarrow> nat ipam_prog" where
  "ssh_service na u t q =
     bnd (gets (chosen_template q)) (\<lambda>template.
     bnd (gets (\<lambda>i. case template of None \<Rightarrow> True | Some (k, _) \<Rightarrow> may na i u ''view'' ''servicetemplate'' k)) (\<lambda>ok.
     bnd (check ok (PermissionDenied ''The selected service template is not permitted.'')) (\<lambda>_.
     bnd (connection_ip_addresses na u t (qa_ips q) (qa_new_ip q)) (\<lambda>ips.
     bnd (get_or_create_service na u t (map_option snd template) (qa_port q)
            (text_or (qa_service_name q) (case template of None \<Rightarrow> ''ssh'' | Some (_, x) \<Rightarrow> lower (tp_name x))) ips) (\<lambda>(k, created).
     bnd (if (qa_ips q \<noteq> [] \<or> text_given (qa_new_ip q)) \<and> \<not> created then require_requested_ip k ips else ret ()) (\<lambda>_.
     ret k))))))"

text \<open>The material and the public key of a generated pair.\<close>

definition quick_material ::
  "openbao_settings \<Rightarrow> (ssh_key_type_choice \<Rightarrow> string \<times> string) \<Rightarrow> quick_add \<Rightarrow> string \<times> payload \<times> string" where
  "quick_material cfg generate_ssh_keypair q =
     (if uses_password q then (TYPE_SSH_PASSWORD, [(''password'', JStr (text_or (qa_password q) []))], [])
      else if qa_generate q
      then (case generate_ssh_keypair (given (qa_key_type q) (set_default_ssh_key_type cfg)) of
              (private, public) \<Rightarrow> (TYPE_SSH_KEYPAIR, [(''private_key'', JStr private)], public))
      else (TYPE_SSH_KEYPAIR, (''private_key'', JStr (text_or (qa_private_key q) []))
              # (if text_given (qa_passphrase q) then [(''passphrase'', JStr (text_or (qa_passphrase q) []))] else []), []))"

definition quick_credential :: "credential \<Rightarrow> quick_target \<Rightarrow> credential_policy \<Rightarrow> quick_add \<Rightarrow> string \<Rightarrow> credential" where
  "quick_credential blank t pol q ctype =
     blank\<lparr>cr_name := text_or (qa_name q) (tg_label t @ '' ssh''), cr_credential_type := ctype, cr_policy_id := Some (pol_pk pol),
       cr_engine_id := Some (pol_engine_id pol), cr_username := qa_username q\<rparr>"

definition service_assignment :: "credential \<Rightarrow> nat \<Rightarrow> purpose_choice \<Rightarrow> credential_assignment" where
  "service_assignment c k purpose =
     \<lparr>asg_pk = None, asg_credential_id = cr_pk c, asg_object_type = Some service_type, asg_object_id = k, asg_purpose = purpose,
      asg_is_primary = False, asg_enabled = True, asg_known_hosts_entry = [], asg_strict_host_key_checking = True, asg_last_updated = 0\<rparr>"

definition assign_service ::
  "('x, 'b, 'c) env \<Rightarrow> credential \<Rightarrow> nat \<Rightarrow> purpose_choice \<Rightarrow> ('x, 'b, unit) prog" where
  "assign_service env c k purpose =
     bnd (gets (\<lambda>s. list_ex (\<lambda>(_, a). asg_credential_id a = cr_pk c \<and> asg_object_type a = Some service_type
            \<and> asg_object_id a = k \<and> asg_purpose a = purpose) (assignments (db s)))) (\<lambda>found.
     if found then ret () else bnd (save_assignment env (service_assignment c k purpose)) (\<lambda>_. ret ()))"

text \<open>\<open>conforms\<close> is the caller's last check, on the final graph. The result carries NetBox's tables as the action leaves them.\<close>

definition quick_add_body ::
  "('x, 'b, 'c) env \<Rightarrow> netbox_api \<Rightarrow> (ssh_key_type_choice \<Rightarrow> string \<times> string) \<Rightarrow> (credential \<Rightarrow> ('x, 'b, unit) prog) \<Rightarrow> user option
   \<Rightarrow> http_request option \<Rightarrow> credential \<Rightarrow> quick_target \<Rightarrow> credential_policy \<Rightarrow> quick_add \<Rightarrow> ipam
   \<Rightarrow> ('x, 'b, credential \<times> nat \<times> string \<times> ipam) prog" where
  "quick_add_body env na keypair conforms u request blank t pol q i =
     bnd (lift_sum (source_check q)) (\<lambda>_.
     savepoint
       (case ssh_service na u t q i of (r, i') \<Rightarrow>
        bnd (lift_sum r) (\<lambda>k.
        bnd (case qa_existing q of
               Some c \<Rightarrow> ret (c, [])
             | None \<Rightarrow>
                 (case quick_material (e_cfg env) keypair q of (ctype, p, public) \<Rightarrow>
                    let c = quick_credential blank t pol q ctype
                    in bnd (store_credential env (persist_instance env c) ctype (JObj p) (Some 0) u request ACTION_WRITE (Some c) True
                              None False) (\<lambda>(saved, _). ret (saved, public)))) (\<lambda>(c, public).
        bnd (assign_service env c k (qa_purpose q)) (\<lambda>_.
        bnd (conforms c) (\<lambda>_.
        ret (c, k, public, i')))))))"

definition quick_add_ssh ::
  "('x, 'b, 'c) env \<Rightarrow> netbox_api \<Rightarrow> (ssh_key_type_choice \<Rightarrow> string \<times> string) \<Rightarrow> (credential \<Rightarrow> ('x, 'b, unit) prog) \<Rightarrow> user option
   \<Rightarrow> http_request option \<Rightarrow> credential \<Rightarrow> quick_target \<Rightarrow> credential_policy \<Rightarrow> quick_add \<Rightarrow> ipam
   \<Rightarrow> ('x, 'b, credential \<times> nat \<times> string \<times> ipam) prog" where
  "quick_add_ssh env na keypair conforms u request blank t pol q i =
     material_transaction env (run_hook env) (quick_add_body env na keypair conforms u request blank t pol q i)"

section \<open>The endpoint\<close>

datatype quick_source = SourceExisting | SourceGenerated | SourceProvided

record quick_request =
  qr_target_type :: content_type
  qr_target_id :: nat
  qr_name :: "string option"
  qr_username :: string
  qr_policy :: credential_policy
  qr_template :: "nat option"
  qr_service_name :: "string option"
  qr_ip_address :: "nat option"
  qr_new_ip_address :: "string option"
  qr_port :: "nat option"
  qr_auth_method :: string
  qr_source :: "quick_source option"
  qr_password :: "string option"
  qr_private_key :: "string option"
  qr_passphrase :: "string option"
  qr_key_type :: "ssh_key_type_choice option"
  qr_existing :: "credential option"

definition validate_password :: "quick_request \<Rightarrow> exn + unit" where
  "validate_password q =
     (if \<not> text_given (qr_password q) then Inl (ValidationError ''password'' ''An SSH login password is required.'')
      else if qr_source q \<noteq> None \<or> text_given (qr_private_key q) \<or> text_given (qr_passphrase q) \<or> qr_key_type q \<noteq> None
              \<or> qr_existing q \<noteq> None
      then Inl (ValidationError ''auth_method'' ''Password authentication cannot include keypair source fields.'')
      else Inr ())"

definition validate_existing :: "quick_request \<Rightarrow> exn + unit" where
  "validate_existing q =
     (case qr_existing q of
        None \<Rightarrow> Inl (ValidationError ''existing_credential'' ''An existing credential is required.'')
      | Some c \<Rightarrow>
          if cr_credential_type c \<noteq> TYPE_SSH_KEYPAIR
          then Inl (ValidationError ''existing_credential'' ''The existing credential must be an SSH keypair.'')
          else if cr_policy_id c \<noteq> Some (pol_pk (qr_policy q))
          then Inl (ValidationError ''policy'' ''The selected policy must match the existing credential policy.'')
          else if text_given (qr_private_key q) \<or> text_given (qr_passphrase q) \<or> qr_key_type q \<noteq> None
          then Inl (ValidationError ''source'' ''Existing keypairs cannot include new key material.'')
          else Inr ())"

definition validate_generated :: "openbao_settings \<Rightarrow> quick_request \<Rightarrow> exn + unit" where
  "validate_generated cfg q =
     (if qr_existing q \<noteq> None \<or> text_given (qr_private_key q) \<or> text_given (qr_passphrase q)
      then Inl (ValidationError ''source'' ''Generated keypairs cannot include supplied material.'')
      else if \<not> set_allow_generation cfg
      then Inl (ValidationError ''source'' ''Server-side SSH key generation is disabled.'')
      else Inr ())"

definition validate_provided :: "quick_request \<Rightarrow> exn + unit" where
  "validate_provided q =
     (if \<not> text_given (qr_private_key q) then Inl (ValidationError ''private_key'' ''A private key is required.'')
      else if qr_existing q \<noteq> None \<or> qr_key_type q \<noteq> None
      then Inl (ValidationError ''source'' ''Provided keypairs cannot select another key source.'')
      else Inr ())"

definition validate_keypair :: "openbao_settings \<Rightarrow> quick_request \<Rightarrow> exn + unit" where
  "validate_keypair cfg q =
     (case qr_source q of
        None \<Rightarrow> Inl (ValidationError ''source'' ''A keypair source is required.'')
      | Some src \<Rightarrow>
          if text_given (qr_password q)
          then Inl (ValidationError ''password'' ''Password is incompatible with keypair authentication.'')
          else (case src of
                  SourceExisting \<Rightarrow> validate_existing q
                | SourceGenerated \<Rightarrow> validate_generated cfg q
                | SourceProvided \<Rightarrow> validate_provided q))"

definition validate_quick_request :: "openbao_settings \<Rightarrow> quick_request \<Rightarrow> exn + unit" where
  "validate_quick_request cfg q = (if qr_auth_method q = ''password'' then validate_password q else validate_keypair cfg q)"

definition quick_add_target ::
  "openbao_settings \<Rightarrow> label_registry \<Rightarrow> (content_type \<Rightarrow> nat \<Rightarrow> quick_target option) \<Rightarrow> quick_request \<Rightarrow> exn + quick_target" where
  "quick_add_target cfg rg visible_target q =
     (let ct = qr_target_type q
      in if ct_label ct \<notin> set (assignable_model_labels cfg rg) \<or> ct_app_label ct \<notin> {''dcim'', ''virtualization''}
            \<or> ct_model ct \<notin> {''device'', ''virtualmachine''}
         then Inl (ValidationError ''target_type'' ''Only Device and VirtualMachine targets are supported.'')
         else case visible_target ct (qr_target_id q) of None \<Rightarrow> Inl not_found | Some t \<Rightarrow> Inr t)"

definition policy_ct :: content_type where
  "policy_ct = \<lparr>ct_app_label = ''netbox_openbao'', ct_model = ''credentialpolicy''\<rparr>"

definition constrain_quick_add :: "'x api_params \<Rightarrow> user \<Rightarrow> credential_policy \<Rightarrow> credential option \<Rightarrow> ('x, 'b, unit) prog" where
  "constrain_quick_add ap u pol existing =
     bnd (gets (\<lambda>s. row (policies (db s)) (pol_pk pol) \<noteq> None \<and> api_permits ap (ext s) (db s) u ''view'' policy_ct (pol_pk pol))) (\<lambda>ok.
     bnd (check ok (PermissionDenied ''The selected credential policy is not permitted.'')) (\<lambda>_.
     case Option.bind existing cr_pk of
       None \<Rightarrow> ret ()
     | Some k \<Rightarrow> bnd (gets (credential_selectable ap u ''view'' k)) (\<lambda>seen.
                 check seen (PermissionDenied ''The selected credential is not permitted.''))))"

definition quick_add_of :: "quick_request \<Rightarrow> quick_add" where
  "quick_add_of q =
     \<lparr>qa_username = qr_username q, qa_name = qr_name q,
      qa_existing = (if qr_source q = Some SourceExisting then qr_existing q else None),
      qa_private_key = (if qr_source q = Some SourceProvided then qr_private_key q else None),
      qa_passphrase = (if qr_source q = Some SourceProvided then qr_passphrase q else None),
      qa_password = (if qr_auth_method q = ''password'' then qr_password q else None),
      qa_auth_method = qr_auth_method q, qa_generate = (qr_source q = Some SourceGenerated), qa_key_type = qr_key_type q,
      qa_port = qr_port q, qa_template = qr_template q, qa_service_name = qr_service_name q,
      qa_ips = (case qr_ip_address q of None \<Rightarrow> [] | Some k \<Rightarrow> [k]),
      qa_new_ip = map_option strip (qr_new_ip_address q), qa_purpose = PURPOSE_LOGIN\<rparr>"

record quick_added =
  qd_credential_id :: "nat option"
  qd_credential_uuid :: string
  qd_credential_type :: string
  qd_public_key :: string
  qd_fingerprint :: string
  qd_key_type :: string
  qd_service_id :: nat
  qd_ip_address :: "(nat \<times> string) option"
  qd_assignment_ids :: "nat list"
  qd_target :: "content_type \<times> nat"

definition connection_ip :: "netbox_api \<Rightarrow> user \<Rightarrow> nat \<Rightarrow> ipam \<Rightarrow> (nat \<times> string) option" where
  "connection_ip na u k i =
     (case filter (\<lambda>(a, _). a \<in> set (case row (ip_services i) k of None \<Rightarrow> [] | Some v \<Rightarrow> sv_addresses v)
              \<and> na_permits na i u ''view'' ''ipaddress'' a) (ip_addresses i) of
        [(a, r)] \<Rightarrow> Some (a, ia_address r) | _ \<Rightarrow> None)"

definition quick_added_of ::
  "netbox_api \<Rightarrow> user \<Rightarrow> quick_request \<Rightarrow> quick_target \<Rightarrow> credential \<times> nat \<times> string \<times> ipam \<Rightarrow> database \<Rightarrow> quick_added" where
  "quick_added_of na u q t done d =
     (case done of (c, k, public, i) \<Rightarrow>
        \<lparr>qd_credential_id = cr_pk c, qd_credential_uuid = cr_uuid c, qd_credential_type = cr_credential_type c,
         qd_public_key = str_or (cr_public_key c) public, qd_fingerprint = cr_fingerprint c, qd_key_type = cr_key_type c,
         qd_service_id = k, qd_ip_address = connection_ip na u k i,
         qd_assignment_ids = map fst (filter (\<lambda>(_, a). asg_credential_id a = cr_pk c
            \<and> (asg_object_type a = Some (qr_target_type q) \<and> asg_object_id a = tg_pk t
               \<or> asg_object_type a = Some service_type \<and> asg_object_id a = k)) (assignments d)),
         qd_target = (tg_type t, tg_pk t)\<rparr>)"

definition quick_failure :: "exn \<Rightarrow> ('x, 'b, 'r answer) prog" where
  "quick_failure e =
     (if e = ObjectDoesNotExist then raise (PermissionDenied ''The created credential is outside the permitted scope.'')
      else case e of
        PermissionDenied m \<Rightarrow> raise (PermissionDenied (str_or m ''This action is not permitted.''))
      | OpenBaoExn x \<Rightarrow> if outcome_unknown e then raise e else ret (Refused 502 ''SSH access could not be added.'')
      | _ \<Rightarrow> raise e)"

definition quick_add_view ::
  "('x, 'b, 'c) env \<Rightarrow> 'x api_params \<Rightarrow> netbox_api \<Rightarrow> (ssh_key_type_choice \<Rightarrow> string \<times> string)
   \<Rightarrow> (content_type \<Rightarrow> nat \<Rightarrow> quick_target option) \<Rightarrow> user \<Rightarrow> http_request \<Rightarrow> credential \<Rightarrow> quick_request \<Rightarrow> ipam
   \<Rightarrow> ('x, 'b, (quick_added \<times> ipam) answer) prog" where
  "quick_add_view env ap na keypair visible_target u request blank q i =
     material_api_operation env
       (bnd (lift_sum (validate_quick_request (e_cfg env) q)) (\<lambda>_.
        bnd (lift_sum (quick_add_target (e_cfg env) (e_labels env) visible_target q)) (\<lambda>t.
        bnd (constrain_quick_add ap u (qr_policy q) (qr_existing q)) (\<lambda>_.
        bnd (on_exn (bnd (quick_add_ssh env na keypair (conform ap u ''add'') (Some u) (Some request) blank t (qr_policy q) (quick_add_of q) i)
                       (\<lambda>r. ret (Inl r)))
               (\<lambda>e. bnd (quick_failure e) (\<lambda>a. ret (Inr a)))) (\<lambda>r.
        case r of
          Inr refused \<Rightarrow> ret refused
        | Inl made \<Rightarrow> gets (\<lambda>s. Answer 201 (quick_added_of na u q t made (db s), snd (snd (snd made)))))))))"

section \<open>Properties of the service\<close>


lemma set_first_of_each [simp]: "set (first_of_each xs) = set xs"
  by (simp add: first_of_each_def)



















end
