(* ===== verification/Procedures.thy ===== *)
theory Procedures
  imports Credential_Views
begin

text \<open>
  Operations on the host of an engine, dispatched through \<^verbatim>\<open>netbox-rpc\<close> (\<^verbatim>\<open>rpc.py\<close>, \<open>run_procedure\<close> of \<^verbatim>\<open>api/views.py\<close> and its request
  check). That plugin's catalogue, its object permissions and the creation of an execution are parameters; the link of an engine
  to its host device and the rows of runs are arguments and results.
\<close>

record rpc_procedure =
  rp_pk :: nat
  rp_name :: string
  rp_approval_required :: bool

record rpc_request =
  rq_procedure :: nat
  rq_device :: nat
  rq_params :: payload

record rpc_api =
  ra_procedure :: "string \<Rightarrow> rpc_procedure option"
  ra_permits :: "user \<Rightarrow> string \<Rightarrow> nat \<Rightarrow> bool"
  ra_create :: "user \<Rightarrow> rpc_request \<Rightarrow> exn + nat"

record procedure_run =
  pr_engine :: nat
  pr_execution :: nat
  pr_procedure_name :: string
  pr_initiated_by :: nat

definition OPENBAO_READ_PROCEDURES :: "string list" where
  "OPENBAO_READ_PROCEDURES = map (\<lambda>n. ''service.openbao.1.'' @ n)
     [''inspect'', ''seal_status'', ''health'', ''policies_list'', ''auth_list'', ''secrets_list'', ''audit_list'', ''raft_list_peers'',
      ''raft_autopilot_state'', ''snapshots_list'']"

definition PROVISION_APPROLE :: string where
  "PROVISION_APPROLE = ''service.openbao.1.provision_netbox_approle''"

definition OPENBAO_WRITE_PROCEDURES :: "string list" where
  "OPENBAO_WRITE_PROCEDURES = [PROVISION_APPROLE]"

definition ENGINE_BOUND_PARAM_KEYS :: "string list" where
  "ENGINE_BOUND_PARAM_KEYS = [''mount'', ''role_name'', ''engine_slug'', ''path_prefix'']"

definition bound_keys_error :: "payload \<Rightarrow> exn" where
  "bound_keys_error overrides =
     ValidationError ''params'' (''The following parameters are derived from the selected engine and cannot be overridden: ''
       @ join_with '', '' (sort (filter (\<lambda>k. k \<in> set (map fst overrides)) ENGINE_BOUND_PARAM_KEYS)))"

definition overrides_bound :: "payload \<Rightarrow> bool" where
  "overrides_bound overrides = list_ex (\<lambda>k. k \<in> set (map fst overrides)) ENGINE_BOUND_PARAM_KEYS"

definition build_procedure_params :: "openbao_settings \<Rightarrow> secret_engine \<Rightarrow> string \<Rightarrow> payload \<Rightarrow> exn + payload" where
  "build_procedure_params cfg eng name overrides =
     (if overrides_bound overrides then Inl (bound_keys_error overrides)
      else if name \<in> set OPENBAO_READ_PROCEDURES then Inr overrides
      else if name = PROVISION_APPROLE
      then Inr [(''mount'', JStr (eng_kv_mount eng)), (''role_name'', JStr (''netbox-'' @ eng_slug eng)),
                (''engine_slug'', JStr (eng_slug eng)), (''path_prefix'', JStr (set_path_prefix cfg)),
                (''restart_netbox'', case dict_get overrides ''restart_netbox'' of None \<Rightarrow> JBool True | Some v \<Rightarrow> v)]
      else Inr overrides)"

definition require_rpc_permission :: "rpc_api \<Rightarrow> user \<Rightarrow> rpc_procedure \<Rightarrow> string \<Rightarrow> exn + unit" where
  "require_rpc_permission ra u p action =
     (if ra_permits ra u action (rp_pk p) then Inr ()
      else Inl (PermissionDenied (''netbox_rpc.'' @ action @ ''_rpcprocedure permission is required.'')))"

definition dispatch_openbao_procedure ::
  "openbao_settings \<Rightarrow> rpc_api \<Rightarrow> secret_engine \<Rightarrow> nat option \<Rightarrow> string \<Rightarrow> user \<Rightarrow> payload \<Rightarrow> exn + procedure_run" where
  "dispatch_openbao_procedure cfg ra eng host_device name u params =
     (case host_device of
        None \<Rightarrow> Inl (ValidationError ''host_device''
          ''An OpenBao host device must be configured before running RPC procedures.'')
      | Some device \<Rightarrow>
          if name \<notin> set (OPENBAO_READ_PROCEDURES @ OPENBAO_WRITE_PROCEDURES)
          then Inl (ValidationError ''procedure'' ''Procedure is not exposed by netbox-openbao.'')
          else case ra_procedure ra name of
            None \<Rightarrow> Inl (ValidationError ''procedure'' ''Procedure is not registered in netbox-rpc.'')
          | Some p \<Rightarrow>
              (case require_rpc_permission ra u p ''execute'' of
                 Inl e \<Rightarrow> Inl e
               | Inr _ \<Rightarrow>
                   (case (if rp_approval_required p then require_rpc_permission ra u p ''approve'' else Inr ()) of
                      Inl e \<Rightarrow> Inl e
                    | Inr _ \<Rightarrow>
                        (case build_procedure_params cfg eng name params of
                           Inl e \<Rightarrow> Inl e
                         | Inr payload \<Rightarrow>
                             (case ra_create ra u \<lparr>rq_procedure = rp_pk p, rq_device = device, rq_params = payload\<rparr> of
                                Inl e \<Rightarrow> Inl e
                              | Inr x \<Rightarrow> Inr \<lparr>pr_engine = eng_pk eng, pr_execution = x, pr_procedure_name = name,
                                              pr_initiated_by = usr_pk u\<rparr>)))))"

definition engine_ct :: content_type where
  "engine_ct = \<lparr>ct_app_label = ''netbox_openbao'', ct_model = ''secretengine''\<rparr>"

text \<open>The probe of an engine (\<open>SecretEngineViewSet.health\<close>) records what it saw, cut to the column, and answers it in full.\<close>

definition engine_health_view ::
  "('x, 'b, 'c) env \<Rightarrow> 'x api_params \<Rightarrow> user \<Rightarrow> nat \<Rightarrow> ('x, 'b, (string \<times> health_result) answer) prog" where
  "engine_health_view env ap u k =
     bnd (gets (\<lambda>s. api_permits ap (ext s) (db s) u ''view'' engine_ct k)) (\<lambda>ok.
     bnd (gets (\<lambda>s. row (engines (db s)) k)) (\<lambda>r.
     bnd (selected ok r) (\<lambda>eng.
     bnd (\<lambda>s. case get_backend (e_backend env) (auth_materials (db s)) eng None (ext s) of (b, x) \<Rightarrow> (Inr b, s\<lparr>ext := x\<rparr>)) (\<lambda>b.
     bnd (backend_call env (\<lambda>ctx. b_health (e_backend env) ctx b)) (\<lambda>h.
     bnd (modify (\<lambda>s. s\<lparr>db := set_engine_health k h (e_now env) (db s)\<rparr>)) (\<lambda>_.
     ret (Answer 200 (eng_slug eng, h))))))))"

definition validate_procedure_request :: "string \<Rightarrow> payload \<Rightarrow> exn + unit" where
  "validate_procedure_request name params =
     (if name \<notin> set (OPENBAO_READ_PROCEDURES @ OPENBAO_WRITE_PROCEDURES)
      then Inl (ValidationError ''procedure_name'' ''Not a valid choice.'')
      else if overrides_bound params then Inl (bound_keys_error params) else Inr ())"

definition run_procedure ::
  "('x, 'b, 'c) env \<Rightarrow> 'x api_params \<Rightarrow> rpc_api \<Rightarrow> (nat \<Rightarrow> nat option) \<Rightarrow> user \<Rightarrow> nat \<Rightarrow> string \<Rightarrow> payload \<Rightarrow> ('x, 'b, procedure_run answer) prog" where
  "run_procedure env ap ra host_device u k name params =
     bnd (gets (\<lambda>s. row (engines (db s)) k)) (\<lambda>r.
     bnd (get_or r not_found) (\<lambda>eng.
     bnd (gets (\<lambda>s. api_permits ap (ext s) (db s) u ''change'' engine_ct k)) (\<lambda>ok.
     bnd (check ok (PermissionDenied ''Change permission is required for this OpenBao engine.'')) (\<lambda>_.
     bnd (lift_sum (validate_procedure_request name params)) (\<lambda>_.
     bnd (lift_sum (dispatch_openbao_procedure (e_cfg env) ra eng (host_device k) name u params)) (\<lambda>run.
     ret (Answer 202 run)))))))"

lemma built_mount:
  assumes "build_procedure_params cfg eng name params = Inr payload" and "dict_get payload ''mount'' = Some j"
  shows "j = JStr (eng_kv_mount eng)"
proof -
  have "''mount'' \<notin> fst ` set params" using assms(1)
    by (auto simp: build_procedure_params_def overrides_bound_def ENGINE_BOUND_PARAM_KEYS_def split: if_splits)
  then have "map_of params ''mount'' = None" by (simp add: map_of_eq_None_iff)
  with assms show ?thesis by (auto simp: build_procedure_params_def dict_get_def split: if_splits)
qed

text \<open>An execution is created only for an exposed procedure, by a user who may execute it (and approve it, when it needs approval), on the
  device of the engine, and the parameters that select the engine are the engine's own.\<close>

lemma dispatched_is_permitted:
  assumes "dispatch_openbao_procedure cfg ra eng host_device name u params = Inr run"
  shows "\<exists>device p payload. host_device = Some device \<and> ra_procedure ra name = Some p \<and>
     name \<in> set (OPENBAO_READ_PROCEDURES @ OPENBAO_WRITE_PROCEDURES) \<and> ra_permits ra u ''execute'' (rp_pk p) \<and>
     (rp_approval_required p \<longrightarrow> ra_permits ra u ''approve'' (rp_pk p)) \<and>
     ra_create ra u \<lparr>rq_procedure = rp_pk p, rq_device = device, rq_params = payload\<rparr> = Inr (pr_execution run) \<and>
     (\<forall>j. dict_get payload ''mount'' = Some j \<longrightarrow> j = JStr (eng_kv_mount eng))"
proof -
  from assms obtain device p payload where "host_device = Some device" "ra_procedure ra name = Some p"
    "name \<in> set (OPENBAO_READ_PROCEDURES @ OPENBAO_WRITE_PROCEDURES)" "ra_permits ra u ''execute'' (rp_pk p)"
    "rp_approval_required p \<longrightarrow> ra_permits ra u ''approve'' (rp_pk p)" "build_procedure_params cfg eng name params = Inr payload"
    "ra_create ra u \<lparr>rq_procedure = rp_pk p, rq_device = device, rq_params = payload\<rparr> = Inr (pr_execution run)"
    unfolding dispatch_openbao_procedure_def require_rpc_permission_def by (auto split: option.splits if_splits sum.splits)
  with built_mount show ?thesis by blast
qed

end
