(* ===== verification/Admin_Base.thy ===== *)
theory Admin_Base
  imports Choices "HOL-Library.Product_Lexorder"
begin

text \<open>
  Vocabulary of the administration plane (\<^verbatim>\<open>administration/*.py\<close>): sums as the result of a check, with a
  sequential traversal that stops at the first error as a Python loop does; reading JSON objects with
  \<^verbatim>\<open>dict.get\<close>; and the regular expressions of the reviewed contracts as predicates on strings. Text is a
  list of 8-bit characters.
\<close>

section \<open>Checks\<close>

definition sbind :: "'err + 'v \<Rightarrow> ('v \<Rightarrow> 'err + 'r) \<Rightarrow> 'err + 'r" where
  "sbind checked rest = (case checked of Inr v \<Rightarrow> rest v | Inl err \<Rightarrow> Inl err)"

definition srequire :: "bool \<Rightarrow> 'e \<Rightarrow> 'e + unit" where
  "srequire c e = (if c then Inr () else Inl e)"

fun straverse :: "('v \<Rightarrow> 'err + 'r) \<Rightarrow> 'v list \<Rightarrow> 'err + 'r list" where
  "straverse f [] = Inr []"
| "straverse f (x # xs) = sbind (f x) (\<lambda>y. sbind (straverse f xs) (\<lambda>ys. Inr (y # ys)))"

lemma sbind_cong [fundef_cong]:
  "m = m' \<Longrightarrow> (\<And>x. m' = Inr x \<Longrightarrow> f x = f' x) \<Longrightarrow> sbind m f = sbind m' f'"
  by (cases m') (simp_all add: sbind_def)

lemma straverse_cong [fundef_cong]:
  "xs = ys \<Longrightarrow> (\<And>x. x \<in> set ys \<Longrightarrow> f x = g x) \<Longrightarrow> straverse f xs = straverse g ys"
  by (induction xs arbitrary: ys) (auto simp: sbind_def split: sum.splits)

lemma sbind_Inr: "sbind m f = Inr y \<longleftrightarrow> (\<exists>x. m = Inr x \<and> f x = Inr y)"
  by (cases m) (auto simp: sbind_def)

lemma srequire_Inr: "srequire c e = Inr u \<longleftrightarrow> c"
  by (simp add: srequire_def)

lemma straverse_Inr: "straverse f xs = Inr ys \<longleftrightarrow> list_all2 (\<lambda>x y. f x = Inr y) xs ys"
  by (induction xs arbitrary: ys) (auto simp: sbind_Inr list_all2_Cons1)

named_theorems check_simps \<open>successful checks\<close>

lemmas [check_simps] = sbind_Inr srequire_Inr straverse_Inr

section \<open>JSON\<close>

text \<open>\<open>d.get(k)\<close> and \<open>d.get(k, default)\<close>; \<open>x or y\<close>.\<close>

definition jget :: "payload \<Rightarrow> string \<Rightarrow> json" where
  "jget d k = (case dict_get d k of None \<Rightarrow> JNull | Some v \<Rightarrow> v)"

definition jget_or :: "payload \<Rightarrow> string \<Rightarrow> json \<Rightarrow> json" where
  "jget_or d k z = (case dict_get d k of None \<Rightarrow> z | Some v \<Rightarrow> v)"

definition jor :: "json \<Rightarrow> json \<Rightarrow> json" where
  "jor x y = (if truthy x then x else y)"

definition finite_float :: "string \<Rightarrow> bool" where
  "finite_float r = (r \<notin> {''nan'', ''inf'', ''-inf''})"

text \<open>A Python set or sorted collection of strings, as a sorted list.\<close>

definition sorted_set :: "string list \<Rightarrow> string list" where
  "sorted_set xs = sort (remdups xs)"

section \<open>Character classes\<close>

definition alpha :: "char \<Rightarrow> bool" where
  "alpha c = (let n = (of_char c :: nat) in 65 \<le> n \<and> n \<le> 90 \<or> 97 \<le> n \<and> n \<le> 122)"

definition digit :: "char \<Rightarrow> bool" where
  "digit c = (let n = (of_char c :: nat) in 48 \<le> n \<and> n \<le> 57)"

definition alnum :: "char \<Rightarrow> bool" where
  "alnum c = (alpha c \<or> digit c)"

definition hex_lower :: "char \<Rightarrow> bool" where
  "hex_lower c = (digit c \<or> c \<in> set ''abcdef'')"

definition hex_any :: "char \<Rightarrow> bool" where
  "hex_any c = (digit c \<or> c \<in> set ''abcdefABCDEF'')"

definition control :: "char \<Rightarrow> bool" where
  "control c = ((of_char c :: nat) < 32)"

text \<open>\<open>[F][R]{0,n}\<close> in full.\<close>

definition word_re :: "(char \<Rightarrow> bool) \<Rightarrow> (char \<Rightarrow> bool) \<Rightarrow> nat \<Rightarrow> string \<Rightarrow> bool" where
  "word_re first rest n s = (case s of [] \<Rightarrow> False | c # cs \<Rightarrow> first c \<and> list_all rest cs \<and> length cs \<le> n)"

definition one_of :: "(char \<Rightarrow> bool) \<Rightarrow> string \<Rightarrow> char \<Rightarrow> bool" where
  "one_of base extra c = (base c \<or> c \<in> set extra)"

definition uuid_re :: "(char \<Rightarrow> bool) \<Rightarrow> string \<Rightarrow> bool" where
  "uuid_re hex s =
     (let parts = split_on (CHR ''-'') s
      in map length parts = [8, 4, 4, 4, 12] \<and> list_all (list_all hex) parts)"

text \<open>\<open>text.replace(old, new)\<close> and with a count of one, for a non-empty \<open>old\<close>.\<close>

fun replace_all_fuel :: "nat \<Rightarrow> string \<Rightarrow> string \<Rightarrow> string \<Rightarrow> string" where
  "replace_all_fuel 0 old new s = s"
| "replace_all_fuel (Suc n) old new [] = []"
| "replace_all_fuel (Suc n) old new (c # cs) =
     (if prefix old (c # cs) then new @ replace_all_fuel n old new (drop (length old) (c # cs))
      else c # replace_all_fuel n old new cs)"

definition replace_all :: "string \<Rightarrow> string \<Rightarrow> string \<Rightarrow> string" where
  "replace_all old new s = replace_all_fuel (length s) old new s"

fun replace_first :: "string \<Rightarrow> string \<Rightarrow> string \<Rightarrow> string" where
  "replace_first old new [] = []"
| "replace_first old new (c # cs) =
     (if prefix old (c # cs) then new @ drop (length old) (c # cs) else c # replace_first old new cs)"

definition contains :: "string \<Rightarrow> string \<Rightarrow> bool" where
  "contains p s = list_ex (prefix p) (suffixes s)"

definition removesuffix :: "string \<Rightarrow> string \<Rightarrow> string" where
  "removesuffix p s = (if suffix p s then take (length s - length p) s else s)"

definition removeprefix :: "string \<Rightarrow> string \<Rightarrow> string" where
  "removeprefix p s = (if prefix p s then drop (length p) s else s)"

definition rstrip_of :: "char \<Rightarrow> string \<Rightarrow> string" where
  "rstrip_of c s = rev (dropWhile (\<lambda>x. x = c) (rev s))"

text \<open>\<open>urllib.parse.quote(s, safe)\<close>: letters, digits and \<open>_.-~\<close> stay, other bytes are percent-encoded.\<close>

definition hex_upper_digit :: "nat \<Rightarrow> char" where
  "hex_upper_digit n = ''0123456789ABCDEF'' ! n"

definition quote :: "string \<Rightarrow> string \<Rightarrow> string" where
  "quote safe s = concat (map (\<lambda>c. if one_of alnum (''_.-~'' @ safe) c then [c]
     else [CHR ''%'', hex_upper_digit (of_char c div 16), hex_upper_digit (of_char c mod 16)]) s)"

end
