(* ===== verification/Python_Net.thy ===== *)
theory Python_Net
  imports Admin_Base
begin

text \<open>
  The parts of Python's standard library that the program applies to untrusted text: \<^verbatim>\<open>base64\<close> in strict
  mode, \<^verbatim>\<open>int()\<close>, \<^verbatim>\<open>urllib.parse.urlsplit\<close> and \<^verbatim>\<open>parse_qs\<close>, and \<^verbatim>\<open>ipaddress.ip_address\<close>, as CPython 3.12
  implements them, on text of 8-bit characters.
\<close>

section \<open>Partitioning text\<close>

text \<open>\<open>s.partition(c)\<close> as (before, found, after), and \<open>s.rpartition(c)\<close>.\<close>

definition partition_at :: "char \<Rightarrow> string \<Rightarrow> string \<times> bool \<times> string" where
  "partition_at c s = (takeWhile (\<lambda>x. x \<noteq> c) s, c \<in> set s, drop 1 (dropWhile (\<lambda>x. x \<noteq> c) s))"

definition after_last :: "char \<Rightarrow> string \<Rightarrow> string" where
  "after_last c s = rev (takeWhile (\<lambda>x. x \<noteq> c) (rev s))"

definition before_last :: "char \<Rightarrow> string \<Rightarrow> string" where
  "before_last c s = rev (drop 1 (dropWhile (\<lambda>x. x \<noteq> c) (rev s)))"

text \<open>\<open>s.split(sep, 1)[0]\<close> for a non-empty separator.\<close>

fun before :: "string \<Rightarrow> string \<Rightarrow> string" where
  "before sep [] = []"
| "before sep (c # cs) = (if prefix sep (c # cs) then [] else c # before sep cs)"

section \<open>Base64\<close>

definition b64_value :: "char \<Rightarrow> nat option" where
  "b64_value c =
     (let n = of_char c in
      if 65 \<le> n \<and> n \<le> 90 then Some (n - 65) else if 97 \<le> n \<and> n \<le> 122 then Some (n - 71)
      else if 48 \<le> n \<and> n \<le> 57 then Some (n + 4) else if c = CHR ''+'' then Some 62
      else if c = CHR ''/'' then Some 63 else None)"

fun b64_groups :: "string \<Rightarrow> string option" where
  "b64_groups [] = Some []"
| "b64_groups (a # b # c # d # rest) =
     (case (b64_value a, b64_value b) of
        (Some x, Some y) \<Rightarrow>
          if c = CHR ''='' then (if d = CHR ''='' \<and> rest = [] then Some [char_of (x * 4 + y div 16)] else None)
          else (case b64_value c of
                  None \<Rightarrow> None
                | Some z \<Rightarrow>
                    if d = CHR ''=''
                    then (if rest = [] then Some [char_of (x * 4 + y div 16), char_of (y mod 16 * 16 + z div 4)] else None)
                    else (case (b64_value d, b64_groups rest) of
                            (Some w, Some out) \<Rightarrow>
                              Some ([char_of (x * 4 + y div 16), char_of (y mod 16 * 16 + z div 4), char_of (z mod 4 * 64 + w)] @ out)
                          | _ \<Rightarrow> None))
      | _ \<Rightarrow> None)"
| "b64_groups _ = None"

text \<open>\<open>base64.b64decode(s, validate=True)\<close>; \<open>None\<close> is the \<open>binascii.Error\<close>.\<close>

definition b64decode :: "string \<Rightarrow> string option" where
  "b64decode s = (if list_all (\<lambda>c. (of_char c :: nat) < 128) s then b64_groups s else None)"

section \<open>Integers\<close>

fun digits_value :: "nat \<Rightarrow> string \<Rightarrow> nat" where
  "digits_value acc [] = acc"
| "digits_value acc (c # cs) = digits_value (acc * 10 + (of_char c - 48)) cs"

text \<open>Digits, with single underscores between digits; at most 4300 digits.\<close>

definition int_literal :: "string \<Rightarrow> nat option" where
  "int_literal s =
     (let groups = split_on (CHR ''_'') s; ds = concat groups
      in if list_all (\<lambda>g. g \<noteq> [] \<and> list_all digit g) groups \<and> length ds \<le> 4300 then Some (digits_value 0 ds) else None)"

definition int_of_text :: "string \<Rightarrow> int option" where
  "int_of_text s =
     (case strip s of
        [] \<Rightarrow> None
      | c # cs \<Rightarrow> if c = CHR ''-'' then map_option (\<lambda>n. - int n) (int_literal cs)
                  else if c = CHR ''+'' then map_option int (int_literal cs)
                  else map_option int (int_literal (c # cs)))"

text \<open>The integral part of a float's \<open>repr\<close>: \<open>d.d\<close> or \<open>d.de+d\<close>, with a sign.\<close>

definition float_trunc :: "string \<Rightarrow> int" where
  "float_trunc r =
     (let (neg, body) = (case r of c # cs \<Rightarrow> if c = CHR ''-'' then (True, cs) else (False, r) | [] \<Rightarrow> (False, r));
          (mantissa, has_exp, ex) = partition_at (CHR ''e'') body;
          (whole, _, frac) = partition_at (CHR ''.'') mantissa;
          e = (if has_exp then (case int_of_text ex of Some n \<Rightarrow> n | None \<Rightarrow> 0) else 0);
          ds = whole @ frac;
          keep = int (length whole) + e;
          n = (if keep \<le> 0 then 0 else digits_value 0 (take (nat keep) (ds @ replicate (nat keep - length ds) (CHR ''0''))))
      in if neg then - int n else int n)"

definition py_int :: "json \<Rightarrow> exn + int" where
  "py_int j =
     (case j of
        JNum n \<Rightarrow> Inr n
      | JBool b \<Rightarrow> Inr (if b then 1 else 0)
      | JStr s \<Rightarrow> (case int_of_text s of Some n \<Rightarrow> Inr n | None \<Rightarrow> Inl (PythonError ''ValueError''))
      | JFloat r \<Rightarrow> if r = ''nan'' then Inl (PythonError ''ValueError'')
                    else if r \<in> {''inf'', ''-inf''} then Inl (PythonError ''OverflowError'') else Inr (float_trunc r)
      | _ \<Rightarrow> Inl (PythonError ''TypeError''))"

section \<open>IP addresses\<close>

datatype ip_address = IPv4 nat | IPv6 nat

definition ipv4_octet :: "string \<Rightarrow> nat option" where
  "ipv4_octet s =
     (if s = [] \<or> \<not> list_all digit s \<or> length s > 3 \<or> (s \<noteq> ''0'' \<and> hd s = CHR ''0'') then None
      else let n = digits_value 0 s in if n > 255 then None else Some n)"

definition parse_ipv4 :: "string \<Rightarrow> nat option" where
  "parse_ipv4 s =
     (case map ipv4_octet (split_on (CHR ''.'') s) of
        [Some a, Some b, Some c, Some d] \<Rightarrow> Some (((a * 256 + b) * 256 + c) * 256 + d)
      | _ \<Rightarrow> None)"

definition hex_value :: "char \<Rightarrow> nat" where
  "hex_value c =
     (let n = of_char c in if n \<le> 57 then n - 48 else if n \<le> 70 then n - 55 else n - 87)"

definition hextet :: "string \<Rightarrow> nat option" where
  "hextet s =
     (if s = [] \<or> length s > 4 \<or> \<not> list_all hex_any s then None
      else Some (foldl (\<lambda>acc c. acc * 16 + hex_value c) 0 s))"

definition hextets :: "string list \<Rightarrow> nat list option" where
  "hextets ps = (let hs = map hextet ps in if None \<in> set hs then None else Some (map the hs))"

text \<open>The groups of an address after its dotted tail, if any, has become two numbers.\<close>

definition ipv6_parts :: "string \<Rightarrow> (string list \<times> nat list) option" where
  "ipv6_parts s =
     (let parts = split_on (CHR '':'') s in
      if length parts < 3 then None
      else if CHR ''.'' \<in> set (last parts)
      then map_option (\<lambda>n. (butlast parts, [n div 65536, n mod 65536])) (parse_ipv4 (last parts))
      else Some (parts, []))"

definition from_hextets :: "nat list \<Rightarrow> nat" where
  "from_hextets hs = foldl (\<lambda>acc h. acc * 65536 + h) 0 hs"

text \<open>
  Expansion of \<open>::\<close>: \<open>empties\<close> are the inner groups with nothing in them. With a dotted tail the last group
  is never empty.
\<close>

definition ipv6_number :: "string \<Rightarrow> nat option" where
  "ipv6_number s =
     (case ipv6_parts s of
        None \<Rightarrow> None
      | Some (parts, tail) \<Rightarrow>
          (let n = length parts + length tail;
               empties = filter (\<lambda>i. i < length parts \<and> parts ! i = []) [1..<n - 1];
               first_empty = (parts \<noteq> [] \<and> hd parts = []);
               last_empty = (tail = [] \<and> parts \<noteq> [] \<and> last parts = [])
           in if n > 9 then None
              else case empties of
                [] \<Rightarrow> if n \<noteq> 8 \<or> first_empty \<or> last_empty then None
                      else map_option (\<lambda>hs. from_hextets (hs @ tail)) (hextets parts)
              | [i] \<Rightarrow>
                  (let hi = (if first_empty then i - 1 else i);
                       lo = (if last_empty then n - i - 2 else n - i - 1)
                   in if first_empty \<and> hi \<noteq> 0 \<or> last_empty \<and> lo \<noteq> 0 \<or> hi + lo > 7 then None
                      else case (hextets (take hi parts), hextets (if last_empty then [] else drop (Suc i) parts)) of
                        (Some hs, Some ls) \<Rightarrow> Some (from_hextets (hs @ replicate (8 - hi - lo) 0 @ ls @ tail))
                      | _ \<Rightarrow> None)
              | _ \<Rightarrow> None))"

definition parse_ipv6 :: "string \<Rightarrow> nat option" where
  "parse_ipv6 s =
     (if CHR ''/'' \<in> set s then None
      else let (addr, scoped, zone) = partition_at (CHR ''%'') s
           in if scoped \<and> (zone = [] \<or> CHR ''%'' \<in> set zone) then None else ipv6_number addr)"

text \<open>\<open>ipaddress.ip_address\<close>; \<open>None\<close> is its \<open>ValueError\<close>.\<close>

definition parse_ip :: "string \<Rightarrow> ip_address option" where
  "parse_ip s =
     (case parse_ipv4 s of Some n \<Rightarrow> Some (IPv4 n) | None \<Rightarrow> map_option IPv6 (parse_ipv6 s))"

definition is_loopback :: "string \<Rightarrow> bool option" where
  "is_loopback s =
     map_option (\<lambda>a. case a of IPv4 n \<Rightarrow> n div 16777216 = 127 | IPv6 n \<Rightarrow> n = 1) (parse_ip s)"

section \<open>URLs\<close>

text \<open>The parts the program reads; an absent user, password or host name is empty, as both are false.\<close>

record url_parts =
  url_scheme :: string
  url_netloc :: string
  url_path :: string
  url_query :: string
  url_fragment :: string

definition url_hostinfo :: "url_parts \<Rightarrow> string" where
  "url_hostinfo u = after_last (CHR ''@'') (url_netloc u)"

definition url_userinfo :: "url_parts \<Rightarrow> string" where
  "url_userinfo u = before_last (CHR ''@'') (url_netloc u)"

definition url_username :: "url_parts \<Rightarrow> string" where
  "url_username u = fst (partition_at (CHR '':'') (url_userinfo u))"

definition url_password :: "url_parts \<Rightarrow> string" where
  "url_password u = snd (snd (partition_at (CHR '':'') (url_userinfo u)))"

definition split_hostinfo :: "string \<Rightarrow> string \<times> string" where
  "split_hostinfo h =
     (case partition_at (CHR ''['') h of
        (_, True, bracketed) \<Rightarrow>
          (let (host, _, port) = partition_at (CHR '']'') bracketed
           in (host, snd (snd (partition_at (CHR '':'') port))))
      | (_, False, _) \<Rightarrow> (let (host, _, port) = partition_at (CHR '':'') h in (host, port)))"

definition url_hostname :: "url_parts \<Rightarrow> string" where
  "url_hostname u =
     (let (host, percent, zone) = partition_at (CHR ''%'') (fst (split_hostinfo (url_hostinfo u)))
      in lower host @ (if percent then CHR ''%'' # zone else []))"

text \<open>The port: \<open>None\<close> raises \<open>ValueError\<close>, \<open>Some None\<close> is no port.\<close>

definition url_port :: "url_parts \<Rightarrow> nat option option" where
  "url_port u =
     (let p = snd (split_hostinfo (url_hostinfo u)) in
      if p = [] then Some None
      else if list_all digit p \<and> length p \<le> 4300 \<and> digits_value 0 p \<le> 65535 then Some (Some (digits_value 0 p)) else None)"

text \<open>The host inside brackets: an address of version 6, or a future version \<open>v<hex>.<rest>\<close>.\<close>

definition bracketed_host_ok :: "string \<Rightarrow> bool" where
  "bracketed_host_ok h =
     (if prefix ''v'' h
      then (let (version, dot, rest) = partition_at (CHR ''.'') (drop 1 h)
            in dot \<and> version \<noteq> [] \<and> list_all hex_any version \<and> rest \<noteq> [] \<and> CHR 0x0A \<notin> set rest)
      else case parse_ip h of Some (IPv6 _) \<Rightarrow> True | _ \<Rightarrow> False)"

definition netloc_ok :: "string \<Rightarrow> bool" where
  "netloc_ok n =
     (let opened = CHR ''['' \<in> set n; closed = CHR '']'' \<in> set n in
      opened = closed
      \<and> (opened \<longrightarrow>
           (let h = after_last (CHR ''@'') n in
            case partition_at (CHR ''['') h of
              (pre, True, bracketed) \<Rightarrow>
                (let (host, _, port) = partition_at (CHR '']'') bracketed
                 in pre = [] \<and> (port = [] \<or> prefix '':'' port) \<and> bracketed_host_ok host)
            | (_, False, _) \<Rightarrow> bracketed_host_ok (fst (partition_at (CHR '':'') h)))))"

definition scheme_char :: "char \<Rightarrow> bool" where
  "scheme_char = one_of alnum ''+-.''"

definition split_scheme :: "string \<Rightarrow> string \<times> string" where
  "split_scheme s =
     (case partition_at (CHR '':'') s of
        (pre, colon, rest) \<Rightarrow>
          if colon \<and> pre \<noteq> [] \<and> alpha (hd pre) \<and> list_all scheme_char pre then (lower pre, rest) else ([], s))"

definition urlsplit :: "string \<Rightarrow> url_parts option" where
  "urlsplit url =
     (let clean = filter (\<lambda>c. c \<notin> {CHR 0x09, CHR 0x0A, CHR 0x0D}) (dropWhile (\<lambda>c. (of_char c :: nat) \<le> 32) url);
          (scheme, body) = split_scheme clean;
          (netloc, rest) =
            (if prefix ''//'' body
             then (takeWhile (\<lambda>c. c \<notin> set ''/?#'') (drop 2 body), dropWhile (\<lambda>c. c \<notin> set ''/?#'') (drop 2 body))
             else ([], body));
          (no_fragment, _, fragment) = partition_at (CHR ''#'') rest;
          (path, _, query) = partition_at (CHR ''?'') no_fragment
      in if netloc_ok netloc
         then Some \<lparr>url_scheme = scheme, url_netloc = netloc, url_path = path, url_query = query, url_fragment = fragment\<rparr>
         else None)"

section \<open>Query strings\<close>

fun unquote :: "string \<Rightarrow> string" where
  "unquote (p # a # b # rest) =
     (if p = CHR ''%'' \<and> hex_any a \<and> hex_any b then char_of (hex_value a * 16 + hex_value b) # unquote rest
      else p # unquote (a # b # rest))"
| "unquote s = s"

definition unquote_plus :: "string \<Rightarrow> string" where
  "unquote_plus s = unquote (map (\<lambda>c. if c = CHR ''+'' then CHR '' '' else c) s)"

text \<open>\<open>parse_qsl\<close> without strict parsing, blank values dropped.\<close>

definition parse_query :: "string \<Rightarrow> (string \<times> string) list" where
  "parse_query q =
     List.map_filter
       (\<lambda>field. case partition_at (CHR ''='') field of
          (k, eq, v) \<Rightarrow> if eq \<and> v \<noteq> [] then Some (unquote_plus k, unquote_plus v) else None)
       (split_on (CHR ''&'') q)"

end
