(* ===== verification/Admin_Auth.thy ===== *)
theory Admin_Auth
  imports Admin_Base Python_Net
begin

text \<open>
  The reviewed contracts of authentication administration (\<^verbatim>\<open>administration/authentication.py\<close>): the field
  tables, the validation of a request payload against them, and the bounding of every response. A field's
  kind is the string the code dispatches on.
\<close>

definition MAX_AUTH_MOUNTS :: nat where "MAX_AUTH_MOUNTS = 256"
definition MAX_AUTH_RESPONSE_DEPTH :: nat where "MAX_AUTH_RESPONSE_DEPTH = 8"
definition MAX_AUTH_RESPONSE_FIELDS :: nat where "MAX_AUTH_RESPONSE_FIELDS = 1000"
definition MAX_AUTH_STRING :: nat where "MAX_AUTH_STRING = 20000"
definition MAX_AUTH_LIST :: nat where "MAX_AUTH_LIST = 256"
definition MAX_AUTH_NAME :: nat where "MAX_AUTH_NAME = 200"
definition MAX_AUTH_URL :: nat where "MAX_AUTH_URL = 4096"

definition AUTH_METHOD_TYPES :: "string list" where
  "AUTH_METHOD_TYPES = [''token'', ''userpass'', ''approle'', ''kubernetes'', ''jwt'', ''oidc'', ''ldap'', ''cert'', ''radius'']"

definition MFA_METHOD_TYPES :: "string list" where
  "MFA_METHOD_TYPES = [''totp'', ''duo'', ''okta'', ''pingid'']"

definition MATERIAL_KEYS :: "string list" where
  "MATERIAL_KEYS =
     [''access_token'', ''api_token'', ''barcode'', ''bindpass'', ''client_token'', ''client_tls_key'', ''code'', ''id_token'',
      ''jwt'', ''oidc_client_secret'', ''password'', ''password_hash'', ''private_key'', ''refresh_token'', ''secret'',
      ''secret_id'', ''secret_key'', ''settings_file_base64'', ''token'', ''token_reviewer_jwt'']"

definition OAUTH2_MATERIAL_KEYS :: "string list" where
  "OAUTH2_MATERIAL_KEYS = [''access_token'', ''id_token'', ''refresh_token'']"

section \<open>Patterns\<close>

definition mount_path_re :: "string \<Rightarrow> bool" where
  "mount_path_re = word_re alnum (one_of alnum ''_.-'') 127"

definition resource_name_re :: "string \<Rightarrow> bool" where
  "resource_name_re = word_re alnum (one_of alnum ''_.@-'') 199"

definition safe_key_re :: "string \<Rightarrow> bool" where
  "safe_key_re = word_re alpha (one_of alnum ''_.:-'') 199"

definition safe_response_key_re :: "string \<Rightarrow> bool" where
  "safe_response_key_re = word_re alnum (one_of alnum ''_.:@/-'') 499"

definition role_id_re :: "string \<Rightarrow> bool" where
  "role_id_re = word_re alnum (one_of alnum ''_.:@-'') 999"

section \<open>Field rules\<close>

record field_rule =
  fr_kind :: string
  fr_required :: bool
  fr_maximum :: nat
  fr_choices :: "string list"
  fr_material :: bool

type_synonym field_rules = "(string \<times> field_rule) list"

definition mk_field_rule :: "string \<Rightarrow> bool \<Rightarrow> nat \<Rightarrow> string list \<Rightarrow> bool \<Rightarrow> field_rule" where
  "mk_field_rule kind required maximum choices material =
     \<lparr>fr_kind = kind, fr_required = required, fr_maximum = maximum, fr_choices = choices, fr_material = material\<rparr>"

definition text_rule :: "bool \<Rightarrow> nat \<Rightarrow> bool \<Rightarrow> field_rule" where
  "text_rule required maximum material = mk_field_rule ''text'' required maximum [] material"

definition choice_rule :: "string list \<Rightarrow> bool \<Rightarrow> field_rule" where
  "choice_rule values required = mk_field_rule ''choice'' required 100 values False"

record auth_resource_spec =
  ar_key :: string
  ar_method_types :: "string list"
  ar_collection_suffix :: string
  ar_item_suffix :: string
  ar_operations :: "string list"
  ar_rules :: field_rules
  ar_risk :: string

definition auth_resource ::
  "string \<Rightarrow> string list \<Rightarrow> string \<Rightarrow> string \<Rightarrow> string list \<Rightarrow> field_rules \<Rightarrow> string \<Rightarrow> auth_resource_spec" where
  "auth_resource key types collection item operations rules risk =
     \<lparr>ar_key = key, ar_method_types = types, ar_collection_suffix = collection, ar_item_suffix = item,
      ar_operations = operations, ar_rules = rules, ar_risk = risk\<rparr>"

text \<open>\<open>AuthResourceSpec.path\<close>; the suffix templates hold no placeholder but \<open>{name}\<close>.\<close>

definition auth_resource_path :: "auth_resource_spec \<Rightarrow> string \<Rightarrow> string \<Rightarrow> string" where
  "auth_resource_path spec mount name =
     rstrip_of (CHR ''/'') (''/auth/'' @ mount @ ''/''
       @ replace_all ''{name}'' name (if name \<noteq> [] then ar_item_suffix spec else ar_collection_suffix spec))"

section \<open>Field tables\<close>

definition BOOL :: field_rule where
  "BOOL = mk_field_rule ''boolean'' False 20000 [] False"

definition INTEGER :: field_rule where
  "INTEGER = mk_field_rule ''integer'' False 20000 [] False"

definition POSITIVE_INTEGER :: field_rule where
  "POSITIVE_INTEGER = mk_field_rule ''positive-integer'' False 20000 [] False"

definition STRICT_POSITIVE_INTEGER :: field_rule where
  "STRICT_POSITIVE_INTEGER = mk_field_rule ''strict-positive-integer'' False 20000 [] False"

definition TOTP_DIGITS :: field_rule where
  "TOTP_DIGITS = mk_field_rule ''totp-digits'' False 20000 [] False"

definition TOTP_SKEW :: field_rule where
  "TOTP_SKEW = mk_field_rule ''totp-skew'' False 20000 [] False"

definition STRING_LIST :: field_rule where
  "STRING_LIST = mk_field_rule ''string-list'' False 1000 [] False"

definition STRING_MAP :: field_rule where
  "STRING_MAP = mk_field_rule ''string-map'' False 2000 [] False"

definition JSON_MAP :: field_rule where
  "JSON_MAP = mk_field_rule ''json-map'' False 5000 [] False"

definition SECRET_TEXT :: field_rule where
  "SECRET_TEXT = text_rule False 20000 True"

definition BASE64_SECRET :: field_rule where
  "BASE64_SECRET = mk_field_rule ''base64-text'' True 20000 [] True"

definition TOKEN_FIELDS :: field_rules where
  "TOKEN_FIELDS =
     [(''token_bound_cidrs'', STRING_LIST), (''token_explicit_max_ttl'', POSITIVE_INTEGER),
      (''token_max_ttl'', POSITIVE_INTEGER), (''token_no_default_policy'', BOOL),
      (''token_num_uses'', POSITIVE_INTEGER), (''token_period'', POSITIVE_INTEGER),
      (''token_policies'', STRING_LIST), (''token_strictly_bind_ip'', BOOL), (''token_ttl'', POSITIVE_INTEGER),
      (''token_type'', choice_rule [''default-service'', ''service'', ''batch'', ''default-batch''] False)]"

definition CERT_CONFIG :: field_rules where
  "CERT_CONFIG =
     [(''disable_binding'', BOOL), (''enable_identity_alias_metadata'', BOOL), (''ocsp_cache_size'', POSITIVE_INTEGER)]"

definition JWT_CONFIG :: field_rules where
  "JWT_CONFIG =
     [(''bound_issuer'', text_rule False 1000 False), (''default_role'', text_rule False 200 False),
      (''jwks_ca_pem'', text_rule False 20000 False), (''jwks_url'', text_rule False 4096 False),
      (''jwt_supported_algs'', STRING_LIST), (''jwt_validation_pubkeys'', STRING_LIST),
      (''namespace_in_state'', BOOL), (''oidc_client_id'', text_rule False 1000 False),
      (''oidc_client_secret'', SECRET_TEXT), (''oidc_discovery_ca_pem'', text_rule False 20000 False),
      (''oidc_discovery_url'', text_rule False 4096 False),
      (''oidc_response_mode'', choice_rule [[], ''query'', ''form_post''] False),
      (''oidc_response_types'', STRING_LIST), (''override_allowed_server_names'', STRING_LIST),
      (''provider_config'', JSON_MAP), (''skip_jwks_validation'', BOOL)]"

definition KUBERNETES_CONFIG :: field_rules where
  "KUBERNETES_CONFIG =
     [(''disable_iss_validation'', BOOL), (''disable_local_ca_jwt'', BOOL), (''issuer'', text_rule False 2000 False),
      (''kubernetes_ca_cert'', text_rule False 20000 False), (''kubernetes_host'', text_rule False 4096 False),
      (''pem_keys'', STRING_LIST), (''token_reviewer_jwt'', SECRET_TEXT)]"

definition LDAP_CONFIG :: field_rules where
  "LDAP_CONFIG =
     [(''anonymous_group_search'', BOOL), (''binddn'', text_rule False 2000 False), (''bindpass'', SECRET_TEXT),
      (''case_sensitive_names'', BOOL), (''certificate'', text_rule False 20000 False),
      (''client_tls_cert'', text_rule False 20000 False), (''client_tls_key'', SECRET_TEXT),
      (''connection_timeout'', POSITIVE_INTEGER), (''deny_null_bind'', BOOL),
      (''dereference_aliases'', choice_rule [''never'', ''finding'', ''searching'', ''always''] False),
      (''discoverdn'', BOOL), (''groupattr'', text_rule False 500 False), (''groupdn'', text_rule False 2000 False),
      (''groupfilter'', text_rule False 4000 False), (''insecure_tls'', BOOL), (''max_page_size'', POSITIVE_INTEGER),
      (''request_timeout'', POSITIVE_INTEGER), (''starttls'', BOOL),
      (''tls_max_version'', choice_rule [''tls10'', ''tls11'', ''tls12'', ''tls13''] False),
      (''tls_min_version'', choice_rule [''tls10'', ''tls11'', ''tls12'', ''tls13''] False),
      (''upndomain'', text_rule False 1000 False), (''url'', text_rule False 4096 False),
      (''use_pre111_group_cn_behavior'', BOOL), (''use_token_groups'', BOOL),
      (''userattr'', text_rule False 500 False), (''userdn'', text_rule False 2000 False),
      (''userfilter'', text_rule False 4000 False), (''username_as_alias'', BOOL)] @ TOKEN_FIELDS"

definition RADIUS_CONFIG :: field_rules where
  "RADIUS_CONFIG =
     [(''host'', text_rule True 1000 False), (''port'', POSITIVE_INTEGER),
      (''secret'', mk_field_rule ''text'' True 20000 [] True),
      (''unregistered_user_policies'', text_rule False 2000 False), (''dial_timeout'', POSITIVE_INTEGER),
      (''read_timeout'', POSITIVE_INTEGER), (''nas_port'', POSITIVE_INTEGER),
      (''nas_identifier'', text_rule False 1000 False)] @ TOKEN_FIELDS"

definition AUTH_CONFIG_FIELDS :: "(string \<times> field_rules) list" where
  "AUTH_CONFIG_FIELDS =
     [(''cert'', CERT_CONFIG), (''jwt'', JWT_CONFIG), (''oidc'', JWT_CONFIG), (''kubernetes'', KUBERNETES_CONFIG),
      (''ldap'', LDAP_CONFIG), (''radius'', RADIUS_CONFIG)]"

definition USERPASS_FIELDS :: field_rules where
  "USERPASS_FIELDS =
     [(''password'', SECRET_TEXT), (''password_hash'', SECRET_TEXT), (''policies'', STRING_LIST),
      (''bound_cidrs'', STRING_LIST), (''max_ttl'', POSITIVE_INTEGER), (''ttl'', POSITIVE_INTEGER)] @ TOKEN_FIELDS"

definition APPROLE_FIELDS :: field_rules where
  "APPROLE_FIELDS =
     [(''bind_secret_id'', BOOL), (''bound_cidr_list'', STRING_LIST), (''local_secret_ids'', BOOL),
      (''period'', POSITIVE_INTEGER), (''policies'', STRING_LIST), (''secret_id_bound_cidrs'', STRING_LIST),
      (''secret_id_num_uses'', POSITIVE_INTEGER), (''secret_id_ttl'', POSITIVE_INTEGER)] @ TOKEN_FIELDS"

definition KUBERNETES_ROLE_FIELDS :: field_rules where
  "KUBERNETES_ROLE_FIELDS =
     [(''alias_name_source'', choice_rule [''serviceaccount_uid'', ''serviceaccount_name''] False),
      (''audience'', text_rule False 1000 False), (''bound_service_account_names'', STRING_LIST),
      (''bound_service_account_namespace_selector'', text_rule False 5000 False),
      (''bound_service_account_namespaces'', STRING_LIST), (''bound_cidrs'', STRING_LIST),
      (''max_ttl'', POSITIVE_INTEGER), (''num_uses'', POSITIVE_INTEGER), (''period'', POSITIVE_INTEGER),
      (''policies'', STRING_LIST), (''ttl'', POSITIVE_INTEGER)] @ TOKEN_FIELDS"

definition JWT_ROLE_FIELDS :: field_rules where
  "JWT_ROLE_FIELDS =
     [(''allowed_redirect_uris'', STRING_LIST), (''bound_audiences'', STRING_LIST), (''bound_claims'', JSON_MAP),
      (''bound_claims_type'', choice_rule [''string'', ''glob''] False),
      (''bound_subject'', text_rule False 2000 False),
      (''callback_mode'', choice_rule [''client'', ''direct'', ''device''] False), (''claim_mappings'', STRING_MAP),
      (''clock_skew_leeway'', INTEGER), (''expiration_leeway'', INTEGER),
      (''groups_claim'', text_rule False 1000 False), (''max_age'', POSITIVE_INTEGER),
      (''not_before_leeway'', INTEGER), (''oauth2_metadata'', STRING_LIST), (''oidc_scopes'', STRING_LIST),
      (''poll_interval'', POSITIVE_INTEGER), (''role_type'', choice_rule [''jwt'', ''oidc''] True),
      (''token_policies_template_claims'', BOOL), (''user_claim'', text_rule True 1000 False),
      (''user_claim_json_pointer'', BOOL), (''bound_cidrs'', STRING_LIST), (''max_ttl'', POSITIVE_INTEGER),
      (''num_uses'', POSITIVE_INTEGER), (''period'', POSITIVE_INTEGER), (''policies'', STRING_LIST),
      (''ttl'', POSITIVE_INTEGER)] @ TOKEN_FIELDS"

definition TOKEN_ROLE_FIELDS :: field_rules where
  "TOKEN_ROLE_FIELDS =
     [(''allowed_entity_aliases'', STRING_LIST), (''allowed_policies'', STRING_LIST),
      (''allowed_policies_glob'', STRING_LIST), (''bound_cidrs'', STRING_LIST),
      (''disallowed_policies'', STRING_LIST), (''disallowed_policies_glob'', STRING_LIST),
      (''explicit_max_ttl'', POSITIVE_INTEGER), (''orphan'', BOOL), (''path_suffix'', text_rule False 1000 False),
      (''period'', POSITIVE_INTEGER), (''renewable'', BOOL)] @ TOKEN_FIELDS"

definition CERT_FIELDS :: field_rules where
  "CERT_FIELDS =
     [(''allowed_common_names'', STRING_LIST), (''allowed_dns_sans'', STRING_LIST),
      (''allowed_email_sans'', STRING_LIST), (''allowed_metadata_extensions'', STRING_LIST),
      (''allowed_names'', STRING_LIST), (''allowed_organizational_units'', STRING_LIST),
      (''allowed_uri_sans'', STRING_LIST), (''bound_cidrs'', STRING_LIST),
      (''certificate'', text_rule False 20000 False), (''display_name'', text_rule False 500 False),
      (''lease'', POSITIVE_INTEGER), (''max_ttl'', POSITIVE_INTEGER),
      (''ocsp_ca_certificates'', text_rule False 20000 False), (''ocsp_enabled'', BOOL), (''ocsp_fail_open'', BOOL),
      (''ocsp_query_all_servers'', BOOL), (''ocsp_servers_override'', STRING_LIST), (''period'', POSITIVE_INTEGER),
      (''policies'', STRING_LIST), (''required_extensions'', STRING_LIST), (''ttl'', POSITIVE_INTEGER)] @ TOKEN_FIELDS"

definition AUTH_RESOURCE_REGISTRY :: "(string \<times> auth_resource_spec) list" where
  "AUTH_RESOURCE_REGISTRY =
     [(''token-roles'', auth_resource ''token-roles'' [''token''] ''roles'' ''roles/{name}'' [''list'', ''read'', ''write'', ''delete'']
         (TOKEN_ROLE_FIELDS) ''write''),
      (''userpass-users'', auth_resource ''userpass-users'' [''userpass''] ''users'' ''users/{name}'' [''list'', ''read'', ''write'', ''delete'']
         (USERPASS_FIELDS) ''sensitive''),
      (''approle-roles'', auth_resource ''approle-roles'' [''approle''] ''role'' ''role/{name}'' [''list'', ''read'', ''write'', ''delete'']
         (APPROLE_FIELDS) ''write''),
      (''kubernetes-roles'', auth_resource ''kubernetes-roles'' [''kubernetes''] ''role'' ''role/{name}'' [''list'', ''read'', ''write'', ''delete'']
         (KUBERNETES_ROLE_FIELDS) ''write''),
      (''jwt-roles'', auth_resource ''jwt-roles'' [''jwt'', ''oidc''] ''role'' ''role/{name}'' [''list'', ''read'', ''write'', ''delete'']
         (JWT_ROLE_FIELDS) ''sensitive''),
      (''ldap-groups'', auth_resource ''ldap-groups'' [''ldap''] ''groups'' ''groups/{name}'' [''list'', ''read'', ''write'', ''delete'']
         ([(''policies'', STRING_LIST)]) ''write''),
      (''ldap-users'', auth_resource ''ldap-users'' [''ldap''] ''users'' ''users/{name}'' [''list'', ''read'', ''write'', ''delete'']
         ([(''groups'', STRING_LIST), (''policies'', STRING_LIST)]) ''write''),
      (''radius-users'', auth_resource ''radius-users'' [''radius''] ''users'' ''users/{name}'' [''list'', ''read'', ''write'', ''delete'']
         ([(''policies'', STRING_LIST)]) ''sensitive''),
      (''certificates'', auth_resource ''certificates'' [''cert''] ''certs'' ''certs/{name}'' [''list'', ''read'', ''write'', ''delete'']
         (CERT_FIELDS) ''sensitive''),
      (''certificate-crls'', auth_resource ''certificate-crls'' [''cert''] ''crls'' ''crls/{name}'' [''list'', ''read'', ''write'', ''delete'']
         ([(''crl'', text_rule False 20000 False), (''url'', text_rule False 4096 False)]) ''sensitive'')]"

definition MFA_TOTP_FIELDS :: field_rules where
  "MFA_TOTP_FIELDS =
     [(''algorithm'', choice_rule [''SHA1'', ''SHA256'', ''SHA512''] False), (''digits'', TOTP_DIGITS),
      (''issuer'', text_rule True 1000 False), (''key_size'', STRICT_POSITIVE_INTEGER),
      (''max_validation_attempts'', POSITIVE_INTEGER), (''method_name'', text_rule False 200 False),
      (''period'', STRICT_POSITIVE_INTEGER), (''qr_size'', POSITIVE_INTEGER), (''skew'', TOTP_SKEW)]"

definition MFA_DUO_FIELDS :: field_rules where
  "MFA_DUO_FIELDS =
     [(''api_hostname'', text_rule True 4096 False), (''integration_key'', text_rule True 1000 False),
      (''method_name'', text_rule False 200 False), (''push_info'', text_rule False 2000 False),
      (''secret_key'', mk_field_rule ''text'' True 20000 [] True), (''use_passcode'', BOOL),
      (''username_format'', text_rule False 2000 False)]"

definition MFA_OKTA_FIELDS :: field_rules where
  "MFA_OKTA_FIELDS =
     [(''api_token'', mk_field_rule ''text'' True 20000 [] True), (''base_url'', text_rule False 4096 False),
      (''method_name'', text_rule False 200 False), (''org_name'', text_rule True 1000 False),
      (''primary_email'', BOOL), (''production'', BOOL), (''username_format'', text_rule False 2000 False)]"

definition MFA_PINGID_FIELDS :: field_rules where
  "MFA_PINGID_FIELDS =
     [(''method_name'', text_rule False 200 False), (''settings_file_base64'', BASE64_SECRET),
      (''username_format'', text_rule False 2000 False)]"

definition MFA_METHOD_FIELDS :: "(string \<times> field_rules) list" where
  "MFA_METHOD_FIELDS =
     [(''totp'', MFA_TOTP_FIELDS), (''duo'', MFA_DUO_FIELDS), (''okta'', MFA_OKTA_FIELDS),
      (''pingid'', MFA_PINGID_FIELDS)]"

definition MFA_ENFORCEMENT_FIELDS :: field_rules where
  "MFA_ENFORCEMENT_FIELDS =
     [(''auth_method_accessors'', STRING_LIST), (''auth_method_types'', STRING_LIST),
      (''identity_entity_ids'', STRING_LIST), (''identity_group_ids'', STRING_LIST),
      (''mfa_method_ids'', mk_field_rule ''string-list'' True 1000 [] False)]"

section \<open>Results\<close>

record auth_mount =
  amt_path :: string
  amt_method_type :: string
  amt_accessor :: string
  amt_description :: string
  amt_local :: bool
  amt_seal_wrap :: bool
  amt_default_lease_ttl :: int
  amt_max_lease_ttl :: int
  amt_token_type :: string
  amt_plugin_version :: string
  amt_running_plugin_version :: string

record mfa_method_choice =
  mfa_method_id :: string
  mfa_method_type :: string
  mfa_uses_passcode :: bool

record mfa_requirement =
  mfa_request_id :: string
  mfa_constraints :: "(string \<times> mfa_method_choice list) list"

record authentication_result =
  res_client_token :: string
  res_accessor :: string
  res_policies :: "string list"
  res_identity_policies :: "string list"
  res_metadata :: "(string \<times> string) list"
  res_material_metadata :: "(string \<times> string) list"
  res_lease_duration :: int
  res_renewable :: bool
  res_entity_id :: string
  res_token_type :: string
  res_mfa_requirement :: "mfa_requirement option"

record oidc_start_result =
  oidc_auth_url :: string
  oidc_state :: string
  oidc_poll_interval :: int

record secret_id_result =
  sid_secret_id :: string
  sid_accessor :: string
  sid_ttl :: int
  sid_num_uses :: int

record totp_setup_result =
  totp_url :: string
  totp_barcode :: string

section \<open>Identifiers and scalars\<close>

definition auth_error :: "string \<Rightarrow> exn" where
  "auth_error m = CapabilitySchemaError (''OpenBao '' @ m)"

definition field_invalid :: exn where
  "field_invalid = auth_error ''authentication field is invalid.''"

definition normalize_mount_path :: "json \<Rightarrow> exn + string" where
  "normalize_mount_path v =
     (case v of
        JStr s \<Rightarrow>
          (let path = removesuffix ''/'' (strip s)
           in if prefix ''auth/'' path \<or> \<not> mount_path_re path then Inl (auth_error ''auth mount path is invalid.'') else Inr path)
      | _ \<Rightarrow> Inl (auth_error ''auth mount path is invalid.''))"

definition normalize_resource_name :: "json \<Rightarrow> bool \<Rightarrow> exn + string" where
  "normalize_resource_name v uuid_only =
     (case v of
        JStr s \<Rightarrow> if (if uuid_only then uuid_re hex_any s else resource_name_re s) then Inr s
                 else Inl (auth_error ''auth resource name is invalid.'')
      | _ \<Rightarrow> Inl (auth_error ''auth resource name is invalid.''))"

definition normalize_role_id :: "json \<Rightarrow> exn + string" where
  "normalize_role_id v =
     (case v of
        JStr s \<Rightarrow> if role_id_re s then Inr s else Inl (auth_error ''AppRole RoleID is invalid.'')
      | _ \<Rightarrow> Inl (auth_error ''AppRole RoleID is invalid.''))"

definition forbidden_control :: "char \<Rightarrow> bool" where
  "forbidden_control c = (control c \<and> c \<notin> {CHR 0x0A, CHR 0x0D, CHR 0x09})"

definition bounded_text :: "json \<Rightarrow> nat \<Rightarrow> bool \<Rightarrow> exn + string" where
  "bounded_text v maximum blank =
     (case v of
        JStr s \<Rightarrow> if length s > maximum \<or> list_ex forbidden_control s \<or> (\<not> blank \<and> s = [])
                 then Inl (auth_error ''authentication value is invalid.'') else Inr s
      | _ \<Rightarrow> Inl (auth_error ''authentication value is invalid.''))"

section \<open>Validation of request payloads\<close>

definition json_text :: "nat \<Rightarrow> bool \<Rightarrow> json \<Rightarrow> exn + json" where
  "json_text maximum blank v = sbind (bounded_text v maximum blank) (\<lambda>s. Inr (JStr s))"

definition validate_string_list :: "json \<Rightarrow> field_rule \<Rightarrow> exn + json" where
  "validate_string_list v r =
     (case v of
        JArr xs \<Rightarrow> if length xs > MAX_AUTH_LIST then Inl field_invalid
                  else sbind (straverse (json_text (fr_maximum r) True) xs) (\<lambda>ys. Inr (JArr ys))
      | _ \<Rightarrow> Inl field_invalid)"

definition validate_string_map :: "json \<Rightarrow> field_rule \<Rightarrow> exn + json" where
  "validate_string_map v r =
     (case v of
        JObj kvs \<Rightarrow>
          if length kvs > MAX_AUTH_LIST then Inl field_invalid
          else sbind (straverse (\<lambda>(k, x). if \<not> safe_key_re k then Inl field_invalid
                        else sbind (json_text (fr_maximum r) True x) (\<lambda>y. Inr (k, y))) kvs) (\<lambda>ys. Inr (JObj ys))
      | _ \<Rightarrow> Inl field_invalid)"

definition validate_json_scalar :: "json \<Rightarrow> exn + json" where
  "validate_json_scalar v =
     (case v of
        JStr _ \<Rightarrow> json_text 5000 True v
      | JNull \<Rightarrow> Inr v | JBool _ \<Rightarrow> Inr v | JNum _ \<Rightarrow> Inr v
      | _ \<Rightarrow> Inl field_invalid)"

function validate_json_value :: "json \<Rightarrow> nat \<Rightarrow> exn + json" where
  "validate_json_value v depth =
     (if depth > 4 then Inl (auth_error ''authentication field is nested too deeply.'')
      else case v of
        JObj kvs \<Rightarrow>
          if length kvs > MAX_AUTH_LIST then Inl field_invalid
          else sbind (straverse (\<lambda>kx. if \<not> safe_key_re (fst kx) then Inl field_invalid
                        else sbind (validate_json_value (snd kx) (Suc depth)) (\<lambda>y. Inr (fst kx, y))) kvs) (\<lambda>ys. Inr (JObj ys))
      | JArr xs \<Rightarrow>
          if length xs > MAX_AUTH_LIST then Inl field_invalid
          else sbind (straverse (\<lambda>x. validate_json_value x (Suc depth)) xs) (\<lambda>ys. Inr (JArr ys))
      | _ \<Rightarrow> validate_json_scalar v)"
  by pat_completeness auto
termination
  by (relation "measure (\<lambda>(_, depth). 5 - depth)") auto

declare validate_json_value.simps [simp del]

definition validate_text_field :: "json \<Rightarrow> field_rule \<Rightarrow> exn + json" where
  "validate_text_field v r =
     sbind (bounded_text v (fr_maximum r) (\<not> fr_required r)) (\<lambda>s.
     if fr_choices r \<noteq> [] \<and> s \<notin> set (fr_choices r) then Inl field_invalid else Inr (JStr s))"

definition validate_boolean_field :: "json \<Rightarrow> exn + json" where
  "validate_boolean_field v = (case v of JBool _ \<Rightarrow> Inr v | _ \<Rightarrow> Inl field_invalid)"

definition validate_base64_text_field :: "json \<Rightarrow> field_rule \<Rightarrow> exn + json" where
  "validate_base64_text_field v r =
     sbind (validate_text_field v r) (\<lambda>j.
     case j of JStr s \<Rightarrow> if b64decode s = None then Inl field_invalid else Inr j | _ \<Rightarrow> Inl field_invalid)"

definition validate_integer_field :: "json \<Rightarrow> field_rule \<Rightarrow> exn + json" where
  "validate_integer_field v r =
     (case v of
        JNum n \<Rightarrow>
          (let minimum = (if fr_kind r = ''strict-positive-integer'' then 1
                          else if fr_kind r = ''positive-integer'' then 0 else - (2 ^ 31))
           in if n < minimum \<or> n > 2 ^ 31 - 1 then Inl field_invalid
              else if fr_kind r = ''totp-digits'' \<and> n \<notin> {6, 8} then Inl field_invalid
              else if fr_kind r = ''totp-skew'' \<and> n \<notin> {0, 1} then Inl field_invalid
              else Inr v)
      | _ \<Rightarrow> Inl field_invalid)"

definition validate_json_map_field :: "json \<Rightarrow> exn + json" where
  "validate_json_map_field v = (case v of JObj _ \<Rightarrow> validate_json_value v 0 | _ \<Rightarrow> Inl field_invalid)"

definition validate_field :: "json \<Rightarrow> field_rule \<Rightarrow> exn + json" where
  "validate_field v r =
     (if fr_kind r \<in> {''text'', ''choice''} then validate_text_field v r
      else if fr_kind r = ''boolean'' then validate_boolean_field v
      else if fr_kind r = ''base64-text'' then validate_base64_text_field v r
      else if fr_kind r \<in> {''integer'', ''positive-integer'', ''strict-positive-integer'', ''totp-digits'', ''totp-skew''}
      then validate_integer_field v r
      else if fr_kind r = ''string-list'' then validate_string_list v r
      else if fr_kind r = ''string-map'' then validate_string_map v r
      else if fr_kind r = ''json-map'' then validate_json_map_field v
      else Inl field_invalid)"

text \<open>The keys a payload may and must have.\<close>

definition missing_fields :: "payload \<Rightarrow> field_rules \<Rightarrow> string list" where
  "missing_fields p rules = map fst (filter (\<lambda>(n, r). fr_required r \<and> dict_get p n = None) rules)"

definition unknown_fields :: "payload \<Rightarrow> field_rules \<Rightarrow> string list" where
  "unknown_fields p rules = filter (\<lambda>k. map_of rules k = None) (map fst p)"

definition validate_reviewed_payload :: "json \<Rightarrow> field_rules \<Rightarrow> exn + payload" where
  "validate_reviewed_payload v rules =
     (case v of
        JObj p \<Rightarrow>
          if length p > length rules then Inl (auth_error ''authentication payload is invalid.'')
          else if unknown_fields p rules \<noteq> [] \<or> missing_fields p rules \<noteq> []
          then Inl (auth_error ''authentication payload contains unsupported fields.'')
          else straverse (\<lambda>(k, x). case map_of rules k of
                 None \<Rightarrow> Inl (PythonError ''KeyError'')
               | Some r \<Rightarrow> sbind (validate_field x r) (\<lambda>y. Inr (k, y))) p
      | _ \<Rightarrow> Inl (auth_error ''authentication payload is invalid.''))"

definition resource_spec :: "json \<Rightarrow> string \<Rightarrow> string \<Rightarrow> exn + auth_resource_spec" where
  "resource_spec key method_type operation =
     (case key of
        JStr k \<Rightarrow>
          (case map_of AUTH_RESOURCE_REGISTRY k of
             None \<Rightarrow> Inl (auth_error ''auth resource is unsupported.'')
           | Some spec \<Rightarrow>
               if method_type \<notin> set (ar_method_types spec) \<or> operation \<notin> set (ar_operations spec)
               then Inl (auth_error ''auth resource operation is unsupported.'') else Inr spec)
      | _ \<Rightarrow> Inl (auth_error ''auth resource is unsupported.''))"

definition validate_auth_resource_payload :: "json \<Rightarrow> string \<Rightarrow> string \<Rightarrow> json \<Rightarrow> exn + payload" where
  "validate_auth_resource_payload key method_type operation v =
     sbind (resource_spec key method_type operation) (\<lambda>spec.
     sbind (validate_reviewed_payload v (ar_rules spec)) (\<lambda>result.
     if key \<noteq> JStr ''jwt-roles'' \<or> operation \<noteq> ''write'' then Inr result
     else if jget result ''callback_mode'' \<in> {JStr ''client'', JStr ''device''}
     then Inl (CapabilitySchemaError ''NetBox supports only direct OIDC callback mode.'')
     else if jget result ''role_type'' = JStr ''oidc'' \<and> jget result ''callback_mode'' \<noteq> JStr ''direct''
     then Inl (CapabilitySchemaError ''OIDC roles managed through NetBox must use direct callback mode.'')
     else Inr (AList.update ''verbose_oidc_logging'' (JBool False) (AList.update ''oidc_disable_confirmation'' (JBool False) result))))"

section \<open>Bounding responses\<close>

definition returned :: "string \<Rightarrow> exn" where
  "returned m = auth_error (''returned '' @ m @ ''.'')"

definition response_data :: "json \<Rightarrow> exn + payload" where
  "response_data v =
     (case v of
        JObj p \<Rightarrow> (case jget_or p ''data'' v of JObj d \<Rightarrow> Inr d | _ \<Rightarrow> Inl (returned ''an invalid authentication response''))
      | _ \<Rightarrow> Inl (returned ''an invalid authentication response''))"

definition response_boolean :: "json \<Rightarrow> string \<Rightarrow> exn + bool" where
  "response_boolean v f = (case v of JBool b \<Rightarrow> Inr b | _ \<Rightarrow> Inl (returned (''invalid '' @ f)))"

definition response_integer :: "json \<Rightarrow> string \<Rightarrow> exn + int" where
  "response_integer v f =
     (case v of JNum n \<Rightarrow> if 0 \<le> n \<and> n \<le> 2 ^ 63 - 1 then Inr n else Inl (returned (''invalid '' @ f))
      | _ \<Rightarrow> Inl (returned (''invalid '' @ f)))"

definition string_tuple :: "json \<Rightarrow> string \<Rightarrow> exn + string list" where
  "string_tuple v f =
     (case v of
        JNull \<Rightarrow> Inr []
      | JArr xs \<Rightarrow> if length xs > MAX_AUTH_LIST then Inl (returned (''invalid '' @ f))
                  else straverse (\<lambda>x. bounded_text x 1000 True) xs
      | _ \<Rightarrow> Inl (returned (''invalid '' @ f)))"

text \<open>One mount: \<open>None\<close> when its type is not a reviewed one.\<close>

definition normalize_auth_mount :: "string \<times> json \<Rightarrow> exn + auth_mount option" where
  "normalize_auth_mount kv =
     sbind (normalize_mount_path (JStr (fst kv))) (\<lambda>path.
     case snd kv of
       JObj m \<Rightarrow>
         sbind (bounded_text (jget m ''type'') 100 False) (\<lambda>raw.
         let ty = removeprefix ''ns_'' raw in
         if ty \<notin> set AUTH_METHOD_TYPES then Inr None
         else case jor (jget m ''config'') (JObj []) of
           JObj cfg \<Rightarrow>
             sbind (bounded_text (jget_or m ''accessor'' (JStr [])) 200 True) (\<lambda>accessor.
             sbind (bounded_text (jget_or m ''description'' (JStr [])) 1000 True) (\<lambda>description.
             sbind (response_boolean (jget_or m ''local'' (JBool False)) ''auth mount local state'') (\<lambda>local.
             sbind (response_boolean (jget_or m ''seal_wrap'' (JBool False)) ''auth mount seal-wrap state'') (\<lambda>seal_wrap.
             sbind (response_integer (jget_or cfg ''default_lease_ttl'' (JNum 0)) ''auth mount default TTL'') (\<lambda>default_ttl.
             sbind (response_integer (jget_or cfg ''max_lease_ttl'' (JNum 0)) ''auth mount maximum TTL'') (\<lambda>max_ttl.
             sbind (bounded_text (jget_or cfg ''token_type'' (JStr [])) 100 True) (\<lambda>token_type.
             sbind (bounded_text (jget_or m ''plugin_version'' (JStr [])) 100 True) (\<lambda>version.
             sbind (bounded_text (jget_or m ''running_plugin_version'' (JStr [])) 100 True) (\<lambda>running.
             Inr (Some \<lparr>amt_path = path, amt_method_type = ty, amt_accessor = accessor, amt_description = description,
                        amt_local = local, amt_seal_wrap = seal_wrap, amt_default_lease_ttl = default_ttl,
                        amt_max_lease_ttl = max_ttl, amt_token_type = token_type, amt_plugin_version = version,
                        amt_running_plugin_version = running\<rparr>))))))))))
         | _ \<Rightarrow> Inl (returned ''an invalid auth mount''))
     | _ \<Rightarrow> Inl (returned ''an invalid auth mount''))"

definition normalize_auth_mounts :: "json \<Rightarrow> exn + auth_mount list" where
  "normalize_auth_mounts v =
     sbind (response_data v) (\<lambda>d.
     if length d > MAX_AUTH_MOUNTS then Inl (returned ''too many auth mounts'')
     else sbind (straverse normalize_auth_mount d) (\<lambda>ms. Inr (sort_key amt_path (List.map_filter id ms))))"

definition select_auth_mount :: "auth_mount list \<Rightarrow> json \<Rightarrow> exn + auth_mount" where
  "select_auth_mount mounts path =
     sbind (normalize_mount_path path) (\<lambda>p.
     case List.find (\<lambda>m. amt_path m = p) mounts of
       None \<Rightarrow> Inl (auth_error ''auth mount does not exist.'') | Some m \<Rightarrow> Inr m)"

definition bad_metadata :: exn where
  "bad_metadata = returned ''invalid authentication metadata''"

definition normalize_metadata :: "json \<Rightarrow> exn + (string \<times> string) list" where
  "normalize_metadata v =
     (case v of
        JNull \<Rightarrow> Inr []
      | JObj kvs \<Rightarrow>
          if length kvs > MAX_AUTH_LIST then Inl bad_metadata
          else straverse (\<lambda>(k, x). if \<not> safe_key_re k then Inl bad_metadata
                 else sbind (bounded_text x 2000 True) (\<lambda>s. Inr (k, s))) (filter (\<lambda>(k, _). k \<notin> set MATERIAL_KEYS) kvs)
      | _ \<Rightarrow> Inl bad_metadata)"

definition normalize_material_metadata :: "json \<Rightarrow> exn + (string \<times> string) list" where
  "normalize_material_metadata v =
     (case v of
        JNull \<Rightarrow> Inr []
      | JObj kvs \<Rightarrow>
          if length kvs > MAX_AUTH_LIST then Inl bad_metadata
          else straverse (\<lambda>k. sbind (bounded_text (jget kvs k) MAX_AUTH_STRING True) (\<lambda>s. Inr (k, s)))
                 (filter (\<lambda>k. dict_get kvs k \<noteq> None) OAUTH2_MATERIAL_KEYS)
      | _ \<Rightarrow> Inl bad_metadata)"

definition bad_constraints :: exn where
  "bad_constraints = returned ''invalid MFA constraints''"

definition normalize_mfa_method :: "json \<Rightarrow> exn + mfa_method_choice" where
  "normalize_mfa_method v =
     (case v of
        JObj m \<Rightarrow>
          sbind (bounded_text (jget m ''type'') 32 False) (\<lambda>ty.
          if ty \<notin> set MFA_METHOD_TYPES then Inl (returned ''an unsupported MFA method'')
          else sbind (normalize_resource_name (jget m ''id'') True) (\<lambda>i.
               sbind (response_boolean (jget m ''uses_passcode'') ''MFA passcode state'') (\<lambda>p.
               Inr \<lparr>mfa_method_id = i, mfa_method_type = ty, mfa_uses_passcode = p\<rparr>)))
      | _ \<Rightarrow> Inl bad_constraints)"

definition normalize_mfa_constraint :: "string \<times> json \<Rightarrow> exn + (string \<times> mfa_method_choice list)" where
  "normalize_mfa_constraint kv =
     sbind (bounded_text (JStr (fst kv)) MAX_AUTH_NAME False) (\<lambda>n.
     case snd kv of
       JObj c \<Rightarrow>
         (case jget c ''any'' of
            JArr ms \<Rightarrow> if ms = [] \<or> length ms > 16 then Inl bad_constraints
                      else sbind (straverse normalize_mfa_method ms) (\<lambda>xs. Inr (n, xs))
          | _ \<Rightarrow> Inl bad_constraints)
     | _ \<Rightarrow> Inl bad_constraints)"

definition normalize_mfa_requirement :: "json \<Rightarrow> exn + mfa_requirement" where
  "normalize_mfa_requirement v =
     (case v of
        JObj r \<Rightarrow>
          sbind (bounded_text (jget r ''mfa_request_id'') 1000 False) (\<lambda>i.
          case jget r ''mfa_constraints'' of
            JObj cs \<Rightarrow> if cs = [] \<or> length cs > 32 then Inl bad_constraints
                      else sbind (straverse normalize_mfa_constraint cs) (\<lambda>xs. Inr \<lparr>mfa_request_id = i, mfa_constraints = xs\<rparr>)
          | _ \<Rightarrow> Inl bad_constraints)
      | _ \<Rightarrow> Inl (returned ''an invalid MFA requirement''))"

definition normalize_authentication_result :: "json \<Rightarrow> exn + authentication_result" where
  "normalize_authentication_result v =
     (case v of
        JObj p \<Rightarrow>
          (case jget p ''auth'' of
             JObj a \<Rightarrow>
               sbind (if jget a ''mfa_requirement'' = JNull then Inr None
                      else sbind (normalize_mfa_requirement (jget a ''mfa_requirement'')) (\<lambda>r. Inr (Some r))) (\<lambda>requirement.
               sbind (bounded_text (jget_or a ''client_token'' (JStr [])) MAX_AUTH_STRING True) (\<lambda>token.
               sbind (srequire (token \<noteq> [] \<or> requirement \<noteq> None)
                        (auth_error ''authentication returned neither a token nor an MFA challenge.'')) (\<lambda>_.
               sbind (bounded_text (jget_or a ''accessor'' (JStr [])) 1000 True) (\<lambda>accessor.
               sbind (string_tuple (jget a ''policies'') ''token policies'') (\<lambda>policies.
               sbind (string_tuple (jget a ''identity_policies'') ''identity policies'') (\<lambda>identity_policies.
               sbind (normalize_metadata (jget a ''metadata'')) (\<lambda>metadata.
               sbind (normalize_material_metadata (jget a ''metadata'')) (\<lambda>material.
               sbind (response_integer (jget_or a ''lease_duration'' (JNum 0)) ''token lease duration'') (\<lambda>lease.
               sbind (response_boolean (jget_or a ''renewable'' (JBool False)) ''token renewable state'') (\<lambda>renewable.
               sbind (bounded_text (jget_or a ''entity_id'' (JStr [])) 1000 True) (\<lambda>entity.
               sbind (bounded_text (jget_or a ''token_type'' (JStr [])) 100 True) (\<lambda>token_type.
               Inr \<lparr>res_client_token = token, res_accessor = accessor, res_policies = policies,
                    res_identity_policies = identity_policies, res_metadata = metadata, res_material_metadata = material,
                    res_lease_duration = lease, res_renewable = renewable, res_entity_id = entity,
                    res_token_type = token_type, res_mfa_requirement = requirement\<rparr>))))))))))))
           | _ \<Rightarrow> Inl (returned ''an invalid authentication response''))
      | _ \<Rightarrow> Inl (returned ''an invalid authentication response''))"

definition safe_response_scalar :: "json \<Rightarrow> exn + json" where
  "safe_response_scalar v =
     (case v of
        JStr _ \<Rightarrow> json_text MAX_AUTH_STRING True v
      | JNull \<Rightarrow> Inr v | JBool _ \<Rightarrow> Inr v | JNum _ \<Rightarrow> Inr v
      | _ \<Rightarrow> Inl (auth_error ''authentication response contains an unsupported value.''))"

text \<open>Material-shaped fields are dropped; every key is checked, also of a dropped field.\<close>

function safe_response_value :: "json \<Rightarrow> nat \<Rightarrow> exn + json" where
  "safe_response_value v depth =
     (if depth > MAX_AUTH_RESPONSE_DEPTH then Inl (auth_error ''authentication response is nested too deeply.'')
      else case v of
        JObj kvs \<Rightarrow>
          if length kvs > MAX_AUTH_RESPONSE_FIELDS then Inl (auth_error ''authentication response has too many fields.'')
          else sbind (straverse (\<lambda>kx. if \<not> safe_response_key_re (fst kx)
                        then Inl (auth_error ''authentication response has an invalid field.'')
                        else if lower (fst kx) \<in> set MATERIAL_KEYS then Inr None
                        else sbind (safe_response_value (snd kx) (Suc depth)) (\<lambda>y. Inr (Some (fst kx, y)))) kvs)
                 (\<lambda>ys. Inr (JObj (List.map_filter id ys)))
      | JArr xs \<Rightarrow>
          if length xs > MAX_AUTH_LIST then Inl (auth_error ''authentication response has too many items.'')
          else sbind (straverse (\<lambda>x. safe_response_value x (Suc depth)) xs) (\<lambda>ys. Inr (JArr ys))
      | _ \<Rightarrow> safe_response_scalar v)"
  by pat_completeness auto
termination
  by (relation "measure (\<lambda>(_, depth). Suc MAX_AUTH_RESPONSE_DEPTH - depth)") auto

declare safe_response_value.simps [simp del]

definition normalize_public_auth_data :: "json \<Rightarrow> exn + json" where
  "normalize_public_auth_data v = sbind (response_data v) (\<lambda>d. safe_response_value (JObj d) 0)"

definition validate_direct_oidc_role :: "json \<Rightarrow> exn + json" where
  "validate_direct_oidc_role v =
     sbind (response_data v) (\<lambda>d.
     if jget d ''role_type'' \<noteq> JStr ''oidc'' \<or> jget d ''callback_mode'' \<noteq> JStr ''direct''
     then Inl (CapabilitySchemaError ''The selected role is not configured for direct OIDC callback mode.'')
     else if jget d ''oidc_disable_confirmation'' = JBool True \<or> jget d ''verbose_oidc_logging'' = JBool True
     then Inl (CapabilitySchemaError ''The selected OIDC role enables a setting forbidden by NetBox.'')
     else normalize_public_auth_data v)"

definition validate_authorization_url :: "string \<Rightarrow> string \<Rightarrow> exn + unit" where
  "validate_authorization_url url expected_state =
     (case urlsplit url of
        None \<Rightarrow> Inl (returned ''an invalid OIDC authorization URL'')
      | Some u \<Rightarrow>
          if url_username u \<noteq> [] \<or> url_password u \<noteq> [] \<or> url_fragment u \<noteq> [] \<or> url_hostname u = []
          then Inl (returned ''an invalid OIDC authorization URL'')
          else if url_scheme u = ''http''
                  \<and> \<not> (case is_loopback (url_hostname u) of Some b \<Rightarrow> b | None \<Rightarrow> url_hostname u = ''localhost'')
          then Inl (returned ''an insecure OIDC authorization URL'')
          else if url_scheme u \<notin> {''http'', ''https''} then Inl (returned ''an insecure OIDC authorization URL'')
          else case map snd (filter (\<lambda>(k, _). k = ''state'') (parse_query (url_query u))) of
            [st] \<Rightarrow> if before '',ns='' st \<noteq> expected_state then Inl (returned ''a mismatched OIDC state'') else Inr ()
          | _ \<Rightarrow> Inl (returned ''a mismatched OIDC state''))"

definition normalize_oidc_start :: "json \<Rightarrow> exn + oidc_start_result" where
  "normalize_oidc_start v =
     sbind (response_data v) (\<lambda>d.
     sbind (bounded_text (jget d ''auth_url'') MAX_AUTH_URL False) (\<lambda>url.
     sbind (bounded_text (jget d ''state'') 1000 False) (\<lambda>state.
     sbind (case py_int (jget_or d ''poll_interval'' (JNum 5)) of
              Inl e \<Rightarrow> Inl (if e \<in> {PythonError ''TypeError'', PythonError ''ValueError''}
                           then returned ''an invalid OIDC poll interval'' else e)
            | Inr n \<Rightarrow> Inr n) (\<lambda>interval.
     if \<not> (1 \<le> interval \<and> interval \<le> 60) then Inl (returned ''an invalid OIDC poll interval'')
     else sbind (validate_authorization_url url state) (\<lambda>_.
          Inr \<lparr>oidc_auth_url = url, oidc_state = state, oidc_poll_interval = interval\<rparr>)))))"

definition normalize_secret_id_result :: "json \<Rightarrow> exn + secret_id_result" where
  "normalize_secret_id_result v =
     sbind (response_data v) (\<lambda>d.
     sbind (bounded_text (jget d ''secret_id'') MAX_AUTH_STRING False) (\<lambda>secret.
     sbind (bounded_text (jget d ''secret_id_accessor'') 1000 False) (\<lambda>accessor.
     sbind (response_integer (jget_or d ''secret_id_ttl'' (JNum 0)) ''SecretID TTL'') (\<lambda>ttl.
     sbind (response_integer (jget_or d ''secret_id_num_uses'' (JNum 0)) ''SecretID use count'') (\<lambda>uses.
     Inr \<lparr>sid_secret_id = secret, sid_accessor = accessor, sid_ttl = ttl, sid_num_uses = uses\<rparr>)))))"

definition png_magic :: string where
  "png_magic = [CHR 0x89, CHR ''P'', CHR ''N'', CHR ''G'', CHR 0x0D, CHR 0x0A, CHR 0x1A, CHR 0x0A]"

definition normalize_totp_setup_result :: "json \<Rightarrow> exn + totp_setup_result" where
  "normalize_totp_setup_result v =
     sbind (response_data v) (\<lambda>d.
     sbind (bounded_text (jget d ''barcode'') 2000000 False) (\<lambda>barcode.
     sbind (case b64decode barcode of
              None \<Rightarrow> Inl (returned ''an invalid TOTP barcode'')
            | Some b \<Rightarrow> srequire (prefix png_magic b) (returned ''an invalid TOTP barcode'')) (\<lambda>_.
     sbind (bounded_text (jget d ''url'') MAX_AUTH_STRING False) (\<lambda>url.
     Inr \<lparr>totp_url = url, totp_barcode = barcode\<rparr>))))"

end
