(* ===== verification/Admin_Schema.thy ===== *)
theory Admin_Schema
  imports Admin_Base
begin

text \<open>
  Bounding and normalising a runtime OpenAPI document (\<^verbatim>\<open>administration/schema.py\<close>). The canonical encoding
  (\<^verbatim>\<open>json.dumps\<close> with sorted keys; \<open>None\<close> when it raises) and SHA-256 are the parameters \<open>dumps\<close> and \<open>sha\<close>.
\<close>

definition MAX_DOCUMENT_BYTES :: nat where "MAX_DOCUMENT_BYTES = 2000000"
definition MAX_DOCUMENT_DEPTH :: nat where "MAX_DOCUMENT_DEPTH = 30"
definition MAX_PATHS :: nat where "MAX_PATHS = 2000"
definition MAX_OPERATIONS :: nat where "MAX_OPERATIONS = 5000"
definition MAX_STRING_LENGTH :: nat where "MAX_STRING_LENGTH = 20000"

definition ALLOWED_METHODS :: "string list" where
  "ALLOWED_METHODS = [''delete'', ''get'', ''list'', ''patch'', ''post'', ''put'']"

definition doc_error :: "string \<Rightarrow> exn" where
  "doc_error m = CapabilitySchemaError (''OpenBao capability '' @ m)"

record discovered_operation =
  op_id :: string
  op_method :: string
  op_path_template :: string
  op_summary :: string
  op_tags :: "string list"
  op_family :: string
  op_risk_level :: string
  op_response_class :: string
  op_required_permission :: string
  op_classified :: bool
  op_executable :: bool
  op_mount_parameter :: string
  op_query_parameters :: "string list"
  op_required_query_parameters :: "string list"
  op_path_parameters :: "string list"
  op_required_path_parameters :: "string list"
  op_path_parameter_types :: "(string \<times> string) list"
  op_body_fields :: "string list"
  op_required_body_fields :: "string list"
  op_query_parameter_types :: "(string \<times> string) list"
  op_body_field_types :: "(string \<times> string) list"

definition operation_key :: "discovered_operation \<Rightarrow> string" where
  "operation_key p =
     str_or (op_mount_parameter p) ''global'' @ '' :: '' @ op_id p @ '' :: '' @ op_method p @ '' '' @ op_path_template p"

record capability_document =
  cd_openapi_version :: string
  cd_product_version :: string
  cd_digest :: string
  cd_operations :: "discovered_operation list"

definition classified_count :: "capability_document \<Rightarrow> nat" where
  "classified_count d = length (filter op_classified (cd_operations d))"

definition unclassified_count :: "capability_document \<Rightarrow> nat" where
  "unclassified_count d = length (cd_operations d) - classified_count d"

section \<open>Bounds\<close>

definition safe_string :: "json \<Rightarrow> string \<Rightarrow> nat \<Rightarrow> exn + string" where
  "safe_string v f maximum =
     (case v of
        JStr s \<Rightarrow> if length s > maximum \<or> list_ex control s then Inl (doc_error (''document has an invalid '' @ f @ ''.'')) else Inr s
      | _ \<Rightarrow> Inl (doc_error (''document has an invalid '' @ f @ ''.'')))"

definition validate_scalar :: "json \<Rightarrow> exn + unit" where
  "validate_scalar v =
     (case v of
        JStr s \<Rightarrow> srequire (length s \<le> MAX_STRING_LENGTH \<and> CHR 0x00 \<notin> set s) (doc_error ''document has an invalid string.'')
      | JFloat r \<Rightarrow> srequire (finite_float r) (doc_error ''document contains an unsupported value.'')
      | _ \<Rightarrow> Inr ())"

function validate_shape :: "json \<Rightarrow> nat \<Rightarrow> exn + unit" where
  "validate_shape v depth =
     (if depth > MAX_DOCUMENT_DEPTH then Inl (doc_error ''document is nested too deeply.'')
      else case v of
        JObj kvs \<Rightarrow>
          if length kvs > MAX_OPERATIONS then Inl (doc_error ''document contains too many fields.'')
          else sbind (straverse (\<lambda>kv. sbind (safe_string (JStr (fst kv)) ''object key'' 500)
                        (\<lambda>_. validate_shape (snd kv) (Suc depth))) kvs) (\<lambda>_. Inr ())
      | JArr vs \<Rightarrow>
          if length vs > MAX_OPERATIONS then Inl (doc_error ''document contains too many list items.'')
          else sbind (straverse (\<lambda>x. validate_shape x (Suc depth)) vs) (\<lambda>_. Inr ())
      | _ \<Rightarrow> validate_scalar v)"
  by pat_completeness auto
termination
  by (relation "measure (\<lambda>(_, depth). Suc MAX_DOCUMENT_DEPTH - depth)") auto

declare validate_shape.simps [simp del]

definition canonical_bytes :: "(json \<Rightarrow> string option) \<Rightarrow> json \<Rightarrow> exn + string" where
  "canonical_bytes dumps doc =
     (case dumps doc of
        None \<Rightarrow> Inl (doc_error ''document is not valid JSON data.'')
      | Some b \<Rightarrow> if length b > MAX_DOCUMENT_BYTES then Inl (doc_error ''document is too large.'') else Inr b)"

section \<open>Paths and classification\<close>

definition identifier_char :: "char \<Rightarrow> bool" where
  "identifier_char c = one_of alnum ''_'' c"

text \<open>\<open>re.match(r'^/\{([A-Za-z][A-Za-z0-9_]*)\}', path)\<close>: the whole match and the name.\<close>

definition first_placeholder :: "string \<Rightarrow> (string \<times> string) option" where
  "first_placeholder s =
     (if prefix ''/{'' s then
        (let n = takeWhile identifier_char (drop 2 s)
         in if n \<noteq> [] \<and> alpha (hd n) \<and> prefix ''}'' (drop (2 + length n) s) then Some (''/{'' @ n @ ''}'', n) else None)
      else None)"

definition mount_placeholder :: "string \<Rightarrow> (string \<times> string) option" where
  "mount_placeholder s =
     (case first_placeholder s of
        None \<Rightarrow> None | Some (w, n) \<Rightarrow> if suffix ''_mount_path'' n then Some (w, n) else None)"

definition normalize_path :: "string \<Rightarrow> exn + string" where
  "normalize_path raw =
     sbind (safe_string (JStr raw) ''path template'' 500) (\<lambda>p0.
     let p = (if prefix ''/v1/'' p0 then drop 3 p0 else p0)
     in sbind (srequire
          (prefix ''/'' p \<and> list_all (one_of alnum ''_.*{}~:/+^$-'') (drop 1 p) \<and> \<not> contains ''//'' p
           \<and> CHR 0x5C \<notin> set p \<and> \<not> contains ''/./'' (p @ ''/'') \<and> \<not> contains ''/../'' (p @ ''/'') \<and> \<not> prefix ''//'' p)
          (doc_error ''document contains an unsafe path template.'')) (\<lambda>_.
        Inr (case mount_placeholder p of
               None \<Rightarrow> p | Some (w, _) \<Rightarrow> replace_first w ''/{secret_mount_path}'' p)))"

definition family_rules :: "(string \<times> string list) list" where
  "family_rules =
     [(''cluster'', [''/sys/health'', ''/sys/init'', ''/sys/seal'', ''/sys/unseal'', ''/sys/leader'', ''/sys/ha-status'']),
      (''storage'', [''/sys/storage/raft'']),
      (''authentication'', [''/sys/auth'', ''/auth'']),
      (''mfa'', [''/identity/mfa'', ''/sys/mfa'']),
      (''policies'', [''/sys/policies'', ''/sys/policy'']),
      (''identity'', [''/identity/entity'', ''/identity/group'']),
      (''oidc'', [''/identity/oidc'']),
      (''namespaces'', [''/sys/namespaces'']),
      (''leases'', [''/sys/leases'']),
      (''tools'', [''/sys/wrapping'', ''/sys/tools'']),
      (''ui-configuration'', [''/sys/config/ui'']),
      (''api-explorer'', [''/sys/internal/specs/openapi'']),
      (''secret-engine-lifecycle'', [''/sys/mounts'', ''/sys/remount''])]"

definition family_for :: "string \<Rightarrow> string list \<Rightarrow> string" where
  "family_for path tags =
     (case List.find (\<lambda>(_, ps). list_ex (\<lambda>p. path = p \<or> prefix (p @ ''/'') path) ps) family_rules of
        Some (family, _) \<Rightarrow> family
      | None \<Rightarrow>
          if ''secrets'' \<in> set (map lower tags) \<or> ''secret'' \<in> set (map lower tags)
             \<or> prefix ''/{secret_mount_path}/'' path \<or> (prefix ''/{'' path \<and> suffix ''/^.*$'' path)
          then ''mounted-secrets'' else ''unclassified'')"

definition risk_for :: "string \<Rightarrow> string \<Rightarrow> string" where
  "risk_for meth path =
     (if meth = ''delete'' \<or> list_ex (\<lambda>t. contains t path)
           [''destroy'', ''/delete/'', ''force-revoke'', ''revoke-force'', ''restore'', ''/seal'', ''remove-peer'']
      then ''destructive'' else if meth \<in> {''get'', ''list''} then ''read'' else ''write'')"

definition permission_for :: "string \<Rightarrow> string" where
  "permission_for risk =
     (if risk = ''destructive'' then ''netbox_openbao.operate_destructive_openbaocluster''
      else if risk = ''write'' then ''netbox_openbao.operate_openbaocluster''
      else ''netbox_openbao.discover_openbaocluster'')"

section \<open>Document metadata\<close>

text \<open>\<open>3\.[0-9]+(\.[0-9]+)?([-+][A-Za-z0-9.-]+)?\<close> in full.\<close>

definition version_suffix_ok :: "string \<Rightarrow> bool" where
  "version_suffix_ok s =
     (case s of [] \<Rightarrow> True | c # cs \<Rightarrow> c \<in> {CHR ''-'', CHR ''+''} \<and> cs \<noteq> [] \<and> list_all (one_of alnum ''.-'') cs)"

definition openapi_version_re :: "string \<Rightarrow> bool" where
  "openapi_version_re s =
     (prefix ''3.'' s \<and>
      (let minor = takeWhile digit (drop 2 s); r = drop (2 + length minor) s
       in minor \<noteq> [] \<and>
          (version_suffix_ok r \<or>
           (prefix ''.'' r \<and> (let patch = takeWhile digit (drop 1 r)
                              in patch \<noteq> [] \<and> version_suffix_ok (drop (1 + length patch) r))))))"

definition document_metadata :: "payload \<Rightarrow> exn + (string \<times> string \<times> payload \<times> payload)" where
  "document_metadata d =
     sbind (safe_string (jget_or d ''openapi'' (JStr [])) ''OpenAPI version'' 32) (\<lambda>version.
     sbind (srequire (openapi_version_re version) (doc_error ''document uses an unsupported OpenAPI version.'')) (\<lambda>_.
     sbind (case jor (jget d ''info'') (JObj []) of
              JObj info \<Rightarrow> safe_string (jget_or info ''version'' (JStr [])) ''product version'' 64
            | _ \<Rightarrow> Inl (doc_error ''document has invalid product metadata.'')) (\<lambda>product.
     sbind (case jget d ''paths'' of JObj ps \<Rightarrow> Inr ps | _ \<Rightarrow> Inl (doc_error ''document has no paths object.'')) (\<lambda>paths.
     sbind (srequire (length paths \<le> MAX_PATHS) (doc_error ''document contains too many paths.'')) (\<lambda>_.
     sbind (case jor (jget d ''components'') (JObj []) of
              JObj cs \<Rightarrow> (case jget_or cs ''schemas'' (JObj []) of
                            JObj ss \<Rightarrow> Inr ss | _ \<Rightarrow> Inl (doc_error ''document has invalid component metadata.''))
            | _ \<Rightarrow> Inl (doc_error ''document has invalid component metadata.'')) (\<lambda>schemas.
     Inr (version, product, paths, schemas)))))))"

definition operation_tags :: "payload \<Rightarrow> exn + string list" where
  "operation_tags operation =
     (case jor (jget operation ''tags'') (JArr []) of
        JArr ts \<Rightarrow>
          if length ts > 20 then Inl (doc_error ''operation has invalid tags.'')
          else sbind (straverse (\<lambda>t. safe_string t ''operation tag'' 100) ts) (\<lambda>xs. Inr (sorted_set xs))
      | _ \<Rightarrow> Inl (doc_error ''operation has invalid tags.''))"

text \<open>A membership test of an unhashable value raises \<^verbatim>\<open>TypeError\<close>.\<close>

definition declared_type :: "json \<Rightarrow> exn + string" where
  "declared_type schema =
     (case schema of
        JObj s \<Rightarrow>
          (case jget_or s ''type'' (JStr ''json'') of
             JStr t \<Rightarrow> Inr (if t \<in> {''array'', ''boolean'', ''integer'', ''number'', ''object'', ''string'', ''json''} then t else ''json'')
           | JArr _ \<Rightarrow> Inl (PythonError ''TypeError'')
           | JObj _ \<Rightarrow> Inl (PythonError ''TypeError'')
           | _ \<Rightarrow> Inr ''json'')
      | _ \<Rightarrow> Inl (doc_error ''operation has an invalid field schema.''))"

text \<open>The dict built over the parameter groups: a later declaration of a name replaces an earlier one.\<close>

type_synonym parameter_table = "(string \<times> string \<times> bool) list"

definition add_parameter :: "string \<Rightarrow> json \<Rightarrow> parameter_table \<Rightarrow> exn + parameter_table" where
  "add_parameter location parameter t =
     (case parameter of
        JObj p \<Rightarrow>
          if jget p ''in'' \<noteq> JStr location then Inr t
          else sbind (safe_string (jget_or p ''name'' (JStr [])) (location @ '' parameter'') 100) (\<lambda>n0.
               let n = (if location = ''path'' \<and> suffix ''_mount_path'' n0 then ''secret_mount_path'' else n0)
               in sbind (declared_type (jor (jget p ''schema'') (JObj []))) (\<lambda>ty.
                  Inr (AList.update n (ty, jget p ''required'' = JBool True) t)))
      | _ \<Rightarrow> Inl (doc_error ''operation has invalid parameters.''))"

fun add_parameters :: "string \<Rightarrow> json list \<Rightarrow> parameter_table \<Rightarrow> exn + parameter_table" where
  "add_parameters location [] t = Inr t"
| "add_parameters location (p # ps) t = sbind (add_parameter location p t) (add_parameters location ps)"

fun add_groups :: "string \<Rightarrow> json list \<Rightarrow> parameter_table \<Rightarrow> exn + parameter_table" where
  "add_groups location [] t = Inr t"
| "add_groups location (g # gs) t =
     sbind (case g of
              JNull \<Rightarrow> Inr t
            | JArr ps \<Rightarrow> if length ps > 100 then Inl (doc_error ''operation has invalid parameters.'')
                        else add_parameters location ps t
            | _ \<Rightarrow> Inl (doc_error ''operation has invalid parameters.'')) (add_groups location gs)"

definition parameter_metadata :: "string \<Rightarrow> json list \<Rightarrow> exn + (string list \<times> string list \<times> (string \<times> string) list)" where
  "parameter_metadata location groups =
     sbind (add_groups location groups []) (\<lambda>t.
     let names = sort (map fst t); entry = (\<lambda>n. case map_of t n of None \<Rightarrow> ([], False) | Some q \<Rightarrow> q)
     in Inr (names, filter (\<lambda>n. snd (entry n)) names, map (\<lambda>n. (n, fst (entry n))) names))"

definition request_schema :: "json \<Rightarrow> payload \<Rightarrow> exn + payload option" where
  "request_schema body schemas =
     (let bad = doc_error ''operation has an invalid request body.'' in
      case body of
        JNull \<Rightarrow> Inr None
      | JObj b \<Rightarrow>
          (case jor (jget b ''content'') (JObj []) of
             JObj content \<Rightarrow>
               (case jget content ''application/json'' of
                  JObj media \<Rightarrow>
                    (case jget media ''schema'' of
                       JObj schema \<Rightarrow>
                         (case jget schema ''$ref'' of
                            JNull \<Rightarrow> Inr (Some schema)
                          | JStr r \<Rightarrow>
                              if prefix ''#/components/schemas/'' r
                              then (case jget schemas (drop 21 r) of
                                      JObj s \<Rightarrow> Inr (Some s)
                                    | _ \<Rightarrow> Inl (doc_error ''operation references a missing schema.''))
                              else Inl (doc_error ''operation has an unsupported schema reference.'')
                          | _ \<Rightarrow> Inl (doc_error ''operation has an unsupported schema reference.''))
                     | _ \<Rightarrow> Inl bad)
                | _ \<Rightarrow> Inl bad)
           | _ \<Rightarrow> Inl bad)
      | _ \<Rightarrow> Inl bad)"

definition schema_field_metadata :: "payload option \<Rightarrow> exn + (string list \<times> string list \<times> (string \<times> string) list)" where
  "schema_field_metadata sch =
     (case sch of
        None \<Rightarrow> Inr ([], [], [])
      | Some s \<Rightarrow>
          (case (jor (jget s ''properties'') (JObj []), jor (jget s ''required'') (JArr [])) of
             (JObj props, JArr required) \<Rightarrow>
               sbind (straverse (\<lambda>(k, _). safe_string (JStr k) ''request field'' 100) props) (\<lambda>ks.
               sbind (straverse (\<lambda>k. safe_string k ''required request field'' 100) required) (\<lambda>rs.
               sbind (srequire (set rs \<subseteq> set ks) (doc_error ''operation has invalid required fields.'')) (\<lambda>_.
               sbind (straverse (\<lambda>k. sbind (declared_type (jget props k)) (\<lambda>ty. Inr (k, ty))) (sort ks)) (\<lambda>tys.
               Inr (sort ks, sort rs, tys)))))
           | _ \<Rightarrow> Inl (doc_error ''operation has an invalid request schema.'')))"

definition body_field_metadata :: "json \<Rightarrow> payload \<Rightarrow> exn + (string list \<times> string list \<times> (string \<times> string) list)" where
  "body_field_metadata body schemas = sbind (request_schema body schemas) schema_field_metadata"

section \<open>Operations\<close>

definition operation_id_re :: "string \<Rightarrow> bool" where
  "operation_id_re = word_re alpha (one_of alnum ''_.:-'') 199"

definition upper_char :: "char \<Rightarrow> char" where
  "upper_char c = (if 97 \<le> (of_char c :: nat) \<and> (of_char c :: nat) \<le> 122 then char_of (of_char c - 32 :: nat) else c)"

definition normalize_operation ::
  "string \<Rightarrow> string \<Rightarrow> string \<Rightarrow> json \<Rightarrow> payload \<Rightarrow> json \<Rightarrow> exn + discovered_operation" where
  "normalize_operation path mount_parameter meth operation schemas inherited =
     (case operation of
        JObj p \<Rightarrow>
          sbind (safe_string (jget_or p ''operationId'' (JStr [])) ''operation ID'' 200) (\<lambda>oid.
          sbind (srequire (operation_id_re oid) (doc_error ''document has an invalid operation ID.'')) (\<lambda>_.
          sbind (operation_tags p) (\<lambda>tags.
          let family = family_for path tags; risk = risk_for meth path; classified = (family \<noteq> ''unclassified'') in
          sbind (parameter_metadata ''query'' [inherited, jget p ''parameters'']) (\<lambda>(qn, qr, qt).
          sbind (parameter_metadata ''path'' [inherited, jget p ''parameters'']) (\<lambda>(pn, pr, pt).
          sbind (body_field_metadata (jget p ''requestBody'') schemas) (\<lambda>(bn, br, bt).
          sbind (safe_string (jget_or p ''summary'' (JStr [])) ''operation summary'' 500) (\<lambda>summary.
          Inr \<lparr>op_id = oid, op_method = map upper_char meth, op_path_template = path, op_summary = summary, op_tags = tags,
               op_family = family, op_risk_level = risk,
               op_response_class = (if family \<in> {''cluster'', ''api-explorer''} then ''public-metadata'' else ''unreviewed''),
               op_required_permission = (if classified then permission_for risk else []), op_classified = classified,
               op_executable = False, op_mount_parameter = mount_parameter,
               op_query_parameters = qn, op_required_query_parameters = qr,
               op_path_parameters = pn, op_required_path_parameters = pr, op_path_parameter_types = pt,
               op_body_fields = bn, op_required_body_fields = br,
               op_query_parameter_types = qt, op_body_field_types = bt\<rparr>)))))))
      | _ \<Rightarrow> Inl (doc_error ''operation must be an object.''))"

fun collect_methods ::
  "string \<Rightarrow> string \<Rightarrow> payload \<Rightarrow> json \<Rightarrow> payload \<Rightarrow> discovered_operation list \<Rightarrow> exn + discovered_operation list" where
  "collect_methods path mp schemas inherited [] acc = Inr acc"
| "collect_methods path mp schemas inherited ((raw, operation) # rest) acc =
     (if lower raw \<notin> set ALLOWED_METHODS then collect_methods path mp schemas inherited rest acc
      else sbind (normalize_operation path mp (lower raw) operation schemas inherited) (\<lambda>p.
           if length acc + 1 > MAX_OPERATIONS then Inl (doc_error ''document contains too many operations.'')
           else collect_methods path mp schemas inherited rest (acc @ [p])))"

fun collect_paths :: "payload \<Rightarrow> payload \<Rightarrow> discovered_operation list \<Rightarrow> exn + discovered_operation list" where
  "collect_paths schemas [] acc = Inr acc"
| "collect_paths schemas ((raw, item) # rest) acc =
     sbind (normalize_path raw) (\<lambda>path.
     case item of
       JObj methods \<Rightarrow>
         sbind (collect_methods path (case mount_placeholder raw of None \<Rightarrow> [] | Some (_, n) \<Rightarrow> n) schemas
                  (jget methods ''parameters'') methods acc) (collect_paths schemas rest)
     | _ \<Rightarrow> Inl (doc_error ''path entry must be an object.''))"

definition operation_order :: "discovered_operation \<Rightarrow> string \<times> string \<times> string \<times> string" where
  "operation_order p = (op_family p, op_path_template p, op_method p, op_id p)"

definition normalize_openapi_document ::
  "(json \<Rightarrow> string option) \<Rightarrow> (string \<Rightarrow> string) \<Rightarrow> json \<Rightarrow> exn + capability_document" where
  "normalize_openapi_document dumps sha doc =
     (case doc of
        JObj d \<Rightarrow>
          sbind (canonical_bytes dumps doc) (\<lambda>canonical.
          sbind (validate_shape doc 0) (\<lambda>_.
          sbind (document_metadata d) (\<lambda>(version, product, paths, schemas).
          sbind (collect_paths schemas paths []) (\<lambda>ops.
          Inr \<lparr>cd_openapi_version = version, cd_product_version = product, cd_digest = sha canonical,
               cd_operations = sort_key operation_order ops\<rparr>))))
      | _ \<Rightarrow> Inl (doc_error ''document must be an object.''))"

end
