(* ===== verification/Admin_Access.thy ===== *)
theory Admin_Access
  imports Admin_Auth Admin_Schema
begin

text \<open>
  The reviewed contracts for policies, identity, OIDC and namespaces (\<^verbatim>\<open>administration/access.py\<close>): which
  operation exists on which resource, the path it is sent to, the fields a payload may have, and what a
  response may contain.
\<close>

definition MAX_POLICY_DOCUMENT :: nat where "MAX_POLICY_DOCUMENT = 256000"

definition ACCESS_OPERATIONS :: "string list" where
  "ACCESS_OPERATIONS = [''list'', ''read'', ''write'', ''delete'', ''rotate'', ''merge'', ''generate'']"

definition ACCESS_MATERIAL_KEYS :: "string list" where
  "ACCESS_MATERIAL_KEYS = MATERIAL_KEYS @ [''client_secret'', ''key_shares'']"

definition access_name_re :: "string \<Rightarrow> bool" where
  "access_name_re = word_re alnum (one_of alnum ''_.@+-'') 199"

definition accessor_re :: "string \<Rightarrow> bool" where
  "accessor_re = word_re alnum (one_of alnum ''_.-'') 255"

definition namespace_segment_re :: "string \<Rightarrow> bool" where
  "namespace_segment_re = word_re alnum (one_of alnum ''_.-'') 127"

record access_operation_spec =
  ao_method :: string
  ao_path_template :: string
  ao_permission :: string
  ao_risk :: string
  ao_fields :: field_rules
  ao_response_kind :: string
  ao_confirmation :: string

definition access_operation ::
  "string \<Rightarrow> string \<Rightarrow> string \<Rightarrow> string \<Rightarrow> field_rules \<Rightarrow> string \<Rightarrow> string \<Rightarrow> access_operation_spec" where
  "access_operation verb path permission risk rules response_kind confirmation =
     \<lparr>ao_method = verb, ao_path_template = path, ao_permission = permission, ao_risk = risk, ao_fields = rules,
      ao_response_kind = response_kind, ao_confirmation = confirmation\<rparr>"

record access_resource_spec =
  as_key :: string
  as_label :: string
  as_family :: string
  as_identifier_kind :: string
  as_operations :: "(string \<times> access_operation_spec) list"

definition access_resource ::
  "string \<Rightarrow> string \<Rightarrow> string \<Rightarrow> string \<Rightarrow> (string \<times> access_operation_spec) list \<Rightarrow> access_resource_spec" where
  "access_resource key label family kind operations =
     \<lparr>as_key = key, as_label = label, as_family = family, as_identifier_kind = kind, as_operations = operations\<rparr>"

text \<open>\<open>AccessResourceSpec.path\<close>; \<open>None\<close> is the \<open>KeyError\<close> of an operation the resource does not have.\<close>

definition access_resource_path :: "access_resource_spec \<Rightarrow> string \<Rightarrow> string \<Rightarrow> string option" where
  "access_resource_path spec operation identifier =
     map_option (\<lambda>c.
       if \<not> contains ''{identifier}'' (ao_path_template c) then ao_path_template c
       else replace_all ''{identifier}'' (quote [] identifier) (ao_path_template c))
     (map_of (as_operations spec) operation)"

definition crud ::
  "string \<Rightarrow> string \<Rightarrow> string \<Rightarrow> string \<Rightarrow> string \<Rightarrow> field_rules \<Rightarrow> string \<Rightarrow> string \<Rightarrow> string
     \<Rightarrow> (string \<times> access_operation_spec) list" where
  "crud collection item view manage remove rules response_kind write_path list_method =
     [(''list'', access_operation list_method collection view ''read'' [] ''metadata'' []),
      (''read'', access_operation ''GET'' item view ''read'' [] response_kind []),
      (''write'', access_operation ''POST'' (str_or write_path item) manage ''write'' rules response_kind []),
      (''delete'', access_operation ''DELETE'' item remove ''destructive'' [] ''metadata''
                   ''DELETE {resource} {identifier} ON {cluster}'')]"

section \<open>Tables\<close>

definition UUID_LIST :: field_rule where
  "UUID_LIST = mk_field_rule ''uuid-list'' False 256 [] False"

definition UUID_TEXT :: field_rule where
  "UUID_TEXT = mk_field_rule ''uuid'' False 36 [] False"

definition URL_LIST :: field_rule where
  "URL_LIST = mk_field_rule ''url-list'' False 64 [] False"

definition POLICY_TEXT :: field_rule where
  "POLICY_TEXT = text_rule True 256000 False"

definition TEMPLATE_TEXT :: field_rule where
  "TEMPLATE_TEXT = text_rule True 64000 False"

definition POLICY_FIELDS :: field_rules where
  "POLICY_FIELDS =
     [(''policy'', POLICY_TEXT)]"

definition ENTITY_FIELDS :: field_rules where
  "ENTITY_FIELDS =
     [(''id'', UUID_TEXT), (''name'', text_rule False 200 False), (''metadata'', STRING_MAP),
      (''policies'', STRING_LIST), (''disabled'', BOOL)]"

definition ENTITY_ALIAS_FIELDS :: field_rules where
  "ENTITY_ALIAS_FIELDS =
     [(''id'', UUID_TEXT), (''name'', text_rule True 200 False), (''canonical_id'', UUID_TEXT),
      (''mount_accessor'', text_rule True 256 False)]"

definition GROUP_FIELDS :: field_rules where
  "GROUP_FIELDS =
     [(''id'', UUID_TEXT), (''name'', text_rule False 200 False),
      (''type'', choice_rule [''internal'', ''external''] False), (''metadata'', STRING_MAP),
      (''policies'', STRING_LIST), (''member_entity_ids'', UUID_LIST), (''member_group_ids'', UUID_LIST)]"

definition GROUP_ALIAS_FIELDS :: field_rules where
  "GROUP_ALIAS_FIELDS =
     [(''id'', UUID_TEXT), (''name'', text_rule True 200 False), (''canonical_id'', UUID_TEXT),
      (''mount_accessor'', text_rule True 256 False)]"

definition OIDC_CLIENT_FIELDS :: field_rules where
  "OIDC_CLIENT_FIELDS =
     [(''key'', text_rule False 200 False), (''redirect_uris'', URL_LIST), (''assignments'', STRING_LIST),
      (''client_type'', choice_rule [''confidential'', ''public''] False), (''id_token_ttl'', POSITIVE_INTEGER),
      (''access_token_ttl'', POSITIVE_INTEGER), (''authorization_code'', BOOL), (''client_credentials'', BOOL)]"

definition OIDC_KEY_FIELDS :: field_rules where
  "OIDC_KEY_FIELDS =
     [(''algorithm'', choice_rule [''RS256'', ''RS384'', ''RS512'', ''ES256'', ''ES384'', ''ES512'', ''EdDSA''] False),
      (''allowed_client_ids'', STRING_LIST), (''rotation_period'', POSITIVE_INTEGER),
      (''verification_ttl'', POSITIVE_INTEGER)]"

definition OIDC_ASSIGNMENT_FIELDS :: field_rules where
  "OIDC_ASSIGNMENT_FIELDS =
     [(''entity_ids'', UUID_LIST), (''group_ids'', UUID_LIST)]"

definition OIDC_PROVIDER_FIELDS :: field_rules where
  "OIDC_PROVIDER_FIELDS =
     [(''issuer'', text_rule False 4096 False), (''allowed_client_ids'', STRING_LIST),
      (''scopes_supported'', STRING_LIST)]"

definition OIDC_SCOPE_FIELDS :: field_rules where
  "OIDC_SCOPE_FIELDS =
     [(''description'', text_rule False 2000 False), (''template'', TEMPLATE_TEXT)]"

definition NAMESPACE_FIELDS :: field_rules where
  "NAMESPACE_FIELDS =
     [(''custom_metadata'', mk_field_rule ''string-map'' True 128 [] False)]"

definition ACCESS_RESOURCES_1 :: "(string \<times> access_resource_spec) list" where
  "ACCESS_RESOURCES_1 =
     [(''acl-policies'', access_resource ''acl-policies'' ''ACL policies'' ''policies'' ''name''
         (crud ''/sys/policies/acl'' ''/sys/policies/acl/{identifier}''
          ''view_access_openbaocluster'' ''manage_policies_openbaocluster''
          ''delete_policies_openbaocluster'' POLICY_FIELDS ''metadata'' [] ''LIST'')),
      (''password-policies'', access_resource ''password-policies'' ''Password policies'' ''policies'' ''name''
         (AList.update ''generate''
         (access_operation ''GET'' ''/sys/policies/password/{identifier}/generate''
            ''generate_passwords_openbaocluster'' ''material''
            [] ''material'' [])
         (crud ''/sys/policies/password'' ''/sys/policies/password/{identifier}''
          ''view_access_openbaocluster'' ''manage_policies_openbaocluster''
          ''delete_policies_openbaocluster'' POLICY_FIELDS ''metadata'' [] ''LIST''))),
      (''entities'', access_resource ''entities'' ''Identity entities'' ''identity'' ''uuid''
         (AList.update ''merge''
         (access_operation ''POST'' ''/identity/entity/merge''
            ''merge_identity_openbaocluster'' ''destructive''
            [(''from_entity_ids'', mk_field_rule ''uuid-list'' True 32 [] False),
            (''to_entity_id'', mk_field_rule ''uuid'' True 36 [] False), (''force'', BOOL),
            (''conflicting_alias_ids_to_keep'', mk_field_rule ''uuid-list'' False 32 [] False)] ''metadata'' ''MERGE identities ON {cluster}'')
         (crud ''/identity/entity/id'' ''/identity/entity/id/{identifier}''
          ''view_access_openbaocluster'' ''manage_identity_openbaocluster''
          ''delete_identity_openbaocluster'' ENTITY_FIELDS ''metadata'' ''/identity/entity'' ''LIST''))),
      (''entity-aliases'', access_resource ''entity-aliases'' ''Entity aliases'' ''identity'' ''uuid''
         (crud ''/identity/entity-alias/id'' ''/identity/entity-alias/id/{identifier}''
          ''view_access_openbaocluster'' ''manage_identity_openbaocluster''
          ''delete_identity_openbaocluster'' ENTITY_ALIAS_FIELDS ''metadata'' ''/identity/entity-alias'' ''LIST'')),
      (''groups'', access_resource ''groups'' ''Identity groups'' ''identity'' ''uuid''
         (crud ''/identity/group/id'' ''/identity/group/id/{identifier}''
          ''view_access_openbaocluster'' ''manage_identity_openbaocluster''
          ''delete_identity_openbaocluster'' GROUP_FIELDS ''metadata'' ''/identity/group'' ''LIST'')),
      (''group-aliases'', access_resource ''group-aliases'' ''Group aliases'' ''identity'' ''uuid''
         (crud ''/identity/group-alias/id'' ''/identity/group-alias/id/{identifier}''
          ''view_access_openbaocluster'' ''manage_identity_openbaocluster''
          ''delete_identity_openbaocluster'' GROUP_ALIAS_FIELDS ''metadata'' ''/identity/group-alias'' ''LIST''))]"

definition ACCESS_RESOURCES_2 :: "(string \<times> access_resource_spec) list" where
  "ACCESS_RESOURCES_2 =
     [(''oidc-clients'', access_resource ''oidc-clients'' ''OIDC clients'' ''oidc'' ''name''
         (AList.update ''read''
         (access_operation ''GET'' ''/identity/oidc/client/{identifier}''
            ''reveal_oidc_client_secrets_openbaocluster'' ''read''
            [] ''material'' [])
         (crud ''/identity/oidc/client'' ''/identity/oidc/client/{identifier}''
          ''view_access_openbaocluster'' ''manage_oidc_openbaocluster''
          ''delete_oidc_openbaocluster'' OIDC_CLIENT_FIELDS ''material'' [] ''LIST''))),
      (''oidc-keys'', access_resource ''oidc-keys'' ''OIDC keys'' ''oidc'' ''name''
         (AList.update ''rotate''
         (access_operation ''POST'' ''/identity/oidc/key/{identifier}/rotate''
            ''rotate_oidc_keys_openbaocluster'' ''destructive''
            [] ''metadata'' ''ROTATE oidc-keys {identifier} ON {cluster}'')
         (crud ''/identity/oidc/key'' ''/identity/oidc/key/{identifier}''
          ''view_access_openbaocluster'' ''manage_oidc_openbaocluster''
          ''delete_oidc_openbaocluster'' OIDC_KEY_FIELDS ''metadata'' [] ''LIST''))),
      (''oidc-assignments'', access_resource ''oidc-assignments'' ''OIDC assignments'' ''oidc'' ''name''
         (crud ''/identity/oidc/assignment'' ''/identity/oidc/assignment/{identifier}''
          ''view_access_openbaocluster'' ''manage_oidc_openbaocluster''
          ''delete_oidc_openbaocluster'' OIDC_ASSIGNMENT_FIELDS ''metadata'' [] ''LIST'')),
      (''oidc-providers'', access_resource ''oidc-providers'' ''OIDC providers'' ''oidc'' ''name''
         (crud ''/identity/oidc/provider'' ''/identity/oidc/provider/{identifier}''
          ''view_access_openbaocluster'' ''manage_oidc_openbaocluster''
          ''delete_oidc_openbaocluster'' OIDC_PROVIDER_FIELDS ''metadata'' [] ''LIST'')),
      (''oidc-scopes'', access_resource ''oidc-scopes'' ''OIDC scopes'' ''oidc'' ''name''
         (crud ''/identity/oidc/scope'' ''/identity/oidc/scope/{identifier}''
          ''view_access_openbaocluster'' ''manage_oidc_openbaocluster''
          ''delete_oidc_openbaocluster'' OIDC_SCOPE_FIELDS ''metadata'' [] ''LIST'')),
      (''namespaces'', access_resource ''namespaces'' ''Namespaces'' ''namespaces'' ''namespace''
         (crud ''/sys/namespaces'' ''/sys/namespaces/{identifier}''
          ''view_access_openbaocluster'' ''manage_namespaces_openbaocluster''
          ''delete_namespaces_openbaocluster'' NAMESPACE_FIELDS ''metadata'' [] ''LIST''))]"

definition ACCESS_RESOURCES :: "(string \<times> access_resource_spec) list" where
  "ACCESS_RESOURCES = ACCESS_RESOURCES_1 @ ACCESS_RESOURCES_2"

section \<open>The public form of a contract\<close>

definition rule_public :: "field_rule \<Rightarrow> json" where
  "rule_public r =
     JObj [(''kind'', JStr (fr_kind r)), (''required'', JBool (fr_required r)),
           (''choices'', JArr (map JStr (sorted_set (fr_choices r)))), (''material'', JBool (fr_material r))]"

definition access_operation_public :: "access_operation_spec \<Rightarrow> json" where
  "access_operation_public c =
     JObj [(''method'', JStr (ao_method c)),
           (''fields'', JObj (map (\<lambda>(n, r). (n, rule_public r)) (ao_fields c))),
           (''risk'', JStr (ao_risk c)), (''response_kind'', JStr (ao_response_kind c)),
           (''required_permission'', JStr (ao_permission c)), (''destructive'', JBool (ao_confirmation c \<noteq> [])),
           (''identifier_required'', JBool (contains ''{identifier}'' (ao_path_template c)))]"

definition access_resource_public :: "access_resource_spec \<Rightarrow> json" where
  "access_resource_public spec =
     JObj [(''key'', JStr (as_key spec)), (''label'', JStr (as_label spec)), (''family'', JStr (as_family spec)),
           (''identifier_kind'', JStr (as_identifier_kind spec)),
           (''operations'', JObj (map (\<lambda>(n, c). (n, access_operation_public c)) (as_operations spec)))]"

section \<open>Contracts\<close>

definition access_spec :: "json \<Rightarrow> exn + access_resource_spec" where
  "access_spec key =
     (case key of
        JStr k \<Rightarrow> (case map_of ACCESS_RESOURCES k of
                     Some spec \<Rightarrow> Inr spec
                   | None \<Rightarrow> Inl (CapabilitySchemaError ''The access-control resource is unsupported.''))
      | _ \<Rightarrow> Inl (CapabilitySchemaError ''The access-control resource is unsupported.''))"

definition bad_identifier :: exn where
  "bad_identifier = CapabilitySchemaError ''The resource identifier is invalid.''"

definition normalize_identifier :: "json \<Rightarrow> string \<Rightarrow> exn + string" where
  "normalize_identifier v kind =
     (case v of
        JStr s \<Rightarrow>
          if s \<noteq> strip s then Inl bad_identifier
          else if kind = ''uuid'' \<and> uuid_re hex_lower s then Inr s
          else if kind = ''name'' \<and> access_name_re s then Inr s
          else if kind = ''accessor'' \<and> accessor_re s then Inr s
          else if kind = ''namespace'' \<and> namespace_segment_re s then Inr s
          else Inl bad_identifier
      | _ \<Rightarrow> Inl bad_identifier)"

text \<open>A placeholder at the head of the text: what follows it.\<close>

definition placeholder_rest :: "string \<Rightarrow> string option" where
  "placeholder_rest s =
     (if prefix ''{'' s then
        (let n = takeWhile identifier_char (drop 1 s); r = drop (1 + length n) s
         in if n \<noteq> [] \<and> alpha (hd n) \<and> prefix ''}'' r then Some (drop 1 r) else None)
      else None)"

lemma placeholder_rest_shorter: "placeholder_rest s = Some r \<Longrightarrow> length r < length s"
  by (auto simp: placeholder_rest_def Let_def prefix_def split: if_splits dest!: arg_cong [of "drop _ _" _ length])

function operation_shape :: "string \<Rightarrow> string" where
  "operation_shape [] = []"
| "operation_shape (c # cs) =
     (case placeholder_rest (c # cs) of
        Some r \<Rightarrow> ''{}'' @ operation_shape r
      | None \<Rightarrow> c # operation_shape cs)"
  by pat_completeness auto
termination
  by (relation "measure length") (auto dest: placeholder_rest_shorter)

definition runtime_advertises :: "capability_document \<Rightarrow> access_operation_spec \<Rightarrow> bool" where
  "runtime_advertises document operation =
     (let expected = operation_shape (replace_all ''{identifier}'' ''{name}'' (ao_path_template operation));
          method_matches = (\<lambda>c.
            op_method c = map upper_char (ao_method operation)
            \<or> (ao_method operation = ''LIST'' \<and> op_method c = ''GET''
               \<and> (op_required_query_parameters c = [''list''] \<or> op_path_template c = ''/sys/namespaces'')))
      in list_ex (\<lambda>c. method_matches c \<and> operation_shape (op_path_template c) = expected) (cd_operations document))"

definition access_operation_contract :: "json \<Rightarrow> json \<Rightarrow> exn + (access_resource_spec \<times> access_operation_spec)" where
  "access_operation_contract resource_key operation_name =
     sbind (access_spec resource_key) (\<lambda>spec.
     case operation_name of
       JStr n \<Rightarrow> (case map_of (as_operations spec) n of
                    Some c \<Rightarrow> Inr (spec, c)
                  | None \<Rightarrow> Inl (CapabilitySchemaError ''The access-control operation is unsupported.''))
     | _ \<Rightarrow> Inl (CapabilitySchemaError ''The access-control operation is unsupported.''))"

section \<open>Payloads\<close>

definition bad_list :: exn where
  "bad_list = CapabilitySchemaError ''The access-control payload contains an invalid list.''"

definition normalize_url :: "json \<Rightarrow> exn + json" where
  "normalize_url v =
     (case v of
        JStr s \<Rightarrow> if length s > 4096 \<or> \<not> (prefix ''https://'' s \<or> prefix ''http://'' s) \<or> list_ex control s
                 then Inl (CapabilitySchemaError ''The access-control payload contains an invalid URL.'') else Inr v
      | _ \<Rightarrow> Inl (CapabilitySchemaError ''The access-control payload contains an invalid URL.''))"

definition normalize_url_list :: "json \<Rightarrow> field_rule \<Rightarrow> exn + json" where
  "normalize_url_list v r =
     (case v of
        JArr xs \<Rightarrow> if length xs > fr_maximum r then Inl bad_list
                  else sbind (straverse normalize_url xs) (\<lambda>ys. Inr (JArr ys))
      | _ \<Rightarrow> Inl bad_list)"

definition normalize_extended_field :: "json \<Rightarrow> field_rule \<Rightarrow> exn + json" where
  "normalize_extended_field v r =
     (if fr_kind r = ''uuid'' then sbind (normalize_identifier v ''uuid'') (\<lambda>s. Inr (JStr s))
      else if fr_kind r = ''url-list'' then normalize_url_list v r
      else case v of
        JArr xs \<Rightarrow> if length xs > fr_maximum r then Inl bad_list
                  else sbind (straverse (\<lambda>x. sbind (normalize_identifier x ''uuid'') (\<lambda>s. Inr (JStr s))) xs)
                         (\<lambda>ys. Inr (JArr ys))
      | _ \<Rightarrow> Inl bad_list)"

definition extended_kinds :: "string list" where
  "extended_kinds = [''uuid'', ''uuid-list'', ''url-list'']"

definition ordinary_rules :: "field_rules \<Rightarrow> field_rules" where
  "ordinary_rules rules = filter (\<lambda>(_, r). fr_kind r \<notin> set extended_kinds) rules"

definition extended_fields :: "payload \<Rightarrow> field_rules \<Rightarrow> exn + payload" where
  "extended_fields p rules =
     straverse (\<lambda>(n, r). sbind (normalize_extended_field (jget p n) r) (\<lambda>v. Inr (n, v)))
       (filter (\<lambda>(n, r). dict_get p n \<noteq> None \<and> fr_kind r \<in> set extended_kinds) rules)"

definition validate_access_payload :: "json \<Rightarrow> field_rules \<Rightarrow> exn + payload" where
  "validate_access_payload v rules =
     (case v of
        JObj p \<Rightarrow>
          if length p > length rules then Inl (CapabilitySchemaError ''The access-control payload is invalid.'')
          else if unknown_fields p rules \<noteq> [] \<or> missing_fields p rules \<noteq> []
          then Inl (CapabilitySchemaError ''The access-control payload contains unsupported fields.'')
          else sbind (validate_reviewed_payload
                        (JObj (filter (\<lambda>(k, _). map_of (ordinary_rules rules) k \<noteq> None) p)) (ordinary_rules rules)) (\<lambda>result.
               sbind (extended_fields p rules) (\<lambda>extended. Inr (result @ extended)))
      | _ \<Rightarrow> Inl (CapabilitySchemaError ''The access-control payload is invalid.''))"

section \<open>Responses\<close>

definition bad_access_response :: exn where
  "bad_access_response = auth_error ''returned an invalid access-control response.''"

definition access_response_scalar :: "json \<Rightarrow> exn + json" where
  "access_response_scalar v =
     (case v of
        JStr s \<Rightarrow> if length s > MAX_POLICY_DOCUMENT \<or> CHR 0x00 \<in> set s then Inl bad_access_response else Inr v
      | JFloat r \<Rightarrow> if finite_float r then Inr v else Inl bad_access_response
      | _ \<Rightarrow> Inr v)"

text \<open>Material-shaped rules are dropped unless the operation's response is classed as material.\<close>

function access_response_value :: "bool \<Rightarrow> json \<Rightarrow> nat \<Rightarrow> exn + json" where
  "access_response_value material v depth =
     (if depth > 10 then Inl bad_access_response
      else case v of
        JObj kvs \<Rightarrow>
          if length kvs > 1000 then Inl bad_access_response
          else sbind (straverse (\<lambda>kx. if length (fst kx) > 500 \<or> list_ex control (fst kx) then Inl bad_access_response
                        else if material \<or> lower (fst kx) \<notin> set ACCESS_MATERIAL_KEYS
                        then sbind (access_response_value material (snd kx) (Suc depth)) (\<lambda>y. Inr (Some (fst kx, y)))
                        else Inr None) kvs)
                 (\<lambda>ys. Inr (JObj (List.map_filter id ys)))
      | JArr xs \<Rightarrow>
          if length xs > 1000 then Inl bad_access_response
          else sbind (straverse (\<lambda>x. access_response_value material x (Suc depth)) xs) (\<lambda>ys. Inr (JArr ys))
      | _ \<Rightarrow> access_response_scalar v)"
  by pat_completeness auto
termination
  by (relation "measure (\<lambda>(_, _, depth). 11 - depth)") auto

declare access_response_value.simps [simp del]

definition normalize_access_response :: "json \<Rightarrow> bool \<Rightarrow> exn + json" where
  "normalize_access_response v material =
     (case v of JObj _ \<Rightarrow> access_response_value material v 0 | _ \<Rightarrow> Inl bad_access_response)"

end
