(* ===== verification/Admin_Final.thy ===== *)
theory Admin_Final
  imports Admin_Access
begin

text \<open>
  The reviewed contracts for leases, tools and UI headers (\<^verbatim>\<open>administration/finalization.py\<close>) and the
  conformance report that compares them with a runtime's OpenAPI document. The pinned route fixture that the
  code reads from the file beside it is the parameter \<open>fixture\<close>; the JSON encoding is the parameter \<open>dumps\<close>.
\<close>

definition MAX_WRAPPING_JSON_BYTES :: nat where "MAX_WRAPPING_JSON_BYTES = 256000"
definition MAX_WRAPPING_JSON_DEPTH :: nat where "MAX_WRAPPING_JSON_DEPTH = 12"
definition MAX_WRAPPING_JSON_MEMBERS :: nat where "MAX_WRAPPING_JSON_MEMBERS = 2000"
definition MAX_WRAPPING_JSON_STRING :: nat where "MAX_WRAPPING_JSON_STRING = 100000"

definition lease_re :: "string \<Rightarrow> bool" where
  "lease_re = word_re alnum (one_of alnum ''_.:/+-'') 499"

definition header_re :: "string \<Rightarrow> bool" where
  "header_re = word_re alpha (one_of alnum ''-'') 126"

definition algorithm_re :: "string \<Rightarrow> bool" where
  "algorithm_re s =
     (s \<in> {''sha2-224'', ''sha2-256'', ''sha2-384'', ''sha2-512'', ''sha3-224'', ''sha3-256'', ''sha3-384'', ''sha3-512''})"

definition source_re :: "string \<Rightarrow> bool" where
  "source_re s = (s \<in> {''platform'', ''all''})"

text \<open>A sequence of \<open>[1-9][0-9]*\<close> with a unit, in full; every unit that fits is tried.\<close>

definition duration_units :: "string list" where
  "duration_units = [''ns'', ''us'', [CHR 0xB5, CHR ''s''], ''ms'', ''s'', ''m'', ''h'']"

fun duration_fuel :: "nat \<Rightarrow> string \<Rightarrow> bool" where
  "duration_fuel 0 s = False"
| "duration_fuel (Suc n) s =
     (let ds = takeWhile digit s; r = drop (length ds) s
      in ds \<noteq> [] \<and> hd ds \<noteq> CHR ''0''
         \<and> list_ex (\<lambda>u. prefix u r \<and> (drop (length u) r = [] \<or> duration_fuel n (drop (length u) r))) duration_units)"

definition duration_re :: "string \<Rightarrow> bool" where
  "duration_re s = duration_fuel (length s) s"

record final_operation =
  fo_method :: string
  fo_path_template :: string
  fo_permission :: string
  fo_risk :: string
  fo_rules :: field_rules
  fo_response_kind :: string
  fo_confirmation :: string
  fo_identifier_kind :: string

definition final_op ::
  "string \<Rightarrow> string \<Rightarrow> string \<Rightarrow> string \<Rightarrow> field_rules \<Rightarrow> string \<Rightarrow> string \<Rightarrow> string \<Rightarrow> final_operation" where
  "final_op verb path permission risk rules response confirmation kind =
     \<lparr>fo_method = verb, fo_path_template = path, fo_permission = permission, fo_risk = risk, fo_rules = rules,
      fo_response_kind = response, fo_confirmation = confirmation, fo_identifier_kind = kind\<rparr>"

record final_resource =
  fs_key :: string
  fs_label :: string
  fs_family :: string
  fs_operations :: "(string \<times> final_operation) list"

definition mk_final_resource :: "string \<Rightarrow> string \<Rightarrow> string \<Rightarrow> (string \<times> final_operation) list \<Rightarrow> final_resource" where
  "mk_final_resource key label family operations =
     \<lparr>fs_key = key, fs_label = label, fs_family = family, fs_operations = operations\<rparr>"

definition final_rule_public :: "field_rule \<Rightarrow> json" where
  "final_rule_public r =
     JObj [(''kind'', JStr (fr_kind r)), (''required'', JBool (fr_required r)), (''maximum'', JNum (int (fr_maximum r))),
           (''choices'', JArr (map JStr (sorted_set (fr_choices r)))), (''material'', JBool (fr_material r))]"

definition final_operation_public :: "final_operation \<Rightarrow> payload" where
  "final_operation_public c =
     [(''method'', JStr (fo_method c)), (''risk'', JStr (fo_risk c)),
      (''required_permission'', JStr (''netbox_openbao.'' @ fo_permission c)),
      (''response_kind'', JStr (fo_response_kind c)), (''destructive'', JBool (fo_confirmation c \<noteq> [])),
      (''confirmation'', JStr (fo_confirmation c)),
      (''identifier_required'', JBool (contains ''{identifier}'' (fo_path_template c))),
      (''identifier_kind'', JStr (fo_identifier_kind c)),
      (''fields'', JObj (map (\<lambda>(n, r). (n, final_rule_public r)) (fo_rules c)))]"

definition final_resource_public :: "final_resource \<Rightarrow> json" where
  "final_resource_public spec =
     JObj [(''key'', JStr (fs_key spec)), (''label'', JStr (fs_label spec)), (''family'', JStr (fs_family spec)),
           (''operations'', JObj (map (\<lambda>(n, c). (n, JObj (final_operation_public c
              @ (if fs_key spec = ''leases'' \<and> n = ''list'' then [(''identifier_allow_blank'', JBool True)] else []))))
              (fs_operations spec)))]"

text \<open>\<open>None\<close> is the \<open>KeyError\<close> of an operation the resource does not have.\<close>

definition final_resource_path :: "final_resource \<Rightarrow> string \<Rightarrow> string \<Rightarrow> string option" where
  "final_resource_path spec operation identifier =
     map_option (\<lambda>c.
       let lease = fo_identifier_kind c = ''lease-prefix'';
           i = (if lease then rstrip_of (CHR ''/'') identifier else identifier)
       in replace_all ''{identifier}'' (quote (if lease then ''/'' else []) i) (fo_path_template c))
     (map_of (fs_operations spec) operation)"

section \<open>Tables\<close>

definition FINAL_BOOL :: field_rule where
  "FINAL_BOOL = mk_field_rule ''boolean'' False 1 [] False"

definition FINAL_POSITIVE_INTEGER :: field_rule where
  "FINAL_POSITIVE_INTEGER = mk_field_rule ''positive-integer'' False 1048576 [] False"

definition FINAL_STRING_LIST :: field_rule where
  "FINAL_STRING_LIST = mk_field_rule ''string-list'' False 256 [] False"

definition FINAL_JSON_MAP :: field_rule where
  "FINAL_JSON_MAP = mk_field_rule ''json-map'' False 256 [] False"

definition FINAL_TEXT :: field_rule where
  "FINAL_TEXT = mk_field_rule ''text'' False 20000 [] False"

definition FINAL_MATERIAL_TEXT :: field_rule where
  "FINAL_MATERIAL_TEXT = mk_field_rule ''text'' False 100000 [] True"

definition FINAL_LEASES :: final_resource where
  "FINAL_LEASES = mk_final_resource ''leases'' ''Leases'' ''leases''
     [(''list'', final_op ''LIST'' ''/sys/leases/lookup/{identifier}'' ''view_leases_openbaocluster'' ''read''
            []
            ''metadata'' [] ''lease-prefix''),
      (''lookup'', final_op ''POST'' ''/sys/leases/lookup'' ''view_leases_openbaocluster'' ''read''
            [(''lease_id'', mk_field_rule ''text'' True 500 [] False)]
            ''metadata'' [] []),
      (''renew'', final_op ''POST'' ''/sys/leases/renew'' ''manage_leases_openbaocluster'' ''write''
            [(''lease_id'', mk_field_rule ''text'' True 500 [] False), (''increment'', FINAL_POSITIVE_INTEGER)]
            ''metadata'' [] []),
      (''revoke'', final_op ''POST'' ''/sys/leases/revoke'' ''revoke_leases_openbaocluster'' ''destructive''
            [(''lease_id'', mk_field_rule ''text'' True 500 [] False), (''sync'', FINAL_BOOL)]
            ''metadata'' ''REVOKE lease {target} ON {cluster}'' []),
      (''revoke-prefix'', final_op ''POST'' ''/sys/leases/revoke-prefix/{identifier}'' ''revoke_leases_openbaocluster'' ''destructive''
            [(''sync'', FINAL_BOOL)]
            ''metadata'' ''REVOKE lease prefix {target} ON {cluster}'' ''lease-prefix''),
      (''force-revoke'', final_op ''POST'' ''/sys/leases/revoke-force/{identifier}'' ''force_revoke_leases_openbaocluster'' ''destructive''
            []
            ''metadata'' ''FORCE REVOKE lease prefix {target} ON {cluster}'' ''lease-prefix'')]"

definition FINAL_WRAPPING :: final_resource where
  "FINAL_WRAPPING = mk_final_resource ''wrapping'' ''Response wrapping'' ''tools''
     [(''wrap'', final_op ''POST'' ''/sys/wrapping/wrap'' ''use_wrapping_openbaocluster'' ''write''
            [(''data'', mk_field_rule ''bounded-json-map'' True 2000 [] True),
            (''ttl'', mk_field_rule ''duration'' False 100 [] False)]
            ''material'' [] []),
      (''lookup'', final_op ''POST'' ''/sys/wrapping/lookup'' ''use_wrapping_openbaocluster'' ''read''
            [(''token'', mk_field_rule ''text'' True 20000 [] True)]
            ''metadata'' [] []),
      (''rewrap'', final_op ''POST'' ''/sys/wrapping/rewrap'' ''use_wrapping_openbaocluster'' ''write''
            [(''token'', mk_field_rule ''text'' True 20000 [] True)]
            ''material'' [] []),
      (''unwrap'', final_op ''POST'' ''/sys/wrapping/unwrap'' ''unwrap_material_openbaocluster'' ''write''
            [(''token'', mk_field_rule ''text'' True 20000 [] True)]
            ''material'' [] [])]"

definition FINAL_HASH :: final_resource where
  "FINAL_HASH = mk_final_resource ''hash'' ''Hash tool'' ''tools''
     [(''run'', final_op ''POST'' ''/sys/tools/hash/{identifier}'' ''use_tools_openbaocluster'' ''write''
            [(''input'', mk_field_rule ''base64-text'' True 1000000 [] True),
            (''format'', mk_field_rule ''choice'' False 20 [''hex'', ''base64''] False)]
            ''material'' [] ''algorithm'')]"

definition FINAL_RANDOM :: final_resource where
  "FINAL_RANDOM = mk_final_resource ''random'' ''Random data tool'' ''tools''
     [(''generate'', final_op ''POST'' ''/sys/tools/random/{identifier}'' ''use_tools_openbaocluster'' ''write''
            [(''bytes'', mk_field_rule ''strict-positive-integer'' True 4096 [] False),
            (''format'', mk_field_rule ''choice'' False 20 [''hex'', ''base64''] False)]
            ''material'' [] ''source'')]"

definition FINAL_TOKEN_TOOLS :: final_resource where
  "FINAL_TOKEN_TOOLS = mk_final_resource ''token-tools'' ''Token lookup tool'' ''tools''
     [(''lookup'', final_op ''POST'' ''/auth/token/lookup'' ''manage_tokens_openbaocluster'' ''read''
            [(''token'', mk_field_rule ''text'' True 20000 [] True)]
            ''metadata'' [] [])]"

definition FINAL_UI_HEADERS :: final_resource where
  "FINAL_UI_HEADERS = mk_final_resource ''ui-headers'' ''UI response headers'' ''ui-configuration''
     [(''list'', final_op ''LIST'' ''/sys/config/ui/headers'' ''view_ui_configuration_openbaocluster'' ''read''
            []
            ''metadata'' [] []),
      (''read'', final_op ''GET'' ''/sys/config/ui/headers/{identifier}'' ''view_ui_configuration_openbaocluster'' ''read''
            []
            ''metadata'' [] ''header''),
      (''write'', final_op ''POST'' ''/sys/config/ui/headers/{identifier}'' ''manage_ui_configuration_openbaocluster'' ''write''
            [(''values'', mk_field_rule ''header-values'' True 64 [] False)]
            ''metadata'' ''REPLACE UI header {target} ON {cluster}'' ''header''),
      (''delete'', final_op ''DELETE'' ''/sys/config/ui/headers/{identifier}'' ''manage_ui_configuration_openbaocluster'' ''destructive''
            []
            ''metadata'' ''DELETE UI header {target} ON {cluster}'' ''header'')]"

definition FINAL_RESOURCES :: "(string \<times> final_resource) list" where
  "FINAL_RESOURCES =
     [(''leases'', FINAL_LEASES), (''wrapping'', FINAL_WRAPPING), (''hash'', FINAL_HASH), (''random'', FINAL_RANDOM),
      (''token-tools'', FINAL_TOKEN_TOOLS), (''ui-headers'', FINAL_UI_HEADERS)]"

section \<open>Identifiers and contracts\<close>

definition final_identifier_re :: "string \<Rightarrow> (string \<Rightarrow> bool) option" where
  "final_identifier_re kind =
     map_of [(''lease-prefix'', lease_re), (''header'', header_re), (''algorithm'', algorithm_re), (''source'', source_re)] kind"

definition normalize_final_identifier :: "json \<Rightarrow> string \<Rightarrow> exn + string" where
  "normalize_final_identifier v kind =
     (case v of
        JStr s \<Rightarrow>
          (if s \<noteq> strip s then Inl (CapabilitySchemaError ''The operation identifier is invalid.'')
           else case final_identifier_re kind of
             None \<Rightarrow> Inl (CapabilitySchemaError ''The operation identifier is invalid.'')
           | Some matches \<Rightarrow>
               if \<not> matches s \<or> contains ''..'' s \<or> contains ''//'' s
               then Inl (CapabilitySchemaError ''The operation identifier is invalid.'') else Inr s)
      | _ \<Rightarrow> Inl (CapabilitySchemaError ''The operation identifier is invalid.''))"

definition final_operation_contract :: "json \<Rightarrow> json \<Rightarrow> exn + (final_resource \<times> final_operation)" where
  "final_operation_contract resource_key operation_name =
     (let unsupported = CapabilitySchemaError ''The finalization operation is unsupported.'' in
      case (resource_key, operation_name) of
        (JStr k, JStr n) \<Rightarrow>
          (case map_of FINAL_RESOURCES k of
             None \<Rightarrow> Inl unsupported
           | Some spec \<Rightarrow> (case map_of (fs_operations spec) n of None \<Rightarrow> Inl unsupported | Some c \<Rightarrow> Inr (spec, c)))
      | _ \<Rightarrow> Inl unsupported)"

section \<open>Bounding the data to wrap\<close>

definition wrapping_error :: "string \<Rightarrow> exn" where
  "wrapping_error m = CapabilitySchemaError (''The wrapping data '' @ m)"

definition wrapping_text :: "string \<Rightarrow> string \<Rightarrow> exn + unit" where
  "wrapping_text s label =
     srequire (\<not> (length s > MAX_WRAPPING_JSON_STRING \<or> list_ex control s)) (wrapping_error (''contains an invalid '' @ label @ ''.''))"

definition wrapping_children :: "json \<Rightarrow> exn + json list" where
  "wrapping_children item =
     (case item of
        JObj kvs \<Rightarrow> straverse (\<lambda>(k, x). sbind (wrapping_text k ''object key'') (\<lambda>_. Inr x)) kvs
      | JArr xs \<Rightarrow> Inr xs
      | _ \<Rightarrow> Inr [])"

definition wrapping_scalar :: "json \<Rightarrow> exn + unit" where
  "wrapping_scalar item =
     (case item of
        JStr s \<Rightarrow> wrapping_text s ''string''
      | JFloat r \<Rightarrow> srequire (finite_float r) (wrapping_error ''contains a non-finite number.'')
      | _ \<Rightarrow> Inr ())"

fun pending_size :: "(json \<times> nat) list \<Rightarrow> nat" where
  "pending_size [] = 0"
| "pending_size ((item, _) # rest) = Suc (size item) + pending_size rest"

lemma pending_size_append: "pending_size (a @ b) = pending_size a + pending_size b"
  by (induction a) auto

lemma pending_size_rev: "pending_size (rev xs) = pending_size xs"
  by (induction xs) (auto simp: pending_size_append)

lemma pending_size_array: "pending_size (map (\<lambda>c. (c, d)) xs) < Suc (size (JArr xs))"
  by (induction xs) auto

lemma pending_size_object: "pending_size (map (\<lambda>kx. (snd kx, d)) kvs) < Suc (size (JObj kvs))"
  by (induction kvs) auto

lemma wrapping_members:
  "straverse (\<lambda>(k, x). sbind (wrapping_text k l) (\<lambda>_. Inr x)) kvs = Inr cs \<Longrightarrow> cs = map snd kvs"
  by (induction kvs arbitrary: cs) (auto simp: sbind_Inr split: prod.splits)

lemma wrapping_children_smaller:
  "wrapping_children item = Inr cs \<Longrightarrow> pending_size (map (\<lambda>c. (c, d)) cs) < Suc (size item)"
  using pending_size_array [of d] pending_size_object [of d]
  by (cases item) (auto simp: wrapping_children_def comp_def dest!: wrapping_members)

text \<open>The loop over the stack of pending items; its top is the head of the list.\<close>

function wrapping_loop :: "nat \<Rightarrow> (json \<times> nat) list \<Rightarrow> exn + unit" where
  "wrapping_loop members [] = Inr ()"
| "wrapping_loop members ((item, depth) # pending) =
     (if depth > MAX_WRAPPING_JSON_DEPTH then Inl (wrapping_error ''is nested too deeply.'')
      else sbind (wrapping_children item) (\<lambda>children.
           if members + length children > MAX_WRAPPING_JSON_MEMBERS then Inl (wrapping_error ''contains too many members.'')
           else sbind (wrapping_scalar item) (\<lambda>_.
                wrapping_loop (members + length children) (map (\<lambda>c. (c, Suc depth)) (rev children) @ pending))))"
  by pat_completeness auto
termination
  by (relation "measure (\<lambda>(_, pending). pending_size pending)")
     (auto simp: pending_size_append pending_size_rev simp flip: rev_map dest: wrapping_children_smaller)

definition validate_wrapping_json :: "(json \<Rightarrow> string option) \<Rightarrow> json \<Rightarrow> exn + json" where
  "validate_wrapping_json dumps v =
     (case v of
        JObj _ \<Rightarrow>
          sbind (wrapping_loop 0 [(v, 0)]) (\<lambda>_.
          case dumps v of
            None \<Rightarrow> Inl (PythonError ''ValueError'')
          | Some encoded \<Rightarrow>
              if length encoded > MAX_WRAPPING_JSON_BYTES then Inl (wrapping_error ''exceeds its reviewed size bound.'') else Inr v)
      | _ \<Rightarrow> Inl (wrapping_error ''must be a JSON object.''))"

section \<open>Payloads\<close>

definition ordinary_validation_rules :: "final_operation \<Rightarrow> field_rules" where
  "ordinary_validation_rules c =
     map (\<lambda>(n, r). (n, if fr_kind r = ''duration'' then r\<lparr>fr_kind := ''text''\<rparr>
                      else if fr_kind r = ''header-values'' then r\<lparr>fr_kind := ''string-list''\<rparr> else r))
       (filter (\<lambda>(_, r). fr_kind r \<noteq> ''bounded-json-map'') (fo_rules c))"

definition bounded_fields :: "(json \<Rightarrow> string option) \<Rightarrow> payload \<Rightarrow> final_operation \<Rightarrow> exn + payload" where
  "bounded_fields dumps p c =
     sbind (straverse (\<lambda>(n, r).
              case dict_get p n of
                None \<Rightarrow> if fr_required r then Inl (CapabilitySchemaError ''The operation payload is missing a required field.'')
                        else Inr None
              | Some v \<Rightarrow> sbind (validate_wrapping_json dumps v) (\<lambda>w. Inr (Some (n, w))))
            (filter (\<lambda>(_, r). fr_kind r = ''bounded-json-map'') (fo_rules c)))
       (\<lambda>xs. Inr (List.map_filter id xs))"

definition header_control :: "char \<Rightarrow> bool" where
  "header_control c = (control c \<or> c = CHR 0x7F)"

definition text_item :: "json \<Rightarrow> string" where
  "text_item j = (case j of JStr s \<Rightarrow> s | _ \<Rightarrow> [])"

definition validate_normalized_value :: "json \<Rightarrow> field_rule \<Rightarrow> exn + unit" where
  "validate_normalized_value v r =
     sbind (case v of
              JNum n \<Rightarrow> srequire (\<not> n > int (fr_maximum r)) (CapabilitySchemaError ''The operation payload exceeds its reviewed bound.'')
            | JObj kvs \<Rightarrow> srequire (\<not> length kvs > fr_maximum r) (CapabilitySchemaError ''The operation payload exceeds its reviewed bound.'')
            | _ \<Rightarrow> Inr ()) (\<lambda>_.
     sbind (srequire (fr_kind r = ''duration'' \<longrightarrow> (case v of JStr s \<Rightarrow> duration_re s | _ \<Rightarrow> False))
              (CapabilitySchemaError ''The operation payload contains an invalid duration.'')) (\<lambda>_.
     srequire (fr_kind r = ''header-values'' \<longrightarrow>
                 (case v of JArr xs \<Rightarrow> \<not> list_ex (\<lambda>x. list_ex header_control (text_item x)) xs | _ \<Rightarrow> True))
       (CapabilitySchemaError ''UI header values must not contain control characters.'')))"

definition validate_payload_final :: "(json \<Rightarrow> string option) \<Rightarrow> json \<Rightarrow> final_operation \<Rightarrow> exn + payload" where
  "validate_payload_final dumps v c =
     (case v of
        JObj p \<Rightarrow>
          (let rules = ordinary_validation_rules c; ordinary = filter (\<lambda>(k, _). map_of rules k \<noteq> None) p
           in if unknown_fields p (fo_rules c) \<noteq> []
              then Inl (CapabilitySchemaError ''The operation payload contains unsupported fields.'')
              else sbind (validate_access_payload (JObj ordinary) rules) (\<lambda>normalized.
                   sbind (bounded_fields dumps p c) (\<lambda>bounded.
                   sbind (straverse (\<lambda>(n, x). case map_of (fo_rules c) n of
                            None \<Rightarrow> Inl (PythonError ''KeyError'')
                          | Some r \<Rightarrow> validate_normalized_value x r) (normalized @ bounded)) (\<lambda>_.
                   Inr (normalized @ bounded)))))
      | _ \<Rightarrow> Inl (CapabilitySchemaError ''The operation payload must be an object.''))"

section \<open>The pinned routes\<close>

definition is_text :: "json \<Rightarrow> bool" where
  "is_text j = (case j of JStr _ \<Rightarrow> True | _ \<Rightarrow> False)"

definition text_map :: "json \<Rightarrow> bool" where
  "text_map j = (case j of JObj kvs \<Rightarrow> list_all (\<lambda>(_, x). is_text x) kvs | _ \<Rightarrow> False)"

definition valid_fixture_entry :: "json \<Rightarrow> bool" where
  "valid_fixture_entry j =
     (case j of
        JObj e \<Rightarrow>
          sorted_set (map fst e) = sorted_set [''resource'', ''operation'', ''method'', ''path'', ''operation_ids'', ''query'', ''body'']
          \<and> (case jget e ''operation_ids'' of JArr xs \<Rightarrow> xs \<noteq> [] \<and> list_all (\<lambda>x. is_text x \<and> truthy x) xs | _ \<Rightarrow> False)
          \<and> text_map (jget e ''query'') \<and> text_map (jget e ''body'')
      | _ \<Rightarrow> False)"

definition entry_key :: "json \<Rightarrow> json list" where
  "entry_key j =
     (case j of JObj e \<Rightarrow> map (jget e) [''resource'', ''operation'', ''method'', ''path''] | _ \<Rightarrow> [])"

definition hashable :: "json \<Rightarrow> bool" where
  "hashable j = (case j of JArr _ \<Rightarrow> False | JObj _ \<Rightarrow> False | _ \<Rightarrow> True)"

definition iterated :: "json \<Rightarrow> exn + json list" where
  "iterated j =
     (case j of
        JArr xs \<Rightarrow> Inr xs
      | JObj kvs \<Rightarrow> Inr (map (JStr \<circ> fst) kvs)
      | JStr s \<Rightarrow> Inr (map (\<lambda>c. JStr [c]) s)
      | _ \<Rightarrow> Inl (PythonError ''TypeError''))"

definition expected_routes :: "json list list" where
  "expected_routes =
     concat (map (\<lambda>(_, spec). map (\<lambda>(n, c). [JStr (fs_key spec), JStr n, JStr (fo_method c), JStr (fo_path_template c)])
       (fs_operations spec)) FINAL_RESOURCES)"

definition load_final_route_fixture :: "payload \<Rightarrow> exn + json list" where
  "load_final_route_fixture fixture =
     sbind (iterated (jget_or fixture ''operations'' (JArr []))) (\<lambda>entries.
     let actual = map entry_key (filter valid_fixture_entry entries)
     in if \<not> list_all (list_all hashable) actual then Inl (PythonError ''TypeError'')
        else if jget fixture ''baseline'' \<noteq> JStr ''2.6.2'' \<or> length (remdups actual) \<noteq> length entries
                \<or> set actual \<noteq> set expected_routes
        then Inl (CapabilitySchemaError ''The pinned final-operation route fixture is stale or invalid.'')
        else Inr entries)"

definition text_pairs :: "json \<Rightarrow> (string \<times> string) list" where
  "text_pairs j = (case j of JObj kvs \<Rightarrow> map (\<lambda>(k, x). (k, text_item x)) kvs | _ \<Rightarrow> [])"

definition same_dict :: "(string \<times> string) list \<Rightarrow> (string \<times> string) list \<Rightarrow> bool" where
  "same_dict a b = list_all (\<lambda>k. map_of (rev a) k = map_of (rev b) k) (map fst (a @ b))"

definition last_segment :: "string \<Rightarrow> string" where
  "last_segment p = rev (takeWhile (\<lambda>c. c \<noteq> CHR ''/'') (rev p))"

definition strip_braces :: "string \<Rightarrow> string" where
  "strip_braces s =
     rev (dropWhile (\<lambda>c. c \<in> set ''{}'') (rev (dropWhile (\<lambda>c. c \<in> set ''{}'') s)))"

definition metadata_matches :: "json \<Rightarrow> final_operation \<Rightarrow> discovered_operation \<Rightarrow> bool" where
  "metadata_matches entry c candidate =
     (case entry of
        JObj e \<Rightarrow>
          (let query = text_pairs (jget e ''query'');
               ids = (case jget e ''operation_ids'' of JArr xs \<Rightarrow> map text_item xs | _ \<Rightarrow> []);
               expected_path_count = (if op_id candidate = ''leases-look-up'' then 0
                                      else if contains ''{identifier}'' (fo_path_template c) then 1 else 0)
           in op_id candidate \<in> set ids
              \<and> same_dict (op_query_parameter_types candidate) (map (\<lambda>(n, k). (n, removesuffix ''!'' k)) query)
              \<and> set (op_required_query_parameters candidate) = set (map fst (filter (\<lambda>(_, k). suffix ''!'' k) query))
              \<and> same_dict (op_body_field_types candidate) (text_pairs (jget e ''body''))
              \<and> op_required_body_fields candidate = []
              \<and> length (op_path_parameters candidate) = expected_path_count
              \<and> set (op_required_path_parameters candidate) = set (op_path_parameters candidate)
              \<and> list_all (\<lambda>(_, k). k = ''string'') (op_path_parameter_types candidate))
      | _ \<Rightarrow> False)"

definition lease_listing :: string where
  "lease_listing = ''/sys/leases/lookup/{identifier}''"

text \<open>The entry \<open>next(...)\<close> takes: the first with the operation's method and path; none is \<open>StopIteration\<close>.\<close>

definition fixture_entry :: "json list \<Rightarrow> final_operation \<Rightarrow> json option" where
  "fixture_entry entries c =
     List.find (\<lambda>j. drop 2 (entry_key j) = [JStr (fo_method c), JStr (fo_path_template c)]) entries"

definition runtime_matches :: "payload \<Rightarrow> capability_document \<Rightarrow> final_operation \<Rightarrow> exn + discovered_operation list" where
  "runtime_matches fixture document c =
     sbind (load_final_route_fixture fixture) (\<lambda>entries.
     case fixture_entry entries c of
       None \<Rightarrow> Inl (PythonError ''StopIteration'')
     | Some entry \<Rightarrow>
         let shapes = operation_shape (replace_all ''{identifier}'' ''{name}'' (fo_path_template c))
                      # (if fo_path_template c = lease_listing then [operation_shape ''/sys/leases/lookup/''] else [])
         in Inr (filter (\<lambda>candidate.
              (op_method candidate = fo_method c \<or> (fo_method c = ''LIST'' \<and> op_method candidate = ''GET''))
              \<and> operation_shape (op_path_template candidate) \<in> set shapes
              \<and> (fo_identifier_kind c = ''source'' \<longrightarrow>
                   lower (strip_braces (last_segment (op_path_template candidate))) \<in> {''source'', ''name''})
              \<and> metadata_matches entry c candidate) (cd_operations document)))"

definition advertised :: "payload \<Rightarrow> capability_document \<Rightarrow> final_operation \<Rightarrow> exn + bool" where
  "advertised fixture document c =
     sbind (runtime_matches fixture document c) (\<lambda>ms.
     Inr (length ms = (if fo_path_template c = lease_listing then 2 else 1)))"

record conformance_entry =
  ce_resource :: string
  ce_operation :: string
  ce_advertised :: bool
  ce_duplicates :: nat
  ce_unclassified :: nat

record conformance_result =
  cr_product_version :: string
  cr_operations :: "conformance_entry list"
  cr_missing :: "conformance_entry list"
  cr_duplicates :: "conformance_entry list"
  cr_unclassified :: "conformance_entry list"
  cr_stale :: bool
  cr_conformant :: bool

definition entry_of ::
  "payload \<Rightarrow> capability_document \<Rightarrow> final_resource \<times> string \<times> final_operation \<Rightarrow> exn + conformance_entry" where
  "entry_of fixture document = (\<lambda>(spec, n, c).
     sbind (runtime_matches fixture document c) (\<lambda>ms.
     let expected = (if fs_key spec = ''leases'' \<and> n = ''list'' then 2 else 1)
     in Inr \<lparr>ce_resource = fs_key spec, ce_operation = n, ce_advertised = (length ms \<ge> expected),
             ce_duplicates = length ms - expected, ce_unclassified = length (filter (\<lambda>m. \<not> op_classified m) ms)\<rparr>))"

definition final_routes :: "(final_resource \<times> string \<times> final_operation) list" where
  "final_routes = concat (map (\<lambda>(_, spec). map (\<lambda>(n, c). (spec, n, c)) (fs_operations spec)) FINAL_RESOURCES)"

definition conformance_report :: "payload \<Rightarrow> capability_document \<Rightarrow> exn + conformance_result" where
  "conformance_report fixture document =
     sbind (load_final_route_fixture fixture) (\<lambda>_.
     sbind (straverse (entry_of fixture document) final_routes) (\<lambda>entries.
     let missing = filter (\<lambda>e. \<not> ce_advertised e) entries;
         duplicates = filter (\<lambda>e. ce_duplicates e \<noteq> 0) entries;
         unclassified = filter (\<lambda>e. ce_unclassified e \<noteq> 0) entries;
         stale = cd_product_version document \<noteq> ''2.6.2''
     in Inr \<lparr>cr_product_version = cd_product_version document, cr_operations = entries, cr_missing = missing,
             cr_duplicates = duplicates, cr_unclassified = unclassified, cr_stale = stale,
             cr_conformant = (missing = [] \<and> duplicates = [] \<and> unclassified = [] \<and> \<not> stale)\<rparr>))"

end
