(* ===== verification/Admin_Engines.thy ===== *)
theory Admin_Engines
  imports Admin_Schema Python_Net
begin

text \<open>
  Secret-engine administration and the mounted-operation explorer (\<^verbatim>\<open>administration/engines.py\<close>): mount
  metadata, the validation of enable, tune and operation bodies, the classification of what a runtime
  advertises, and the compilation of an admitted template into a path. \<open>dumps\<close> is the JSON encoder (its
  result is the encoded bytes; \<open>None\<close> when it raises).
\<close>

definition MAX_ENGINE_MOUNTS :: nat where "MAX_ENGINE_MOUNTS = 512"
definition MAX_QUERY_BYTES :: nat where "MAX_QUERY_BYTES = 65536"
definition MAX_RESOURCE_PATH :: nat where "MAX_RESOURCE_PATH = 1024"
definition MAX_REQUEST_BYTES :: nat where "MAX_REQUEST_BYTES = 1000000"
definition MAX_VALUE_DEPTH :: nat where "MAX_VALUE_DEPTH = 20"
definition MAX_VALUE_FIELDS :: nat where "MAX_VALUE_FIELDS = 2000"
definition MAX_VALUE_ITEMS :: nat where "MAX_VALUE_ITEMS = 2000"
definition MAX_VALUE_STRING :: nat where "MAX_VALUE_STRING = 100000"

definition MOUNT_TYPES :: "string list" where
  "MOUNT_TYPES =
     [''ad'', ''alicloud'', ''aws'', ''azure'', ''consul'', ''database'', ''gcp'', ''generic'', ''kv'', ''kubernetes'', ''ldap'',
      ''mongodb'', ''nomad'', ''openldap'', ''pki'', ''rabbitmq'', ''ssh'', ''terraform'', ''totp'', ''transit'']"

definition GENERIC_METHODS :: "string list" where
  "GENERIC_METHODS = [''GET'', ''LIST'', ''POST'', ''PUT'', ''PATCH'', ''DELETE'']"

definition DESTRUCTIVE_PATH_SEGMENTS :: "string list" where
  "DESTRUCTIVE_PATH_SEGMENTS = [''delete'', ''destroy'', ''revoke'']"

section \<open>Patterns\<close>

definition engine_mount_re :: "string \<Rightarrow> bool" where
  "engine_mount_re = word_re alnum (one_of alnum ''_.-'') 127"

definition resource_segment_re :: "string \<Rightarrow> bool" where
  "resource_segment_re = word_re alnum (one_of alnum ''_.:@+~-'') 199"

definition engine_key_re :: "string \<Rightarrow> bool" where
  "engine_key_re = word_re alnum (one_of alnum ''_.:@/-'') 499"

definition migration_id_re :: "string \<Rightarrow> bool" where
  "migration_id_re = word_re alnum (one_of alnum ''_.:-'') 199"

definition engine_duration_re :: "string \<Rightarrow> bool" where
  "engine_duration_re s =
     (let ds = takeWhile digit s; unit = drop (length ds) s
      in (ds = ''0'' \<or> (ds \<noteq> [] \<and> hd ds \<noteq> CHR ''0'' \<and> length ds \<le> 19))
         \<and> unit \<in> {[], ''ns'', ''us'', [CHR 0xB5, CHR ''s''], ''ms'', ''s'', ''m'', ''h'', ''d''})"

text \<open>The segments of a template after its mount placeholder: a literal, or a name in braces.\<close>

definition brace_name :: "string \<Rightarrow> string option" where
  "brace_name seg =
     (if prefix ''{'' seg \<and> suffix ''}'' seg \<and> length seg > 2
         \<and> word_re alpha identifier_char 63 (butlast (tl seg)) then Some (butlast (tl seg)) else None)"

definition template_segment :: "string \<Rightarrow> bool" where
  "template_segment seg = ((seg \<noteq> [] \<and> list_all (one_of alnum ''_.:@+~-'') seg) \<or> brace_name seg \<noteq> None)"

definition mounted_template_re :: "string \<Rightarrow> bool" where
  "mounted_template_re t =
     (t = ''/{secret_mount_path}''
      \<or> (prefix ''/{secret_mount_path}/'' t \<and> list_all template_segment (split_on (CHR ''/'') (drop 21 t))))"

definition template_placeholders :: "string \<Rightarrow> string list" where
  "template_placeholders t = List.map_filter brace_name (split_on (CHR ''/'') t)"

section \<open>Records\<close>

record secret_engine_mount =
  sem_path :: string
  sem_engine_type :: string
  sem_accessor :: string
  sem_description :: string
  sem_local :: bool
  sem_seal_wrap :: bool
  sem_default_lease_ttl :: int
  sem_max_lease_ttl :: int
  sem_plugin_version :: string
  sem_kv_version :: nat

record explorer_operation =
  ex_operation_key :: string
  ex_operation_id :: string
  ex_method :: string
  ex_path_template :: string
  ex_mount_parameter :: string
  ex_summary :: string
  ex_risk_level :: string
  ex_response_class :: string
  ex_required_permission :: string
  ex_executable :: bool
  ex_query_parameters :: "string list"
  ex_required_query_parameters :: "string list"
  ex_path_parameters :: "string list"
  ex_required_path_parameters :: "string list"
  ex_path_parameter_types :: "(string \<times> string) list"
  ex_body_fields :: "string list"
  ex_required_body_fields :: "string list"
  ex_query_parameter_types :: "(string \<times> string) list"
  ex_body_field_types :: "(string \<times> string) list"

section \<open>Identifiers\<close>

definition engine_error :: "string \<Rightarrow> exn" where
  "engine_error m = CapabilitySchemaError (''The secret-engine '' @ m)"

definition mounted_error :: "string \<Rightarrow> exn" where
  "mounted_error m = CapabilitySchemaError (''The mounted '' @ m)"

definition strip_of :: "char \<Rightarrow> string \<Rightarrow> string" where
  "strip_of c s = rstrip_of c (dropWhile (\<lambda>x. x = c) s)"

definition normalize_engine_mount_path :: "json \<Rightarrow> exn + string" where
  "normalize_engine_mount_path v =
     (case v of
        JStr s \<Rightarrow> (let n = strip_of (CHR ''/'') (strip s)
                  in if engine_mount_re n then Inr n else Inl (engine_error ''mount path is invalid.''))
      | _ \<Rightarrow> Inl (engine_error ''mount path is invalid.''))"

definition normalize_resource_path :: "json \<Rightarrow> exn + string" where
  "normalize_resource_path v =
     (case v of
        JStr s \<Rightarrow>
          if s = [] \<or> length s > MAX_RESOURCE_PATH then Inl (mounted_error ''resource path is invalid.'')
          else if s \<noteq> strip s \<or> prefix ''/'' s \<or> suffix ''/'' s \<or> contains ''//'' s
          then Inl (mounted_error ''resource path is invalid.'')
          else if list_ex (\<lambda>seg. \<not> resource_segment_re seg \<or> seg \<in> {''.'', ''..''}) (split_on (CHR ''/'') s)
          then Inl (mounted_error ''resource path is invalid.'') else Inr s
      | _ \<Rightarrow> Inl (mounted_error ''resource path is invalid.''))"

definition normalize_migration_id :: "json \<Rightarrow> exn + string" where
  "normalize_migration_id v =
     (case v of
        JStr s \<Rightarrow> if migration_id_re s then Inr s
                 else Inl (CapabilitySchemaError ''The remount migration identifier is invalid.'')
      | _ \<Rightarrow> Inl (CapabilitySchemaError ''The remount migration identifier is invalid.''))"

section \<open>Mount metadata\<close>

definition bad_metadata_of :: "string \<Rightarrow> exn" where
  "bad_metadata_of f = CapabilitySchemaError (''OpenBao returned invalid '' @ f @ '' metadata.'')"

definition public_text :: "json \<Rightarrow> string \<Rightarrow> nat \<Rightarrow> exn + string" where
  "public_text v f maximum =
     (case v of
        JStr s \<Rightarrow> if length s > maximum \<or> CHR 0x00 \<in> set s then Inl (bad_metadata_of f) else Inr s
      | _ \<Rightarrow> Inl (bad_metadata_of f))"

definition public_integer :: "json \<Rightarrow> string \<Rightarrow> exn + int" where
  "public_integer v f =
     (case v of JNum n \<Rightarrow> if n < 0 then Inl (bad_metadata_of f) else Inr n | _ \<Rightarrow> Inl (bad_metadata_of f))"

definition json_object :: "json \<Rightarrow> exn \<Rightarrow> exn + payload" where
  "json_object v e = (case v of JObj kvs \<Rightarrow> Inr kvs | _ \<Rightarrow> Inl e)"

definition kv_version_of :: "json \<Rightarrow> exn + nat" where
  "kv_version_of v =
     (if v = JStr [] then Inr 0 else if v = JStr ''1'' then Inr 1 else if v = JStr ''2'' then Inr 2
      else Inl (bad_metadata_of ''KV engine''))"

definition normalize_engine_mount :: "string \<times> json \<Rightarrow> exn + secret_engine_mount" where
  "normalize_engine_mount kv =
     sbind (json_object (snd kv) (bad_metadata_of ''secret-engine'')) (\<lambda>m.
     sbind (normalize_engine_mount_path (JStr (fst kv))) (\<lambda>path.
     sbind (json_object (jor (jget m ''config'') (JObj [])) (bad_metadata_of ''secret-engine'')) (\<lambda>cfg.
     sbind (json_object (jor (jget m ''options'') (JObj [])) (bad_metadata_of ''secret-engine'')) (\<lambda>opts.
     sbind (kv_version_of (if jget m ''type'' = JStr ''kv'' then jget_or opts ''version'' (JStr []) else JStr [])) (\<lambda>kv_version.
     sbind (public_text (jget_or m ''type'' (JStr [])) ''engine type'' 100) (\<lambda>ty.
     sbind (public_text (jget_or m ''accessor'' (JStr [])) ''engine accessor'' 200) (\<lambda>accessor.
     sbind (public_text (jget_or m ''description'' (JStr [])) ''engine description'' 500) (\<lambda>description.
     sbind (public_integer (jget_or cfg ''default_lease_ttl'' (JNum 0)) ''default lease TTL'') (\<lambda>default_ttl.
     sbind (public_integer (jget_or cfg ''max_lease_ttl'' (JNum 0)) ''maximum lease TTL'') (\<lambda>max_ttl.
     sbind (public_text (jget_or m ''plugin_version'' (JStr [])) ''plugin version'' 100) (\<lambda>version.
     Inr \<lparr>sem_path = path, sem_engine_type = ty, sem_accessor = accessor, sem_description = description,
          sem_local = (jget_or m ''local'' (JBool False) = JBool True),
          sem_seal_wrap = (jget_or m ''seal_wrap'' (JBool False) = JBool True),
          sem_default_lease_ttl = default_ttl, sem_max_lease_ttl = max_ttl, sem_plugin_version = version,
          sem_kv_version = kv_version\<rparr>)))))))))))"

definition normalize_secret_engine_mounts :: "json \<Rightarrow> exn + secret_engine_mount list" where
  "normalize_secret_engine_mounts v =
     (case (case v of JObj p \<Rightarrow> jget p ''data'' | _ \<Rightarrow> JNull) of
        JObj d \<Rightarrow>
          if length d > MAX_ENGINE_MOUNTS then Inl (bad_metadata_of ''secret-engine'')
          else sbind (straverse normalize_engine_mount d) (\<lambda>ms. Inr (sort_key sem_path ms))
      | _ \<Rightarrow> Inl (bad_metadata_of ''secret-engine''))"

section \<open>Bounded JSON bodies\<close>

record json_counters =
  jc_fields :: nat
  jc_items :: nat
  jc_bytes :: nat

definition body_error :: "string \<Rightarrow> exn" where
  "body_error m = CapabilitySchemaError (''The OpenBao request body '' @ m)"

text \<open>The length of the UTF-8 encoding.\<close>

definition utf8_length :: "string \<Rightarrow> nat" where
  "utf8_length s = sum_list (map (\<lambda>c. if (of_char c :: nat) < 128 then 1 else 2) s)"

definition validate_body_scalar :: "json \<Rightarrow> json_counters \<Rightarrow> exn + json_counters" where
  "validate_body_scalar v c =
     (case v of
        JStr s \<Rightarrow> if length s > MAX_VALUE_STRING \<or> CHR 0x00 \<in> set s then Inl (body_error ''contains an invalid string.'')
                 else Inr (c\<lparr>jc_bytes := jc_bytes c + utf8_length s\<rparr>)
      | JFloat r \<Rightarrow> if finite_float r then Inr c else Inl (body_error ''contains an unsupported value.'')
      | _ \<Rightarrow> Inr c)"

fun scan :: "('a \<Rightarrow> 's \<Rightarrow> 'e + 's) \<Rightarrow> 'a list \<Rightarrow> 's \<Rightarrow> 'e + 's" where
  "scan f [] s = Inr s"
| "scan f (x # xs) s = sbind (f x s) (scan f xs)"

lemma scan_cong [fundef_cong]:
  "xs = ys \<Longrightarrow> s = t \<Longrightarrow> (\<And>x u. x \<in> set ys \<Longrightarrow> f x u = g x u) \<Longrightarrow> scan f xs s = scan g ys t"
  by (induction xs arbitrary: ys s t) (auto simp: sbind_def split: sum.splits)

function validate_body_value :: "json \<Rightarrow> nat \<Rightarrow> json_counters \<Rightarrow> exn + json_counters" where
  "validate_body_value v depth c =
     (if depth > MAX_VALUE_DEPTH then Inl (body_error ''is nested too deeply.'')
      else case v of
        JObj kvs \<Rightarrow>
          (let c1 = c\<lparr>jc_fields := jc_fields c + length kvs\<rparr>
           in if jc_fields c1 > MAX_VALUE_FIELDS then Inl (body_error ''has too many fields.'')
              else scan (\<lambda>kx c2. if \<not> engine_key_re (fst kx) then Inl (body_error ''contains an invalid field name.'')
                     else validate_body_value (snd kx) (Suc depth) (c2\<lparr>jc_bytes := jc_bytes c2 + length (fst kx)\<rparr>)) kvs c1)
      | JArr xs \<Rightarrow>
          (let c1 = c\<lparr>jc_items := jc_items c + length xs\<rparr>
           in if jc_items c1 > MAX_VALUE_ITEMS then Inl (body_error ''has too many list items.'')
              else scan (\<lambda>x c2. validate_body_value x (Suc depth) c2) xs c1)
      | _ \<Rightarrow> validate_body_scalar v c)"
  by pat_completeness auto
termination
  by (relation "measure (\<lambda>(_, depth, _). Suc MAX_VALUE_DEPTH - depth)") auto

declare validate_body_value.simps [simp del]

definition validate_bounded_json :: "(json \<Rightarrow> string option) \<Rightarrow> json \<Rightarrow> string list option \<Rightarrow> exn + payload" where
  "validate_bounded_json dumps v allowed =
     (case v of
        JObj p \<Rightarrow>
          if (case allowed of None \<Rightarrow> False | Some names \<Rightarrow> list_ex (\<lambda>k. k \<notin> set names) (map fst p))
          then Inl (body_error ''contains an undeclared field.'')
          else (case dumps v of
            None \<Rightarrow> Inl (body_error ''contains an unsupported value.'')
          | Some encoded \<Rightarrow>
              if length encoded > MAX_REQUEST_BYTES then Inl (body_error ''is too large.'')
              else sbind (validate_body_value v 0 \<lparr>jc_fields = 0, jc_items = 0, jc_bytes = 0\<rparr>) (\<lambda>c.
                   if jc_bytes c > MAX_REQUEST_BYTES then Inl (body_error ''is too large.'') else Inr p))
      | _ \<Rightarrow> Inl (body_error ''must be an object.''))"

section \<open>Enable and tune bodies\<close>

definition engine_duration_ok :: "json \<Rightarrow> bool \<Rightarrow> bool" where
  "engine_duration_ok v allow_integer =
     (case v of
        JNum n \<Rightarrow> allow_integer \<and> 0 \<le> n \<and> n \<le> 9223372036854775807
      | JStr s \<Rightarrow> engine_duration_re s
      | _ \<Rightarrow> False)"

definition validate_duration :: "json \<Rightarrow> bool \<Rightarrow> exn + unit" where
  "validate_duration v allow_integer = srequire (engine_duration_ok v allow_integer) (engine_error ''duration is invalid.'')"

text \<open>A check of each named field that is present.\<close>

definition each_present :: "payload \<Rightarrow> string list \<Rightarrow> (json \<Rightarrow> exn + unit) \<Rightarrow> exn + unit" where
  "each_present p names f =
     scan (\<lambda>n _. case dict_get p n of None \<Rightarrow> Inr () | Some v \<Rightarrow> f v) names ()"

definition text_within :: "nat \<Rightarrow> json \<Rightarrow> bool" where
  "text_within m v = (case v of JStr s \<Rightarrow> length s \<le> m \<and> CHR 0x00 \<notin> set s | _ \<Rightarrow> False)"

definition is_bool_json :: "json \<Rightarrow> bool" where
  "is_bool_json v = (case v of JBool _ \<Rightarrow> True | _ \<Rightarrow> False)"

definition validate_string_mapping :: "string \<Rightarrow> json \<Rightarrow> exn + unit" where
  "validate_string_mapping f v =
     srequire (case v of
                 JObj kvs \<Rightarrow> length kvs \<le> 100 \<and> list_all (\<lambda>(k, x). engine_key_re k \<and> text_within 2000 x) kvs
               | _ \<Rightarrow> False) (engine_error (f @ '' are invalid.''))"

definition tune_invalid :: exn where
  "tune_invalid = engine_error ''tune configuration is invalid.''"

definition lockout_invalid :: exn where
  "lockout_invalid = engine_error ''user lockout configuration is invalid.''"

definition validate_tune_list :: "json \<Rightarrow> exn + unit" where
  "validate_tune_list v =
     srequire (case v of JArr xs \<Rightarrow> length xs \<le> 100 \<and> list_all (text_within 500) xs | _ \<Rightarrow> False) tune_invalid"

definition validate_user_lockout_config :: "json \<Rightarrow> exn + unit" where
  "validate_user_lockout_config v =
     (case v of
        JObj p \<Rightarrow>
          if list_ex (\<lambda>k. k \<notin> {''lockout_counter_reset_duration'', ''lockout_threshold'', ''lockout_duration'',
                                ''lockout_disable''}) (map fst p) then Inl lockout_invalid
          else sbind (each_present p [''lockout_threshold''] (\<lambda>x.
                 srequire (case x of JNum n \<Rightarrow> 0 \<le> n \<and> n \<le> 18446744073709551615 | _ \<Rightarrow> False) lockout_invalid)) (\<lambda>_.
               sbind (each_present p [''lockout_counter_reset_duration'', ''lockout_duration''] (\<lambda>x. validate_duration x False)) (\<lambda>_.
               each_present p [''lockout_disable''] (\<lambda>x. srequire (is_bool_json x) lockout_invalid)))
      | _ \<Rightarrow> Inl lockout_invalid)"

definition tune_list_fields :: "string list" where
  "tune_list_fields =
     [''audit_non_hmac_request_keys'', ''audit_non_hmac_response_keys'', ''passthrough_request_headers'',
      ''allowed_response_headers'', ''allowed_managed_keys'']"

definition validate_tune_fields :: "payload \<Rightarrow> exn + unit" where
  "validate_tune_fields p =
     sbind (each_present p [''description'', ''listing_visibility'', ''token_type'', ''plugin_version'', ''plugin_name'']
              (\<lambda>x. srequire (text_within 2000 x) tune_invalid)) (\<lambda>_.
     sbind (each_present p [''default_lease_ttl'', ''max_lease_ttl''] (\<lambda>x. validate_duration x False)) (\<lambda>_.
     sbind (srequire (jget p ''listing_visibility'' \<in> {JNull, JStr [], JStr ''hidden'', JStr ''unauth''}) tune_invalid) (\<lambda>_.
     sbind (srequire (jget p ''token_type'' \<in> {JNull, JStr [], JStr ''default-service'', JStr ''default-batch'', JStr ''service'',
              JStr ''batch''}) tune_invalid) (\<lambda>_.
     sbind (each_present p tune_list_fields validate_tune_list) (\<lambda>_.
     sbind (each_present p [''options''] (validate_string_mapping ''options'')) (\<lambda>_.
     each_present p [''user_lockout_config''] validate_user_lockout_config))))))"

definition mount_config_fields :: "string list" where
  "mount_config_fields =
     [''default_lease_ttl'', ''max_lease_ttl'', ''force_no_cache'', ''audit_non_hmac_request_keys'',
      ''audit_non_hmac_response_keys'', ''listing_visibility'', ''passthrough_request_headers'', ''allowed_response_headers'',
      ''allowed_managed_keys'', ''token_type'', ''user_lockout_config'', ''plugin_version'', ''plugin_name'']"

definition validate_mount_config :: "json \<Rightarrow> exn + unit" where
  "validate_mount_config v =
     (case v of
        JObj p \<Rightarrow>
          if list_ex (\<lambda>k. k \<notin> set mount_config_fields) (map fst p) then Inl (engine_error ''config is invalid.'')
          else sbind (each_present p [''default_lease_ttl'', ''max_lease_ttl''] (\<lambda>x. validate_duration x True)) (\<lambda>_.
               sbind (each_present p [''force_no_cache''] (\<lambda>x. srequire (is_bool_json x) (engine_error ''config is invalid.''))) (\<lambda>_.
               validate_tune_fields (filter (\<lambda>(k, _). k \<notin> {''default_lease_ttl'', ''max_lease_ttl''}) p)))
      | _ \<Rightarrow> Inl (engine_error ''config is invalid.''))"

definition enable_fields :: "string list" where
  "enable_fields =
     [''type'', ''description'', ''local'', ''seal_wrap'', ''external_entropy_access'', ''options'', ''config'', ''plugin_name'',
      ''plugin_version'']"

definition named_field_checks :: "payload \<Rightarrow> (string \<times> string) list \<Rightarrow> (json \<Rightarrow> bool) \<Rightarrow> exn + unit" where
  "named_field_checks p names ok =
     scan (\<lambda>(n, label) _. case dict_get p n of
             None \<Rightarrow> Inr () | Some v \<Rightarrow> srequire (ok v) (engine_error (label @ '' is invalid.''))) names ()"

definition validate_enable_payload :: "(json \<Rightarrow> string option) \<Rightarrow> json \<Rightarrow> exn + payload" where
  "validate_enable_payload dumps v =
     sbind (validate_bounded_json dumps v (Some enable_fields)) (\<lambda>p.
     sbind (srequire (case jget p ''type'' of JStr s \<Rightarrow> s \<in> set MOUNT_TYPES | _ \<Rightarrow> False)
              (engine_error ''type is not in the reviewed registry.'')) (\<lambda>_.
     sbind (named_field_checks p [(''description'', ''description''), (''plugin_name'', ''plugin name''),
                                  (''plugin_version'', ''plugin version'')]
              (\<lambda>x. case x of JStr s \<Rightarrow> length s \<le> 500 | _ \<Rightarrow> False)) (\<lambda>_.
     sbind (named_field_checks p [(''local'', ''local''), (''seal_wrap'', ''seal wrap''),
                                  (''external_entropy_access'', ''external entropy access'')] is_bool_json) (\<lambda>_.
     sbind (each_present p [''options''] (validate_string_mapping ''options'')) (\<lambda>_.
     sbind (each_present p [''config''] validate_mount_config) (\<lambda>_. Inr p))))))"

definition tune_fields :: "string list" where
  "tune_fields =
     [''default_lease_ttl'', ''max_lease_ttl'', ''description'', ''audit_non_hmac_request_keys'',
      ''audit_non_hmac_response_keys'', ''listing_visibility'', ''passthrough_request_headers'', ''allowed_response_headers'',
      ''token_type'', ''plugin_version'', ''user_lockout_config'', ''options'']"

definition validate_tune_payload :: "(json \<Rightarrow> string option) \<Rightarrow> json \<Rightarrow> exn + payload" where
  "validate_tune_payload dumps v =
     sbind (validate_bounded_json dumps v (Some tune_fields)) (\<lambda>p.
     sbind (srequire (p \<noteq> []) (CapabilitySchemaError ''At least one reviewed tune field is required.'')) (\<lambda>_.
     sbind (validate_tune_fields p) (\<lambda>_. Inr p)))"

section \<open>The explorer's registry\<close>

definition generic_template :: "discovered_operation \<Rightarrow> bool" where
  "generic_template p =
     (op_family p = ''mounted-secrets'' \<and> mounted_template_re (op_path_template p)
      \<and> set (op_path_parameters p) = set (template_placeholders (op_path_template p))
      \<and> set (op_required_path_parameters p) = set (template_placeholders (op_path_template p)))"

definition mounted_operation_risk :: "discovered_operation \<Rightarrow> string" where
  "mounted_operation_risk p =
     (if op_method p = ''DELETE'' then ''destructive''
      else if op_method p \<in> {''POST'', ''PUT'', ''PATCH''}
              \<and> list_ex (\<lambda>seg. lower seg \<in> set DESTRUCTIVE_PATH_SEGMENTS) (split_on (CHR ''/'') (op_path_template p))
      then ''destructive''
      else if op_method p \<in> {''GET'', ''LIST''} then ''read'' else ''write'')"

definition explorer_permission :: "string \<Rightarrow> string" where
  "explorer_permission risk =
     (if risk = ''read'' then ''netbox_openbao.reveal_secret_operations_openbaocluster''
      else if risk = ''destructive'' then ''netbox_openbao.delete_secret_operations_openbaocluster''
      else ''netbox_openbao.execute_secret_operations_openbaocluster'')"

definition as_explorer_operation :: "discovered_operation \<Rightarrow> explorer_operation" where
  "as_explorer_operation p =
     \<lparr>ex_operation_key = operation_key p, ex_operation_id = op_id p, ex_method = op_method p,
      ex_path_template = op_path_template p, ex_mount_parameter = op_mount_parameter p, ex_summary = op_summary p,
      ex_risk_level = mounted_operation_risk p, ex_response_class = ''sensitive-material'',
      ex_required_permission = explorer_permission (mounted_operation_risk p),
      ex_executable = (op_method p \<in> set GENERIC_METHODS \<and> generic_template p),
      ex_query_parameters = op_query_parameters p, ex_required_query_parameters = op_required_query_parameters p,
      ex_path_parameters = op_path_parameters p, ex_required_path_parameters = op_required_path_parameters p,
      ex_path_parameter_types = op_path_parameter_types p, ex_body_fields = op_body_fields p,
      ex_required_body_fields = op_required_body_fields p, ex_query_parameter_types = op_query_parameter_types p,
      ex_body_field_types = op_body_field_types p\<rparr>"

definition classify_explorer_operations :: "capability_document \<Rightarrow> explorer_operation list" where
  "classify_explorer_operations document =
     sort_key (\<lambda>x. (\<not> ex_executable x, ex_operation_key x)) (map as_explorer_operation (cd_operations document))"

definition resolve_explorer_operation :: "capability_document \<Rightarrow> string \<Rightarrow> exn + explorer_operation" where
  "resolve_explorer_operation document k =
     (case filter (\<lambda>x. ex_operation_key x = k) (classify_explorer_operations document) of
        [x] \<Rightarrow> if ex_executable x then Inr x
               else Inl (CapabilitySchemaError ''The selected operation is not in the reviewed executable registry.'')
      | _ \<Rightarrow> Inl (CapabilitySchemaError ''The selected operation is not in the reviewed executable registry.''))"

section \<open>Compiling a template\<close>

definition quote_segments :: "string \<Rightarrow> string" where
  "quote_segments s = join_with ''/'' (map (quote '':@+'') (split_on (CHR ''/'') s))"

definition compile_mounted_path :: "json \<Rightarrow> json \<Rightarrow> exn + string" where
  "compile_mounted_path mount_path resource_path =
     sbind (normalize_engine_mount_path mount_path) (\<lambda>mount.
     sbind (normalize_resource_path resource_path) (\<lambda>resource.
     Inr (''/'' @ quote [] mount @ ''/'' @ quote_segments resource)))"

definition mount_parameter_for_path :: "json \<Rightarrow> exn + string" where
  "mount_parameter_for_path mount_path =
     sbind (normalize_engine_mount_path mount_path) (\<lambda>mount.
     Inr (map (\<lambda>c. if alnum c then c else CHR ''_'') mount @ ''_mount_path''))"

definition int_text :: "int \<Rightarrow> string" where
  "int_text n = (if n < 0 then CHR ''-'' # digits (nat (- n)) else digits (nat n))"

definition path_parameter_text :: "json \<Rightarrow> string option" where
  "path_parameter_text v =
     (case v of
        JStr s \<Rightarrow> Some s
      | JBool b \<Rightarrow> Some (if b then ''true'' else ''false'')
      | JNum n \<Rightarrow> Some (int_text n)
      | JFloat r \<Rightarrow> if finite_float r then Some r else None
      | _ \<Rightarrow> None)"

definition operation_replacements ::
  "string list \<Rightarrow> json \<Rightarrow> json \<Rightarrow> payload \<Rightarrow> exn + (string \<times> string) list" where
  "operation_replacements placeholders mount_path resource_path path_parameters =
     sbind (normalize_engine_mount_path mount_path) (\<lambda>mount.
     sbind (if truthy resource_path then normalize_resource_path resource_path else Inr []) (\<lambda>resource.
     let expected = set placeholders - {''secret_mount_path'', ''path''}
     in if set (map fst path_parameters) \<noteq> expected \<or> (''path'' \<in> set placeholders) \<noteq> (resource \<noteq> [])
        then Inl (mounted_error ''operation path parameters do not match the reviewed template.'')
        else sbind (straverse (\<lambda>(n, v). case path_parameter_text v of
                      None \<Rightarrow> Inl (mounted_error ''operation path parameters are invalid.'')
                    | Some s \<Rightarrow> if \<not> resource_segment_re s \<or> s \<in> {''.'', ''..''}
                                then Inl (mounted_error ''operation path parameters are invalid.'')
                                else Inr (n, quote '':@+'' s)) path_parameters) (\<lambda>rest.
             Inr ((''secret_mount_path'', quote [] mount)
                  # (if ''path'' \<in> set placeholders then [(''path'', quote_segments resource)] else []) @ rest))))"

definition compile_operation_path :: "json \<Rightarrow> json \<Rightarrow> json \<Rightarrow> json \<Rightarrow> exn + string" where
  "compile_operation_path template mount_path resource_path path_parameters =
     (case template of
        JStr t \<Rightarrow>
          if \<not> mounted_template_re t then Inl (mounted_error ''operation template is outside the reviewed registry.'')
          else (case path_parameters of
            JObj ps \<Rightarrow>
              if length ps > 16 then Inl (mounted_error ''operation path parameters are invalid.'')
              else sbind (operation_replacements (template_placeholders t) mount_path resource_path ps) (\<lambda>rs.
                   let compiled = foldl (\<lambda>acc (n, v). replace_all (''{'' @ n @ ''}'') v acc) t rs
                   in if CHR ''{'' \<in> set compiled \<or> CHR ''}'' \<in> set compiled
                      then Inl (mounted_error ''operation template has unresolved parameters.'') else Inr compiled)
          | _ \<Rightarrow> Inl (mounted_error ''operation path parameters are invalid.''))
      | _ \<Rightarrow> Inl (mounted_error ''operation template is outside the reviewed registry.''))"

section \<open>Query parameters and declared types\<close>

definition query_invalid :: exn where
  "query_invalid = CapabilitySchemaError ''The OpenBao query parameters are invalid.''"

definition query_scalar_ok :: "json \<Rightarrow> bool" where
  "query_scalar_ok v =
     (case v of
        JStr s \<Rightarrow> length s \<le> 2000 \<and> CHR 0x00 \<notin> set s
      | JBool _ \<Rightarrow> True | JNum _ \<Rightarrow> True
      | JFloat r \<Rightarrow> finite_float r
      | _ \<Rightarrow> False)"

definition query_value_ok :: "json \<Rightarrow> bool" where
  "query_value_ok v =
     (case v of JArr xs \<Rightarrow> length xs \<le> 100 \<and> list_all query_scalar_ok xs | _ \<Rightarrow> query_scalar_ok v)"

definition validate_query :: "(json \<Rightarrow> string option) \<Rightarrow> json \<Rightarrow> exn + payload" where
  "validate_query dumps v =
     (case v of
        JNull \<Rightarrow> Inr []
      | JObj p \<Rightarrow>
          if p = [] then Inr []
          else if length p > 32 then Inl query_invalid
          else (case dumps v of
            None \<Rightarrow> Inl query_invalid
          | Some encoded \<Rightarrow>
              if length encoded > MAX_QUERY_BYTES then Inl query_invalid
              else straverse (\<lambda>(k, x). if \<not> engine_key_re k \<or> \<not> query_value_ok x then Inl query_invalid else Inr (k, x)) p)
      | _ \<Rightarrow> Inl query_invalid)"

definition matches_declared_type :: "json \<Rightarrow> string \<Rightarrow> bool" where
  "matches_declared_type v declared =
     (declared = ''json''
      \<or> (declared = ''array'' \<and> (case v of JArr _ \<Rightarrow> True | _ \<Rightarrow> False))
      \<or> (declared = ''boolean'' \<and> is_bool_json v)
      \<or> (declared = ''integer'' \<and> (case v of JNum _ \<Rightarrow> True | _ \<Rightarrow> False))
      \<or> (declared = ''number'' \<and> (case v of JNum _ \<Rightarrow> True | JFloat _ \<Rightarrow> True | _ \<Rightarrow> False))
      \<or> (declared = ''object'' \<and> (case v of JObj _ \<Rightarrow> True | _ \<Rightarrow> False))
      \<or> (declared = ''string'' \<and> (case v of JStr _ \<Rightarrow> True | _ \<Rightarrow> False)))"

definition validate_declared_field_types :: "payload \<Rightarrow> (string \<times> string) list \<Rightarrow> exn + unit" where
  "validate_declared_field_types p declared =
     srequire (list_all (\<lambda>(n, v). matches_declared_type v (case map_of (rev declared) n of None \<Rightarrow> ''json'' | Some t \<Rightarrow> t)) p)
       (CapabilitySchemaError ''The OpenBao request field has an invalid JSON type.'')"

end
