(* ===== verification/Admin_Cluster.thy ===== *)
theory Admin_Cluster
  imports Admin_Engines
begin

text \<open>
  Bounded representations of cluster and Raft state, and the two bounded snapshot streams
  (\<^verbatim>\<open>administration/cluster.py\<close>).
\<close>

definition MAX_CLUSTER_JSON_BYTES :: nat where "MAX_CLUSTER_JSON_BYTES = 1000000"
definition MAX_SNAPSHOT_BYTES :: nat where "MAX_SNAPSHOT_BYTES = 536870912"
definition MAX_HA_NODES :: nat where "MAX_HA_NODES = 256"
definition MAX_RAFT_PEERS :: nat where "MAX_RAFT_PEERS = 256"

section \<open>Fields\<close>

definition bad_field :: "string \<Rightarrow> exn" where
  "bad_field f = CapabilitySchemaError (''OpenBao returned invalid '' @ f @ ''.'')"

definition cluster_mapping :: "json \<Rightarrow> string \<Rightarrow> exn + payload" where
  "cluster_mapping v f = json_object v (bad_field f)"

definition cluster_boolean :: "json \<Rightarrow> string \<Rightarrow> exn + bool" where
  "cluster_boolean v f = (case v of JBool b \<Rightarrow> Inr b | _ \<Rightarrow> Inl (bad_field f))"

definition cluster_integer :: "json \<Rightarrow> string \<Rightarrow> exn + int" where
  "cluster_integer v f = (case v of JNum n \<Rightarrow> if n < 0 then Inl (bad_field f) else Inr n | _ \<Rightarrow> Inl (bad_field f))"

definition cluster_string :: "json \<Rightarrow> string \<Rightarrow> nat \<Rightarrow> bool \<Rightarrow> exn + string" where
  "cluster_string v f maximum blank =
     (case v of
        JStr s \<Rightarrow> if length s > maximum \<or> list_ex (\<lambda>c. control c \<or> c = CHR 0x7F) s \<or> (\<not> blank \<and> s = [])
                 then Inl (bad_field f) else Inr s
      | _ \<Rightarrow> Inl (bad_field f))"

definition optional_string :: "json \<Rightarrow> string \<Rightarrow> nat \<Rightarrow> exn + string" where
  "optional_string v f maximum = (if v = JNull then Inr [] else cluster_string v f maximum True)"

section \<open>Records\<close>

record seal_status =
  st_initialized :: bool
  st_sealed :: bool
  st_threshold :: int
  st_shares :: int
  st_progress :: int
  st_version :: string
  st_seal_type :: string
  st_migration :: bool
  st_recovery_seal :: bool
  st_storage_type :: string
  st_cluster_name :: string
  st_cluster_id :: string

record leader_status =
  ls_ha_enabled :: bool
  ls_is_self :: bool
  ls_leader_address :: string
  ls_leader_cluster_address :: string
  ls_active_time :: string
  ls_raft_committed_index :: int
  ls_raft_applied_index :: int

record ha_node =
  hn_hostname :: string
  hn_api_address :: string
  hn_cluster_address :: string
  hn_active_node :: bool
  hn_last_echo :: string
  hn_version :: string

record raft_peer =
  rp_node_id :: string
  rp_address :: string
  rp_leader :: bool
  rp_voter :: bool
  rp_protocol_version :: string

record raft_configuration =
  rc_index :: int
  rc_peers :: "raft_peer list"

record initialization_result =
  ir_keys :: "string list"
  ir_keys_base64 :: "string list"
  ir_recovery_keys :: "string list"
  ir_recovery_keys_base64 :: "string list"
  ir_root_token :: string

definition raft_peer_of :: "raft_configuration \<Rightarrow> string \<Rightarrow> raft_peer option" where
  "raft_peer_of c node_id = List.find (\<lambda>p. rp_node_id p = node_id) (rc_peers c)"

section \<open>Normalisation\<close>

definition normalize_seal_status :: "json \<Rightarrow> exn + seal_status" where
  "normalize_seal_status j =
     sbind (cluster_mapping j ''seal status'') (\<lambda>v.
     sbind (cluster_boolean (jget v ''initialized'') ''initialized state'') (\<lambda>initialized.
     sbind (cluster_boolean (jget v ''sealed'') ''sealed state'') (\<lambda>sealed.
     sbind (cluster_integer (jget_or v ''t'' (JNum 0)) ''seal threshold'') (\<lambda>threshold.
     sbind (cluster_integer (jget_or v ''n'' (JNum 0)) ''seal share count'') (\<lambda>shares.
     sbind (cluster_integer (jget_or v ''progress'' (JNum 0)) ''unseal progress'') (\<lambda>progress.
     sbind (optional_string (jget v ''version'') ''version'' 64) (\<lambda>version.
     sbind (optional_string (jget v ''type'') ''seal type'' 64) (\<lambda>ty.
     sbind (cluster_boolean (jget_or v ''migration'' (JBool False)) ''migration state'') (\<lambda>migration.
     sbind (cluster_boolean (jget_or v ''recovery_seal'' (JBool False)) ''recovery seal state'') (\<lambda>recovery.
     sbind (optional_string (jget v ''storage_type'') ''storage type'' 64) (\<lambda>storage.
     sbind (optional_string (jget v ''cluster_name'') ''cluster name'' 200) (\<lambda>name.
     sbind (optional_string (jget v ''cluster_id'') ''cluster ID'' 200) (\<lambda>cid.
     Inr \<lparr>st_initialized = initialized, st_sealed = sealed, st_threshold = threshold, st_shares = shares,
          st_progress = progress, st_version = version, st_seal_type = ty, st_migration = migration,
          st_recovery_seal = recovery, st_storage_type = storage, st_cluster_name = name, st_cluster_id = cid\<rparr>)))))))))))))"

definition normalize_leader_status :: "json \<Rightarrow> exn + leader_status" where
  "normalize_leader_status j =
     sbind (cluster_mapping j ''leader status'') (\<lambda>v.
     sbind (cluster_boolean (jget v ''ha_enabled'') ''HA enabled state'') (\<lambda>ha.
     sbind (cluster_boolean (jget_or v ''is_self'' (JBool False)) ''leader self state'') (\<lambda>is_self.
     sbind (optional_string (jget v ''leader_address'') ''leader address'' 500) (\<lambda>address.
     sbind (optional_string (jget v ''leader_cluster_address'') ''leader cluster address'' 500) (\<lambda>cluster_address.
     sbind (optional_string (jget v ''active_time'') ''leader active time'' 100) (\<lambda>active.
     sbind (cluster_integer (jget_or v ''raft_committed_index'' (JNum 0)) ''Raft committed index'') (\<lambda>committed.
     sbind (cluster_integer (jget_or v ''raft_applied_index'' (JNum 0)) ''Raft applied index'') (\<lambda>applied.
     Inr \<lparr>ls_ha_enabled = ha, ls_is_self = is_self, ls_leader_address = address,
          ls_leader_cluster_address = cluster_address, ls_active_time = active, ls_raft_committed_index = committed,
          ls_raft_applied_index = applied\<rparr>))))))))"

definition normalize_ha_node :: "json \<Rightarrow> exn + ha_node" where
  "normalize_ha_node j =
     sbind (cluster_mapping j ''HA node'') (\<lambda>v.
     sbind (cluster_string (jget_or v ''hostname'' (JStr [])) ''HA hostname'' 255 False) (\<lambda>hostname.
     sbind (optional_string (jget v ''api_address'') ''HA API address'' 500) (\<lambda>api.
     sbind (optional_string (jget v ''cluster_address'') ''HA cluster address'' 500) (\<lambda>cluster_address.
     sbind (cluster_boolean (jget v ''active_node'') ''HA active state'') (\<lambda>active.
     sbind (optional_string (jget v ''last_echo'') ''HA last echo'' 100) (\<lambda>echo.
     sbind (optional_string (jget v ''version'') ''HA node version'' 64) (\<lambda>version.
     Inr \<lparr>hn_hostname = hostname, hn_api_address = api, hn_cluster_address = cluster_address, hn_active_node = active,
          hn_last_echo = echo, hn_version = version\<rparr>)))))))"

definition normalize_ha_status :: "json \<Rightarrow> exn + ha_node list" where
  "normalize_ha_status j =
     sbind (cluster_mapping j ''HA status'') (\<lambda>v.
     case jget_or v ''nodes'' (jget v ''Nodes'') of
       JArr xs \<Rightarrow> if length xs > MAX_HA_NODES then Inl (bad_field ''HA nodes'') else straverse normalize_ha_node xs
     | _ \<Rightarrow> Inl (bad_field ''HA nodes''))"

definition raft_protocol :: "json \<Rightarrow> exn + string" where
  "raft_protocol j =
     (case j of
        JNum n \<Rightarrow> Inr (int_text n)
      | JStr [c] \<Rightarrow> if control c then Inr (digits (of_char c)) else optional_string j ''Raft protocol version'' 32
      | _ \<Rightarrow> optional_string j ''Raft protocol version'' 32)"

definition normalize_raft_peer :: "json \<Rightarrow> exn + raft_peer" where
  "normalize_raft_peer j =
     sbind (cluster_mapping j ''Raft peer'') (\<lambda>v.
     sbind (raft_protocol (jget v ''protocol_version'')) (\<lambda>protocol.
     sbind (cluster_string (jget_or v ''node_id'' (JStr [])) ''Raft node ID'' 200 False) (\<lambda>node.
     sbind (cluster_string (jget_or v ''address'' (JStr [])) ''Raft address'' 500 False) (\<lambda>address.
     sbind (cluster_boolean (jget v ''leader'') ''Raft leader state'') (\<lambda>leader.
     sbind (cluster_boolean (jget v ''voter'') ''Raft voter state'') (\<lambda>voter.
     Inr \<lparr>rp_node_id = node, rp_address = address, rp_leader = leader, rp_voter = voter,
          rp_protocol_version = protocol\<rparr>))))))"

definition normalize_raft_configuration :: "json \<Rightarrow> exn + raft_configuration" where
  "normalize_raft_configuration j =
     sbind (cluster_mapping j ''Raft configuration'') (\<lambda>v.
     sbind (cluster_mapping (jget_or v ''data'' j) ''Raft configuration data'') (\<lambda>d.
     sbind (cluster_mapping (jget_or d ''config'' (JObj d)) ''Raft configuration object'') (\<lambda>cfg.
     case jget cfg ''servers'' of
       JArr xs \<Rightarrow>
         if length xs > MAX_RAFT_PEERS then Inl (bad_field ''Raft peers'')
         else sbind (straverse normalize_raft_peer xs) (\<lambda>peers.
              if \<not> distinct (map rp_node_id peers)
              then Inl (CapabilitySchemaError ''OpenBao returned duplicate Raft node IDs.'')
              else sbind (cluster_integer (jget cfg ''index'') ''Raft configuration index'') (\<lambda>index.
                   Inr \<lparr>rc_index = index, rc_peers = peers\<rparr>))
     | _ \<Rightarrow> Inl (bad_field ''Raft peers''))))"

definition material_list :: "json \<Rightarrow> string \<Rightarrow> exn + string list" where
  "material_list j f =
     (case j of
        JNull \<Rightarrow> Inr []
      | JArr xs \<Rightarrow> if length xs > 64 then Inl (bad_field f) else straverse (\<lambda>x. cluster_string x f 20000 False) xs
      | _ \<Rightarrow> Inl (bad_field f))"

definition normalize_initialization_result :: "json \<Rightarrow> exn + initialization_result" where
  "normalize_initialization_result j =
     sbind (cluster_mapping j ''initialization result'') (\<lambda>v.
     sbind (material_list (jget v ''keys'') ''unseal keys'') (\<lambda>keys.
     sbind (material_list (jget v ''keys_base64'') ''base64 unseal keys'') (\<lambda>keys64.
     sbind (material_list (jget v ''recovery_keys'') ''recovery keys'') (\<lambda>recovery.
     sbind (material_list (jget v ''recovery_keys_base64'') ''base64 recovery keys'') (\<lambda>recovery64.
     sbind (cluster_string (jget_or v ''root_token'' (JStr [])) ''initial root token'' 20000 False) (\<lambda>token.
     Inr \<lparr>ir_keys = keys, ir_keys_base64 = keys64, ir_recovery_keys = recovery, ir_recovery_keys_base64 = recovery64,
          ir_root_token = token\<rparr>))))))"

section \<open>Reading a snapshot upload\<close>

text \<open>
  \<open>BoundedSnapshotReader\<close> over an upload stream: a function that is asked for so many bytes and either raises,
  or returns something that is not bytes (\<open>None\<close>), or returns bytes.
\<close>

type_synonym 's byte_stream = "nat \<Rightarrow> ('s, exn, string option) sem"

record snapshot_reader =
  sr_size :: nat
  sr_read :: nat

definition new_snapshot_reader :: "json \<Rightarrow> exn + snapshot_reader" where
  "new_snapshot_reader declared =
     (case declared of
        JNum n \<Rightarrow> if 0 < n \<and> n \<le> int MAX_SNAPSHOT_BYTES then Inr \<lparr>sr_size = nat n, sr_read = 0\<rparr>
                  else Inl (PythonError ''ValueError'')
      | _ \<Rightarrow> Inl (PythonError ''ValueError''))"

text \<open>\<open>amount\<close> is \<open>None\<close> or negative for everything that remains.\<close>

definition read_amount :: "snapshot_reader \<Rightarrow> int option \<Rightarrow> nat" where
  "read_amount r amount =
     (let remaining = sr_size r - sr_read r in
      case amount of None \<Rightarrow> remaining
      | Some n \<Rightarrow> if n < 0 \<or> n > int remaining then remaining else nat n)"

definition snapshot_read ::
  "'s byte_stream \<Rightarrow> int option \<Rightarrow> snapshot_reader \<times> 's \<Rightarrow> (exn + string) \<times> snapshot_reader \<times> 's" where
  "snapshot_read stream amount = (\<lambda>(r, s).
     if sr_size r - sr_read r = 0 then (Inr [], r, s)
     else let n = read_amount r amount in
       if n = 0 then (Inr [], r, s)
       else case stream n s of
         (Inl e, s1) \<Rightarrow> (Inl e, r, s1)
       | (Inr None, s1) \<Rightarrow> (Inl (PythonError ''ValueError''), r, s1)
       | (Inr (Some chunk), s1) \<Rightarrow>
           if chunk = [] \<or> length chunk > n then (Inl (PythonError ''ValueError''), r, s1)
           else let r1 = r\<lparr>sr_read := sr_read r + length chunk\<rparr>
                in if sr_read r1 > sr_size r1 then (Inl (PythonError ''ValueError''), r1, s1) else (Inr chunk, r1, s1))"

section \<open>Streaming a snapshot download\<close>

text \<open>
  \<open>SnapshotDownload.chunks\<close>: what the response yields (an exception, something that is not bytes, or bytes)
  to what the generator yields, and how it ends. It is one-use, and the response is closed at the end.
\<close>

record snapshot_download =
  sd_declared_size :: "int option"
  sd_opened :: bool
  sd_closed :: bool

fun download_loop :: "int option \<Rightarrow> nat \<Rightarrow> (exn + string option) list \<Rightarrow> string list \<times> exn option" where
  "download_loop declared sofar [] =
     ([], if declared \<noteq> None \<and> declared \<noteq> Some (int sofar) then Some (PythonError ''ValueError'') else None)"
| "download_loop declared sofar (x # xs) =
     (case x of
        Inl e \<Rightarrow> ([], Some e)
      | Inr None \<Rightarrow> ([], Some (PythonError ''ValueError''))
      | Inr (Some chunk) \<Rightarrow>
          let sofar1 = sofar + length chunk in
          if sofar1 > MAX_SNAPSHOT_BYTES then ([], Some (PythonError ''ValueError''))
          else (case download_loop declared sofar1 xs of (ys, e) \<Rightarrow> (if chunk \<noteq> [] then chunk # ys else ys, e)))"

definition snapshot_chunks ::
  "(exn + string option) list \<Rightarrow> snapshot_download \<Rightarrow> (string list \<times> exn option) \<times> snapshot_download" where
  "snapshot_chunks raw d =
     (if sd_opened d then (([], Some (PythonError ''RuntimeError'')), d)
      else (download_loop (sd_declared_size d) 0 raw, d\<lparr>sd_opened := True, sd_closed := True\<rparr>))"

section \<open>Lemmas\<close>

text \<open>A reader's position never passes its size, and a chunk it returns is what the position moved by.\<close>

definition reader_ok :: "snapshot_reader \<Rightarrow> bool" where
  "reader_ok r = (sr_read r \<le> sr_size r \<and> sr_size r \<le> MAX_SNAPSHOT_BYTES)"

lemma snapshot_reader_ok: "new_snapshot_reader j = Inr r \<Longrightarrow> reader_ok r \<and> sr_read r = 0"
  by (auto simp: new_snapshot_reader_def reader_ok_def split: json.splits if_splits)

lemma read_amount_le: "read_amount r amount \<le> sr_size r - sr_read r"
  by (auto simp: read_amount_def Let_def split: option.splits)

lemma snapshot_read_step:
  assumes "snapshot_read stream amount (r, s) = (Inr chunk, r', s')" "reader_ok r"
  shows "reader_ok r' \<and> sr_size r' = sr_size r \<and> sr_read r' = sr_read r + length chunk
         \<and> (\<forall>n. amount = Some n \<longrightarrow> 0 \<le> n \<longrightarrow> length chunk \<le> nat n)"
  using assms read_amount_le [of r amount]
  by (auto simp: snapshot_read_def reader_ok_def Let_def read_amount_def
           split: if_splits prod.splits sum.splits option.splits)

lemma snapshot_read_failed:
  "snapshot_read stream amount (r, s) = (Inl e, r', s') \<Longrightarrow> reader_ok r \<Longrightarrow> r' = r"
  using read_amount_le [of r amount]
  by (auto simp: snapshot_read_def reader_ok_def Let_def split: if_splits prod.splits sum.splits option.splits)

lemma download_total:
  "download_loop declared sofar raw = (ys, e) \<Longrightarrow> sofar \<le> MAX_SNAPSHOT_BYTES
     \<Longrightarrow> sofar + length (concat ys) \<le> MAX_SNAPSHOT_BYTES
         \<and> (e = None \<longrightarrow> declared \<noteq> None \<longrightarrow> declared = Some (int (sofar + length (concat ys))))"
proof (induction declared sofar raw arbitrary: ys e rule: download_loop.induct)
  case (2 declared sofar x xs)
  show ?case
  proof (cases x)
    case (Inr y)
    then show ?thesis
      using 2 by (cases y) (fastforce simp: Let_def split: if_splits prod.splits)+
  qed (use 2 in auto)
qed auto

end
