(* ===== verification/Admin_Operations.thy ===== *)
theory Admin_Operations
  imports Admin_Final Admin_Cluster
begin

text \<open>
  The administration operations of \<^verbatim>\<open>administration/backends.py\<close>: each builds a request, hands it to the
  transport's \<open>_request\<close> (the argument \<open>rq\<close>, which the direct and the broker backend define differently)
  and normalises the response. \<open>cd\<close> is Python's \<^verbatim>\<open>json\<close> module.
\<close>

section \<open>Requests and responses\<close>

record admin_request =
  rq_method :: string
  rq_path :: string
  rq_authenticated :: bool
  rq_expected :: "nat list"
  rq_token :: json
  rq_json :: "json option"
  rq_params :: payload
  rq_headers :: payload
  rq_upload :: "nat option" \<comment> \<open>the size of a streamed body\<close>

record admin_response =
  rs_status :: nat
  rs_redirect :: bool
  rs_headers :: "(string \<times> string) list"
  rs_body :: "string option" \<comment> \<open>\<open>None\<close>: reading it raises\<close>

record codec =
  json_loads :: "string \<Rightarrow> exn + json"
  json_dumps :: "json \<Rightarrow> string option"
  json_sha256 :: "string \<Rightarrow> string"

type_synonym 's requester = "admin_request \<Rightarrow> ('s, exn, admin_response) sem"

definition request :: "string \<Rightarrow> string \<Rightarrow> bool \<Rightarrow> admin_request" where
  "request verb path authenticated =
     \<lparr>rq_method = verb, rq_path = path, rq_authenticated = authenticated, rq_expected = [200], rq_token = JStr [],
      rq_json = None, rq_params = [], rq_headers = [], rq_upload = None\<rparr>"

definition mutating :: "string \<Rightarrow> bool" where
  "mutating verb = (map upper_char verb \<notin> {''GET'', ''HEAD'', ''LIST'', ''OPTIONS''})"

definition unavailable :: "string \<Rightarrow> exn" where
  "unavailable m = OpenBaoExn (openbao_exn OpenBaoUnavailableC (Some m) None)"

definition mutation_unknown :: exn where
  "mutation_unknown = OpenBaoExn (openbao_exn OpenBaoMutationUnknownC None None)"

definition contract_error :: "string \<Rightarrow> exn" where
  "contract_error m = OpenBaoExn (openbao_exn BackendConfigurationErrorC (Some m) None)"

definition exn_is :: "openbao_class \<Rightarrow> exn \<Rightarrow> bool" where
  "exn_is c e = (case e of OpenBaoExn x \<Rightarrow> is_subclass (oe_class x) c | _ \<Rightarrow> False)"

definition is_schema_error :: "exn \<Rightarrow> bool" where
  "is_schema_error e = (case e of CapabilitySchemaError _ \<Rightarrow> True | _ \<Rightarrow> False)"

definition json_errors :: "exn list" where
  "json_errors = [PythonError ''JSONDecodeError'', PythonError ''UnicodeDecodeError'']"

text \<open>Reading at most \<open>n\<close> bytes of a body and decoding them; \<open>unsound\<close> and \<open>large\<close> are what is raised.\<close>

definition read_json :: "codec \<Rightarrow> nat \<Rightarrow> exn \<Rightarrow> exn \<Rightarrow> admin_response \<Rightarrow> exn + json" where
  "read_json cd n unsound large response =
     (case rs_body response of
        None \<Rightarrow> Inl unsound
      | Some body \<Rightarrow>
          if length body > n then Inl large
          else (case json_loads cd body of
                  Inl e \<Rightarrow> Inl (if e \<in> set json_errors then unsound else e)
                | Inr j \<Rightarrow> Inr j))"

definition response_json :: "codec \<Rightarrow> admin_response \<Rightarrow> exn + json" where
  "response_json cd response =
     sbind (read_json cd MAX_CLUSTER_JSON_BYTES (unavailable ''OpenBao returned an invalid administrative response.'')
              (unavailable ''OpenBao administrative response is too large.'') response) (\<lambda>j.
     case j of JObj _ \<Rightarrow> Inr j | _ \<Rightarrow> Inl (unavailable ''OpenBao returned an invalid administrative response.''))"

definition request_json :: "codec \<Rightarrow> 's requester \<Rightarrow> admin_request \<Rightarrow> ('s, exn, json) sem" where
  "request_json cd rq r =
     bnd (rq r) (\<lambda>response.
     case response_json cd response of
       Inr j \<Rightarrow> ret j
     | Inl e \<Rightarrow> raise (if exn_is OpenBaoUnavailableC e \<and> mutating (rq_method r) then mutation_unknown else e))"

definition request_list_json :: "codec \<Rightarrow> 's requester \<Rightarrow> string \<Rightarrow> ('s, exn, json) sem" where
  "request_list_json cd rq path =
     bnd (rq (request ''LIST'' path True\<lparr>rq_expected := [200, 404]\<rparr>)) (\<lambda>response.
     if rs_status response = 404
     then ret (JObj [(''data'', JObj [(''keys'', JArr []), (''key_info'', JObj [])])])
     else lift_sum (response_json cd response))"

definition normalize_with :: "('a \<Rightarrow> exn + 'b) \<Rightarrow> 'a \<Rightarrow> exn + 'b" where
  "normalize_with f v =
     (case f v of
        Inl e \<Rightarrow> Inl (if is_schema_error e then unavailable ''OpenBao returned an invalid administrative response.'' else e)
      | Inr y \<Rightarrow> Inr y)"

definition normalize_mutation :: "('a \<Rightarrow> exn + 'b) \<Rightarrow> 'a \<Rightarrow> exn + 'b" where
  "normalize_mutation f v =
     (case normalize_with f v of
        Inl e \<Rightarrow> Inl (if exn_is OpenBaoUnavailableC e then mutation_unknown else e)
      | Inr y \<Rightarrow> Inr y)"

text \<open>A request for JSON followed by its normaliser; and a request whose body is not read.\<close>

definition fetched :: "codec \<Rightarrow> 's requester \<Rightarrow> (json \<Rightarrow> exn + 'a) \<Rightarrow> admin_request \<Rightarrow> ('s, exn, 'a) sem" where
  "fetched cd rq f r = bnd (request_json cd rq r) (\<lambda>j. lift_sum (normalize_with f j))"

definition mutated :: "codec \<Rightarrow> 's requester \<Rightarrow> (json \<Rightarrow> exn + 'a) \<Rightarrow> admin_request \<Rightarrow> ('s, exn, 'a) sem" where
  "mutated cd rq f r = bnd (request_json cd rq r) (\<lambda>j. lift_sum (normalize_mutation f j))"

definition listed :: "codec \<Rightarrow> 's requester \<Rightarrow> (json \<Rightarrow> exn + 'a) \<Rightarrow> string \<Rightarrow> ('s, exn, 'a) sem" where
  "listed cd rq f path = bnd (request_list_json cd rq path) (\<lambda>j. lift_sum (normalize_with f j))"

definition performed :: "'s requester \<Rightarrow> admin_request \<Rightarrow> ('s, exn, unit) sem" where
  "performed rq r = bnd (rq (r\<lparr>rq_expected := [200, 204]\<rparr>)) (\<lambda>_. ret ())"

definition sending :: "json \<Rightarrow> admin_request \<Rightarrow> admin_request" where
  "sending j r = r\<lparr>rq_json := Some j\<rparr>"

definition bearing :: "json \<Rightarrow> admin_request \<Rightarrow> admin_request" where
  "bearing token r = r\<lparr>rq_token := token\<rparr>"

section \<open>Discovery and the cluster\<close>

definition discover_capabilities :: "codec \<Rightarrow> 's requester \<Rightarrow> ('s, exn, capability_document) sem" where
  "discover_capabilities cd rq =
     bnd (rq (request ''GET'' ''/sys/internal/specs/openapi'' True\<lparr>rq_params := [(''generic_mount_paths'', JStr ''true'')]\<rparr>)) (\<lambda>response.
     lift_sum (sbind (read_json cd MAX_DOCUMENT_BYTES (unavailable ''OpenBao returned an invalid capability document.'')
                        (unavailable ''OpenBao capability discovery response is too large.'') response) (\<lambda>j.
       case normalize_openapi_document (json_dumps cd) (json_sha256 cd) j of
         Inl e \<Rightarrow> Inl (if is_schema_error e then unavailable ''OpenBao returned an invalid capability document.'' else e)
       | Inr d \<Rightarrow> Inr d)))"

definition initialization_status :: "codec \<Rightarrow> 's requester \<Rightarrow> ('s, exn, bool) sem" where
  "initialization_status cd rq =
     bnd (request_json cd rq (request ''GET'' ''/sys/init'' False)) (\<lambda>j.
     case j of
       JObj p \<Rightarrow> (case jget p ''initialized'' of
                    JBool b \<Rightarrow> ret b
                  | _ \<Rightarrow> raise (unavailable ''OpenBao returned an invalid initialization status.''))
     | _ \<Rightarrow> raise (unavailable ''OpenBao returned an invalid initialization status.''))"

definition read_seal_status :: "codec \<Rightarrow> 's requester \<Rightarrow> ('s, exn, seal_status) sem" where
  "read_seal_status cd rq = fetched cd rq normalize_seal_status (request ''GET'' ''/sys/seal-status'' False)"

definition read_leader_status :: "codec \<Rightarrow> 's requester \<Rightarrow> ('s, exn, leader_status) sem" where
  "read_leader_status cd rq = fetched cd rq normalize_leader_status (request ''GET'' ''/sys/leader'' True)"

definition read_ha_status :: "codec \<Rightarrow> 's requester \<Rightarrow> ('s, exn, ha_node list) sem" where
  "read_ha_status cd rq = fetched cd rq normalize_ha_status (request ''GET'' ''/sys/ha-status'' True)"

definition read_raft_configuration :: "codec \<Rightarrow> 's requester \<Rightarrow> ('s, exn, raft_configuration) sem" where
  "read_raft_configuration cd rq =
     fetched cd rq normalize_raft_configuration (request ''GET'' ''/sys/storage/raft/configuration'' True)"

definition initialize_cluster :: "codec \<Rightarrow> 's requester \<Rightarrow> payload \<Rightarrow> ('s, exn, initialization_result) sem" where
  "initialize_cluster cd rq p =
     fetched cd rq normalize_initialization_result (sending (JObj p) (request ''POST'' ''/sys/init'' False))"

definition join_raft :: "codec \<Rightarrow> 's requester \<Rightarrow> payload \<Rightarrow> ('s, exn, bool) sem" where
  "join_raft cd rq p =
     bnd (request_json cd rq (sending (JObj p) (request ''POST'' ''/sys/storage/raft/join'' False))) (\<lambda>j.
     case j of
       JObj r \<Rightarrow> (case jget r ''joined'' of JBool b \<Rightarrow> ret b | _ \<Rightarrow> raise mutation_unknown)
     | _ \<Rightarrow> raise mutation_unknown)"

definition unseal :: "codec \<Rightarrow> 's requester \<Rightarrow> string \<Rightarrow> bool \<Rightarrow> bool \<Rightarrow> ('s, exn, seal_status) sem" where
  "unseal cd rq share reset migrate =
     fetched cd rq normalize_seal_status
       (sending (JObj ([(''reset'', JBool reset), (''migrate'', JBool migrate)]
                       @ (if share \<noteq> [] then [(''key'', JStr share)] else [])))
          (request ''POST'' ''/sys/unseal'' False))"

definition seal :: "'s requester \<Rightarrow> ('s, exn, unit) sem" where
  "seal rq = performed rq (request ''POST'' ''/sys/seal'' True)"

definition remove_raft_peer :: "'s requester \<Rightarrow> string \<Rightarrow> ('s, exn, unit) sem" where
  "remove_raft_peer rq server_id =
     performed rq (sending (JObj [(''server_id'', JStr server_id)]) (request ''POST'' ''/sys/storage/raft/remove-peer'' True))"

definition response_header :: "admin_response \<Rightarrow> string \<Rightarrow> string option" where
  "response_header response name = map_of (rs_headers response) name"

text \<open>The declared size of a download: \<open>Inr None\<close> when there is none.\<close>

definition declared_size :: "exn \<Rightarrow> admin_response \<Rightarrow> exn + int option" where
  "declared_size bad response =
     (case response_header response ''Content-Length'' of
        None \<Rightarrow> Inr None
      | Some s \<Rightarrow> (case int_of_text s of
                     None \<Rightarrow> Inl bad
                   | Some n \<Rightarrow> if 0 < n \<and> n \<le> int MAX_SNAPSHOT_BYTES then Inr (Some n) else Inl bad))"

definition encoding_ok :: "admin_response \<Rightarrow> bool" where
  "encoding_ok response =
     (lower (strip (case response_header response ''Content-Encoding'' of None \<Rightarrow> [] | Some s \<Rightarrow> s)) \<in> {[], ''identity''})"

definition new_download :: "int option \<Rightarrow> snapshot_download" where
  "new_download declared = \<lparr>sd_declared_size = declared, sd_opened = False, sd_closed = False\<rparr>"

definition download_raft_snapshot :: "'s requester \<Rightarrow> ('s, exn, snapshot_download) sem" where
  "download_raft_snapshot rq =
     bnd (rq (request ''GET'' ''/sys/storage/raft/snapshot'' True\<lparr>rq_headers := [(''Accept-Encoding'', JStr ''identity'')]\<rparr>)) (\<lambda>response.
     let bad = unavailable ''OpenBao returned an invalid snapshot response.'' in
     if \<not> encoding_ok response then raise bad
     else bnd (lift_sum (declared_size bad response)) (\<lambda>d. ret (new_download d)))"

definition restore_raft_snapshot :: "'s requester \<Rightarrow> json \<Rightarrow> bool \<Rightarrow> ('s, exn, unit) sem" where
  "restore_raft_snapshot rq declared force =
     (case new_snapshot_reader declared of
        Inl _ \<Rightarrow> raise (OpenBaoExn (openbao_exn OpenBaoConflictC (Some ''The snapshot upload is outside the allowed size.'') None))
      | Inr r \<Rightarrow>
          performed rq
            (request ''POST'' (if force then ''/sys/storage/raft/snapshot-force'' else ''/sys/storage/raft/snapshot'') True
             \<lparr>rq_upload := Some (sr_size r),
              rq_headers := [(''Content-Type'', JStr ''application/octet-stream''), (''Content-Length'', JStr (digits (sr_size r)))]\<rparr>))"

section \<open>Mount administration\<close>

definition list_auth_methods :: "codec \<Rightarrow> 's requester \<Rightarrow> ('s, exn, auth_mount list) sem" where
  "list_auth_methods cd rq = fetched cd rq normalize_auth_mounts (request ''GET'' ''/sys/auth'' True)"

definition list_secret_engines :: "codec \<Rightarrow> 's requester \<Rightarrow> ('s, exn, secret_engine_mount list) sem" where
  "list_secret_engines cd rq = fetched cd rq normalize_secret_engine_mounts (request ''GET'' ''/sys/mounts'' True)"

definition read_secret_engine :: "codec \<Rightarrow> 's requester \<Rightarrow> json \<Rightarrow> ('s, exn, json) sem" where
  "read_secret_engine cd rq mount_path =
     bnd (lift_sum (normalize_engine_mount_path mount_path)) (\<lambda>path. fetched cd rq normalize_public_auth_data (request ''GET'' (''/sys/mounts/'' @ path) True))"

definition read_secret_engine_tuning :: "codec \<Rightarrow> 's requester \<Rightarrow> json \<Rightarrow> ('s, exn, json) sem" where
  "read_secret_engine_tuning cd rq mount_path =
     bnd (lift_sum (normalize_engine_mount_path mount_path)) (\<lambda>path. fetched cd rq normalize_public_auth_data (request ''GET'' (''/sys/mounts/'' @ path @ ''/tune'') True))"

definition enable_secret_engine :: "'s requester \<Rightarrow> json \<Rightarrow> payload \<Rightarrow> ('s, exn, unit) sem" where
  "enable_secret_engine rq mount_path p =
     bnd (lift_sum (normalize_engine_mount_path mount_path)) (\<lambda>path. performed rq (sending (JObj p) (request ''POST'' (''/sys/mounts/'' @ path) True)))"

definition tune_secret_engine :: "'s requester \<Rightarrow> json \<Rightarrow> payload \<Rightarrow> ('s, exn, unit) sem" where
  "tune_secret_engine rq mount_path p =
     bnd (lift_sum (normalize_engine_mount_path mount_path)) (\<lambda>path. performed rq (sending (JObj p) (request ''POST'' (''/sys/mounts/'' @ path @ ''/tune'') True)))"

definition remount_secret_engine :: "codec \<Rightarrow> 's requester \<Rightarrow> json \<Rightarrow> json \<Rightarrow> ('s, exn, json) sem" where
  "remount_secret_engine cd rq source destination =
     bnd (lift_sum (normalize_engine_mount_path source)) (\<lambda>s. 
     bnd (lift_sum (normalize_engine_mount_path destination)) (\<lambda>d. 
     fetched cd rq normalize_public_auth_data (sending (JObj [(''from'', JStr (s @ ''/'')), (''to'', JStr (d @ ''/''))])
       (request ''POST'' ''/sys/remount'' True))))"

definition secret_engine_remount_status :: "codec \<Rightarrow> 's requester \<Rightarrow> json \<Rightarrow> ('s, exn, json) sem" where
  "secret_engine_remount_status cd rq migration_id =
     bnd (lift_sum (normalize_migration_id migration_id)) (\<lambda>m. fetched cd rq normalize_public_auth_data (request ''GET'' (''/sys/remount/status/'' @ m) True))"

definition disable_secret_engine :: "'s requester \<Rightarrow> json \<Rightarrow> ('s, exn, unit) sem" where
  "disable_secret_engine rq mount_path =
     bnd (lift_sum (normalize_engine_mount_path mount_path)) (\<lambda>path. performed rq (request ''DELETE'' (''/sys/mounts/'' @ path) True))"

definition execute_mounted_operation ::
  "codec \<Rightarrow> 's requester \<Rightarrow> string \<Rightarrow> string \<Rightarrow> payload \<Rightarrow> payload \<Rightarrow> ('s, exn, json) sem" where
  "execute_mounted_operation cd rq verb path query body =
     (if verb \<notin> set GENERIC_METHODS \<or> \<not> prefix ''/'' path
      then raise (contract_error ''The mounted operation is outside the reviewed transport contract.'')
      else bnd (rq (request verb path True
                 \<lparr>rq_expected := [200, 204], rq_params := query,
                  rq_json := (if verb \<in> {''GET'', ''LIST'', ''DELETE''} then None else Some (JObj body)),
                  rq_headers := (if verb = ''PATCH'' then [(''Content-Type'', JStr ''application/merge-patch+json'')] else [])\<rparr>)) (\<lambda>response.
           if rs_status response = 204 then ret (JObj []) else lift_sum (response_json cd response)))"

definition read_auth_method :: "codec \<Rightarrow> 's requester \<Rightarrow> json \<Rightarrow> ('s, exn, json) sem" where
  "read_auth_method cd rq mount_path =
     bnd (lift_sum (normalize_mount_path mount_path)) (\<lambda>path. fetched cd rq normalize_public_auth_data (request ''GET'' (''/sys/auth/'' @ path) True))"

definition enable_auth_method :: "'s requester \<Rightarrow> json \<Rightarrow> payload \<Rightarrow> ('s, exn, unit) sem" where
  "enable_auth_method rq mount_path p =
     bnd (lift_sum (normalize_mount_path mount_path)) (\<lambda>path. performed rq (sending (JObj p) (request ''POST'' (''/sys/auth/'' @ path) True)))"

definition tune_auth_method :: "'s requester \<Rightarrow> json \<Rightarrow> payload \<Rightarrow> ('s, exn, unit) sem" where
  "tune_auth_method rq mount_path p =
     bnd (lift_sum (normalize_mount_path mount_path)) (\<lambda>path. performed rq (sending (JObj p) (request ''POST'' (''/sys/auth/'' @ path @ ''/tune'') True)))"

definition remount_auth_method :: "codec \<Rightarrow> 's requester \<Rightarrow> json \<Rightarrow> json \<Rightarrow> ('s, exn, json) sem" where
  "remount_auth_method cd rq source destination =
     bnd (lift_sum (normalize_mount_path source)) (\<lambda>s. 
     bnd (lift_sum (normalize_mount_path destination)) (\<lambda>d. 
     fetched cd rq normalize_public_auth_data (sending (JObj [(''from'', JStr (''auth/'' @ s @ ''/'')), (''to'', JStr (''auth/'' @ d @ ''/''))])
       (request ''POST'' ''/sys/remount'' True))))"

definition remount_status :: "codec \<Rightarrow> 's requester \<Rightarrow> json \<Rightarrow> ('s, exn, json) sem" where
  "remount_status cd rq migration_id =
     bnd (lift_sum (normalize_resource_name migration_id True)) (\<lambda>m. fetched cd rq normalize_public_auth_data (request ''GET'' (''/sys/remount/status/'' @ m) True))"

definition disable_auth_method :: "'s requester \<Rightarrow> json \<Rightarrow> ('s, exn, unit) sem" where
  "disable_auth_method rq mount_path =
     bnd (lift_sum (normalize_mount_path mount_path)) (\<lambda>path. performed rq (request ''DELETE'' (''/sys/auth/'' @ path) True))"

definition read_auth_config :: "codec \<Rightarrow> 's requester \<Rightarrow> json \<Rightarrow> ('s, exn, json) sem" where
  "read_auth_config cd rq mount_path =
     bnd (lift_sum (normalize_mount_path mount_path)) (\<lambda>path. fetched cd rq normalize_public_auth_data (request ''GET'' (''/auth/'' @ path @ ''/config'') True))"

definition write_auth_config :: "'s requester \<Rightarrow> json \<Rightarrow> payload \<Rightarrow> ('s, exn, unit) sem" where
  "write_auth_config rq mount_path p =
     bnd (lift_sum (normalize_mount_path mount_path)) (\<lambda>path. performed rq (sending (JObj p) (request ''POST'' (''/auth/'' @ path @ ''/config'') True)))"

definition run_auth_resource ::
  "codec \<Rightarrow> 's requester \<Rightarrow> json \<Rightarrow> auth_resource_spec \<Rightarrow> string \<Rightarrow> string \<Rightarrow> payload option \<Rightarrow> ('s, exn, json) sem" where
  "run_auth_resource cd rq mount_path spec operation name p =
     bnd (lift_sum (normalize_mount_path mount_path)) (\<lambda>mount.
     bnd (lift_sum (if name \<noteq> [] then normalize_resource_name (JStr name) False else Inr [])) (\<lambda>n.
     let path = auth_resource_path spec mount n in
     if operation = ''list'' then listed cd rq normalize_public_auth_data path
     else if operation = ''read'' then fetched cd rq normalize_public_auth_data (request ''GET'' path True)
     else if operation = ''write''
     then bnd (performed rq ((request ''POST'' path True)\<lparr>rq_json := map_option JObj p\<rparr>)) (\<lambda>_. ret (JObj []))
     else if operation = ''delete'' then bnd (performed rq (request ''DELETE'' path True)) (\<lambda>_. ret (JObj []))
     else raise (PythonError ''KeyError'')))"

section \<open>AppRole, login and OIDC\<close>

definition role_path :: "string \<Rightarrow> string \<Rightarrow> string \<Rightarrow> string" where
  "role_path mount role rest = ''/auth/'' @ mount @ ''/role/'' @ role @ rest"

text \<open>The mount and the role an AppRole operation names.\<close>

definition with_role :: "json \<Rightarrow> json \<Rightarrow> (string \<Rightarrow> string \<Rightarrow> ('s, exn, 'a) sem) \<Rightarrow> ('s, exn, 'a) sem" where
  "with_role mount_path role_name f =
     bnd (lift_sum (normalize_mount_path mount_path)) (\<lambda>mount.
     bnd (lift_sum (normalize_resource_name role_name False)) (\<lambda>role. f mount role))"

definition issue_approle_secret_id :: "codec \<Rightarrow> 's requester \<Rightarrow> json \<Rightarrow> json \<Rightarrow> payload \<Rightarrow> ('s, exn, secret_id_result) sem" where
  "issue_approle_secret_id cd rq mount_path role_name p =
     with_role mount_path role_name (\<lambda>mount role. 
       mutated cd rq normalize_secret_id_result
         (sending (JObj p) (request ''POST'' (role_path mount role ''/secret-id'') True)))"

definition read_approle_role_id :: "codec \<Rightarrow> 's requester \<Rightarrow> json \<Rightarrow> json \<Rightarrow> ('s, exn, json) sem" where
  "read_approle_role_id cd rq mount_path role_name =
     with_role mount_path role_name (\<lambda>mount role. 
       fetched cd rq normalize_public_auth_data (request ''GET'' (role_path mount role ''/role-id'') True))"

definition write_approle_role_id :: "'s requester \<Rightarrow> json \<Rightarrow> json \<Rightarrow> json \<Rightarrow> ('s, exn, unit) sem" where
  "write_approle_role_id rq mount_path role_name role_id =
     with_role mount_path role_name (\<lambda>mount role. 
       bnd (lift_sum (normalize_role_id role_id)) (\<lambda>i. 
       performed rq (sending (JObj [(''role_id'', JStr i)]) (request ''POST'' (role_path mount role ''/role-id'') True))))"

definition lookup_approle_secret_id :: "codec \<Rightarrow> 's requester \<Rightarrow> json \<Rightarrow> json \<Rightarrow> json \<Rightarrow> ('s, exn, json) sem" where
  "lookup_approle_secret_id cd rq mount_path role_name accessor =
     with_role mount_path role_name (\<lambda>mount role. 
       bnd (lift_sum (normalize_resource_name accessor True)) (\<lambda>a. 
       fetched cd rq normalize_public_auth_data (sending (JObj [(''secret_id_accessor'', JStr a)])
         (request ''POST'' (role_path mount role ''/secret-id-accessor/lookup'') True))))"

definition destroy_approle_secret_id :: "'s requester \<Rightarrow> json \<Rightarrow> json \<Rightarrow> json \<Rightarrow> ('s, exn, unit) sem" where
  "destroy_approle_secret_id rq mount_path role_name accessor =
     with_role mount_path role_name (\<lambda>mount role. 
       bnd (lift_sum (normalize_resource_name accessor True)) (\<lambda>a. 
       performed rq (sending (JObj [(''secret_id_accessor'', JStr a)])
         (request ''POST'' (role_path mount role ''/secret-id-accessor/destroy'') True))))"

datatype login_outcome = Authenticated authentication_result | PublicData json

text \<open>\<open>data.pop(k)\<close>: the value and what is left.\<close>

definition pop_key :: "payload \<Rightarrow> string \<Rightarrow> exn + (json \<times> payload)" where
  "pop_key p k = (case dict_get p k of None \<Rightarrow> Inl (PythonError ''KeyError'') | Some v \<Rightarrow> Inr (v, AList.delete k p))"

definition lookup_self :: "codec \<Rightarrow> 's requester \<Rightarrow> json \<Rightarrow> ('s, exn, json) sem" where
  "lookup_self cd rq token =
     fetched cd rq normalize_public_auth_data (bearing token (request ''GET'' ''/auth/token/lookup-self'' False))"

definition authenticate :: "codec \<Rightarrow> 's requester \<Rightarrow> string \<Rightarrow> json \<Rightarrow> payload \<Rightarrow> ('s, exn, login_outcome) sem" where
  "authenticate cd rq method_type mount_path p =
     bnd (lift_sum (normalize_mount_path mount_path)) (\<lambda>mount.
     if method_type = ''token''
     then bnd (lift_sum (pop_key p ''token'')) (\<lambda>(token, _). bnd (lookup_self cd rq token) (\<lambda>j. ret (PublicData j)))
     else bnd (lift_sum
            (if method_type \<in> {''userpass'', ''ldap'', ''radius''}
             then sbind (pop_key p ''username'') (\<lambda>(u, rest).
                  sbind (normalize_resource_name u False) (\<lambda>n. Inr (''/auth/'' @ mount @ ''/login/'' @ n, rest)))
             else if method_type \<in> {''jwt'', ''oidc'', ''approle'', ''kubernetes''} then Inr (''/auth/'' @ mount @ ''/login'', p)
             else Inl (contract_error ''The auth method does not support this login flow.''))) (\<lambda>(path, data).
          bnd (mutated cd rq normalize_authentication_result (sending (JObj data) (request ''POST'' path False)))
            (\<lambda>a. ret (Authenticated a))))"

definition oidc_begin :: "codec \<Rightarrow> 's requester \<Rightarrow> json \<Rightarrow> json \<Rightarrow> json \<Rightarrow> json \<Rightarrow> ('s, exn, oidc_start_result) sem" where
  "oidc_begin cd rq mount_path role redirect_uri client_nonce =
     with_role mount_path role (\<lambda>mount r.
       mutated cd rq normalize_oidc_start
         (sending (JObj [(''role'', JStr r), (''redirect_uri'', redirect_uri), (''client_nonce'', client_nonce)])
            (request ''POST'' (''/auth/'' @ mount @ ''/oidc/auth_url'') False)))"

definition oidc_poll :: "codec \<Rightarrow> 's requester \<Rightarrow> json \<Rightarrow> json \<Rightarrow> json \<Rightarrow> ('s, exn, authentication_result) sem" where
  "oidc_poll cd rq mount_path st client_nonce =
     bnd (lift_sum (normalize_mount_path mount_path)) (\<lambda>mount.
     mutated cd rq normalize_authentication_result
       (sending (JObj [(''state'', st), (''client_nonce'', client_nonce)])
          (request ''POST'' (''/auth/'' @ mount @ ''/oidc/poll'') False)))"

definition read_direct_oidc_role :: "codec \<Rightarrow> 's requester \<Rightarrow> json \<Rightarrow> json \<Rightarrow> ('s, exn, json) sem" where
  "read_direct_oidc_role cd rq mount_path role =
     with_role mount_path role (\<lambda>mount r.
       fetched cd rq validate_direct_oidc_role (request ''GET'' (''/auth/'' @ mount @ ''/role/'' @ r) True))"

section \<open>MFA and tokens\<close>

definition validate_mfa :: "codec \<Rightarrow> 's requester \<Rightarrow> json \<Rightarrow> json \<Rightarrow> ('s, exn, authentication_result) sem" where
  "validate_mfa cd rq request_id p =
     mutated cd rq normalize_authentication_result
       (sending (JObj [(''mfa_request_id'', request_id), (''mfa_payload'', p)]) (request ''POST'' ''/sys/mfa/validate'' False))"

definition list_mfa_methods :: "codec \<Rightarrow> 's requester \<Rightarrow> ('s, exn, json) sem" where
  "list_mfa_methods cd rq = listed cd rq normalize_public_auth_data ''/identity/mfa/method''"

definition read_mfa_method :: "codec \<Rightarrow> 's requester \<Rightarrow> json \<Rightarrow> ('s, exn, json) sem" where
  "read_mfa_method cd rq method_id =
     bnd (lift_sum (normalize_resource_name method_id True)) (\<lambda>i. fetched cd rq normalize_public_auth_data (request ''GET'' (''/identity/mfa/method/'' @ i) True))"

definition mfa_type_supported :: "string \<Rightarrow> exn + unit" where
  "mfa_type_supported method_type =
     srequire (method_type \<in> {''totp'', ''duo'', ''okta'', ''pingid''}) (contract_error ''The MFA method type is unsupported.'')"

definition write_mfa_method :: "codec \<Rightarrow> 's requester \<Rightarrow> string \<Rightarrow> payload \<Rightarrow> string \<Rightarrow> ('s, exn, json) sem" where
  "write_mfa_method cd rq method_type p method_id =
     bnd (lift_sum (mfa_type_supported method_type)) (\<lambda>_.
     bnd (lift_sum (if method_id \<noteq> []
                    then sbind (normalize_resource_name (JStr method_id) True) (\<lambda>i. Inr (''/'' @ i)) else Inr [])) (\<lambda>suf.
     bnd (rq (sending (JObj p) (request ''POST'' (''/identity/mfa/method/'' @ method_type @ suf) True)\<lparr>rq_expected := [200, 204]\<rparr>)) (\<lambda>response.
     if rs_status response = 204 then ret (JObj [])
     else bnd (lift_sum (read_json cd MAX_CLUSTER_JSON_BYTES mutation_unknown mutation_unknown response)) (\<lambda>j.
          case j of
            JObj _ \<Rightarrow> lift_sum (normalize_mutation normalize_public_auth_data j)
          | _ \<Rightarrow> raise mutation_unknown))))"

definition delete_mfa_method :: "'s requester \<Rightarrow> string \<Rightarrow> json \<Rightarrow> ('s, exn, unit) sem" where
  "delete_mfa_method rq method_type method_id =
     bnd (lift_sum (mfa_type_supported method_type)) (\<lambda>_.
     bnd (lift_sum (normalize_resource_name method_id True)) (\<lambda>i.
     performed rq (request ''DELETE'' (''/identity/mfa/method/'' @ method_type @ ''/'' @ i) True)))"

definition setup_totp ::
  "codec \<Rightarrow> 's requester \<Rightarrow> json \<Rightarrow> json \<Rightarrow> bool \<Rightarrow> json \<Rightarrow> ('s, exn, totp_setup_result) sem" where
  "setup_totp cd rq method_id entity_id administrator token =
     bnd (lift_sum (normalize_resource_name method_id True)) (\<lambda>m.
     bnd (lift_sum
       (if administrator
        then sbind (normalize_resource_name entity_id True) (\<lambda>i.
             Inr (''/identity/mfa/method/totp/admin-generate'', [(''method_id'', JStr m), (''entity_id'', JStr i)]))
        else if \<not> truthy token then Inl (contract_error ''A request-scoped token is required for TOTP self-setup.'')
        else Inr (''/identity/mfa/method/totp/generate'', [(''method_id'', JStr m)]))) (\<lambda>(path, p).
     mutated cd rq normalize_totp_setup_result
       (bearing (if administrator then JStr [] else token) (sending (JObj p) (request ''POST'' path administrator)))))"

definition destroy_totp_setup :: "'s requester \<Rightarrow> json \<Rightarrow> json \<Rightarrow> ('s, exn, unit) sem" where
  "destroy_totp_setup rq method_id entity_id =
     bnd (lift_sum (normalize_resource_name method_id True)) (\<lambda>m.
     bnd (lift_sum (normalize_resource_name entity_id True)) (\<lambda>i.
     performed rq (sending (JObj [(''method_id'', JStr m), (''entity_id'', JStr i)])
       (request ''POST'' ''/identity/mfa/method/totp/admin-destroy'' True))))"

definition reset_totp_setup :: "codec \<Rightarrow> 's requester \<Rightarrow> json \<Rightarrow> json \<Rightarrow> ('s, exn, json) sem" where
  "reset_totp_setup cd rq method_id token =
     bnd (lift_sum (normalize_resource_name method_id True)) (\<lambda>m.
     if \<not> truthy token then raise (contract_error ''A request-scoped token is required for TOTP reset.'')
     else bnd (lookup_self cd rq token) (\<lambda>j.
          bnd (lift_sum (normalize_resource_name (case j of JObj d \<Rightarrow> jget d ''entity_id'' | _ \<Rightarrow> JNull) True)) (\<lambda>i.
          bnd (destroy_totp_setup rq (JStr m) (JStr i)) (\<lambda>_.
          ret (JObj [(''reset'', JBool True)])))))"

definition list_mfa_enforcements :: "codec \<Rightarrow> 's requester \<Rightarrow> ('s, exn, json) sem" where
  "list_mfa_enforcements cd rq = listed cd rq normalize_public_auth_data ''/identity/mfa/login-enforcement''"

definition read_mfa_enforcement :: "codec \<Rightarrow> 's requester \<Rightarrow> json \<Rightarrow> ('s, exn, json) sem" where
  "read_mfa_enforcement cd rq name =
     bnd (lift_sum (normalize_resource_name name False)) (\<lambda>n. fetched cd rq normalize_public_auth_data (request ''GET'' (''/identity/mfa/login-enforcement/'' @ n) True))"

definition write_mfa_enforcement :: "'s requester \<Rightarrow> json \<Rightarrow> payload \<Rightarrow> ('s, exn, unit) sem" where
  "write_mfa_enforcement rq name p =
     bnd (lift_sum (normalize_resource_name name False)) (\<lambda>n. performed rq (sending (JObj p) (request ''POST'' (''/identity/mfa/login-enforcement/'' @ n) True)))"

definition delete_mfa_enforcement :: "'s requester \<Rightarrow> json \<Rightarrow> ('s, exn, unit) sem" where
  "delete_mfa_enforcement rq name =
     bnd (lift_sum (normalize_resource_name name False)) (\<lambda>n. performed rq (request ''DELETE'' (''/identity/mfa/login-enforcement/'' @ n) True))"

datatype token_outcome = TokenRenewed authentication_result | TokenData json | TokenRevoked

definition token_operation :: "codec \<Rightarrow> 's requester \<Rightarrow> string \<Rightarrow> payload \<Rightarrow> ('s, exn, token_outcome) sem" where
  "token_operation cd rq operation p =
     (if operation = ''lookup-self''
      then bnd (lift_sum (pop_key p ''token'')) (\<lambda>(token, _). bnd (lookup_self cd rq token) (\<lambda>j. ret (TokenData j)))
      else if operation = ''renew-self''
      then bnd (lift_sum (pop_key p ''token'')) (\<lambda>(token, data).
           bnd (mutated cd rq normalize_authentication_result
                  (bearing token (sending (JObj data) (request ''POST'' ''/auth/token/renew-self'' False)))) (\<lambda>a. ret (TokenRenewed a)))
      else if operation = ''revoke-self''
      then bnd (lift_sum (pop_key p ''token'')) (\<lambda>(token, _).
           bnd (performed rq (bearing token (request ''POST'' ''/auth/token/revoke-self'' False))) (\<lambda>_. ret TokenRevoked))
      else bnd (lift_sum (sbind (pop_key p ''accessor'') (\<lambda>(a, rest).
                 sbind (normalize_resource_name a True) (\<lambda>s. Inr (s, rest))))) (\<lambda>(accessor, data).
           let path = ''/auth/token/'' @ before ''-'' operation @ ''-accessor'';
               body = (\<lambda>extra. sending (JObj ((''accessor'', JStr accessor) # extra)) (request ''POST'' path True))
           in if operation = ''lookup-accessor''
              then bnd (fetched cd rq normalize_public_auth_data (body [])) (\<lambda>j. ret (TokenData j))
              else if operation = ''renew-accessor''
              then bnd (mutated cd rq normalize_authentication_result (body data)) (\<lambda>a. ret (TokenRenewed a))
              else if operation = ''revoke-accessor'' then bnd (performed rq (body [])) (\<lambda>_. ret TokenRevoked)
              else raise (contract_error ''The token operation is unsupported.'')))"

section \<open>Access and finalization operations\<close>

text \<open>What both do with the response of a request that is not a \<^verbatim>\<open>LIST\<close>.\<close>

definition contract_response :: "codec \<Rightarrow> bool \<Rightarrow> string \<Rightarrow> admin_response \<Rightarrow> exn + json" where
  "contract_response cd material verb response =
     (let normalizer = (\<lambda>v. normalize_access_response v material) in
      if rs_status response = 204 then Inr (JObj [])
      else if verb \<in> {''POST'', ''DELETE''}
      then (case sbind (response_json cd response) (normalize_mutation normalizer) of
              Inl e \<Rightarrow> Inl (if is_schema_error e \<or> exn_is OpenBaoUnavailableC e then mutation_unknown else e)
            | Inr j \<Rightarrow> Inr j)
      else sbind (response_json cd response) (normalize_with normalizer))"

definition execute_access_operation ::
  "codec \<Rightarrow> 's requester \<Rightarrow> string \<Rightarrow> string \<Rightarrow> payload \<Rightarrow> bool \<Rightarrow> ('s, exn, json) sem" where
  "execute_access_operation cd rq verb path p material =
     (if verb \<notin> {''GET'', ''LIST'', ''POST'', ''DELETE''}
         \<or> \<not> list_ex (\<lambda>q. prefix q path) [''/sys/policies/'', ''/identity/'', ''/sys/namespaces'']
      then raise (contract_error ''The access-control operation is outside the reviewed contract.'')
      else if verb = ''LIST'' then listed cd rq (\<lambda>v. normalize_access_response v material) path
      else bnd (rq (request verb path True
                 \<lparr>rq_expected := [200, 204], rq_json := (if verb = ''POST'' then Some (JObj p) else None)\<rparr>)) (\<lambda>response.
           lift_sum (contract_response cd material verb response)))"

definition final_prefixes :: "string list" where
  "final_prefixes = [''/sys/leases/'', ''/sys/wrapping/'', ''/sys/tools/'', ''/sys/config/ui/headers'', ''/auth/token/lookup'']"

definition final_request :: "string \<Rightarrow> string \<Rightarrow> payload \<Rightarrow> exn + admin_request" where
  "final_request verb path p =
     (let base = request verb path True\<lparr>rq_expected := [200, 204]\<rparr> in
      if verb = ''POST''
      then (if path = ''/sys/wrapping/wrap''
            then (case dict_get p ''data'' of
                    None \<Rightarrow> Inl (PythonError ''KeyError'')
                  | Some d \<Rightarrow>
                      Inr (base\<lparr>rq_json := Some d,
                                rq_headers := (if truthy (jget p ''ttl'') then [(''X-Vault-Wrap-TTL'', jget p ''ttl'')] else [])\<rparr>))
            else Inr (base\<lparr>rq_json := Some (JObj p)\<rparr>))
      else if verb = ''GET'' \<and> prefix ''/sys/config/ui/headers/'' path
      then Inr (base\<lparr>rq_params := [(''multivalue'', JStr ''true'')]\<rparr>)
      else Inr base)"

definition execute_final_operation ::
  "codec \<Rightarrow> 's requester \<Rightarrow> string \<Rightarrow> string \<Rightarrow> payload \<Rightarrow> bool \<Rightarrow> ('s, exn, json) sem" where
  "execute_final_operation cd rq verb path p material =
     (if verb \<notin> {''GET'', ''LIST'', ''POST'', ''DELETE''} \<or> \<not> list_ex (\<lambda>q. prefix q path) final_prefixes
      then raise (contract_error ''The finalization operation is outside the reviewed contract.'')
      else if verb = ''LIST'' then listed cd rq (\<lambda>v. normalize_access_response v material) path
      else bnd (lift_sum (final_request verb path p)) (\<lambda>r.
           bnd (rq r) (\<lambda>response. lift_sum (contract_response cd material verb response))))"

end
