(* ===== verification/Admin_Log.thy ===== *)
theory Admin_Log
  imports Admin_Operations Backend_Contract
begin

text \<open>
  The administration inventory and its append-only audit log (\<^verbatim>\<open>models/administration.py\<close>,
  \<^verbatim>\<open>administration/audit.py\<close> and \<^verbatim>\<open>administration/observations.py\<close>). Whether an insert commits is decided by
  the database: the parameter \<open>ae_commits\<close>, by the number of the attempt.
\<close>

section \<open>Rows\<close>

record openbao_cluster =
  clu_pk :: nat
  clu_name :: string
  clu_slug :: string
  clu_backend :: backend_choice
  clu_api_url :: string
  clu_namespace :: string
  clu_auth_method :: auth_method_choice
  clu_tls_verify :: bool
  clu_ca_cert_path :: string
  clu_status :: engine_status
  clu_status_message :: string
  clu_last_checked :: "int option"
  clu_openbao_version :: string
  clu_capability_digest :: string
  clu_capabilities_checked :: "int option"

record administration_log =
  adl_cluster :: nat
  adl_cluster_name :: string
  adl_cluster_slug :: string
  adl_user :: "nat option"
  adl_username :: string
  adl_action :: string
  adl_operation_id :: string
  adl_risk_level :: string
  adl_method :: string
  adl_path_template :: string
  adl_source_ip :: "string option"
  adl_reason :: string
  adl_request_id :: string
  adl_capability_digest :: string
  adl_target_identifiers :: "string list"
  adl_outcome :: string
  adl_success :: bool
  adl_status_code :: "nat option"
  adl_message :: string
  adl_timestamp :: int

section \<open>Who asks, and what is recorded\<close>

record admin_actor =
  aa_user :: "nat option" \<comment> \<open>the authenticated user\<close>
  aa_username :: string
  aa_client_ip :: "string option"
  aa_request_id :: string
  aa_permits :: "string \<Rightarrow> nat \<Rightarrow> bool" \<comment> \<open>whether \<open>restrict(user, action)\<close> keeps the cluster\<close>
  aa_has_perm :: "string \<Rightarrow> nat \<Rightarrow> bool" \<comment> \<open>\<open>user.has_perm(permission, cluster)\<close>\<close>

record admin_env =
  ae_now :: int
  ae_in_atomic :: bool
  ae_commits :: "nat \<Rightarrow> bool"
  ae_actor :: admin_actor

record audit_event =
  ev_action :: string
  ev_operation_id :: string
  ev_risk_level :: string
  ev_method :: string
  ev_path_template :: string
  ev_reason :: string
  ev_capability_digest :: string
  ev_target_identifiers :: "string list"
  ev_outcome :: string
  ev_success :: bool
  ev_status_code :: "nat option"
  ev_message :: string
  ev_durable :: bool

text \<open>The keyword defaults of \<open>log_administration\<close>.\<close>

definition event :: "string \<Rightarrow> audit_event" where
  "event act =
     \<lparr>ev_action = act, ev_operation_id = [], ev_risk_level = ''read'', ev_method = [], ev_path_template = [],
      ev_reason = [], ev_capability_digest = [], ev_target_identifiers = [], ev_outcome = [], ev_success = True,
      ev_status_code = None, ev_message = [], ev_durable = False\<rparr>"

record 's admin_state =
  as_backend :: 's
  as_clusters :: "(nat \<times> openbao_cluster) list"
  as_log :: "administration_log list"
  as_attempts :: nat

definition audit_error :: exn where
  "audit_error = PythonError ''AdministrationAuditError''"

definition log_row :: "admin_env \<Rightarrow> openbao_cluster \<Rightarrow> audit_event \<Rightarrow> administration_log" where
  "log_row env c ev =
     \<lparr>adl_cluster = clu_pk c, adl_cluster_name = take 100 (clu_name c), adl_cluster_slug = take 100 (clu_slug c),
      adl_user = aa_user (ae_actor env), adl_username = take 150 (aa_username (ae_actor env)),
      adl_action = take 100 (ev_action ev), adl_operation_id = take 200 (ev_operation_id ev),
      adl_risk_level = take 32 (ev_risk_level ev), adl_method = take 16 (ev_method ev),
      adl_path_template = take 500 (ev_path_template ev), adl_source_ip = aa_client_ip (ae_actor env),
      adl_reason = take 10000 (ev_reason ev), adl_request_id = take 64 (aa_request_id (ae_actor env)),
      adl_capability_digest = take 64 (ev_capability_digest ev),
      adl_target_identifiers = map (take 500) (ev_target_identifiers ev),
      adl_outcome = take 32 (str_or (ev_outcome ev) (if ev_success ev then ''succeeded'' else ''failed'')),
      adl_success = ev_success ev, adl_status_code = ev_status_code ev, adl_message = take 500 (ev_message ev),
      adl_timestamp = ae_now env\<rparr>"

text \<open>
  \<open>log_administration\<close>: one row, or \<open>AdministrationAuditError\<close>. A durable record refuses to be part of a
  surrounding transaction.
\<close>

definition log_administration ::
  "admin_env \<Rightarrow> openbao_cluster \<Rightarrow> audit_event \<Rightarrow> ('s admin_state, exn, unit) sem" where
  "log_administration env c ev st =
     (let st1 = st\<lparr>as_attempts := Suc (as_attempts st)\<rparr> in
      if (ev_durable ev \<and> ae_in_atomic env) \<or> length (ev_target_identifiers ev) > 256 \<or> \<not> ae_commits env (as_attempts st)
      then (Inl audit_error, st1)
      else (Inr (), st1\<lparr>as_log := as_log st1 @ [log_row env c ev]\<rparr>))"

section \<open>Observations\<close>

text \<open>The observed columns and their audit record commit together or not at all.\<close>

definition observed ::
  "admin_env \<Rightarrow> openbao_cluster \<Rightarrow> (openbao_cluster \<Rightarrow> openbao_cluster) \<Rightarrow> audit_event \<Rightarrow> ('s admin_state, exn, int) sem" where
  "observed env c upd ev st =
     (let clusters = map (\<lambda>(k, x). if k = clu_pk c then (k, upd x) else (k, x)) (as_clusters st) in
      case log_administration env c ev (st\<lparr>as_clusters := clusters\<rparr>) of
        (Inl e, st') \<Rightarrow> (Inl e, st'\<lparr>as_clusters := as_clusters st\<rparr>)
      | (Inr _, st') \<Rightarrow> (Inr (ae_now env), st'))"

definition record_health_observation ::
  "admin_env \<Rightarrow> openbao_cluster \<Rightarrow> health_result \<Rightarrow> ('s admin_state, exn, int) sem" where
  "record_health_observation env c result =
     observed env c
       (\<lambda>x. x\<lparr>clu_status := hr_status result, clu_status_message := take 500 (hr_message result),
               clu_last_checked := Some (ae_now env)\<rparr>)
       ((event ''health'')\<lparr>ev_operation_id := ''sys-health'', ev_method := ''GET'', ev_path_template := ''/sys/health'',
          ev_status_code := Some 200, ev_message := ''Read cluster health.''\<rparr>)"

definition record_capability_observation ::
  "admin_env \<Rightarrow> openbao_cluster \<Rightarrow> capability_document \<Rightarrow> ('s admin_state, exn, int) sem" where
  "record_capability_observation env c document =
     observed env c
       (\<lambda>x. x\<lparr>clu_openbao_version := cd_product_version document, clu_capability_digest := cd_digest document,
               clu_capabilities_checked := Some (ae_now env)\<rparr>)
       ((event ''discover-capabilities'')\<lparr>ev_operation_id := ''sys-internal-specs-openapi'', ev_method := ''GET'',
          ev_path_template := ''/sys/internal/specs/openapi'', ev_capability_digest := cd_digest document,
          ev_status_code := Some 200, ev_message := ''Discovered cluster capabilities.''\<rparr>)"

section \<open>Lemmas\<close>

text \<open>A committed record is the last row of the log; a refused one leaves the log and the backend as they were.\<close>

lemma log_administration_ok:
  "log_administration env c ev st = (Inr u, st') \<Longrightarrow>
     as_log st' = as_log st @ [log_row env c ev] \<and> as_backend st' = as_backend st \<and> as_clusters st' = as_clusters st
     \<and> (ev_durable ev \<longrightarrow> \<not> ae_in_atomic env)"
  by (auto simp: log_administration_def Let_def split: if_splits)

lemma log_administration_refused:
  "log_administration env c ev st = (Inl e, st') \<Longrightarrow>
     e = audit_error \<and> as_log st' = as_log st \<and> as_backend st' = as_backend st \<and> as_clusters st' = as_clusters st"
  by (auto simp: log_administration_def Let_def split: if_splits)

lemma log_administration_backend: "log_administration env c ev st = (r, st') \<Longrightarrow> as_backend st' = as_backend st"
  by (auto simp: log_administration_def Let_def split: if_splits)

lemma observed_all_or_nothing:
  assumes "observed env c upd ev st = (r, st')"
  shows "(\<exists>t. r = Inr t) \<and> as_log st' = as_log st @ [log_row env c ev]
           \<and> as_clusters st' = map (\<lambda>(k, x). if k = clu_pk c then (k, upd x) else (k, x)) (as_clusters st)
         \<or> r = Inl audit_error \<and> as_log st' = as_log st \<and> as_clusters st' = as_clusters st"
  using assms
  by (auto simp: observed_def Let_def split: prod.splits sum.splits
           dest!: log_administration_ok log_administration_refused)

end
