(* ===== verification/Admin_Transport.thy ===== *)
theory Admin_Transport
  imports Admin_Operations Backend_Registry
begin

text \<open>
  The two transports of the administration plane: the direct one (\<open>DirectAdministrationBackend._request\<close> in
  \<^verbatim>\<open>administration/backends.py\<close>), and the pinned broker contract (\<^verbatim>\<open>administration/broker.py\<close> and
  \<open>BrokerAdministrationBackend\<close>). A cluster is served by a backend object as an engine is; \<open>ht\<close> is the
  \<^verbatim>\<open>requests\<close> session's \<open>request\<close> method with what is behind it.
\<close>

record 'w admin_http =
  ah_send :: "session_key \<Rightarrow> string \<Rightarrow> payload \<Rightarrow> (string \<times> bool) \<Rightarrow> admin_request \<Rightarrow> ('w, string, admin_response) sem"

text \<open>A remote call whose failure is a Python exception, by class name.\<close>

definition remote_raising :: "('w, string, 'a) sem \<Rightarrow> ('w backend_world, exn, 'a) sem" where
  "remote_raising m x =
     (case remote m x of (Inl c, x') \<Rightarrow> (Inl (PythonError c), x') | (Inr r, x') \<Rightarrow> (Inr r, x'))"

section \<open>The direct transport\<close>

definition update_all :: "payload \<Rightarrow> payload \<Rightarrow> payload" where
  "update_all d extra = fold (\<lambda>(k, v). AList.update k v) extra d"

definition request_token ::
  "'w hvac \<Rightarrow> 'k crypto \<Rightarrow> backend_ctx \<Rightarrow> nat \<Rightarrow> admin_request \<Rightarrow> ('w backend_world, exn, json) sem" where
  "request_token hv cx ctx b r =
     (if rq_authenticated r \<and> \<not> truthy (rq_token r)
      then bnd (get_client hv cx ctx b) (\<lambda>client. ret (case cl_token client of None \<Rightarrow> JNull | Some t \<Rightarrow> JStr t))
      else ret (rq_token r))"

definition direct_headers ::
  "'w hvac \<Rightarrow> 'k crypto \<Rightarrow> backend_ctx \<Rightarrow> nat \<Rightarrow> admin_request \<Rightarrow> ('w backend_world, exn, payload) sem" where
  "direct_headers hv cx ctx b r =
     bnd (get_object b) (\<lambda>ob.
     bnd (request_token hv cx ctx b r) (\<lambda>token.
     let namespace = eng_namespace (bo_engine ob) in
     ret (update_all
            ([(''X-Vault-Request'', JStr ''true'')]
             @ (if namespace \<noteq> [] then [(''X-Vault-Namespace'', JStr namespace)] else [])
             @ (if truthy token then [(''X-Vault-Token'', token)] else [])) (rq_headers r))))"

definition direct_status_error :: "string \<Rightarrow> nat \<Rightarrow> exn" where
  "direct_status_error verb status =
     (let err = (\<lambda>c m. OpenBaoExn (openbao_exn c (Some m) (Some status))) in
      if status \<in> {401, 403} then err OpenBaoAuthErrorC ''OpenBao rejected the administrative request.''
      else if status = 404 then err OpenBaoNotFoundC ''OpenBao does not support this administrative operation.''
      else if status \<in> {400, 409, 412} then err OpenBaoConflictC ''OpenBao refused the administrative state transition.''
      else if status \<ge> 500 \<and> mutating verb then mutation_unknown
      else err OpenBaoUnavailableC ''OpenBao administration request failed.'')"

definition direct_failure :: "string \<Rightarrow> exn \<Rightarrow> exn" where
  "direct_failure verb e =
     (if is_openbao e then e else if mutating verb then mutation_unknown
      else unavailable ''OpenBao administration request failed.'')"

definition direct_send ::
  "'w admin_http \<Rightarrow> 'w hvac \<Rightarrow> 'k crypto \<Rightarrow> nat \<Rightarrow> payload \<Rightarrow> admin_request \<Rightarrow> ('w backend_world, exn, admin_response) sem" where
  "direct_send ht hv cx b headers r =
     bnd (get_object b) (\<lambda>ob.
     bnd (bao_get_session hv cx ob) (\<lambda>key.
     remote_raising (ah_send ht key (rstrip_slash (eng_api_url (bo_engine ob)) @ ''/v1'' @ rq_path r) headers
       (eng_ca_cert_path (bo_engine ob), eng_tls_verify (bo_engine ob)) r)))"

definition direct_request ::
  "'w admin_http \<Rightarrow> 'w hvac \<Rightarrow> 'k crypto \<Rightarrow> backend_ctx \<Rightarrow> nat \<Rightarrow> 'w backend_world requester" where
  "direct_request ht hv cx ctx b r =
     bnd (direct_headers hv cx ctx b r) (\<lambda>headers.
     bnd (on_exn (direct_send ht hv cx b headers r) (\<lambda>e. raise (direct_failure (rq_method r) e))) (\<lambda>response.
     if rs_status response \<in> set (rq_expected r) then ret response
     else raise (direct_status_error (rq_method r) (rs_status response))))"

section \<open>The broker contract\<close>

definition CONTRACT_DIGEST :: string where
  "CONTRACT_DIGEST = ''d3eff0f2202d7531181b51bb22e29d7ef5640c4a1257af1c2fe9ce8472bd4cf6''"

definition EXPECTED_OPERATIONS :: "(string \<times> string \<times> string) list" where
  "EXPECTED_OPERATIONS =
     [(''discover_capabilities'', ''cluster'', ''json''),
      (''initialization_status'', ''cluster'', ''json''),
      (''seal_status'', ''cluster'', ''json''),
      (''leader_status'', ''cluster'', ''json''),
      (''ha_status'', ''cluster'', ''json''),
      (''raft_configuration'', ''cluster'', ''json''),
      (''initialize'', ''cluster'', ''json''),
      (''join_raft'', ''cluster'', ''json''),
      (''unseal'', ''cluster'', ''json''),
      (''seal'', ''cluster'', ''json''),
      (''remove_raft_peer'', ''cluster'', ''json''),
      (''download_raft_snapshot'', ''cluster'', ''stream-download''),
      (''restore_raft_snapshot'', ''cluster'', ''stream-upload''),
      (''execute_secret_engine_operation'', ''secret-engines'', ''json''),
      (''execute_mounted_operation'', ''mounted-secrets'', ''json''),
      (''execute_authentication_operation'', ''authentication'', ''json''),
      (''execute_access_operation'', ''access'', ''json''),
      (''execute_final_operation'', ''finalization'', ''json'')]"

text \<open>The state a broker client works on: the shared world, and whether it has verified the contract.\<close>

record 'w broker_state =
  ba_world :: "'w backend_world"
  ba_verified :: bool

definition within :: "('w backend_world, exn, 'a) sem \<Rightarrow> ('w broker_state, exn, 'a) sem" where
  "within m st = (case m (ba_world st) of (r, x) \<Rightarrow> (r, st\<lparr>ba_world := x\<rparr>))"

definition invalid_response :: "bool \<Rightarrow> exn" where
  "invalid_response mutation =
     (if mutation then mutation_unknown else unavailable ''The broker returned an invalid administrative response.'')"

definition broker_status_error :: "admin_response \<Rightarrow> bool \<Rightarrow> exn" where
  "broker_status_error response mutation =
     (let status = rs_status response; err = (\<lambda>c m. OpenBaoExn (openbao_exn c (Some m) (Some status))) in
      if lower (case response_header response ''X-OpenBao-Outcome'' of None \<Rightarrow> [] | Some s \<Rightarrow> s) = ''unknown'' then mutation_unknown
      else if status \<in> {401, 403} then err OpenBaoAuthErrorC ''The broker refused the administrative request.''
      else if status = 404 then err OpenBaoNotFoundC ''The administrative resource was not found.''
      else if status \<in> {400, 409, 412} then err OpenBaoConflictC ''The administrative state transition was refused.''
      else if status = 422 then contract_error ''The broker rejected the administration contract request.''
      else if mutation \<and> status \<ge> 500 then mutation_unknown
      else err OpenBaoUnavailableC ''The broker administration request failed.'')"

definition broker_dispatch ::
  "'w admin_http \<Rightarrow> 'w requests \<Rightarrow> 'k crypto \<Rightarrow> backend_ctx \<Rightarrow> nat \<Rightarrow> admin_request
     \<Rightarrow> ('w backend_world, exn, admin_response) sem" where
  "broker_dispatch ht hs cx ctx b r =
     bnd (broker_get_session hs cx ctx b) (\<lambda>key.
     bnd (get_object b) (\<lambda>ob.
     remote_raising (ah_send ht key (rstrip_slash (eng_api_url (bo_engine ob)) @ rq_path r) (rq_headers r)
       (eng_ca_cert_path (bo_engine ob), eng_tls_verify (bo_engine ob)) r)))"

definition is_configuration_error :: "exn \<Rightarrow> bool" where
  "is_configuration_error e = (case e of OpenBaoExn x \<Rightarrow> oe_class x = BackendConfigurationErrorC | _ \<Rightarrow> False)"

definition broker_send ::
  "'w admin_http \<Rightarrow> 'w requests \<Rightarrow> 'k crypto \<Rightarrow> backend_ctx \<Rightarrow> nat \<Rightarrow> bool \<Rightarrow> admin_request
     \<Rightarrow> ('w broker_state, exn, admin_response) sem" where
  "broker_send ht hs cx ctx b mutation r =
     bnd (on_exn (within (broker_dispatch ht hs cx ctx b r))
            (\<lambda>e. raise (if is_configuration_error e then e else if mutation then mutation_unknown
                        else unavailable ''The broker is unreachable.''))) (\<lambda>response.
     if rs_redirect response then raise (invalid_response mutation)
     else if rs_status response \<ge> 400 then raise (broker_status_error response mutation)
     else if rs_status response \<noteq> 200 then raise (invalid_response mutation)
     else ret response)"

definition broker_decode :: "codec \<Rightarrow> bool \<Rightarrow> admin_response \<Rightarrow> exn + json" where
  "broker_decode cd mutation response =
     (case rs_body response of
        None \<Rightarrow> Inl (invalid_response mutation)
      | Some body \<Rightarrow>
          if length body > MAX_CLUSTER_JSON_BYTES then Inl (invalid_response mutation)
          else (case json_loads cd body of
                  Inl e \<Rightarrow> Inl (if e \<in> set json_errors \<or> e \<in> {PythonError ''TypeError'', PythonError ''ValueError''}
                               then invalid_response mutation else e)
                | Inr j \<Rightarrow> Inr j))"

definition malformed_contract :: exn where
  "malformed_contract = contract_error ''The broker returned a malformed administration contract.''"

definition contract_families :: "json \<Rightarrow> exn + string list" where
  "contract_families j =
     (case j of
        JArr xs \<Rightarrow> if \<not> list_all is_text xs \<or> \<not> distinct (map text_item xs) then Inl malformed_contract
                  else Inr (map text_item xs)
      | _ \<Rightarrow> Inl malformed_contract)"

definition contract_operation :: "json \<Rightarrow> exn + (string \<times> string \<times> string)" where
  "contract_operation j =
     (case j of
        JObj p \<Rightarrow>
          if set (map fst p) = {''name'', ''family'', ''framing''} \<and> list_all (\<lambda>(_, x). is_text x) p
          then Inr (text_item (jget p ''name''), text_item (jget p ''family''), text_item (jget p ''framing''))
          else Inl malformed_contract
      | _ \<Rightarrow> Inl malformed_contract)"

definition contract_operations :: "json \<Rightarrow> exn + (string \<times> string \<times> string) list" where
  "contract_operations j =
     (case j of
        JArr xs \<Rightarrow> sbind (straverse contract_operation xs) (\<lambda>ops. if distinct ops then Inr ops else Inl malformed_contract)
      | _ \<Rightarrow> Inl malformed_contract)"

definition validate_contract :: "json \<Rightarrow> exn + unit" where
  "validate_contract j =
     (case j of
        JObj p \<Rightarrow>
          if set (map fst p) \<noteq> {''version'', ''digest'', ''families'', ''operations''} then Inl malformed_contract
          else if jget p ''version'' \<noteq> JStr ''1'' \<or> jget p ''digest'' \<noteq> JStr CONTRACT_DIGEST
          then Inl (contract_error ''The broker administration contract is incompatible.'')
          else sbind (contract_families (jget p ''families'')) (\<lambda>families.
               sbind (contract_operations (jget p ''operations'')) (\<lambda>ops.
               if set families \<noteq> set (map (\<lambda>(_, f, _). f) EXPECTED_OPERATIONS) \<or> set ops \<noteq> set EXPECTED_OPERATIONS
               then Inl (contract_error ''The broker administration contract is incomplete.'') else Inr ()))
      | _ \<Rightarrow> Inl malformed_contract)"

text \<open>A broker client: how it sends. Everything above the wire is over this function.\<close>

type_synonym 'w sender = "bool \<Rightarrow> admin_request \<Rightarrow> ('w broker_state, exn, admin_response) sem"

definition verify_contract :: "codec \<Rightarrow> 'w sender \<Rightarrow> ('w broker_state, exn, unit) sem" where
  "verify_contract cd snd_request =
     bnd (gets ba_verified) (\<lambda>done.
     if done then ret ()
     else bnd (snd_request False (request ''GET'' ''/v1/administration/contract'' False)) (\<lambda>response.
          bnd (lift_sum (broker_decode cd False response)) (\<lambda>document.
          bnd (lift_sum (validate_contract document)) (\<lambda>_.
          modify (\<lambda>st. st\<lparr>ba_verified := True\<rparr>)))))"

definition json_operations :: "string list" where
  "json_operations = map fst (filter (\<lambda>(_, _, framing). framing = ''json'') EXPECTED_OPERATIONS)"

definition envelope_data :: "bool \<Rightarrow> json \<Rightarrow> exn + json" where
  "envelope_data mutation j =
     (case j of
        JObj [(k, JObj d)] \<Rightarrow> if k = ''data'' then Inr (JObj d) else Inl (invalid_response mutation)
      | _ \<Rightarrow> Inl (invalid_response mutation))"

definition broker_execute ::
  "codec \<Rightarrow> 'w sender \<Rightarrow> string \<Rightarrow> payload \<Rightarrow> bool \<Rightarrow> ('w broker_state, exn, json) sem" where
  "broker_execute cd snd_request operation arguments mutation =
     (if operation \<notin> set json_operations
      then raise (contract_error ''The administration operation is outside the pinned broker contract.'')
      else bnd (verify_contract cd snd_request) (\<lambda>_.
           bnd (snd_request mutation
                  (sending (JObj [(''contract_digest'', JStr CONTRACT_DIGEST), (''operation'', JStr operation),
                                  (''arguments'', JObj arguments)])
                     (request ''POST'' ''/v1/administration/request'' False))) (\<lambda>response.
           lift_sum (sbind (broker_decode cd mutation response) (envelope_data mutation)))))"

section \<open>The broker transport\<close>

definition proxy_operation :: "string \<Rightarrow> exn + string" where
  "proxy_operation path =
     (if list_ex (\<lambda>q. prefix q path) [''/sys/mounts'', ''/sys/remount''] then Inr ''execute_secret_engine_operation''
      else if list_ex (\<lambda>q. prefix q path) [''/sys/auth'', ''/auth/'', ''/identity/mfa/'', ''/sys/mfa/'']
      then Inr ''execute_authentication_operation''
      else Inl (contract_error ''The operation is outside the broker administration contract.''))"

definition memory_response :: "codec \<Rightarrow> json \<Rightarrow> nat \<Rightarrow> exn + admin_response" where
  "memory_response cd j status =
     (case json_dumps cd j of
        None \<Rightarrow> Inl (PythonError ''ValueError'')
      | Some body \<Rightarrow> Inr \<lparr>rs_status = status, rs_redirect = False, rs_headers = [], rs_body = Some body\<rparr>)"

definition writes :: "string \<Rightarrow> bool" where
  "writes verb = (verb \<in> {''POST'', ''PUT'', ''PATCH'', ''DELETE''})"

definition broker_request :: "codec \<Rightarrow> 'w sender \<Rightarrow> 'w broker_state requester" where
  "broker_request cd snd_request r =
     bnd (lift_sum (proxy_operation (rq_path r))) (\<lambda>operation.
     let arguments = [(''method'', JStr (rq_method r)), (''path'', JStr (rq_path r)),
                      (''payload'', jor (case rq_json r of None \<Rightarrow> JNull | Some j \<Rightarrow> j) (JObj []))]
           @ (if operation = ''execute_authentication_operation'' \<and> truthy (rq_token r) then [(''token'', rq_token r)] else [])
     in bnd (on_exn (bnd (broker_execute cd snd_request operation arguments (writes (rq_method r))) (\<lambda>j. ret (j, 200)))
               (\<lambda>e. if exn_is OpenBaoNotFoundC e \<and> 404 \<in> set (rq_expected r) then ret (JObj [], 404) else raise e)) (\<lambda>(j, status).
        lift_sum (memory_response cd j status)))"

definition CLUSTER_MUTATIONS :: "string list" where
  "CLUSTER_MUTATIONS = [''initialize'', ''join_raft'', ''unseal'', ''seal'', ''remove_raft_peer'']"

definition cluster_operation ::
  "codec \<Rightarrow> 'w sender \<Rightarrow> string \<Rightarrow> payload \<Rightarrow> (json \<Rightarrow> exn + 'a) \<Rightarrow> ('w broker_state, exn, 'a) sem" where
  "cluster_operation cd snd_request operation arguments f =
     bnd (broker_execute cd snd_request operation arguments (operation \<in> set CLUSTER_MUTATIONS)) (\<lambda>j.
     lift_sum (if operation \<in> set CLUSTER_MUTATIONS then normalize_mutation f j else normalize_with f j))"

definition broker_discover_capabilities :: "codec \<Rightarrow> 'w sender \<Rightarrow> ('w broker_state, exn, capability_document) sem" where
  "broker_discover_capabilities cd snd_request =
     bnd (broker_execute cd snd_request ''discover_capabilities'' [] False) (\<lambda>j.
     lift_sum (case normalize_openapi_document (json_dumps cd) (json_sha256 cd) j of
                 Inl e \<Rightarrow> Inl (if is_schema_error e then unavailable ''The broker returned an invalid capability document.'' else e)
               | Inr d \<Rightarrow> Inr d))"

definition broker_initialization_status :: "codec \<Rightarrow> 'w sender \<Rightarrow> ('w broker_state, exn, bool) sem" where
  "broker_initialization_status cd snd_request =
     bnd (broker_execute cd snd_request ''initialization_status'' [] False) (\<lambda>j.
     case j of
       JObj p \<Rightarrow> (case jget p ''initialized'' of
                    JBool b \<Rightarrow> ret b
                  | _ \<Rightarrow> raise (unavailable ''The broker returned an invalid initialization status.''))
     | _ \<Rightarrow> raise (unavailable ''The broker returned an invalid initialization status.''))"

definition broker_seal_status :: "codec \<Rightarrow> 'w sender \<Rightarrow> ('w broker_state, exn, seal_status) sem" where
  "broker_seal_status cd snd_request = cluster_operation cd snd_request ''seal_status'' [] normalize_seal_status"

definition broker_leader_status :: "codec \<Rightarrow> 'w sender \<Rightarrow> ('w broker_state, exn, leader_status) sem" where
  "broker_leader_status cd snd_request = cluster_operation cd snd_request ''leader_status'' [] normalize_leader_status"

definition broker_ha_status :: "codec \<Rightarrow> 'w sender \<Rightarrow> ('w broker_state, exn, ha_node list) sem" where
  "broker_ha_status cd snd_request = cluster_operation cd snd_request ''ha_status'' [] normalize_ha_status"

definition broker_raft_configuration :: "codec \<Rightarrow> 'w sender \<Rightarrow> ('w broker_state, exn, raft_configuration) sem" where
  "broker_raft_configuration cd snd_request =
     cluster_operation cd snd_request ''raft_configuration'' [] normalize_raft_configuration"

definition broker_initialize :: "codec \<Rightarrow> 'w sender \<Rightarrow> payload \<Rightarrow> ('w broker_state, exn, initialization_result) sem" where
  "broker_initialize cd snd_request p = cluster_operation cd snd_request ''initialize'' p normalize_initialization_result"

definition broker_join_raft :: "codec \<Rightarrow> 'w sender \<Rightarrow> payload \<Rightarrow> ('w broker_state, exn, bool) sem" where
  "broker_join_raft cd snd_request p =
     bnd (broker_execute cd snd_request ''join_raft'' p True) (\<lambda>j.
     case j of
       JObj r \<Rightarrow> (case jget r ''joined'' of JBool b \<Rightarrow> ret b | _ \<Rightarrow> raise mutation_unknown)
     | _ \<Rightarrow> raise mutation_unknown)"

definition broker_unseal :: "codec \<Rightarrow> 'w sender \<Rightarrow> string \<Rightarrow> bool \<Rightarrow> bool \<Rightarrow> ('w broker_state, exn, seal_status) sem" where
  "broker_unseal cd snd_request share reset migrate =
     cluster_operation cd snd_request ''unseal''
       ([(''reset'', JBool reset), (''migrate'', JBool migrate)] @ (if share \<noteq> [] then [(''key'', JStr share)] else []))
       normalize_seal_status"

definition broker_seal :: "codec \<Rightarrow> 'w sender \<Rightarrow> ('w broker_state, exn, unit) sem" where
  "broker_seal cd snd_request = bnd (broker_execute cd snd_request ''seal'' [] True) (\<lambda>_. ret ())"

definition broker_remove_raft_peer :: "codec \<Rightarrow> 'w sender \<Rightarrow> string \<Rightarrow> ('w broker_state, exn, unit) sem" where
  "broker_remove_raft_peer cd snd_request server_id =
     bnd (broker_execute cd snd_request ''remove_raft_peer'' [(''server_id'', JStr server_id)] True) (\<lambda>_. ret ())"

definition proxied :: "string \<Rightarrow> string \<Rightarrow> payload \<Rightarrow> payload" where
  "proxied verb path p = [(''method'', JStr verb), (''path'', JStr path), (''payload'', JObj p)]"

definition broker_list_secret_engines :: "codec \<Rightarrow> 'w sender \<Rightarrow> ('w broker_state, exn, secret_engine_mount list) sem" where
  "broker_list_secret_engines cd snd_request =
     bnd (broker_execute cd snd_request ''execute_secret_engine_operation'' (proxied ''LIST'' ''/sys/mounts'' []) False) (\<lambda>j.
     lift_sum (normalize_with normalize_secret_engine_mounts j))"

definition broker_list_auth_methods :: "codec \<Rightarrow> 'w sender \<Rightarrow> ('w broker_state, exn, auth_mount list) sem" where
  "broker_list_auth_methods cd snd_request =
     bnd (broker_execute cd snd_request ''execute_authentication_operation'' (proxied ''LIST'' ''/sys/auth'' []) False) (\<lambda>j.
     lift_sum (normalize_with normalize_auth_mounts j))"

definition broker_remount_auth_method :: "codec \<Rightarrow> 'w sender \<Rightarrow> json \<Rightarrow> json \<Rightarrow> ('w broker_state, exn, json) sem" where
  "broker_remount_auth_method cd snd_request source destination =
     bnd (lift_sum (normalize_mount_path source)) (\<lambda>s.
     bnd (lift_sum (normalize_mount_path destination)) (\<lambda>d.
     bnd (broker_execute cd snd_request ''execute_authentication_operation''
            (proxied ''POST'' ''/sys/remount'' [(''from'', JStr (''auth/'' @ s @ ''/'')), (''to'', JStr (''auth/'' @ d @ ''/''))]) True) (\<lambda>j.
     lift_sum (normalize_mutation normalize_public_auth_data j))))"

definition broker_remount_status :: "codec \<Rightarrow> 'w sender \<Rightarrow> json \<Rightarrow> ('w broker_state, exn, json) sem" where
  "broker_remount_status cd snd_request migration_id =
     bnd (lift_sum (normalize_resource_name migration_id True)) (\<lambda>m.
     bnd (broker_execute cd snd_request ''execute_authentication_operation''
            (proxied ''GET'' (''/sys/remount/status/'' @ m) []) False) (\<lambda>j.
     lift_sum (normalize_with normalize_public_auth_data j)))"

definition broker_remount_secret_engine :: "codec \<Rightarrow> 'w sender \<Rightarrow> json \<Rightarrow> json \<Rightarrow> ('w broker_state, exn, json) sem" where
  "broker_remount_secret_engine cd snd_request source destination =
     bnd (lift_sum (normalize_engine_mount_path source)) (\<lambda>s.
     bnd (lift_sum (normalize_engine_mount_path destination)) (\<lambda>d.
     bnd (broker_execute cd snd_request ''execute_secret_engine_operation''
            (proxied ''POST'' ''/sys/remount'' [(''from'', JStr (s @ ''/'')), (''to'', JStr (d @ ''/''))]) True) (\<lambda>j.
     lift_sum (normalize_mutation normalize_public_auth_data j))))"

text \<open>The result of an access or finalization operation; a missing collection lists as empty.\<close>

definition contract_arguments :: "string \<Rightarrow> string \<Rightarrow> payload \<Rightarrow> bool \<Rightarrow> payload" where
  "contract_arguments verb path p material = proxied verb path p @ [(''material'', JBool material)]"

definition broker_contract_operation ::
  "codec \<Rightarrow> 'w sender \<Rightarrow> string \<Rightarrow> string \<Rightarrow> string \<Rightarrow> payload \<Rightarrow> bool \<Rightarrow> ('w broker_state, exn, json) sem" where
  "broker_contract_operation cd snd_request operation verb path p material =
     bnd (on_exn (broker_execute cd snd_request operation (contract_arguments verb path p material) (verb \<in> {''POST'', ''DELETE''}))
            (\<lambda>e. if exn_is OpenBaoNotFoundC e \<and> verb = ''LIST''
                 then ret (JObj [(''data'', JObj [(''keys'', JArr []), (''key_info'', JObj [])])]) else raise e)) (\<lambda>j.
     lift_sum (if verb \<in> {''POST'', ''DELETE''} then normalize_mutation (\<lambda>v. normalize_access_response v material) j
               else normalize_with (\<lambda>v. normalize_access_response v material) j))"

definition broker_execute_access_operation ::
  "codec \<Rightarrow> 'w sender \<Rightarrow> string \<Rightarrow> string \<Rightarrow> payload \<Rightarrow> bool \<Rightarrow> ('w broker_state, exn, json) sem" where
  "broker_execute_access_operation cd snd_request verb path p material =
     (if verb \<notin> {''GET'', ''LIST'', ''POST'', ''DELETE''}
         \<or> \<not> list_ex (\<lambda>q. prefix q path) [''/sys/policies/'', ''/identity/'', ''/sys/namespaces'']
      then raise (contract_error ''The access-control operation is outside the reviewed contract.'')
      else broker_contract_operation cd snd_request ''execute_access_operation'' verb path p material)"

definition broker_execute_final_operation ::
  "codec \<Rightarrow> 'w sender \<Rightarrow> string \<Rightarrow> string \<Rightarrow> payload \<Rightarrow> bool \<Rightarrow> ('w broker_state, exn, json) sem" where
  "broker_execute_final_operation cd snd_request verb path p material =
     (if verb \<notin> {''GET'', ''LIST'', ''POST'', ''DELETE''} \<or> \<not> list_ex (\<lambda>q. prefix q path) final_prefixes
      then raise (contract_error ''The finalization operation is outside the reviewed contract.'')
      else broker_contract_operation cd snd_request ''execute_final_operation'' verb path p material)"

definition broker_execute_mounted_operation ::
  "codec \<Rightarrow> 'w sender \<Rightarrow> string \<Rightarrow> string \<Rightarrow> payload \<Rightarrow> payload \<Rightarrow> string \<Rightarrow> string \<Rightarrow> string \<Rightarrow> string
     \<Rightarrow> ('w broker_state, exn, json) sem" where
  "broker_execute_mounted_operation cd snd_request verb path query body mount_path operation_id path_template mount_parameter =
     (if mount_path = [] \<or> operation_id = [] \<or> path_template = [] \<or> mount_parameter = []
      then raise (contract_error ''The mounted operation lacks its advertised broker contract metadata.'')
      else broker_execute cd snd_request ''execute_mounted_operation''
             [(''method'', JStr verb), (''path'', JStr path), (''query'', JObj query), (''body'', JObj body),
              (''mount_path'', JStr mount_path), (''operation_id'', JStr operation_id),
              (''path_template'', JStr (replace_first ''{secret_mount_path}'' (''{'' @ mount_parameter @ ''}'') path_template))]
             (writes verb))"

section \<open>Snapshots through the broker\<close>

definition snapshot_headers :: "payload" where
  "snapshot_headers = [(''X-Administration-Contract-Digest'', JStr CONTRACT_DIGEST)]"

definition broker_download_raft_snapshot :: "codec \<Rightarrow> 'w sender \<Rightarrow> ('w broker_state, exn, snapshot_download) sem" where
  "broker_download_raft_snapshot cd snd_request =
     (let bad = unavailable ''The broker returned an invalid snapshot response.'' in
      bnd (verify_contract cd snd_request) (\<lambda>_.
      bnd (snd_request False (request ''GET'' ''/v1/administration/snapshot'' False
             \<lparr>rq_headers := snapshot_headers @ [(''Accept-Encoding'', JStr ''identity'')]\<rparr>)) (\<lambda>response.
      if \<not> encoding_ok response then raise bad
      else if lower (strip (before '';'' (case response_header response ''Content-Type'' of None \<Rightarrow> [] | Some s \<Rightarrow> s)))
              \<noteq> ''application/octet-stream'' then raise bad
      else bnd (lift_sum (declared_size bad response)) (\<lambda>d. ret (new_download d)))))"

definition broker_restore_raft_snapshot :: "codec \<Rightarrow> 'w sender \<Rightarrow> json \<Rightarrow> bool \<Rightarrow> ('w broker_state, exn, unit) sem" where
  "broker_restore_raft_snapshot cd snd_request declared force =
     (case new_snapshot_reader declared of
        Inl _ \<Rightarrow> raise (OpenBaoExn (openbao_exn OpenBaoConflictC (Some ''The snapshot upload is outside the allowed size.'') None))
      | Inr r \<Rightarrow>
          bnd (verify_contract cd snd_request) (\<lambda>_.
          bnd (snd_request True (request ''POST'' ''/v1/administration/snapshot'' False
                 \<lparr>rq_upload := Some (sr_size r), rq_params := [(''force'', JStr (if force then ''true'' else ''false''))],
                  rq_headers := snapshot_headers @ [(''Content-Type'', JStr ''application/octet-stream''),
                                                    (''Content-Length'', JStr (digits (sr_size r)))]\<rparr>)) (\<lambda>response.
          bnd (lift_sum (broker_decode cd True response)) (\<lambda>j.
          if j = JObj [(''restored'', JBool True)] then ret () else raise mutation_unknown))))"

end
