(* ===== verification/Admin_Journeys.thy ===== *)
theory Admin_Journeys
  imports Admin_Engines
begin

text \<open>
  The reviewed first-class journeys over mounted secret engines (\<^verbatim>\<open>administration/engine_journeys.py\<close>): the
  static table, and its intersection with what the runtime advertises for a mount.
\<close>

definition pki_serial_re :: "string \<Rightarrow> bool" where
  "pki_serial_re s =
     list_all (\<lambda>g. g \<noteq> [] \<and> list_all hex_any g)
       (split_on (CHR ''-'') (map (\<lambda>c. if c = CHR '':'' then CHR ''-'' else c) s))"

record engine_journey =
  ej_journey_id :: string
  ej_engine_type :: string
  ej_group :: string
  ej_label :: string
  ej_method :: string
  ej_path_template :: string
  ej_operation_id :: string
  ej_required_permission :: string
  ej_risk_level :: string
  ej_response_class :: string
  ej_confirmation_prefix :: string
  ej_kv_versions :: "nat list"
  ej_fixed_query :: "(string \<times> string) list"
  ej_path_parameter_choices :: "(string \<times> string list) list"
  ej_download_filename :: string

definition journey where
  "journey journey_id engine_type grp label verb path operation_id permission risk confirmation kv_versions
     fixed_query path_choices download =
     \<lparr>ej_journey_id = journey_id, ej_engine_type = engine_type, ej_group = grp, ej_label = label, ej_method = verb,
      ej_path_template = path, ej_operation_id = operation_id,
      ej_required_permission = ''netbox_openbao.'' @ permission @ ''_openbaocluster'', ej_risk_level = risk,
      ej_response_class = ''sensitive-material'', ej_confirmation_prefix = confirmation, ej_kv_versions = kv_versions,
      ej_fixed_query = fixed_query, ej_path_parameter_choices = path_choices, ej_download_filename = download\<rparr>"

section \<open>The table\<close>

definition KV_JOURNEYS_1 :: "engine_journey list" where
  "KV_JOURNEYS_1 =
     [journey ''kv1.browse'' ''kv'' ''KV v1'' ''Browse keys'' ''GET''
         ''/{secret_mount_path}/{path}'' ''kv-read-path'' ''reveal_kv_secrets''
         ''read'' [] [1] [(''list'', ''true'')] [] [],
      journey ''kv1.read'' ''kv'' ''KV v1'' ''Read secret'' ''GET''
         ''/{secret_mount_path}/{path}'' ''kv-read-path'' ''reveal_kv_secrets''
         ''read'' [] [1] [] [] [],
      journey ''kv1.write'' ''kv'' ''KV v1'' ''Create or update secret'' ''POST''
         ''/{secret_mount_path}/{path}'' ''kv-write-path'' ''manage_kv_secrets''
         ''write'' [] [1] [] [] [],
      journey ''kv1.delete'' ''kv'' ''KV v1'' ''Delete secret'' ''DELETE''
         ''/{secret_mount_path}/{path}'' ''kv-delete-path'' ''destroy_kv_versions''
         ''destructive'' ''DELETE KV SECRET'' [1] [] [] [],
      journey ''kv2.browse'' ''kv'' ''KV v2'' ''Browse keys'' ''GET''
         ''/{secret_mount_path}/metadata/{path}'' ''kv-read-metadata-path'' ''reveal_kv_secrets''
         ''read'' [] [2] [(''list'', ''true'')] [] [],
      journey ''kv2.read'' ''kv'' ''KV v2'' ''Read secret version'' ''GET''
         ''/{secret_mount_path}/data/{path}'' ''kv-read-data-path'' ''reveal_kv_secrets''
         ''read'' [] [2] [] [] [],
      journey ''kv2.diff'' ''kv'' ''KV v2'' ''Compare two versions'' ''GET''
         ''/{secret_mount_path}/data/{path}'' ''kv-read-data-path'' ''reveal_kv_secrets''
         ''read'' [] [2] [] [] [],
      journey ''kv2.write'' ''kv'' ''KV v2'' ''Create or update with CAS'' ''POST''
         ''/{secret_mount_path}/data/{path}'' ''kv-write-data-path'' ''manage_kv_secrets''
         ''write'' [] [2] [] [] [],
      journey ''kv2.patch'' ''kv'' ''KV v2'' ''Patch with CAS'' ''PATCH''
         ''/{secret_mount_path}/data/{path}'' ''kv-patch-data-path'' ''manage_kv_secrets''
         ''write'' [] [2] [] [] [],
      journey ''kv2.delete-latest'' ''kv'' ''KV v2'' ''Delete latest version'' ''DELETE''
         ''/{secret_mount_path}/data/{path}'' ''kv-delete-data-path'' ''destroy_kv_versions''
         ''destructive'' ''DELETE LATEST KV VERSION'' [2] [] [] [],
      journey ''kv2.delete-versions'' ''kv'' ''KV v2'' ''Delete versions'' ''POST''
         ''/{secret_mount_path}/delete/{path}'' ''kv-write-delete-path'' ''destroy_kv_versions''
         ''destructive'' ''DELETE KV VERSIONS'' [2] [] [] []]"

definition KV_JOURNEYS_2 :: "engine_journey list" where
  "KV_JOURNEYS_2 =
     [journey ''kv2.undelete'' ''kv'' ''KV v2'' ''Undelete versions'' ''POST''
         ''/{secret_mount_path}/undelete/{path}'' ''kv-write-undelete-path'' ''manage_kv_secrets''
         ''write'' [] [2] [] [] [],
      journey ''kv2.destroy'' ''kv'' ''KV v2'' ''Destroy versions irreversibly'' ''POST''
         ''/{secret_mount_path}/destroy/{path}'' ''kv-write-destroy-path'' ''destroy_kv_versions''
         ''destructive'' ''DESTROY KV VERSIONS'' [2] [] [] [],
      journey ''kv2.metadata'' ''kv'' ''KV v2'' ''Read metadata and versions'' ''GET''
         ''/{secret_mount_path}/metadata/{path}'' ''kv-read-metadata-path'' ''reveal_kv_secrets''
         ''read'' [] [2] [] [] [],
      journey ''kv2.metadata-write'' ''kv'' ''KV v2'' ''Update metadata'' ''POST''
         ''/{secret_mount_path}/metadata/{path}'' ''kv-write-metadata-path'' ''manage_kv_secrets''
         ''write'' [] [2] [] [] [],
      journey ''kv2.metadata-delete'' ''kv'' ''KV v2'' ''Delete metadata and all versions'' ''DELETE''
         ''/{secret_mount_path}/metadata/{path}'' ''kv-delete-metadata-path'' ''destroy_kv_versions''
         ''destructive'' ''DESTROY KV METADATA'' [2] [] [] [],
      journey ''kv2.config-read'' ''kv'' ''KV v2'' ''Read mount configuration'' ''GET''
         ''/{secret_mount_path}/config'' ''kv-read-config'' ''reveal_kv_secrets''
         ''read'' [] [2] [] [] [],
      journey ''kv2.config-write'' ''kv'' ''KV v2'' ''Configure mount'' ''POST''
         ''/{secret_mount_path}/config'' ''kv-write-config'' ''manage_kv_secrets''
         ''write'' [] [2] [] [] []]"

definition TRANSIT_JOURNEYS_1 :: "engine_journey list" where
  "TRANSIT_JOURNEYS_1 =
     [journey ''transit.keys'' ''transit'' ''Transit keys'' ''List keys'' ''GET''
         ''/{secret_mount_path}/keys'' ''transit-list-keys'' ''use_transit''
         ''read'' [] [] [(''list'', ''true'')] [] [],
      journey ''transit.key-read'' ''transit'' ''Transit keys'' ''Read key metadata'' ''GET''
         ''/{secret_mount_path}/keys/{name}'' ''transit-read-key'' ''use_transit''
         ''read'' [] [] [] [] [],
      journey ''transit.key-create'' ''transit'' ''Transit keys'' ''Create key'' ''POST''
         ''/{secret_mount_path}/keys/{name}'' ''transit-create-key'' ''manage_transit_keys''
         ''write'' [] [] [] [] [],
      journey ''transit.key-configure'' ''transit'' ''Transit keys'' ''Configure key'' ''POST''
         ''/{secret_mount_path}/keys/{name}/config'' ''transit-configure-key'' ''manage_transit_keys''
         ''write'' [] [] [] [] [],
      journey ''transit.key-rotate'' ''transit'' ''Transit keys'' ''Rotate key'' ''POST''
         ''/{secret_mount_path}/keys/{name}/rotate'' ''transit-rotate-key'' ''manage_transit_keys''
         ''write'' [] [] [] [] [],
      journey ''transit.key-delete'' ''transit'' ''Transit keys'' ''Delete key'' ''DELETE''
         ''/{secret_mount_path}/keys/{name}'' ''transit-delete-key'' ''delete_transit_keys''
         ''destructive'' ''DELETE TRANSIT KEY'' [] [] [] [],
      journey ''transit.encrypt'' ''transit'' ''Transit operations'' ''Encrypt'' ''POST''
         ''/{secret_mount_path}/encrypt/{name}'' ''transit-encrypt'' ''use_transit''
         ''write'' [] [] [] [] [],
      journey ''transit.decrypt'' ''transit'' ''Transit operations'' ''Decrypt'' ''POST''
         ''/{secret_mount_path}/decrypt/{name}'' ''transit-decrypt'' ''use_transit''
         ''write'' [] [] [] [] [],
      journey ''transit.rewrap'' ''transit'' ''Transit operations'' ''Rewrap'' ''POST''
         ''/{secret_mount_path}/rewrap/{name}'' ''transit-rewrap'' ''use_transit''
         ''write'' [] [] [] [] [],
      journey ''transit.sign'' ''transit'' ''Transit operations'' ''Sign'' ''POST''
         ''/{secret_mount_path}/sign/{name}'' ''transit-sign'' ''use_transit''
         ''write'' [] [] [] [] [],
      journey ''transit.verify'' ''transit'' ''Transit operations'' ''Verify signature'' ''POST''
         ''/{secret_mount_path}/verify/{name}'' ''transit-verify'' ''use_transit''
         ''write'' [] [] [] [] [],
      journey ''transit.hash'' ''transit'' ''Transit operations'' ''Hash'' ''POST''
         ''/{secret_mount_path}/hash'' ''transit-hash'' ''use_transit''
         ''write'' [] [] [] [] []]"

definition TRANSIT_JOURNEYS_2 :: "engine_journey list" where
  "TRANSIT_JOURNEYS_2 =
     [journey ''transit.hmac'' ''transit'' ''Transit operations'' ''Generate HMAC'' ''POST''
         ''/{secret_mount_path}/hmac/{name}'' ''transit-generate-hmac'' ''use_transit''
         ''write'' [] [] [] [] [],
      journey ''transit.random'' ''transit'' ''Transit operations'' ''Generate random bytes'' ''POST''
         ''/{secret_mount_path}/random'' ''transit-generate-random'' ''use_transit''
         ''write'' [] [] [] [] []]"

definition DATABASE_JOURNEYS_1 :: "engine_journey list" where
  "DATABASE_JOURNEYS_1 =
     [journey ''database.connections'' ''database'' ''Database connections'' ''List connections'' ''GET''
         ''/{secret_mount_path}/config'' ''database-list-connections'' ''manage_database_roles''
         ''read'' [] [] [(''list'', ''true'')] [] [],
      journey ''database.connection-read'' ''database'' ''Database connections'' ''Read connection'' ''GET''
         ''/{secret_mount_path}/config/{name}'' ''database-read-connection-configuration'' ''manage_database_roles''
         ''read'' [] [] [] [] [],
      journey ''database.connection-write'' ''database'' ''Database connections'' ''Configure connection'' ''POST''
         ''/{secret_mount_path}/config/{name}'' ''database-configure-connection'' ''manage_database_roles''
         ''write'' [] [] [] [] [],
      journey ''database.connection-delete'' ''database'' ''Database connections'' ''Delete connection'' ''DELETE''
         ''/{secret_mount_path}/config/{name}'' ''database-delete-connection-configuration'' ''delete_database_resources''
         ''destructive'' ''DELETE DATABASE CONNECTION'' [] [] [] [],
      journey ''database.roles'' ''database'' ''Database roles'' ''List dynamic roles'' ''GET''
         ''/{secret_mount_path}/roles'' ''database-list-roles'' ''manage_database_roles''
         ''read'' [] [] [(''list'', ''true'')] [] [],
      journey ''database.role-read'' ''database'' ''Database roles'' ''Read dynamic role'' ''GET''
         ''/{secret_mount_path}/roles/{name}'' ''database-read-role'' ''manage_database_roles''
         ''read'' [] [] [] [] [],
      journey ''database.role-write'' ''database'' ''Database roles'' ''Configure dynamic role'' ''POST''
         ''/{secret_mount_path}/roles/{name}'' ''database-write-role'' ''manage_database_roles''
         ''write'' [] [] [] [] [],
      journey ''database.role-delete'' ''database'' ''Database roles'' ''Delete dynamic role'' ''DELETE''
         ''/{secret_mount_path}/roles/{name}'' ''database-delete-role'' ''delete_database_resources''
         ''destructive'' ''DELETE DATABASE ROLE'' [] [] [] [],
      journey ''database.static-roles'' ''database'' ''Database static roles'' ''List static roles'' ''GET''
         ''/{secret_mount_path}/static-roles'' ''database-list-static-roles'' ''manage_database_roles''
         ''read'' [] [] [(''list'', ''true'')] [] [],
      journey ''database.static-role-read'' ''database'' ''Database static roles'' ''Read static role'' ''GET''
         ''/{secret_mount_path}/static-roles/{name}'' ''database-read-static-role'' ''manage_database_roles''
         ''read'' [] [] [] [] [],
      journey ''database.static-role-write'' ''database'' ''Database static roles'' ''Configure static role'' ''POST''
         ''/{secret_mount_path}/static-roles/{name}'' ''database-write-static-role'' ''manage_database_roles''
         ''write'' [] [] [] [] [],
      journey ''database.static-role-delete'' ''database'' ''Database static roles'' ''Delete static role'' ''DELETE''
         ''/{secret_mount_path}/static-roles/{name}'' ''database-delete-static-role'' ''delete_database_resources''
         ''destructive'' ''DELETE DATABASE STATIC ROLE'' [] [] [] []]"

definition DATABASE_JOURNEYS_2 :: "engine_journey list" where
  "DATABASE_JOURNEYS_2 =
     [journey ''database.credentials'' ''database'' ''Database credentials'' ''Generate dynamic credentials'' ''GET''
         ''/{secret_mount_path}/creds/{name}'' ''database-generate-credentials'' ''generate_database_credentials''
         ''read'' [] [] [] [] [],
      journey ''database.static-credentials'' ''database'' ''Database credentials'' ''Read static credentials'' ''GET''
         ''/{secret_mount_path}/static-creds/{name}'' ''database-read-static-role-credentials'' ''generate_database_credentials''
         ''read'' [] [] [] [] [],
      journey ''database.rotate-root'' ''database'' ''Database rotation'' ''Rotate root credentials'' ''POST''
         ''/{secret_mount_path}/rotate-root/{name}'' ''database-rotate-root-credentials'' ''rotate_database_credentials''
         ''destructive'' ''ROTATE DATABASE ROOT CREDENTIALS'' [] [] [] [],
      journey ''database.rotate-static'' ''database'' ''Database rotation'' ''Rotate static-role credentials'' ''POST''
         ''/{secret_mount_path}/rotate-role/{name}'' ''database-rotate-static-role-credentials'' ''rotate_database_credentials''
         ''destructive'' ''ROTATE DATABASE STATIC CREDENTIALS'' [] [] [] [],
      journey ''database.reset'' ''database'' ''Database rotation'' ''Reset connection'' ''POST''
         ''/{secret_mount_path}/reset/{name}'' ''database-reset-connection'' ''rotate_database_credentials''
         ''destructive'' ''RESET DATABASE CONNECTION'' [] [] [] []]"

definition SSH_JOURNEYS :: "engine_journey list" where
  "SSH_JOURNEYS =
     [journey ''ssh.roles'' ''ssh'' ''SSH roles'' ''List roles'' ''GET''
         ''/{secret_mount_path}/roles'' ''ssh-list-roles'' ''manage_ssh_roles''
         ''read'' [] [] [(''list'', ''true'')] [] [],
      journey ''ssh.role-read'' ''ssh'' ''SSH roles'' ''Read role'' ''GET''
         ''/{secret_mount_path}/roles/{role}'' ''ssh-read-role'' ''manage_ssh_roles''
         ''read'' [] [] [] [] [],
      journey ''ssh.role-write'' ''ssh'' ''SSH roles'' ''Configure role'' ''POST''
         ''/{secret_mount_path}/roles/{role}'' ''ssh-write-role'' ''manage_ssh_roles''
         ''write'' [] [] [] [] [],
      journey ''ssh.role-delete'' ''ssh'' ''SSH roles'' ''Delete role'' ''DELETE''
         ''/{secret_mount_path}/roles/{role}'' ''ssh-delete-role'' ''delete_ssh_roles''
         ''destructive'' ''DELETE SSH ROLE'' [] [] [] [],
      journey ''ssh.credentials'' ''ssh'' ''SSH credentials'' ''Generate credentials'' ''POST''
         ''/{secret_mount_path}/creds/{role}'' ''ssh-generate-credentials'' ''issue_ssh_credentials''
         ''write'' [] [] [] [] [],
      journey ''ssh.sign'' ''ssh'' ''SSH credentials'' ''Sign public key'' ''POST''
         ''/{secret_mount_path}/sign/{role}'' ''ssh-sign-certificate'' ''issue_ssh_credentials''
         ''write'' [] [] [] [] [],
      journey ''ssh.lookup'' ''ssh'' ''SSH credentials'' ''Find roles for IP'' ''POST''
         ''/{secret_mount_path}/lookup'' ''ssh-list-roles-by-ip'' ''issue_ssh_credentials''
         ''write'' [] [] [] [] [],
      journey ''ssh.public-key'' ''ssh'' ''SSH credentials'' ''Read CA public key'' ''GET''
         ''/{secret_mount_path}/public_key'' ''ssh-read-public-key'' ''issue_ssh_credentials''
         ''read'' [] [] [] [] [],
      journey ''ssh.verify-otp'' ''ssh'' ''SSH credentials'' ''Verify OTP'' ''POST''
         ''/{secret_mount_path}/verify'' ''ssh-verify-otp'' ''issue_ssh_credentials''
         ''write'' [] [] [] [] []]"

definition TOTP_JOURNEYS :: "engine_journey list" where
  "TOTP_JOURNEYS =
     [journey ''totp.keys'' ''totp'' ''TOTP keys'' ''List keys'' ''GET''
         ''/{secret_mount_path}/keys'' ''totp-list-keys'' ''manage_totp_keys''
         ''read'' [] [] [(''list'', ''true'')] [] [],
      journey ''totp.key-read'' ''totp'' ''TOTP keys'' ''Read key metadata'' ''GET''
         ''/{secret_mount_path}/keys/{name}'' ''totp-read-key'' ''manage_totp_keys''
         ''read'' [] [] [] [] [],
      journey ''totp.key-create'' ''totp'' ''TOTP keys'' ''Create or import key'' ''POST''
         ''/{secret_mount_path}/keys/{name}'' ''totp-create-key'' ''manage_totp_keys''
         ''write'' [] [] [] [] [],
      journey ''totp.key-delete'' ''totp'' ''TOTP keys'' ''Delete key'' ''DELETE''
         ''/{secret_mount_path}/keys/{name}'' ''totp-delete-key'' ''delete_totp_keys''
         ''destructive'' ''DELETE TOTP KEY'' [] [] [] [],
      journey ''totp.code'' ''totp'' ''TOTP codes'' ''Generate code'' ''GET''
         ''/{secret_mount_path}/code/{name}'' ''totp-generate-code'' ''generate_totp_codes''
         ''read'' [] [] [] [] [],
      journey ''totp.validate'' ''totp'' ''TOTP codes'' ''Validate code'' ''POST''
         ''/{secret_mount_path}/code/{name}'' ''totp-validate-code'' ''generate_totp_codes''
         ''write'' [] [] [] [] []]"

definition PKI_JOURNEYS_1 :: "engine_journey list" where
  "PKI_JOURNEYS_1 =
     [journey ''pki.cluster-read'' ''pki'' ''PKI configuration'' ''Read cluster URLs'' ''GET''
         ''/{secret_mount_path}/config/cluster'' ''pki-read-cluster-configuration'' ''view_pki''
         ''read'' [] [] [] [] [],
      journey ''pki.cluster-write'' ''pki'' ''PKI configuration'' ''Configure cluster URLs'' ''POST''
         ''/{secret_mount_path}/config/cluster'' ''pki-configure-cluster'' ''manage_pki_configuration''
         ''write'' [] [] [] [] [],
      journey ''pki.crl-read'' ''pki'' ''PKI configuration'' ''Read CRL configuration'' ''GET''
         ''/{secret_mount_path}/config/crl'' ''pki-read-crl-configuration'' ''view_pki''
         ''read'' [] [] [] [] [],
      journey ''pki.crl-write'' ''pki'' ''PKI configuration'' ''Configure CRL'' ''POST''
         ''/{secret_mount_path}/config/crl'' ''pki-configure-crl'' ''manage_pki_configuration''
         ''write'' [] [] [] [] [],
      journey ''pki.issuers-config-read'' ''pki'' ''PKI configuration'' ''Read issuer defaults'' ''GET''
         ''/{secret_mount_path}/config/issuers'' ''pki-read-issuers-configuration'' ''view_pki''
         ''read'' [] [] [] [] [],
      journey ''pki.issuers-config-write'' ''pki'' ''PKI configuration'' ''Configure issuer defaults'' ''POST''
         ''/{secret_mount_path}/config/issuers'' ''pki-configure-issuers'' ''manage_pki_configuration''
         ''write'' [] [] [] [] [],
      journey ''pki.keys-config-read'' ''pki'' ''PKI configuration'' ''Read key defaults'' ''GET''
         ''/{secret_mount_path}/config/keys'' ''pki-read-keys-configuration'' ''view_pki''
         ''read'' [] [] [] [] [],
      journey ''pki.keys-config-write'' ''pki'' ''PKI configuration'' ''Configure key defaults'' ''POST''
         ''/{secret_mount_path}/config/keys'' ''pki-configure-keys'' ''manage_pki_configuration''
         ''write'' [] [] [] [] [],
      journey ''pki.urls-read'' ''pki'' ''PKI configuration'' ''Read issuing URLs'' ''GET''
         ''/{secret_mount_path}/config/urls'' ''pki-read-urls-configuration'' ''view_pki''
         ''read'' [] [] [] [] [],
      journey ''pki.urls-write'' ''pki'' ''PKI configuration'' ''Configure issuing URLs'' ''POST''
         ''/{secret_mount_path}/config/urls'' ''pki-configure-urls'' ''manage_pki_configuration''
         ''write'' [] [] [] [] [],
      journey ''pki.acme-read'' ''pki'' ''PKI configuration'' ''Read ACME configuration'' ''GET''
         ''/{secret_mount_path}/config/acme'' ''pki-read-acme-configuration'' ''view_pki''
         ''read'' [] [] [] [] [],
      journey ''pki.acme-write'' ''pki'' ''PKI configuration'' ''Configure ACME'' ''POST''
         ''/{secret_mount_path}/config/acme'' ''pki-configure-acme'' ''manage_pki_configuration''
         ''write'' [] [] [] [] [],
      journey ''pki.issuers'' ''pki'' ''PKI issuers'' ''List issuers'' ''GET''
         ''/{secret_mount_path}/issuers'' ''pki-list-issuers'' ''view_pki''
         ''read'' [] [] [(''list'', ''true'')] [] []]"

definition PKI_JOURNEYS_2 :: "engine_journey list" where
  "PKI_JOURNEYS_2 =
     [journey ''pki.issuer-read'' ''pki'' ''PKI issuers'' ''Read issuer'' ''GET''
         ''/{secret_mount_path}/issuer/{issuer_ref}'' ''pki-read-issuer'' ''view_pki''
         ''read'' [] [] [] [] [],
      journey ''pki.issuer-write'' ''pki'' ''PKI issuers'' ''Update issuer'' ''POST''
         ''/{secret_mount_path}/issuer/{issuer_ref}'' ''pki-write-issuer'' ''manage_pki_issuers''
         ''write'' [] [] [] [] [],
      journey ''pki.issuer-delete'' ''pki'' ''PKI issuers'' ''Delete issuer'' ''DELETE''
         ''/{secret_mount_path}/issuer/{issuer_ref}'' ''pki-delete-issuer'' ''delete_pki_issuers''
         ''destructive'' ''DELETE PKI ISSUER'' [] [] [] [],
      journey ''pki.issuer-import-cert'' ''pki'' ''PKI issuers'' ''Import issuer certificate'' ''POST''
         ''/{secret_mount_path}/issuers/import/cert'' ''pki-issuers-import-cert'' ''manage_pki_issuers''
         ''write'' [] [] [] [] [],
      journey ''pki.issuer-import-bundle'' ''pki'' ''PKI issuers'' ''Import issuer bundle'' ''POST''
         ''/{secret_mount_path}/issuers/import/bundle'' ''pki-issuers-import-bundle'' ''manage_pki_issuers''
         ''write'' [] [] [] [] [],
      journey ''pki.keys'' ''pki'' ''PKI keys'' ''List keys'' ''GET''
         ''/{secret_mount_path}/keys'' ''pki-list-keys'' ''view_pki''
         ''read'' [] [] [(''list'', ''true'')] [] [],
      journey ''pki.key-read'' ''pki'' ''PKI keys'' ''Read key metadata'' ''GET''
         ''/{secret_mount_path}/key/{key_ref}'' ''pki-read-key'' ''view_pki''
         ''read'' [] [] [] [] [],
      journey ''pki.key-write'' ''pki'' ''PKI keys'' ''Update key metadata'' ''POST''
         ''/{secret_mount_path}/key/{key_ref}'' ''pki-write-key'' ''manage_pki_keys''
         ''write'' [] [] [] [] [],
      journey ''pki.key-delete'' ''pki'' ''PKI keys'' ''Delete key'' ''DELETE''
         ''/{secret_mount_path}/key/{key_ref}'' ''pki-delete-key'' ''delete_pki_keys''
         ''destructive'' ''DELETE PKI KEY'' [] [] [] [],
      journey ''pki.key-generate-internal'' ''pki'' ''PKI keys'' ''Generate internal key'' ''POST''
         ''/{secret_mount_path}/keys/generate/internal'' ''pki-generate-internal-key'' ''generate_pki_keys''
         ''destructive'' ''GENERATE PKI KEY'' [] [] [] [],
      journey ''pki.key-generate-exported'' ''pki'' ''PKI keys'' ''Generate exported key'' ''POST''
         ''/{secret_mount_path}/keys/generate/exported'' ''pki-generate-exported-key'' ''generate_pki_keys''
         ''destructive'' ''GENERATE PKI KEY'' [] [] [] ''openbao-pki-key.json'',
      journey ''pki.key-generate-kms'' ''pki'' ''PKI keys'' ''Generate managed key'' ''POST''
         ''/{secret_mount_path}/keys/generate/kms'' ''pki-generate-kms-key'' ''generate_pki_keys''
         ''destructive'' ''GENERATE PKI KEY'' [] [] [] []]"

definition PKI_JOURNEYS_3 :: "engine_journey list" where
  "PKI_JOURNEYS_3 =
     [journey ''pki.key-import'' ''pki'' ''PKI keys'' ''Import key'' ''POST''
         ''/{secret_mount_path}/keys/import'' ''pki-import-key'' ''manage_pki_keys''
         ''write'' [] [] [] [] [],
      journey ''pki.roles'' ''pki'' ''PKI roles'' ''List roles'' ''GET''
         ''/{secret_mount_path}/roles'' ''pki-list-roles'' ''view_pki''
         ''read'' [] [] [(''list'', ''true'')] [] [],
      journey ''pki.role-read'' ''pki'' ''PKI roles'' ''Read role'' ''GET''
         ''/{secret_mount_path}/roles/{name}'' ''pki-read-role'' ''view_pki''
         ''read'' [] [] [] [] [],
      journey ''pki.role-write'' ''pki'' ''PKI roles'' ''Configure role'' ''POST''
         ''/{secret_mount_path}/roles/{name}'' ''pki-write-role'' ''manage_pki_roles''
         ''write'' [] [] [] [] [],
      journey ''pki.role-patch'' ''pki'' ''PKI roles'' ''Patch role'' ''PATCH''
         ''/{secret_mount_path}/roles/{name}'' ''pki-patch-role'' ''manage_pki_roles''
         ''write'' [] [] [] [] [],
      journey ''pki.role-delete'' ''pki'' ''PKI roles'' ''Delete role'' ''DELETE''
         ''/{secret_mount_path}/roles/{name}'' ''pki-delete-role'' ''delete_pki_roles''
         ''destructive'' ''DELETE PKI ROLE'' [] [] [] [],
      journey ''pki.certificates'' ''pki'' ''PKI certificates'' ''List certificates'' ''GET''
         ''/{secret_mount_path}/certs'' ''pki-list-certs'' ''view_pki''
         ''read'' [] [] [(''list'', ''true'')] [] [],
      journey ''pki.revoked-certificates'' ''pki'' ''PKI certificates'' ''List revoked certificates'' ''GET''
         ''/{secret_mount_path}/certs/revoked'' ''pki-list-revoked-certs'' ''view_pki''
         ''read'' [] [] [(''list'', ''true'')] [] [],
      journey ''pki.certificate-read'' ''pki'' ''PKI certificates'' ''Read certificate'' ''GET''
         ''/{secret_mount_path}/cert/{serial}'' ''pki-read-cert'' ''view_pki''
         ''read'' [] [] [] [] ''openbao-certificate.json'',
      journey ''pki.issue'' ''pki'' ''PKI issuance'' ''Issue certificate'' ''POST''
         ''/{secret_mount_path}/issue/{role}'' ''pki-issue-with-role'' ''issue_pki_certificates''
         ''write'' [] [] [] [] ''openbao-issued-certificate.json'',
      journey ''pki.sign'' ''pki'' ''PKI issuance'' ''Sign CSR'' ''POST''
         ''/{secret_mount_path}/sign/{role}'' ''pki-sign-with-role'' ''issue_pki_certificates''
         ''write'' [] [] [] [] ''openbao-signed-certificate.json'',
      journey ''pki.issuer-issue'' ''pki'' ''PKI issuance'' ''Issue with issuer'' ''POST''
         ''/{secret_mount_path}/issuer/{issuer_ref}/issue/{role}'' ''pki-issuer-issue-with-role'' ''issue_pki_certificates''
         ''write'' [] [] [] [] ''openbao-issued-certificate.json'']"

definition PKI_JOURNEYS_4 :: "engine_journey list" where
  "PKI_JOURNEYS_4 =
     [journey ''pki.issuer-sign'' ''pki'' ''PKI issuance'' ''Sign with issuer'' ''POST''
         ''/{secret_mount_path}/issuer/{issuer_ref}/sign/{role}'' ''pki-issuer-sign-with-role'' ''issue_pki_certificates''
         ''write'' [] [] [] [] ''openbao-signed-certificate.json'',
      journey ''pki.revoke'' ''pki'' ''PKI certificates'' ''Revoke certificate'' ''POST''
         ''/{secret_mount_path}/revoke'' ''pki-revoke'' ''revoke_pki_certificates''
         ''destructive'' ''REVOKE PKI CERTIFICATE'' [] [] [] [],
      journey ''pki.root-generate'' ''pki'' ''PKI root and intermediate'' ''Generate root'' ''POST''
         ''/{secret_mount_path}/root/generate/{exported}'' ''pki-generate-root'' ''rotate_pki_roots''
         ''destructive'' ''GENERATE PKI ROOT'' [] [] [(''exported'', [''internal'', ''exported'', ''kms''])] ''openbao-root-ca.json'',
      journey ''pki.issuers-root-generate'' ''pki'' ''PKI root and intermediate'' ''Generate multi-issuer root'' ''POST''
         ''/{secret_mount_path}/issuers/generate/root/{exported}'' ''pki-issuers-generate-root'' ''rotate_pki_roots''
         ''destructive'' ''GENERATE PKI ROOT'' [] [] [(''exported'', [''internal'', ''exported'', ''existing'', ''kms''])] ''openbao-multi-issuer-root.json'',
      journey ''pki.root-rotate'' ''pki'' ''PKI root and intermediate'' ''Rotate root'' ''POST''
         ''/{secret_mount_path}/root/rotate/{exported}'' ''pki-rotate-root'' ''rotate_pki_roots''
         ''destructive'' ''ROTATE PKI ROOT'' [] [] [(''exported'', [''internal'', ''exported'', ''kms''])] ''openbao-rotated-root.json'',
      journey ''pki.intermediate-generate'' ''pki'' ''PKI root and intermediate'' ''Generate intermediate CSR'' ''POST''
         ''/{secret_mount_path}/intermediate/generate/{exported}'' ''pki-generate-intermediate'' ''manage_pki_issuers''
         ''write'' [] [] [] [(''exported'', [''internal'', ''exported'', ''kms''])] ''openbao-intermediate-csr.json'',
      journey ''pki.issuers-intermediate-generate'' ''pki'' ''PKI root and intermediate'' ''Generate multi-issuer intermediate CSR'' ''POST''
         ''/{secret_mount_path}/issuers/generate/intermediate/{exported}'' ''pki-issuers-generate-intermediate'' ''manage_pki_issuers''
         ''write'' [] [] [] [(''exported'', [''internal'', ''exported'', ''existing'', ''kms''])] ''openbao-multi-issuer-intermediate-csr.json'',
      journey ''pki.intermediate-set-signed'' ''pki'' ''PKI root and intermediate'' ''Import signed intermediate'' ''POST''
         ''/{secret_mount_path}/intermediate/set-signed'' ''pki-set-signed-intermediate'' ''manage_pki_issuers''
         ''write'' [] [] [] [] [],
      journey ''pki.intermediate-cross-sign'' ''pki'' ''PKI root and intermediate'' ''Cross-sign intermediate'' ''POST''
         ''/{secret_mount_path}/intermediate/cross-sign'' ''pki-cross-sign-intermediate'' ''issue_pki_certificates''
         ''write'' [] [] [] [] ''openbao-cross-signed-certificate.json'',
      journey ''pki.issuer-sign-intermediate'' ''pki'' ''PKI root and intermediate'' ''Sign intermediate with issuer'' ''POST''
         ''/{secret_mount_path}/issuer/{issuer_ref}/sign-intermediate'' ''pki-issuer-sign-intermediate'' ''issue_pki_certificates''
         ''write'' [] [] [] [] ''openbao-signed-intermediate.json'',
      journey ''pki.root-delete'' ''pki'' ''PKI root and intermediate'' ''Delete all issuers and keys'' ''DELETE''
         ''/{secret_mount_path}/root'' ''pki-delete-root'' ''delete_pki_roots''
         ''destructive'' ''DELETE ALL PKI ROOT MATERIAL'' [] [] [] []]"

definition PKI_JOURNEYS_5 :: "engine_journey list" where
  "PKI_JOURNEYS_5 =
     [journey ''pki.tidy'' ''pki'' ''PKI tidy'' ''Start manual tidy'' ''POST''
         ''/{secret_mount_path}/tidy'' ''pki-tidy'' ''tidy_pki''
         ''destructive'' ''TIDY PKI'' [] [] [] [],
      journey ''pki.tidy-status'' ''pki'' ''PKI tidy'' ''Read tidy status'' ''GET''
         ''/{secret_mount_path}/tidy-status'' ''pki-tidy-status'' ''view_pki''
         ''read'' [] [] [] [] [],
      journey ''pki.tidy-cancel'' ''pki'' ''PKI tidy'' ''Cancel tidy'' ''POST''
         ''/{secret_mount_path}/tidy-cancel'' ''pki-tidy-cancel'' ''tidy_pki''
         ''destructive'' ''CANCEL PKI TIDY'' [] [] [] [],
      journey ''pki.auto-tidy-read'' ''pki'' ''PKI tidy'' ''Read auto-tidy configuration'' ''GET''
         ''/{secret_mount_path}/config/auto-tidy'' ''pki-read-auto-tidy-configuration'' ''view_pki''
         ''read'' [] [] [] [] [],
      journey ''pki.auto-tidy-write'' ''pki'' ''PKI tidy'' ''Configure auto-tidy'' ''POST''
         ''/{secret_mount_path}/config/auto-tidy'' ''pki-configure-auto-tidy'' ''tidy_pki''
         ''write'' [] [] [] [] []]"

definition KUBERNETES_JOURNEYS :: "engine_journey list" where
  "KUBERNETES_JOURNEYS =
     [journey ''kubernetes.check'' ''kubernetes'' ''Kubernetes configuration'' ''Check configuration'' ''GET''
         ''/{secret_mount_path}/check'' ''kubernetes-check-configuration'' ''view_kubernetes_engine''
         ''read'' [] [] [] [] [],
      journey ''kubernetes.config-read'' ''kubernetes'' ''Kubernetes configuration'' ''Read configuration'' ''GET''
         ''/{secret_mount_path}/config'' ''kubernetes-read-configuration'' ''view_kubernetes_engine''
         ''read'' [] [] [] [] [],
      journey ''kubernetes.config-write'' ''kubernetes'' ''Kubernetes configuration'' ''Configure Kubernetes'' ''POST''
         ''/{secret_mount_path}/config'' ''kubernetes-configure'' ''manage_k8s_configuration''
         ''write'' [] [] [] [] [],
      journey ''kubernetes.config-delete'' ''kubernetes'' ''Kubernetes configuration'' ''Delete configuration'' ''DELETE''
         ''/{secret_mount_path}/config'' ''kubernetes-delete-configuration'' ''delete_k8s_configuration''
         ''destructive'' ''DELETE KUBERNETES CONFIGURATION'' [] [] [] [],
      journey ''kubernetes.roles'' ''kubernetes'' ''Kubernetes roles'' ''List roles'' ''GET''
         ''/{secret_mount_path}/roles'' ''kubernetes-list-roles'' ''view_kubernetes_engine''
         ''read'' [] [] [(''list'', ''true'')] [] [],
      journey ''kubernetes.role-read'' ''kubernetes'' ''Kubernetes roles'' ''Read role'' ''GET''
         ''/{secret_mount_path}/roles/{name}'' ''kubernetes-read-role'' ''view_kubernetes_engine''
         ''read'' [] [] [] [] [],
      journey ''kubernetes.role-write'' ''kubernetes'' ''Kubernetes roles'' ''Configure role'' ''POST''
         ''/{secret_mount_path}/roles/{name}'' ''kubernetes-write-role'' ''manage_kubernetes_roles''
         ''write'' [] [] [] [] [],
      journey ''kubernetes.role-delete'' ''kubernetes'' ''Kubernetes roles'' ''Delete role'' ''DELETE''
         ''/{secret_mount_path}/roles/{name}'' ''kubernetes-delete-role'' ''delete_kubernetes_roles''
         ''destructive'' ''DELETE KUBERNETES ROLE'' [] [] [] [],
      journey ''kubernetes.credentials'' ''kubernetes'' ''Kubernetes credentials'' ''Generate credentials'' ''POST''
         ''/{secret_mount_path}/creds/{name}'' ''kubernetes-generate-credentials'' ''generate_k8s_credentials''
         ''write'' [] [] [] [] ''openbao-kubernetes-credentials.json'']"

definition ENGINE_JOURNEYS :: "engine_journey list" where
  "ENGINE_JOURNEYS =
     KV_JOURNEYS_1 @ KV_JOURNEYS_2 @ TRANSIT_JOURNEYS_1 @ TRANSIT_JOURNEYS_2 @ DATABASE_JOURNEYS_1
     @ DATABASE_JOURNEYS_2 @ SSH_JOURNEYS @ TOTP_JOURNEYS @ PKI_JOURNEYS_1 @ PKI_JOURNEYS_2 @ PKI_JOURNEYS_3 @ PKI_JOURNEYS_4 @ PKI_JOURNEYS_5 @ KUBERNETES_JOURNEYS"

definition ENGINE_JOURNEY_BY_ID :: "(string \<times> engine_journey) list" where
  "ENGINE_JOURNEY_BY_ID = map (\<lambda>j. (ej_journey_id j, j)) ENGINE_JOURNEYS"

section \<open>Intersection with the runtime\<close>

definition mount_supports :: "secret_engine_mount \<Rightarrow> engine_journey \<Rightarrow> bool" where
  "mount_supports m j =
     (sem_engine_type m = ej_engine_type j \<and> (ej_kv_versions j = [] \<or> sem_kv_version m \<in> set (ej_kv_versions j)))"

type_synonym operation_key_parts = "string \<times> string \<times> string \<times> string"

definition operation_index :: "capability_document \<Rightarrow> (operation_key_parts \<times> explorer_operation) list" where
  "operation_index document =
     rev (map (\<lambda>x. ((ex_mount_parameter x, ex_operation_id x, ex_method x, ex_path_template x), x))
       (filter ex_executable (classify_explorer_operations document)))"

definition operation_for ::
  "(operation_key_parts \<times> explorer_operation) list \<Rightarrow> secret_engine_mount \<Rightarrow> engine_journey
     \<Rightarrow> exn + explorer_operation option" where
  "operation_for index m j =
     sbind (mount_parameter_for_path (JStr (sem_path m))) (\<lambda>parameter.
     Inr (map_of index (parameter, ej_operation_id j, ej_method j, ej_path_template j)))"

text \<open>The parameters that more than one mount compiles to.\<close>

definition ambiguous_mount_parameters :: "secret_engine_mount list \<Rightarrow> exn + string list" where
  "ambiguous_mount_parameters mounts =
     sbind (straverse (\<lambda>m. mount_parameter_for_path (JStr (sem_path m))) mounts) (\<lambda>ps.
     Inr (filter (\<lambda>p. count_list ps p > 1) (remdups ps)))"

fun check_choices :: "payload \<Rightarrow> (string \<times> string list) list \<Rightarrow> exn + unit" where
  "check_choices p [] = Inr ()"
| "check_choices p ((n, allowed) # rest) =
     (if dict_get p n \<noteq> None \<and> jget p n \<notin> JStr ` set allowed
      then Inl (CapabilitySchemaError (''The '' @ n @ '' path parameter is outside the reviewed choices.''))
      else check_choices p rest)"

definition normalize_journey_path_parameters :: "engine_journey \<Rightarrow> payload \<Rightarrow> exn + payload" where
  "normalize_journey_path_parameters j p =
     sbind (check_choices p (ej_path_parameter_choices j)) (\<lambda>_.
     if ej_engine_type j = ''pki'' \<and> dict_get p ''serial'' \<noteq> None
     then (case jget p ''serial'' of
             JStr s \<Rightarrow>
               if pki_serial_re s
               then Inr (AList.update ''serial'' (JStr (lower (map (\<lambda>c. if c = CHR '':'' then CHR ''-'' else c) s))) p)
               else Inl (CapabilitySchemaError ''The PKI certificate serial is invalid.'')
           | _ \<Rightarrow> Inl (CapabilitySchemaError ''The PKI certificate serial is invalid.''))
     else Inr p)"

record catalog_item =
  ci_journey :: engine_journey
  ci_mount_path :: string
  ci_operation :: explorer_operation

definition mount_catalog ::
  "(operation_key_parts \<times> explorer_operation) list \<Rightarrow> string list \<Rightarrow> secret_engine_mount \<Rightarrow> exn + catalog_item list" where
  "mount_catalog index ambiguous m =
     sbind (mount_parameter_for_path (JStr (sem_path m))) (\<lambda>parameter.
     if parameter \<in> set ambiguous then Inr []
     else sbind (straverse (\<lambda>j. sbind (operation_for index m j) (\<lambda>found.
                   Inr (map_option (\<lambda>x. \<lparr>ci_journey = j, ci_mount_path = sem_path m, ci_operation = x\<rparr>) found)))
                 (filter (mount_supports m) ENGINE_JOURNEYS))
            (\<lambda>items. Inr (List.map_filter id items)))"

definition engine_journey_catalog :: "capability_document \<Rightarrow> secret_engine_mount list \<Rightarrow> exn + catalog_item list" where
  "engine_journey_catalog document mounts =
     sbind (ambiguous_mount_parameters mounts) (\<lambda>ambiguous.
     sbind (straverse (mount_catalog (operation_index document) ambiguous) mounts) (\<lambda>items.
     Inr (sort_key (\<lambda>i. (ej_engine_type (ci_journey i), ej_group (ci_journey i), ej_label (ci_journey i), ci_mount_path i))
            (concat items))))"

definition resolve_engine_journey ::
  "capability_document \<Rightarrow> secret_engine_mount list \<Rightarrow> string \<Rightarrow> string \<Rightarrow> exn + (engine_journey \<times> explorer_operation)" where
  "resolve_engine_journey document mounts mount_path journey_id =
     (let unavailable = CapabilitySchemaError ''The selected first-class engine journey is unavailable.'' in
      sbind (ambiguous_mount_parameters mounts) (\<lambda>ambiguous.
      case (map_of ENGINE_JOURNEY_BY_ID journey_id, List.find (\<lambda>m. sem_path m = mount_path) mounts) of
        (Some j, Some m) \<Rightarrow>
          sbind (mount_parameter_for_path (JStr (sem_path m))) (\<lambda>parameter.
          if parameter \<in> set ambiguous \<or> \<not> mount_supports m j then Inl unavailable
          else sbind (operation_for (operation_index document) m j) (\<lambda>found.
               case found of
                 None \<Rightarrow> Inl (CapabilitySchemaError ''OpenBao does not advertise the reviewed first-class engine journey.'')
               | Some x \<Rightarrow> Inr (j, x)))
      | _ \<Rightarrow> Inl unavailable))"

end
