(* ===== verification/Admin_Api.thy ===== *)
theory Admin_Api
  imports Admin_Log Admin_Transport Admin_Journeys
begin

text \<open>
  The shape of an administration view (\<open>OpenBaoClusterViewSet\<close> and its mixins in \<^verbatim>\<open>api/views.py\<close>): read the
  state a mutation depends on, commit a durable authorisation record, act, then record what happened. The
  views are over an interface to the backend, which both transports implement. \<^verbatim>\<open>packaging.version\<close> is a
  parameter.
\<close>

section \<open>The backend a view works with\<close>

record 's admin_ops =
  bk_health :: "('s, exn, health_result) sem"
  bk_discover :: "('s, exn, capability_document) sem"
  bk_initialization_status :: "('s, exn, bool) sem"
  bk_seal_status :: "('s, exn, seal_status) sem"
  bk_leader_status :: "('s, exn, leader_status) sem"
  bk_ha_status :: "('s, exn, ha_node list) sem"
  bk_raft_configuration :: "('s, exn, raft_configuration) sem"
  bk_initialize :: "payload \<Rightarrow> ('s, exn, initialization_result) sem"
  bk_join_raft :: "payload \<Rightarrow> ('s, exn, bool) sem"
  bk_unseal :: "string \<Rightarrow> bool \<Rightarrow> bool \<Rightarrow> ('s, exn, seal_status) sem"
  bk_seal :: "('s, exn, unit) sem"
  bk_remove_raft_peer :: "string \<Rightarrow> ('s, exn, unit) sem"
  bk_download_raft_snapshot :: "('s, exn, snapshot_download) sem"
  bk_restore_raft_snapshot :: "json \<Rightarrow> bool \<Rightarrow> ('s, exn, unit) sem"
  bk_list_secret_engines :: "('s, exn, secret_engine_mount list) sem"
  bk_read_secret_engine :: "json \<Rightarrow> ('s, exn, json) sem"
  bk_read_secret_engine_tuning :: "json \<Rightarrow> ('s, exn, json) sem"
  bk_enable_secret_engine :: "json \<Rightarrow> payload \<Rightarrow> ('s, exn, unit) sem"
  bk_tune_secret_engine :: "json \<Rightarrow> payload \<Rightarrow> ('s, exn, unit) sem"
  bk_remount_secret_engine :: "json \<Rightarrow> json \<Rightarrow> ('s, exn, json) sem"
  bk_secret_engine_remount_status :: "json \<Rightarrow> ('s, exn, json) sem"
  bk_disable_secret_engine :: "json \<Rightarrow> ('s, exn, unit) sem"
  bk_mounted :: "string \<Rightarrow> string \<Rightarrow> payload \<Rightarrow> payload \<Rightarrow> string \<Rightarrow> string \<Rightarrow> string \<Rightarrow> string \<Rightarrow> ('s, exn, json) sem"
  bk_access :: "string \<Rightarrow> string \<Rightarrow> payload \<Rightarrow> bool \<Rightarrow> ('s, exn, json) sem"
  bk_final :: "string \<Rightarrow> string \<Rightarrow> payload \<Rightarrow> bool \<Rightarrow> ('s, exn, json) sem"

definition direct_ops :: "codec \<Rightarrow> ('s, exn, health_result) sem \<Rightarrow> 's requester \<Rightarrow> 's admin_ops" where
  "direct_ops cd health rq =
     \<lparr>bk_health = health, bk_discover = discover_capabilities cd rq,
      bk_initialization_status = initialization_status cd rq, bk_seal_status = read_seal_status cd rq,
      bk_leader_status = read_leader_status cd rq, bk_ha_status = read_ha_status cd rq,
      bk_raft_configuration = read_raft_configuration cd rq, bk_initialize = initialize_cluster cd rq,
      bk_join_raft = join_raft cd rq, bk_unseal = unseal cd rq, bk_seal = seal rq,
      bk_remove_raft_peer = remove_raft_peer rq, bk_download_raft_snapshot = download_raft_snapshot rq,
      bk_restore_raft_snapshot = restore_raft_snapshot rq, bk_list_secret_engines = list_secret_engines cd rq,
      bk_read_secret_engine = read_secret_engine cd rq, bk_read_secret_engine_tuning = read_secret_engine_tuning cd rq,
      bk_enable_secret_engine = enable_secret_engine rq, bk_tune_secret_engine = tune_secret_engine rq,
      bk_remount_secret_engine = remount_secret_engine cd rq,
      bk_secret_engine_remount_status = secret_engine_remount_status cd rq,
      bk_disable_secret_engine = disable_secret_engine rq,
      bk_mounted = (\<lambda>verb path query body _ _ _ _. execute_mounted_operation cd rq verb path query body),
      bk_access = execute_access_operation cd rq, bk_final = execute_final_operation cd rq\<rparr>"

text \<open>The broker backend overrides what the contract names and inherits the rest over its own \<open>_request\<close>.\<close>

definition broker_ops ::
  "codec \<Rightarrow> ('w broker_state, exn, health_result) sem \<Rightarrow> 'w sender \<Rightarrow> 'w broker_state admin_ops" where
  "broker_ops cd health snd_request =
     (direct_ops cd health (broker_request cd snd_request))
     \<lparr>bk_discover := broker_discover_capabilities cd snd_request,
      bk_initialization_status := broker_initialization_status cd snd_request,
      bk_seal_status := broker_seal_status cd snd_request, bk_leader_status := broker_leader_status cd snd_request,
      bk_ha_status := broker_ha_status cd snd_request, bk_raft_configuration := broker_raft_configuration cd snd_request,
      bk_initialize := broker_initialize cd snd_request, bk_join_raft := broker_join_raft cd snd_request,
      bk_unseal := broker_unseal cd snd_request, bk_seal := broker_seal cd snd_request,
      bk_remove_raft_peer := broker_remove_raft_peer cd snd_request,
      bk_download_raft_snapshot := broker_download_raft_snapshot cd snd_request,
      bk_restore_raft_snapshot := broker_restore_raft_snapshot cd snd_request,
      bk_list_secret_engines := broker_list_secret_engines cd snd_request,
      bk_remount_secret_engine := broker_remount_secret_engine cd snd_request,
      bk_mounted := broker_execute_mounted_operation cd snd_request,
      bk_access := broker_execute_access_operation cd snd_request,
      bk_final := broker_execute_final_operation cd snd_request\<rparr>"

text \<open>\<open>get_administration_backend\<close>.\<close>

definition get_administration_backend ::
  "codec \<Rightarrow> 'w admin_http \<Rightarrow> 'w hvac \<Rightarrow> 'w requests \<Rightarrow> 'k crypto \<Rightarrow> backend_ctx \<Rightarrow> nat \<Rightarrow> openbao_cluster
     \<Rightarrow> 'w broker_state admin_ops" where
  "get_administration_backend cd ht hv hs cx ctx b c =
     (if clu_backend c = BACKEND_BROKER
      then broker_ops cd (within (broker_health hs cx ctx b)) (broker_send ht hs cx ctx b)
      else direct_ops cd (within (bao_health hv cx b)) (\<lambda>r. within (direct_request ht hv cx ctx b r)))"

section \<open>Versions\<close>

record 'v versions =
  ver_parse :: "string \<Rightarrow> 'v option"
  ver_less :: "'v \<Rightarrow> 'v \<Rightarrow> bool"
  ver_release :: "'v \<Rightarrow> nat list"

definition supported_version :: "'v versions \<Rightarrow> string \<Rightarrow> bool" where
  "supported_version vs s =
     (case (ver_parse vs s, ver_parse vs ''2.6.2'') of
        (Some v, Some baseline) \<Rightarrow> \<not> ver_less vs v baseline \<and> take 2 (ver_release vs v) = [2, 6]
      | _ \<Rightarrow> False)"

definition conflict :: "string \<Rightarrow> exn" where
  "conflict m = OpenBaoExn (openbao_exn OpenBaoConflictC (Some m) None)"

definition require_baseline :: "'v versions \<Rightarrow> seal_status \<Rightarrow> exn + unit" where
  "require_baseline vs s = srequire (supported_version vs (st_version s)) (conflict [])"

section \<open>Errors and outcomes of a view\<close>

datatype 'r view_result =
  Completed 'r bool \<comment> \<open>whether the completion record was written\<close>
| OutcomeUnknown string \<comment> \<open>with the audit status\<close>

definition on_backend :: "('s, exn, 'a) sem \<Rightarrow> ('s admin_state, exn, 'a) sem" where
  "on_backend m st = (case m (as_backend st) of (r, s) \<Rightarrow> (r, st\<lparr>as_backend := s\<rparr>))"

definition conflict_response :: exn where "conflict_response = PythonError ''OpenBaoAdministrationConflict''"
definition unavailable_response :: exn where "unavailable_response = PythonError ''OpenBaoAdministrationUnavailable''"

definition safe_failure ::
  "admin_env \<Rightarrow> openbao_cluster \<Rightarrow> string \<Rightarrow> string \<Rightarrow> string \<Rightarrow> bool \<Rightarrow> ('s admin_state, exn, 'a) sem" where
  "safe_failure env c act reason risk is_conflict =
     bnd (on_exn (log_administration env c
            ((event act)\<lparr>ev_risk_level := risk, ev_reason := reason, ev_success := False,
               ev_status_code := Some (if is_conflict then 409 else 503),
               ev_message := (if is_conflict then ''OpenBao administrative state changed; the operation was refused.''
                              else ''OpenBao administration is unavailable.'')\<rparr>))
            (\<lambda>e. if e = audit_error then ret () else raise e)) (\<lambda>_.
     raise (if is_conflict then conflict_response else unavailable_response))"

definition backend_failure ::
  "admin_env \<Rightarrow> openbao_cluster \<Rightarrow> string \<Rightarrow> string \<Rightarrow> string \<Rightarrow> exn \<Rightarrow> ('s admin_state, exn, 'a) sem" where
  "backend_failure env c act reason risk e = safe_failure env c act reason risk (exn_is OpenBaoConflictC e)"

text \<open>\<open>except (AdministrationAuditError, DatabaseError, OpenBaoError)\<close>.\<close>

definition view_handled :: "exn \<Rightarrow> bool" where
  "view_handled e = (is_openbao e \<or> e = audit_error \<or> e = PythonError ''DatabaseError'')"

definition get_cluster :: "admin_env \<Rightarrow> nat \<Rightarrow> string \<Rightarrow> ('s admin_state, exn, openbao_cluster) sem" where
  "get_cluster env pk permission =
     bnd (gets (\<lambda>st. map_of (as_clusters st) pk)) (\<lambda>found.
     case found of
       Some c \<Rightarrow> if aa_permits (ae_actor env) permission pk then ret c else raise (PythonError ''Http404'')
     | None \<Rightarrow> raise (PythonError ''Http404''))"

section \<open>The two shapes\<close>

text \<open>A read: what it finds is released only after its record is committed.\<close>

definition read_view ::
  "admin_env \<Rightarrow> openbao_cluster \<Rightarrow> string \<Rightarrow> ('s admin_state, exn, 'a) sem \<Rightarrow> ('s admin_state, exn, 'a) sem" where
  "read_view env c act m =
     on_exn m (\<lambda>e. if view_handled e then safe_failure env c act [] ''read'' False else raise e)"

text \<open>The same for the contract views, which report a conflict as one.\<close>

definition contract_read ::
  "admin_env \<Rightarrow> openbao_cluster \<Rightarrow> string \<Rightarrow> ('s admin_state, exn, 'a) sem \<Rightarrow> ('s admin_state, exn, 'a) sem" where
  "contract_read env c act m =
     on_exn m (\<lambda>e. if view_handled e then backend_failure env c act [] ''read'' e else raise e)"

record ('x, 'r) mutation_spec =
  mu_authorized :: "'x \<Rightarrow> audit_event" \<comment> \<open>the durable authorisation record\<close>
  mu_completed :: "'x \<Rightarrow> 'r \<Rightarrow> audit_event"
  mu_failed :: string \<comment> \<open>the action a failure is recorded under\<close>
  mu_reason :: string
  mu_risk :: string

definition authorized_act ::
  "admin_env \<Rightarrow> openbao_cluster \<Rightarrow> ('x, 'r) mutation_spec \<Rightarrow> ('s admin_state, exn, 'x) sem
     \<Rightarrow> ('x \<Rightarrow> ('s admin_state, exn, 'r) sem) \<Rightarrow> ('s admin_state, exn, 'x \<times> 'r) sem" where
  "authorized_act env c mu prepare act =
     bnd prepare (\<lambda>x.
     bnd (log_administration env c ((mu_authorized mu x)\<lparr>ev_durable := True\<rparr>)) (\<lambda>_.
     bnd (act x) (\<lambda>r. ret (x, r))))"

definition finish_mutation ::
  "admin_env \<Rightarrow> openbao_cluster \<Rightarrow> audit_event \<Rightarrow> 'r \<Rightarrow> ('s admin_state, exn, 'r view_result) sem" where
  "finish_mutation env c completed r =
     on_exn (bnd (log_administration env c completed) (\<lambda>_. ret (Completed r True)))
       (\<lambda>e. if e = audit_error then ret (Completed r False) else raise e)"

text \<open>
  The handlers around the body of a view: \<open>unknown\<close> is what it does when the outcome is unknown, returning the
  audit status, and \<open>finish\<close> what follows a body that returned.
\<close>

definition outcome_view ::
  "admin_env \<Rightarrow> openbao_cluster \<Rightarrow> string \<Rightarrow> string \<Rightarrow> string \<Rightarrow> ('s admin_state, exn, string) sem
     \<Rightarrow> ('s admin_state, exn, 'y) sem \<Rightarrow> ('y \<Rightarrow> ('s admin_state, exn, 'r view_result) sem)
     \<Rightarrow> ('s admin_state, exn, 'r view_result) sem" where
  "outcome_view env c act reason risk unknown body finish st =
     (case body st of
        (Inl e, st1) \<Rightarrow>
          (if exn_is OpenBaoMutationUnknownC e then bnd unknown (\<lambda>a. ret (OutcomeUnknown a))
           else if view_handled e then backend_failure env c act reason risk e
           else raise e) st1
      | (Inr y, st1) \<Rightarrow> finish y st1)"

definition mutation_view ::
  "admin_env \<Rightarrow> openbao_cluster \<Rightarrow> ('x, 'r) mutation_spec \<Rightarrow> ('s admin_state, exn, 'x) sem
     \<Rightarrow> ('x \<Rightarrow> ('s admin_state, exn, 'r) sem) \<Rightarrow> ('s admin_state, exn, string) sem
     \<Rightarrow> ('s admin_state, exn, ('x \<times> 'r) view_result) sem" where
  "mutation_view env c mu prepare act unknown =
     outcome_view env c (mu_failed mu) (mu_reason mu) (mu_risk mu) unknown (authorized_act env c mu prepare act)
       (\<lambda>(x, r). finish_mutation env c (mu_completed mu x r) (x, r))"

text \<open>\<open>_mutation_unknown_response\<close>: the record is best effort.\<close>

definition record_unknown ::
  "admin_env \<Rightarrow> openbao_cluster \<Rightarrow> audit_event \<Rightarrow> ('s admin_state, exn, string) sem" where
  "record_unknown env c ev =
     on_exn (bnd (log_administration env c
              (ev\<lparr>ev_outcome := ''unknown'', ev_success := False, ev_status_code := Some 503\<rparr>)) (\<lambda>_. ret ''best-effort''))
       (\<lambda>e. if e = audit_error \<or> e = PythonError ''DatabaseError'' then ret ''failed'' else raise e)"

section \<open>Cluster lifecycle\<close>

text \<open>The record of one lifecycle action, and the three records a view of it makes.\<close>

definition lifecycle_event :: "string \<Rightarrow> string \<Rightarrow> string \<Rightarrow> string \<Rightarrow> string \<Rightarrow> audit_event" where
  "lifecycle_event act operation_id risk path reason =
     (event act)\<lparr>ev_operation_id := operation_id, ev_risk_level := risk, ev_method := ''POST'', ev_path_template := path,
                 ev_reason := reason\<rparr>"

definition lifecycle_view ::
  "admin_env \<Rightarrow> openbao_cluster \<Rightarrow> audit_event \<Rightarrow> ('x \<Rightarrow> string) \<Rightarrow> ('x \<Rightarrow> string) \<Rightarrow> nat
     \<Rightarrow> ('s admin_state, exn, 'x) sem \<Rightarrow> ('x \<Rightarrow> ('s admin_state, exn, 'r) sem)
     \<Rightarrow> ('s admin_state, exn, ('x \<times> 'r) view_result) sem" where
  "lifecycle_view env c ev authorized completed status prepare act =
     mutation_view env c
       \<lparr>mu_authorized = (\<lambda>x. ev\<lparr>ev_action := ev_action ev @ ''-authorized'', ev_message := authorized x\<rparr>),
        mu_completed = (\<lambda>x _. ev\<lparr>ev_status_code := Some status, ev_message := completed x\<rparr>),
        mu_failed = ev_action ev, mu_reason = ev_reason ev, mu_risk = ev_risk_level ev\<rparr>
       prepare act
       (record_unknown env c (ev\<lparr>ev_message := ''The cluster mutation outcome is unknown; no request material was retained.''\<rparr>))"

definition baseline_status :: "'v versions \<Rightarrow> 's admin_ops \<Rightarrow> ('s admin_state, exn, seal_status) sem" where
  "baseline_status vs bk =
     bnd (on_backend (bk_seal_status bk)) (\<lambda>s. bnd (lift_sum (require_baseline vs s)) (\<lambda>_. ret s))"

definition require_leader :: "'s admin_ops \<Rightarrow> ('s admin_state, exn, unit) sem" where
  "require_leader bk =
     bnd (on_backend (bk_leader_status bk)) (\<lambda>l. check (\<not> (ls_ha_enabled l \<and> \<not> ls_is_self l)) (conflict []))"

text \<open>\<open>before.initialized or backend.initialization_status()\<close>.\<close>

definition require_uninitialized :: "'v versions \<Rightarrow> 's admin_ops \<Rightarrow> ('s admin_state, exn, unit) sem" where
  "require_uninitialized vs bk =
     bnd (baseline_status vs bk) (\<lambda>s.
     bnd (if st_initialized s then ret True else on_backend (bk_initialization_status bk)) (\<lambda>initialized.
     check (\<not> initialized) (conflict [])))"

definition initialize_view ::
  "'v versions \<Rightarrow> 's admin_ops \<Rightarrow> admin_env \<Rightarrow> nat \<Rightarrow> string \<Rightarrow> payload
     \<Rightarrow> ('s admin_state, exn, (unit \<times> initialization_result) view_result) sem" where
  "initialize_view vs bk env pk reason p =
     bnd (get_cluster env pk ''initialize'') (\<lambda>c.
     lifecycle_view env c (lifecycle_event ''initialize'' ''sys-init'' ''sensitive'' ''/sys/init'' reason)
       (\<lambda>_. ''Authorized cluster initialization.'') (\<lambda>_. ''Initialized cluster; custody material was returned once.'') 201
       (require_uninitialized vs bk) (\<lambda>_. on_backend (bk_initialize bk p)))"

definition join_raft_view ::
  "'v versions \<Rightarrow> 's admin_ops \<Rightarrow> admin_env \<Rightarrow> nat \<Rightarrow> string \<Rightarrow> payload
     \<Rightarrow> ('s admin_state, exn, (unit \<times> bool) view_result) sem" where
  "join_raft_view vs bk env pk reason p =
     bnd (get_cluster env pk ''join_raft'') (\<lambda>c.
     lifecycle_view env c (lifecycle_event ''join-raft'' ''raft-join'' ''sensitive'' ''/sys/storage/raft/join'' reason)
       (\<lambda>_. ''Authorized joining the uninitialized node to a Raft cluster.'')
       (\<lambda>_. ''Submitted the request-scoped Raft join configuration.'') 200
       (require_uninitialized vs bk) (\<lambda>_. on_backend (bk_join_raft bk p)))"

definition unseal_view ::
  "'v versions \<Rightarrow> 's admin_ops \<Rightarrow> admin_env \<Rightarrow> nat \<Rightarrow> string \<Rightarrow> string \<Rightarrow> bool \<Rightarrow> bool
     \<Rightarrow> ('s admin_state, exn, (unit \<times> seal_status) view_result) sem" where
  "unseal_view vs bk env pk reason share reset migrate =
     bnd (get_cluster env pk ''unseal'') (\<lambda>c.
     lifecycle_view env c
       (lifecycle_event (if reset then ''reset-unseal'' else ''unseal'') ''sys-unseal'' ''sensitive'' ''/sys/unseal'' reason)
       (\<lambda>_. ''Authorized an unseal state transition.'') (\<lambda>_. ''Updated unseal progress.'') 200
       (bnd (baseline_status vs bk) (\<lambda>s. check (st_initialized s \<and> st_sealed s) (conflict [])))
       (\<lambda>_. on_backend (bk_unseal bk share reset migrate)))"

definition seal_view ::
  "'v versions \<Rightarrow> 's admin_ops \<Rightarrow> admin_env \<Rightarrow> nat \<Rightarrow> string \<Rightarrow> ('s admin_state, exn, (unit \<times> unit) view_result) sem" where
  "seal_view vs bk env pk reason =
     bnd (get_cluster env pk ''seal'') (\<lambda>c.
     lifecycle_view env c (lifecycle_event ''seal'' ''sys-seal'' ''destructive'' ''/sys/seal'' reason)
       (\<lambda>_. ''Authorized cluster seal.'') (\<lambda>_. ''Sealed cluster.'') 200
       (bnd (baseline_status vs bk) (\<lambda>s.
        bnd (check (st_initialized s \<and> \<not> st_sealed s) (conflict [])) (\<lambda>_. require_leader bk)))
       (\<lambda>_. on_backend (bk_seal bk)))"

text \<open>A peer may go when the configuration is the one that was reviewed, it is not the leader, and a voter leaves
  at least three others.\<close>

definition removable_peer :: "raft_configuration \<Rightarrow> string \<Rightarrow> int \<Rightarrow> raft_peer option" where
  "removable_peer cfg server_id index =
     (case raft_peer_of cfg server_id of
        None \<Rightarrow> None
      | Some p \<Rightarrow>
          if rc_index cfg \<noteq> index \<or> rp_leader p \<or> (rp_voter p \<and> length (filter rp_voter (rc_peers cfg)) \<le> 3) then None
          else Some p)"

definition unsealed_raft :: "seal_status \<Rightarrow> bool" where
  "unsealed_raft s = (st_initialized s \<and> \<not> st_sealed s \<and> st_storage_type s = ''raft'')"

definition remove_raft_peer_view ::
  "'v versions \<Rightarrow> 's admin_ops \<Rightarrow> admin_env \<Rightarrow> nat \<Rightarrow> string \<Rightarrow> string \<Rightarrow> int
     \<Rightarrow> ('s admin_state, exn, ((raft_peer \<times> raft_configuration) \<times> unit) view_result) sem" where
  "remove_raft_peer_view vs bk env pk reason server_id index =
     bnd (get_cluster env pk ''remove_raft_peer'') (\<lambda>c.
     lifecycle_view env c
       (lifecycle_event ''remove-raft-peer'' ''raft-remove-peer'' ''destructive'' ''/sys/storage/raft/remove-peer'' reason)
       (\<lambda>(p, _). ''Authorized removal of Raft peer '' @ rp_node_id p @ ''.'')
       (\<lambda>(p, _). ''Removed Raft peer '' @ rp_node_id p @ ''.'') 200
       (bnd (baseline_status vs bk) (\<lambda>s.
        bnd (on_backend (bk_leader_status bk)) (\<lambda>l.
        bnd (check (unsealed_raft s \<and> \<not> (ls_ha_enabled l \<and> \<not> ls_is_self l)) (conflict [])) (\<lambda>_.
        bnd (on_backend (bk_raft_configuration bk)) (\<lambda>cfg.
        bnd (get_or (removable_peer cfg server_id index) (conflict [])) (\<lambda>p. ret (p, cfg)))))))
       (\<lambda>(p, _). on_backend (bk_remove_raft_peer bk (rp_node_id p))))"

definition fresh_raft_state ::
  "'v versions \<Rightarrow> 's admin_ops \<Rightarrow> string \<Rightarrow> int \<Rightarrow> ('s admin_state, exn, raft_configuration) sem" where
  "fresh_raft_state vs bk cluster_id index =
     bnd (baseline_status vs bk) (\<lambda>s.
     bnd (check (unsealed_raft s) (conflict [])) (\<lambda>_.
     bnd (require_leader bk) (\<lambda>_.
     bnd (on_backend (bk_raft_configuration bk)) (\<lambda>cfg.
     bnd (check (st_cluster_id s = cluster_id \<and> rc_index cfg = index) (conflict [])) (\<lambda>_. ret cfg)))))"

definition restore_snapshot_view ::
  "'v versions \<Rightarrow> 's admin_ops \<Rightarrow> admin_env \<Rightarrow> nat \<Rightarrow> string \<Rightarrow> string \<Rightarrow> int \<Rightarrow> json \<Rightarrow> bool
     \<Rightarrow> ('s admin_state, exn, (raft_configuration \<times> unit) view_result) sem" where
  "restore_snapshot_view vs bk env pk reason cluster_id index upload force =
     (let act = (if force then ''force-restore-raft-snapshot'' else ''restore-raft-snapshot'') in
      bnd (get_cluster env pk (if force then ''force_restore_raft_snapshot'' else ''restore_raft_snapshot'')) (\<lambda>c.
      lifecycle_view env c
        (lifecycle_event act act ''destructive''
           (if force then ''/sys/storage/raft/snapshot-force'' else ''/sys/storage/raft/snapshot'') reason)
        (\<lambda>_. ''Authorized a bounded streaming Raft snapshot restore.'') (\<lambda>_. ''Accepted a streamed Raft snapshot restore.'') 200
        (fresh_raft_state vs bk cluster_id index)
        (\<lambda>_. on_backend (bk_restore_raft_snapshot bk upload force))))"

section \<open>Reads of the cluster\<close>

definition health_view ::
  "'s admin_ops \<Rightarrow> admin_env \<Rightarrow> nat \<Rightarrow> ('s admin_state, exn, health_result \<times> int) sem" where
  "health_view bk env pk =
     bnd (get_cluster env pk ''view'') (\<lambda>c.
     read_view env c ''health''
       (bnd (on_backend (bk_health bk)) (\<lambda>r. bnd (record_health_observation env c r) (\<lambda>t. ret (r, t)))))"

definition capabilities_view ::
  "'s admin_ops \<Rightarrow> admin_env \<Rightarrow> nat \<Rightarrow> ('s admin_state, exn, capability_document) sem" where
  "capabilities_view bk env pk =
     bnd (get_cluster env pk ''discover'') (\<lambda>c.
     read_view env c ''discover-capabilities''
       (bnd (on_backend (bk_discover bk)) (\<lambda>d. bnd (record_capability_observation env c d) (\<lambda>_. ret d))))"

record cluster_state =
  cs_seal :: seal_status
  cs_leader :: "leader_status option"
  cs_ha :: "ha_node list option"
  cs_raft :: "raft_configuration option"

definition optionally :: "bool \<Rightarrow> ('s, 'e, 'a) sem \<Rightarrow> ('s, 'e, 'a option) sem" where
  "optionally c m = (if c then bnd m (\<lambda>x. ret (Some x)) else ret None)"

definition state_view :: "'s admin_ops \<Rightarrow> admin_env \<Rightarrow> nat \<Rightarrow> ('s admin_state, exn, cluster_state) sem" where
  "state_view bk env pk =
     bnd (get_cluster env pk ''discover'') (\<lambda>c.
     read_view env c ''cluster-state''
       (bnd (on_backend (bk_seal_status bk)) (\<lambda>s.
        bnd (optionally (st_initialized s \<and> \<not> st_sealed s) (on_backend (bk_leader_status bk))) (\<lambda>l.
        bnd (optionally (case l of Some x \<Rightarrow> ls_ha_enabled x | None \<Rightarrow> False) (on_backend (bk_ha_status bk))) (\<lambda>ha.
        bnd (optionally (st_storage_type s = ''raft'' \<and> \<not> st_sealed s) (on_backend (bk_raft_configuration bk))) (\<lambda>raft.
        bnd (log_administration env c
               ((event ''cluster-state'')\<lparr>ev_operation_id := ''cluster-state'', ev_status_code := Some 200,
                  ev_message := ''Read cluster lifecycle state.''\<rparr>)) (\<lambda>_.
        ret \<lparr>cs_seal = s, cs_leader = l, cs_ha = ha, cs_raft = raft\<rparr>)))))))"

text \<open>The download is opened before it is released; its stream records its own completion.\<close>

definition download_snapshot_view ::
  "'v versions \<Rightarrow> 's admin_ops \<Rightarrow> admin_env \<Rightarrow> nat \<Rightarrow> string \<Rightarrow> string \<Rightarrow> ('s admin_state, exn, snapshot_download) sem" where
  "download_snapshot_view vs bk env pk verb reason =
     bnd (get_cluster env pk ''download_raft_snapshot'') (\<lambda>c.
     on_exn
       (bnd (baseline_status vs bk) (\<lambda>s.
        bnd (check (unsealed_raft s) (conflict [])) (\<lambda>_.
        bnd (require_leader bk) (\<lambda>_.
        bnd (log_administration env c
               ((event ''download-raft-snapshot-authorized'')
                \<lparr>ev_operation_id := ''raft-snapshot-download'', ev_risk_level := ''sensitive'', ev_method := verb,
                 ev_path_template := ''/sys/storage/raft/snapshot'', ev_reason := reason, ev_durable := True,
                 ev_message := ''Authorized a streamed Raft snapshot download.''\<rparr>)) (\<lambda>_.
        on_backend (bk_download_raft_snapshot bk))))))
       (\<lambda>e. if view_handled e then backend_failure env c ''download-raft-snapshot'' reason ''sensitive'' e else raise e))"

definition stream_download ::
  "admin_env \<Rightarrow> openbao_cluster \<Rightarrow> string \<Rightarrow> string \<Rightarrow> (exn + string option) list \<Rightarrow> snapshot_download
     \<Rightarrow> ('s admin_state, exn, string list \<times> exn option) sem" where
  "stream_download env c verb reason raw d =
     (let ((chunks, failure), _) = snapshot_chunks raw d; ok = (failure = None) in
      bnd (on_exn (log_administration env c
             ((event ''download-raft-snapshot'')
              \<lparr>ev_operation_id := ''raft-snapshot-download'', ev_risk_level := ''sensitive'', ev_method := verb,
               ev_path_template := ''/sys/storage/raft/snapshot'', ev_reason := reason, ev_success := ok,
               ev_status_code := Some (if ok then 200 else 499),
               ev_message := (if ok then ''Streamed a Raft snapshot to the authenticated operator.''
                              else ''The Raft snapshot stream did not complete.'')\<rparr>))
             (\<lambda>e. if e = audit_error \<or> e = PythonError ''DatabaseError'' then ret () else raise e)) (\<lambda>_.
      ret (chunks, failure)))"

end
