(* ===== verification/Credential_View_Properties.thy ===== *)
theory Credential_View_Properties
  imports Credential_Views Service_Properties Automation_Properties
begin

text \<open>
  Properties of the REST views over credentials: what a reveal through an assignment implies, and what an update needs.
\<close>

section \<open>Successful steps\<close>

definition admitted :: "database \<Rightarrow> credential \<Rightarrow> user \<Rightarrow> bool" where
  "admitted d c u = (usr_is_superuser u \<or> (\<exists>p. policy_of d c = Some p \<and> group_permitted p (Some u)))"

lemma enforce_InrE:
  assumes "enforce_policy_access env c (Some u) a rq s = (Inr y, s')"
  shows "s' = s \<and> admitted (db s) c u"
proof (cases "policy_of (db s) c")
  case None
  with assms show ?thesis
    by (auto simp: enforce_policy_access_def bypasses_groups_def admitted_def bnd_def ret_def policy_p_def gets_def get_or_def raise_def
        split: if_splits)
next
  case (Some p)
  with assms policy_gate [OF Some, of env "Some u" a rq] show ?thesis
    by (auto simp: admitted_def split: if_splits)
qed







section \<open>A reveal through an assignment\<close>

definition quiet_step :: "('x, 'b) sys \<Rightarrow> ('x, 'b) sys \<Rightarrow> bool" where
  "quiet_step s s' = (hooks s' = hooks s)"

interpretation quiet_hooks: state_frame quiet_step
  by unfold_locales (auto simp: quiet_step_def)

lemma quiet_framed_lift:
  "framed quiet_step (with_db f)" "framed quiet_step (backend_call env m)" "framed quiet_step (log_access_p env c u a ok r t q l)"
  "framed quiet_step (get_backend_p env eng pol)" "framed quiet_step (acquire env ls)"
  by (auto simp: framed_def quiet_step_def with_db_def backend_call_def on_ext_def log_access_p_def get_backend_p_def acquire_def modify_def
      split: prod.splits)

lemmas quiet_framed = quiet_hooks.framed_basic quiet_hooks.framed_bnd quiet_hooks.framed_on_exn quiet_framed_lift framed_cases

lemma quiet_framed_parts:
  "framed quiet_step (enforce_policy_access env c u a rq)" "framed quiet_step (lock_credential_graph env k p)"
  "framed quiet_step (reveal_read env c pol u rq reason v)"
  unfolding enforce_policy_access_def lock_credential_graph_def lock_policies_def lock_engines_def lock_credentials_def reveal_read_def
    policy_p_def engine_p_def audited_call_def
  by (intro quiet_framed)+

lemma quiet_framed_body: "framed quiet_step (bound_reveal_body env ap u rq k x g cid)"
  unfolding bound_reveal_body_def bound_checked_def bound_read_def reauthorize_def reveal_material_def policy_p_def
  by (intro quiet_framed quiet_framed_parts)

lemma quiet_atomic:
  assumes run: "atomic env m s = (Inr r, s')" and ac: "autocommit s" and fr: "framed quiet_step m"
  obtains s1 where "m (enter_tx s) = (Inr r, s1)" and "db s' = db s1" and "ext s' = ext s1"
proof -
  obtain q s1 where b: "m (enter_tx s) = (q, s1)" by fastforce
  from framedD [OF fr b] have "hooks s1 = []" by (simp add: quiet_step_def enter_tx_def)
  with run ac b have "q = Inr r \<and> db s' = db s1 \<and> ext s' = ext s1"
    by (auto simp: atomic_def leave_tx_def bnd_def ret_def split: sum.splits commit_outcome.splits)
  with b that show ?thesis by blast
qed

text \<open>A computation that waits for locks and reads: what it changes of the database, others committed.\<close>

definition idle_step :: "('x, 'b, 'c) env \<Rightarrow> ('x, 'b) sys \<Rightarrow> ('x, 'b) sys \<Rightarrow> bool" where
  "idle_step env s s' = (ext s' = ext s \<and> (others env)\<^sup>*\<^sup>* (db s) (db s'))"

interpretation idle: state_frame "idle_step env"
  by unfold_locales (auto simp: idle_step_def)

lemma idle_framed_lift: "framed (idle_step env) (acquire env ls)" "framed (idle_step env) (update_owner f)"
  by (auto simp: framed_def idle_step_def acquire_def update_owner_def modify_def others_wait)

lemmas idle_framed = idle.framed_basic idle.framed_bnd idle_framed_lift framed_cases











lemma authorize_InrE: "authorize env ap u rq k action s = (Inr c, s') \<Longrightarrow> s' = s"
  unfolding authorize_def selected_def
  by (elim bnd_InrE) (auto dest!: gets_InrE get_or_InrE enforce_InrE ret_InrE)


section \<open>A refused reveal through an assignment leaves no record\<close>

text \<open>
  The reveal runs inside the transaction that holds the locks, so what it logs about a refusal is rolled back with it; the direct
  reveal, which opens no transaction, keeps its row (\<open>direct_refusal_recorded\<close>).
\<close>

definition base_step :: "('x, 'b) sys \<Rightarrow> ('x, 'b) sys \<Rightarrow> bool" where
  "base_step s s' = (committed_db s' = committed_db s)"

interpretation base: state_frame base_step
  by unfold_locales (auto simp: base_step_def)

lemma base_framed_lift:
  "framed base_step (with_db f)" "framed base_step (backend_call env m)" "framed base_step (log_access_p env c u a ok r t q l)"
  "framed base_step (get_backend_p env eng pol)"
  by (auto simp: framed_def base_step_def with_db_def backend_call_def on_ext_def log_access_p_def get_backend_p_def split: prod.splits)

lemma base_framed_acquire: "(\<And>h l d. e_lock_wait env h l d = d) \<Longrightarrow> framed base_step (acquire env ls)"
  by (simp add: framed_def base_step_def acquire_def modify_def)

lemmas base_framed = base.framed_basic base.framed_bnd base.framed_on_exn base_framed_lift framed_cases

lemma base_framed_body:
  assumes "\<And>h l d. e_lock_wait env h l d = d"
  shows "framed base_step (bound_reveal_body env ap u rq k x g cid)"
  unfolding bound_reveal_body_def bound_checked_def bound_read_def reauthorize_def reveal_material_def policy_p_def
    enforce_policy_access_def lock_credential_graph_def lock_policies_def lock_engines_def lock_credentials_def reveal_read_def
    engine_p_def audited_call_def
  by (intro base_framed base_framed_acquire assms)

lemma quiet_atomic_failure:
  assumes run: "atomic env m s = (Inl e, s')" and ac: "autocommit s" and fr: "framed quiet_step m" and e: "is_openbao e"
  obtains s1 where "m (enter_tx s) = (Inl e, s1)" and "db s' = committed_db s1"
proof -
  obtain q s1 where b: "m (enter_tx s) = (q, s1)" by fastforce
  from framedD [OF fr b] have "hooks s1 = []" by (simp add: quiet_step_def enter_tx_def)
  with run ac b e have "q = Inl e \<and> db s' = committed_db s1"
    by (auto simp: atomic_def leave_tx_def bnd_def ret_def is_openbao_def split: sum.splits commit_outcome.splits)
  with b that show ?thesis by blast
qed

lemma body_refuses_nothing:
  "bound_read env ap u rq k x c g s \<noteq> (Inr (Refused n t), s')" "bound_checked env ap u rq k x c s \<noteq> (Inr (Refused n t), s')"
  "bound_reveal_body env ap u rq k x g cid s \<noteq> (Inr (Refused n t), s')"
proof -
  have r: False if "bound_read env ap u rq k x c g s = (Inr (Refused n t), s')" for c g s s'
    using that unfolding bound_read_def by (auto elim!: bnd_InrE dest!: ret_InrE split: prod.splits if_splits)
  have b: False if "bound_checked env ap u rq k x c s = (Inr (Refused n t), s')" for c s s'
    using that unfolding bound_checked_def by (auto elim!: bnd_InrE dest!: ret_InrE r split: option.splits)
  show "bound_read env ap u rq k x c g s \<noteq> (Inr (Refused n t), s')" using r by blast
  show "bound_checked env ap u rq k x c s \<noteq> (Inr (Refused n t), s')" using b by blast
  show "bound_reveal_body env ap u rq k x g cid s \<noteq> (Inr (Refused n t), s')"
    unfolding bound_reveal_body_def by (auto elim!: bnd_InrE dest!: b split: prod.splits)
qed

lemma atomic_refuses_nothing:
  assumes ac: "autocommit s"
  shows "atomic env (bound_reveal_body env ap u rq k x g cid) s \<noteq> (Inr (Refused n t), s')"
proof
  assume a: "atomic env (bound_reveal_body env ap u rq k x g cid) s = (Inr (Refused n t), s')"
  obtain s1 where "bound_reveal_body env ap u rq k x g cid (enter_tx s) = (Inr (Refused n t), s1)"
    by (rule quiet_atomic [OF a ac quiet_framed_body])
  with body_refuses_nothing(3) show False by blast
qed

lemma assignment_refusal_unrecorded:
  assumes run: "reveal_credential_view env ap u rq k x s = (Inr (Refused n t), s')" and ac: "autocommit s"
    and alone: "\<And>h l d. e_lock_wait env h l d = d"
  shows "access_log (db s') = access_log (db s)"
proof -
  from run obtain g cid c0 e where a: "atomic env (bound_reveal_body env ap u rq k x g cid) s = (Inl e, s')" and e: "is_openbao e"
    unfolding reveal_credential_view_def selected_def
    by (elim bnd_InrE) (auto dest!: gets_InrE get_or_InrE authorize_InrE simp: atomic_refuses_nothing ac backend_answers_def validation_answers_def on_exn_def
        ret_def raise_def is_openbao_def split: sum.splits exn.splits prod.splits if_splits)
  obtain s1 where body: "bound_reveal_body env ap u rq k x g cid (enter_tx s) = (Inl e, s1)" and d: "db s' = committed_db s1"
    by (rule quiet_atomic_failure [OF a ac quiet_framed_body e])
  from framedD [OF base_framed_body [OF alone] body] d show ?thesis by (simp add: base_step_def enter_tx_def)
qed

lemma direct_refusal_recorded:
  assumes run: "audited_call env c u ACTION_REVEAL reason rq True m s = (Inl (OpenBaoExn x), s')"
    and logged: "\<And>l. ae_log_ok (e_audit env) l"
  shows "\<exists>s1. m s = (Inl (OpenBaoExn x), s1) \<and>
    access_row (e_audit env) c u ACTION_REVEAL False reason (oe_message x) rq True \<in> set (rows (access_log (db s')))"
  using run logged unfolding audited_call_def
  by (auto simp: on_exn_def bnd_def raise_def is_openbao_def error_text_def log_access_p_def with_db_def log_access_def try_insert_log_def
      insert_log_def rows_def split: prod.splits sum.splits exn.splits if_splits)

section \<open>Updating\<close>

lemma idle_framed_subject: "framed (idle_step env) (lock_material_subject env subject p)"
  unfolding lock_material_subject_def lock_material_subjects_def lock_policies_def lock_engines_def lock_credentials_def
    declare_on_owner_def current_material_transaction_def refresh_material_selectors_def
  by (intro idle_framed)

lemma locked_rows:
  assumes "lock_material_subjects env cs ps s = (Inr locked, s')" and "map_of locked k = Some f"
  shows "row (credentials (db s')) k = Some f"
  using assms unfolding lock_material_subjects_def lock_credentials_def
  by (auto elim!: bnd_InrE dest!: gets_InrE ret_InrE lift_sum_InrE simp: map_of_rows_with update_owner_def modify_def Let_def
      split: prod.splits if_splits)

text \<open>The subject comes back with the version state of the row as it is under the locks.\<close>

lemma locked_subject:
  assumes run: "lock_material_subject env (Some c) p s = (Inr r, s')" and k: "cr_pk c = Some k"
  obtains f where "r = Some (take_version_state f c)" and "row (credentials (db s')) k = Some f"
proof -
  from assms obtain locked s1 f where l: "lock_material_subjects env [c] (opt_ids [case p of Some p \<Rightarrow> Some p | None \<Rightarrow> cr_policy_id c]) s
      = (Inr locked, s1)" "map_of locked k = Some f" "r = Some (take_version_state f c)" and "db s' = db s1"
    unfolding lock_material_subject_def refresh_material_selectors_def
    by (auto elim!: bnd_InrE dest!: gets_InrE ret_InrE get_or_InrE lift_sum_InrE simp: at_key_def split: option.splits)
  with locked_rows [OF l(1,2)] that show thesis by simp
qed

lemma kept_fields [simp]:
  "cr_pk (take_version_state f c) = cr_pk c" "cr_pk (apply_patch p c) = cr_pk c" "cr_pk (apply_defaults d c) = cr_pk c"
  "cr_policy_id (apply_defaults d c) = cr_policy_id c" "pt_policy p = Some i \<Longrightarrow> cr_policy_id (apply_patch p c) = Some i"
  by (auto simp: take_version_state_def apply_patch_def or_else_def apply_defaults_def split: option.splits)

lemma kept_by_metadata [simp]:
  "cr_pk (set_metadata m c) = cr_pk c" "cr_policy_id (set_metadata m c) = cr_policy_id c"
proof -
  have "cr_pk (set_metadata_field kv c) = cr_pk c \<and> cr_policy_id (set_metadata_field kv c) = cr_policy_id c" for kv c
    by (cases kv; cases "snd kv") (simp_all add: set_metadata_field_def)
  then have "cr_pk (set_metadata m c) = cr_pk c \<and> cr_policy_id (set_metadata m c) = cr_policy_id c"
    by (induction m arbitrary: c) (simp_all add: set_metadata_def)
  then show "cr_pk (set_metadata m c) = cr_pk c" "cr_policy_id (set_metadata m c) = cr_policy_id c" by simp_all
qed

lemma validated_pk: "validate_request env d creating c q = Inr c' \<Longrightarrow> cr_pk c' = cr_pk c"
  by (auto simp: validate_request_def credential_full_clean_def credential_clean_def Let_def split: sum.splits option.splits if_splits)

lemma try_db_InrE: "try_db f s = (Inr y, s') \<Longrightarrow> f (db s) = (Inr y, db s') \<and> ext s' = ext s"
  by (auto simp: try_db_def split: prod.splits)

text \<open>The save of a request: from the row as it was under the locks to the state right after it. The metadata of supplied
  material is stamped on the row.\<close>

definition saved_by ::
  "('x, 'b, 'c) env \<Rightarrow> credential_request \<Rightarrow> nat \<Rightarrow> credential \<Rightarrow> metadata \<Rightarrow> ('x, 'b) sys \<Rightarrow> ('x, 'b) sys \<Rightarrow> bool" where
  "saved_by env q k c md s s' =
     (\<exists>f saved. row (credentials (db s)) k = Some f \<and> ext s' = ext s \<and>
        credential_save (e_cfg env) (e_now env) (set_metadata md (apply_patch (cq_fields q) (take_version_state f c))) (db s)
          = (Inr saved, db s'))"

text \<open>The saved row, in the state right after the save.\<close>

definition saved_as :: "'x api_params \<Rightarrow> user \<Rightarrow> nat \<Rightarrow> credential_patch \<Rightarrow> ('x, 'b) sys \<Rightarrow> bool" where
  "saved_as ap u k p s =
     (credential_selectable ap u ''change'' k s
      \<and> (\<exists>new. row (credentials (db s)) k = Some new \<and> (\<forall>i. pt_policy p = Some i \<longrightarrow> cr_policy_id new = Some i)))"

lemma save_instance_success:
  assumes run: "save_instance env ap u c s = (Inr c', s')" and k: "cr_pk c = Some k"
    and p: "\<And>i. pt_policy p = Some i \<Longrightarrow> cr_policy_id c = Some i"
  shows "saved_as ap u k p s' \<and> cr_pk c' = Some k \<and> ext s' = ext s \<and>
    credential_save (e_cfg env) (e_now env) c (db s) = (Inr c', db s')"
proof -
  from run obtain s1 where save: "credential_save (e_cfg env) (e_now env) c (db s) = (Inr c', db s1)" and x: "ext s1 = ext s"
    and cf: "conform ap u ''change'' c' s1 = (Inr (), s')"
    unfolding save_instance_def by (elim bnd_InrE) (auto dest!: try_db_InrE ret_InrE)
  from save k have "row (credentials (db s1)) k = Some (apply_defaults (db s) c)" "cr_pk c' = Some k"
    by (auto simp: credential_save_def Let_def write_row_def eq_commute [of _ "db s1"] split: if_splits)
  with cf p save x show ?thesis
    unfolding conform_def by (elim bnd_InrE) (auto dest!: gets_InrE get_or_InrE check_InrE simp: saved_as_def)
qed

lemma require_rotate_InrE:
  "require_rotate ap u c s = (Inr y, s') \<Longrightarrow> cr_pk c = Some k \<Longrightarrow> s' = s \<and> credential_selectable ap u ''rotate'' k s"
  unfolding require_rotate_def by (elim bnd_InrE) (auto dest!: gets_InrE get_or_InrE check_InrE)

lemma persist_update_success:
  assumes run: "persist_update env ap u c (cq_fields q) (Some (take_version_state f c)) metadata s = (Inr c', s')"
    and k: "cr_pk c = Some k" and row: "row (credentials (db s)) k = Some f"
  shows "saved_as ap u k (cq_fields q) s' \<and> credential_selectable ap u ''rotate'' k s' \<and> saved_by env q k c metadata s s'"
proof -
  let ?c = "set_metadata metadata (apply_patch (cq_fields q) (take_version_state f c))"
  from run obtain s1 where save: "save_instance env ap u ?c s = (Inr c', s1)" and rot: "require_rotate ap u c' s1 = (Inr (), s')"
    unfolding persist_update_def given_def by (elim bnd_InrE) (auto dest!: ret_InrE)
  from save_instance_success [OF save, of k "cq_fields q"] k
  have r: "saved_as ap u k (cq_fields q) s1" "cr_pk c' = Some k" "ext s1 = ext s"
    "credential_save (e_cfg env) (e_now env) ?c (db s) = (Inr c', db s1)" by simp_all
  from require_rotate_InrE [OF rot r(2)] r row show ?thesis by (auto simp: saved_by_def)
qed

lemma nested_InrE:
  assumes "material_transaction env rh m s = (Inr r, s')" and "owner s \<noteq> None"
  shows "m s = (Inr r, s')"
  using assms by (auto simp: material_transaction_def on_exn_def bnd_def raise_def split: option.splits sum.splits prod.splits)

lemma stored_update:
  assumes run: "store_credential env persist ctype p cas (Some u) rq act (Some c) prom tp False s = (Inr r, s')"
    and o: "owner s \<noteq> None" and k: "cr_pk c = Some k"
  obtains payload md f s1 c' s2 where "prepare_material env (db s) ctype p = Inr (payload, md)" and "idle_step env s s1"
    and "row (credentials (db s1)) k = Some f" and "persist (Some (take_version_state f c)) md s1 = (Inr c', s2)"
proof -
  from nested_InrE [OF run [unfolded store_credential_def] o] obtain payload md fp subj s1 c' s2 where
    prep: "prepare_material env (db s) ctype p = Inr (payload, md)"
    and lock: "lock_material_subject env (Some c) tp s = (Inr subj, s1)" and pers: "persist subj md s1 = (Inr c', s2)"
    unfolding store_body_def by (auto elim!: bnd_InrE dest!: gets_InrE lift_sum_InrE split: prod.splits)
  from lock k obtain f where "subj = Some (take_version_state f c)" "row (credentials (db s1)) k = Some f" by (rule locked_subject)
  with prep framedD [OF idle_framed_subject lock] pers that show thesis by blast
qed

lemma denied_InrE: "denied_if_missing m s = (Inr y, s') \<Longrightarrow> m s = (Inr y, s')"
  by (auto simp: denied_if_missing_def on_exn_def raise_def split: sum.splits prod.splits)

lemma savepoint_InrE: "savepoint m s = (Inr y, s') \<Longrightarrow> m s = (Inr y, s')"
  by (auto simp: savepoint_def split: sum.splits prod.splits)


definition rotation_allowed :: "'x api_params \<Rightarrow> user \<Rightarrow> nat \<Rightarrow> credential_request \<Rightarrow> ('x, 'b) sys \<Rightarrow> bool" where
  "rotation_allowed ap u k q s = (supplied q \<longrightarrow> credential_selectable ap u ''rotate'' k s)"

lemma update_gate_InrE:
  assumes run: "enforce_update_access env (Some c) (Some u) a rq s = (Inr y, s')" and k: "cr_pk c = Some k"
  shows "s' = s \<and> (\<forall>old. load_credential (db s) k = Some old \<longrightarrow> admitted (db s) old u)"
  using assms unfolding enforce_update_access_def
  by (auto elim!: bnd_InrE dest!: gets_InrE ret_InrE enforce_InrE split: option.splits)

text \<open>The metadata an update stamps: what is extracted from the material of the request.\<close>

definition stamped ::
  "('x, 'b, 'c) env \<Rightarrow> 'x api_params \<Rightarrow> credential_request \<Rightarrow> credential \<Rightarrow> database \<Rightarrow> metadata \<Rightarrow> bool" where
  "stamped env ap q c d md =
     (if supplied q then (\<exists>payload. prepare_material env d (cr_credential_type c) (request_material env ap q) = Inr (payload, md)) else md = [])"

lemma take_again: "take_version_state f' (take_version_state f c) = take_version_state f' c"
  by (simp add: take_version_state_def)

lemma type_kept [simp]: "cr_credential_type (take_version_state f c) = cr_credential_type c"
  by (simp add: take_version_state_def)

lemma perform_update_success:
  fixes s :: "('x, 'b) sys"
  assumes run: "perform_update env ap u rq c q s = (Inr c', s')" and k: "cr_pk c = Some k" and tx: "in_tx s"
  obtains md and s1 s2 s3 :: "('x, 'b) sys" where "idle_step env s s1"
    and "\<exists>old. load_credential (db s1) k = Some old \<and> admitted (db s1) old u" and "rotation_allowed ap u k q s1"
    and "idle_step env s1 s2" and "stamped env ap q c (db s1) md" and "saved_by env q k c md s2 s3"
    and "saved_as ap u k (cq_fields q) s3" and "rotation_allowed ap u k q s3"
proof -
  from run obtain subj s1 where l: "lock_material_subject env (Some c) (pt_policy (cq_fields q)) s = (Inr subj, s1)"
    and rest: "bnd (enforce_update_access env subj (Some u) (Some ACTION_WRITE) (Some rq)) (\<lambda>_.
     let fresh = given subj c in
     denied_if_missing
       (if \<not> supplied q then savepoint (save_instance env ap u (apply_patch (cq_fields q) fresh))
        else bnd (require_rotate ap u fresh) (\<lambda>_.
             bnd (store_credential env (persist_update env ap u fresh (cq_fields q)) (cr_credential_type fresh)
                    (request_material env ap q) (cr_kv_version fresh) (Some u) (Some rq) ACTION_ROTATE (Some fresh) True
                    (pt_policy (cq_fields q)) False) (\<lambda>(saved, _). ret saved)))) s1 = (Inr c', s')"
    unfolding perform_update_def by (rule bnd_InrE)
  from l k obtain f where subj: "subj = Some (take_version_state f c)" and f: "row (credentials (db s1)) k = Some f"
    by (rule locked_subject)
  let ?c = "take_version_state f c"
  have kc: "cr_pk ?c = Some k" using k by simp
  have i: "idle_step env s s1" by (rule framedD [OF idle_framed_subject l])
  have "in_tx s1" using framedD [OF tx_framed_subject l] tx by (simp add: tx_step_def)
  then have o: "owner s1 \<noteq> None" by (simp add: in_tx_def)
  from rest subj kc have all: "\<forall>old. load_credential (db s1) k = Some old \<longrightarrow> admitted (db s1) old u"
    and m: "(if \<not> supplied q then savepoint (save_instance env ap u (apply_patch (cq_fields q) ?c))
        else bnd (require_rotate ap u ?c) (\<lambda>_.
             bnd (store_credential env (persist_update env ap u ?c (cq_fields q)) (cr_credential_type ?c)
                    (request_material env ap q) (cr_kv_version ?c) (Some u) (Some rq) ACTION_ROTATE (Some ?c) True
                    (pt_policy (cq_fields q)) False) (\<lambda>(saved, _). ret saved))) s1 = (Inr c', s')"
    by (auto elim!: bnd_InrE dest!: update_gate_InrE denied_InrE simp: Let_def given_def)
  from f all have g: "\<exists>old. load_credential (db s1) k = Some old \<and> admitted (db s1) old u" by (simp add: load_credential_def)
  show thesis
  proof (cases "supplied q")
    case False
    with m have save: "save_instance env ap u (apply_patch (cq_fields q) ?c) s1 = (Inr c', s')" by (auto dest!: savepoint_InrE)
    have "saved_by env q k c [] s1 s'" "saved_as ap u k (cq_fields q) s'"
      using save_instance_success [OF save, of k "cq_fields q"] kc f by (auto simp: saved_by_def set_metadata_def)
    with i g False show thesis
      by (intro that [of s1 s1 "[]" s']) (simp_all add: rotation_allowed_def stamped_def idle.frame_refl)
  next
    case True
    with m kc obtain r s2 where rot: "credential_selectable ap u ''rotate'' k s1"
      and st: "store_credential env (persist_update env ap u ?c (cq_fields q)) (cr_credential_type ?c)
                    (request_material env ap q) (cr_kv_version ?c) (Some u) (Some rq) ACTION_ROTATE (Some ?c) True
                    (pt_policy (cq_fields q)) False s1 = (Inr r, s2)"
      by (auto elim!: bnd_InrE dest!: require_rotate_InrE)
    from st o kc obtain payload md f' s3 c3 s4 where
      prep: "prepare_material env (db s1) (cr_credential_type ?c) (request_material env ap q) = Inr (payload, md)"
      and i3: "idle_step env s1 s3" and f3: "row (credentials (db s3)) k = Some f'"
      and pers: "persist_update env ap u ?c (cq_fields q) (Some (take_version_state f' ?c)) md s3 = (Inr c3, s4)"
      by (rule stored_update)
    from persist_update_success [OF pers kc f3]
    have "saved_as ap u k (cq_fields q) s4" "credential_selectable ap u ''rotate'' k s4" "saved_by env q k c md s3 s4"
      by (simp_all add: saved_by_def take_again)
    moreover have "stamped env ap q c (db s1) md" using True prep by (auto simp: stamped_def)
    ultimately show thesis
      using i g rot i3 by (intro that [of s1 s3 md s4]) (simp_all add: rotation_allowed_def)
  qed
qed

lemma api_operation_InrE:
  assumes run: "material_api_operation env body s = (Inr (Answer n r), s')" and o: "owner s = None" "autocommit s"
  obtains s1 where "body (begin_tx env s) = (Inr (Answer n r), s1)"
proof -
  obtain a s1 where b: "body (begin_tx env s) = (a, s1)" by fastforce
  obtain q s2 where t: "tx_body env body (begin_tx env s) = (q, s2)" by fastforce
  have "a = Inr (Answer n r)"
  proof (cases "material_transaction env (run_hook env) body s")
    case (Pair p s3)
    show ?thesis
    proof (cases p)
      case (Inl e)
      with run Pair have "kept_answer env body s = Some (Answer n r)"
        by (auto simp: material_api_operation_def on_exn_def ret_def raise_def split: if_splits option.splits)
      with b show ?thesis by (auto simp: kept_answer_def split: if_splits sum.splits)
    next
      case (Inr w)
      with run Pair have w: "w = Answer n r" by (simp add: material_api_operation_def on_exn_def)
      with Pair Inr o have ro: "run_owner env (run_hook env) body s = (Inr (Answer n r), s3)"
        by (simp add: material_transaction_def)
      have "q = Inr (Answer n r)"
        using ro t by (auto simp: run_owner_def unwind_def after_commit_def bnd_def modify_def raise_def ret_def Let_def
            split: sum.splits commit_outcome.splits prod.splits)
      with t b show ?thesis unfolding tx_body_def by (auto elim!: bnd_InrE dest!: ret_InrE)
    qed
  qed
  with b that show thesis by blast
qed


text \<open>C22: An update needs the permissions of both ends. Whenever an update of a credential is answered with a result, the user may
  change the credential as it was. The run then passed through a state, reached by waiting for locks only, in which the
  committed row exists and the group gate of its policy admits the user, and, when the request carries material, the
  user may rotate the credential. From there, after at most more waiting, the validated request was saved on the row as it was
  under the locks; and in the state right after that save the user may change the row that was saved, which is under the policy
  the request names, and may rotate it when the request carries material.\<close>

theorem update_needs_both_ends:
  fixes s :: "('x, 'b) sys"
  assumes run: "update_view env ap u rq k q s = (Inr (Answer n c), s')" and idle: "owner s = None" "autocommit s"
  shows "credential_selectable ap u ''change'' k s \<and>
    (\<exists>c0 cleaned md (s1 :: ('x, 'b) sys) (s2 :: ('x, 'b) sys) (s3 :: ('x, 'b) sys).
       load_credential (db s) k = Some c0 \<and> validate_request env (db s) False (apply_patch (cq_fields q) c0) q = Inr cleaned \<and>
       idle_step env s s1 \<and> (\<exists>old. load_credential (db s1) k = Some old \<and> admitted (db s1) old u) \<and> rotation_allowed ap u k q s1 \<and>
       idle_step env s1 s2 \<and> stamped env ap q cleaned (db s1) md \<and> saved_by env q k cleaned md s2 s3 \<and>
       saved_as ap u k (cq_fields q) s3 \<and> rotation_allowed ap u k q s3)"
proof -
  let ?s = "begin_tx env s"
  obtain s1 where body: "bnd (gets (credential_selectable ap u ''change'' k)) (\<lambda>ok.
        bnd (gets (\<lambda>s. load_credential (db s) k)) (\<lambda>r.
        bnd (selected ok r) (\<lambda>c.
        bnd (update_loaded env ap u rq c q) (\<lambda>saved. ret (Answer 200 saved))))) ?s = (Inr (Answer n c), s1)"
    by (rule api_operation_InrE [OF run [unfolded update_view_def] idle])
  then obtain c0 cleaned saved where sel: "credential_selectable ap u ''change'' k ?s" and l: "load_credential (db ?s) k = Some c0"
    and v: "validate_request env (db ?s) False (apply_patch (cq_fields q) c0) q = Inr cleaned"
    and up: "perform_update env ap u rq cleaned q ?s = (Inr saved, s1)"
    by (elim bnd_InrE) (auto simp: selected_def update_loaded_def elim!: bnd_InrE
        dest!: gets_InrE get_or_InrE lift_sum_InrE ret_InrE split: if_splits)
  have k: "cr_pk cleaned = Some k" using validated_pk [OF v] l by (auto simp: load_credential_def)
  have change: "credential_selectable ap u ''change'' k s" using sel by (simp add: credential_selectable_def begin_tx_def)
  have start: "idle_step env ?s t \<Longrightarrow> idle_step env s t" "db ?s = db s" for t by (simp_all add: idle_step_def begin_tx_def)
  from up k in_tx_begin(1) show ?thesis
    by (rule perform_update_success) (use change start l v in metis)
qed


section \<open>The views on the example deployment\<close>

definition ex_api :: "mem_server backend_world api_params" where
  "ex_api = \<lparr>api_permits = (\<lambda>_ _ _ _ _ _. True), api_parse_datetime = (\<lambda>_. Inr (Some 800)), api_private_key = (\<lambda>_. ''pem''),
     api_dumps = (\<lambda>_. [])\<rparr>"

definition ex_request :: http_request where
  "ex_request = \<lparr>rq_client_ip = Inr None, rq_id = ''r-1'', rq_user = Some ex_user\<rparr>"

definition ex_approval :: approval where
  "ex_approval = \<lparr>xp_reason = ''audit'', xp_assignment_revision = ''now'', xp_object_type = ''dcim.device'', xp_object_id = 9,
     xp_purpose = ''login'', xp_credential_uuid = ''u-5'', xp_credential_type = ''password'', xp_kv_version = 2, xp_host = None,
     xp_port = None\<rparr>"

definition ex_no_fields :: credential_patch where
  "ex_no_fields = \<lparr>pt_name = None, pt_credential_type = None, pt_policy = None, pt_engine = None, pt_username = None,
     pt_public_key = None, pt_fingerprint = None, pt_cert_serial = None, pt_cert_subject = None, pt_cert_issuer = None,
     pt_valid_from = None, pt_valid_until = None, pt_status = None, pt_rotation_interval = None, pt_last_rotated = None\<rparr>"

definition ex_update :: credential_request where
  "ex_update = \<lparr>cq_fields = ex_no_fields\<lparr>pt_username := Some ''root''\<rparr>, cq_secret_data = Some [(''password'', JStr ''three'')],
     cq_generate = False, cq_key_type = None\<rparr>"

lemmas run_views = enter_tx_def atomic_def service_type_def credential_ct_def assignment_ct_def ct_label_def
  backend_answers_def validation_answers_def credential_selectable_def assignment_selectable_def GATE_AUDIT_ACTION_def selected_def
  authorize_def kept_answer_def outcome_unknown_def material_api_operation_def given_def apply_patch_def validate_generation_def
  supplied_def validate_request_def conform_def denied_if_missing_def request_material_def require_rotate_def save_instance_def
  persist_update_def perform_update_def update_loaded_def update_view_def served_version_def connection_mismatch_def
  first_difference_def identity_mismatch_def reauthorize_def bound_read_def bound_checked_def bound_reveal_body_def
  reveal_credential_view_def ex_assignment_def ex_dispatch_db_def ex_dispatch_state_def ex_api_def ex_request_def ex_approval_def
  ex_no_fields_def ex_update_def



lemma ex_update_run:
  "\<exists>c s'. update_view (ex_env ex_ok) ex_api ex_user ex_request 5 ex_update ex_dispatch_state = (Inr (Answer 200 c), s') \<and>
     cr_username c = ''root''"
  by (simp add: ex_ok_def run_views run del: set_filter cong: run_congs)

theorem update_needs_both_ends_witness:
  "\<exists>c md (s2 :: (mem_server backend_world, nat) sys) s3. saved_by (ex_env ex_ok) ex_update 5 c md s2 s3 \<and>
     saved_as ex_api ex_user 5 (cq_fields ex_update) s3 \<and> credential_selectable ex_api ex_user ''rotate'' 5 s3"
proof -
  obtain c s' where r: "update_view (ex_env ex_ok) ex_api ex_user ex_request 5 ex_update ex_dispatch_state = (Inr (Answer 200 c), s')"
    using ex_update_run by blast
  have i: "owner ex_dispatch_state = None" "autocommit ex_dispatch_state" by (simp_all add: ex_dispatch_state_def ex_state_def)
  have "supplied ex_update" by (simp add: ex_update_def supplied_def)
  with update_needs_both_ends [OF r i] show ?thesis unfolding rotation_allowed_def by blast
qed

end
