(* ===== verification/Api_Requests.thy ===== *)
theory Api_Requests
  imports Admin_Api Credential_View_Properties Automation_Properties Lifecycle
begin

text \<open>
  Requests the views trust (\<^verbatim>\<open>api/serializers.py\<close>, \<^verbatim>\<open>api/automation.py\<close>): the typed confirmation, the custody request that
  initialises a cluster with its OpenPGP recipients, the Raft join, the unsealing, the automation endpoint, the write-only
  auth material. \<open>attrs\<close> is what the framework's field declarations let through, as an association list in their order; the
  first check that fails is the error. The OpenPGP library and Django's URL field are parameters.
\<close>

section \<open>The typed confirmation\<close>

definition attr_text :: "payload \<Rightarrow> string \<Rightarrow> string" where
  "attr_text attrs k = (case dict_get attrs k of Some (JStr s) \<Rightarrow> s | _ \<Rightarrow> [])"

definition has_attr :: "payload \<Rightarrow> string \<Rightarrow> bool" where
  "has_attr attrs k = (dict_get attrs k \<noteq> None)"

text \<open>\<open>_ClusterConfirmationSerializer.validate\<close>.\<close>

definition validate_confirmation :: "string \<Rightarrow> payload \<Rightarrow> exn + payload" where
  "validate_confirmation expected attrs =
     (if dict_get attrs ''confirmation'' \<noteq> Some (JStr expected)
      then Inl (ValidationError ''confirmation'' (''Type exactly: '' @ expected)) else Inr attrs)"

definition openbao_payload :: "payload \<Rightarrow> payload" where
  "openbao_payload attrs = filter (\<lambda>(k, _). k \<notin> {''reason'', ''confirmation''}) attrs"

section \<open>OpenPGP recipients\<close>

datatype ('k, 's) recipient = EntityKey 'k | EntitySubkey 's

record ('k, 's, 'g) openpgp =
  pg_parse :: "string \<Rightarrow> 'k option" \<comment> \<open>\<open>None\<close>: the library's error\<close>
  pg_bytes :: "'k \<Rightarrow> string"
  pg_verify_bindings :: "'k \<Rightarrow> bool"
  pg_direct_signatures :: "'k \<Rightarrow> 'g list"
  pg_users :: "'k \<Rightarrow> 'g list list"
  pg_user_attributes :: "'k \<Rightarrow> 'g list list"
  pg_primary_encrypts :: "'k \<Rightarrow> bool"
  pg_subkeys :: "'k \<Rightarrow> 's list"
  pg_subkey_encrypts :: "'s \<Rightarrow> bool"
  pg_subkey_signatures :: "'s \<Rightarrow> 'g list"
  pg_flags :: "'g \<Rightarrow> bool \<times> bool" \<comment> \<open>encrypt communications, encrypt storage\<close>
  pg_encrypt :: "('k, 's) recipient \<Rightarrow> string \<Rightarrow> string option"

definition OPENPGP_VALIDATION_PAYLOAD :: string where
  "OPENPGP_VALIDATION_PAYLOAD = ''netbox-openbao-encryption-key-validation''"

definition signature_allows_encryption :: "('k, 's, 'g) openpgp \<Rightarrow> 'g \<Rightarrow> bool" where
  "signature_allows_encryption pg g = (case pg_flags pg g of (communications, storage) \<Rightarrow> communications \<or> storage)"

definition encryption_recipients :: "('k, 's, 'g) openpgp \<Rightarrow> 'k \<Rightarrow> ('k, 's) recipient list" where
  "encryption_recipients pg k =
     (let primary = pg_direct_signatures pg k @ concat (pg_users pg k @ pg_user_attributes pg k)
      in (if pg_primary_encrypts pg k \<and> list_ex (signature_allows_encryption pg) primary then [EntityKey k] else [])
         @ map EntitySubkey (filter (\<lambda>s. pg_subkey_encrypts pg s \<and> list_ex (signature_allows_encryption pg) (pg_subkey_signatures pg s))
             (pg_subkeys pg k)))"

definition recipient_can_encrypt :: "('k, 's, 'g) openpgp \<Rightarrow> ('k, 's) recipient \<Rightarrow> bool" where
  "recipient_can_encrypt pg r =
     (case pg_encrypt pg r OPENPGP_VALIDATION_PAYLOAD of None \<Rightarrow> False | Some encrypted \<Rightarrow> encrypted \<noteq> [])"

definition validate_openpgp_export :: "('k, 's, 'g) openpgp \<Rightarrow> string \<Rightarrow> bool" where
  "validate_openpgp_export pg data =
     (case pg_parse pg data of
        None \<Rightarrow> False
      | Some k \<Rightarrow> pg_bytes pg k = data \<and> pg_verify_bindings pg k \<and> list_ex (recipient_can_encrypt pg) (encryption_recipients pg k))"

definition validate_openpgp_public_key :: "('k, 's, 'g) openpgp \<Rightarrow> string \<Rightarrow> exn + unit" where
  "validate_openpgp_public_key pg value =
     srequire (case b64decode value of None \<Rightarrow> False | Some data \<Rightarrow> validate_openpgp_export pg data)
       (ValidationError [] ''Use standard base64 of one complete binary OpenPGP public-key export without ASCII armor.'')"

section \<open>Initialization\<close>

definition share_field :: "payload \<Rightarrow> string \<times> int \<Rightarrow> exn + unit" where
  "share_field attrs kl =
     (case dict_get attrs (fst kl) of
        Some (JNum n) \<Rightarrow> srequire (snd kl \<le> n \<and> n \<le> 64) (ValidationError (fst kl) ''The value is out of range.'')
      | None \<Rightarrow> Inr ()
      | Some _ \<Rightarrow> Inl (ValidationError (fst kl) ''A valid integer is required.''))"

definition key_field :: "('k, 's, 'g) openpgp \<Rightarrow> json \<Rightarrow> exn + unit" where
  "key_field pg j =
     (case j of
        JStr v \<Rightarrow> sbind (srequire (1 \<le> length v \<and> length v \<le> 20000) (ValidationError [] ''The key is out of bounds.''))
                   (\<lambda>_. validate_openpgp_public_key pg v)
      | _ \<Rightarrow> Inl (ValidationError [] ''Not a valid string.''))"

definition key_list_field :: "('k, 's, 'g) openpgp \<Rightarrow> payload \<Rightarrow> string \<Rightarrow> exn + unit" where
  "key_list_field pg attrs k =
     (case dict_get attrs k of
        None \<Rightarrow> Inr ()
      | Some (JArr keys) \<Rightarrow>
          sbind (srequire (length keys \<le> 64) (ValidationError k ''Ensure this field has no more than 64 elements.'')) (\<lambda>_.
          sbind (straverse (key_field pg) keys) (\<lambda>_. Inr ()))
      | Some _ \<Rightarrow> Inl (ValidationError k ''Expected a list of items.''))"

definition initialize_fields :: "('k, 's, 'g) openpgp \<Rightarrow> payload \<Rightarrow> exn + unit" where
  "initialize_fields pg attrs =
     sbind (straverse (share_field attrs) [(''secret_shares'', 1), (''secret_threshold'', 1), (''recovery_shares'', 0), (''recovery_threshold'', 0)])
       (\<lambda>_.
     sbind (straverse (key_list_field pg attrs) [''pgp_keys'', ''recovery_pgp_keys'']) (\<lambda>_.
     case dict_get attrs ''root_token_pgp_key'' of None \<Rightarrow> Inr () | Some j \<Rightarrow> key_field pg j))"

definition share_keys :: "bool \<Rightarrow> string \<times> string \<times> string" where
  "share_keys shamir =
     (if shamir then (''secret_shares'', ''secret_threshold'', ''pgp_keys'')
      else (''recovery_shares'', ''recovery_threshold'', ''recovery_pgp_keys''))"

definition validate_initialize :: "string \<Rightarrow> payload \<Rightarrow> exn + payload" where
  "validate_initialize slug attrs =
     sbind (validate_confirmation (''INITIALIZE '' @ slug) attrs) (\<lambda>_.
     let shamir = has_attr attrs ''secret_shares'' \<or> has_attr attrs ''secret_threshold'';
         recovery = has_attr attrs ''recovery_shares'' \<or> has_attr attrs ''recovery_threshold''
     in if shamir = recovery
        then Inl (ValidationError [] ''Specify either a complete Shamir share pair or a complete recovery share pair.'')
        else case share_keys shamir of (shares_key, threshold_key, pgp_key) \<Rightarrow>
          (case (dict_get attrs shares_key, dict_get attrs threshold_key) of
             (Some (JNum shares), Some (JNum threshold)) \<Rightarrow>
               if threshold > shares then Inl (ValidationError threshold_key ''Threshold cannot exceed the share count.'')
               else if (case dict_get attrs pgp_key of Some (JArr keys) \<Rightarrow> int (length keys) \<noteq> shares | _ \<Rightarrow> False)
               then Inl (ValidationError pgp_key ''Provide exactly one PGP key for every share.'')
               else Inr attrs
           | _ \<Rightarrow> Inl (ValidationError [] ''Both share count and threshold are required.'')))"

definition initialize_request :: "('k, 's, 'g) openpgp \<Rightarrow> string \<Rightarrow> payload \<Rightarrow> exn + payload" where
  "initialize_request pg slug attrs = sbind (initialize_fields pg attrs) (\<lambda>_. validate_initialize slug attrs)"

section \<open>Joining a Raft cluster\<close>

definition join_confirmation :: "string \<Rightarrow> payload \<Rightarrow> string" where
  "join_confirmation slug attrs =
     (let direct = attr_text attrs ''leader_api_addr''
      in ''JOIN RAFT '' @ slug @ '' VIA ''
         @ (if direct \<noteq> [] then ''DIRECT '' @ direct else ''AUTO '' @ attr_text attrs ''auto_join''))"

text \<open>\<open>url_field\<close> is the framework's \<open>URLField(max_length=2048).run_validation\<close>.\<close>

definition validate_direct_address :: "(string \<Rightarrow> string option) \<Rightarrow> payload \<Rightarrow> string \<Rightarrow> exn + payload" where
  "validate_direct_address url_field attrs given_address =
     (case url_field given_address of
        None \<Rightarrow> Inl (ValidationError [] ''Enter a valid URL.'')
      | Some direct \<Rightarrow>
          (case urlsplit direct of
             None \<Rightarrow> Inl (PythonError ''ValueError'')
           | Some u \<Rightarrow>
               if url_port u = None then Inl (ValidationError ''leader_api_addr'' ''Use a valid TCP port.'')
               else if url_scheme u \<notin> {''http'', ''https''} \<or> url_hostname u = [] \<or> url_username u \<noteq> [] \<or> url_password u \<noteq> []
               then Inl (ValidationError ''leader_api_addr'' ''Use an http(s) URL without user information.'')
               else if url_query u \<noteq> [] \<or> url_fragment u \<noteq> []
               then Inl (ValidationError ''leader_api_addr'' ''Query strings and fragments are not accepted.'')
               else Inr (filter (\<lambda>(k, _). k \<notin> {''auto_join_scheme'', ''auto_join_port''})
                      (AList.update ''leader_api_addr'' (JStr direct) attrs))))"

definition validate_join_certificates :: "payload \<Rightarrow> exn + unit" where
  "validate_join_certificates attrs =
     (let pem = (\<lambda>name. attr_text attrs name = [] \<or> prefix ''-----BEGIN CERTIFICATE-----'' (attr_text attrs name));
          key = attr_text attrs ''leader_client_key''
      in if \<not> pem ''leader_ca_cert'' then Inl (ValidationError ''leader_ca_cert'' ''Provide one PEM certificate.'')
         else if \<not> pem ''leader_client_cert'' then Inl (ValidationError ''leader_client_cert'' ''Provide one PEM certificate.'')
         else if key \<noteq> [] \<and> \<not> prefix ''-----BEGIN '' key then Inl (ValidationError ''leader_client_key'' ''Provide one PEM private key.'')
         else if (attr_text attrs ''leader_client_cert'' \<noteq> []) \<noteq> (key \<noteq> [])
         then Inl (ValidationError [] ''The leader client certificate and private key must be supplied together.'')
         else Inr ())"

definition set_default :: "string \<Rightarrow> json \<Rightarrow> payload \<Rightarrow> payload" where
  "set_default k j attrs = (if has_attr attrs k then attrs else attrs @ [(k, j)])"

definition join_request :: "(string \<Rightarrow> string option) \<Rightarrow> string \<Rightarrow> payload \<Rightarrow> exn + payload" where
  "join_request url_field slug attrs =
     (let direct = attr_text attrs ''leader_api_addr''; automatic = attr_text attrs ''auto_join''
      in if (direct \<noteq> []) = (automatic \<noteq> [])
         then Inl (ValidationError [] ''Specify exactly one leader API address or auto-join expression.'')
         else sbind (if direct \<noteq> [] then validate_direct_address url_field attrs direct
                     else Inr (set_default ''auto_join_port'' (JNum 8200) (set_default ''auto_join_scheme'' (JStr ''https'')
                            (filter (\<lambda>(k, _). k \<noteq> ''leader_api_addr'') attrs)))) (\<lambda>attrs'.
              sbind (validate_confirmation (join_confirmation slug attrs') attrs') (\<lambda>_.
              sbind (validate_join_certificates attrs') (\<lambda>_. Inr attrs'))))"

section \<open>The other cluster requests\<close>

definition unseal_request :: "string \<Rightarrow> payload \<Rightarrow> exn + payload" where
  "unseal_request slug attrs =
     (let reset = truthy (jget attrs ''reset'')
      in sbind (validate_confirmation ((if reset then ''RESET UNSEAL '' else ''UNSEAL '') @ slug) attrs) (\<lambda>_.
         if reset then Inr (filter (\<lambda>(k, _). k \<noteq> ''key'') attrs)
         else if attr_text attrs ''key'' = [] then Inl (ValidationError ''key'' ''One unseal share is required.'')
         else Inr attrs))"

definition confirm_action_request :: "string \<Rightarrow> string \<Rightarrow> payload \<Rightarrow> exn + payload" where
  "confirm_action_request action slug attrs = validate_confirmation (action @ '' '' @ slug) attrs"

definition remove_peer_request :: "string \<Rightarrow> payload \<Rightarrow> exn + payload" where
  "remove_peer_request slug attrs =
     (let server = attr_text attrs ''server_id''
      in sbind (srequire (word_re (one_of alnum ''_.:-'') (one_of alnum ''_.:-'') 199 server)
             (ValidationError ''server_id'' ''This value does not match the required pattern.'')) (\<lambda>_.
         validate_confirmation (''REMOVE '' @ server @ '' FROM '' @ slug) attrs))"

definition restore_request :: "bool \<Rightarrow> string \<Rightarrow> payload \<Rightarrow> exn + payload" where
  "restore_request force slug attrs =
     validate_confirmation ((if force then ''FORCE RESTORE SNAPSHOT '' else ''RESTORE SNAPSHOT '') @ slug) attrs"

definition snapshot_upload_size :: "string \<Rightarrow> string \<Rightarrow> string \<Rightarrow> exn + int" where
  "snapshot_upload_size content_type content_encoding content_length =
     (if content_type \<noteq> ''application/octet-stream''
      then Inl (ValidationError ''content_type'' ''Use application/octet-stream.'')
      else if content_encoding \<noteq> []
      then Inl (ValidationError ''content_encoding'' ''Encoded snapshot uploads are not accepted.'')
      else case int_of_text content_length of
        None \<Rightarrow> Inl (ValidationError ''content_length'' ''A valid Content-Length is required.'')
      | Some n \<Rightarrow>
          if 0 < n \<and> n \<le> int MAX_SNAPSHOT_BYTES then Inr n
          else Inl (ValidationError ''content_length'' ''Snapshot size is outside the allowed range.''))"

section \<open>The requests at their endpoints\<close>

definition initialize_endpoint ::
  "('k, 's, 'g) openpgp \<Rightarrow> 'v versions \<Rightarrow> 'b admin_ops \<Rightarrow> admin_env \<Rightarrow> nat \<Rightarrow> payload
     \<Rightarrow> ('b admin_state, exn, (unit \<times> initialization_result) view_result) sem" where
  "initialize_endpoint pg vs bk env pk attrs =
     bnd (get_cluster env pk ''initialize'') (\<lambda>c.
     bnd (lift_sum (initialize_request pg (clu_slug c) attrs)) (\<lambda>data.
     initialize_view vs bk env pk (attr_text data ''reason'') (openbao_payload data)))"

definition join_raft_endpoint ::
  "(string \<Rightarrow> string option) \<Rightarrow> 'v versions \<Rightarrow> 'b admin_ops \<Rightarrow> admin_env \<Rightarrow> nat \<Rightarrow> payload
     \<Rightarrow> ('b admin_state, exn, (unit \<times> bool) view_result) sem" where
  "join_raft_endpoint url_field vs bk env pk attrs =
     bnd (get_cluster env pk ''join_raft'') (\<lambda>c.
     bnd (lift_sum (join_request url_field (clu_slug c) attrs)) (\<lambda>data.
     join_raft_view vs bk env pk (attr_text data ''reason'') (openbao_payload data)))"

definition unseal_endpoint ::
  "'v versions \<Rightarrow> 'b admin_ops \<Rightarrow> admin_env \<Rightarrow> nat \<Rightarrow> payload \<Rightarrow> ('b admin_state, exn, (unit \<times> seal_status) view_result) sem" where
  "unseal_endpoint vs bk env pk attrs =
     bnd (get_cluster env pk ''unseal'') (\<lambda>c.
     bnd (lift_sum (unseal_request (clu_slug c) attrs)) (\<lambda>data.
     unseal_view vs bk env pk (attr_text data ''reason'') (attr_text data ''key'') (truthy (jget data ''reset''))
       (truthy (jget data ''migrate''))))"

definition seal_endpoint ::
  "'v versions \<Rightarrow> 'b admin_ops \<Rightarrow> admin_env \<Rightarrow> nat \<Rightarrow> payload \<Rightarrow> ('b admin_state, exn, (unit \<times> unit) view_result) sem" where
  "seal_endpoint vs bk env pk attrs =
     bnd (get_cluster env pk ''seal'') (\<lambda>c.
     bnd (lift_sum (confirm_action_request ''SEAL'' (clu_slug c) attrs)) (\<lambda>data.
     seal_view vs bk env pk (attr_text data ''reason'')))"

definition remove_peer_endpoint ::
  "'v versions \<Rightarrow> 'b admin_ops \<Rightarrow> admin_env \<Rightarrow> nat \<Rightarrow> payload
     \<Rightarrow> ('b admin_state, exn, ((raft_peer \<times> raft_configuration) \<times> unit) view_result) sem" where
  "remove_peer_endpoint vs bk env pk attrs =
     bnd (get_cluster env pk ''remove_raft_peer'') (\<lambda>c.
     bnd (lift_sum (remove_peer_request (clu_slug c) attrs)) (\<lambda>data.
     remove_raft_peer_view vs bk env pk (attr_text data ''reason'') (attr_text data ''server_id'')
       (case jget data ''configuration_index'' of JNum n \<Rightarrow> n | _ \<Rightarrow> -1)))"

text \<open>\<open>_restore_raft_snapshot\<close>: the metadata and the three facts about the upload come from headers.\<close>

definition restore_endpoint ::
  "'v versions \<Rightarrow> 'b admin_ops \<Rightarrow> admin_env \<Rightarrow> nat \<Rightarrow> bool \<Rightarrow> string \<times> string \<times> string \<Rightarrow> payload
     \<Rightarrow> ('b admin_state, exn, (raft_configuration \<times> unit) view_result) sem" where
  "restore_endpoint vs bk env pk force upload attrs =
     bnd (get_cluster env pk (if force then ''force_restore_raft_snapshot'' else ''restore_raft_snapshot'')) (\<lambda>c.
     bnd (lift_sum (restore_request force (clu_slug c) attrs)) (\<lambda>data.
     bnd (lift_sum (case upload of (content_type, encoding, len) \<Rightarrow> snapshot_upload_size content_type encoding len)) (\<lambda>n.
     restore_snapshot_view vs bk env pk (attr_text data ''reason'') (attr_text data ''cluster_id'')
       (case jget data ''configuration_index'' of JNum n \<Rightarrow> n | _ \<Rightarrow> -1) (JNum n) force)))"

section \<open>The automation endpoint\<close>

definition AUTOMATION_FIELDS :: "string list" where
  "AUTOMATION_FIELDS = [''schema_version'', ''execution_id'', ''step_id'', ''reference_name'', ''dispatch_lease'']"

definition invalid_resolution :: exn where
  "invalid_resolution = ValidationError [] ''Invalid automation resolution request.''"

text \<open>The text a character field makes of a value: numbers are written out, booleans and containers refused.\<close>

definition char_value :: "json \<Rightarrow> string option" where
  "char_value j =
     (case j of JStr s \<Rightarrow> Some (strip s) | JNum n \<Rightarrow> Some (int_text n) | JFloat r \<Rightarrow> Some r | _ \<Rightarrow> None)"

definition step_field :: "json option \<Rightarrow> exn + string" where
  "step_field j =
     (case j of
        None \<Rightarrow> Inr []
      | Some v \<Rightarrow>
          (case char_value v of
             None \<Rightarrow> Inl (ValidationError ''step_id'' ''Not a valid string.'')
           | Some s \<Rightarrow>
               if list_all (one_of alnum ''_.-'') s \<and> length s \<le> 100 then Inr s
               else Inl (ValidationError ''step_id'' ''This value does not match the required pattern.'')))"

definition reference_field :: "json option \<Rightarrow> exn + string" where
  "reference_field j =
     (case Option.bind j char_value of
        None \<Rightarrow> Inl (ValidationError ''reference_name'' ''This field is required.'')
      | Some s \<Rightarrow>
          if word_re alpha (one_of alnum ''_.-'') 99 s then Inr s
          else Inl (ValidationError ''reference_name'' ''This value does not match the required pattern.''))"

definition lease_field :: "json option \<Rightarrow> exn + payload" where
  "lease_field j =
     (case j of Some (JObj d) \<Rightarrow> Inr d | _ \<Rightarrow> Inl (ValidationError ''dispatch_lease'' ''Expected a dictionary of items.''))"

text \<open>\<open>AutomationResolveRequestSerializer\<close>; \<open>dumps\<close> is \<^verbatim>\<open>json.dumps\<close>, whose text is ASCII.\<close>

definition automation_request :: "(json \<Rightarrow> string) \<Rightarrow> json \<Rightarrow> exn + automation_params" where
  "automation_request dumps j =
     (case j of
        JObj d \<Rightarrow>
          if \<not> set (map fst d) \<subseteq> set AUTOMATION_FIELDS then Inl invalid_resolution
          else (case (dict_get d ''schema_version'', dict_get d ''execution_id'') of
            (Some (JNum version), Some (JNum execution)) \<Rightarrow>
              if 16384 < length (dumps j) then Inl invalid_resolution
              else sbind (srequire (version = 1) (ValidationError ''schema_version'' ''The value is out of range.'')) (\<lambda>_.
                   sbind (srequire (1 \<le> execution \<and> execution \<le> 9223372036854775807)
                            (ValidationError ''execution_id'' ''The value is out of range.'')) (\<lambda>_.
                   sbind (step_field (dict_get d ''step_id'')) (\<lambda>step.
                   sbind (reference_field (dict_get d ''reference_name'')) (\<lambda>reference.
                   sbind (lease_field (dict_get d ''dispatch_lease'')) (\<lambda>lease.
                   Inr \<lparr>ap_execution_id = nat execution, ap_step_id = step, ap_reference_name = reference,
                        ap_dispatch_lease = lease\<rparr>)))))
          | _ \<Rightarrow> Inl invalid_resolution)
      | _ \<Rightarrow> Inl invalid_resolution)"

definition resolve_automation_view ::
  "('x, 'b, 'c) env \<Rightarrow> 'x api_params \<Rightarrow> 'x automation \<Rightarrow> user \<Rightarrow> bool \<Rightarrow> json \<Rightarrow> ('x, 'b, automation_result answer) prog" where
  "resolve_automation_view env ap au u secure body =
     (if \<not> secure then ret (Refused 403 ''A secure transport is required.'')
      else case automation_request (api_dumps ap) body of
        Inl _ \<Rightarrow> ret (Refused 400 ''Invalid automation resolution request.'')
      | Inr ps \<Rightarrow>
          on_exn (bnd (resolve_automation env au u ps) (\<lambda>r. ret (Answer 200 r)))
            (\<lambda>e. if e = AutomationResolutionDenied then ret (Refused 403 ''Automation credential resolution was refused.'')
                 else raise e))"

section \<open>Auth material\<close>

record auth_request =
  aq_engine :: "nat option option"
  aq_policy :: "nat option option"
  aq_cluster :: "nat option option"
  aq_clear :: "string list"
  aq_values :: "(string \<times> string) list"

definition validate_auth_request :: "auth_request \<Rightarrow> exn + unit" where
  "validate_auth_request q =
     (let overlap = filter (\<lambda>n. n \<in> set (aq_clear q) \<and> (case dict_get (aq_values q) n of None \<Rightarrow> False | Some v \<Rightarrow> v \<noteq> []))
                      AUTH_MATERIAL_FIELDS
      in srequire (overlap = [])
           (ValidationError ''clear_fields'' (''Cannot set and clear: '' @ join_with '', '' (sorted_set overlap) @ ''.'')))"

fun clear_secrets :: "'k crypto \<Rightarrow> engine_auth_material \<Rightarrow> string list \<Rightarrow> exn + engine_auth_material" where
  "clear_secrets cx m [] = Inr m"
| "clear_secrets cx m (n # ns) = sbind (clear_secret cx m n) (\<lambda>m'. clear_secrets cx m' ns)"

definition submitted_values :: "auth_request \<Rightarrow> (string \<times> string) list" where
  "submitted_values q =
     filter (\<lambda>(_, v). v \<noteq> []) (List.map_filter (\<lambda>n. map_option (Pair n) (dict_get (aq_values q) n)) AUTH_MATERIAL_FIELDS)"

definition edited_material :: "'k crypto \<Rightarrow> auth_request \<Rightarrow> engine_auth_material \<Rightarrow> exn + engine_auth_material" where
  "edited_material cx q m =
     sbind (clear_secrets cx (m\<lparr>am_engine_id := given (aq_engine q) (am_engine_id m), am_policy_id := given (aq_policy q) (am_policy_id m),
              am_cluster_id := given (aq_cluster q) (am_cluster_id m)\<rparr>) (aq_clear q)) (\<lambda>m'.
     set_secrets cx m' (submitted_values q))"

text \<open>\<open>_save_material\<close>, with the model's validation and the callbacks of a committed save.\<close>

definition save_material_request ::
  "'k crypto \<Rightarrow> int \<Rightarrow> auth_request \<Rightarrow> engine_auth_material \<Rightarrow> string list \<times> engine_auth_material \<Rightarrow> nat \<Rightarrow> auth_tbl
   \<Rightarrow> ('w backend_world, exn, engine_auth_material \<times> auth_tbl) sem" where
  "save_material_request cx now q m loaded new_pk t =
     bnd (lift_sum (validate_auth_request q)) (\<lambda>_.
     bnd (lift_sum (edited_material cx q m)) (\<lambda>edited.
     bnd (lift_sum (auth_clean edited)) (\<lambda>_.
     bnd (check (\<not> owner_taken t (am_pk edited) edited) (ValidationError [] ''Auth material with this owner already exists.'')) (\<lambda>_.
     save_auth_material now None edited loaded new_pk t))))"

section \<open>What an accepted initialization is\<close>

text \<open>A key OpenBao may encrypt a share to: exactly one entity, its bindings verified, with a recipient that its signatures allow to
  encrypt and that does.\<close>

definition custody_key :: "('k, 's, 'g) openpgp \<Rightarrow> json \<Rightarrow> bool" where
  "custody_key pg j =
     (\<exists>v data k r. j = JStr v \<and> b64decode v = Some data \<and> pg_parse pg data = Some k \<and> pg_bytes pg k = data \<and> pg_verify_bindings pg k \<and>
        r \<in> set (encryption_recipients pg k) \<and> recipient_can_encrypt pg r)"

definition keys_for :: "('k, 's, 'g) openpgp \<Rightarrow> int \<Rightarrow> json \<Rightarrow> bool" where
  "keys_for pg shares j = (\<exists>keys. j = JArr keys \<and> int (length keys) = shares \<and> list_all (custody_key pg) keys)"

text \<open>One pair and not the other; the second component of the result of \<open>share_keys\<close> names the threshold, the third the keys.\<close>

definition custody_split :: "('k, 's, 'g) openpgp \<Rightarrow> payload \<Rightarrow> bool \<Rightarrow> bool" where
  "custody_split pg attrs shamir =
     (case (share_keys shamir, share_keys (\<not> shamir)) of ((sk, tk, kk), (other_sk, other_tk, _)) \<Rightarrow>
        (\<exists>shares threshold. dict_get attrs sk = Some (JNum shares) \<and> dict_get attrs tk = Some (JNum threshold) \<and>
           (if shamir then 1 else 0) \<le> threshold \<and> threshold \<le> shares \<and> shares \<le> 64 \<and>
           (\<forall>j. dict_get attrs kk = Some j \<longrightarrow> keys_for pg shares j)) \<and>
        dict_get attrs other_sk = None \<and> dict_get attrs other_tk = None)"

definition custody_request :: "('k, 's, 'g) openpgp \<Rightarrow> string \<Rightarrow> payload \<Rightarrow> bool" where
  "custody_request pg slug attrs =
     (dict_get attrs ''confirmation'' = Some (JStr (''INITIALIZE '' @ slug)) \<and> (\<exists>shamir. custody_split pg attrs shamir) \<and>
      (\<forall>j. dict_get attrs ''root_token_pgp_key'' = Some j \<longrightarrow> custody_key pg j))"

lemma key_field_ok: "key_field pg j = Inr x \<Longrightarrow> custody_key pg j"
  by (auto simp: key_field_def custody_key_def validate_openpgp_public_key_def validate_openpgp_export_def sbind_def srequire_def
      list_ex_iff split: json.splits if_splits option.splits sum.splits)

lemma straverse_each: "straverse f xs = Inr ys \<Longrightarrow> x \<in> set xs \<Longrightarrow> \<exists>y. f x = Inr y"
  by (induction xs arbitrary: ys) (auto simp: sbind_def split: sum.splits)

lemma key_list_ok:
  assumes "key_list_field pg attrs k = Inr x" and "dict_get attrs k = Some j"
  shows "\<exists>keys. j = JArr keys \<and> list_all (custody_key pg) keys"
  using assms by (auto simp: key_list_field_def sbind_def srequire_def list_all_iff split: json.splits if_splits sum.splits
      dest!: straverse_each key_field_ok)

lemma share_ok:
  assumes "share_field attrs (k, lo) = Inr x" and "dict_get attrs k = Some j"
  shows "\<exists>n. j = JNum n \<and> lo \<le> n \<and> n \<le> 64"
  using assms by (auto simp: share_field_def srequire_def split: json.splits if_splits)

lemma initialize_fields_ok:
  assumes "initialize_fields pg attrs = Inr x"
  shows "(k, lo) \<in> {(''secret_shares'', 1), (''secret_threshold'', 1), (''recovery_shares'', 0), (''recovery_threshold'', 0)}
      \<Longrightarrow> dict_get attrs k = Some j \<Longrightarrow> \<exists>n. j = JNum n \<and> lo \<le> n \<and> n \<le> 64"
    and "k \<in> {''pgp_keys'', ''recovery_pgp_keys''} \<Longrightarrow> dict_get attrs k = Some j \<Longrightarrow> \<exists>keys. j = JArr keys \<and> list_all (custody_key pg) keys"
    and "dict_get attrs ''root_token_pgp_key'' = Some j \<Longrightarrow> custody_key pg j"
proof -
  obtain ys zs where f: "straverse (share_field attrs)
      [(''secret_shares'', 1), (''secret_threshold'', 1), (''recovery_shares'', 0), (''recovery_threshold'', 0)] = Inr ys"
    "straverse (key_list_field pg attrs) [''pgp_keys'', ''recovery_pgp_keys''] = Inr zs"
    and root: "(case dict_get attrs ''root_token_pgp_key'' of None \<Rightarrow> Inr () | Some j \<Rightarrow> key_field pg j) = Inr x"
    using assms unfolding initialize_fields_def sbind_def by (auto simp del: straverse.simps split: sum.splits)
  show "(k, lo) \<in> {(''secret_shares'', 1), (''secret_threshold'', 1), (''recovery_shares'', 0), (''recovery_threshold'', 0)}
      \<Longrightarrow> dict_get attrs k = Some j \<Longrightarrow> \<exists>n. j = JNum n \<and> lo \<le> n \<and> n \<le> 64"
    using straverse_each [OF f(1), of "(k, lo)"] share_ok [of attrs k lo] by auto
  show "k \<in> {''pgp_keys'', ''recovery_pgp_keys''} \<Longrightarrow> dict_get attrs k = Some j \<Longrightarrow> \<exists>keys. j = JArr keys \<and> list_all (custody_key pg) keys"
    using straverse_each [OF f(2), of k] key_list_ok [of pg attrs k] by auto
  show "dict_get attrs ''root_token_pgp_key'' = Some j \<Longrightarrow> custody_key pg j"
    using root key_field_ok by auto
qed

lemma validate_initialize_ok:
  assumes "validate_initialize slug attrs = Inr data"
  shows "data = attrs \<and> dict_get attrs ''confirmation'' = Some (JStr (''INITIALIZE '' @ slug)) \<and>
    (\<exists>shamir sk tk kk other_sk other_tk other_kk shares threshold. share_keys shamir = (sk, tk, kk) \<and>
       share_keys (\<not> shamir) = (other_sk, other_tk, other_kk) \<and> dict_get attrs sk = Some (JNum shares) \<and>
       dict_get attrs tk = Some (JNum threshold) \<and> threshold \<le> shares \<and>
       (\<forall>keys. dict_get attrs kk = Some (JArr keys) \<longrightarrow> int (length keys) = shares) \<and>
       dict_get attrs other_sk = None \<and> dict_get attrs other_tk = None)"
proof -
  let ?shamir = "has_attr attrs ''secret_shares'' \<or> has_attr attrs ''secret_threshold''"
  obtain sk tk kk osk otk okk where keys: "share_keys ?shamir = (sk, tk, kk)" "share_keys (\<not> ?shamir) = (osk, otk, okk)"
    using prod_cases3 by metis
  have conf: "dict_get attrs ''confirmation'' = Some (JStr (''INITIALIZE '' @ slug))"
    and only: "?shamir \<noteq> (has_attr attrs ''recovery_shares'' \<or> has_attr attrs ''recovery_threshold'')"
    using assms by (auto simp: validate_initialize_def validate_confirmation_def sbind_def Let_def split: if_splits)
  obtain shares threshold where pair: "dict_get attrs sk = Some (JNum shares)" "dict_get attrs tk = Some (JNum threshold)"
    "threshold \<le> shares" "\<forall>ks. dict_get attrs kk = Some (JArr ks) \<longrightarrow> int (length ks) = shares" "data = attrs"
    using assms only keys(1) unfolding validate_initialize_def validate_confirmation_def sbind_def Let_def
    by (auto simp: keys(1) conf split: if_splits option.splits json.splits)
  have "dict_get attrs osk = None" "dict_get attrs otk = None"
    using keys(2) only by (auto simp: share_keys_def has_attr_def split: if_splits)
  with conf keys pair show ?thesis by blast
qed

lemma initialize_request_ok:
  assumes "initialize_request pg slug attrs = Inr data"
  shows "data = attrs \<and> custody_request pg slug attrs"
proof -
  obtain x where f: "initialize_fields pg attrs = Inr x" and v: "validate_initialize slug attrs = Inr data"
    using assms by (auto simp: initialize_request_def sbind_def split: sum.splits)
  note fields = initialize_fields_ok [OF f]
  from validate_initialize_ok [OF v] obtain shamir sk tk kk osk otk okk shares threshold where
      d: "data = attrs" "dict_get attrs ''confirmation'' = Some (JStr (''INITIALIZE '' @ slug))"
    and keys: "share_keys shamir = (sk, tk, kk)" "share_keys (\<not> shamir) = (osk, otk, okk)"
    and n: "dict_get attrs sk = Some (JNum shares)" "dict_get attrs tk = Some (JNum threshold)" "threshold \<le> shares"
    and len: "\<forall>ks. dict_get attrs kk = Some (JArr ks) \<longrightarrow> int (length ks) = shares"
    and other: "dict_get attrs osk = None" "dict_get attrs otk = None" by blast
  have "shares \<le> 64" "(if shamir then 1 else 0) \<le> threshold"
    using keys(1) fields(1) [OF _ n(1)] fields(1) [OF _ n(2)] by (auto simp: share_keys_def split: if_splits)
  moreover have "keys_for pg shares j" if "dict_get attrs kk = Some j" for j
    using keys(1) len fields(2) [OF _ that] that by (auto simp: share_keys_def keys_for_def split: if_splits)
  ultimately have "custody_split pg attrs shamir" using n other keys by (auto simp: custody_split_def)
  with d fields(3) show ?thesis by (auto simp: custody_request_def)
qed

text \<open>C35: No cluster is initialised on an unsound request. Either the endpoint refuses and nothing happened, no record and no call; or the
  operator typed the confirmation of this cluster, exactly one of the two share pairs is complete and within its bounds, every
  given key list has one key for each share, every key (the root token's too) is a whole verified OpenPGP entity that can encrypt, and
  what follows is the reviewed initialization with the request without its reason and confirmation.\<close>

theorem initialization_is_sound:
  "(\<exists>e. initialize_endpoint pg vs bk env pk attrs s = (Inl e, s)) \<or>
   (\<exists>c. get_cluster env pk ''initialize'' s = (Inr c, s) \<and> custody_request pg (clu_slug c) attrs \<and>
      initialize_endpoint pg vs bk env pk attrs s
        = initialize_view vs bk env pk (attr_text attrs ''reason'') (openbao_payload attrs) s)"
proof (cases "get_cluster env pk ''initialize'' s")
  case (Pair r s1)
  have s1: "s1 = s" using Pair by (auto simp: get_cluster_def gets_def bnd_def ret_def raise_def split: option.splits if_splits)
  show ?thesis
  proof (cases r)
    case (Inl e)
    with Pair s1 show ?thesis by (auto simp: initialize_endpoint_def bnd_def)
  next
    case (Inr c)
    show ?thesis
    proof (cases "initialize_request pg (clu_slug c) attrs")
      case (Inl e)
      with Pair s1 Inr show ?thesis by (auto simp: initialize_endpoint_def bnd_def lift_sum_def raise_def)
    next
      case request: (Inr data)
      with Pair s1 Inr initialize_request_ok [OF request] show ?thesis
        by (auto simp: initialize_endpoint_def bnd_def lift_sum_def ret_def)
    qed
  qed
qed

text \<open>A request that is accepted: one share, its key the bytes \<open>ABC\<close> of an entity of its own.\<close>

definition ex_openpgp :: "(string, unit, unit) openpgp" where
  "ex_openpgp = \<lparr>pg_parse = Some, pg_bytes = (\<lambda>k. k), pg_verify_bindings = (\<lambda>_. True), pg_direct_signatures = (\<lambda>_. [()]),
     pg_users = (\<lambda>_. []), pg_user_attributes = (\<lambda>_. []), pg_primary_encrypts = (\<lambda>_. True), pg_subkeys = (\<lambda>_. []),
     pg_subkey_encrypts = (\<lambda>_. False), pg_subkey_signatures = (\<lambda>_. []), pg_flags = (\<lambda>_. (True, False)),
     pg_encrypt = (\<lambda>_ p. Some p)\<rparr>"

definition ex_custody :: payload where
  "ex_custody = [(''reason'', JStr ''first start''), (''confirmation'', JStr ''INITIALIZE east''), (''secret_shares'', JNum 1),
     (''secret_threshold'', JNum 1), (''pgp_keys'', JArr [JStr ''QUJD''])]"

lemma ex_custody_accepted: "initialize_request ex_openpgp ''east'' ex_custody = Inr ex_custody"
  by code_simp

lemma ex_custody_refused:
  "isl (initialize_request ex_openpgp ''east'' (AList.update ''secret_shares'' (JNum 2) ex_custody))"
  by code_simp

section \<open>What the automation endpoint answers\<close>

lemma refuse_denies:
  assumes "refuse env au u ps a rc s = (r, s')"
  shows "r = Inl AutomationResolutionDenied"
proof -
  obtain x s1 where "record_automation_access env au u ps a None rc False s = (x, s1)" by fastforce
  with assms show ?thesis by (cases x) (auto simp: refuse_def bnd_def on_exn_def raise_def ret_def)
qed

lemma resolve_denied:
  assumes run: "resolve_automation env au u ps s = (Inl e, s')"
  shows "e = AutomationResolutionDenied"
proof -
  have reserved: "e = AutomationResolutionDenied" if "resolve_reserved env au u ps a s1 = (Inl e, s')" for a s1
  proof -
    obtain x s2 where r: "reserve env au a s1 = (x, s2)" by fastforce
    show ?thesis
    proof (cases x)
      case (Inl f)
      with that r show ?thesis by (auto simp: resolve_reserved_def dest: refuse_denies)
    next
      case (Inr rc)
      obtain y s3 where "deliver env au u ps rc s2 = (y, s3)" by fastforce
      with that r Inr show ?thesis by (cases y) (auto simp: resolve_reserved_def on_exn_def dest: refuse_denies)
    qed
  qed
  obtain x s1 where a: "authorize_dispatch au u ps s = (x, s1)" by fastforce
  show ?thesis
  proof (cases x)
    case (Inl f)
    with run a show ?thesis by (auto simp: resolve_automation_def dest: refuse_denies split: if_splits)
  next
    case (Inr g)
    with run a reserved show ?thesis by (auto simp: resolve_automation_def split: if_splits)
  qed
qed

definition bounded_resolution :: "(json \<Rightarrow> string) \<Rightarrow> json \<Rightarrow> automation_params \<Rightarrow> bool" where
  "bounded_resolution dumps body ps =
     (length (dumps body) \<le> 16384 \<and>
      (\<exists>d. body = JObj d \<and> set (map fst d) \<subseteq> set AUTOMATION_FIELDS \<and> dict_get d ''execution_id'' = Some (JNum (int (ap_execution_id ps)))
         \<and> dict_get d ''dispatch_lease'' = Some (JObj (ap_dispatch_lease ps))) \<and>
      1 \<le> ap_execution_id ps \<and> ap_execution_id ps \<le> 9223372036854775807 \<and>
      list_all (one_of alnum ''_.-'') (ap_step_id ps) \<and> length (ap_step_id ps) \<le> 100 \<and>
      word_re alpha (one_of alnum ''_.-'') 99 (ap_reference_name ps))"

lemma automation_request_ok:
  assumes "automation_request dumps body = Inr ps"
  shows "bounded_resolution dumps body ps"
proof -
  obtain d version execution where d: "body = JObj d" "set (map fst d) \<subseteq> set AUTOMATION_FIELDS"
      "dict_get d ''execution_id'' = Some (JNum execution)" "dict_get d ''schema_version'' = Some (JNum version)"
      "length (dumps body) \<le> 16384"
    using assms unfolding automation_request_def by (auto split: json.splits if_splits option.splits)
  obtain step reference lease where f: "1 \<le> execution" "execution \<le> 9223372036854775807"
      "step_field (dict_get d ''step_id'') = Inr step" "reference_field (dict_get d ''reference_name'') = Inr reference"
      "lease_field (dict_get d ''dispatch_lease'') = Inr lease"
    and ps: "ps = \<lparr>ap_execution_id = nat execution, ap_step_id = step, ap_reference_name = reference, ap_dispatch_lease = lease\<rparr>"
    using assms d unfolding automation_request_def by (auto simp: sbind_def srequire_def split: sum.splits if_splits)
  have "list_all (one_of alnum ''_.-'') step" "length step \<le> 100"
    using f(3) by (auto simp: step_field_def split: option.splits if_splits)
  moreover have "word_re alpha (one_of alnum ''_.-'') 99 reference"
    using f(4) by (auto simp: reference_field_def split: option.splits if_splits)
  moreover have "dict_get d ''dispatch_lease'' = Some (JObj lease)"
    using f(5) by (auto simp: lease_field_def split: option.splits json.splits)
  ultimately show ?thesis using d f ps by (auto simp: bounded_resolution_def)
qed

text \<open>C24: The automation endpoint fails closed. It never raises: an insecure transport is a 403 and a request outside the bounds a 400, both with
  no effect at all; a resolution, of a bounded request with no field but the five, either is delivered as a 200 or ends in the one
  value-free 403.\<close>

theorem automation_endpoint_answers:
  "(secure = False \<and> resolve_automation_view env ap au u secure body s = (Inr (Refused 403 ''A secure transport is required.''), s)) \<or>
   (\<exists>e. automation_request (api_dumps ap) body = Inl e \<and> secure \<and>
      resolve_automation_view env ap au u secure body s = (Inr (Refused 400 ''Invalid automation resolution request.''), s)) \<or>
   (\<exists>ps s'. automation_request (api_dumps ap) body = Inr ps \<and> secure \<and> bounded_resolution (api_dumps ap) body ps \<and>
      ((\<exists>r. resolve_automation env au u ps s = (Inr r, s') \<and>
          resolve_automation_view env ap au u secure body s = (Inr (Answer 200 r), s')) \<or>
       resolve_automation env au u ps s = (Inl AutomationResolutionDenied, s') \<and>
          resolve_automation_view env ap au u secure body s
            = (Inr (Refused 403 ''Automation credential resolution was refused.''), s')))"
proof (cases "secure")
  case True
  show ?thesis
  proof (cases "automation_request (api_dumps ap) body")
    case (Inl e)
    with True show ?thesis by (simp add: resolve_automation_view_def ret_def)
  next
    case (Inr ps)
    obtain x s' where run: "resolve_automation env au u ps s = (x, s')" by fastforce
    with True Inr automation_request_ok [OF Inr] show ?thesis
      by (cases x) (auto simp: resolve_automation_view_def on_exn_def bnd_def ret_def dest: resolve_denied)
  qed
qed (simp add: resolve_automation_view_def ret_def)

end
