(* ===== verification/UI_Parity.thy ===== *)
theory UI_Parity
  imports Admin_Base
begin

text \<open>
  The manifest of interface parity (\<^verbatim>\<open>administration/parity.py\<close>). Reading the file and decoding it are the caller's; \<open>evidence_file\<close>
  says whether a relative path resolves to a file inside the repository.
\<close>

definition BASELINE_VERSION :: string where "BASELINE_VERSION = ''2.6.2''"

definition REQUIRED_FIELDS :: "string list" where
  "REQUIRED_FIELDS = [''id'', ''upstream_routes'', ''capability'', ''owner_issue'', ''status'']"

definition COMPLETE_FIELDS :: "string list" where
  "COMPLETE_FIELDS = REQUIRED_FIELDS @ [''equivalence'', ''evidence'']"

definition EVIDENCE_FIELDS :: "string list" where
  "EVIDENCE_FIELDS = [''implementation'', ''ui'', ''tests'']"

definition TRANSPORTS :: "string list" where "TRANSPORTS = [''direct'', ''broker'']"

definition ALLOWED_STATUSES :: "string list" where
  "ALLOWED_STATUSES = [''foundation'', ''planned'', ''complete'', ''capability-gated'']"

abbreviation parity_error :: exn where "parity_error \<equiv> PythonError ''ValueError''"

definition has_keys :: "(string \<times> json) list \<Rightarrow> string list \<Rightarrow> bool" where
  "has_keys d ks = (set (map fst d) = set ks)"

definition text_of :: "json \<Rightarrow> string option" where
  "text_of j = (case j of JStr s \<Rightarrow> Some s | _ \<Rightarrow> None)"

definition validate_family_id :: "json \<Rightarrow> string list \<Rightarrow> exn + string list" where
  "validate_family_id j seen =
     (case text_of j of
        None \<Rightarrow> Inl parity_error
      | Some s \<Rightarrow> if s = [] \<or> s \<in> set seen then Inl parity_error else Inr (s # seen))"

definition validate_routes :: "json \<Rightarrow> exn + string list" where
  "validate_routes j =
     (case j of
        JArr xs \<Rightarrow>
          (let rs = List.map_filter text_of xs
           in if xs = [] \<or> length rs \<noteq> length xs \<or> [] \<in> set rs \<or> \<not> distinct rs then Inl parity_error else Inr rs)
      | _ \<Rightarrow> Inl parity_error)"

definition validate_evidence_path :: "(string \<Rightarrow> bool) \<Rightarrow> json \<Rightarrow> exn + unit" where
  "validate_evidence_path evidence_file j =
     (case text_of j of
        None \<Rightarrow> Inl parity_error
      | Some s \<Rightarrow> if s = [] \<or> prefix ''/'' s \<or> \<not> evidence_file s then Inl parity_error else Inr ())"

fun each :: "('a \<Rightarrow> exn + unit) \<Rightarrow> 'a list \<Rightarrow> exn + unit" where
  "each f [] = Inr ()"
| "each f (x # xs) = (case f x of Inl e \<Rightarrow> Inl e | Inr _ \<Rightarrow> each f xs)"

definition validate_evidence_group :: "(string \<Rightarrow> bool) \<Rightarrow> json \<Rightarrow> exn + unit" where
  "validate_evidence_group evidence_file j =
     (case j of
        JArr xs \<Rightarrow> if xs = [] then Inl parity_error else each (validate_evidence_path evidence_file) xs
      | _ \<Rightarrow> Inl parity_error)"

definition route_mapping :: "string list \<Rightarrow> json option \<Rightarrow> exn + (string \<times> json) list" where
  "route_mapping routes j =
     (case j of Some (JObj d) \<Rightarrow> if has_keys d routes then Inr d else Inl parity_error | _ \<Rightarrow> Inl parity_error)"

text \<open>The groups of one route, or of one transport entry.\<close>

definition validate_groups :: "(string \<Rightarrow> bool) \<Rightarrow> string list \<Rightarrow> json \<Rightarrow> exn + unit" where
  "validate_groups evidence_file ks j =
     (case j of
        JObj d \<Rightarrow> if has_keys d ks then each (validate_evidence_group evidence_file) (map snd d) else Inl parity_error
      | _ \<Rightarrow> Inl parity_error)"

definition validate_evidence :: "(string \<Rightarrow> bool) \<Rightarrow> string list \<Rightarrow> (string \<times> json) list \<Rightarrow> exn + unit" where
  "validate_evidence evidence_file routes family =
     (case route_mapping routes (dict_get family ''equivalence'') of
        Inl e \<Rightarrow> Inl e
      | Inr equivalence \<Rightarrow>
          if \<not> list_all (\<lambda>(_, j). case text_of j of None \<Rightarrow> False | Some s \<Rightarrow> strip s \<noteq> []) equivalence then Inl parity_error
          else case route_mapping routes (dict_get family ''evidence'') of
            Inl e \<Rightarrow> Inl e
          | Inr evidence \<Rightarrow> each (validate_groups evidence_file EVIDENCE_FIELDS) (map snd evidence))"

definition status_ok :: "json option \<Rightarrow> exn + unit" where
  "status_ok j =
     (case j of
        Some (JArr _) \<Rightarrow> Inl (PythonError ''TypeError'')
      | Some (JObj _) \<Rightarrow> Inl (PythonError ''TypeError'')
      | Some (JStr s) \<Rightarrow> if s \<in> set ALLOWED_STATUSES then Inr () else Inl parity_error
      | _ \<Rightarrow> Inl parity_error)"

definition owner_ok :: "json option \<Rightarrow> bool" where
  "owner_ok j = (case j of Some (JNum n) \<Rightarrow> 63 \<le> n | _ \<Rightarrow> False)"

definition is_complete :: "(string \<times> json) list \<Rightarrow> bool" where
  "is_complete family = (dict_get family ''status'' = Some (JStr ''complete''))"

definition validate_family :: "(string \<Rightarrow> bool) \<Rightarrow> json \<Rightarrow> string list \<Rightarrow> exn + string list" where
  "validate_family evidence_file j seen =
     (case j of
        JObj family \<Rightarrow>
          if \<not> has_keys family (if is_complete family then COMPLETE_FIELDS else REQUIRED_FIELDS) then Inl parity_error
          else case validate_family_id (case dict_get family ''id'' of None \<Rightarrow> JNull | Some x \<Rightarrow> x) seen of
            Inl e \<Rightarrow> Inl e
          | Inr seen' \<Rightarrow>
              (case validate_routes (case dict_get family ''upstream_routes'' of None \<Rightarrow> JNull | Some x \<Rightarrow> x) of
                 Inl e \<Rightarrow> Inl e
               | Inr routes \<Rightarrow>
                   (case status_ok (dict_get family ''status'') of
                      Inl e \<Rightarrow> Inl e
                    | Inr _ \<Rightarrow>
                        if \<not> owner_ok (dict_get family ''owner_issue'') then Inl parity_error
                        else if is_complete family
                        then (case validate_evidence evidence_file routes family of Inl e \<Rightarrow> Inl e | Inr _ \<Rightarrow> Inr seen')
                        else Inr seen'))
      | _ \<Rightarrow> Inl parity_error)"

fun validate_families :: "(string \<Rightarrow> bool) \<Rightarrow> json list \<Rightarrow> string list \<Rightarrow> exn + string list" where
  "validate_families evidence_file [] seen = Inr seen"
| "validate_families evidence_file (j # js) seen =
     (case validate_family evidence_file j seen of Inl e \<Rightarrow> Inl e | Inr seen' \<Rightarrow> validate_families evidence_file js seen')"

definition complete_ids :: "json list \<Rightarrow> string list" where
  "complete_ids families =
     List.map_filter (\<lambda>j. case j of
        JObj f \<Rightarrow> if is_complete f then Option.bind (dict_get f ''id'') text_of else None | _ \<Rightarrow> None) families"

definition validate_transport_evidence :: "(string \<Rightarrow> bool) \<Rightarrow> (string \<times> json) list \<Rightarrow> string list \<Rightarrow> exn + unit" where
  "validate_transport_evidence evidence_file manifest complete =
     (case dict_get manifest ''transport_evidence'' of
        Some (JObj evidence) \<Rightarrow>
          if has_keys evidence complete then each (validate_groups evidence_file TRANSPORTS) (map snd evidence) else Inl parity_error
      | _ \<Rightarrow> Inl parity_error)"

definition load_parity_manifest :: "(string \<Rightarrow> bool) \<Rightarrow> json \<Rightarrow> exn + json" where
  "load_parity_manifest evidence_file manifest =
     (case manifest of
        JObj d \<Rightarrow>
          if dict_get d ''baseline'' \<noteq> Some (JStr BASELINE_VERSION) then Inl parity_error
          else (case dict_get d ''families'' of
            Some (JArr families) \<Rightarrow>
              if families = [] then Inl parity_error
              else (case validate_families evidence_file families [] of
                Inl e \<Rightarrow> Inl e
              | Inr _ \<Rightarrow>
                  (case validate_transport_evidence evidence_file d (complete_ids families) of
                     Inl e \<Rightarrow> Inl e | Inr _ \<Rightarrow> Inr manifest))
          | _ \<Rightarrow> Inl parity_error)
      | _ \<Rightarrow> Inl parity_error)"

end
