(* ===== verification/Backend_Invariants.thy ===== *)
theory Backend_Invariants
  imports KV2_Store
begin

text \<open>
  What every operation of the backends keeps of the process they run in, and the properties of the
  backend components: the invariant of private files and verified sessions, the refinement of the
  abstract store, the translation of errors, the life of cached tokens and the version list.
\<close>


section \<open>The invariant of the process state\<close>

text \<open>Every private file on disk has mode 0600 and is registered for removal unless the system refused to
  remove it, and the broker pool holds no session whose peer is not verified.\<close>

definition world_ok :: "'w backend_world \<Rightarrow> bool" where
  "world_ok x = (files_accounted (bw_files x) \<and> list_all (\<lambda>(k, _). sk_tls_verify k) (bw_broker_sessions x))"

definition keeps_world :: "'w backend_world \<Rightarrow> 'w backend_world \<Rightarrow> bool" where
  "keeps_world x x' = ((world_ok x \<longrightarrow> world_ok x') \<and> files_step (bw_files x) (bw_files x'))"

interpretation world: state_frame keeps_world
  by unfold_locales (auto simp: keeps_world_def intro: files_step_trans)

lemma world_framed_with_files:
  assumes "\<And>fs. files_step fs (snd (f fs))"
  shows "framed keeps_world (with_files f)"
proof (rule framedI)
  fix x r x' assume "with_files f x = (r, x')"
  then have "x' = x\<lparr>bw_files := snd (f (bw_files x))\<rparr>" by (auto simp: with_files_def split: prod.splits)
  then show "keeps_world x x'" using assms by (auto simp: keeps_world_def world_ok_def files_step_def)
qed

lemma world_framed_files:
  "framed keeps_world (with_files (materialize_private_pem outcome v suf))" "framed keeps_world (close_files ps)"
  unfolding close_files_def by (intro world_framed_with_files materialize_step remove_step)+

lemma world_framed_state:
  "framed keeps_world (remote m)" "framed keeps_world (set_object b ob)" "framed keeps_world (translated k)"
  "framed keeps_world (modify (cache_set now key tok ttl))" "framed keeps_world (modify (cache_delete key))"
  "framed keeps_world (modify (\<lambda>x. x\<lparr>bw_sessions := g x\<rparr>))"
  "sk_tls_verify key' \<Longrightarrow> framed keeps_world (modify (\<lambda>x. x\<lparr>bw_broker_sessions := bw_broker_sessions x @ [(key', c)]\<rparr>))"
  by (auto simp: framed_def keeps_world_def world_ok_def remote_def set_object_def translated_def modify_def cache_set_def
      cache_delete_def list_all_iff split: prod.splits sum.splits)

lemma world_framed_drop:
  assumes "\<And>x. set (h x) \<subseteq> set (bw_broker_sessions x)"
  shows "framed keeps_world (modify (\<lambda>x. x\<lparr>bw_broker_sessions := h x\<rparr>))"
  using assms by (fastforce simp: framed_def keeps_world_def world_ok_def modify_def list_all_iff)

lemma world_framed_object: "framed keeps_world (get_object b)"
  unfolding get_object_def by (intro world.framed_bnd world.framed_basic)

lemmas world_framed = world.framed_basic world.framed_bnd world.framed_on_exn world.framed_for_each world_framed_files
  world_framed_state world_framed_object framed_cases

lemma world_framed_sum: "(\<And>e. framed R (f e)) \<Longrightarrow> (\<And>r. framed R (g r)) \<Longrightarrow> framed R (case z of Inl e \<Rightarrow> f e | Inr r \<Rightarrow> g r)"
  by (cases z) simp_all

lemma world_framed_bao_session: "framed keeps_world (bao_get_session hv cx ob)"
  unfolding bao_get_session_def by (intro world_framed)

lemma world_framed_build: "framed keeps_world (build_client hv cx ob tok)"
  unfolding build_client_def by (intro world_framed world_framed_bao_session)

lemma world_framed_login: "framed keeps_world (login hv cx ctx ob cl)"
proof -
  have fin: "framed keeps_world (case lr_client_token response of
      Some (t # ts) \<Rightarrow> ret (t # ts, l response) | _ \<Rightarrow> raise e)" for response l e
    by (auto split: option.splits list.splits intro: world.framed_basic)
  show ?thesis
    unfolding login_def Let_def
    by (cases "eng_auth_method (bo_engine ob)") (simp_all, (intro world_framed fin world_framed_sum)+)
qed

lemma world_framed_get_client: "framed keeps_world (get_client hv cx ctx b)"
proof -
  have "framed keeps_world (obtain_client hv cx ctx b ob)" for ob
    unfolding obtain_client_def Let_def
    by (intro world_framed world_framed_build world_framed_login framed_case_list)
  then show ?thesis
    unfolding get_client_def Let_def by (intro world_framed)
qed

lemma world_framed_bao:
  "framed keeps_world (bao_read hv cx ctx b p v)" "framed keeps_world (bao_write hv cx ctx b p d cas)"
  "framed keeps_world (bao_delete hv cx ctx b p vs)" "framed keeps_world (bao_list_versions hv cx ctx b p)"
  "framed keeps_world (bao_read_metadata hv cx ctx b p)" "framed keeps_world (bao_set_metadata hv cx ctx b p m)"
  "framed keeps_world (invalidate_token b)" "framed keeps_world (close_auth_material_sessions i r)"
  unfolding bao_read_def bao_write_def bao_delete_def bao_list_versions_def bao_read_metadata_def bao_set_metadata_def
    invalidate_token_def close_auth_material_sessions_def require_kv2_def Let_def
  by (intro world_framed world_framed_get_client)+

lemma world_framed_health:
  "framed keeps_world (bao_health hv cx b)" "framed keeps_world (vault_health hv cx b)"
proof -
  have probe: "framed keeps_world (\<lambda>x. case remote m x of (Inl e, x') \<Rightarrow> (Inr (f e), x') | (Inr p, x') \<Rightarrow> (Inr (g p), x'))"
    for m :: "('w, hvac_exception, health_payload) sem" and f g
    using world_framed_state(1) [of m] by (auto simp: framed_def split: prod.splits sum.splits) (metis snd_conv)+
  have raw: "framed keeps_world (bao_health_raw hv cx b)"
    unfolding bao_health_raw_def by (intro world_framed world_framed_build probe)
  show "framed keeps_world (bao_health hv cx b)" "framed keeps_world (vault_health hv cx b)"
    unfolding bao_health_def vault_health_def by (intro world_framed raw)+
qed

lemma world_framed_broker_session: "framed keeps_world (broker_get_session rq cx ctx b)"
proof -
  have cert: "framed keeps_world (client_certificate rq cx ob)" for ob
    unfolding client_certificate_def by (intro world_framed)
  have key: "framed keeps_world (modify (\<lambda>x. x\<lparr>bw_broker_sessions := bw_broker_sessions x @ [(broker_session_key ob, c)]\<rparr>))"
    if "\<not> (eng_ca_cert_path (bo_engine ob) = [] \<and> \<not> eng_tls_verify (bo_engine ob))" for ob c
    using that by (intro world_framed_state) (simp add: broker_session_key_def)
  show ?thesis
    unfolding broker_get_session_def Let_def
    by (intro world_framed cert key) simp_all
qed

lemma world_framed_broker_post: "framed keeps_world (broker_post rq cx ctx b ep body)"
proof -
  have call: "framed keeps_world (\<lambda>x. case remote m x of (Inl e, x') \<Rightarrow> (Inl (f e), x') | (Inr p, x') \<Rightarrow> (g p, x'))"
    for m :: "('w, 'e, 'p) sem" and f and g :: "'p \<Rightarrow> exn + 'q"
    using world_framed_state(1) [of m] by (auto simp: framed_def split: prod.splits sum.splits) (metis snd_conv)+
  show ?thesis
    unfolding broker_post_def by (intro world_framed world_framed_broker_session call)
qed

lemma world_framed_field: "framed keeps_world (broker_field j n)"
  unfolding broker_field_def by (cases j) (simp_all, (intro world_framed)+)

lemma world_framed_broker:
  "framed keeps_world (broker_read rq cx ctx b p v)" "framed keeps_world (broker_write rq cx ctx b p d cas)"
  "framed keeps_world (broker_delete rq cx ctx b p vs)" "framed keeps_world (broker_list_versions rq cx ctx b p)"
  "framed keeps_world (broker_read_metadata rq cx ctx b p)" "framed keeps_world (broker_set_metadata rq cx ctx b p m)"
  "framed keeps_world (broker_invalidate_token b)" "framed keeps_world (broker_close_auth_material_sessions i r)"
proof -
  have arr: "framed keeps_world (case j of JArr js \<Rightarrow> f js | _ \<Rightarrow> raise e)" if "\<And>js. framed keeps_world (f js)" for j f e
    using that by (cases j) (simp_all add: world.framed_basic)
  have kv2: "framed keeps_world (broker_require_kv2 op b)" for op
    unfolding broker_require_kv2_def by (intro world_framed)
  show "framed keeps_world (broker_read rq cx ctx b p v)" "framed keeps_world (broker_write rq cx ctx b p d cas)"
    "framed keeps_world (broker_delete rq cx ctx b p vs)" "framed keeps_world (broker_list_versions rq cx ctx b p)"
    "framed keeps_world (broker_read_metadata rq cx ctx b p)" "framed keeps_world (broker_set_metadata rq cx ctx b p m)"
    unfolding broker_read_def broker_write_def broker_delete_def broker_list_versions_def broker_read_metadata_def
      broker_set_metadata_def
    by (intro world_framed world_framed_broker_post world_framed_field kv2 arr)+
  have drop: "set (AList.delete k al) \<subseteq> set al" for k and al :: "(session_key \<times> string list) list"
    by (induction al) auto
  show "framed keeps_world (broker_invalidate_token b)" "framed keeps_world (broker_close_auth_material_sessions i r)"
    unfolding broker_invalidate_token_def broker_close_auth_material_sessions_def Let_def
    by (intro world_framed world_framed_drop drop; auto)+
qed


lemma world_framed_broker_health: "framed keeps_world (broker_health rq cx ctx b)"
proof (rule framedI)
  fix x r x'
  assume run: "broker_health rq cx ctx b x = (r, x')"
  obtain q x1 where s: "broker_get_session rq cx ctx b x = (q, x1)" by fastforce
  have k1: "keeps_world x x1" by (rule framedD [OF world_framed_broker_session s])
  have probe: "framed keeps_world (bnd (get_object b) (\<lambda>ob x2. case remote (m ob) x2 of
      (Inl _, x3) \<Rightarrow> (Inr e, x3) | (Inr response, x3) \<Rightarrow> (Inr (g response), x3)))"
    for m :: "backend_object \<Rightarrow> ('w, 'e, http_response) sem" and e and g :: "http_response \<Rightarrow> 'q"
  proof (intro world_framed)
    fix ob
    show "framed keeps_world (\<lambda>x2. case remote (m ob) x2 of
      (Inl _, x3) \<Rightarrow> (Inr e, x3) | (Inr response, x3) \<Rightarrow> (Inr (g response), x3))"
      using world_framed_state(1) [of "m ob"] by (auto simp: framed_def split: prod.splits sum.splits) (metis snd_conv)+
  qed
  show "keeps_world x x'"
  proof (cases q)
    case (Inl e)
    with run s have "x' = x1" by (auto simp: broker_health_def split: exn.splits if_splits)
    with k1 show ?thesis by simp
  next
    case (Inr key)
    with run s have "keeps_world x1 x'"
      by (intro framedD [OF probe]) (simp add: broker_health_def)
    with k1 show ?thesis by (rule world.frame_trans)
  qed
qed

text \<open>What any of the plugin's operations on a backend keeps: its own steps and the pools' clean-up.\<close>

definition after_run :: "('s, 'e, 'a) sem \<Rightarrow> 's \<Rightarrow> 's" where
  "after_run m x = snd (m x)"

definition backend_operations ::
  "'w hvac \<Rightarrow> 'w requests \<Rightarrow> 'k crypto \<Rightarrow> backend_ctx \<Rightarrow> nat \<Rightarrow> string \<Rightarrow> nat option \<Rightarrow> payload \<Rightarrow> nat list option
   \<Rightarrow> (string \<times> string) list \<Rightarrow> nat \<Rightarrow> nat \<Rightarrow> ('w backend_world \<Rightarrow> 'w backend_world) set" where
  "backend_operations hv rq cx ctx b p v d vs m i r =
     (let bk = plugin_backends hv rq cx in
      {after_run (b_read bk ctx b p v), after_run (b_write bk ctx b p d v), after_run (b_delete bk ctx b p vs),
       after_run (b_list_versions bk ctx b p), after_run (b_read_metadata bk ctx b p), after_run (b_set_metadata bk ctx b p m),
       after_run (b_health bk ctx b), after_run (invalidate_token b), after_run (broker_invalidate_token b),
       after_run (close_auth_material_sessions i r), after_run (broker_close_auth_material_sessions i r)})"

text \<open>C12: Every backend operation, whatever the server answers and however the operation or the file system fails, keeps
  the invariant of the process. Each private file on disk has mode 0600, and it is registered for removal unless the
  operating system refused to remove it; the broker pool holds no session to a peer whose certificate is not
  verified. The exit handler keeps that too: when it returns, only files whose removal was refused are left, and where
  the system refuses no removal it does return and leaves no file. (A refused removal does leave the file behind,
  no longer registered, and ends the handler early.)\<close>

theorem process_state_invariant:
  fixes x :: "'w backend_world" and cx :: "'k crypto"
  assumes ok: "world_ok x" and op: "f \<in> backend_operations hv rq cx ctx b p v d vs m i r"
    and exit: "cleanup_private_files (bw_files (f x)) = (left, fs)"
  shows "world_ok (f x) \<and> files_accounted fs \<and>
    (left = Inr () \<longrightarrow> fst ` set (pf_files fs) \<subseteq> set (pf_refused fs)) \<and>
    ((\<forall>n. \<not> pf_unlink_fails (bw_files x) n) \<and> pf_refused (bw_files x) = [] \<longrightarrow> left = Inr () \<and> pf_files fs = [])"
proof -
  have by_class: "framed keeps_world (by_class b n k)" if "framed keeps_world n" "framed keeps_world k"
    for n k :: "('w backend_world, exn, 'z) sem"
    using that unfolding by_class_def by (intro world_framed)
  have "framed keeps_world (case bo_class ob of BACKEND_OPENBAO \<Rightarrow> bao_health hv cx b
         | BACKEND_VAULT \<Rightarrow> vault_health hv cx b | BACKEND_BROKER \<Rightarrow> broker_health rq cx ctx b)" for ob
    using world_framed_health world_framed_broker_health by (cases "bo_class ob") auto
  then have health: "framed keeps_world (bnd (get_object b) (\<lambda>ob. case bo_class ob of BACKEND_OPENBAO \<Rightarrow> bao_health hv cx b
         | BACKEND_VAULT \<Rightarrow> vault_health hv cx b | BACKEND_BROKER \<Rightarrow> broker_health rq cx ctx b))"
    by (intro world_framed)
  have fr: "keeps_world x (after_run k x)" if "framed keeps_world k" for k :: "('w backend_world, exn, 'z) sem"
    using that by (simp add: framed_def after_run_def)
  have step: "keeps_world x (f x)"
    using op unfolding backend_operations_def Let_def
    by (auto intro!: fr health by_class world_framed_bao world_framed_broker simp: plugin_backends_def)
  then have wf: "world_ok (f x)" and files: "files_step (bw_files x) (bw_files (f x))"
    using ok by (simp_all add: keeps_world_def)
  have acc: "files_accounted (bw_files (f x))" using wf by (simp add: world_ok_def)
  have "files_step (bw_files (f x)) fs"
    using remove_step [of "bw_files (f x)" "pf_registered (bw_files (f x))"] exit by (simp add: cleanup_private_files_def)
  with files have "files_step (bw_files x) fs" by (rule files_step_trans)
  then have "(\<forall>n. \<not> pf_unlink_fails (bw_files x) n) \<Longrightarrow> pf_refused fs = pf_refused (bw_files x)"
    by (simp add: files_step_def)
  then show ?thesis
    using wf cleanup_ends [OF acc exit] by auto
qed


text \<open>An environment for the examples: nothing cached, no session, an unreachable broker.\<close>

definition empty_world :: "mem_server backend_world" where
  "empty_world = \<lparr>bw_files = \<lparr>pf_files = [], pf_registered = [], pf_counter = 0, pf_unlink_fails = (\<lambda>_. False),
     pf_unlinks = 0, pf_refused = []\<rparr>, bw_cache = [], bw_sessions = [],
     bw_broker_sessions = [], bw_objects = [], bw_next_object = 0, bw_remote = []\<rparr>"

definition no_broker :: "mem_server requests" where
  "no_broker = \<lparr>rq_installed = True, rq_tmp_outcome = (\<lambda>_. TmpWritten), rq_post = (\<lambda>_ _ _. raise ''refused''), rq_get = (\<lambda>_ _. raise ''refused'')\<rparr>"

text \<open>An engine with certificate authentication on a full disk: its certificate can be written, its key
  cannot, and the first removal, that of the half-written key, is refused.\<close>

definition full_disk :: "mem_server hvac" where
  "full_disk = (reference_hvac 10)\<lparr>hv_tmp_outcome := (\<lambda>v. if v = ''key'' then TmpWriteFailed 2 else TmpWritten)\<rparr>"

definition plain_crypto :: "unit crypto" where
  "plain_crypto = \<lparr>cx_derive = (\<lambda>_. ()), cx_encrypt = (\<lambda>_ v. v), cx_decrypt = (\<lambda>_ v. Some v), cx_secret_key = Some ''key''\<rparr>"

definition cert_object :: backend_object where
  "cert_object = \<lparr>bo_class = BACKEND_OPENBAO,
     bo_engine = \<lparr>eng_pk = 1, eng_name = ''prod'', eng_slug = ''prod'', eng_backend = BACKEND_OPENBAO,
       eng_api_url = ''https://bao:8200'', eng_namespace = [], eng_kv_mount = ''secret'', eng_kv_version = 2,
       eng_auth_method = METHOD_CERT, eng_tls_verify = True, eng_ca_cert_path = [], eng_is_default = True,
       eng_status = STATUS_UNKNOWN, eng_status_message = [], eng_last_checked = None\<rparr>,
     bo_auth = Some (example_identity\<lparr>am_client_cert_ciphertext := ''v1:cert'', am_client_key_ciphertext := ''v1:key''\<rparr>),
     bo_client = None, bo_session = None\<rparr>"

definition cert_world :: "mem_server backend_world" where
  "cert_world = empty_world\<lparr>bw_files := (bw_files empty_world)\<lparr>pf_unlink_fails := (\<lambda>n. n = 0)\<rparr>, bw_objects := [(0, cert_object)]\<rparr>"

definition cert_ctx :: backend_ctx where
  "cert_ctx = \<lparr>bc_auth = [(1, the (bo_auth cert_object))], bc_token_cache_ttl = None, bc_now = 0\<rparr>"

definition cert_run :: "mem_server backend_world" where
  "cert_run = after_run (b_read (plugin_backends full_disk no_broker plain_crypto) cert_ctx 0 ''app'' None) cert_world"

text \<open>The half-written key is left on disk, in nobody's register; the certificate is removed.\<close>

theorem process_state_invariant_witness:
  "pf_files (bw_files cert_run) = [(''/tmp/netbox-openbao-1.key'', 384, ''ke'')] \<and> pf_registered (bw_files cert_run) = [] \<and>
   world_ok cert_run \<and> files_accounted (snd (cleanup_private_files (bw_files cert_run)))"
proof -
  have "world_ok cert_world" by (simp add: world_ok_def cert_world_def empty_world_def files_accounted_def)
  moreover have "after_run (b_read (plugin_backends full_disk no_broker plain_crypto) cert_ctx 0 ''app'' None)
      \<in> backend_operations full_disk no_broker plain_crypto cert_ctx 0 ''app'' None [] None [] 0 0"
    by (simp add: backend_operations_def Let_def)
  ultimately have "world_ok cert_run \<and> files_accounted (snd (cleanup_private_files (bw_files cert_run)))"
    unfolding cert_run_def by (cases "cleanup_private_files (bw_files cert_run)")
      (use process_state_invariant in \<open>force simp: cert_run_def\<close>)
  moreover have "digits (Suc 0) = ''1''" by code_simp
  then have "pf_files (bw_files cert_run) = [(''/tmp/netbox-openbao-1.key'', 384, ''ke'')] \<and> pf_registered (bw_files cert_run) = []"
    by (simp add: cert_run_def after_run_def plugin_backends_def by_class_def bao_read_def get_client_def obtain_client_def
        build_client_def bao_get_session_def bao_session_key_def bnd_def get_object_def gets_def get_or_def set_object_def
        modify_def cert_world_def empty_world_def cert_object_def cert_ctx_def row_def put_row_def refresh_auth_material_def
        cache_get_def bao_cache_key_def example_identity_def full_disk_def reference_hvac_def required_material_def
        configured_def get_secret_def plain_crypto_def lift_sum_def with_files_def close_files_def on_exn_def raise_def
        ret_def materialize_private_pem_def unlink_file_def tmp_path_def Let_def
        is_configured_def AUTH_MATERIAL_FIELDS_def decrypt_def ciphertext_of_def fernet_def CIPHERTEXT_PREFIX_def)
  ultimately show ?thesis by blast
qed

text \<open>C11: The OpenBao backend implements the abstract versioned store. On the reference server of KV version 2, the plugin's
  operations on the engines it can address satisfy every law of the contract the services rely on: what a read
  returns, how a write numbers its versions and honours check-and-set, that a failed write changed nothing or
  added one version, what a deletion removes, and that no operation touches another path.\<close>

theorem backend_refines_store:
  "secret_store (plugin_backends (reference_hvac keep) rq cx) engine_target bao_loc (\<lambda>x. mem_kv (bw_remote x)) keep"
  by (rule reference.plugin.secret_store_axioms)

lemma openbao_exn_message: "oe_message (openbao_exn c None st) \<in> range default_message"
  by (simp add: openbao_exn_def del: default_message.simps)

lemma translate_message: "oe_message (translate exc) \<in> insert ''OpenBao rejected the request.'' (range default_message)"
proof -
  have "oe_message (openbao_exn OpenBaoErrorC (Some ''OpenBao rejected the request.'') st) = ''OpenBao rejected the request.''" for st
    by (simp add: openbao_exn_def str_or_def)
  then show ?thesis
    by (cases "hx_class exc") (simp_all add: translate_def openbao_exn_message Let_def)
qed

text \<open>C18: An error the server sends never carries its text to the caller: what a call of the client raises is an error of the
  plugin's own hierarchy whose message is one of its fixed messages, whatever the text, the class and the
  status of the underlying exception.\<close>

theorem server_text_is_hidden:
  assumes "translated m x = (Inl e, x')"
  shows "\<exists>err. e = OpenBaoExn err \<and> oe_message err \<in> insert ''OpenBao rejected the request.'' (range default_message)"
proof -
  from assms obtain exc where "e = OpenBaoExn (translate exc)"
    by (auto simp: translated_def split: prod.splits sum.splits)
  with translate_message show ?thesis by blast
qed

theorem server_text_is_hidden_witness:
  "\<exists>err. fst (translated (raise \<lparr>hx_class = OtherException, hx_text = ''permission denied for s.1234'', hx_status = None\<rparr>
       :: (mem_server, hvac_exception, json) sem) empty_world) = Inl (OpenBaoExn err) \<and>
     oe_message err \<in> insert ''OpenBao rejected the request.'' (range default_message)"
proof -
  let ?r = "translated (raise \<lparr>hx_class = OtherException, hx_text = ''permission denied for s.1234'', hx_status = None\<rparr>
       :: (mem_server, hvac_exception, json) sem) empty_world"
  have "isl (fst ?r)" by (simp add: translated_def remote_def raise_def)
  then have r: "?r = (Inl (projl (fst ?r)), snd ?r)" by (cases ?r; cases "fst ?r") auto
  from server_text_is_hidden [OF r] r show ?thesis by (metis fst_conv)
qed

text \<open>A login token is cached for less than its lease: as long as the lease has at least two seconds left, a cache read at or
  after the end of the lease finds nothing, and a read before four fifths of it have passed finds the token.\<close>

theorem token_expires_before_lease:
  assumes "2 \<le> lease"
  shows "(now + lease \<le> t \<longrightarrow> cache_get t key (cache_set now key token (token_ttl lease) x) = None) \<and>
    (t < now + token_ttl lease \<longrightarrow> cache_get t key (cache_set now key token (token_ttl lease) x) = Some token) \<and>
    1 \<le> token_ttl lease"
  using assms by (auto simp: cache_get_def cache_set_def token_ttl_def update_conv)

theorem token_expires_before_lease_witness:
  "cache_get 60 ''k'' (cache_set 0 ''k'' ''tok'' (token_ttl 60) empty_world) = None"
  using token_expires_before_lease [of 60 0 60 "''k''" "''tok''" empty_world] by simp

text \<open>The version list is newest first and complete: the entries are in descending order of their number, and their numbers are
  those of the server's response.\<close>

theorem version_list_newest_first:
  "sorted_wrt (\<lambda>a b. vi_version b \<le> vi_version a) (version_list response) \<and>
   set (map vi_version (version_list response)) = (case response of None \<Rightarrow> {} | Some m \<Rightarrow> fst ` set (sm_versions m))"
proof -
  define entry :: "nat \<times> version_meta \<Rightarrow> version_info" where "entry = (\<lambda>(number, meta). \<lparr>vi_version = number, vi_created_time = vm_created_time meta,
           vi_deletion_time = (case vm_deletion_time meta of Some [] \<Rightarrow> None | t \<Rightarrow> t), vi_destroyed = vm_destroyed meta\<rparr>)"
  have number: "vi_version \<circ> entry = fst" by (auto simp: entry_def)
  have l: "version_list response = rev (sort_key vi_version (map entry (rev (case response of None \<Rightarrow> [] | Some m \<Rightarrow> sm_versions m))))"
    by (simp add: version_list_def entry_def)
  have "sorted_wrt (\<lambda>a b. vi_version b \<le> vi_version a) (rev (sort_key vi_version xs))" for xs :: "version_info list"
    using sorted_sort_key [of vi_version xs] by (simp add: sorted_wrt_rev sorted_map)
  moreover have "vi_version ` entry ` A = fst ` A" for A
    using number by (metis image_comp)
  ultimately show ?thesis unfolding l by (simp split: option.splits)
qed

end
