(* ===== verification/Admin_Contracts.thy ===== *)
theory Admin_Contracts
  imports Admin_Api
begin

text \<open>
  The typed views over the reviewed contracts: access control (\<^verbatim>\<open>api/access_views.py\<close>,
  \<^verbatim>\<open>api/access_serializers.py\<close>) and leases, tools and UI headers (\<^verbatim>\<open>api/finalization_views.py\<close>,
  \<^verbatim>\<open>api/finalization_serializers.py\<close>). The field-level checks of the REST framework are the types of the
  request record; the cross-field checks are modelled. An absent digest or confirmation is empty.
\<close>

record contract_request =
  cq_resource :: string
  cq_operation :: string
  cq_identifier :: string
  cq_payload :: json
  cq_reason :: string
  cq_capability_digest :: string
  cq_impact_digest :: string
  cq_confirmation :: string
  cq_preview :: bool

record 'v contract_env =
  kx_versions :: "'v versions"
  kx_dumps :: "json \<Rightarrow> string option" \<comment> \<open>the compact encoding that bounds a payload\<close>
  kx_digest :: "json \<Rightarrow> string" \<comment> \<open>SHA-256 of the canonical encoding\<close>
  kx_fixture :: payload \<comment> \<open>the pinned route fixture\<close>

definition contract_mismatch :: exn where
  "contract_mismatch = ValidationError [] ''The request does not match a reviewed OpenBao 2.6.2 contract.''"

text \<open>\<open>_safe\<close>: the errors of a contract check become one validation error.\<close>

definition contract_checked :: "exn + 'a \<Rightarrow> exn + 'a" where
  "contract_checked r =
     (case r of
        Inl e \<Rightarrow> Inl (if is_schema_error e \<or> e \<in> {PythonError ''KeyError'', PythonError ''TypeError'', PythonError ''ValueError''}
                     then contract_mismatch else e)
      | Inr x \<Rightarrow> Inr x)"

text \<open>\<open>template.format(**values)\<close>, in one pass.\<close>

function py_format :: "(string \<times> string) list \<Rightarrow> string \<Rightarrow> string" where
  "py_format values [] = []"
| "py_format values (c # cs) =
     (case placeholder_rest (c # cs) of
        Some r \<Rightarrow> (case map_of values (takeWhile identifier_char cs) of None \<Rightarrow> [] | Some v \<Rightarrow> v) @ py_format values r
      | None \<Rightarrow> c # py_format values cs)"
  by pat_completeness auto
termination
  by (relation "measure (\<lambda>(_, s). length s)") (auto dest: placeholder_rest_shorter)

definition permission_action :: "string \<Rightarrow> string" where
  "permission_action permission = removesuffix ''_openbaocluster'' (after_last (CHR ''.'') permission)"

definition json_data :: "json \<Rightarrow> json" where
  "json_data j = (case j of JObj p \<Rightarrow> jget p ''data'' | _ \<Rightarrow> JNull)"

section \<open>Access control: request contracts\<close>

record access_request =
  aq_resource :: access_resource_spec
  aq_operation :: access_operation_spec
  aq_identifier :: string
  aq_payload :: payload
  aq_expected :: string

definition takes_identifier :: "string \<Rightarrow> bool" where
  "takes_identifier path_template = contains ''{identifier}'' path_template"

definition access_fields :: "string \<Rightarrow> contract_request \<Rightarrow> exn + access_request" where
  "access_fields slug q =
     sbind (contract_checked (access_operation_contract (JStr (cq_resource q)) (JStr (cq_operation q)))) (\<lambda>(spec, c).
     sbind (if takes_identifier (ao_path_template c)
            then contract_checked (normalize_identifier (JStr (cq_identifier q)) (as_identifier_kind spec))
            else if cq_identifier q \<noteq> [] then Inl (ValidationError ''identifier'' ''This operation does not accept an identifier.'')
            else Inr []) (\<lambda>i.
     sbind (contract_checked (validate_access_payload (cq_payload q) (ao_fields c))) (\<lambda>p.
     Inr \<lparr>aq_resource = spec, aq_operation = c, aq_identifier = i, aq_payload = p,
          aq_expected = py_format [(''resource'', as_key spec), (''identifier'', i), (''cluster'', slug)] (ao_confirmation c)\<rparr>)))"

text \<open>\<open>AccessPreviewSerializer\<close>: its operation is one of three.\<close>

definition access_preview_request :: "string \<Rightarrow> contract_request \<Rightarrow> exn + access_request" where
  "access_preview_request slug q =
     (if cq_operation q \<notin> {''delete'', ''rotate'', ''merge''} then Inl (ValidationError ''operation'' ''is not a valid choice.'')
      else sbind (contract_checked (access_operation_contract (JStr (cq_resource q)) (JStr (cq_operation q)))) (\<lambda>(_, c).
           if ao_confirmation c = []
           then Inl (ValidationError [] ''The selected operation does not have an impact preview.'')
           else access_fields slug q))"

text \<open>The destructive-confirmation fields: required with the exact text, or refused.\<close>

definition confirmed :: "bool \<Rightarrow> bool \<Rightarrow> string \<Rightarrow> contract_request \<Rightarrow> exn + unit" where
  "confirmed needed forbidden expected q =
     (if needed
      then (if cq_impact_digest q = [] then Inl (ValidationError ''impact_digest'' ''Preview the current impact before continuing.'')
            else if cq_confirmation q \<noteq> expected then Inl (ValidationError ''confirmation'' (''Type exactly: '' @ expected))
            else Inr ())
      else if forbidden \<and> (cq_impact_digest q \<noteq> [] \<or> cq_confirmation q \<noteq> [])
      then Inl (ValidationError [] ''This operation does not accept destructive confirmation fields.'')
      else Inr ())"

definition access_execute_request :: "string \<Rightarrow> contract_request \<Rightarrow> exn + access_request" where
  "access_execute_request slug q =
     sbind (access_fields slug q) (\<lambda>a.
     let destructive = ao_confirmation (aq_operation a) \<noteq> [] in
     sbind (confirmed destructive (\<not> destructive) (aq_expected a) q) (\<lambda>_. Inr a))"

section \<open>Access control: views\<close>

definition stable_resource_state :: "json \<Rightarrow> exn + json" where
  "stable_resource_state response =
     (case json_data response of
        JObj d \<Rightarrow> Inr (JObj d)
      | _ \<Rightarrow> Inl (unavailable ''OpenBao returned an invalid resource state.''))"

definition merge_ids :: "payload \<Rightarrow> string list" where
  "merge_ids p = text_item (jget p ''to_entity_id'') # (case jget p ''from_entity_ids'' of JArr xs \<Rightarrow> map text_item xs | _ \<Rightarrow> [])"

definition audit_targets :: "string \<Rightarrow> string \<Rightarrow> payload \<Rightarrow> string list" where
  "audit_targets operation identifier p =
     (if operation = ''merge'' then merge_ids p
      else let first = str_or identifier (str_or (text_item (jget p ''id'')) (text_item (jget p ''name'')));
               canonical = text_item (jget p ''canonical_id'')
           in filter (\<lambda>t. t \<noteq> []) (first # (if canonical \<noteq> [] \<and> canonical \<noteq> first then [canonical] else [])))"

definition completion_targets :: "string list \<Rightarrow> json \<Rightarrow> string list" where
  "completion_targets targets result =
     (case json_data result of
        JObj d \<Rightarrow> (case jget d ''id'' of JStr i \<Rightarrow> if i \<notin> set targets then targets @ [i] else targets | _ \<Rightarrow> targets)
      | _ \<Rightarrow> targets)"

definition require_version :: "'v contract_env \<Rightarrow> capability_document \<Rightarrow> ('s, exn, unit) sem" where
  "require_version kx d =
     check (supported_version (kx_versions kx) (cd_product_version d))
       (conflict ''OpenBao returned an unsupported capability version.'')"

definition ready_status :: "'v contract_env \<Rightarrow> 's admin_ops \<Rightarrow> string \<Rightarrow> ('s admin_state, exn, unit) sem" where
  "ready_status kx bk purpose =
     bnd (baseline_status (kx_versions kx) bk) (\<lambda>s.
     check (st_initialized s \<and> \<not> st_sealed s) (conflict (''The OpenBao cluster is not ready for '' @ purpose @ ''.'')))"

definition prepare_access ::
  "'v contract_env \<Rightarrow> 's admin_ops \<Rightarrow> access_operation_spec \<Rightarrow> string \<Rightarrow> ('s admin_state, exn, capability_document) sem" where
  "prepare_access kx bk c supplied =
     bnd (ready_status kx bk ''access administration'') (\<lambda>_.
     bnd (on_backend (bk_discover bk)) (\<lambda>d.
     bnd (require_version kx d) (\<lambda>_.
     bnd (check (cd_digest d = supplied) (conflict ''OpenBao capabilities changed; reload the access workspace.'')) (\<lambda>_.
     bnd (check (runtime_advertises d c) (conflict ''OpenBao does not advertise the reviewed operation.'')) (\<lambda>_. ret d)))))"

definition resource_path :: "access_resource_spec \<Rightarrow> string \<Rightarrow> string \<Rightarrow> ('s, exn, string) sem" where
  "resource_path spec operation identifier =
     get_or (access_resource_path spec operation identifier) (PythonError ''KeyError'')"

definition read_state ::
  "'s admin_ops \<Rightarrow> access_resource_spec \<Rightarrow> access_operation_spec \<Rightarrow> string \<Rightarrow> ('s admin_state, exn, json) sem" where
  "read_state bk spec c identifier =
     bnd (resource_path spec ''read'' identifier) (\<lambda>path.
     bnd (on_backend (bk_access bk (ao_method c) path [] False)) (\<lambda>j. lift_sum (stable_resource_state j)))"

fun read_states ::
  "'s admin_ops \<Rightarrow> access_resource_spec \<Rightarrow> access_operation_spec \<Rightarrow> string list \<Rightarrow> ('s admin_state, exn, json list) sem" where
  "read_states bk spec c [] = ret []"
| "read_states bk spec c (i # is) = bnd (read_state bk spec c i) (\<lambda>j. bnd (read_states bk spec c is) (\<lambda>js. ret (j # js)))"

definition impact_state :: "'s admin_ops \<Rightarrow> string \<Rightarrow> access_request \<Rightarrow> ('s admin_state, exn, json) sem" where
  "impact_state bk operation a =
     (let spec = aq_resource a; common = [(''resource'', JStr (as_key spec)), (''operation'', JStr operation)] in
      if operation = ''merge''
      then bnd (get_or (map_of ACCESS_RESOURCES ''entities'') (PythonError ''KeyError'')) (\<lambda>entities.
           bnd (get_or (map_of (as_operations entities) ''read'') (PythonError ''KeyError'')) (\<lambda>c.
           bnd (read_states bk entities c (merge_ids (aq_payload a))) (\<lambda>js.
           ret (JObj (common @ [(''payload'', JObj (aq_payload a)), (''entities'', JArr js)])))))
      else bnd (get_or (map_of (as_operations spec) ''read'') (conflict ''The selected operation has no reviewed impact preview.'')) (\<lambda>c.
           bnd (read_state bk spec c (aq_identifier a)) (\<lambda>j.
           ret (JObj (common @ [(''identifier'', JStr (aq_identifier a)), (''current'', j)])))))"

definition may_access :: "admin_env \<Rightarrow> openbao_cluster \<Rightarrow> string \<Rightarrow> bool" where
  "may_access env c permission = aa_permits (ae_actor env) (permission_action permission) (clu_pk c)"

definition access_resources_view ::
  "'v contract_env \<Rightarrow> 's admin_ops \<Rightarrow> admin_env \<Rightarrow> nat
     \<Rightarrow> ('s admin_state, exn, string \<times> (access_resource_spec \<times> (string \<times> access_operation_spec) list) list) sem" where
  "access_resources_view kx bk env pk =
     bnd (get_cluster env pk ''view_access'') (\<lambda>c.
     contract_read env c ''list-access-resources''
       (bnd (baseline_status (kx_versions kx) bk) (\<lambda>_.
        bnd (on_backend (bk_discover bk)) (\<lambda>d.
        bnd (require_version kx d) (\<lambda>_.
        let visible = (\<lambda>(_, o_spec). may_access env c (ao_permission o_spec) \<and> runtime_advertises d o_spec);
            resources = filter (\<lambda>(_, ops). ops \<noteq> [])
              (map (\<lambda>(_, spec). (spec, filter visible (as_operations spec))) ACCESS_RESOURCES)
        in bnd (log_administration env c
                  ((event ''list-access-resources'')
                   \<lparr>ev_operation_id := ''access-resource-catalog'', ev_method := ''GET'',
                    ev_path_template := ''reviewed access resource registry'', ev_capability_digest := cd_digest d,
                    ev_status_code := Some 200,
                    ev_message := ''Listed permission-filtered reviewed access-control resources.''\<rparr>)) (\<lambda>_.
           ret (cd_digest d, resources)))))))"

definition access_preview_view ::
  "'v contract_env \<Rightarrow> 's admin_ops \<Rightarrow> admin_env \<Rightarrow> nat \<Rightarrow> contract_request
     \<Rightarrow> ('s admin_state, exn, json \<times> string \<times> string) sem" where
  "access_preview_view kx bk env pk q =
     bnd (get_cluster env pk ''view_access'') (\<lambda>c0.
     bnd (lift_sum (access_preview_request (clu_slug c0) q)) (\<lambda>a.
     bnd (if may_access env c0 (ao_permission (aq_operation a)) then ret c0
          else get_cluster env pk (permission_action (ao_permission (aq_operation a)))) (\<lambda>c.
     contract_read env c ''preview-access-impact''
       (bnd (prepare_access kx bk (aq_operation a) (cq_capability_digest q)) (\<lambda>d.
        bnd (impact_state bk (cq_operation q) a) (\<lambda>impact.
        bnd (log_administration env c
               ((event ''preview-access-impact'')
                \<lparr>ev_operation_id := ''access:'' @ as_key (aq_resource a) @ '':'' @ cq_operation q @ '':preview'',
                 ev_method := ''GET'', ev_path_template := ao_path_template (aq_operation a),
                 ev_capability_digest := cd_digest d, ev_status_code := Some 200,
                 ev_message := ''Previewed current access-control impact without retaining response data.''\<rparr>)) (\<lambda>_.
        ret (impact, kx_digest kx impact, aq_expected a))))))))"

text \<open>What the last handler of the view makes of any other exception.\<close>

definition access_failure :: "('s, exn, 'a) sem \<Rightarrow> ('s, exn, 'a) sem" where
  "access_failure m =
     on_exn m (\<lambda>e. raise (if view_handled e then e else unavailable ''OpenBao access administration failed.''))"

definition access_execute_view ::
  "'v contract_env \<Rightarrow> 's admin_ops \<Rightarrow> admin_env \<Rightarrow> nat \<Rightarrow> contract_request
     \<Rightarrow> ('s admin_state, exn, (capability_document \<times> json) view_result) sem" where
  "access_execute_view kx bk env pk q =
     bnd (get_cluster env pk ''view_access'') (\<lambda>c0.
     bnd (lift_sum (access_execute_request (clu_slug c0) q)) (\<lambda>a.
     bnd (get_cluster env pk (permission_action (ao_permission (aq_operation a)))) (\<lambda>c.
     let o_spec = aq_operation a; targets = audit_targets (cq_operation q) (aq_identifier a) (aq_payload a);
         ev = (\<lambda>d. (event ''execute-access-resource'')
           \<lparr>ev_operation_id := ''access:'' @ as_key (aq_resource a) @ '':'' @ cq_operation q, ev_risk_level := ao_risk o_spec,
            ev_method := ao_method o_spec, ev_path_template := ao_path_template o_spec, ev_reason := cq_reason q,
            ev_capability_digest := cd_digest d\<rparr>)
     in mutation_view env c
          \<lparr>mu_authorized = (\<lambda>d. (ev d)\<lparr>ev_action := ''execute-access-resource-authorized'', ev_target_identifiers := targets,
                                     ev_outcome := ''authorized'', ev_message := ''Authorized a reviewed access-control operation.''\<rparr>),
           mu_completed = (\<lambda>d r. (ev d)\<lparr>ev_target_identifiers := completion_targets targets r, ev_status_code := Some 200,
                                     ev_message := ''Completed a reviewed access-control operation.''\<rparr>),
           mu_failed = ''execute-access-resource'', mu_reason = cq_reason q, mu_risk = ao_risk o_spec\<rparr>
          (access_failure
             (bnd (prepare_access kx bk o_spec (cq_capability_digest q)) (\<lambda>d.
              bnd (if ao_confirmation o_spec = [] then ret ()
                   else bnd (impact_state bk (cq_operation q) a) (\<lambda>impact.
                        check (kx_digest kx impact = cq_impact_digest q)
                          (conflict ''The access-control impact changed; preview it again.''))) (\<lambda>_. ret d))))
          (\<lambda>_. access_failure
             (bnd (resource_path (aq_resource a) (cq_operation q) (aq_identifier a)) (\<lambda>path.
              on_backend (bk_access bk (ao_method o_spec) path (aq_payload a) (ao_response_kind o_spec = ''material'')))))
          (ret ''preflight-only''))))"

section \<open>Leases, tools and UI headers: request contracts\<close>

record final_request_fields =
  fq_resource :: final_resource
  fq_operation :: final_operation
  fq_identifier :: string
  fq_payload :: payload
  fq_expected :: string

definition final_target :: "final_resource \<Rightarrow> string \<Rightarrow> payload \<Rightarrow> string" where
  "final_target spec identifier p =
     str_or identifier (case dict_get p ''lease_id'' of None \<Rightarrow> fs_key spec | Some v \<Rightarrow> text_item v)"

definition final_operation_request :: "'v contract_env \<Rightarrow> string \<Rightarrow> contract_request \<Rightarrow> exn + final_request_fields" where
  "final_operation_request kx slug q =
     sbind (contract_checked
       (sbind (final_operation_contract (JStr (cq_resource q)) (JStr (cq_operation q))) (\<lambda>(spec, c).
        sbind (if takes_identifier (fo_path_template c)
               then (if fs_key spec = ''leases'' \<and> cq_operation q = ''list'' \<and> cq_identifier q = [] then Inr []
                     else normalize_final_identifier (JStr (cq_identifier q)) (fo_identifier_kind c))
               else if cq_identifier q \<noteq> [] then Inl (CapabilitySchemaError ''This operation does not accept an identifier.'')
               else Inr []) (\<lambda>i.
        sbind (validate_payload_final (kx_dumps kx) (cq_payload q) c) (\<lambda>p. Inr (spec, c, i, p)))))) (\<lambda>(spec, c, i, p).
     let expected = py_format [(''target'', final_target spec i p), (''cluster'', slug)] (fo_confirmation c) in
     sbind (confirmed (fo_confirmation c \<noteq> [] \<and> \<not> cq_preview q) (fo_confirmation c = []) expected q) (\<lambda>_.
     Inr \<lparr>fq_resource = spec, fq_operation = c, fq_identifier = i, fq_payload = p, fq_expected = expected\<rparr>))"

section \<open>The lease hierarchy\<close>

definition lease_invalid :: exn where "lease_invalid = conflict ''OpenBao returned an invalid lease hierarchy.''"
definition lease_bounds :: exn where "lease_bounds = conflict ''The lease hierarchy exceeds the reviewed preview bounds.''"

definition lease_entry :: "string \<Rightarrow> json \<Rightarrow> exn + (bool \<times> string)" where
  "lease_entry pre j =
     (case j of
        JStr k \<Rightarrow>
          if k = [] then Inl lease_invalid
          else (case normalize_final_identifier
                       (JStr (join_with ''/'' (filter (\<lambda>part. part \<noteq> []) [pre, rstrip_of (CHR ''/'') k]))) ''lease-prefix'' of
                  Inl e \<Rightarrow> Inl (if is_schema_error e then lease_invalid else e)
                | Inr n \<Rightarrow> Inr (suffix ''/'' k, n))
      | _ \<Rightarrow> Inl lease_invalid)"

definition lease_entries :: "json \<Rightarrow> string \<Rightarrow> exn + (bool \<times> string) list" where
  "lease_entries response pre =
     (case json_data response of
        JObj d \<Rightarrow> (case jget d ''keys'' of
                     JArr ks \<Rightarrow> if length ks > 2000 then Inl lease_invalid else straverse (lease_entry pre) ks
                   | _ \<Rightarrow> Inl lease_invalid)
      | _ \<Rightarrow> Inl lease_invalid)"

text \<open>The encoded length of a lease path: its characters need no escape.\<close>

definition lease_bytes :: "string \<Rightarrow> nat" where
  "lease_bytes p = length p + 3"

record lease_walk =
  lw_pending :: "(string \<times> nat) list" \<comment> \<open>the top of the stack first\<close>
  lw_visited :: "string list"
  lw_leaves :: "string list"
  lw_bytes :: nat

fun walk_entries :: "nat \<Rightarrow> (bool \<times> string) list \<Rightarrow> lease_walk \<Rightarrow> exn + lease_walk" where
  "walk_entries depth [] w = Inr w"
| "walk_entries depth ((branch, path) # es) w =
     sbind
       (if branch
        then (let w1 = w\<lparr>lw_pending := (path, Suc depth) # lw_pending w\<rparr>
              in if length (lw_visited w1) + length (lw_pending w1) > 256 then Inl lease_bounds else Inr w1)
        else (let w1 = (if path \<in> set (lw_leaves w) then w
                        else w\<lparr>lw_leaves := path # lw_leaves w, lw_bytes := lw_bytes w + lease_bytes path\<rparr>)
              in if length (lw_leaves w1) > 2000 \<or> lw_bytes w1 > 256000 then Inl lease_bounds else Inr w1))
       (walk_entries depth es)"

definition bounded_lease_result :: "string list \<Rightarrow> exn + string list" where
  "bounded_lease_result leaves =
     (let result = sort leaves
      in if length result > 2000 \<or> 2 + sum_list (map (\<lambda>p. length p + 2) result) + (length result - 1) > 256000
         then Inl lease_bounds else Inr result)"

text \<open>The walk; every round visits one more prefix, of at most 256.\<close>

fun lease_rounds :: "nat \<Rightarrow> 's admin_ops \<Rightarrow> lease_walk \<Rightarrow> ('s admin_state, exn, string list) sem" where
  "lease_rounds 0 bk w = raise lease_bounds"
| "lease_rounds (Suc n) bk w =
     (case lw_pending w of
        [] \<Rightarrow> lift_sum (bounded_lease_result (lw_leaves w))
      | (pre, depth) # rest \<Rightarrow>
          if pre \<in> set (lw_visited w) \<or> depth > 12 \<or> length (lw_visited w) \<ge> 256 then raise lease_bounds
          else bnd (get_or (final_resource_path FINAL_LEASES ''list'' pre) (PythonError ''KeyError'')) (\<lambda>path.
               bnd (on_backend (bk_final bk ''LIST'' path [] False)) (\<lambda>response.
               bnd (lift_sum (lease_entries response pre)) (\<lambda>entries.
               bnd (lift_sum (walk_entries depth entries (w\<lparr>lw_pending := rest, lw_visited := pre # lw_visited w\<rparr>))) (\<lambda>w1.
               lease_rounds n bk w1)))))"

definition lease_set :: "'s admin_ops \<Rightarrow> string \<Rightarrow> ('s admin_state, exn, string list) sem" where
  "lease_set bk pre =
     lease_rounds 258 bk \<lparr>lw_pending = [(rstrip_of (CHR ''/'') pre, 0)], lw_visited = [], lw_leaves = [], lw_bytes = 2\<rparr>"

section \<open>Leases, tools and UI headers: views\<close>

definition final_current ::
  "'s admin_ops \<Rightarrow> final_resource \<Rightarrow> string \<Rightarrow> string \<Rightarrow> payload \<Rightarrow> ('s admin_state, exn, json) sem" where
  "final_current bk spec operation identifier p =
     (if fs_key spec = ''leases''
      then (if operation = ''revoke''
            then bnd (on_backend (bk_final bk ''POST'' ''/sys/leases/lookup'' [(''lease_id'', jget p ''lease_id'')] False)) (\<lambda>response.
                 case json_data response of
                   JObj d \<Rightarrow>
                     if jget d ''id'' \<noteq> jget p ''lease_id'' then raise (conflict ''OpenBao returned an invalid lease identity.'')
                     else ret (JObj (AList.delete ''ttl'' d))
                 | _ \<Rightarrow> raise (conflict ''OpenBao returned an invalid lease identity.''))
            else bnd (lease_set bk identifier) (\<lambda>ls. ret (JObj [(''leases'', JArr (map JStr ls))])))
      else if fs_key spec = ''ui-headers''
      then bnd (get_or (final_resource_path spec ''read'' identifier) (PythonError ''KeyError'')) (\<lambda>path.
           bnd (on_exn (bnd (on_backend (bk_final bk ''GET'' path [] False)) (\<lambda>j. ret (Some j)))
                  (\<lambda>e. if exn_is OpenBaoNotFoundC e then ret None else raise e)) (\<lambda>found.
           ret (case found of
                  None \<Rightarrow> JObj [(''state'', JStr ''absent'')]
                | Some j \<Rightarrow> JObj [(''state'', JStr ''present''),
                                  (''data'', case j of JObj d \<Rightarrow> jget_or d ''data'' j | _ \<Rightarrow> JNull)])))
      else raise (conflict ''The selected operation has no reviewed impact preview.''))"

definition final_impact :: "'s admin_ops \<Rightarrow> string \<Rightarrow> final_request_fields \<Rightarrow> ('s admin_state, exn, json) sem" where
  "final_impact bk operation f =
     bnd (final_current bk (fq_resource f) operation (fq_identifier f) (fq_payload f)) (\<lambda>current.
     ret (JObj [(''resource'', JStr (fs_key (fq_resource f))), (''operation'', JStr operation),
                (''identifier'', JStr (fq_identifier f)), (''payload'', JObj (fq_payload f)), (''current'', current)]))"

definition prepare_final ::
  "'v contract_env \<Rightarrow> 's admin_ops \<Rightarrow> final_operation \<Rightarrow> string \<Rightarrow> ('s admin_state, exn, capability_document) sem" where
  "prepare_final kx bk c supplied =
     bnd (ready_status kx bk ''this operation'') (\<lambda>_.
     bnd (on_backend (bk_discover bk)) (\<lambda>d.
     bnd (require_version kx d) (\<lambda>_.
     bnd (check (cd_digest d = supplied) (conflict ''OpenBao capabilities changed; reload the operations workspace.'')) (\<lambda>_.
     bnd (lift_sum (conformance_report (kx_fixture kx) d)) (\<lambda>report.
     bnd (if cr_conformant report then lift_sum (advertised (kx_fixture kx) d c) else ret False) (\<lambda>ok.
     bnd (check ok (conflict ''OpenBao does not advertise the reviewed operation.'')) (\<lambda>_. ret d)))))))"

datatype final_outcome =
  Previewed json string string \<comment> \<open>the impact, its digest and the confirmation to type\<close>
| Operated capability_document json

definition final_event :: "final_request_fields \<Rightarrow> contract_request \<Rightarrow> string \<Rightarrow> string \<Rightarrow> audit_event" where
  "final_event f q act digest =
     (event act)
     \<lparr>ev_operation_id := ''final:'' @ fs_key (fq_resource f) @ '':'' @ cq_operation q,
      ev_risk_level := fo_risk (fq_operation f), ev_method := fo_method (fq_operation f),
      ev_path_template := fo_path_template (fq_operation f), ev_reason := cq_reason q, ev_capability_digest := digest,
      ev_target_identifiers := [final_target (fq_resource f) (fq_identifier f) (fq_payload f)]\<rparr>"

definition final_preview ::
  "'v contract_env \<Rightarrow> 's admin_ops \<Rightarrow> admin_env \<Rightarrow> openbao_cluster \<Rightarrow> contract_request \<Rightarrow> final_request_fields
     \<Rightarrow> capability_document \<Rightarrow> ('s admin_state, exn, final_outcome) sem" where
  "final_preview kx bk env c q f d =
     bnd (final_impact bk (cq_operation q) f) (\<lambda>impact.
     bnd (log_administration env c
            ((event ''preview-final-resource-impact'')
             \<lparr>ev_operation_id := ''final:'' @ fs_key (fq_resource f) @ '':'' @ cq_operation q @ '':preview'', ev_method := ''GET'',
              ev_path_template := fo_path_template (fq_operation f), ev_capability_digest := cd_digest d,
              ev_target_identifiers := [final_target (fq_resource f) (fq_identifier f) (fq_payload f)],
              ev_status_code := Some 200,
              ev_message := ''Previewed final-operation impact without retaining response data.''\<rparr>)) (\<lambda>_.
     ret (Previewed impact (kx_digest kx impact) (fq_expected f))))"

definition final_execute ::
  "'v contract_env \<Rightarrow> 's admin_ops \<Rightarrow> admin_env \<Rightarrow> openbao_cluster \<Rightarrow> contract_request \<Rightarrow> final_request_fields
     \<Rightarrow> capability_document \<Rightarrow> ('s admin_state, exn, final_outcome) sem" where
  "final_execute kx bk env c q f d =
     (let o_spec = fq_operation f in
      bnd (if fo_confirmation o_spec = [] then ret ()
           else bnd (final_impact bk (cq_operation q) f) (\<lambda>impact.
                check (kx_digest kx impact = cq_impact_digest q) (conflict ''The operation impact changed; preview it again.''))) (\<lambda>_.
      bnd (log_administration env c
             ((final_event f q ''execute-final-resource-authorized'' (cd_digest d))
              \<lparr>ev_outcome := ''authorized'', ev_message := ''Authorized a reviewed final parity operation.'', ev_durable := True\<rparr>)) (\<lambda>_.
      bnd (get_or (final_resource_path (fq_resource f) (cq_operation q) (fq_identifier f)) (PythonError ''KeyError'')) (\<lambda>path.
      bnd (on_backend (bk_final bk (fo_method o_spec) path (fq_payload f) (fo_response_kind o_spec = ''material''))) (\<lambda>r.
      ret (Operated d r))))))"

definition final_operate_view ::
  "'v contract_env \<Rightarrow> 's admin_ops \<Rightarrow> admin_env \<Rightarrow> nat \<Rightarrow> contract_request
     \<Rightarrow> ('s admin_state, exn, final_outcome view_result) sem" where
  "final_operate_view kx bk env pk q =
     bnd (get_cluster env pk ''view_operations'') (\<lambda>c0.
     bnd (lift_sum (final_operation_request kx (clu_slug c0) q)) (\<lambda>f.
     bnd (get_cluster env pk (permission_action (fo_permission (fq_operation f)))) (\<lambda>c.
     outcome_view env c ''execute-final-resource'' (cq_reason q) (fo_risk (fq_operation f))
       (record_unknown env c ((final_event f q ''execute-final-resource'' (cq_capability_digest q))
          \<lparr>ev_message := ''The final operation outcome is unknown; no request material was retained.''\<rparr>))
       (bnd (prepare_final kx bk (fq_operation f) (cq_capability_digest q)) (\<lambda>d.
        if cq_preview q then final_preview kx bk env c q f d else final_execute kx bk env c q f d))
       (\<lambda>r. case r of
          Previewed _ _ _ \<Rightarrow> ret (Completed r True)
        | Operated d _ \<Rightarrow>
            finish_mutation env c ((final_event f q ''execute-final-resource'' (cd_digest d))
              \<lparr>ev_status_code := Some 200, ev_message := ''Completed a reviewed final parity operation.''\<rparr>) r))))"

definition final_resources_view ::
  "'v contract_env \<Rightarrow> 's admin_ops \<Rightarrow> admin_env \<Rightarrow> nat
     \<Rightarrow> ('s admin_state, exn, string \<times> (final_resource \<times> (string \<times> final_operation) list) list) sem" where
  "final_resources_view kx bk env pk =
     bnd (get_cluster env pk ''view_operations'') (\<lambda>c.
     contract_read env c ''list-final-resources''
       (bnd (baseline_status (kx_versions kx) bk) (\<lambda>_.
        bnd (on_backend (bk_discover bk)) (\<lambda>d.
        bnd (lift_sum (conformance_report (kx_fixture kx) d)) (\<lambda>report.
        bnd (check (cr_conformant report)
               (conflict ''OpenBao does not conform to the pinned final-operation contract.'')) (\<lambda>_.
        bnd (lift_sum (straverse (\<lambda>(_, spec).
               sbind (straverse (\<lambda>(n, o_spec).
                 if may_access env c (''netbox_openbao.'' @ fo_permission o_spec)
                 then sbind (advertised (kx_fixture kx) d o_spec) (\<lambda>b. Inr (b, n, o_spec)) else Inr (False, n, o_spec))
                 (fs_operations spec)) (\<lambda>os. Inr (spec, map snd (filter fst os)))) FINAL_RESOURCES)) (\<lambda>rows.
        bnd (log_administration env c
               ((event ''list-final-resources'')
                \<lparr>ev_operation_id := ''final-resource-catalog'', ev_capability_digest := cd_digest d, ev_status_code := Some 200,
                 ev_message := ''Listed permission-filtered final parity resources.''\<rparr>)) (\<lambda>_.
        ret (cd_digest d, filter (\<lambda>(_, ops). ops \<noteq> []) rows)))))))))"

definition final_conformance_view ::
  "'v contract_env \<Rightarrow> 's admin_ops \<Rightarrow> admin_env \<Rightarrow> nat \<Rightarrow> ('s admin_state, exn, conformance_result) sem" where
  "final_conformance_view kx bk env pk =
     bnd (get_cluster env pk ''view_operations'') (\<lambda>c.
     contract_read env c ''final-conformance''
       (bnd (baseline_status (kx_versions kx) bk) (\<lambda>_.
        bnd (on_backend (bk_discover bk)) (\<lambda>d.
        bnd (lift_sum (conformance_report (kx_fixture kx) d)) (\<lambda>report.
        bnd (log_administration env c
               ((event ''final-conformance'')
                \<lparr>ev_operation_id := ''final-conformance'', ev_capability_digest := cd_digest d,
                 ev_success := cr_conformant report, ev_status_code := Some (if cr_conformant report then 200 else 409),
                 ev_message := ''Compared the runtime contract with the pinned OpenBao 2.6.2 final-operation fixture.''\<rparr>)) (\<lambda>_.
        ret report))))))"

end
