(* ===== verification/Admin_Trace.thy ===== *)
theory Admin_Trace
  imports Admin_Contracts
begin

text \<open>
  What an administration view may have sent by the time it returns. A requester that remembers what it was asked
  to send observes every transport, so a statement about its trace is one about all of them. What a view relies
  on when it reads is a locale; the direct backend over any remembering requester provides it.
\<close>

section \<open>A requester that remembers\<close>

definition traced :: "'s requester \<Rightarrow> ('s \<times> admin_request list) requester" where
  "traced rq r s = (case rq r (fst s) of (answer, s') \<Rightarrow> (answer, (s', snd s @ [r])))"

text \<open>
  The requests that may change the cluster: those with a mutating method, less the lookup of a lease, which
  OpenBao serves as a \<^verbatim>\<open>POST\<close>.
\<close>

definition changing :: "admin_request \<Rightarrow> bool" where
  "changing r = (mutating (rq_method r) \<and> rq_path r \<noteq> ''/sys/leases/lookup'')"

definition sent :: "'s \<times> admin_request list \<Rightarrow> admin_request list" where
  "sent s = filter changing (snd s)"

lemma traced_run: "traced rq r s = (x, s') \<Longrightarrow> snd s' = snd s @ [r]"
  by (auto simp: traced_def split: prod.splits)

text \<open>Observing changes nothing: the answers and the state are those of the requester itself.\<close>

lemma traced_answers: "(fst (traced rq r s), fst (snd (traced rq r s))) = rq r (fst s)"
  by (simp add: traced_def split: prod.splits)

section \<open>Reads\<close>

definition unsent :: "'s \<times> admin_request list \<Rightarrow> 's \<times> admin_request list \<Rightarrow> bool" where
  "unsent s s' = (sent s' = sent s)"

interpretation tr: state_frame unsent
  by unfold_locales (simp_all add: unsent_def)

lemma framed_case_sum:
  "(\<And>e. z = Inl e \<Longrightarrow> framed R (f e)) \<Longrightarrow> (\<And>x. z = Inr x \<Longrightarrow> framed R (g x)) \<Longrightarrow>
     framed R (case z of Inl e \<Rightarrow> f e | Inr x \<Rightarrow> g x)"
  by (cases z) simp_all

lemma framed_case_json:
  "(\<And>p. j = JObj p \<Longrightarrow> framed R (f p)) \<Longrightarrow> framed R m \<Longrightarrow> framed R (case j of JObj p \<Rightarrow> f p | _ \<Rightarrow> m)"
  by (cases j) simp_all

lemma framed_case_bool_json:
  "(\<And>b. j = JBool b \<Longrightarrow> framed R (f b)) \<Longrightarrow> framed R m \<Longrightarrow> framed R (case j of JBool b \<Rightarrow> f b | _ \<Rightarrow> m)"
  by (cases j) simp_all

lemmas tr_rules = tr.framed_basic tr.framed_bnd tr.framed_on_exn framed_cases framed_case_sum
  framed_case_json framed_case_bool_json

lemma unsent_request: "\<not> changing r \<Longrightarrow> framed unsent (traced rq r)"
  by (auto intro!: framedI dest: traced_run simp: unsent_def sent_def)

lemma reading: "mutating ''GET'' = False" "mutating ''LIST'' = False"
  by (simp_all add: mutating_def upper_char_def)

lemma request_sel [simp]: "rq_method (request verb path b) = verb" "rq_path (request verb path b) = path"
  by (simp_all add: request_def)

lemma unsent_get: "rq_method r \<in> {''GET'', ''LIST''} \<Longrightarrow> framed unsent (traced rq r)"
  by (rule unsent_request) (auto simp: changing_def reading)

lemma unsent_request_json:
  assumes "\<not> changing r"
  shows "framed unsent (request_json cd (traced rq) r)"
  unfolding request_json_def by (intro tr_rules unsent_request assms)

lemma unsent_fetched: "\<not> changing r \<Longrightarrow> framed unsent (fetched cd (traced rq) f r)"
  unfolding fetched_def by (intro tr_rules unsent_request_json)

lemma unsent_listed: "framed unsent (listed cd (traced rq) f path)"
  unfolding listed_def request_list_json_def by (intro tr_rules unsent_get) simp

lemma get_unchanging: "rq_method r \<in> {''GET'', ''LIST''} \<Longrightarrow> \<not> changing r"
  by (auto simp: changing_def reading)

lemma unsent_reads:
  "framed unsent (discover_capabilities cd (traced rq))"
  "framed unsent (initialization_status cd (traced rq))"
  "framed unsent (read_seal_status cd (traced rq))"
  "framed unsent (read_leader_status cd (traced rq))"
  "framed unsent (read_ha_status cd (traced rq))"
  "framed unsent (read_raft_configuration cd (traced rq))"
  unfolding discover_capabilities_def initialization_status_def read_seal_status_def read_leader_status_def
    read_ha_status_def read_raft_configuration_def
  by (intro tr_rules unsent_get unsent_fetched unsent_request_json get_unchanging; simp)+

lemma unsent_access: "verb \<in> {''GET'', ''LIST''} \<Longrightarrow> framed unsent (execute_access_operation cd (traced rq) verb path p b)"
  unfolding execute_access_operation_def
  by (intro tr_rules unsent_get unsent_listed) simp_all

lemma final_request_sel:
  "final_request verb path p = Inr r \<Longrightarrow> rq_method r = verb \<and> rq_path r = path"
  by (auto simp: final_request_def Let_def split: if_splits option.splits)

lemma unsent_final:
  "verb \<in> {''GET'', ''LIST''} \<or> path = ''/sys/leases/lookup'' \<Longrightarrow> framed unsent (execute_final_operation cd (traced rq) verb path p b)"
proof -
  assume target: "verb \<in> {''GET'', ''LIST''} \<or> path = ''/sys/leases/lookup''"
  have "framed unsent (bnd (lift_sum (final_request verb path p)) (\<lambda>r.
           bnd (traced rq r) (\<lambda>response. lift_sum (contract_response cd b verb response))))" (is "framed unsent (bnd _ ?rest)")
  proof (cases "final_request verb path p")
    case (Inl e)
    then show ?thesis by (simp add: framed_def sem_defs unsent_def)
  next
    case (Inr r)
    have "\<not> changing r" using target final_request_sel [OF Inr] by (auto simp: changing_def reading)
    then have "framed unsent (?rest r)" by (intro tr_rules unsent_request)
    moreover have "bnd (lift_sum (final_request verb path p)) ?rest = ?rest r" by (simp add: Inr fun_eq_iff sem_defs)
    ultimately show ?thesis by simp
  qed
  then show ?thesis
    unfolding execute_final_operation_def by (intro framed_if tr.framed_basic unsent_listed)
qed

text \<open>Every reviewed resource is read with a \<^verbatim>\<open>GET\<close>.\<close>

definition read_with_get :: "access_resource_spec \<Rightarrow> bool" where
  "read_with_get spec = (case map_of (as_operations spec) ''read'' of None \<Rightarrow> True | Some c \<Rightarrow> ao_method c = ''GET'')"

lemma reviewed_reads: "(k, spec) \<in> set ACCESS_RESOURCES \<Longrightarrow> read_with_get spec"
proof -
  have "list_all read_with_get (map snd ACCESS_RESOURCES_1)" "list_all read_with_get (map snd ACCESS_RESOURCES_2)"
    by (simp_all add: ACCESS_RESOURCES_1_def ACCESS_RESOURCES_2_def access_resource_def access_operation_def crud_def read_with_get_def)
  then show "(k, spec) \<in> set ACCESS_RESOURCES \<Longrightarrow> read_with_get spec"
    by (auto simp: ACCESS_RESOURCES_def list_all_iff)
qed

lemma contract_checked_Inr [check_simps]: "contract_checked r = Inr x \<longleftrightarrow> r = Inr x"
  by (simp add: contract_checked_def split: sum.split)

lemma reviewed_resource:
  assumes "access_execute_request slug q = Inr a"
  shows "read_with_get (aq_resource a)"
proof -
  obtain spec c where "access_operation_contract (JStr (cq_resource q)) (JStr (cq_operation q)) = Inr (spec, c)"
      and a: "aq_resource a = spec"
    using assms
    by (auto simp: access_execute_request_def access_fields_def Let_def check_simps simp del: split_paired_Ex split: prod.splits)
  then show ?thesis
    by (auto simp: access_operation_contract_def access_spec_def sbind_Inr split: option.splits dest!: map_of_SomeD
        intro: reviewed_reads)
qed

section \<open>What a view keeps\<close>

text \<open>The log only grows, and the backend moves along \<open>R\<close>.\<close>

definition kept :: "('s \<Rightarrow> 's \<Rightarrow> bool) \<Rightarrow> 's admin_state \<Rightarrow> 's admin_state \<Rightarrow> bool" where
  "kept R st st' = (R (as_backend st) (as_backend st') \<and> prefix (as_log st) (as_log st'))"

text \<open>The contract of a backend's reads.\<close>

locale quiet_reads = state_frame R for R :: "'s \<Rightarrow> 's \<Rightarrow> bool" +
  fixes bk :: "'s admin_ops"
  assumes quiet_status: "framed R (bk_seal_status bk)" "framed R (bk_leader_status bk)"
      "framed R (bk_initialization_status bk)" "framed R (bk_raft_configuration bk)"
    and quiet_discover: "framed R (bk_discover bk)"
    and quiet_access: "verb \<in> {''GET'', ''LIST''} \<Longrightarrow> framed R (bk_access bk verb path p material)"
    and quiet_final: "verb \<in> {''GET'', ''LIST''} \<or> path = ''/sys/leases/lookup'' \<Longrightarrow> framed R (bk_final bk verb path p material)"
begin

lemma kept_frame: "state_frame (kept R)"
  by unfold_locales (auto simp: kept_def frame_refl intro: frame_trans prefix_order.trans)

end

sublocale quiet_reads \<subseteq> view: state_frame "kept R"
  by (rule kept_frame)

context quiet_reads begin

lemmas view_rules = view.framed_basic view.framed_bnd view.framed_on_exn framed_cases framed_case_sum
  framed_case_json framed_case_bool_json

lemma on_backend_kept: "framed R m \<Longrightarrow> framed (kept R) (on_backend m)"
  by (auto simp: framed_def on_backend_def kept_def split: prod.splits) (metis snd_conv)

lemma log_kept: "framed (kept R) (log_administration env c ev)"
  by (auto simp: framed_def log_administration_def Let_def kept_def frame_refl)

lemma get_cluster_kept: "framed (kept R) (get_cluster env pk permission)"
  unfolding get_cluster_def by (intro view_rules)

lemma failure_kept: "framed (kept R) (backend_failure env c act reason risk e)"
  unfolding backend_failure_def safe_failure_def by (intro view_rules log_kept)

lemma record_unknown_kept: "framed (kept R) (record_unknown env c ev)"
  unfolding record_unknown_def by (intro view_rules log_kept)

lemma finish_kept: "framed (kept R) (finish_mutation env c ev r)"
  unfolding finish_mutation_def by (intro view_rules log_kept)

lemma status_kept:
  "framed (kept R) (baseline_status vs bk)" "framed (kept R) (require_leader bk)"
  "framed (kept R) (require_uninitialized vs bk)" "framed (kept R) (fresh_raft_state vs bk cluster_id index)"
  unfolding baseline_status_def require_leader_def require_uninitialized_def fresh_raft_state_def
  by (intro view_rules on_backend_kept quiet_status)+

text \<open>Previews read the resources and the lease hierarchy they describe.\<close>

lemma read_state_kept: "ao_method c = ''GET'' \<Longrightarrow> framed (kept R) (read_state bk spec c i)"
  unfolding read_state_def resource_path_def by (intro view_rules on_backend_kept quiet_access) simp

lemma read_states_kept: "ao_method c = ''GET'' \<Longrightarrow> framed (kept R) (read_states bk spec c is)"
  by (induction "is") (auto intro!: view_rules read_state_kept)

lemma lease_rounds_kept: "framed (kept R) (lease_rounds n bk w)"
proof (induction n arbitrary: w)
  case (Suc n)
  then show ?case by (auto intro!: view_rules framed_case_list on_backend_kept quiet_final)
qed (auto intro: view_rules)

lemma final_impact_kept: "framed (kept R) (final_impact bk operation f)"
  unfolding final_impact_def final_current_def lease_set_def
  by (intro view_rules lease_rounds_kept on_backend_kept quiet_final) simp_all

lemma prepare_kept:
  "framed (kept R) (prepare_access kx bk c digest)" "framed (kept R) (prepare_final kx bk fo digest)"
  unfolding prepare_access_def prepare_final_def ready_status_def require_version_def
  by (intro view_rules on_backend_kept quiet_discover status_kept)+

lemma got: "(\<And>y. z = Some y \<Longrightarrow> framed (kept R) (f y)) \<Longrightarrow> framed (kept R) (bnd (get_or z e) f)"
  by (cases z) (simp_all add: framed_def sem_defs view.frame_refl)

lemma impact_state_kept:
  assumes "read_with_get (aq_resource a)"
  shows "framed (kept R) (impact_state bk operation a)"
proof -
  have e: "read_with_get spec" if "map_of ACCESS_RESOURCES ''entities'' = Some spec" for spec
    using that by (auto dest: map_of_SomeD intro: reviewed_reads)
  have get: "ao_method c = ''GET''" if "read_with_get spec" "map_of (as_operations spec) ''read'' = Some c" for spec c
    using that by (simp add: read_with_get_def)
  show ?thesis
    unfolding impact_state_def Let_def
    by (intro framed_if got view.framed_bnd view.framed_basic read_states_kept read_state_kept)
      (auto dest: e get assms [THEN get])
qed

end

section \<open>Authorised changes\<close>

text \<open>
  A run either leaves the backend along \<open>R\<close>, or it was outside any transaction and the rows it added to the log
  hold one that satisfies \<open>P\<close>.
\<close>

definition recorded ::
  "('s \<Rightarrow> 's \<Rightarrow> bool) \<Rightarrow> admin_env \<Rightarrow> (administration_log \<Rightarrow> bool) \<Rightarrow> 's admin_state \<Rightarrow> 's admin_state \<Rightarrow> bool" where
  "recorded R env P st st' =
     (prefix (as_log st) (as_log st') \<and>
      (R (as_backend st) (as_backend st') \<or>
       \<not> ae_in_atomic env \<and> (\<exists>row \<in> set (drop (length (as_log st)) (as_log st')). P row)))"

lemma framed_mono: "framed R m \<Longrightarrow> (\<And>s s'. R s s' \<Longrightarrow> Q s s') \<Longrightarrow> framed Q m"
  by (simp add: framed_def)

lemma added_rows:
  assumes "prefix xs ys" "prefix ys zs"
  shows "set (drop (length xs) zs) = set (drop (length xs) ys) \<union> set (drop (length ys) zs)"
  using assms by (auto simp: prefix_def)

interpretation any: state_frame "kept (\<lambda>_ _. True)"
  by unfold_locales (auto simp: kept_def intro: prefix_order.trans)

lemma any_backend: "framed (kept (\<lambda>_ _. True)) (on_backend m)"
  by (auto simp: framed_def on_backend_def kept_def split: prod.splits)

context quiet_reads begin

lemma recorded_frame: "state_frame (recorded R env P)"
proof
  show "recorded R env P s s" for s by (simp add: recorded_def frame_refl)
  show "recorded R env P s u" if "recorded R env P s t" "recorded R env P t u" for s t u
    using that added_rows [of "as_log s" "as_log t" "as_log u"]
    by (auto simp: recorded_def intro: frame_trans prefix_order.trans)
qed

lemma kept_recorded: "framed (kept R) m \<Longrightarrow> framed (recorded R env P) m"
  by (erule framed_mono) (simp add: kept_def recorded_def)

text \<open>The one step that may change the cluster: after its durable record.\<close>

lemma recorded_step:
  assumes act: "framed (kept (\<lambda>_ _. True)) act" and ev: "ev_durable ev" "P (log_row env c ev)"
  shows "framed (recorded R env P) (bnd (log_administration env c ev) (\<lambda>_. act))"
proof (rule framedI)
  fix st r st' assume run: "bnd (log_administration env c ev) (\<lambda>_. act) st = (r, st')"
  obtain q st1 where log: "log_administration env c ev st = (q, st1)" by fastforce
  show "recorded R env P st st'"
  proof (cases q)
    case (Inl e)
    with run log log_administration_refused [of env c ev st e st1] show ?thesis
      by (auto simp: recorded_def sem_defs frame_refl)
  next
    case (Inr u)
    with run log have "act st1 = (r, st')" by (simp add: sem_defs)
    then have "prefix (as_log st1) (as_log st')" using framedD [OF act] by (auto simp: kept_def)
    with log Inr log_administration_ok [of env c ev st u st1] ev show ?thesis
      by (auto simp: recorded_def prefix_def)
  qed
qed

lemma authorized_act_recorded:
  assumes "framed (kept R) prepare" and act: "\<And>x. framed (kept (\<lambda>_ _. True)) (act x)"
    and P: "\<And>x. P (log_row env c ((mu_authorized mu x)\<lparr>ev_durable := True\<rparr>))"
  shows "framed (recorded R env P) (authorized_act env c mu prepare act)"
  unfolding authorized_act_def
  by (intro state_frame.framed_bnd [OF recorded_frame] kept_recorded assms(1) recorded_step any.framed_bnd any.framed_basic act)
    (simp_all add: P)

text \<open>What follows the body of a view only adds records.\<close>

lemma outcome_view_tail:
  assumes run: "outcome_view env c act reason risk unknown body finish st = (r, st')"
    and unknown: "framed (kept R) unknown" and finish: "\<And>y. framed (kept R) (finish y)"
  obtains q st1 where "body st = (q, st1)" "kept R st1 st'"
proof -
  obtain q st1 where b: "body st = (q, st1)" by fastforce
  have handlers: "framed (kept R) (bnd unknown (\<lambda>a. ret (OutcomeUnknown a)))"
    "framed (kept R) (backend_failure env c act reason risk e)" "framed (kept R) (raise e)" for e
    by (intro view_rules unknown failure_kept)+
  have "kept R st1 st'"
  proof (cases q)
    case (Inl e)
    have "framed (kept R) (if exn_is OpenBaoMutationUnknownC e then bnd unknown (\<lambda>a. ret (OutcomeUnknown a))
            else if view_handled e then backend_failure env c act reason risk e else raise e)"
      by (intro framed_if handlers)
    then show ?thesis using run b Inl framedD by (fastforce simp: outcome_view_def)
  qed (use run b framedD [OF finish] in \<open>simp add: outcome_view_def\<close>)
  with b that show ?thesis by blast
qed

lemma outcome_view_recorded:
  assumes body: "framed (recorded R env P) body" and unknown: "framed (kept R) unknown"
    and finish: "\<And>y. framed (kept R) (finish y)"
  shows "framed (recorded R env P) (outcome_view env c act reason risk unknown body finish)"
proof (rule framedI)
  fix st r st' assume "outcome_view env c act reason risk unknown body finish st = (r, st')"
  from this unknown finish obtain q st1 where b: "body st = (q, st1)" and "kept R st1 st'"
    by (rule outcome_view_tail)
  then have "recorded R env P st1 st'" by (simp add: kept_def recorded_def)
  with framedD [OF body b] state_frame.frame_trans [OF recorded_frame] show "recorded R env P st st'" by blast
qed

lemma mutation_view_recorded:
  assumes "framed (kept R) prepare" "\<And>x. framed (kept (\<lambda>_ _. True)) (act x)" "framed (kept R) unknown"
    and "\<And>x. P (log_row env c ((mu_authorized mu x)\<lparr>ev_durable := True\<rparr>))"
  shows "framed (recorded R env P) (mutation_view env c mu prepare act unknown)"
  unfolding mutation_view_def
  by (intro outcome_view_recorded authorized_act_recorded framed_cases finish_kept assms)

lemma lifecycle_view_recorded:
  assumes "framed (kept R) prepare" "\<And>x. framed (kept (\<lambda>_ _. True)) (act x)"
    and "\<And>x. P (log_row env c (ev\<lparr>ev_action := ev_action ev @ ''-authorized'', ev_message := authorized x, ev_durable := True\<rparr>))"
  shows "framed (recorded R env P) (lifecycle_view env c ev authorized completed status prepare act)"
  unfolding lifecycle_view_def
  by (intro mutation_view_recorded record_unknown_kept assms) (simp_all add: assms)

end

section \<open>The direct backend\<close>

interpretation direct: quiet_reads unsent "direct_ops cd health (traced rq)"
  by unfold_locales (simp_all add: direct_ops_def unsent_reads unsent_access unsent_final)

text \<open>
  What a view must have recorded when it sent a request that may change the cluster; \<open>needs\<close> are the permissions
  the actor holds on it.
\<close>

definition change_recorded ::
  "admin_env \<Rightarrow> nat \<Rightarrow> (openbao_cluster \<Rightarrow> string list) \<Rightarrow> string
     \<Rightarrow> (('s \<times> admin_request list) admin_state, exn, 'r) sem \<Rightarrow> bool" where
  "change_recorded env pk needs act view =
     (\<forall>st r st'. view st = (r, st') \<and> sent (as_backend st') \<noteq> sent (as_backend st) \<longrightarrow>
        \<not> ae_in_atomic env \<and>
        (\<exists>c. map_of (as_clusters st) pk = Some c \<and> (\<forall>p \<in> set (needs c). aa_permits (ae_actor env) p pk) \<and>
           (\<exists>entry \<in> set (drop (length (as_log st)) (as_log st')).
              adl_cluster entry = clu_pk c \<and> adl_user entry = aa_user (ae_actor env) \<and> adl_action entry = act)))"

definition authorises :: "admin_env \<Rightarrow> openbao_cluster \<Rightarrow> string \<Rightarrow> administration_log \<Rightarrow> bool" where
  "authorises env c act entry =
     (adl_cluster entry = clu_pk c \<and> adl_user entry = aa_user (ae_actor env) \<and> adl_action entry = act)"

lemma get_cluster_cases:
  assumes "bnd (get_cluster env pk permission) f st = (r, st')"
  obtains "st' = st" | c where "map_of (as_clusters st) pk = Some c" "aa_permits (ae_actor env) permission pk" "f c st = (r, st')"
  using assms by (auto simp: get_cluster_def sem_defs split: option.splits if_splits)

lemma lift_sum_cases:
  assumes "bnd (lift_sum z) f st = (r, st')"
  obtains "st' = st" | x where "z = Inr x" "f x st = (r, st')"
  using assms by (auto simp: sem_defs split: sum.splits)

lemma change_recordedI:
  assumes "\<And>st r st'. view st = (r, st') \<Longrightarrow> st' \<noteq> st \<Longrightarrow>
    \<exists>c. map_of (as_clusters st) pk = Some c \<and> (\<forall>p \<in> set (needs c). aa_permits (ae_actor env) p pk)
      \<and> recorded unsent env (authorises env c act) st st'"
  shows "change_recorded env pk needs act view"
  using assms unfolding change_recorded_def recorded_def unsent_def authorises_def by metis

lemma cluster_view_recorded:
  assumes "\<And>c. framed (recorded unsent env (authorises env c act)) (f c)"
  shows "change_recorded env pk (\<lambda>_. [permission]) act (bnd (get_cluster env pk permission) f)"
proof (rule change_recordedI)
  fix st r st' assume "bnd (get_cluster env pk permission) f st = (r, st')" "st' \<noteq> st"
  then obtain c where "map_of (as_clusters st) pk = Some c" "aa_permits (ae_actor env) permission pk" "f c st = (r, st')"
    by (auto elim: get_cluster_cases)
  then show "\<exists>c. map_of (as_clusters st) pk = Some c \<and> (\<forall>p \<in> set [permission]. aa_permits (ae_actor env) p pk)
      \<and> recorded unsent env (authorises env c act) st st'"
    using framedD [OF assms] by auto
qed

text \<open>A view that finds the cluster, checks its request against a contract and asks for the permission of it.\<close>

lemma contract_view_recorded:
  assumes "\<And>c a. z (clu_slug c) = Inr a \<Longrightarrow> framed (recorded unsent env (authorises env c act)) (f a c)"
  shows "change_recorded env pk
     (\<lambda>c. permission # (case z (clu_slug c) of Inl _ \<Rightarrow> [] | Inr a \<Rightarrow> [needed a])) act
     (bnd (get_cluster env pk permission) (\<lambda>c0. bnd (lift_sum (z (clu_slug c0))) (\<lambda>a. bnd (get_cluster env pk (needed a)) (f a))))"
proof (rule change_recordedI)
  fix st r st'
  assume run: "bnd (get_cluster env pk permission) (\<lambda>c0. bnd (lift_sum (z (clu_slug c0))) (\<lambda>a. bnd (get_cluster env pk (needed a)) (f a))) st
      = (r, st')" and moved: "st' \<noteq> st"
  obtain c where c: "map_of (as_clusters st) pk = Some c" "aa_permits (ae_actor env) permission pk"
      and "bnd (lift_sum (z (clu_slug c))) (\<lambda>a. bnd (get_cluster env pk (needed a)) (f a)) st = (r, st')"
    using run moved by (auto elim: get_cluster_cases)
  then obtain a where a: "z (clu_slug c) = Inr a" "bnd (get_cluster env pk (needed a)) (f a) st = (r, st')"
    using moved by (auto elim: lift_sum_cases)
  then have "aa_permits (ae_actor env) (needed a) pk" "f a c st = (r, st')"
    using moved c by (auto elim: get_cluster_cases)
  then show "\<exists>c. map_of (as_clusters st) pk = Some c \<and>
      (\<forall>p \<in> set (permission # (case z (clu_slug c) of Inl _ \<Rightarrow> [] | Inr a \<Rightarrow> [needed a])). aa_permits (ae_actor env) p pk)
      \<and> recorded unsent env (authorises env c act) st st'"
    using framedD [OF assms [OF a(1)]] c a(1) by auto
qed

lemma authorises_log_row:
  "authorises env c act (log_row env c ev) \<longleftrightarrow> take 100 (ev_action ev) = act"
  by (simp add: authorises_def log_row_def)

lemma direct_log_kept: "framed (kept unsent) (bnd (log_administration env c ev) (\<lambda>_. ret x))"
  by (intro direct.view_rules direct.log_kept)

lemma final_execute_recorded:
  "framed (recorded unsent env (authorises env c ''execute-final-resource-authorized''))
     (final_execute kx (direct_ops cd health (traced rq)) env c q f d)"
  unfolding final_execute_def Let_def
  by (intro state_frame.framed_bnd [OF direct.recorded_frame] direct.kept_recorded direct.view_rules direct.final_impact_kept
      direct.recorded_step any.framed_bnd any.framed_basic any_backend; simp add: authorises_log_row final_event_def event_def)

lemma final_preview_recorded:
  "framed (recorded unsent env P) (final_preview kx (direct_ops cd health (traced rq)) env c q f d)"
  unfolding final_preview_def
  by (intro direct.kept_recorded direct.view_rules direct.final_impact_kept direct.log_kept)

lemma access_execute_recorded:
  assumes "access_execute_request slug q = Inr a"
  shows "framed (recorded unsent env (authorises env c ''execute-access-resource-authorized'')) (mutation_view env c
     \<lparr>mu_authorized = (\<lambda>d. (e1 d)\<lparr>ev_action := ''execute-access-resource-authorized'', ev_target_identifiers := targets,
                               ev_outcome := ''authorized'', ev_message := msg\<rparr>),
      mu_completed = e2, mu_failed = e3, mu_reason = e4, mu_risk = e5\<rparr>
     (access_failure (bnd (prepare_access kx (direct_ops cd health (traced rq)) o_spec digest) (\<lambda>d.
        bnd (if cond then ret () else bnd (impact_state (direct_ops cd health (traced rq)) operation a) (\<lambda>impact.
                        check (g impact) err)) (\<lambda>_. ret d))))
     (\<lambda>_. access_failure (bnd (resource_path spec operation i) (\<lambda>path. on_backend (h path)))) (ret u))"
  unfolding access_failure_def resource_path_def
  by (intro direct.mutation_view_recorded direct.view_rules direct.prepare_kept direct.impact_state_kept any.framed_on_exn
      any.framed_bnd any.framed_basic any_backend framed_if reviewed_resource [OF assms]; simp add: authorises_log_row)

section \<open>The quorum\<close>

text \<open>When a lifecycle view moved the backend, its action ran on what was prepared.\<close>

lemma lifecycle_action_ran:
  assumes run: "lifecycle_view env c ev authorized completed status prepare act st = (r, st')"
    and prepare: "framed (kept unsent) prepare" and moved: "sent (as_backend st') \<noteq> sent (as_backend st)"
  obtains x s1 s2 q s3 where "prepare st = (Inr x, s1)" "act x s2 = (q, s3)"
    "sent (as_backend s2) = sent (as_backend st)" "sent (as_backend st') = sent (as_backend s3)"
proof -
  obtain q0 st1 where body: "authorized_act env c
       \<lparr>mu_authorized = (\<lambda>x. ev\<lparr>ev_action := ev_action ev @ ''-authorized'', ev_message := authorized x\<rparr>),
        mu_completed = (\<lambda>x _. ev\<lparr>ev_status_code := Some status, ev_message := completed x\<rparr>),
        mu_failed = ev_action ev, mu_reason = ev_reason ev, mu_risk = ev_risk_level ev\<rparr> prepare act st = (q0, st1)"
      and tail: "kept unsent st1 st'"
    using run unfolding lifecycle_view_def mutation_view_def
    by (rule direct.outcome_view_tail) (intro framed_cases direct.record_unknown_kept direct.finish_kept)+
  obtain p s1 where p: "prepare st = (p, s1)" by fastforce
  with prepare have s1: "sent (as_backend s1) = sent (as_backend st)" by (auto dest!: framedD simp: kept_def unsent_def)
  have st1: "sent (as_backend st') = sent (as_backend st1)" using tail by (simp add: kept_def unsent_def)
  obtain x where x: "p = Inr x" using body p s1 st1 moved by (cases p) (auto simp: authorized_act_def sem_defs)
  obtain l s2 where log: "log_administration env c ((ev\<lparr>ev_action := ev_action ev @ ''-authorized'', ev_message := authorized x\<rparr>)\<lparr>ev_durable := True\<rparr>) s1
      = (l, s2)" by fastforce
  then have s2: "sent (as_backend s2) = sent (as_backend st)" using log_administration_backend s1 by metis
  obtain q s3 where act: "act x s2 = (q, s3)" by fastforce
  have "st1 = (case l of Inl _ \<Rightarrow> s2 | Inr _ \<Rightarrow> s3)"
    using body p x log act by (auto simp: authorized_act_def sem_defs split: sum.splits)
  with s2 st1 moved have "sent (as_backend st') = sent (as_backend s3)" by (cases l) auto
  with that p x act s2 show ?thesis by blast
qed

lemma removable_peer_quorum:
  assumes "removable_peer cfg server_id index = Some p"
  shows "p \<in> set (rc_peers cfg) \<and> rp_node_id p = server_id \<and> \<not> rp_leader p \<and> rc_index cfg = index
     \<and> (\<not> rp_voter p \<or> 3 \<le> length (filter rp_voter (remove1 p (rc_peers cfg))))"
proof -
  have p: "p \<in> set (rc_peers cfg)" "rp_node_id p = server_id" and rest: "\<not> rp_leader p" "rc_index cfg = index"
    and voters: "\<not> rp_voter p \<or> 3 < length (filter rp_voter (rc_peers cfg))"
    using assms by (auto simp: removable_peer_def raft_peer_of_def split: option.splits if_splits dest!: find_SomeD)
  have "filter rp_voter (remove1 p (rc_peers cfg)) = remove1 p (filter rp_voter (rc_peers cfg))"
    by (simp add: filter_remove1)
  then have "rp_voter p \<Longrightarrow> length (filter rp_voter (remove1 p (rc_peers cfg))) = length (filter rp_voter (rc_peers cfg)) - 1"
    using p by (simp add: length_remove1)
  with p rest voters show ?thesis by auto
qed

end
