(* ===== verification/Admin_Safety.thy ===== *)
theory Admin_Safety
  imports Admin_Contracts Admin_Trace
begin

text \<open>
  The safety of the administration views, over every requester: no change without its record, and no removal that
  loses the quorum. A small cluster of four nodes shows the runs they are about.
\<close>

section \<open>A cluster\<close>

text \<open>Its answers, by path; the body of an answer is the path, which the codec of the example decodes.\<close>

definition server :: "string \<Rightarrow> bool \<Rightarrow> json" where
  "server name leader = JObj [(''node_id'', JStr name), (''address'', JStr ''10.0.0.1:8201''), (''leader'', JBool leader), (''voter'', JBool True)]"

definition answers :: payload where
  "answers =
     [(''/sys/seal-status'', JObj [(''initialized'', JBool True), (''sealed'', JBool False), (''version'', JStr ''2.6.2''),
         (''storage_type'', JStr ''raft''), (''cluster_id'', JStr ''c1'')]),
      (''/sys/leader'', JObj [(''ha_enabled'', JBool True), (''is_self'', JBool True)]),
      (''/sys/storage/raft/configuration'', JObj [(''data'', JObj [(''config'', JObj [(''index'', JNum 7),
         (''servers'', JArr [server ''a'' True, server ''b'' False, server ''c'' False, server ''d'' False])])])])]"

definition example_codec :: codec where
  "example_codec = \<lparr>json_loads = (\<lambda>body. case dict_get answers body of None \<Rightarrow> Inl (PythonError ''JSONDecodeError'') | Some j \<Rightarrow> Inr j),
                    json_dumps = (\<lambda>_. None), json_sha256 = (\<lambda>_. [])\<rparr>"

definition example_requester :: "unit requester" where
  "example_requester r s =
     (Inr \<lparr>rs_status = (if mutating (rq_method r) then 204 else 200), rs_redirect = False, rs_headers = [], rs_body = Some (rq_path r)\<rparr>, s)"

definition example_versions :: "string versions" where
  "example_versions = \<lparr>ver_parse = Some, ver_less = (\<lambda>_ _. False), ver_release = (\<lambda>_. [2, 6, 2])\<rparr>"

definition example_cluster :: openbao_cluster where
  "example_cluster = \<lparr>clu_pk = 3, clu_name = ''prod'', clu_slug = ''prod'', clu_backend = BACKEND_OPENBAO, clu_api_url = [], clu_namespace = [],
     clu_auth_method = METHOD_TOKEN, clu_tls_verify = True, clu_ca_cert_path = [], clu_status = STATUS_UNKNOWN, clu_status_message = [],
     clu_last_checked = None, clu_openbao_version = [], clu_capability_digest = [], clu_capabilities_checked = None\<rparr>"

definition example_env :: admin_env where
  "example_env = \<lparr>ae_now = 0, ae_in_atomic = False, ae_commits = (\<lambda>_. True),
     ae_actor = \<lparr>aa_user = Some 1, aa_username = ''op'', aa_client_ip = None, aa_request_id = [], aa_permits = (\<lambda>_ _. True),
                 aa_has_perm = (\<lambda>_ _. True)\<rparr>\<rparr>"

definition example_state :: "(unit \<times> admin_request list) admin_state" where
  "example_state = \<lparr>as_backend = ((), []), as_clusters = [(3, example_cluster)], as_log = [], as_attempts = 0\<rparr>"

abbreviation example_ops :: "(unit \<times> admin_request list) admin_ops" where
  "example_ops \<equiv> direct_ops example_codec (raise audit_error) (traced example_requester)"

lemma example_answer:
  assumes "dict_get answers path = Some (JObj p)" "length path \<le> MAX_CLUSTER_JSON_BYTES" "\<not> mutating verb"
  shows "request_json example_codec (traced example_requester) (request verb path b) s
     = (Inr (JObj p), (fst s, snd s @ [request verb path b]))"
  using assms
  by (simp add: request_json_def traced_def sem_defs example_codec_def example_requester_def response_json_def read_json_def sbind_def)

lemma lift_sum_Inr: "lift_sum (Inr x) s = (Inr x, s)"
  by (simp add: sem_defs)

text \<open>What the three documents normalise to.\<close>

definition open_status :: seal_status where
  "open_status = \<lparr>st_initialized = True, st_sealed = False, st_threshold = 0, st_shares = 0, st_progress = 0, st_version = ''2.6.2'',
     st_seal_type = [], st_migration = False, st_recovery_seal = False, st_storage_type = ''raft'', st_cluster_name = [], st_cluster_id = ''c1''\<rparr>"

definition own_leader :: leader_status where
  "own_leader = \<lparr>ls_ha_enabled = True, ls_is_self = True, ls_leader_address = [], ls_leader_cluster_address = [], ls_active_time = [],
     ls_raft_committed_index = 0, ls_raft_applied_index = 0\<rparr>"

definition peer :: "string \<Rightarrow> bool \<Rightarrow> raft_peer" where
  "peer name leader = \<lparr>rp_node_id = name, rp_address = ''10.0.0.1:8201'', rp_leader = leader, rp_voter = True, rp_protocol_version = []\<rparr>"

definition four_voters :: raft_configuration where
  "four_voters = \<lparr>rc_index = 7, rc_peers = [peer ''a'' True, peer ''b'' False, peer ''c'' False, peer ''d'' False]\<rparr>"

lemmas field_defs = sbind_def cluster_mapping_def json_object_def cluster_boolean_def cluster_integer_def optional_string_def
  cluster_string_def control_def jget_def jget_or_def dict_get_def

lemma example_peer: "name \<in> {''a'', ''b'', ''c'', ''d''} \<Longrightarrow> normalize_raft_peer (server name leader) = Inr (peer name leader)"
  by (elim insertE emptyE) (simp_all add: server_def peer_def normalize_raft_peer_def raft_protocol_def field_defs)

lemma documents:
  "normalize_seal_status (JObj [(''initialized'', JBool True), (''sealed'', JBool False), (''version'', JStr ''2.6.2''),
      (''storage_type'', JStr ''raft''), (''cluster_id'', JStr ''c1'')]) = Inr open_status"
  "normalize_leader_status (JObj [(''ha_enabled'', JBool True), (''is_self'', JBool True)]) = Inr own_leader"
  "normalize_raft_configuration (JObj [(''data'', JObj [(''config'', JObj [(''index'', JNum 7),
      (''servers'', JArr [server ''a'' True, server ''b'' False, server ''c'' False, server ''d'' False])])])]) = Inr four_voters"
    apply (simp add: normalize_seal_status_def field_defs open_status_def)
   apply (simp add: normalize_leader_status_def field_defs own_leader_def)
  apply (simp add: normalize_raft_configuration_def field_defs four_voters_def MAX_RAFT_PEERS_def example_peer)
  apply (simp add: peer_def)
  done

lemma example_reads:
  "read_seal_status example_codec (traced example_requester) s =
     (Inr open_status, (fst s, snd s @ [request ''GET'' ''/sys/seal-status'' False]))"
  "read_leader_status example_codec (traced example_requester) s =
     (Inr own_leader, (fst s, snd s @ [request ''GET'' ''/sys/leader'' True]))"
  "read_raft_configuration example_codec (traced example_requester) s =
     (Inr four_voters, (fst s, snd s @ [request ''GET'' ''/sys/storage/raft/configuration'' True]))"
  unfolding read_seal_status_def read_leader_status_def read_raft_configuration_def fetched_def bnd_def
  by (subst example_answer, simp add: answers_def dict_get_def, simp add: MAX_CLUSTER_JSON_BYTES_def, simp add: reading,
      simp, simp only: normalize_with_def documents, simp add: lift_sum_Inr)+

section \<open>Properties\<close>

text \<open>C31: No change of a cluster without its record. Whatever the server answers the direct backend, when one of the
  lifecycle views (initialise, join, unseal, reset, seal, remove a peer, restore a snapshot) has sent a request that may change
  the cluster, the cluster exists, its actor held the permission of that view on it, no surrounding transaction could
  roll the record back, and the log gained a row naming the cluster, the actor and the authorised action.\<close>

theorem lifecycle_changes_recorded:
  "let bk = direct_ops cd health (traced rq) in
     change_recorded env pk (\<lambda>_. [''initialize'']) ''initialize-authorized'' (initialize_view vs bk env pk reason p) \<and>
     change_recorded env pk (\<lambda>_. [''join_raft'']) ''join-raft-authorized'' (join_raft_view vs bk env pk reason p) \<and>
     change_recorded env pk (\<lambda>_. [''unseal'']) (if reset then ''reset-unseal-authorized'' else ''unseal-authorized'')
       (unseal_view vs bk env pk reason share reset migrate) \<and>
     change_recorded env pk (\<lambda>_. [''seal'']) ''seal-authorized'' (seal_view vs bk env pk reason) \<and>
     change_recorded env pk (\<lambda>_. [''remove_raft_peer'']) ''remove-raft-peer-authorized''
       (remove_raft_peer_view vs bk env pk reason server_id index) \<and>
     change_recorded env pk (\<lambda>_. [(if force then ''force_restore_raft_snapshot'' else ''restore_raft_snapshot'')])
       (if force then ''force-restore-raft-snapshot-authorized'' else ''restore-raft-snapshot-authorized'')
       (restore_snapshot_view vs bk env pk reason cluster_id index upload force)"
  unfolding initialize_view_def join_raft_view_def unseal_view_def seal_view_def remove_raft_peer_view_def
    restore_snapshot_view_def Let_def
  by (intro conjI cluster_view_recorded direct.lifecycle_view_recorded direct.view_rules direct.status_kept direct.on_backend_kept
      direct.quiet_status any_backend framed_cases; simp add: authorises_log_row lifecycle_event_def event_def)


text \<open>C32: The same for the reviewed contracts: a policy, identity, provider, namespace, lease, wrapping or tool operation
  changes the cluster only after its durable record, for an actor who holds both the permission of the view and the
  one its operation declares; the requests that describe its impact beforehand change nothing.\<close>

theorem contract_changes_recorded:
  "let bk = direct_ops cd health (traced rq) in
     change_recorded env pk
       (\<lambda>c. ''view_access'' # (case access_execute_request (clu_slug c) q of
               Inl _ \<Rightarrow> [] | Inr a \<Rightarrow> [permission_action (ao_permission (aq_operation a))]))
       ''execute-access-resource-authorized'' (access_execute_view kx bk env pk q) \<and>
     change_recorded env pk
       (\<lambda>c. ''view_operations'' # (case final_operation_request kx (clu_slug c) q of
               Inl _ \<Rightarrow> [] | Inr f \<Rightarrow> [permission_action (fo_permission (fq_operation f))]))
       ''execute-final-resource-authorized'' (final_operate_view kx bk env pk q)"
  unfolding Let_def access_execute_view_def final_operate_view_def
proof (intro conjI contract_view_recorded, goal_cases)
  case (1 c a)
  then show ?case by (rule access_execute_recorded)
next
  case (2 c f)
  show ?case
    by (intro direct.outcome_view_recorded state_frame.framed_bnd [OF direct.recorded_frame] direct.kept_recorded
        direct.prepare_kept framed_if final_preview_recorded final_execute_recorded direct.record_unknown_kept)
      (auto split: final_outcome.split intro: direct.finish_kept direct.view_rules)
qed


text \<open>C36: A peer is removed only from a configuration that was read first, is the one the operator reviewed and keeps a
  quorum: when the view sent anything that may change the cluster, it sent exactly the removal of the requested
  node, which is in the configuration and not its leader, and three other voters remain when it votes.\<close>

theorem removal_keeps_quorum:
  fixes rq :: "'s requester"
  assumes "remove_raft_peer_view vs (direct_ops cd health (traced rq)) env pk reason server_id index st = (r, st')"
    and "sent (as_backend st') \<noteq> sent (as_backend st)"
  shows "\<exists>cfg p b b' removal.
     read_raft_configuration cd (traced rq) b = (Inr cfg, b') \<and> rc_index cfg = index
     \<and> p \<in> set (rc_peers cfg) \<and> rp_node_id p = server_id \<and> \<not> rp_leader p
     \<and> (\<not> rp_voter p \<or> 3 \<le> length (filter rp_voter (remove1 p (rc_peers cfg))))
     \<and> sent (as_backend st') = sent (as_backend st) @ [removal]
     \<and> rq_path removal = ''/sys/storage/raft/remove-peer'' \<and> rq_json removal = Some (JObj [(''server_id'', JStr server_id)])"
proof -
  let ?bk = "direct_ops cd health (traced rq)"
  define prepare :: "(('s \<times> admin_request list) admin_state, exn, raft_peer \<times> raft_configuration) sem" where "prepare =
     bnd (baseline_status vs ?bk) (\<lambda>s. bnd (on_backend (bk_leader_status ?bk)) (\<lambda>l.
        bnd (check (unsealed_raft s \<and> \<not> (ls_ha_enabled l \<and> \<not> ls_is_self l)) (conflict [])) (\<lambda>_.
        bnd (on_backend (bk_raft_configuration ?bk)) (\<lambda>cfg.
        bnd (get_or (removable_peer cfg server_id index) (conflict [])) (\<lambda>p. ret (p, cfg))))))"
  obtain c where view: "lifecycle_view env c
       (lifecycle_event ''remove-raft-peer'' ''raft-remove-peer'' ''destructive'' ''/sys/storage/raft/remove-peer'' reason)
       (\<lambda>(p, _). ''Authorized removal of Raft peer '' @ rp_node_id p @ ''.'')
       (\<lambda>(p, _). ''Removed Raft peer '' @ rp_node_id p @ ''.'') 200 prepare
       (\<lambda>(p, _). on_backend (bk_remove_raft_peer ?bk (rp_node_id p))) st = (r, st')"
    using assms unfolding remove_raft_peer_view_def prepare_def [symmetric] by (auto elim: get_cluster_cases)
  have "framed (kept unsent) prepare"
    unfolding prepare_def by (intro direct.view_rules direct.status_kept direct.on_backend_kept direct.quiet_status)
  from view this assms(2) obtain x s1 s2 q s3 where run: "prepare st = (Inr x, s1)"
      "(case x of (p, _) \<Rightarrow> on_backend (bk_remove_raft_peer ?bk (rp_node_id p))) s2 = (q, s3)"
      and sent: "sent (as_backend s2) = sent (as_backend st)" "sent (as_backend st') = sent (as_backend s3)"
    by (rule lifecycle_action_ran)
  obtain p cfg where x: "x = (p, cfg)" by fastforce
  obtain b b' where cfg: "read_raft_configuration cd (traced rq) b = (Inr cfg, b')" and p: "removable_peer cfg server_id index = Some p"
    using run(1) unfolding prepare_def x
    by (auto simp: sem_defs on_backend_def direct_ops_def split: prod.splits sum.splits option.splits if_splits)
  obtain removal where removal: "snd (as_backend s3) = snd (as_backend s2) @ [removal]" "changing removal"
      "rq_path removal = ''/sys/storage/raft/remove-peer''" "rq_json removal = Some (JObj [(''server_id'', JStr (rp_node_id p))])"
    using run(2) unfolding x
    by (auto simp: on_backend_def direct_ops_def remove_raft_peer_def performed_def sem_defs sending_def request_def changing_def
        mutating_def upper_char_def dest!: traced_run split: prod.splits sum.splits)
  have "sent (as_backend st') = sent (as_backend st) @ [removal]"
    using removal(1,2) sent by (simp add: sent_def)
  with cfg removable_peer_quorum [OF p] removal(3,4) show ?thesis
    by (intro exI [of _ cfg] exI [of _ p] exI [of _ b] exI [of _ b'] exI [of _ removal]) simp
qed




lemmas example_run = lift_sum_def ret_def raise_def gets_def check_def get_or_def on_backend_def direct_ops_def example_reads log_administration_def Let_def
  require_baseline_def supported_version_def srequire_def removable_peer_def raft_peer_of_def unsealed_raft_def baseline_status_def
  example_state_def example_env_def

definition removal_prepare :: "((unit \<times> admin_request list) admin_state, exn, raft_peer \<times> raft_configuration) sem" where "removal_prepare =
     bnd (baseline_status example_versions example_ops) (\<lambda>s. bnd (on_backend (bk_leader_status example_ops)) (\<lambda>l.
        bnd (check (unsealed_raft s \<and> \<not> (ls_ha_enabled l \<and> \<not> ls_is_self l)) (conflict [])) (\<lambda>_.
        bnd (on_backend (bk_raft_configuration example_ops)) (\<lambda>cfg.
        bnd (get_or (removable_peer cfg ''b'' 7) (conflict [])) (\<lambda>p. ret (p, cfg))))))"

lemma removal_prepared:
  "removal_prepare example_state = (Inr (peer ''b'' False, four_voters),
     example_state\<lparr>as_backend := ((), [request ''GET'' ''/sys/seal-status'' False, request ''GET'' ''/sys/leader'' True,
        request ''GET'' ''/sys/storage/raft/configuration'' True])\<rparr>)"
  by (simp add: removal_prepare_def run_steps example_run example_versions_def open_status_def own_leader_def four_voters_def peer_def cong: run_congs)


lemma traced_removal:
  "remove_raft_peer (traced example_requester) server_id s =
     (Inr (), (fst s, snd s @ [(sending (JObj [(''server_id'', JStr server_id)])
        (request ''POST'' ''/sys/storage/raft/remove-peer'' True))\<lparr>rq_expected := [200, 204]\<rparr>]))"
  by (simp add: remove_raft_peer_def performed_def traced_def example_requester_def sem_defs)

lemma finish_kept_backend: "finish_mutation env c ev r st = (x, st') \<Longrightarrow> as_backend st' = as_backend st"
  by (auto simp: finish_mutation_def sem_defs audit_error_def split: prod.splits sum.splits if_splits dest!: log_administration_backend)

lemma example_fields:
  "as_backend example_state = ((), [])" "as_clusters example_state = [(3, example_cluster)]" "as_log example_state = []"
  "as_attempts example_state = 0" "ae_in_atomic example_env = False" "ae_commits example_env k = True"
  by (simp_all add: example_state_def example_env_def)

lemma removal_acted:
  assumes "\<And>x. ev_target_identifiers (mu_authorized mu x) = []"
  obtains st1 where "authorized_act example_env example_cluster mu removal_prepare
      (\<lambda>(p, _). on_backend (bk_remove_raft_peer example_ops (rp_node_id p))) example_state = (Inr ((peer ''b'' False, four_voters), ()), st1)"
    "map rq_path (sent (as_backend st1)) = [''/sys/storage/raft/remove-peer'']"
  by (simp add: authorized_act_def run_steps removal_prepared log_administration_def Let_def example_fields
      on_backend_def direct_ops_def traced_removal ret_def assms sent_def changing_def sending_def mutating_def upper_char_def
      request_def cong: run_congs)

lemma removal_ran:
  assumes "ev_target_identifiers ev = []"
    and run: "lifecycle_view example_env example_cluster ev authorized completed 200 removal_prepare
      (\<lambda>(p, _). on_backend (bk_remove_raft_peer example_ops (rp_node_id p))) example_state = (r, st')"
  shows "map rq_path (sent (as_backend st')) = [''/sys/storage/raft/remove-peer'']"
proof -
  let ?mu = "\<lparr>mu_authorized = (\<lambda>x. ev\<lparr>ev_action := ev_action ev @ ''-authorized'', ev_message := authorized x\<rparr>),
        mu_completed = (\<lambda>x _. ev\<lparr>ev_status_code := Some 200, ev_message := completed x\<rparr>),
        mu_failed = ev_action ev, mu_reason = ev_reason ev, mu_risk = ev_risk_level ev\<rparr>"
  obtain st1 where act: "authorized_act example_env example_cluster ?mu removal_prepare
      (\<lambda>(p, _). on_backend (bk_remove_raft_peer example_ops (rp_node_id p))) example_state = (Inr ((peer ''b'' False, four_voters), ()), st1)"
    and path: "map rq_path (sent (as_backend st1)) = [''/sys/storage/raft/remove-peer'']"
    using removal_acted [of ?mu] assms(1) by auto
  show ?thesis
    using run path by (simp add: lifecycle_view_def mutation_view_def outcome_view_def act) (auto dest: finish_kept_backend)
qed

lemma example_removal:
  obtains r st' where "remove_raft_peer_view example_versions example_ops example_env 3 [] ''b'' 7 example_state = (r, st')"
    "map rq_path (sent (as_backend st')) = [''/sys/storage/raft/remove-peer'']"
proof -
  obtain r st' where run: "remove_raft_peer_view example_versions example_ops example_env 3 [] ''b'' 7 example_state = (r, st')"
    by fastforce
  have got: "bnd (get_cluster example_env 3 permission) f example_state = f example_cluster example_state" for permission f
    by (simp add: get_cluster_def run_steps example_run)
  have "map rq_path (sent (as_backend st')) = [''/sys/storage/raft/remove-peer'']"
    using run unfolding remove_raft_peer_view_def got removal_prepare_def [symmetric]
    by (rule removal_ran [rotated]) (simp add: lifecycle_event_def event_def)
  then show ?thesis by (rule that [OF run])
qed

theorem removal_keeps_quorum_witness:
  "\<exists>r st' cfg p b b' removal. remove_raft_peer_view example_versions example_ops example_env 3 [] ''b'' 7 example_state = (r, st')
     \<and> read_raft_configuration example_codec (traced example_requester) b = (Inr cfg, b') \<and> p \<in> set (rc_peers cfg) \<and> rp_node_id p = ''b''
     \<and> sent (as_backend st') = [removal]"
proof -
  obtain r st' where run: "remove_raft_peer_view example_versions example_ops example_env 3 [] ''b'' 7 example_state = (r, st')"
    "map rq_path (sent (as_backend st')) = [''/sys/storage/raft/remove-peer'']"
    by (rule example_removal)
  then have "sent (as_backend st') \<noteq> sent (as_backend example_state)" by (auto simp: example_fields sent_def)
  from removal_keeps_quorum [OF run(1) this] run(1) show ?thesis
    by (auto simp: example_fields sent_def)
qed

theorem lifecycle_changes_recorded_witness:
  "\<exists>r st'. remove_raft_peer_view example_versions example_ops example_env 3 [] ''b'' 7 example_state = (r, st') \<and> sent (as_backend st') \<noteq> []
     \<and> (\<exists>entry \<in> set (as_log st'). adl_user entry = Some 1 \<and> adl_action entry = ''remove-raft-peer-authorized'')"
proof -
  obtain r st' where run: "remove_raft_peer_view example_versions example_ops example_env 3 [] ''b'' 7 example_state = (r, st')"
    "map rq_path (sent (as_backend st')) = [''/sys/storage/raft/remove-peer'']"
    by (rule example_removal)
  then have ch: "sent (as_backend st') \<noteq> sent (as_backend example_state)" by (auto simp: example_fields sent_def)
  have "change_recorded example_env 3 (\<lambda>_. [''remove_raft_peer'']) ''remove-raft-peer-authorized''
      (remove_raft_peer_view example_versions example_ops example_env 3 [] ''b'' 7)"
    using lifecycle_changes_recorded [of example_codec "raise audit_error" example_requester example_env 3 example_versions]
    unfolding Let_def by blast
  then have "\<exists>entry \<in> set (as_log st'). adl_user entry = aa_user (ae_actor example_env) \<and> adl_action entry = ''remove-raft-peer-authorized''"
    using run(1) ch unfolding change_recorded_def by (fastforce simp: example_fields)
  with run ch show ?thesis by (auto simp: example_env_def example_fields sent_def)
qed

end
