(* ===== verification/Admin_Engine_Views.thy ===== *)
theory Admin_Engine_Views
  imports Admin_Contracts
begin

text \<open>
  The views over secret engines, the mounted-operation explorer and the first-class journeys
  (\<^verbatim>\<open>api/engine_views.py\<close>, \<^verbatim>\<open>api/engine_serializers.py\<close>). The field types of the REST framework are the types of the
  requests; the checks the serializers add are modelled. \<open>ee_dumps\<close> is the encoding that bounds a body, and
  \<open>ee_inventory\<close> answers whether a credential row lies on a mount of a cluster.
\<close>

definition RESERVED_MOUNT_PATHS :: "string list" where
  "RESERVED_MOUNT_PATHS = [''cubbyhole'', ''identity'', ''sys'']"

record 'v engine_env =
  ee_versions :: "'v versions"
  ee_dumps :: "json \<Rightarrow> string option"
  ee_inventory :: "nat \<Rightarrow> string \<Rightarrow> bool"

definition refused :: "string \<Rightarrow> exn" where
  "refused m = ValidationError [] m"

section \<open>Requests\<close>

text \<open>\<open>_safe\<close>: a schema error becomes a validation error with its text.\<close>

definition safely :: "exn + 'a \<Rightarrow> exn + 'a" where
  "safely r = (case r of Inl (CapabilitySchemaError m) \<Rightarrow> Inl (refused m) | _ \<Rightarrow> r)"

definition mount_field :: "string \<Rightarrow> exn + string" where
  "mount_field s = safely (normalize_engine_mount_path (JStr s))"

definition enable_request :: "'v engine_env \<Rightarrow> string \<Rightarrow> json \<Rightarrow> exn + (string \<times> payload)" where
  "enable_request ee mount configuration =
     sbind (mount_field mount) (\<lambda>m.
     sbind (srequire (m \<notin> set RESERVED_MOUNT_PATHS) (refused ''This mount path is reserved by OpenBao.'')) (\<lambda>_.
     sbind (safely (validate_enable_payload (ee_dumps ee) configuration)) (\<lambda>p. Inr (m, p))))"

definition tune_request :: "'v engine_env \<Rightarrow> string \<Rightarrow> json \<Rightarrow> exn + (string \<times> payload)" where
  "tune_request ee mount configuration =
     sbind (mount_field mount) (\<lambda>m.
     sbind (safely (validate_tune_payload (ee_dumps ee) configuration)) (\<lambda>p. Inr (m, p)))"

definition remount_request :: "string \<Rightarrow> string \<Rightarrow> string \<Rightarrow> string \<Rightarrow> exn + (string \<times> string)" where
  "remount_request slug source destination confirmation =
     sbind (mount_field source) (\<lambda>s.
     sbind (mount_field destination) (\<lambda>d.
     sbind (srequire (d \<notin> set RESERVED_MOUNT_PATHS) (refused ''This destination is reserved by OpenBao.'')) (\<lambda>_.
     sbind (srequire (s \<noteq> d \<and> confirmation = ''REMOUNT '' @ s @ '' TO '' @ d @ '' ON '' @ slug)
              (refused ''The exact remount confirmation is required.'')) (\<lambda>_. Inr (s, d)))))"

definition disable_request :: "string \<Rightarrow> string \<Rightarrow> string \<Rightarrow> exn + string" where
  "disable_request slug mount confirmation =
     sbind (mount_field mount) (\<lambda>m.
     sbind (srequire (m \<notin> set RESERVED_MOUNT_PATHS \<and> confirmation = ''DISABLE ENGINE '' @ m @ '' ON '' @ slug)
              (refused ''The exact disable confirmation is required.'')) (\<lambda>_. Inr m))"

definition migration_field :: "string \<Rightarrow> exn + string" where
  "migration_field s = safely (normalize_migration_id (JStr s))"

text \<open>The envelope of an explorer execution; \<open>xq_key\<close> is the operation key, or the journey.\<close>

record explorer_request =
  xq_key :: string
  xq_capability_digest :: string
  xq_mount_path :: string
  xq_resource_path :: string
  xq_path_parameters :: json
  xq_query :: json
  xq_body :: json
  xq_reason :: string
  xq_confirmation :: string

record explorer_fields =
  xf_mount :: string
  xf_resource :: string
  xf_parameters :: payload
  xf_query :: payload
  xf_body :: payload

definition explorer_fields_of :: "'v engine_env \<Rightarrow> explorer_request \<Rightarrow> exn + explorer_fields" where
  "explorer_fields_of ee q =
     sbind (mount_field (xq_mount_path q)) (\<lambda>m.
     sbind (if xq_resource_path q = [] then Inr [] else safely (normalize_resource_path (JStr (xq_resource_path q)))) (\<lambda>r.
     sbind (json_object (xq_path_parameters q) (refused ''The mounted operation path parameters are invalid.'')) (\<lambda>ps.
     sbind (safely (validate_query (ee_dumps ee) (xq_query q))) (\<lambda>qs.
     sbind (safely (validate_bounded_json (ee_dumps ee) (xq_body q) None)) (\<lambda>b.
     Inr \<lparr>xf_mount = m, xf_resource = r, xf_parameters = ps, xf_query = qs, xf_body = b\<rparr>)))))"

section \<open>The document a view works from\<close>

definition engine_document ::
  "'v engine_env \<Rightarrow> 's admin_ops \<Rightarrow> ('s admin_state, exn, capability_document) sem" where
  "engine_document ee bk =
     bnd (baseline_status (ee_versions ee) bk) (\<lambda>s.
     bnd (check (st_initialized s \<and> \<not> st_sealed s)
            (conflict ''The OpenBao cluster is not ready for secret-engine administration.'')) (\<lambda>_.
     bnd (on_backend (bk_discover bk)) (\<lambda>d.
     bnd (check (supported_version (ee_versions ee) (cd_product_version d))
            (conflict ''OpenBao returned an unsupported capability version.'')) (\<lambda>_. ret d))))"

definition ENGINE_LIFECYCLE_OPERATIONS :: "((string \<times> string) \<times> string) list" where
  "ENGINE_LIFECYCLE_OPERATIONS =
     [((''GET'', ''/sys/mounts''), ''mounts-list-secrets-engines''),
      ((''GET'', ''/sys/mounts/{path}''), ''mounts-read-configuration''),
      ((''POST'', ''/sys/mounts/{path}''), ''mounts-enable-secrets-engine''),
      ((''GET'', ''/sys/mounts/{path}/tune''), ''mounts-read-tuning-information''),
      ((''POST'', ''/sys/mounts/{path}/tune''), ''mounts-tune-configuration-parameters''),
      ((''DELETE'', ''/sys/mounts/{path}''), ''mounts-disable-secrets-engine''),
      ((''POST'', ''/sys/remount''), ''remount''),
      ((''GET'', ''/sys/remount/status/{migration_id}''), ''remount-status'')]"

definition advertises_lifecycle :: "capability_document \<Rightarrow> string \<Rightarrow> string \<Rightarrow> bool" where
  "advertises_lifecycle d verb path =
     (case map_of ENGINE_LIFECYCLE_OPERATIONS (verb, path) of
        None \<Rightarrow> False
      | Some i \<Rightarrow> list_ex (\<lambda>x. op_method x = verb \<and> op_path_template x = path \<and> op_id x = i) (cd_operations d))"

definition prepare_engine_operation ::
  "'v engine_env \<Rightarrow> 's admin_ops \<Rightarrow> string \<Rightarrow> string \<Rightarrow> ('s admin_state, exn, capability_document) sem" where
  "prepare_engine_operation ee bk verb path =
     bnd (engine_document ee bk) (\<lambda>d.
     bnd (check (advertises_lifecycle d verb path) (conflict ''OpenBao does not advertise the reviewed operation.'')) (\<lambda>_. ret d))"

definition mount_paths :: "'s admin_ops \<Rightarrow> ('s admin_state, exn, string list) sem" where
  "mount_paths bk = bnd (on_backend (bk_list_secret_engines bk)) (\<lambda>ms. ret (map sem_path ms))"

section \<open>Records\<close>

record reviewed =
  rv_operation :: string \<comment> \<open>what the record of a completed operation is named\<close>
  rv_operation_id :: string
  rv_risk :: string
  rv_method :: string
  rv_path :: string
  rv_reason :: string
  rv_digest :: string

definition engine_event :: "reviewed \<Rightarrow> string \<Rightarrow> audit_event" where
  "engine_event v act =
     (event act)\<lparr>ev_operation_id := rv_operation_id v, ev_risk_level := rv_risk v, ev_method := rv_method v,
       ev_path_template := rv_path v, ev_reason := rv_reason v, ev_capability_digest := rv_digest v\<rparr>"

definition completed_event :: "reviewed \<Rightarrow> audit_event" where
  "completed_event v =
     (engine_event v (rv_operation v))\<lparr>ev_operation_id := rv_operation v, ev_status_code := Some 200,
       ev_message := ''Completed a reviewed OpenBao secrets-engine operation.''\<rparr>"

text \<open>\<open>except (AdministrationAuditError, OpenBaoError)\<close>.\<close>

definition engine_handled :: "exn \<Rightarrow> bool" where
  "engine_handled e = (is_openbao e \<or> e = audit_error)"

definition engine_read ::
  "admin_env \<Rightarrow> openbao_cluster \<Rightarrow> string \<Rightarrow> ('s admin_state, exn, 'a) sem \<Rightarrow> ('s admin_state, exn, 'a) sem" where
  "engine_read env c act m =
     on_exn m (\<lambda>e. if engine_handled e then backend_failure env c act [] ''read'' e else raise e)"

definition read_event :: "string \<Rightarrow> string \<Rightarrow> capability_document \<Rightarrow> audit_event" where
  "read_event operation path d =
     completed_event \<lparr>rv_operation = operation, rv_operation_id = operation, rv_risk = ''read'', rv_method = ''GET'',
       rv_path = path, rv_reason = [], rv_digest = cd_digest d\<rparr>"

section \<open>Reads\<close>

definition secret_engines_view ::
  "'v engine_env \<Rightarrow> 's admin_ops \<Rightarrow> admin_env \<Rightarrow> nat \<Rightarrow> ('s admin_state, exn, secret_engine_mount list \<times> string) sem" where
  "secret_engines_view ee bk env pk =
     bnd (get_cluster env pk ''view_secret_engines'') (\<lambda>c.
     engine_read env c ''secret-engine-list''
       (bnd (prepare_engine_operation ee bk ''GET'' ''/sys/mounts'') (\<lambda>d.
        bnd (on_backend (bk_list_secret_engines bk)) (\<lambda>ms.
        bnd (log_administration env c (read_event ''secret-engine-list'' ''/sys/mounts'' d)) (\<lambda>_.
        ret (ms, cd_digest d))))))"

definition read_engine_metadata ::
  "'v engine_env \<Rightarrow> 's admin_ops \<Rightarrow> admin_env \<Rightarrow> openbao_cluster \<Rightarrow> string \<Rightarrow> string \<Rightarrow> string
     \<Rightarrow> (json \<Rightarrow> ('s, exn, json) sem) \<Rightarrow> ('s admin_state, exn, json) sem" where
  "read_engine_metadata ee bk env c mount operation path producer =
     bnd (lift_sum (mount_field mount)) (\<lambda>m.
     engine_read env c operation
       (bnd (prepare_engine_operation ee bk ''GET'' path) (\<lambda>d.
        bnd (mount_paths bk) (\<lambda>ms.
        bnd (check (m \<in> set ms) (conflict ''The secret-engine mount is unavailable.'')) (\<lambda>_.
        bnd (on_backend (producer (JStr m))) (\<lambda>r.
        bnd (log_administration env c (read_event operation path d)) (\<lambda>_. ret r)))))))"

definition engine_configuration_view ::
  "'v engine_env \<Rightarrow> 's admin_ops \<Rightarrow> admin_env \<Rightarrow> nat \<Rightarrow> string \<Rightarrow> ('s admin_state, exn, json) sem" where
  "engine_configuration_view ee bk env pk mount =
     bnd (get_cluster env pk ''view_secret_engines'') (\<lambda>c.
     read_engine_metadata ee bk env c mount ''secret-engine-configuration'' ''/sys/mounts/{path}'' (bk_read_secret_engine bk))"

definition engine_tuning_view ::
  "'v engine_env \<Rightarrow> 's admin_ops \<Rightarrow> admin_env \<Rightarrow> nat \<Rightarrow> string \<Rightarrow> ('s admin_state, exn, json) sem" where
  "engine_tuning_view ee bk env pk mount =
     bnd (get_cluster env pk ''view_secret_engines'') (\<lambda>c.
     read_engine_metadata ee bk env c mount ''secret-engine-tuning'' ''/sys/mounts/{path}/tune'' (bk_read_secret_engine_tuning bk))"

definition remount_status_view ::
  "'v engine_env \<Rightarrow> 's admin_ops \<Rightarrow> admin_env \<Rightarrow> nat \<Rightarrow> string \<Rightarrow> ('s admin_state, exn, json) sem" where
  "remount_status_view ee bk env pk migration =
     bnd (get_cluster env pk ''view_secret_engines'') (\<lambda>c.
     bnd (lift_sum (migration_field migration)) (\<lambda>i.
     engine_read env c ''secret-engine-remount-status''
       (bnd (prepare_engine_operation ee bk ''GET'' ''/sys/remount/status/{migration_id}'') (\<lambda>d.
        bnd (on_backend (bk_secret_engine_remount_status bk (JStr i))) (\<lambda>r.
        bnd (log_administration env c (read_event ''secret-engine-remount-status'' ''/sys/remount/status/{migration_id}'' d)) (\<lambda>_.
        ret r))))))"

section \<open>Changes\<close>

text \<open>
  The shape of a change: prepare, commit the durable record, act, record the outcome. An outcome can be unknown only once
  the record is there: the preparation reads, and a name it did not bind would fail the handler. \<open>rw_audited\<close> says
  which exceptions the view audits as a failure and \<open>rw_translated\<close> what it makes of the others.
\<close>

record 'x review =
  rw_failed :: string
  rw_reason :: string
  rw_early_risk :: string \<comment> \<open>of a failure before there is an operation\<close>
  rw_risk :: "'x \<Rightarrow> string"
  rw_authorised :: "'x \<Rightarrow> audit_event"
  rw_unknown :: "'x \<Rightarrow> audit_event"
  rw_completed :: "'x \<Rightarrow> audit_event"
  rw_audited :: "exn \<Rightarrow> bool"
  rw_translated :: "exn \<Rightarrow> exn"

definition record_unknown_event ::
  "admin_env \<Rightarrow> openbao_cluster \<Rightarrow> audit_event \<Rightarrow> ('s admin_state, exn, string) sem" where
  "record_unknown_event env c ev =
     bnd (on_exn (log_administration env c
            (ev\<lparr>ev_outcome := ''unknown'', ev_success := False, ev_status_code := Some 503,
               ev_message := ''OpenBao may have accepted the request; state verification is required before retry.''\<rparr>))
            (\<lambda>e. if e = audit_error then ret () else raise e)) (\<lambda>_. ret ''preflight-only'')"

definition reviewed_view ::
  "admin_env \<Rightarrow> openbao_cluster \<Rightarrow> 'x review \<Rightarrow> ('s admin_state, exn, 'x) sem \<Rightarrow> ('x \<Rightarrow> ('s admin_state, exn, 'r) sem)
     \<Rightarrow> ('s admin_state, exn, ('x \<times> 'r) view_result) sem" where
  "reviewed_view env c rw prepare act st =
     (case prepare st of
        (Inl e, st1) \<Rightarrow>
          (if exn_is OpenBaoMutationUnknownC e then raise (PythonError ''UnboundLocalError'')
           else if rw_audited rw e then backend_failure env c (rw_failed rw) (rw_reason rw) (rw_early_risk rw) e
           else raise (rw_translated rw e)) st1
      | (Inr x, st1) \<Rightarrow>
          (case bnd (log_administration env c ((rw_authorised rw x)\<lparr>ev_durable := True\<rparr>)) (\<lambda>_. act x) st1 of
             (Inl e, st2) \<Rightarrow>
               (if exn_is OpenBaoMutationUnknownC e
                then bnd (record_unknown_event env c (rw_unknown rw x)) (\<lambda>a. ret (OutcomeUnknown a))
                else if rw_audited rw e then backend_failure env c (rw_failed rw) (rw_reason rw) (rw_risk rw x) e
                else raise (rw_translated rw e)) st2
           | (Inr r, st2) \<Rightarrow> finish_mutation env c (rw_completed rw x) (x, r) st2))"

text \<open>The review of an engine operation, from what its three records have in common.\<close>

definition engine_review ::
  "string \<Rightarrow> string \<Rightarrow> string \<Rightarrow> (exn \<Rightarrow> exn) \<Rightarrow> ('x \<Rightarrow> reviewed) \<Rightarrow> ('x \<Rightarrow> string) \<Rightarrow> string \<Rightarrow> 'x review" where
  "engine_review failed reason risk other rv authorised message =
     \<lparr>rw_failed = failed, rw_reason = reason, rw_early_risk = risk, rw_risk = (\<lambda>x. rv_risk (rv x)),
      rw_authorised = (\<lambda>x. (engine_event (rv x) (authorised x))
        \<lparr>ev_outcome := ''authorized'', ev_status_code := Some 202, ev_message := message\<rparr>),
      rw_unknown = (\<lambda>x. engine_event (rv x) (rv_operation_id (rv x) @ ''-outcome-unknown'')),
      rw_completed = (\<lambda>x. completed_event (rv x)), rw_audited = engine_handled, rw_translated = other\<rparr>"

datatype engine_change =
  EnableEngine string payload
| TuneEngine string payload
| RemountEngine string string
| DisableEngine string

definition change_contract :: "engine_change \<Rightarrow> string \<times> string \<times> string \<times> string" where
  "change_contract ch =
     (case ch of
        EnableEngine _ _ \<Rightarrow> (''secret-engine-enable'', ''POST'', ''/sys/mounts/{path}'', ''write'')
      | TuneEngine _ _ \<Rightarrow> (''secret-engine-tune'', ''POST'', ''/sys/mounts/{path}/tune'', ''write'')
      | RemountEngine _ _ \<Rightarrow> (''secret-engine-remount'', ''POST'', ''/sys/remount'', ''write'')
      | DisableEngine _ \<Rightarrow> (''secret-engine-disable'', ''DELETE'', ''/sys/mounts/{path}'', ''destructive''))"

definition change_guard :: "engine_change \<Rightarrow> string list \<Rightarrow> exn + unit" where
  "change_guard ch ms =
     (case ch of
        EnableEngine m _ \<Rightarrow> srequire (m \<notin> set ms) (conflict ''The secret-engine mount already exists.'')
      | TuneEngine m _ \<Rightarrow> srequire (m \<in> set ms) (conflict ''The secret-engine mount is unavailable.'')
      | DisableEngine m \<Rightarrow> srequire (m \<in> set ms) (conflict ''The secret-engine mount is unavailable.'')
      | RemountEngine s d \<Rightarrow> srequire (s \<in> set ms \<and> d \<notin> set ms) (conflict ''The remount source or destination changed.''))"

definition or_empty :: "('s, exn, unit) sem \<Rightarrow> ('s, exn, json) sem" where
  "or_empty m = bnd m (\<lambda>_. ret (JObj []))"

definition run_change :: "'s admin_ops \<Rightarrow> engine_change \<Rightarrow> ('s, exn, json) sem" where
  "run_change bk ch =
     (case ch of
        EnableEngine m p \<Rightarrow> or_empty (bk_enable_secret_engine bk (JStr m) p)
      | TuneEngine m p \<Rightarrow> or_empty (bk_tune_secret_engine bk (JStr m) p)
      | DisableEngine m \<Rightarrow> or_empty (bk_disable_secret_engine bk (JStr m))
      | RemountEngine s d \<Rightarrow> bnd (bk_remount_secret_engine bk (JStr s) (JStr d)) (\<lambda>r. ret (if truthy r then r else JObj [])))"

definition engine_mutation ::
  "'v engine_env \<Rightarrow> 's admin_ops \<Rightarrow> admin_env \<Rightarrow> openbao_cluster \<Rightarrow> string \<Rightarrow> engine_change
     \<Rightarrow> ('s admin_state, exn, (capability_document \<times> json) view_result) sem" where
  "engine_mutation ee bk env c reason ch =
     (case change_contract ch of (operation, verb, path, risk) \<Rightarrow>
      reviewed_view env c (engine_review operation reason risk id
        (\<lambda>d. \<lparr>rv_operation = operation, rv_operation_id = operation, rv_risk = risk, rv_method = verb, rv_path = path,
               rv_reason = reason, rv_digest = cd_digest d\<rparr>)
        (\<lambda>_. operation @ ''-authorized'') ''Authorized a reviewed OpenBao secrets-engine mutation.'')
        (bnd (prepare_engine_operation ee bk verb path) (\<lambda>d.
         bnd (mount_paths bk) (\<lambda>ms.
         bnd (lift_sum (change_guard ch ms)) (\<lambda>_. ret d))))
        (\<lambda>_. on_backend (run_change bk ch)))"

definition enable_engine_view ::
  "'v engine_env \<Rightarrow> 's admin_ops \<Rightarrow> admin_env \<Rightarrow> nat \<Rightarrow> string \<Rightarrow> string \<Rightarrow> json
     \<Rightarrow> ('s admin_state, exn, (capability_document \<times> json) view_result) sem" where
  "enable_engine_view ee bk env pk reason mount configuration =
     bnd (get_cluster env pk ''manage_secret_engines'') (\<lambda>c.
     bnd (lift_sum (enable_request ee mount configuration)) (\<lambda>(m, p).
     engine_mutation ee bk env c reason (EnableEngine m p)))"

definition tune_engine_view ::
  "'v engine_env \<Rightarrow> 's admin_ops \<Rightarrow> admin_env \<Rightarrow> nat \<Rightarrow> string \<Rightarrow> string \<Rightarrow> json
     \<Rightarrow> ('s admin_state, exn, (capability_document \<times> json) view_result) sem" where
  "tune_engine_view ee bk env pk reason mount configuration =
     bnd (get_cluster env pk ''manage_secret_engines'') (\<lambda>c.
     bnd (lift_sum (tune_request ee mount configuration)) (\<lambda>(m, p).
     engine_mutation ee bk env c reason (TuneEngine m p)))"

definition remount_engine_view ::
  "'v engine_env \<Rightarrow> 's admin_ops \<Rightarrow> admin_env \<Rightarrow> nat \<Rightarrow> string \<Rightarrow> string \<Rightarrow> string \<Rightarrow> string
     \<Rightarrow> ('s admin_state, exn, (capability_document \<times> json) view_result) sem" where
  "remount_engine_view ee bk env pk reason source destination confirmation =
     bnd (get_cluster env pk ''manage_secret_engines'') (\<lambda>c.
     bnd (lift_sum (remount_request (clu_slug c) source destination confirmation)) (\<lambda>(s, d).
     engine_mutation ee bk env c reason (RemountEngine s d)))"

definition disable_engine_view ::
  "'v engine_env \<Rightarrow> 's admin_ops \<Rightarrow> admin_env \<Rightarrow> nat \<Rightarrow> string \<Rightarrow> string \<Rightarrow> string
     \<Rightarrow> ('s admin_state, exn, (capability_document \<times> json) view_result) sem" where
  "disable_engine_view ee bk env pk reason mount confirmation =
     bnd (get_cluster env pk ''disable_secret_engines'') (\<lambda>c.
     bnd (lift_sum (disable_request (clu_slug c) mount confirmation)) (\<lambda>m.
     bnd (check (\<not> ee_inventory ee (clu_pk c) m)
            (refused ''The mount still contains NetBox credential inventory and cannot be disabled.'')) (\<lambda>_.
     engine_mutation ee bk env c reason (DisableEngine m))))"

section \<open>The mounted-operation explorer\<close>

definition schema_refused :: "exn \<Rightarrow> exn" where
  "schema_refused e = (case e of CapabilitySchemaError m \<Rightarrow> refused m | _ \<Rightarrow> e)"

definition secret_operations_view ::
  "'v engine_env \<Rightarrow> 's admin_ops \<Rightarrow> admin_env \<Rightarrow> nat \<Rightarrow> ('s admin_state, exn, string \<times> explorer_operation list) sem" where
  "secret_operations_view ee bk env pk =
     bnd (get_cluster env pk ''explore_secret_operations'') (\<lambda>c.
     engine_read env c ''secret-operation-catalog''
       (bnd (engine_document ee bk) (\<lambda>d.
        bnd (log_administration env c (read_event ''secret-operation-catalog'' ''/sys/internal/specs/openapi'' d)) (\<lambda>_.
        ret (cd_digest d, classify_explorer_operations d)))))"

definition validate_declared_fields :: "explorer_operation \<Rightarrow> explorer_fields \<Rightarrow> exn + unit" where
  "validate_declared_fields x f =
     (let within = (\<lambda>p names. list_all (\<lambda>kv. fst kv \<in> set names) p);
          covers = (\<lambda>p names. list_all (\<lambda>n. dict_get p n \<noteq> None) names)
      in sbind (srequire (within (xf_query f) (ex_query_parameters x)) (refused ''The request contains an undeclared query parameter.'')) (\<lambda>_.
         sbind (srequire (covers (xf_query f) (ex_required_query_parameters x)) (refused ''The request omits a required query parameter.'')) (\<lambda>_.
         sbind (srequire (within (xf_body f) (ex_body_fields x)) (refused ''The request contains an undeclared body field.'')) (\<lambda>_.
         sbind (srequire (covers (xf_body f) (ex_required_body_fields x)) (refused ''The request omits a required body field.'')) (\<lambda>_.
         sbind (validate_declared_field_types (xf_query f) (ex_query_parameter_types x)) (\<lambda>_.
         sbind (validate_declared_field_types (xf_body f) (ex_body_field_types x)) (\<lambda>_.
         validate_declared_field_types (xf_parameters f) (ex_path_parameter_types x))))))))"

definition compiled_path :: "explorer_operation \<Rightarrow> explorer_fields \<Rightarrow> exn + string" where
  "compiled_path x f = compile_operation_path (JStr (ex_path_template x)) (JStr (xf_mount f)) (JStr (xf_resource f)) (JObj (xf_parameters f))"

definition prepare_explorer_execution ::
  "'v engine_env \<Rightarrow> 's admin_ops \<Rightarrow> admin_env \<Rightarrow> openbao_cluster \<Rightarrow> explorer_request \<Rightarrow> explorer_fields
     \<Rightarrow> ('s admin_state, exn, capability_document \<times> explorer_operation \<times> string) sem" where
  "prepare_explorer_execution ee bk env c q f =
     bnd (engine_document ee bk) (\<lambda>d.
     bnd (check (xq_capability_digest q = cd_digest d)
            (conflict ''The OpenBao capability document changed; reload the operation catalog.'')) (\<lambda>_.
     bnd (lift_sum (resolve_explorer_operation d (xq_key q))) (\<lambda>x.
     bnd (lift_sum (validate_declared_fields x f)) (\<lambda>_.
     bnd (check (aa_has_perm (ae_actor env) (ex_required_permission x) (clu_pk c))
            (PermissionDenied ''The reviewed operation permission is required.'')) (\<lambda>_.
     bnd (mount_paths bk) (\<lambda>ms.
     bnd (check (xf_mount f \<in> set ms \<and> xf_mount f \<notin> set RESERVED_MOUNT_PATHS)
            (refused ''The selected live secret-engine mount is unavailable.'')) (\<lambda>_.
     bnd (lift_sum (mount_parameter_for_path (JStr (xf_mount f)))) (\<lambda>parameter.
     bnd (check (ex_mount_parameter x = parameter)
            (refused ''The selected operation was not advertised by this live mount.'')) (\<lambda>_.
     bnd (lift_sum (compiled_path x f)) (\<lambda>path.
     bnd (check (ex_risk_level x = ''destructive'' \<longrightarrow> xq_confirmation q = ex_method x @ '' '' @ path @ '' ON '' @ clu_slug c)
            (refused ''The exact destructive-operation confirmation is required.'')) (\<lambda>_.
     ret (d, x, path))))))))))))"

definition run_mounted ::
  "'s admin_ops \<Rightarrow> explorer_operation \<Rightarrow> string \<Rightarrow> string \<Rightarrow> string \<Rightarrow> payload \<Rightarrow> payload \<Rightarrow> ('s, exn, json) sem" where
  "run_mounted bk x verb path mount query body =
     bk_mounted bk verb path query body mount (ex_operation_id x) (ex_path_template x) (ex_mount_parameter x)"

definition execute_operation_view ::
  "'v engine_env \<Rightarrow> 's admin_ops \<Rightarrow> admin_env \<Rightarrow> nat \<Rightarrow> explorer_request
     \<Rightarrow> ('s admin_state, exn, ((capability_document \<times> explorer_operation \<times> string) \<times> json) view_result) sem" where
  "execute_operation_view ee bk env pk q =
     bnd (get_cluster env pk ''explore_secret_operations'') (\<lambda>c.
     bnd (lift_sum (explorer_fields_of ee q)) (\<lambda>f.
     reviewed_view env c (engine_review ''secret-operation-execute'' (xq_reason q) ''write'' schema_refused
       (\<lambda>(d, x, _). \<lparr>rv_operation = ex_operation_id x, rv_operation_id = ex_operation_id x, rv_risk = ex_risk_level x,
          rv_method = ex_method x, rv_path = ex_path_template x, rv_reason = xq_reason q, rv_digest = cd_digest d\<rparr>)
       (\<lambda>_. ''secret-operation-authorized'') ''Authorized a classified mounted OpenBao operation.'')
       (prepare_explorer_execution ee bk env c q f)
       (\<lambda>(_, x, path). on_backend (run_mounted bk x (ex_method x) path (xf_mount f) (xf_query f) (xf_body f)))))"

section \<open>First-class journeys\<close>

definition engine_journeys_view ::
  "'v engine_env \<Rightarrow> 's admin_ops \<Rightarrow> admin_env \<Rightarrow> nat \<Rightarrow> ('s admin_state, exn, string \<times> catalog_item list) sem" where
  "engine_journeys_view ee bk env pk =
     bnd (get_cluster env pk ''view_secret_engines'') (\<lambda>c.
     engine_read env c ''secret-engine-journey-catalog''
       (bnd (engine_document ee bk) (\<lambda>d.
        bnd (on_backend (bk_list_secret_engines bk)) (\<lambda>ms.
        bnd (lift_sum (engine_journey_catalog d ms)) (\<lambda>items.
        bnd (log_administration env c (read_event ''secret-engine-journey-catalog'' ''/sys/internal/specs/openapi'' d)) (\<lambda>_.
        ret (cd_digest d,
             filter (\<lambda>i. aa_has_perm (ae_actor env) (ej_required_permission (ci_journey i)) (clu_pk c)) items)))))))"

definition positive_version :: "json \<Rightarrow> bool" where
  "positive_version v = (case v of JNum n \<Rightarrow> n \<ge> 1 | _ \<Rightarrow> False)"

definition validate_kv_diff_query :: "payload \<Rightarrow> exn + unit" where
  "validate_kv_diff_query q =
     (if set (map fst q) \<noteq> {''from_version'', ''to_version''}
      then Inl (refused ''KV diff requires exactly from_version and to_version.'')
      else if \<not> positive_version (jget q ''from_version'') \<or> \<not> positive_version (jget q ''to_version'')
      then Inl (refused ''KV diff versions must be positive integers.'')
      else srequire (jget q ''from_version'' \<noteq> jget q ''to_version'') (refused ''KV diff versions must be different.''))"

definition KV_DIFF :: string where
  "KV_DIFF = ''kv2.diff''"

definition prepare_engine_journey ::
  "'v engine_env \<Rightarrow> 's admin_ops \<Rightarrow> admin_env \<Rightarrow> openbao_cluster \<Rightarrow> explorer_request \<Rightarrow> explorer_fields
     \<Rightarrow> ('s admin_state, exn, capability_document \<times> engine_journey \<times> explorer_operation \<times> string) sem" where
  "prepare_engine_journey ee bk env c q f =
     bnd (engine_document ee bk) (\<lambda>d.
     bnd (check (xq_capability_digest q = cd_digest d)
            (conflict ''The OpenBao capability document changed; reload the journey catalog.'')) (\<lambda>_.
     bnd (on_backend (bk_list_secret_engines bk)) (\<lambda>ms.
     bnd (lift_sum (resolve_engine_journey d ms (xf_mount f) (xq_key q))) (\<lambda>(j, x).
     bnd (check (aa_has_perm (ae_actor env) (ej_required_permission j) (clu_pk c))
            (PermissionDenied ''The first-class engine journey permission is required.'')) (\<lambda>_.
     bnd (check (list_all (\<lambda>kv. dict_get (ej_fixed_query j) (fst kv) = None) (xf_query f))
            (refused ''The request cannot override a fixed first-class journey query parameter.'')) (\<lambda>_.
     bnd (lift_sum (normalize_journey_path_parameters j (xf_parameters f))) (\<lambda>ps.
     let f1 = f\<lparr>xf_parameters := ps\<rparr> in
     bnd (lift_sum (compiled_path x f1)) (\<lambda>path.
     bnd (lift_sum (if ej_journey_id j = KV_DIFF
                    then sbind (validate_declared_fields x (f1\<lparr>xf_query := []\<rparr>)) (\<lambda>_. validate_kv_diff_query (xf_query f))
                    else validate_declared_fields x f1)) (\<lambda>_.
     bnd (check (ej_confirmation_prefix j \<noteq> [] \<longrightarrow> xq_confirmation q = ej_confirmation_prefix j @ '' '' @ path @ '' ON '' @ clu_slug c)
            (refused ''The exact first-class journey confirmation is required.'')) (\<lambda>_.
     ret (d, j, x, path)))))))))))"

definition run_engine_journey ::
  "'s admin_ops \<Rightarrow> engine_journey \<Rightarrow> explorer_operation \<Rightarrow> string \<Rightarrow> explorer_fields \<Rightarrow> ('s, exn, json) sem" where
  "run_engine_journey bk j x path f =
     (if ej_journey_id j \<noteq> KV_DIFF
      then run_mounted bk x (ex_method x) path (xf_mount f)
             (xf_query f @ map (\<lambda>(k, v). (k, JStr v)) (ej_fixed_query j)) (xf_body f)
      else let from_version = jget (xf_query f) ''from_version''; to_version = jget (xf_query f) ''to_version'' in
           bnd (run_mounted bk x ''GET'' path (xf_mount f) [(''version'', from_version)] []) (\<lambda>before.
           bnd (run_mounted bk x ''GET'' path (xf_mount f) [(''version'', to_version)] []) (\<lambda>after.
           ret (JObj [(''from_version'', from_version), (''to_version'', to_version), (''before'', before), (''after'', after)]))))"

definition execute_journey_view ::
  "'v engine_env \<Rightarrow> 's admin_ops \<Rightarrow> admin_env \<Rightarrow> nat \<Rightarrow> explorer_request
     \<Rightarrow> ('s admin_state, exn, ((capability_document \<times> engine_journey \<times> explorer_operation \<times> string) \<times> json) view_result) sem" where
  "execute_journey_view ee bk env pk q =
     bnd (get_cluster env pk ''view_secret_engines'') (\<lambda>c.
     bnd (lift_sum (explorer_fields_of ee q)) (\<lambda>f.
     reviewed_view env c (engine_review ''secret-engine-journey-execute'' (xq_reason q) ''write'' schema_refused
       (\<lambda>(d, j, _, _). \<lparr>rv_operation = ''engine-journey-'' @ ej_journey_id j, rv_operation_id = ej_journey_id j,
          rv_risk = ej_risk_level j, rv_method = ej_method j, rv_path = ej_path_template j, rv_reason = xq_reason q,
          rv_digest = cd_digest d\<rparr>)
       (\<lambda>(_, j, _, _). ''engine-journey-'' @ ej_journey_id j @ ''-authorized'') ''Authorized a reviewed first-class OpenBao engine journey.'')
       (prepare_engine_journey ee bk env c q f)
       (\<lambda>(_, j, x, path). on_backend (run_engine_journey bk j x path f))))"

end
