(* ===== verification/Admin_Auth_Views.thy ===== *)
theory Admin_Auth_Views
  imports Admin_Engine_Views
begin

text \<open>
  The views over authentication methods, logins, multi-factor methods and tokens (\<^verbatim>\<open>api/authentication_views.py\<close>,
  \<^verbatim>\<open>api/authentication_serializers.py\<close>), one definition for each action and HTTP method. A request is what the field declarations of
  the REST framework let through; the checks the serializers add are modelled. Django's signing, the nonce of the request
  and SHA-256 are parameters.
\<close>

section \<open>The backend\<close>

text \<open>
  The broker overrides three of the operations; every other one is inherited and goes through the requester of its
  backend.
\<close>

record 's auth_ops =
  au_list_methods :: "('s, exn, auth_mount list) sem"
  au_remount :: "json \<Rightarrow> json \<Rightarrow> ('s, exn, json) sem"
  au_remount_status :: "json \<Rightarrow> ('s, exn, json) sem"
  au_codec :: codec
  au_requester :: "'s requester"

definition direct_auth :: "codec \<Rightarrow> 's requester \<Rightarrow> 's auth_ops" where
  "direct_auth cd rq =
     \<lparr>au_list_methods = list_auth_methods cd rq, au_remount = remount_auth_method cd rq,
      au_remount_status = remount_status cd rq, au_codec = cd, au_requester = rq\<rparr>"

definition broker_auth :: "codec \<Rightarrow> 'w sender \<Rightarrow> 'w broker_state auth_ops" where
  "broker_auth cd snd_request =
     \<lparr>au_list_methods = broker_list_auth_methods cd snd_request, au_remount = broker_remount_auth_method cd snd_request,
      au_remount_status = broker_remount_status cd snd_request, au_codec = cd, au_requester = broker_request cd snd_request\<rparr>"

record 'v auth_env =
  av_versions :: "'v versions"
  av_dumps :: "json \<Rightarrow> string" \<comment> \<open>sorted and compact\<close>
  av_sha256 :: "string \<Rightarrow> string"
  av_sign :: "payload \<Rightarrow> string"
  av_unsign :: "string \<Rightarrow> json option" \<comment> \<open>\<open>None\<close> for a bad or expired signature\<close>
  av_nonce :: string

section \<open>Tables\<close>

definition AUTH_RESOURCE_OPERATION_IDS :: "(string \<times> (string \<times> string) list) list" where
  "AUTH_RESOURCE_OPERATION_IDS =
     [(''token-roles'', [(''list'', ''token-list-roles''), (''read'', ''token-read-role''), (''write'', ''token-write-role''), (''delete'', ''token-delete-role'')]),
      (''userpass-users'', [(''list'', ''userpass-list-users''), (''read'', ''userpass-read-user''), (''write'', ''userpass-write-user''), (''delete'', ''userpass-delete-user'')]),
      (''approle-roles'', [(''list'', ''app-role-list-roles''), (''read'', ''app-role-read-role''), (''write'', ''app-role-write-role''), (''delete'', ''app-role-delete-role'')]),
      (''kubernetes-roles'', [(''list'', ''kubernetes-list-auth-roles''), (''read'', ''kubernetes-read-auth-role''), (''write'', ''kubernetes-write-auth-role''), (''delete'', ''kubernetes-delete-auth-role'')]),
      (''jwt-roles'', [(''list'', ''jwt-list-roles''), (''read'', ''jwt-read-role''), (''write'', ''jwt-write-role''), (''delete'', ''jwt-delete-role'')]),
      (''ldap-groups'', [(''list'', ''ldap-list-groups''), (''read'', ''ldap-read-group''), (''write'', ''ldap-write-group''), (''delete'', ''ldap-delete-group'')]),
      (''ldap-users'', [(''list'', ''ldap-list-users''), (''read'', ''ldap-read-user''), (''write'', ''ldap-write-user''), (''delete'', ''ldap-delete-user'')]),
      (''radius-users'', [(''list'', ''radius-list-users''), (''read'', ''radius-read-user''), (''write'', ''radius-write-user''), (''delete'', ''radius-delete-user'')]),
      (''certificates'', [(''list'', ''cert-list-certificates''), (''read'', ''cert-read-certificate''), (''write'', ''cert-write-certificate''), (''delete'', ''cert-delete-certificate'')]),
      (''certificate-crls'', [(''list'', ''cert-list-crls''), (''read'', ''cert-read-crl''), (''write'', ''cert-write-crl''), (''delete'', ''cert-delete-crl'')])]"

definition AUTH_CONFIG_OPERATION_IDS :: "(string \<times> string \<times> string) list" where
  "AUTH_CONFIG_OPERATION_IDS =
     [(''cert'', ''cert-read-configuration'', ''cert-configure''), (''jwt'', ''jwt-read-configuration'', ''jwt-configure''),
      (''oidc'', ''jwt-read-configuration'', ''jwt-configure''),
      (''kubernetes'', ''kubernetes-read-auth-configuration'', ''kubernetes-configure-auth''),
      (''ldap'', ''ldap-read-auth-configuration'', ''ldap-configure-auth''),
      (''radius'', ''radius-read-configuration'', ''radius-configure'')]"

definition LOGIN_OPERATION_IDS :: "(string \<times> string) list" where
  "LOGIN_OPERATION_IDS =
     [(''token'', ''token-look-up-self-get''), (''userpass'', ''userpass-login''), (''ldap'', ''ldap-login''),
      (''radius'', ''radius-login-with-username''), (''jwt'', ''jwt-login''), (''approle'', ''app-role-login''),
      (''kubernetes'', ''kubernetes-login'')]"

definition TOKEN_OPERATION_IDS :: "(string \<times> string) list" where
  "TOKEN_OPERATION_IDS =
     [(''lookup-self'', ''token-look-up-self-get''), (''renew-self'', ''token-renew-self''),
      (''revoke-self'', ''token-revoke-self''), (''lookup-accessor'', ''token-look-up-by-accessor''),
      (''renew-accessor'', ''token-renew-accessor''), (''revoke-accessor'', ''token-revoke-accessor'')]"

definition TOKEN_OPERATION_PATHS :: "(string \<times> string) list" where
  "TOKEN_OPERATION_PATHS =
     [(''lookup-self'', ''/auth/token/lookup-self''), (''renew-self'', ''/auth/token/renew-self''),
      (''revoke-self'', ''/auth/token/revoke-self''), (''lookup-accessor'', ''/auth/token/lookup-accessor''),
      (''renew-accessor'', ''/auth/token/renew-accessor''), (''revoke-accessor'', ''/auth/token/revoke-accessor'')]"

section \<open>Requests\<close>

definition canonical_uuid :: "string \<Rightarrow> string \<Rightarrow> exn + string" where
  "canonical_uuid s field =
     (if uuid_re hex_any s then Inr (lower s) else Inl (ValidationError field ''Enter a canonical UUID.''))"

text \<open>The fields of a validated request, without the reason.\<close>

definition confirmed_action :: "string \<Rightarrow> string \<Rightarrow> exn + unit" where
  "confirmed_action expected confirmation =
     srequire (confirmation = expected) (ValidationError ''confirmation'' (''Type exactly: '' @ expected))"

definition small_string_map :: "json \<Rightarrow> bool" where
  "small_string_map v = (case v of JObj kvs \<Rightarrow> length kvs \<le> 64 \<and> list_all (\<lambda>kv. safe_key_re (fst kv)) kvs | _ \<Rightarrow> True)"

definition tuning_fields :: "payload \<Rightarrow> exn + unit" where
  "tuning_fields data =
     srequire (small_string_map (jget data ''options'') \<and> small_string_map (jget data ''user_lockout_config''))
       (refused ''The configuration map is invalid.'')"

definition enable_config_keys :: "string list" where
  "enable_config_keys =
     [''allowed_response_headers'', ''audit_non_hmac_request_keys'', ''audit_non_hmac_response_keys'', ''default_lease_ttl'',
      ''listing_visibility'', ''max_lease_ttl'', ''passthrough_request_headers'', ''token_type'', ''user_lockout_config'']"

definition enable_auth_payload :: "string \<Rightarrow> payload \<Rightarrow> payload" where
  "enable_auth_payload method_type data =
     (let config = filter (\<lambda>kv. fst kv \<in> set enable_config_keys) data
      in (''type'', JStr method_type) # filter (\<lambda>kv. fst kv \<notin> set enable_config_keys) data
         @ (if config = [] then [] else [(''config'', JObj config)]))"

definition auth_mount_field :: "string \<Rightarrow> exn + string" where
  "auth_mount_field s = contract_checked (normalize_mount_path (JStr s))"

definition remount_auth_request :: "string \<Rightarrow> string \<Rightarrow> exn + (string \<times> string)" where
  "remount_auth_request source destination =
     sbind (auth_mount_field source) (\<lambda>s.
     sbind (auth_mount_field destination) (\<lambda>d.
     sbind (srequire (s \<noteq> d) (refused ''The destination must differ from the source.'')) (\<lambda>_. Inr (s, d))))"

text \<open>The metadata of a SecretID is sent as text.\<close>

definition secret_id_payload :: "'v auth_env \<Rightarrow> payload \<Rightarrow> exn + payload" where
  "secret_id_payload ax data =
     sbind (srequire (small_string_map (jget data ''metadata'')) (refused ''The SecretID metadata is invalid.'')) (\<lambda>_.
     Inr (map (\<lambda>(k, v). (k, if k = ''metadata'' then JStr (av_dumps ax v) else v)) data))"

definition accessor_request :: "bool \<Rightarrow> string \<Rightarrow> string \<Rightarrow> string \<Rightarrow> exn + string" where
  "accessor_request destructive expected accessor confirmation =
     sbind (if destructive then confirmed_action expected confirmation else Inr ()) (\<lambda>_.
     contract_checked (normalize_resource_name (JStr accessor) True))"

definition LOGIN_FIELDS :: "(string \<times> string list) list" where
  "LOGIN_FIELDS =
     [(''token'', [''token'']), (''userpass'', [''username'', ''password'']), (''ldap'', [''username'', ''password'']),
      (''radius'', [''username'', ''password'']), (''jwt'', [''role'', ''jwt'']), (''approle'', [''role_id'', ''secret_id'']),
      (''kubernetes'', [''role'', ''jwt''])]"

definition login_request :: "string \<Rightarrow> payload \<Rightarrow> exn + payload" where
  "login_request method_type data =
     (case map_of LOGIN_FIELDS method_type of
        None \<Rightarrow> Inl (PythonError ''KeyError'')
      | Some required \<Rightarrow>
          if set (map fst data) \<noteq> set required
          then Inl (refused ''Provide exactly the reviewed fields for the selected login method.'')
          else straverse (\<lambda>(k, v). if k \<in> {''username'', ''role''}
                            then sbind (contract_checked (normalize_resource_name v False)) (\<lambda>n. Inr (k, JStr n)) else Inr (k, v)) data)"

definition nonce_re :: "string \<Rightarrow> bool" where
  "nonce_re s = (list_all (one_of alnum ''_-'') s \<and> 32 \<le> length s \<and> length s \<le> 200)"

definition mfa_payload_field :: "payload \<Rightarrow> exn + payload" where
  "mfa_payload_field p =
     sbind (srequire (p \<noteq> [] \<and> length p \<le> 32 \<and> list_all (\<lambda>kv. nonce_re (fst kv)) p) (refused ''The MFA payload is invalid.'')) (\<lambda>_. Inr p)"

definition token_request :: "string \<Rightarrow> string \<Rightarrow> payload \<Rightarrow> exn + payload" where
  "token_request operation expected data =
     (let k = (if suffix ''self'' operation then ''token'' else ''accessor'');
          allowed = [k, ''confirmation''] @ (if prefix ''renew'' operation then [''increment''] else [])
      in if dict_get data k = None \<or> list_ex (\<lambda>kv. fst kv \<notin> set allowed) data
         then Inl (refused ''Provide exactly the reviewed fields for this token operation.'')
         else if prefix ''revoke'' operation \<and> dict_get data ''confirmation'' \<noteq> Some (JStr expected)
         then Inl (ValidationError ''confirmation'' (''Type exactly: '' @ expected))
         else Inr (filter (\<lambda>kv. fst kv \<noteq> ''confirmation'') data))"

definition reviewed_payload :: "field_rules \<Rightarrow> json \<Rightarrow> exn + payload" where
  "reviewed_payload rules v = contract_checked (validate_reviewed_payload v rules)"

definition mfa_method_fields :: "string \<Rightarrow> exn + field_rules" where
  "mfa_method_fields method_type =
     (case map_of MFA_METHOD_FIELDS method_type of None \<Rightarrow> Inl contract_mismatch | Some rules \<Rightarrow> Inr rules)"

section \<open>The two shapes\<close>

definition prepare_auth_operation ::
  "'v auth_env \<Rightarrow> 's admin_ops \<Rightarrow> string \<Rightarrow> string list \<Rightarrow> ('s admin_state, exn, string) sem" where
  "prepare_auth_operation ax bk operation_id required =
     bnd (baseline_status (av_versions ax) bk) (\<lambda>s.
     bnd (check (st_initialized s \<and> \<not> st_sealed s)
            (conflict ''The OpenBao cluster is not ready for authentication administration.'')) (\<lambda>_.
     bnd (on_backend (bk_discover bk)) (\<lambda>d.
     bnd (check (supported_version (av_versions ax) (cd_product_version d))
            (conflict ''OpenBao returned an unsupported capability version.'')) (\<lambda>_.
     bnd (check (set (operation_id # required) \<subseteq> set (map op_id (cd_operations d)))
            (conflict ''OpenBao does not advertise the reviewed operation.'')) (\<lambda>_. ret (cd_digest d))))))"

definition mounted_method :: "'s auth_ops \<Rightarrow> string \<Rightarrow> ('s admin_state, exn, auth_mount) sem" where
  "mounted_method au mount =
     on_exn (bnd (on_backend (au_list_methods au)) (\<lambda>ms. lift_sum (select_auth_mount ms (JStr mount))))
       (\<lambda>e. raise (if is_schema_error e then conflict ''The selected auth mount is unavailable.'' else e))"

definition resolve_auth_mount ::
  "'v auth_env \<Rightarrow> 's admin_ops \<Rightarrow> 's auth_ops \<Rightarrow> admin_env \<Rightarrow> openbao_cluster \<Rightarrow> string
     \<Rightarrow> ('s admin_state, exn, auth_mount) sem" where
  "resolve_auth_mount ax bk au env c mount =
     contract_read env c ''resolve-auth-mount''
       (bnd (prepare_auth_operation ax bk ''auth-list-enabled-methods'' []) (\<lambda>digest.
        bnd (mounted_method au mount) (\<lambda>m.
        bnd (log_administration env c
               ((event ''resolve-auth-mount'')\<lparr>ev_operation_id := ''auth-list-enabled-methods'', ev_method := ''GET'',
                  ev_path_template := ''/sys/auth'', ev_capability_digest := digest, ev_status_code := Some 200,
                  ev_message := ''Resolved an auth mount through the reviewed mount registry.''\<rparr>)) (\<lambda>_. ret m))))"

definition auth_read ::
  "'v auth_env \<Rightarrow> 's admin_ops \<Rightarrow> admin_env \<Rightarrow> openbao_cluster \<Rightarrow> string \<Rightarrow> string \<Rightarrow> string \<Rightarrow> string
     \<Rightarrow> ('s, exn, 'a) sem \<Rightarrow> ('s admin_state, exn, 'a) sem" where
  "auth_read ax bk env c act operation_id verb path producer =
     contract_read env c act
       (bnd (prepare_auth_operation ax bk operation_id []) (\<lambda>digest.
        bnd (on_backend producer) (\<lambda>r.
        bnd (log_administration env c
               ((event act)\<lparr>ev_operation_id := operation_id, ev_method := verb, ev_path_template := path,
                  ev_capability_digest := digest, ev_status_code := Some 200,
                  ev_message := ''Read reviewed authentication administration metadata.''\<rparr>)) (\<lambda>_. ret r))))"

record auth_call =
  ac_action :: string
  ac_operation_id :: string
  ac_required :: "string list"
  ac_method :: string
  ac_path :: string
  ac_reason :: string
  ac_risk :: string
  ac_status :: nat

text \<open>The call with the defaults of \<open>_auth_mutation\<close>.\<close>

definition posting :: "string \<Rightarrow> string \<Rightarrow> string \<Rightarrow> string \<Rightarrow> string \<Rightarrow> auth_call" where
  "posting act operation_id path reason risk =
     \<lparr>ac_action = act, ac_operation_id = operation_id, ac_required = [], ac_method = ''POST'', ac_path = path,
      ac_reason = reason, ac_risk = risk, ac_status = 200\<rparr>"

definition auth_event :: "auth_call \<Rightarrow> string \<Rightarrow> string \<Rightarrow> audit_event" where
  "auth_event call act digest =
     (event act)\<lparr>ev_operation_id := ac_operation_id call, ev_risk_level := ac_risk call, ev_method := ac_method call,
       ev_path_template := ac_path call, ev_reason := ac_reason call, ev_capability_digest := digest\<rparr>"

definition auth_review :: "auth_call \<Rightarrow> string review" where
  "auth_review call =
     \<lparr>rw_failed = ac_action call, rw_reason = ac_reason call, rw_early_risk = ac_risk call, rw_risk = (\<lambda>_. ac_risk call),
      rw_authorised = (\<lambda>digest. (auth_event call (ac_action call @ ''-authorized'') digest)
        \<lparr>ev_outcome := ''authorized'', ev_message := ''Authorized a reviewed authentication administration operation.''\<rparr>),
      rw_unknown = auth_event call (ac_action call @ ''-outcome-unknown''),
      rw_completed = (\<lambda>digest. (auth_event call (ac_action call) digest)
        \<lparr>ev_status_code := Some (ac_status call), ev_message := ''Completed a reviewed authentication administration operation.''\<rparr>),
      rw_audited = (\<lambda>_. True), rw_translated = id\<rparr>"

text \<open>\<open>_auth_mutation\<close>; any exception that is not an unknown outcome is audited as a failure.\<close>

definition auth_mutation ::
  "'v auth_env \<Rightarrow> 's admin_ops \<Rightarrow> admin_env \<Rightarrow> openbao_cluster \<Rightarrow> auth_call \<Rightarrow> ('s, exn, 'r) sem
     \<Rightarrow> ('s admin_state, exn, (string \<times> 'r) view_result) sem" where
  "auth_mutation ax bk env c call producer =
     reviewed_view env c (auth_review call) (prepare_auth_operation ax bk (ac_operation_id call) (ac_required call))
       (\<lambda>_. on_backend producer)"

text \<open>\<open>operation() or fallback\<close>, for an operation that returns nothing.\<close>

definition then_value :: "('s, exn, unit) sem \<Rightarrow> payload \<Rightarrow> ('s, exn, json) sem" where
  "then_value m fallback = bnd m (\<lambda>_. ret (JObj fallback))"

section \<open>Methods and configuration\<close>

definition auth_methods_view ::
  "'v auth_env \<Rightarrow> 's admin_ops \<Rightarrow> 's auth_ops \<Rightarrow> admin_env \<Rightarrow> nat
     \<Rightarrow> ('s admin_state, exn, auth_mount list) sem" where
  "auth_methods_view ax bk au env pk =
     bnd (get_cluster env pk ''view_authentication'') (\<lambda>c.
     auth_read ax bk env c ''list-auth-methods'' ''auth-list-enabled-methods'' ''GET'' ''/sys/auth'' (au_list_methods au))"

definition enable_auth_view ::
  "'v auth_env \<Rightarrow> 's admin_ops \<Rightarrow> 's auth_ops \<Rightarrow> admin_env \<Rightarrow> nat \<Rightarrow> string \<Rightarrow> string \<Rightarrow> string \<Rightarrow> payload
     \<Rightarrow> ('s admin_state, exn, (string \<times> json) view_result) sem" where
  "enable_auth_view ax bk au env pk reason mount method_type data =
     bnd (get_cluster env pk ''manage_auth_methods'') (\<lambda>c.
     bnd (lift_sum (sbind (auth_mount_field mount) (\<lambda>m. sbind (tuning_fields data) (\<lambda>_. Inr m)))) (\<lambda>m.
     auth_mutation ax bk env c ((posting ''enable-auth-method'' ''auth-enable-method'' ''/sys/auth/{path}'' reason ''write'')\<lparr>ac_status := 201\<rparr>)
       (then_value (enable_auth_method (au_requester au) (JStr m) (enable_auth_payload method_type data))
          [(''mount_path'', JStr m), (''method_type'', JStr method_type)])))"

definition auth_method_view ::
  "'v auth_env \<Rightarrow> 's admin_ops \<Rightarrow> 's auth_ops \<Rightarrow> admin_env \<Rightarrow> nat \<Rightarrow> string
     \<Rightarrow> ('s admin_state, exn, json) sem" where
  "auth_method_view ax bk au env pk mount =
     bnd (get_cluster env pk ''view_authentication'') (\<lambda>c.
     auth_read ax bk env c ''read-auth-method'' ''auth-read-configuration'' ''GET'' ''/sys/auth/{path}''
       (read_auth_method (au_codec au) (au_requester au) (JStr mount)))"

definition tune_auth_view ::
  "'v auth_env \<Rightarrow> 's admin_ops \<Rightarrow> 's auth_ops \<Rightarrow> admin_env \<Rightarrow> nat \<Rightarrow> string \<Rightarrow> string \<Rightarrow> payload
     \<Rightarrow> ('s admin_state, exn, (string \<times> json) view_result) sem" where
  "tune_auth_view ax bk au env pk reason mount data =
     bnd (get_cluster env pk ''manage_auth_methods'') (\<lambda>c.
     bnd (lift_sum (tuning_fields data)) (\<lambda>_.
     auth_mutation ax bk env c
       (posting ''tune-auth-method'' ''auth-tune-configuration-parameters'' ''/sys/auth/{path}/tune'' reason ''write'')
       (then_value (tune_auth_method (au_requester au) (JStr mount) data) [(''mount_path'', JStr mount)])))"

definition disable_auth_view ::
  "'v auth_env \<Rightarrow> 's admin_ops \<Rightarrow> 's auth_ops \<Rightarrow> admin_env \<Rightarrow> nat \<Rightarrow> string \<Rightarrow> string \<Rightarrow> string
     \<Rightarrow> ('s admin_state, exn, (string \<times> json) view_result) sem" where
  "disable_auth_view ax bk au env pk reason mount confirmation =
     bnd (get_cluster env pk ''disable_auth_methods'') (\<lambda>c.
     bnd (lift_sum (confirmed_action (''DISABLE AUTH '' @ mount @ '' ON '' @ clu_slug c) confirmation)) (\<lambda>_.
     auth_mutation ax bk env c
       ((posting ''disable-auth-method'' ''auth-disable-method'' ''/sys/auth/{path}'' reason ''destructive'')\<lparr>ac_method := ''DELETE''\<rparr>)
       (then_value (disable_auth_method (au_requester au) (JStr mount)) [(''disabled'', JStr mount)])))"

definition remount_auth_view ::
  "'v auth_env \<Rightarrow> 's admin_ops \<Rightarrow> 's auth_ops \<Rightarrow> admin_env \<Rightarrow> nat \<Rightarrow> string \<Rightarrow> string \<Rightarrow> string
     \<Rightarrow> ('s admin_state, exn, (string \<times> json) view_result) sem" where
  "remount_auth_view ax bk au env pk reason source destination =
     bnd (get_cluster env pk ''manage_auth_methods'') (\<lambda>c.
     bnd (lift_sum (remount_auth_request source destination)) (\<lambda>(s, d).
     auth_mutation ax bk env c ((posting ''remount-auth-method'' ''remount'' ''/sys/remount'' reason ''write'')\<lparr>ac_status := 202\<rparr>)
       (au_remount au (JStr s) (JStr d))))"

definition remount_auth_status_view ::
  "'v auth_env \<Rightarrow> 's admin_ops \<Rightarrow> 's auth_ops \<Rightarrow> admin_env \<Rightarrow> nat \<Rightarrow> string
     \<Rightarrow> ('s admin_state, exn, json) sem" where
  "remount_auth_status_view ax bk au env pk migration =
     bnd (lift_sum (canonical_uuid migration ''migration_id'')) (\<lambda>i.
     bnd (get_cluster env pk ''view_authentication'') (\<lambda>c.
     auth_read ax bk env c ''read-auth-remount-status'' ''remount-status'' ''GET'' ''/sys/remount/status/{migration_id}''
       (au_remount_status au (JStr i))))"

text \<open>The configuration contract of the mount's method.\<close>

definition config_contract ::
  "'v auth_env \<Rightarrow> 's admin_ops \<Rightarrow> 's auth_ops \<Rightarrow> admin_env \<Rightarrow> openbao_cluster \<Rightarrow> string
     \<Rightarrow> ('s admin_state, exn, string \<times> (string \<times> string) \<times> field_rules) sem" where
  "config_contract ax bk au env c mount =
     bnd (resolve_auth_mount ax bk au env c mount) (\<lambda>m.
     case (map_of AUTH_CONFIG_OPERATION_IDS (amt_method_type m), map_of AUTH_CONFIG_FIELDS (amt_method_type m)) of
       (Some ids, Some rules) \<Rightarrow> ret (amt_method_type m, ids, rules)
     | _ \<Rightarrow> raise (refused ''This auth mount has no reviewed configuration contract.''))"

definition read_auth_config_view ::
  "'v auth_env \<Rightarrow> 's admin_ops \<Rightarrow> 's auth_ops \<Rightarrow> admin_env \<Rightarrow> nat \<Rightarrow> string
     \<Rightarrow> ('s admin_state, exn, json) sem" where
  "read_auth_config_view ax bk au env pk mount =
     bnd (get_cluster env pk ''view_authentication'') (\<lambda>c.
     bnd (config_contract ax bk au env c mount) (\<lambda>(_, ids, _).
     auth_read ax bk env c ''read-auth-config'' (fst ids) ''GET'' ''/auth/{mount_path}/config''
       (read_auth_config (au_codec au) (au_requester au) (JStr mount))))"

definition write_auth_config_view ::
  "'v auth_env \<Rightarrow> 's admin_ops \<Rightarrow> 's auth_ops \<Rightarrow> admin_env \<Rightarrow> nat \<Rightarrow> string \<Rightarrow> string \<Rightarrow> json
     \<Rightarrow> ('s admin_state, exn, (string \<times> json) view_result) sem" where
  "write_auth_config_view ax bk au env pk reason mount v =
     bnd (get_cluster env pk ''manage_auth_methods'') (\<lambda>c.
     bnd (config_contract ax bk au env c mount) (\<lambda>(method_type, ids, rules).
     bnd (lift_sum (reviewed_payload rules v)) (\<lambda>p.
     auth_mutation ax bk env c (posting ''write-auth-config'' (snd ids) ''/auth/{mount_path}/config'' reason ''sensitive'')
       (then_value (write_auth_config (au_requester au) (JStr mount) p)
          [(''mount_path'', JStr mount), (''method_type'', JStr method_type)]))))"

section \<open>Resources\<close>

definition resource_contract ::
  "'v auth_env \<Rightarrow> 's admin_ops \<Rightarrow> 's auth_ops \<Rightarrow> admin_env \<Rightarrow> openbao_cluster \<Rightarrow> string \<Rightarrow> string \<Rightarrow> string
     \<Rightarrow> ('s admin_state, exn, string \<times> auth_resource_spec \<times> string) sem" where
  "resource_contract ax bk au env c mount resource operation =
     bnd (resolve_auth_mount ax bk au env c mount) (\<lambda>m.
     case (resource_spec (JStr resource) (amt_method_type m) operation,
           Option.bind (map_of AUTH_RESOURCE_OPERATION_IDS resource) (\<lambda>ids. map_of ids operation)) of
       (Inr spec, Some i) \<Rightarrow> ret (amt_method_type m, spec, i)
     | _ \<Rightarrow> raise (refused ''This auth resource operation is unsupported.''))"

definition resource_template :: "auth_resource_spec \<Rightarrow> string \<Rightarrow> string" where
  "resource_template spec name =
     ''/auth/{mount_path}/'' @ (if name \<noteq> [] then ar_item_suffix spec else ar_collection_suffix spec)"

text \<open>An absent name is empty.\<close>

definition read_auth_resource_view ::
  "'v auth_env \<Rightarrow> 's admin_ops \<Rightarrow> 's auth_ops \<Rightarrow> admin_env \<Rightarrow> nat \<Rightarrow> string \<Rightarrow> string \<Rightarrow> string
     \<Rightarrow> ('s admin_state, exn, json) sem" where
  "read_auth_resource_view ax bk au env pk mount resource name =
     bnd (get_cluster env pk ''view_authentication'') (\<lambda>c.
     let operation = (if name = [] then ''list'' else ''read'') in
     bnd (resource_contract ax bk au env c mount resource operation) (\<lambda>(_, spec, i).
     auth_read ax bk env c (operation @ ''-auth-resource'') i (if operation = ''list'' then ''LIST'' else ''GET'')
       (resource_template spec name) (run_auth_resource (au_codec au) (au_requester au) (JStr mount) spec operation name None)))"

definition write_auth_resource_view ::
  "'v auth_env \<Rightarrow> 's admin_ops \<Rightarrow> 's auth_ops \<Rightarrow> admin_env \<Rightarrow> nat \<Rightarrow> string \<Rightarrow> string \<Rightarrow> string \<Rightarrow> string \<Rightarrow> json
     \<Rightarrow> ('s admin_state, exn, (string \<times> json) view_result) sem" where
  "write_auth_resource_view ax bk au env pk reason mount resource name v =
     bnd (get_cluster env pk ''manage_auth_resources'') (\<lambda>c.
     bnd (resource_contract ax bk au env c mount resource ''write'') (\<lambda>(method_type, spec, i).
     bnd (check (name \<noteq> []) (ValidationError ''name'' ''A resource name is required.'')) (\<lambda>_.
     bnd (lift_sum (contract_checked (validate_auth_resource_payload (JStr resource) method_type ''write'' v))) (\<lambda>p.
     auth_mutation ax bk env c (posting ''write-auth-resource'' i (resource_template spec name) reason (ar_risk spec))
       (bnd (run_auth_resource (au_codec au) (au_requester au) (JStr mount) spec ''write'' name (Some p)) (\<lambda>r.
        ret (if truthy r then r else JObj [(''resource'', JStr resource), (''name'', JStr name)])))))))"

definition delete_auth_resource_view ::
  "'v auth_env \<Rightarrow> 's admin_ops \<Rightarrow> 's auth_ops \<Rightarrow> admin_env \<Rightarrow> nat \<Rightarrow> string \<Rightarrow> string \<Rightarrow> string \<Rightarrow> string \<Rightarrow> string
     \<Rightarrow> ('s admin_state, exn, (string \<times> json) view_result) sem" where
  "delete_auth_resource_view ax bk au env pk reason mount resource name confirmation =
     bnd (get_cluster env pk ''delete_auth_resources'') (\<lambda>c.
     bnd (resource_contract ax bk au env c mount resource ''delete'') (\<lambda>(_, spec, i).
     bnd (check (name \<noteq> []) (ValidationError ''name'' ''A resource name is required.'')) (\<lambda>_.
     bnd (lift_sum (confirmed_action (''DELETE AUTH RESOURCE '' @ resource @ ''/'' @ name @ '' ON '' @ clu_slug c) confirmation)) (\<lambda>_.
     auth_mutation ax bk env c
       ((posting ''delete-auth-resource'' i (resource_template spec name) reason ''destructive'')\<lparr>ac_method := ''DELETE''\<rparr>)
       (bnd (run_auth_resource (au_codec au) (au_requester au) (JStr mount) spec ''delete'' name None) (\<lambda>r.
        ret (if truthy r then r else JObj [(''resource'', JStr resource), (''name'', JStr name)])))))))"

section \<open>AppRole\<close>

definition require_approle ::
  "'v auth_env \<Rightarrow> 's admin_ops \<Rightarrow> 's auth_ops \<Rightarrow> admin_env \<Rightarrow> openbao_cluster \<Rightarrow> string \<Rightarrow> ('s admin_state, exn, unit) sem" where
  "require_approle ax bk au env c mount =
     bnd (resolve_auth_mount ax bk au env c mount) (\<lambda>m.
     check (amt_method_type m = ''approle'') (refused ''The selected mount is not an AppRole mount.''))"

definition approle_secret_id_view ::
  "'v auth_env \<Rightarrow> 's admin_ops \<Rightarrow> 's auth_ops \<Rightarrow> admin_env \<Rightarrow> nat \<Rightarrow> string \<Rightarrow> string \<Rightarrow> string \<Rightarrow> payload
     \<Rightarrow> ('s admin_state, exn, (string \<times> secret_id_result) view_result) sem" where
  "approle_secret_id_view ax bk au env pk reason mount role data =
     bnd (get_cluster env pk ''issue_auth_material'') (\<lambda>c.
     bnd (require_approle ax bk au env c mount) (\<lambda>_.
     bnd (lift_sum (secret_id_payload ax data)) (\<lambda>p.
     auth_mutation ax bk env c
       ((posting ''issue-approle-secret-id'' ''app-role-write-secret-id'' ''/auth/{mount_path}/role/{role_name}/secret-id'' reason ''sensitive'')
        \<lparr>ac_status := 201\<rparr>)
       (issue_approle_secret_id (au_codec au) (au_requester au) (JStr mount) (JStr role) p))))"

definition read_role_id_view ::
  "'v auth_env \<Rightarrow> 's admin_ops \<Rightarrow> 's auth_ops \<Rightarrow> admin_env \<Rightarrow> nat \<Rightarrow> string \<Rightarrow> string
     \<Rightarrow> ('s admin_state, exn, json) sem" where
  "read_role_id_view ax bk au env pk mount role =
     bnd (get_cluster env pk ''view_authentication'') (\<lambda>c.
     bnd (require_approle ax bk au env c mount) (\<lambda>_.
     auth_read ax bk env c ''read-approle-role-id'' ''app-role-read-role-id'' ''GET'' ''/auth/{mount_path}/role/{role_name}/role-id''
       (read_approle_role_id (au_codec au) (au_requester au) (JStr mount) (JStr role))))"

definition write_role_id_view ::
  "'v auth_env \<Rightarrow> 's admin_ops \<Rightarrow> 's auth_ops \<Rightarrow> admin_env \<Rightarrow> nat \<Rightarrow> string \<Rightarrow> string \<Rightarrow> string \<Rightarrow> string
     \<Rightarrow> ('s admin_state, exn, (string \<times> json) view_result) sem" where
  "write_role_id_view ax bk au env pk reason mount role role_id =
     bnd (get_cluster env pk ''manage_auth_resources'') (\<lambda>c.
     bnd (require_approle ax bk au env c mount) (\<lambda>_.
     auth_mutation ax bk env c
       (posting ''write-approle-role-id'' ''app-role-write-role-id'' ''/auth/{mount_path}/role/{role_name}/role-id'' reason ''sensitive'')
       (then_value (write_approle_role_id (au_requester au) (JStr mount) (JStr role) (JStr role_id)) [(''role_name'', JStr role)])))"

definition lookup_accessor_view ::
  "'v auth_env \<Rightarrow> 's admin_ops \<Rightarrow> 's auth_ops \<Rightarrow> admin_env \<Rightarrow> nat \<Rightarrow> string \<Rightarrow> string \<Rightarrow> string \<Rightarrow> string
     \<Rightarrow> ('s admin_state, exn, (string \<times> json) view_result) sem" where
  "lookup_accessor_view ax bk au env pk reason mount role accessor =
     bnd (get_cluster env pk ''view_authentication'') (\<lambda>c.
     bnd (require_approle ax bk au env c mount) (\<lambda>_.
     bnd (lift_sum (accessor_request False [] accessor [])) (\<lambda>a.
     auth_mutation ax bk env c
       (posting ''lookup-approle-secret-id'' ''app-role-look-up-secret-id-by-accessor''
          ''/auth/{mount_path}/role/{role_name}/secret-id-accessor/lookup'' reason ''sensitive'')
       (lookup_approle_secret_id (au_codec au) (au_requester au) (JStr mount) (JStr role) (JStr a)))))"

definition destroy_accessor_view ::
  "'v auth_env \<Rightarrow> 's admin_ops \<Rightarrow> 's auth_ops \<Rightarrow> admin_env \<Rightarrow> nat \<Rightarrow> string \<Rightarrow> string \<Rightarrow> string \<Rightarrow> string \<Rightarrow> string
     \<Rightarrow> ('s admin_state, exn, (string \<times> json) view_result) sem" where
  "destroy_accessor_view ax bk au env pk reason mount role accessor confirmation =
     bnd (get_cluster env pk ''delete_auth_resources'') (\<lambda>c.
     bnd (require_approle ax bk au env c mount) (\<lambda>_.
     bnd (lift_sum (accessor_request True (''DESTROY APPROLE SECRET ID ON '' @ clu_slug c) accessor confirmation)) (\<lambda>a.
     auth_mutation ax bk env c
       (posting ''destroy-approle-secret-id'' ''app-role-destroy-secret-id-by-accessor''
          ''/auth/{mount_path}/role/{role_name}/secret-id-accessor/destroy'' reason ''destructive'')
       (then_value (destroy_approle_secret_id (au_requester au) (JStr mount) (JStr role) (JStr a)) [(''destroyed'', JBool True)]))))"

section \<open>Logins\<close>

definition login_path :: "string \<Rightarrow> string" where
  "login_path method_type =
     (if method_type = ''token'' then ''/auth/token/lookup-self''
      else if method_type \<in> {''userpass'', ''ldap'', ''radius''} then ''/auth/{mount_path}/login/{username}''
      else ''/auth/{mount_path}/login'')"

definition auth_login_view ::
  "'v auth_env \<Rightarrow> 's admin_ops \<Rightarrow> 's auth_ops \<Rightarrow> admin_env \<Rightarrow> nat \<Rightarrow> string \<Rightarrow> string \<Rightarrow> string \<Rightarrow> payload
     \<Rightarrow> ('s admin_state, exn, (string \<times> login_outcome) view_result) sem" where
  "auth_login_view ax bk au env pk reason mount method_type data =
     bnd (get_cluster env pk ''authenticate'') (\<lambda>c.
     bnd (lift_sum (login_request method_type data)) (\<lambda>p.
     bnd (resolve_auth_mount ax bk au env c mount) (\<lambda>m.
     bnd (check (amt_method_type m = method_type \<and> (method_type = ''token'' \<longrightarrow> mount = ''token''))
            (refused ''The selected mount does not match the login method.'')) (\<lambda>_.
     bnd (get_or (map_of LOGIN_OPERATION_IDS method_type) (PythonError ''KeyError'')) (\<lambda>i.
     auth_mutation ax bk env c
       ((posting ''authenticate'' i (login_path method_type) reason ''sensitive'')
        \<lparr>ac_method := (if method_type = ''token'' then ''GET'' else ''POST'')\<rparr>)
       (authenticate (au_codec au) (au_requester au) method_type (JStr mount) p))))))"

definition namespace_callback_path :: "string \<Rightarrow> exn + string" where
  "namespace_callback_path namespace =
     (let parts = split_on (CHR ''/'') (strip_of (CHR ''/'') namespace) in
      if namespace = [] then Inr []
      else if list_ex (\<lambda>s. s \<in> {[], ''.'', ''..''}) parts
      then Inl (refused ''The OpenBao namespace cannot be represented in an OIDC callback URL.'')
      else Inr (join_with ''/'' (map (quote ''-._~'') parts) @ ''/''))"

definition oidc_callback :: "openbao_cluster \<Rightarrow> string \<Rightarrow> exn + string" where
  "oidc_callback c mount =
     (case urlsplit (clu_api_url c) of
        None \<Rightarrow> Inl (PythonError ''ValueError'')
      | Some u \<Rightarrow>
          if url_scheme u \<noteq> ''https'' \<and> url_hostname u \<notin> {''127.0.0.1'', ''::1'', ''localhost''}
          then Inl (refused ''OIDC direct callbacks require a secure OpenBao API URL.'')
          else sbind (namespace_callback_path (clu_namespace c)) (\<lambda>namespace.
               Inr (rstrip_of (CHR ''/'') (clu_api_url c) @ ''/v1/'' @ namespace @ ''auth/'' @ mount @ ''/oidc/callback'')))"

text \<open>What the envelope of a started login binds a poll to.\<close>

definition oidc_binding ::
  "'v auth_env \<Rightarrow> admin_env \<Rightarrow> openbao_cluster \<Rightarrow> string \<Rightarrow> string \<Rightarrow> string \<Rightarrow> payload" where
  "oidc_binding ax env c mount challenge nonce =
     [(''cluster'', JNum (int (clu_pk c))),
      (''user'', case aa_user (ae_actor env) of None \<Rightarrow> JNull | Some u \<Rightarrow> JNum (int u)), (''mount'', JStr mount),
      (''state'', JStr (av_sha256 ax challenge)), (''nonce'', JStr (av_sha256 ax nonce))]"

record oidc_started =
  os_result :: oidc_start_result
  os_client_nonce :: string
  os_envelope :: string

definition oidc_start ::
  "'v auth_env \<Rightarrow> 's auth_ops \<Rightarrow> admin_env \<Rightarrow> openbao_cluster \<Rightarrow> string \<Rightarrow> string \<Rightarrow> ('s, exn, oidc_started) sem" where
  "oidc_start ax au env c mount role =
     bnd (read_direct_oidc_role (au_codec au) (au_requester au) (JStr mount) (JStr role)) (\<lambda>_.
     bnd (lift_sum (oidc_callback c mount)) (\<lambda>callback.
     bnd (oidc_begin (au_codec au) (au_requester au) (JStr mount) (JStr role) (JStr callback) (JStr (av_nonce ax))) (\<lambda>r.
     ret \<lparr>os_result = r, os_client_nonce = av_nonce ax,
          os_envelope = av_sign ax (oidc_binding ax env c mount (oidc_state r) (av_nonce ax))\<rparr>)))"

definition require_oidc ::
  "'v auth_env \<Rightarrow> 's admin_ops \<Rightarrow> 's auth_ops \<Rightarrow> admin_env \<Rightarrow> openbao_cluster \<Rightarrow> string \<Rightarrow> ('s admin_state, exn, unit) sem" where
  "require_oidc ax bk au env c mount =
     bnd (resolve_auth_mount ax bk au env c mount) (\<lambda>m.
     check (amt_method_type m \<in> {''jwt'', ''oidc''}) (refused ''The selected mount does not support direct OIDC.''))"

definition oidc_start_view ::
  "'v auth_env \<Rightarrow> 's admin_ops \<Rightarrow> 's auth_ops \<Rightarrow> admin_env \<Rightarrow> nat \<Rightarrow> string \<Rightarrow> string \<Rightarrow> string
     \<Rightarrow> ('s admin_state, exn, (string \<times> oidc_started) view_result) sem" where
  "oidc_start_view ax bk au env pk reason mount role =
     bnd (get_cluster env pk ''authenticate'') (\<lambda>c.
     bnd (lift_sum (contract_checked (normalize_resource_name (JStr role) False))) (\<lambda>r.
     bnd (require_oidc ax bk au env c mount) (\<lambda>_.
     auth_mutation ax bk env c
       ((posting ''start-oidc-authentication'' ''jwt-oidc-request-authorization-url'' ''/auth/{mount_path}/oidc/auth_url'' reason ''sensitive'')
        \<lparr>ac_required := [''jwt-read-role'']\<rparr>)
       (oidc_start ax au env c mount r))))"

definition oidc_poll_view ::
  "'v auth_env \<Rightarrow> 's admin_ops \<Rightarrow> 's auth_ops \<Rightarrow> admin_env \<Rightarrow> nat \<Rightarrow> string \<Rightarrow> string \<Rightarrow> string \<Rightarrow> string \<Rightarrow> string
     \<Rightarrow> ('s admin_state, exn, (string \<times> authentication_result) view_result) sem" where
  "oidc_poll_view ax bk au env pk reason mount challenge nonce envelope =
     bnd (get_cluster env pk ''authenticate'') (\<lambda>c.
     bnd (require_oidc ax bk au env c mount) (\<lambda>_.
     bnd (check (case av_unsign ax envelope of
                   Some (JObj d) \<Rightarrow> dict_ok d \<and> set d = set (oidc_binding ax env c mount challenge nonce)
                 | _ \<Rightarrow> False)
            (refused ''The OIDC polling envelope is invalid or expired.'')) (\<lambda>_.
     auth_mutation ax bk env c
       (posting ''poll-oidc-authentication'' ''jwt-write-oidc-poll'' ''/auth/{mount_path}/oidc/poll'' reason ''sensitive'')
       (oidc_poll (au_codec au) (au_requester au) (JStr mount) (JStr challenge) (JStr nonce)))))"

section \<open>Multi-factor authentication\<close>

definition mfa_validate_view ::
  "'v auth_env \<Rightarrow> 's admin_ops \<Rightarrow> 's auth_ops \<Rightarrow> admin_env \<Rightarrow> nat \<Rightarrow> string \<Rightarrow> string \<Rightarrow> payload
     \<Rightarrow> ('s admin_state, exn, (string \<times> authentication_result) view_result) sem" where
  "mfa_validate_view ax bk au env pk reason request_id p =
     bnd (get_cluster env pk ''authenticate'') (\<lambda>c.
     bnd (lift_sum (mfa_payload_field p)) (\<lambda>q.
     auth_mutation ax bk env c (posting ''validate-mfa'' ''mfa-validate'' ''/sys/mfa/validate'' reason ''sensitive'')
       (validate_mfa (au_codec au) (au_requester au) (JStr request_id) (JObj q))))"

definition mfa_methods_view ::
  "'v auth_env \<Rightarrow> 's admin_ops \<Rightarrow> 's auth_ops \<Rightarrow> admin_env \<Rightarrow> nat
     \<Rightarrow> ('s admin_state, exn, json) sem" where
  "mfa_methods_view ax bk au env pk =
     bnd (get_cluster env pk ''view_authentication'') (\<lambda>c.
     auth_read ax bk env c ''list-mfa-methods'' ''mfa-list-methods'' ''LIST'' ''/identity/mfa/method''
       (list_mfa_methods (au_codec au) (au_requester au)))"

definition mfa_operation :: "string \<Rightarrow> string \<Rightarrow> string" where
  "mfa_operation verb method_type = ''mfa-'' @ verb @ ''-'' @ replace_all ''pingid'' ''ping-id'' method_type @ ''-method''"

definition mfa_method_view ::
  "'v auth_env \<Rightarrow> 's admin_ops \<Rightarrow> 's auth_ops \<Rightarrow> admin_env \<Rightarrow> nat \<Rightarrow> string
     \<Rightarrow> ('s admin_state, exn, json) sem" where
  "mfa_method_view ax bk au env pk method_id =
     bnd (lift_sum (canonical_uuid method_id ''method_id'')) (\<lambda>i.
     bnd (get_cluster env pk ''view_authentication'') (\<lambda>c.
     auth_read ax bk env c ''read-mfa-method'' ''mfa-read-method-configuration'' ''GET'' ''/identity/mfa/method/{method_id}''
       (read_mfa_method (au_codec au) (au_requester au) (JStr i))))"

definition write_mfa_method_view ::
  "'v auth_env \<Rightarrow> 's admin_ops \<Rightarrow> 's auth_ops \<Rightarrow> admin_env \<Rightarrow> nat \<Rightarrow> string \<Rightarrow> string \<Rightarrow> string \<Rightarrow> json
     \<Rightarrow> ('s admin_state, exn, (string \<times> json) view_result) sem" where
  "write_mfa_method_view ax bk au env pk reason method_type method_id v =
     bnd (lift_sum (canonical_uuid method_id ''method_id'')) (\<lambda>i.
     bnd (get_cluster env pk ''manage_mfa'') (\<lambda>c.
     bnd (lift_sum (mfa_method_fields method_type)) (\<lambda>rules.
     bnd (lift_sum (reviewed_payload rules v)) (\<lambda>p.
     auth_mutation ax bk env c
       (posting ''write-mfa-method'' (mfa_operation ''configure'' method_type) ''/identity/mfa/method/{type}/{method_id}'' reason ''sensitive'')
       (bnd (write_mfa_method (au_codec au) (au_requester au) method_type p i) (\<lambda>r.
        ret (if truthy r then r else JObj [(''method_id'', JStr i), (''method_type'', JStr method_type)])))))))"

definition delete_mfa_method_view ::
  "'v auth_env \<Rightarrow> 's admin_ops \<Rightarrow> 's auth_ops \<Rightarrow> admin_env \<Rightarrow> nat \<Rightarrow> string \<Rightarrow> string \<Rightarrow> string \<Rightarrow> string
     \<Rightarrow> ('s admin_state, exn, (string \<times> json) view_result) sem" where
  "delete_mfa_method_view ax bk au env pk reason method_type method_id confirmation =
     bnd (lift_sum (canonical_uuid method_id ''method_id'')) (\<lambda>i.
     bnd (get_cluster env pk ''delete_mfa'') (\<lambda>c.
     bnd (lift_sum (confirmed_action (''DELETE MFA METHOD '' @ i @ '' ON '' @ clu_slug c) confirmation)) (\<lambda>_.
     auth_mutation ax bk env c
       ((posting ''delete-mfa-method'' (mfa_operation ''delete'' method_type) ''/identity/mfa/method/{type}/{method_id}'' reason ''destructive'')
        \<lparr>ac_method := ''DELETE''\<rparr>)
       (then_value (delete_mfa_method (au_requester au) method_type (JStr i)) [(''deleted'', JStr i)]))))"

definition create_mfa_method_view ::
  "'v auth_env \<Rightarrow> 's admin_ops \<Rightarrow> 's auth_ops \<Rightarrow> admin_env \<Rightarrow> nat \<Rightarrow> string \<Rightarrow> string \<Rightarrow> json
     \<Rightarrow> ('s admin_state, exn, (string \<times> json) view_result) sem" where
  "create_mfa_method_view ax bk au env pk reason method_type v =
     bnd (get_cluster env pk ''manage_mfa'') (\<lambda>c.
     bnd (lift_sum (mfa_method_fields method_type)) (\<lambda>rules.
     bnd (lift_sum (reviewed_payload rules v)) (\<lambda>p.
     auth_mutation ax bk env c
       ((posting ''create-mfa-method'' (mfa_operation ''configure'' method_type) ''/identity/mfa/method/{type}'' reason ''sensitive'')
        \<lparr>ac_status := 201\<rparr>)
       (write_mfa_method (au_codec au) (au_requester au) method_type p []))))"

definition totp_self_view ::
  "'v auth_env \<Rightarrow> 's admin_ops \<Rightarrow> 's auth_ops \<Rightarrow> admin_env \<Rightarrow> nat \<Rightarrow> string \<Rightarrow> string \<Rightarrow> string
     \<Rightarrow> ('s admin_state, exn, (string \<times> totp_setup_result) view_result) sem" where
  "totp_self_view ax bk au env pk reason method_id token =
     bnd (lift_sum (canonical_uuid method_id ''method_id'')) (\<lambda>i.
     bnd (get_cluster env pk ''authenticate'') (\<lambda>c.
     auth_mutation ax bk env c
       (posting ''generate-self-totp-setup'' ''mfa-generate-totp-secret'' ''/identity/mfa/method/totp/generate'' reason ''sensitive'')
       (setup_totp (au_codec au) (au_requester au) (JStr i) (JStr []) False (JStr token))))"

definition totp_self_reset_view ::
  "'v auth_env \<Rightarrow> 's admin_ops \<Rightarrow> 's auth_ops \<Rightarrow> admin_env \<Rightarrow> nat \<Rightarrow> string \<Rightarrow> string \<Rightarrow> string \<Rightarrow> string
     \<Rightarrow> ('s admin_state, exn, (string \<times> json) view_result) sem" where
  "totp_self_reset_view ax bk au env pk reason method_id token confirmation =
     bnd (lift_sum (canonical_uuid method_id ''method_id'')) (\<lambda>i.
     bnd (get_cluster env pk ''authenticate'') (\<lambda>c.
     bnd (lift_sum (confirmed_action (''RESET MY TOTP ON '' @ clu_slug c) confirmation)) (\<lambda>_.
     auth_mutation ax bk env c
       ((posting ''reset-self-totp-setup'' ''mfa-admin-destroy-totp-secret'' ''/identity/mfa/method/totp/admin-destroy'' reason ''destructive'')
        \<lparr>ac_required := [''token-look-up-self-get'']\<rparr>)
       (reset_totp_setup (au_codec au) (au_requester au) (JStr i) (JStr token)))))"

definition totp_generate_view ::
  "'v auth_env \<Rightarrow> 's admin_ops \<Rightarrow> 's auth_ops \<Rightarrow> admin_env \<Rightarrow> nat \<Rightarrow> string \<Rightarrow> string \<Rightarrow> string
     \<Rightarrow> ('s admin_state, exn, (string \<times> totp_setup_result) view_result) sem" where
  "totp_generate_view ax bk au env pk reason method_id entity_id =
     bnd (lift_sum (canonical_uuid method_id ''method_id'')) (\<lambda>i.
     bnd (lift_sum (canonical_uuid entity_id ''entity_id'')) (\<lambda>entity.
     bnd (get_cluster env pk ''manage_mfa'') (\<lambda>c.
     auth_mutation ax bk env c
       (posting ''generate-totp-setup'' ''mfa-admin-generate-totp-secret'' ''/identity/mfa/method/totp/admin-generate'' reason ''sensitive'')
       (setup_totp (au_codec au) (au_requester au) (JStr i) (JStr entity) True (JStr [])))))"

definition totp_destroy_view ::
  "'v auth_env \<Rightarrow> 's admin_ops \<Rightarrow> 's auth_ops \<Rightarrow> admin_env \<Rightarrow> nat \<Rightarrow> string \<Rightarrow> string \<Rightarrow> string \<Rightarrow> string
     \<Rightarrow> ('s admin_state, exn, (string \<times> json) view_result) sem" where
  "totp_destroy_view ax bk au env pk reason method_id entity_id confirmation =
     bnd (lift_sum (canonical_uuid method_id ''method_id'')) (\<lambda>i.
     bnd (lift_sum (canonical_uuid entity_id ''entity_id'')) (\<lambda>entity.
     bnd (get_cluster env pk ''delete_mfa'') (\<lambda>c.
     bnd (lift_sum (confirmed_action (''DESTROY TOTP FOR '' @ entity @ '' ON '' @ clu_slug c) confirmation)) (\<lambda>_.
     auth_mutation ax bk env c
       (posting ''destroy-totp-setup'' ''mfa-admin-destroy-totp-secret'' ''/identity/mfa/method/totp/admin-destroy'' reason ''destructive'')
       (then_value (destroy_totp_setup (au_requester au) (JStr i) (JStr entity)) [(''destroyed'', JBool True)])))))"

definition mfa_enforcements_view ::
  "'v auth_env \<Rightarrow> 's admin_ops \<Rightarrow> 's auth_ops \<Rightarrow> admin_env \<Rightarrow> nat
     \<Rightarrow> ('s admin_state, exn, json) sem" where
  "mfa_enforcements_view ax bk au env pk =
     bnd (get_cluster env pk ''view_authentication'') (\<lambda>c.
     auth_read ax bk env c ''list-mfa-enforcements'' ''mfa-list-login-enforcements'' ''LIST'' ''/identity/mfa/login-enforcement''
       (list_mfa_enforcements (au_codec au) (au_requester au)))"

definition mfa_enforcement_view ::
  "'v auth_env \<Rightarrow> 's admin_ops \<Rightarrow> 's auth_ops \<Rightarrow> admin_env \<Rightarrow> nat \<Rightarrow> string
     \<Rightarrow> ('s admin_state, exn, json) sem" where
  "mfa_enforcement_view ax bk au env pk name =
     bnd (get_cluster env pk ''view_authentication'') (\<lambda>c.
     auth_read ax bk env c ''read-mfa-enforcement'' ''mfa-read-login-enforcement'' ''GET'' ''/identity/mfa/login-enforcement/{name}''
       (read_mfa_enforcement (au_codec au) (au_requester au) (JStr name)))"

definition write_enforcement_view ::
  "'v auth_env \<Rightarrow> 's admin_ops \<Rightarrow> 's auth_ops \<Rightarrow> admin_env \<Rightarrow> nat \<Rightarrow> string \<Rightarrow> string \<Rightarrow> json
     \<Rightarrow> ('s admin_state, exn, (string \<times> json) view_result) sem" where
  "write_enforcement_view ax bk au env pk reason name v =
     bnd (get_cluster env pk ''manage_mfa'') (\<lambda>c.
     bnd (lift_sum (reviewed_payload MFA_ENFORCEMENT_FIELDS v)) (\<lambda>p.
     auth_mutation ax bk env c
       (posting ''write-mfa-enforcement'' ''mfa-write-login-enforcement'' ''/identity/mfa/login-enforcement/{name}'' reason ''write'')
       (then_value (write_mfa_enforcement (au_requester au) (JStr name) p) [(''name'', JStr name)])))"

definition delete_enforcement_view ::
  "'v auth_env \<Rightarrow> 's admin_ops \<Rightarrow> 's auth_ops \<Rightarrow> admin_env \<Rightarrow> nat \<Rightarrow> string \<Rightarrow> string \<Rightarrow> string
     \<Rightarrow> ('s admin_state, exn, (string \<times> json) view_result) sem" where
  "delete_enforcement_view ax bk au env pk reason name confirmation =
     bnd (get_cluster env pk ''delete_mfa'') (\<lambda>c.
     bnd (lift_sum (confirmed_action (''DELETE MFA ENFORCEMENT '' @ name @ '' ON '' @ clu_slug c) confirmation)) (\<lambda>_.
     auth_mutation ax bk env c
       ((posting ''delete-mfa-enforcement'' ''mfa-delete-login-enforcement'' ''/identity/mfa/login-enforcement/{name}'' reason ''destructive'')
        \<lparr>ac_method := ''DELETE''\<rparr>)
       (then_value (delete_mfa_enforcement (au_requester au) (JStr name)) [(''deleted'', JStr name)])))"

section \<open>Tokens\<close>

definition auth_token_view ::
  "'v auth_env \<Rightarrow> 's admin_ops \<Rightarrow> 's auth_ops \<Rightarrow> admin_env \<Rightarrow> nat \<Rightarrow> string \<Rightarrow> string \<Rightarrow> payload
     \<Rightarrow> ('s admin_state, exn, (string \<times> token_outcome) view_result) sem" where
  "auth_token_view ax bk au env pk reason operation data =
     (let destructive = prefix ''revoke'' operation in
     bnd (get_cluster env pk (if destructive then ''revoke_tokens'' else ''manage_tokens'')) (\<lambda>c.
     bnd (lift_sum (token_request operation (''REVOKE TOKEN ON '' @ clu_slug c) data)) (\<lambda>p.
     bnd (get_or (map_of TOKEN_OPERATION_IDS operation) (PythonError ''KeyError'')) (\<lambda>i.
     bnd (get_or (map_of TOKEN_OPERATION_PATHS operation) (PythonError ''KeyError'')) (\<lambda>path.
     auth_mutation ax bk env c
       ((posting operation i path reason (if destructive then ''destructive'' else ''sensitive''))
        \<lparr>ac_method := (if operation = ''lookup-self'' then ''GET'' else ''POST'')\<rparr>)
       (token_operation (au_codec au) (au_requester au) operation p))))))"

end
