(* ===== verification/Admin_Review_Safety.thy ===== *)
theory Admin_Review_Safety
  imports Admin_Safety Admin_Auth_Views
begin

text \<open>
  The safety of the engine and authentication views: every change is preceded by the durable record of who authorised
  it and why, and an explorer execution sends exactly the reviewed operation.
\<close>

section \<open>Authorised changes\<close>

text \<open>The record of who authorised a change, and why.\<close>

definition authorisation :: "admin_env \<Rightarrow> string \<Rightarrow> openbao_cluster \<Rightarrow> administration_log \<Rightarrow> bool" where
  "authorisation env reason c entry =
     (adl_cluster entry = clu_pk c \<and> adl_user entry = aa_user (ae_actor env) \<and> adl_outcome entry = ''authorized''
      \<and> adl_reason entry = take 10000 reason)"

definition change_authorised ::
  "admin_env \<Rightarrow> nat \<Rightarrow> string \<Rightarrow> string \<Rightarrow> (('s \<times> admin_request list) admin_state, exn, 'r) sem \<Rightarrow> bool" where
  "change_authorised env pk permission reason view =
     (\<forall>st r st'. view st = (r, st') \<and> sent (as_backend st') \<noteq> sent (as_backend st) \<longrightarrow>
        \<not> ae_in_atomic env \<and>
        (\<exists>c. map_of (as_clusters st) pk = Some c \<and> aa_permits (ae_actor env) permission pk \<and>
           (\<exists>entry \<in> set (drop (length (as_log st)) (as_log st')). authorisation env reason c entry)))"

lemma reviewed_change_authorised:
  assumes "\<And>c. framed (recorded unsent env (authorisation env reason c)) (f c)"
  shows "change_authorised env pk permission reason (bnd (get_cluster env pk permission) f)"
  unfolding change_authorised_def
proof (intro allI impI, elim conjE)
  fix st r st'
  assume run: "bnd (get_cluster env pk permission) f st = (r, st')" and "sent (as_backend st') \<noteq> sent (as_backend st)"
  moreover from this obtain c where "map_of (as_clusters st) pk = Some c" "aa_permits (ae_actor env) permission pk" "f c st = (r, st')"
    by (auto elim: get_cluster_cases)
  ultimately show "\<not> ae_in_atomic env \<and> (\<exists>c. map_of (as_clusters st) pk = Some c \<and> aa_permits (ae_actor env) permission pk \<and>
     (\<exists>entry \<in> set (drop (length (as_log st)) (as_log st')). authorisation env reason c entry))"
    using framedD [OF assms] by (fastforce simp: recorded_def unsent_def)
qed

lemma checked_change_authorised:
  assumes "\<And>x. z = Inr x \<Longrightarrow> change_authorised env pk permission reason (f x)"
  shows "change_authorised env pk permission reason (bnd (lift_sum z) f)"
proof (cases z)
  case (Inr x)
  then have "bnd (lift_sum z) f = f x" by (simp add: fun_eq_iff sem_defs)
  with assms Inr show ?thesis by simp
qed (simp add: change_authorised_def sem_defs)

section \<open>What the reviewed views read\<close>

locale quiet_mounts = quiet_reads R bk for R :: "'s \<Rightarrow> 's \<Rightarrow> bool" and bk :: "'s admin_ops" +
  fixes au :: "'s auth_ops"
  assumes quiet_engines: "framed R (bk_list_secret_engines bk)"
    and quiet_methods: "framed R (au_list_methods au)"
begin

lemma engine_prepare_kept:
  "framed (kept R) (engine_document ee bk)" "framed (kept R) (prepare_engine_operation ee bk verb path)"
  "framed (kept R) (mount_paths bk)"
  unfolding prepare_engine_operation_def engine_document_def mount_paths_def
  by (intro view_rules on_backend_kept quiet_discover quiet_engines status_kept)+

lemma explorer_prepare_kept:
  "framed (kept R) (prepare_explorer_execution ee bk env c q f)" "framed (kept R) (prepare_engine_journey ee bk env c q f)"
  unfolding prepare_explorer_execution_def prepare_engine_journey_def
  by (intro view_rules on_backend_kept quiet_engines engine_prepare_kept)+

lemma auth_prepare_kept: "framed (kept R) (prepare_auth_operation ax bk i required)"
  unfolding prepare_auth_operation_def by (intro view_rules on_backend_kept quiet_discover status_kept)

lemma resolve_kept: "framed (kept R) (resolve_auth_mount ax bk au env c mount)"
  unfolding resolve_auth_mount_def contract_read_def mounted_method_def
  by (intro view_rules on_backend_kept quiet_methods auth_prepare_kept log_kept failure_kept)

lemma resolved_kept:
  "framed (kept R) (require_approle ax bk au env c mount)" "framed (kept R) (require_oidc ax bk au env c mount)"
  "framed (kept R) (config_contract ax bk au env c mount)" "framed (kept R) (resource_contract ax bk au env c mount k operation)"
  unfolding require_approle_def require_oidc_def config_contract_def resource_contract_def
  by (intro view_rules resolve_kept)+

section \<open>Their changes\<close>

lemma reviewed_view_recorded:
  assumes prepare: "framed (kept R) prepare" and act: "\<And>x. framed (kept (\<lambda>_ _. True)) (act x)"
    and P: "\<And>x. P (log_row env c ((rw_authorised rw x)\<lparr>ev_durable := True\<rparr>))"
  shows "framed (recorded R env P) (reviewed_view env c rw prepare act)"
proof (rule framedI)
  fix st r st' assume run: "reviewed_view env c rw prepare act st = (r, st')"
  obtain q st1 where p: "prepare st = (q, st1)" by fastforce
  have kept: "kept R st st1" using framedD [OF prepare p] .
  have early: "framed (recorded R env P) (if exn_is OpenBaoMutationUnknownC e then raise (PythonError ''UnboundLocalError'')
      else if rw_audited rw e then backend_failure env c (rw_failed rw) (rw_reason rw) (rw_early_risk rw) e
      else raise (rw_translated rw e))" for e
    by (intro kept_recorded view_rules failure_kept)
  have late: "framed (recorded R env P) (if exn_is OpenBaoMutationUnknownC e
      then bnd (record_unknown_event env c (rw_unknown rw x)) (\<lambda>a. ret (OutcomeUnknown a))
      else if rw_audited rw e then backend_failure env c (rw_failed rw) (rw_reason rw) (rw_risk rw x) e
      else raise (rw_translated rw e))" for e x
    unfolding record_unknown_event_def by (intro kept_recorded view_rules failure_kept log_kept)
  have "recorded R env P st1 st'"
  proof (cases q)
    case (Inl e)
    with run p show ?thesis by (intro framedD [OF early]) (simp add: reviewed_view_def)
  next
    case (Inr x)
    obtain q2 st2 where b: "bnd (log_administration env c ((rw_authorised rw x)\<lparr>ev_durable := True\<rparr>)) (\<lambda>_. act x) st1 = (q2, st2)"
      by fastforce
    have "recorded R env P st1 st2" by (rule framedD [OF recorded_step b]) (use act P in simp_all)
    moreover have "recorded R env P st2 st'"
    proof (cases q2)
      case (Inl e)
      with run p Inr b show ?thesis by (intro framedD [OF late]) (simp add: reviewed_view_def)
    next
      case (Inr y)
      with run p \<open>q = Inr x\<close> b show ?thesis by (intro framedD [OF kept_recorded [OF finish_kept]]) (simp add: reviewed_view_def)
    qed
    ultimately show ?thesis using state_frame.frame_trans [OF recorded_frame] by blast
  qed
  moreover have "recorded R env P st st1" using kept by (simp add: kept_def recorded_def)
  ultimately show "recorded R env P st st'" using state_frame.frame_trans [OF recorded_frame] by blast
qed

lemma authorised_log:
  "ev_outcome ev = ''authorized'' \<Longrightarrow> ev_reason ev = reason \<Longrightarrow> authorisation env reason c (log_row env c (ev\<lparr>ev_durable := True\<rparr>))"
  by (simp add: authorisation_def log_row_def str_or_def)

lemma engine_mutation_recorded: "framed (recorded R env (authorisation env reason c)) (engine_mutation ee bk env c reason ch)"
  unfolding engine_mutation_def
  by (intro framed_case_prod reviewed_view_recorded view_rules engine_prepare_kept any_backend authorised_log)
    (simp_all add: engine_review_def engine_event_def event_def)

lemma auth_mutation_recorded:
  "ac_reason call = reason \<Longrightarrow> framed (recorded R env (authorisation env reason c)) (auth_mutation ax bk env c call producer)"
  unfolding auth_mutation_def
  by (intro reviewed_view_recorded auth_prepare_kept any_backend authorised_log) (simp_all add: auth_review_def auth_event_def event_def)


end

section \<open>Properties\<close>

interpretation mounts: quiet_mounts unsent "direct_ops cd health (traced rq)" "direct_auth cd (traced rq)"
  by unfold_locales
    (simp_all add: direct_ops_def direct_auth_def list_secret_engines_def list_auth_methods_def unsent_fetched get_unchanging)

lemmas authorised_rules = checked_change_authorised reviewed_change_authorised state_frame.framed_bnd [OF direct.recorded_frame]
  direct.kept_recorded [OF direct.view.framed_basic(4)] direct.kept_recorded [OF direct.view.framed_basic(5)]
  direct.kept_recorded [OF direct.view.framed_basic(6)] framed_cases

lemma reviewed_action_ran:
  assumes run: "reviewed_view env c rw prepare act st = (r, st')"
    and prepare: "framed (kept unsent) prepare" and moved: "sent (as_backend st') \<noteq> sent (as_backend st)"
  obtains x s1 s2 q s3 where "prepare st = (Inr x, s1)" "act x s2 = (q, s3)"
    "sent (as_backend s2) = sent (as_backend st)" "sent (as_backend st') = sent (as_backend s3)"
proof -
  obtain p s1 where p: "prepare st = (p, s1)" by fastforce
  with prepare have s1: "sent (as_backend s1) = sent (as_backend st)" by (auto dest!: framedD simp: kept_def unsent_def)
  have quiet: "framed (kept unsent) (raise e)" "framed (kept unsent) (backend_failure env c failed reason risk e)"
    "framed (kept unsent) (bnd (record_unknown_event env c ev) (\<lambda>a. ret (OutcomeUnknown a)))"
    "framed (kept unsent) (finish_mutation env c ev y)" for e failed reason risk ev y
    unfolding record_unknown_event_def by (intro direct.view_rules direct.failure_kept direct.log_kept direct.finish_kept)+
  note still = quiet [THEN framedD, unfolded kept_def unsent_def, THEN conjunct1]
  obtain x where x: "p = Inr x"
    using run p s1 moved by (cases p) (auto simp: reviewed_view_def split: if_splits dest!: still(1) still(2))
  obtain l s2 where log: "log_administration env c ((rw_authorised rw x)\<lparr>ev_durable := True\<rparr>) s1 = (l, s2)" by fastforce
  then have s2: "sent (as_backend s2) = sent (as_backend st)" using log_administration_backend s1 by metis
  obtain q s3 where act: "act x s2 = (q, s3)" by fastforce
  have body: "bnd (log_administration env c ((rw_authorised rw x)\<lparr>ev_durable := True\<rparr>)) (\<lambda>_. act x) s1
      = (case l of Inl e \<Rightarrow> (Inl e, s2) | Inr _ \<Rightarrow> (q, s3))"
    using log act by (simp add: bnd_def split: sum.split)
  have "sent (as_backend st') = sent (as_backend (case l of Inl _ \<Rightarrow> s2 | Inr _ \<Rightarrow> s3))"
    using run by (auto simp: reviewed_view_def p x body split: sum.splits if_splits dest!: still)
  with s2 moved have "sent (as_backend st') = sent (as_backend s3)" by (cases l) auto
  with that p x act s2 show ?thesis by blast
qed

text \<open>C33: No change of a secret engine without its record: when enabling, tuning, moving or disabling a mount, running an
  explorer operation or a journey has sent a request that may change the cluster, the cluster exists, the actor held
  the permission of the view on it, no surrounding transaction could roll the record back, and the log gained a row
  of this actor and cluster that authorises the change for the reason the operator gave.\<close>

theorem engine_changes_authorised:
  "let bk = direct_ops cd health (traced rq) in
     change_authorised env pk ''manage_secret_engines'' reason (enable_engine_view ee bk env pk reason mount v) \<and>
     change_authorised env pk ''manage_secret_engines'' reason (tune_engine_view ee bk env pk reason mount v) \<and>
     change_authorised env pk ''manage_secret_engines'' reason (remount_engine_view ee bk env pk reason mount destination confirmation) \<and>
     change_authorised env pk ''disable_secret_engines'' reason (disable_engine_view ee bk env pk reason mount confirmation) \<and>
     change_authorised env pk ''explore_secret_operations'' (xq_reason q) (execute_operation_view ee bk env pk q) \<and>
     change_authorised env pk ''view_secret_engines'' (xq_reason q) (execute_journey_view ee bk env pk q)"
  unfolding Let_def enable_engine_view_def tune_engine_view_def remount_engine_view_def disable_engine_view_def
    execute_operation_view_def execute_journey_view_def
  by (intro conjI authorised_rules mounts.engine_mutation_recorded mounts.reviewed_view_recorded mounts.explorer_prepare_kept
      any_backend mounts.authorised_log)
    (simp_all add: engine_review_def engine_event_def event_def split: prod.split)

text \<open>C34: No change of the authentication of a cluster without its record. The same holds of every view that
  changes methods, configuration, resources, AppRole material, multi-factor methods or tokens, and of every login: each
  has the permission of its own, and what it reads before its record is committed changes nothing.\<close>

theorem authentication_changes_authorised:
  "let bk = direct_ops cd health (traced rq); au = direct_auth cd (traced rq) in
     change_authorised env pk ''manage_auth_methods'' reason (enable_auth_view ax bk au env pk reason mount kind data) \<and>
     change_authorised env pk ''manage_auth_methods'' reason (tune_auth_view ax bk au env pk reason mount data) \<and>
     change_authorised env pk ''disable_auth_methods'' reason (disable_auth_view ax bk au env pk reason mount confirmation) \<and>
     change_authorised env pk ''manage_auth_methods'' reason (remount_auth_view ax bk au env pk reason mount destination) \<and>
     change_authorised env pk ''manage_auth_methods'' reason (write_auth_config_view ax bk au env pk reason mount v) \<and>
     change_authorised env pk ''manage_auth_resources'' reason (write_auth_resource_view ax bk au env pk reason mount k name v) \<and>
     change_authorised env pk ''delete_auth_resources'' reason (delete_auth_resource_view ax bk au env pk reason mount k name confirmation) \<and>
     change_authorised env pk ''issue_auth_material'' reason (approle_secret_id_view ax bk au env pk reason mount role data) \<and>
     change_authorised env pk ''manage_auth_resources'' reason (write_role_id_view ax bk au env pk reason mount role role_id) \<and>
     change_authorised env pk ''view_authentication'' reason (lookup_accessor_view ax bk au env pk reason mount role accessor) \<and>
     change_authorised env pk ''delete_auth_resources'' reason (destroy_accessor_view ax bk au env pk reason mount role accessor confirmation) \<and>
     change_authorised env pk ''authenticate'' reason (auth_login_view ax bk au env pk reason mount kind data) \<and>
     change_authorised env pk ''authenticate'' reason (oidc_start_view ax bk au env pk reason mount role) \<and>
     change_authorised env pk ''authenticate'' reason (oidc_poll_view ax bk au env pk reason mount challenge nonce envelope) \<and>
     change_authorised env pk ''authenticate'' reason (mfa_validate_view ax bk au env pk reason request_id data) \<and>
     change_authorised env pk ''manage_mfa'' reason (write_mfa_method_view ax bk au env pk reason kind method_id v) \<and>
     change_authorised env pk ''delete_mfa'' reason (delete_mfa_method_view ax bk au env pk reason kind method_id confirmation) \<and>
     change_authorised env pk ''manage_mfa'' reason (create_mfa_method_view ax bk au env pk reason kind v) \<and>
     change_authorised env pk ''authenticate'' reason (totp_self_view ax bk au env pk reason method_id token) \<and>
     change_authorised env pk ''authenticate'' reason (totp_self_reset_view ax bk au env pk reason method_id token confirmation) \<and>
     change_authorised env pk ''manage_mfa'' reason (totp_generate_view ax bk au env pk reason method_id entity_id) \<and>
     change_authorised env pk ''delete_mfa'' reason (totp_destroy_view ax bk au env pk reason method_id entity_id confirmation) \<and>
     change_authorised env pk ''manage_mfa'' reason (write_enforcement_view ax bk au env pk reason name v) \<and>
     change_authorised env pk ''delete_mfa'' reason (delete_enforcement_view ax bk au env pk reason name confirmation) \<and>
     change_authorised env pk (if prefix ''revoke'' operation then ''revoke_tokens'' else ''manage_tokens'') reason
       (auth_token_view ax bk au env pk reason operation data)"
  unfolding Let_def enable_auth_view_def tune_auth_view_def disable_auth_view_def remount_auth_view_def write_auth_config_view_def
    write_auth_resource_view_def delete_auth_resource_view_def approle_secret_id_view_def write_role_id_view_def
    lookup_accessor_view_def destroy_accessor_view_def auth_login_view_def oidc_start_view_def oidc_poll_view_def
    mfa_validate_view_def write_mfa_method_view_def delete_mfa_method_view_def create_mfa_method_view_def
    totp_self_view_def totp_self_reset_view_def totp_generate_view_def totp_destroy_view_def
    write_enforcement_view_def delete_enforcement_view_def auth_token_view_def
  by (intro conjI authorised_rules direct.kept_recorded [OF mounts.resolve_kept] direct.kept_recorded [OF mounts.resolved_kept(1)]
      direct.kept_recorded [OF mounts.resolved_kept(2)] direct.kept_recorded [OF mounts.resolved_kept(3)]
      direct.kept_recorded [OF mounts.resolved_kept(4)] mounts.auth_mutation_recorded) (simp_all add: posting_def)

end
