(* ===== verification/Admin_Documents.thy ===== *)
theory Admin_Documents
  imports Admin_Contracts
begin

text \<open>
  What the bounded walks over JSON accept and publish, against recursive reference functions: the keys, the height
  and the members of a document, its redaction, and the text it holds.
\<close>

section \<open>Reference functions\<close>

fun keys_of :: "json \<Rightarrow> string list" where
  "keys_of (JObj kvs) = concat (map (\<lambda>kx. fst kx # keys_of (snd kx)) kvs)"
| "keys_of (JArr xs) = concat (map keys_of xs)"
| "keys_of _ = []"

text \<open>The document without the entries whose key is hidden.\<close>

fun redact :: "(string \<Rightarrow> bool) \<Rightarrow> json \<Rightarrow> json" where
  "redact hidden (JObj kvs) = JObj (map (\<lambda>kx. (fst kx, redact hidden (snd kx))) (filter (\<lambda>kx. \<not> hidden (fst kx)) kvs))"
| "redact hidden (JArr xs) = JArr (map (redact hidden) xs)"
| "redact hidden v = v"

fun members :: "json \<Rightarrow> nat" where
  "members (JObj kvs) = length kvs + sum_list (map (\<lambda>kx. members (snd kx)) kvs)"
| "members (JArr xs) = length xs + sum_list (map members xs)"
| "members _ = 0"

fun within_height :: "nat \<Rightarrow> json \<Rightarrow> bool" where
  "within_height n (JObj kvs) = list_all (\<lambda>kx. 0 < n \<and> within_height (n - 1) (snd kx)) kvs"
| "within_height n (JArr xs) = list_all (\<lambda>x. 0 < n \<and> within_height (n - 1) x) xs"
| "within_height n _ = True"

text \<open>Every key and every scalar satisfies its check.\<close>

fun texts_ok :: "(string \<Rightarrow> bool) \<Rightarrow> (json \<Rightarrow> bool) \<Rightarrow> json \<Rightarrow> bool" where
  "texts_ok key scalar (JObj kvs) = list_all (\<lambda>kx. key (fst kx) \<and> texts_ok key scalar (snd kx)) kvs"
| "texts_ok key scalar (JArr xs) = list_all (texts_ok key scalar) xs"
| "texts_ok key scalar v = scalar v"

lemma redacted_keys: "k \<in> set (keys_of (redact hidden v)) \<Longrightarrow> \<not> hidden k"
  by (induction hidden v rule: redact.induct) fastforce+

section \<open>Published responses\<close>

lemma map_filter_redact:
  assumes "straverse f kvs = Inr ys"
    and "\<And>kx y. kx \<in> set kvs \<Longrightarrow> f kx = Inr y \<Longrightarrow> y = (if hidden (fst kx) then None else Some (fst kx, g (snd kx)))"
  shows "List.map_filter id ys = map (\<lambda>kx. (fst kx, g (snd kx))) (filter (\<lambda>kx. \<not> hidden (fst kx)) kvs)"
  using assms
proof (induction kvs arbitrary: ys)
  case (Cons kx kvs)
  then obtain y zs where ys: "ys = y # zs" "f kx = Inr y" "straverse f kvs = Inr zs" by (auto simp: sbind_Inr)
  moreover have "y = (if hidden (fst kx) then None else Some (fst kx, g (snd kx)))"
    using Cons.prems(2) ys(2) by simp
  moreover have "List.map_filter id zs = map (\<lambda>kx. (fst kx, g (snd kx))) (filter (\<lambda>kx. \<not> hidden (fst kx)) kvs)"
    by (rule Cons.IH [OF ys(3)]) (simp add: Cons.prems(2))
  ultimately show ?case using ys(1) by (simp add: List.map_filter_simps id_def)
qed (simp add: List.map_filter_simps)

lemma straverse_map:
  assumes "straverse f xs = Inr ys" "\<And>x y. x \<in> set xs \<Longrightarrow> f x = Inr y \<Longrightarrow> y = g x"
  shows "ys = map g xs"
  using assms by (induction xs arbitrary: ys) (auto simp: sbind_Inr)

lemma access_response_redacts:
  "access_response_value False v depth = Inr w \<Longrightarrow> w = redact (\<lambda>k. lower k \<in> set ACCESS_MATERIAL_KEYS) v"
proof (induction v arbitrary: depth w)
  case (JObj kvs)
  note run = JObj.prems [unfolded access_response_value.simps [of _ "JObj kvs"]]
  then show ?case
  proof (clarsimp simp: sbind_Inr simp del: straverse_Inr split: if_split_asm, goal_cases)
    case (1 ys)
    show ?case
      by (rule map_filter_redact [OF 1(3)])
        (use JObj.IH in \<open>fastforce simp: sbind_Inr split: if_split_asm\<close>)
  qed
next
  case (JArr xs)
  then show ?case
    by (subst (asm) access_response_value.simps)
      (auto simp: sbind_Inr simp del: straverse_Inr split: if_split_asm elim!: straverse_map)
qed (auto simp: access_response_value.simps access_response_scalar_def split: if_split_asm)

lemma auth_response_redacts:
  "safe_response_value v depth = Inr w \<Longrightarrow> w = redact (\<lambda>k. lower k \<in> set MATERIAL_KEYS) v"
proof (induction v arbitrary: depth w)
  case (JObj kvs)
  note run = JObj.prems [unfolded safe_response_value.simps [of "JObj kvs"]]
  then show ?case
  proof (clarsimp simp: sbind_Inr simp del: straverse_Inr split: if_split_asm, goal_cases)
    case (1 ys)
    show ?case
      by (rule map_filter_redact [OF 1(3)])
        (use JObj.IH in \<open>fastforce simp: sbind_Inr split: if_split_asm\<close>)
  qed
next
  case (JArr xs)
  then show ?case
    by (subst (asm) safe_response_value.simps)
      (auto simp: sbind_Inr simp del: straverse_Inr split: if_split_asm elim!: straverse_map)
qed (auto simp: safe_response_value.simps safe_response_scalar_def json_text_def bounded_text_def sbind_Inr split: if_split_asm)

section \<open>The work stack of the wrapping walk\<close>

definition wrapping_key_ok :: "string \<Rightarrow> bool" where
  "wrapping_key_ok k = (length k \<le> MAX_WRAPPING_JSON_STRING \<and> \<not> list_ex control k)"

definition wrapping_scalar_ok :: "json \<Rightarrow> bool" where
  "wrapping_scalar_ok v =
     (case v of JStr s \<Rightarrow> wrapping_key_ok s | JFloat r \<Rightarrow> finite_float r | _ \<Rightarrow> True)"

lemma wrapping_text_Inr: "wrapping_text k l = Inr u \<longleftrightarrow> wrapping_key_ok k"
  by (auto simp: wrapping_text_def wrapping_key_ok_def srequire_def)

lemma wrapping_children_object:
  "wrapping_children (JObj kvs) = Inr cs \<longleftrightarrow> list_all (\<lambda>kx. wrapping_key_ok (fst kx)) kvs \<and> cs = map snd kvs"
  unfolding wrapping_children_def
  by (induction kvs arbitrary: cs) (auto simp: sbind_Inr wrapping_text_Inr simp del: straverse_Inr split: prod.splits)

text \<open>What is pending in the walk, as a predicate: every item fits below its depth, and its text is sound.\<close>

definition pending_ok :: "(json \<times> nat) list \<Rightarrow> bool" where
  "pending_ok ps = list_all (\<lambda>(v, d). d \<le> MAX_WRAPPING_JSON_DEPTH \<and> within_height (MAX_WRAPPING_JSON_DEPTH - d) v
                                    \<and> texts_ok wrapping_key_ok wrapping_scalar_ok v) ps"

definition pending_members :: "(json \<times> nat) list \<Rightarrow> nat" where
  "pending_members ps = sum_list (map (\<lambda>p. members (fst p)) ps)"

lemma scalar_Inr: "wrapping_scalar v = Inr u \<longleftrightarrow> wrapping_scalar_ok v"
  by (cases v) (auto simp: wrapping_scalar_def wrapping_scalar_ok_def wrapping_text_Inr srequire_def)

lemma pending_append [simp]:
  "pending_ok (ps @ qs) \<longleftrightarrow> pending_ok ps \<and> pending_ok qs"
  "pending_members (ps @ qs) = pending_members ps + pending_members qs"
  by (simp_all add: pending_ok_def pending_members_def)

definition pushed :: "nat \<Rightarrow> json list \<Rightarrow> (json \<times> nat) list" where
  "pushed d cs = map (\<lambda>c. (c, Suc d)) (rev cs)"

lemma pushed_nil: "pushed d [] = []" "pending_ok []"
  by (simp_all add: pushed_def pending_ok_def)

lemma pushed_members: "pending_members (pushed d cs) = sum_list (map members cs)"
  by (simp add: pushed_def pending_members_def comp_def rev_map [symmetric])

lemma height_step: "0 < m - d \<and> within_height (m - d - 1) v \<longleftrightarrow> Suc d \<le> m \<and> within_height (m - Suc d) v" for m :: nat
  by auto

lemma pending_children:
  "pending_ok ((JObj kvs, d) # ps) \<longleftrightarrow> d \<le> MAX_WRAPPING_JSON_DEPTH \<and> list_all (\<lambda>kx. wrapping_key_ok (fst kx)) kvs
     \<and> pending_ok (pushed d (map snd kvs)) \<and> pending_ok ps"
  "pending_ok ((JArr xs, d) # ps) \<longleftrightarrow> d \<le> MAX_WRAPPING_JSON_DEPTH \<and> pending_ok (pushed d xs) \<and> pending_ok ps"
  unfolding pending_ok_def pushed_def by (auto simp: list_all_iff height_step)

lemma pending_scalar:
  "wrapping_children v = Inr [] \<Longrightarrow> \<forall>kvs. v \<noteq> JObj kvs \<Longrightarrow> \<forall>xs. v \<noteq> JArr xs \<Longrightarrow>
     (pending_ok ((v, d) # ps) \<longleftrightarrow> d \<le> MAX_WRAPPING_JSON_DEPTH \<and> wrapping_scalar_ok v \<and> pending_ok ps) \<and> members v = 0"
  by (cases v) (auto simp: pending_ok_def)

lemma wrapping_loop_accepts:
  "n \<le> MAX_WRAPPING_JSON_MEMBERS \<Longrightarrow>
     wrapping_loop n ps = Inr () \<longleftrightarrow> pending_ok ps \<and> n + pending_members ps \<le> MAX_WRAPPING_JSON_MEMBERS"
proof (induction n ps rule: wrapping_loop.induct)
  case (1 n)
  then show ?case by (simp add: pending_ok_def pending_members_def)
next
  case (2 n v d ps)
  have IH: "wrapping_loop (n + length cs) (pushed d cs @ ps) = Inr () \<longleftrightarrow>
      pending_ok (pushed d cs) \<and> pending_ok ps
      \<and> n + length cs + (sum_list (map members cs) + pending_members ps) \<le> MAX_WRAPPING_JSON_MEMBERS"
    if "d \<le> MAX_WRAPPING_JSON_DEPTH" "wrapping_children v = Inr cs" "wrapping_scalar_ok v"
       "n + length cs \<le> MAX_WRAPPING_JSON_MEMBERS" for cs
    using 2(1) [of cs "()"] that by (simp add: pushed_members pushed_def [symmetric] scalar_Inr)
  have run: "wrapping_loop n ((v, d) # ps) = Inr () \<longleftrightarrow> d \<le> MAX_WRAPPING_JSON_DEPTH \<and>
      (\<exists>cs. wrapping_children v = Inr cs \<and> n + length cs \<le> MAX_WRAPPING_JSON_MEMBERS \<and> wrapping_scalar_ok v
        \<and> pending_ok (pushed d cs) \<and> pending_ok ps
        \<and> n + length cs + (sum_list (map members cs) + pending_members ps) \<le> MAX_WRAPPING_JSON_MEMBERS)"
  proof (cases "wrapping_children v")
    case (Inl e)
    then show ?thesis by (simp add: sbind_def)
  next
    case (Inr cs)
    have step: "wrapping_loop n ((v, d) # ps) = Inr () \<longleftrightarrow> d \<le> MAX_WRAPPING_JSON_DEPTH \<and>
        n + length cs \<le> MAX_WRAPPING_JSON_MEMBERS \<and> wrapping_scalar_ok v \<and> wrapping_loop (n + length cs) (pushed d cs @ ps) = Inr ()"
      unfolding scalar_Inr [of v "()", symmetric] pushed_def
      by (cases "wrapping_scalar v") (auto simp: Inr sbind_def)
    show ?thesis unfolding step using IH [OF _ Inr] Inr by auto
  qed
  have total: "pending_members ((v, d) # ps) = members v + pending_members ps" by (simp add: pending_members_def)
  show ?case
  proof (cases v)
    case (JObj kvs)
    then show ?thesis unfolding run total
      by (auto simp: wrapping_children_object pending_children wrapping_scalar_ok_def comp_def)
  next
    case (JArr xs)
    then show ?thesis unfolding run total
      by (auto simp: wrapping_children_def pending_children wrapping_scalar_ok_def)
  qed (unfold run total, use 2(2) pending_scalar [of v d ps] in \<open>auto simp: wrapping_children_def pushed_nil\<close>)
qed

text \<open>C39: The explicit work stack of the wrapping validator accepts exactly the documents a recursive description does:
  an object within the height and member bounds, every key and text of which is short and free of control characters,
  every float finite, with a compact encoding within the size bound; and it returns the document it was given.\<close>

theorem wrapping_walk_is_recursive:
  "validate_wrapping_json dumps v = Inr w \<longleftrightarrow>
     w = v \<and> (\<exists>kvs. v = JObj kvs) \<and> within_height MAX_WRAPPING_JSON_DEPTH v \<and> members v \<le> MAX_WRAPPING_JSON_MEMBERS
     \<and> texts_ok wrapping_key_ok wrapping_scalar_ok v
     \<and> (\<exists>encoded. dumps v = Some encoded \<and> length encoded \<le> MAX_WRAPPING_JSON_BYTES)"
proof -
  have "wrapping_loop 0 [(v, 0)] = Inr () \<longleftrightarrow> within_height MAX_WRAPPING_JSON_DEPTH v \<and> members v \<le> MAX_WRAPPING_JSON_MEMBERS
      \<and> texts_ok wrapping_key_ok wrapping_scalar_ok v"
    using wrapping_loop_accepts [of 0 "[(v, 0)]"] by (auto simp: pending_ok_def pending_members_def)
  then show ?thesis
    unfolding validate_wrapping_json_def
    by (cases v) (auto simp: sbind_Inr split: option.splits if_splits simp del: within_height.simps texts_ok.simps members.simps wrapping_loop.simps)
qed

text \<open>C37: What the views publish of a response is the response without its material: a normalised access-control
  response that is not classed as material, and every normalised authentication document, is the received document
  with exactly the material-shaped entries removed, at every depth; no key of the result is material-shaped.\<close>

theorem published_responses_hold_no_material:
  "(normalize_access_response v False = Inr w \<longrightarrow>
      w = redact (\<lambda>k. lower k \<in> set ACCESS_MATERIAL_KEYS) v \<and> (\<forall>k \<in> set (keys_of w). lower k \<notin> set ACCESS_MATERIAL_KEYS)) \<and>
   (normalize_public_auth_data v = Inr w \<longrightarrow>
      (\<exists>d. response_data v = Inr d \<and> w = redact (\<lambda>k. lower k \<in> set MATERIAL_KEYS) (JObj d)) \<and>
      (\<forall>k \<in> set (keys_of w). lower k \<notin> set MATERIAL_KEYS))"
proof (intro conjI impI)
  assume "normalize_access_response v False = Inr w"
  then have "access_response_value False v 0 = Inr w" by (simp add: normalize_access_response_def split: json.splits)
  then show w: "w = redact (\<lambda>k. lower k \<in> set ACCESS_MATERIAL_KEYS) v" by (rule access_response_redacts)
  show "\<forall>k \<in> set (keys_of w). lower k \<notin> set ACCESS_MATERIAL_KEYS" unfolding w by (blast dest: redacted_keys)
next
  assume "normalize_public_auth_data v = Inr w"
  then obtain d where d: "response_data v = Inr d" "safe_response_value (JObj d) 0 = Inr w"
    by (auto simp: normalize_public_auth_data_def sbind_Inr)
  have w: "w = redact (\<lambda>k. lower k \<in> set MATERIAL_KEYS) (JObj d)" using d(2) by (rule auth_response_redacts)
  with d(1) show "\<exists>d. response_data v = Inr d \<and> w = redact (\<lambda>k. lower k \<in> set MATERIAL_KEYS) (JObj d)" by blast
  show "\<forall>k \<in> set (keys_of w). lower k \<notin> set MATERIAL_KEYS" unfolding w by (blast dest: redacted_keys)
qed

definition nested_response :: json where
  "nested_response = JObj [(''name'', JStr ''web''), (''items'', JArr [JObj [(''client_secret'', JStr ''s''), (''token'', JStr ''t''), (''ttl'', JNum 5)]])]"

lemma published_responses_hold_no_material_witness:
  "normalize_access_response nested_response False = Inr (redact (\<lambda>k. lower k \<in> set ACCESS_MATERIAL_KEYS) nested_response)
   \<and> keys_of (redact (\<lambda>k. lower k \<in> set ACCESS_MATERIAL_KEYS) nested_response) \<noteq> keys_of nested_response"
proof -
  obtain w where w: "normalize_access_response nested_response False = Inr w"
    by (simp add: normalize_access_response_def nested_response_def access_response_value.simps sbind_def access_response_scalar_def
        MAX_POLICY_DOCUMENT_def control_def ACCESS_MATERIAL_KEYS_def MATERIAL_KEYS_def lower_def lower_char_def List.map_filter_simps)
  with published_responses_hold_no_material [of nested_response w] show ?thesis
    by (simp add: nested_response_def ACCESS_MATERIAL_KEYS_def MATERIAL_KEYS_def lower_def lower_char_def)
qed

section \<open>The lease hierarchy\<close>

lemma walk_entries_visited: "walk_entries depth es w = Inr w' \<Longrightarrow> lw_visited w' = lw_visited w"
  by (induction depth es w rule: walk_entries.induct) (auto simp: sbind_Inr Let_def split: if_splits)

text \<open>A round visits one more prefix, of at most 256; so the fuel of the walk is never what ends it.\<close>

lemma lease_rounds_fuel:
  "257 \<le> n + length (lw_visited w) \<Longrightarrow> length (lw_visited w) \<le> 256 \<Longrightarrow> lease_rounds (n + k) bk w = lease_rounds n bk w"
proof (induction n arbitrary: w)
  case (Suc n)
  show ?case
  proof (cases "lw_pending w")
    case (Cons p rest)
    obtain pre depth where p: "p = (pre, depth)" by fastforce
    have IH: "lease_rounds (n + k) bk w1 = lease_rounds n bk w1"
      if "walk_entries depth es (w\<lparr>lw_pending := rest, lw_visited := pre # lw_visited w\<rparr>) = Inr w1" "\<not> 256 \<le> length (lw_visited w)" for es w1
      using walk_entries_visited [OF that(1)] that(2) Suc by (intro Suc.IH) auto
    show ?thesis
      using Cons p IH by (auto simp: fun_eq_iff sem_defs split: prod.splits sum.splits option.splits)
  qed simp
qed simp

text \<open>In the hierarchy: the prefix itself, or a path that continues it after a slash.\<close>

definition below :: "string \<Rightarrow> string \<Rightarrow> bool" where
  "below base p = (base = [] \<or> p = base \<or> prefix (base @ ''/'') p)"

lemma below_trans: "below base p \<Longrightarrow> below p q \<Longrightarrow> below base q"
  by (auto simp: below_def prefix_def)

definition walk_ok :: "string \<Rightarrow> lease_walk \<Rightarrow> bool" where
  "walk_ok base w =
     (distinct (lw_leaves w) \<and> (\<forall>p \<in> set (lw_leaves w). below base p) \<and> (\<forall>p \<in> set (lw_pending w). below base (fst p)))"

lemma lease_entry_below:
  assumes "lease_entry pre j = Inr (b, n)"
  shows "below pre n"
proof (cases j)
  case (JStr k)
  let ?n = "join_with ''/'' (filter (\<lambda>part. part \<noteq> []) [pre, rstrip_of (CHR ''/'') k])"
  have "normalize_final_identifier (JStr ?n) ''lease-prefix'' = Inr n"
    using assms JStr by (auto simp: lease_entry_def simp del: filter.simps split: if_splits sum.splits)
  then have "n = ?n" by (auto simp: normalize_final_identifier_def simp del: filter.simps split: if_splits option.splits)
  then show ?thesis by (auto simp: join_with_def below_def prefix_def)
qed (use assms in \<open>simp_all add: lease_entry_def\<close>)

lemma lease_entries_below:
  "lease_entries response pre = Inr es \<Longrightarrow> e \<in> set es \<Longrightarrow> below pre (snd e)"
  by (cases e) (auto simp: lease_entries_def straverse_Inr list_all2_conv_all_nth in_set_conv_nth
      dest!: lease_entry_below split: json.splits if_splits)

lemma walk_entries_ok:
  "walk_entries depth es w = Inr w' \<Longrightarrow> walk_ok base w \<Longrightarrow> (\<And>e. e \<in> set es \<Longrightarrow> below base (snd e)) \<Longrightarrow> walk_ok base w'"
proof (induction es arbitrary: w)
  case (Cons e es)
  obtain branch path where e: "e = (branch, path)" by fastforce
  obtain w1 where w1: "walk_entries depth es w1 = Inr w'"
      "w1 = (if branch then w\<lparr>lw_pending := (path, Suc depth) # lw_pending w\<rparr>
             else if path \<in> set (lw_leaves w) then w
             else w\<lparr>lw_leaves := path # lw_leaves w, lw_bytes := lw_bytes w + lease_bytes path\<rparr>)"
    using Cons(2) e by (auto simp: sbind_Inr Let_def split: if_splits)
  have "below base path" using Cons(4) [of e] e by simp
  then have "walk_ok base w1" using Cons(3) w1(2) by (auto simp: walk_ok_def split: if_splits)
  with Cons(1) [OF w1(1)] Cons(4) show ?case by simp
qed simp

lemma lease_rounds_ok:
  "lease_rounds n bk w st = (Inr ls, st') \<Longrightarrow> walk_ok base w \<Longrightarrow>
     sorted ls \<and> distinct ls \<and> length ls \<le> 2000 \<and> (\<forall>p \<in> set ls. below base p)"
proof (induction n arbitrary: w st)
  case (Suc n)
  show ?case
  proof (cases "lw_pending w")
    case Nil
    with Suc show ?thesis
      by (auto simp: sem_defs bounded_lease_result_def walk_ok_def Let_def split: if_splits sum.splits)
  next
    case (Cons p rest)
    obtain pre depth where p: "p = (pre, depth)" by fastforce
    obtain response es w1 st1 where es: "lease_entries response pre = Inr es"
        and w1: "walk_entries depth es (w\<lparr>lw_pending := rest, lw_visited := pre # lw_visited w\<rparr>) = Inr w1"
        and run: "lease_rounds n bk w1 st1 = (Inr ls, st')"
      using Suc(2) Cons p by (auto simp: sem_defs split: if_splits prod.splits sum.splits option.splits)
    have "below base pre" using Suc(3) Cons p by (simp add: walk_ok_def)
    then have "walk_ok base w1"
      using walk_entries_ok [OF w1, of base] lease_entries_below [OF es] Suc(3) Cons below_trans
      by (fastforce simp: walk_ok_def)
    with Suc.IH run show ?thesis by blast
  qed
qed (simp add: sem_defs)

text \<open>C40: The walk of a lease hierarchy ends by itself: more fuel than the model gives it changes no run. What it
  returns is sorted, free of duplicates, within the reviewed bound, and every lease in it lies below the prefix that
  was asked for, so an impact preview never names a lease the operation would not touch.\<close>

theorem lease_walk_ends:
  "lease_rounds (258 + k) bk \<lparr>lw_pending = [(rstrip_of (CHR ''/'') pre, 0)], lw_visited = [], lw_leaves = [], lw_bytes = 2\<rparr>
     = lease_set bk pre \<and>
   (lease_set bk pre st = (Inr leaves, st') \<longrightarrow>
      sorted leaves \<and> distinct leaves \<and> length leaves \<le> 2000 \<and> (\<forall>p \<in> set leaves. below (rstrip_of (CHR ''/'') pre) p))"
proof (rule conjI [OF _ impI])
  show "lease_rounds (258 + k) bk \<lparr>lw_pending = [(rstrip_of (CHR ''/'') pre, 0)], lw_visited = [], lw_leaves = [], lw_bytes = 2\<rparr>
     = lease_set bk pre"
    unfolding lease_set_def by (rule lease_rounds_fuel) simp_all
next
  assume "lease_set bk pre st = (Inr leaves, st')"
  then show "sorted leaves \<and> distinct leaves \<and> length leaves \<le> 2000 \<and> (\<forall>p \<in> set leaves. below (rstrip_of (CHR ''/'') pre) p)"
    unfolding lease_set_def by (rule lease_rounds_ok) (simp add: walk_ok_def below_def)
qed

text \<open>Two leases below a role, one of them behind a branch.\<close>

definition lease_lists :: "string \<Rightarrow> string \<Rightarrow> payload \<Rightarrow> bool \<Rightarrow> (unit, exn, json) sem" where
  "lease_lists verb path p material =
     ret (JObj [(''data'', JObj [(''keys'', JArr (if path = ''/sys/leases/lookup/creds'' then [JStr ''a/'', JStr ''b''] else [JStr ''c'']))])])"

lemma lease_paths:
  "final_resource_path FINAL_LEASES ''list'' ''creds'' = Some ''/sys/leases/lookup/creds''"
  "final_resource_path FINAL_LEASES ''list'' ''creds/a'' = Some ''/sys/leases/lookup/creds/a''"
  by (simp_all add: final_resource_path_def FINAL_LEASES_def mk_final_resource_def final_op_def replace_all_def quote_def rstrip_of_def
      one_of_def alnum_def alpha_def digit_def eval_nat_numeral)

lemma lease_listings:
  "lease_entries (JObj [(''data'', JObj [(''keys'', JArr [JStr ''a/'', JStr ''b''])])]) ''creds'' = Inr [(True, ''creds/a''), (False, ''creds/b'')]"
  "lease_entries (JObj [(''data'', JObj [(''keys'', JArr [JStr ''c''])])]) ''creds/a'' = Inr [(False, ''creds/a/c'')]"
  by code_simp+

lemma lease_round:
  assumes "lw_pending w = (pre, depth) # rest" "pre \<notin> set (lw_visited w)" "depth \<le> 12" "length (lw_visited w) < 256"
    "final_resource_path FINAL_LEASES ''list'' pre = Some path"
    "bk_final bk ''LIST'' path [] False (as_backend st) = (Inr response, s1)" "lease_entries response pre = Inr es"
    "walk_entries depth es (w\<lparr>lw_pending := rest, lw_visited := pre # lw_visited w\<rparr>) = Inr w1"
  shows "lease_rounds (Suc n) bk w st = lease_rounds n bk w1 (st\<lparr>as_backend := s1\<rparr>)"
  using assms by (simp add: sem_defs on_backend_def)

lemma lease_walk_ends_witness:
  "\<exists>(bk :: unit admin_ops) (st :: unit admin_state) leaves st'. lease_set (bk\<lparr>bk_final := lease_lists\<rparr>) ''creds'' st = (Inr leaves, st')
     \<and> leaves = [''creds/a/c'', ''creds/b''] \<and> distinct leaves \<and> (\<forall>p \<in> set leaves. below ''creds'' p)"
proof -
  fix bk :: "unit admin_ops" and st :: "unit admin_state"
  let ?b = "bk\<lparr>bk_final := lease_lists\<rparr>"
  let ?ls = "[''creds/a/c'', ''creds/b'']"
  let ?w0 = "\<lparr>lw_pending = [(''creds'', 0)], lw_visited = [], lw_leaves = [], lw_bytes = 2\<rparr>"
  let ?w1 = "\<lparr>lw_pending = [(''creds/a'', 1)], lw_visited = [''creds''], lw_leaves = [''creds/b''], lw_bytes = 12\<rparr>"
  let ?w2 = "\<lparr>lw_pending = [], lw_visited = [''creds/a'', ''creds''], lw_leaves = ?ls, lw_bytes = 24\<rparr>"
  have base: "rstrip_of (CHR ''/'') ''creds'' = ''creds''" by (simp add: rstrip_of_def)
  have "lease_set ?b ''creds'' st = lease_rounds (Suc (Suc (Suc 255))) ?b ?w0 st"
    by (simp only: lease_set_def base) simp
  also have "\<dots> = lease_rounds (Suc (Suc 255)) ?b ?w1 (st\<lparr>as_backend := ()\<rparr>)"
    by (rule lease_round [OF _ _ _ _ lease_paths(1) _ lease_listings(1)])
      (simp add: lease_lists_def ret_def sbind_def lease_bytes_def Let_def)+
  also have "\<dots> = lease_rounds (Suc 255) ?b ?w2 (st\<lparr>as_backend := ()\<rparr>\<lparr>as_backend := ()\<rparr>)"
    by (rule lease_round [OF _ _ _ _ lease_paths(2) _ lease_listings(2)])
      (simp add: lease_lists_def ret_def sbind_def lease_bytes_def Let_def)+
  also have "\<dots> = (Inr ?ls, st)"
    by (simp only: lease_rounds.simps(2) lease_walk.simps list.case) (simp add: bounded_lease_result_def sem_defs Let_def)
  finally have "lease_set ?b ''creds'' st = (Inr ?ls, st)" .
  with lease_walk_ends [of 0 ?b "''creds''" st ?ls st] base show ?thesis by (intro exI [of _ bk] exI [of _ st]) auto
qed

end
