(* ===== verification/Admin_Payloads.thy ===== *)
theory Admin_Payloads
  imports Admin_Contracts Admin_Documents
begin





















section \<open>Access-control payloads\<close>

lemma identifier_id: "normalize_identifier v kind = Inr s \<Longrightarrow> v = JStr s"
  by (auto simp: normalize_identifier_def split: json.splits if_splits)








section \<open>Mounted authentication resources\<close>




section \<open>Final operations\<close>











section \<open>The property\<close>
















end
