(* ===== verification/Spec2Isabelle.thy ===== *)
theory Spec2Isabelle
  imports Lock_Order Importer_Properties Quick_Add Procedures Api_Requests UI_Parity Credential_View_Properties Backend_Invariants Lifecycle Admin_Review_Safety Admin_Payloads
begin

text \<open>
  netbox-openbao is a NetBox plugin. It keeps an inventory of credentials whose secret material lives in OpenBao,
  reached directly or through a broker, resolves them for people and for automation, and administers OpenBao
  clusters through reviewed contracts. Paths below are under \<^verbatim>\<open>src/netbox_openbao/\<close>.

  \<^bold>\<open>Reading the model.\<close> A Python function that only computes is a HOL function, with \<open>exn + 'a\<close> for what may raise
  (\<open>Inl\<close> is the exception). Stateful code is a \<open>('s, exn, 'a) sem\<close> of theory Prelude: it takes the state and returns a
  raised exception or a result with the state it leaves; a raise undoes nothing, as in the program. Rows are records whose
  fields carry a short prefix of the table. Text is a list of 8-bit characters, so a Unicode property the code relies on
  (casefolding, control characters beyond Latin-1) is not expressed; Python integers are \<open>int\<close> or \<open>nat\<close>, with the code's
  own bounds. Standard-library behaviour is CPython 3.12's.

  \<^bold>\<open>Parameters.\<close> Code that is not in the repository is an argument: the OpenBao client (\<open>hvac_client\<close>) and what is behind
  it, HTTP (\<open>admin_http\<close>, the broker's session), Fernet and HKDF (\<open>crypto\<close>), \<^verbatim>\<open>cryptography\<close> and \<^verbatim>\<open>jsonschema\<close> (the libraries of
  Type_Registry), JSON encoders and decoders (\<open>codec\<close>, \<open>dumps\<close>), \<^verbatim>\<open>packaging.version\<close>, NetBox's object permissions, the
  dispatch authority of \<^verbatim>\<open>netbox_rpc\<close>. The database is modelled: savepoints, row locks, commits and \<^verbatim>\<open>on_commit\<close> callbacks. What it
  decides by itself is the environment: how a commit ends, what other transactions committed while a lock was awaited,
  whether an audit insert is accepted. Laws of parameters are named hypotheses: \<open>fernet_roundtrip\<close>, \<open>row_locks\<close>,
  \<open>plugin_env\<close>, the locale \<open>kv2_server\<close>; each has an instance here (Example, \<open>reference\<close> in KV2_Store).

  \<^bold>\<open>Parts and theories.\<close>
  \<^item> Data. Choices (\<^verbatim>\<open>choices.py\<close>, \<^verbatim>\<open>backends/exceptions.py\<close>), Models (\<^verbatim>\<open>models/*.py\<close>), Credential_Model
    (\<^verbatim>\<open>models/credentials.py\<close>, \<^verbatim>\<open>models/assignments.py\<close>: defaults, clean, path derivation, save), Settings (\<^verbatim>\<open>models/settings.py\<close>,
    \<^verbatim>\<open>conf.py\<close>, \<^verbatim>\<open>registry.py\<close>), Auth_Material (\<^verbatim>\<open>models/auth.py\<close>), Type_Registry (\<^verbatim>\<open>models/schemas.py\<close>, \<^verbatim>\<open>secrets/\<close>), Audit_Log.
  \<^item> Backends. Backend_Contract (\<^verbatim>\<open>backends/base.py\<close>) has the interface as a record of operations and its promises as the
    locale \<open>secret_store\<close>. Backend_World (\<^verbatim>\<open>backends/tls.py\<close> and the process state), OpenBao_Backend (also Vault), Broker_Backend and
    Backend_Registry are the implementations. KV2_Store proves that the direct backend is a \<open>secret_store\<close>;
    Backend_Invariants has what every operation keeps of the process.
  \<^item> Material. Material_Transactions (\<^verbatim>\<open>material_transactions.py\<close>: the one owner of the final commit, compensation,
    recovery), Synchronization (\<^verbatim>\<open>synchronization.py\<close>: lock order and drift), Services (\<^verbatim>\<open>services.py\<close>). Material_Store, Rotation and
    Stored_Material prove, from the store contract only, what a change leaves in the store, in the database, and where the
    two meet. Service_Properties has what holds on every path, Lock_Order the order in which the services lock rows. Lifecycle (\<^verbatim>\<open>signals.py\<close>) and Jobs (\<^verbatim>\<open>jobs.py\<close>,
    \<^verbatim>\<open>connection.py\<close>, \<^verbatim>\<open>utils.py\<close>) surround the services.
  \<^item> Callers of the services. Credential_Views (the credential, assignment and resolve views of \<^verbatim>\<open>api/views.py\<close>,
    \<^verbatim>\<open>api/transactions.py\<close>, the credential checks of \<^verbatim>\<open>api/serializers.py\<close>) with Credential_View_Properties; Quick_Add (\<^verbatim>\<open>quickadd.py\<close>
    and its endpoint); Importer (\<^verbatim>\<open>importers/netbox_secrets.py\<close>, the command \<^verbatim>\<open>openbao_import_secrets\<close>) with Importer_Properties;
    Procedures (\<^verbatim>\<open>rpc.py\<close> and its endpoint), which runs no service but dispatches to an engine's host and probes it.
    Api_Requests (\<^verbatim>\<open>api/automation.py\<close>, the cluster and auth-material serializers of \<^verbatim>\<open>api/serializers.py\<close>) checks the requests that
    the automation endpoint and the cluster views trust, and composes them with their views.
  \<^item> Automation. Automation (\<^verbatim>\<open>automation.py\<close>) resolves a one-use grant; Automation_Properties shows what that guarantees.
  \<^item> Administration. Admin_Base and Python_Net (the standard library on untrusted text), Admin_Schema, Admin_Auth,
    Admin_Access, Admin_Final, Admin_Engines, Admin_Journeys, Admin_Cluster (the file of \<^verbatim>\<open>administration/\<close> with the corresponding
    name), UI_Parity (\<^verbatim>\<open>administration/parity.py\<close>), Admin_Operations and Admin_Transport (\<^verbatim>\<open>administration/backends.py\<close>, \<^verbatim>\<open>administration/broker.py\<close>), Admin_Log
    (\<^verbatim>\<open>administration/audit.py\<close>, \<^verbatim>\<open>administration/observations.py\<close>), Admin_Api (the cluster views of \<^verbatim>\<open>api/views.py\<close>), Admin_Contracts
    (\<^verbatim>\<open>api/access_*.py\<close>, \<^verbatim>\<open>api/finalization_*.py\<close>), Admin_Engine_Views (\<^verbatim>\<open>api/engine_*.py\<close>), Admin_Auth_Views
    (\<^verbatim>\<open>api/authentication_*.py\<close>). Admin_Documents, Admin_Payloads, Admin_Trace, Admin_Safety and
    Admin_Review_Safety prove.

  \<^bold>\<open>How they interact.\<close> A service builds the body of a change and hands it to \<open>synchronized_material_change\<close>, which locks
  policies, engines and credentials in that order, re-reads them, and runs the body inside \<open>run_owner\<close>. The body writes to
  the backend that the registry picks for the engine and registers each attempt; the owner commits, proves the commit with a
  witness row, and otherwise deletes exactly the versions its attempts wrote. An administration view reads the state a change
  depends on, commits a durable authorisation record, acts through a backend over one of the two requesters, and
  records the outcome.

  \<^bold>\<open>Interfaces.\<close> \<open>state_frame\<close> (Prelude) is a reflexive, transitive relation that a computation stays in; a dozen instances
  carry the frame arguments. \<open>secret_store\<close> is the contract of a backend, \<open>kv2_server\<close> the contract of the server below it and
  \<open>material_backend\<close> the one of the services above it; the sublocales and the interpretation \<open>deployment\<close> connect them.
  \<open>quiet_reads\<close> is what a view relies on when it only reads, \<open>quiet_mounts\<close> extends it to the mount registry; \<open>direct\<close> and
  \<open>mounts\<close> provide them.

  \<^bold>\<open>What the theorems show.\<close>
  \<^item> Material (this theory and Service_Properties), where every engine is a direct one on a KV version 2 mount (the hypothesis
    \<open>versioned engine_target\<close>; on KV version 1 a path has one value, and history, staging and discard are not safe): no outcome of a rotation, staging, promotion or discard loses a retained version; a reveal
    after a rotation or a promotion returns what was written; staging is invisible; compensation deletes nothing when the
    outcome of the commit is unknown; a poisoned owner never commits; every path releases the transaction.
  \<^item> Access (Service_Properties, Lock_Order): who may reveal, that every service locks rows in one order, what a bundle may contain.
  \<^item> Backends (Backend_Invariants): refinement of the abstract store, the invariant of private files and verified
    sessions, also when the file system refuses a creation, a write or an unlink, no server text in an error, no token outliving its lease.
  \<^item> Rows (Credential_Model, Settings, Auth_Material, Type_Registry): invariants of saved rows, frozen settings, settings changes with their audit rows and failures to write one, round trips of encrypted
    identities, validated payloads, public metadata, the key identity of versions.
  \<^item> Callers (Credential_View_Properties, Importer_Properties, Quick_Add, this theory): a reveal through an assignment is checked twice, an update needs
    its permission at both ends, an import repeated imports nothing, a claimed marker is refused before anything is sent, an import reports every source and harms no stored version,
    quick-add makes a service only where none of its name is and widens the one there is, no cluster is initialised on an unsound custody request
    and the automation endpoint fails closed (Api_Requests).
  \<^item> Automation (Automation_Properties): a delivery is authorised, recorded and spent; every failure is the same refusal; a second
    resolution never reaches the vault.
  \<^item> Administration (Admin_Safety, Admin_Review_Safety, Admin_Documents, Admin_Payloads): no change without its durable record and the permission it needs; a removed peer leaves a quorum;
    published responses hold no material; accepted payloads have the types of their rules; the iterative walk over
    wrapping data equals a recursive reference; the lease walk ends by itself.

  \<^bold>\<open>Loops.\<close> Recursion is structural or has a termination proof. Two loops have fuel. \<open>lease_rounds\<close> gets 258: each round visits
  a new prefix and the code stops at 256, so \<open>lease_walk_ends\<close> shows that more fuel changes nothing. \<open>replace_all\<close> gets the length of the
  text it scans, which each step shortens.

  \<^bold>\<open>Not modelled.\<close> The HTML views, forms, tables, filters and menus (declarations over Django); migrations and release
  scripts; key generation (random); the configuration command (input and output); the settings and read-only view sets;
  throttles and permission classes of \<^verbatim>\<open>api/\<close>; the rows of procedure runs and service endpoints; compatibility and
  system-check glue. NetBox's tables in Quick_Add are a record of their own, without the locks the code takes on them.
  Log lines, metrics and the display methods of rows are left out. Field declarations of the REST framework are the types of
  the views' arguments; the OpenPGP library, Django's URL field and \<^verbatim>\<open>json.dumps\<close> are parameters of
  Api_Requests. The properties of the administration views are over the direct
  backend; the broker's operations are modelled and refuse what its pinned contract does not list, but its views are not
  proved separately.
\<close>

section \<open>Stored material\<close>

text \<open>What the provider's locale proves, read on the plugin's own environment.\<close>

lemma kept_versions:
  assumes env: "plugin_env kv retain env hv rq cx"
    and "material_backend.preserved (\<lambda>x. kv (bw_remote x)) retain (ext s) (ext s')"
    and "m \<le> issued kv s l q" and "issued kv s' l q < m + retain"
  shows "stored kv s' l q m = stored kv s l q m"
  using assms(2-4) material_backend.preserved_def [OF plugin_material_backend [OF env]]
    material_backend.cur_def [OF plugin_material_backend [OF env]] material_backend.data_def [OF plugin_material_backend [OF env]]
  by (cases l) (simp add: stored_def issued_def)

lemma synchronized_history:
  assumes env: "plugin_env kv retain env hv rq cx" and idle: "owner s = None" "autocommit s"
    and v: "versioned engine_target (db s)"
    and op: "\<And>f. framed (material_backend.body_step engine_target bao_loc (\<lambda>x. kv (bw_remote x)) retain) (operation f)"
    and s': "s' = snd (synchronized_material_change env (run_hook env) act u req operation c s)"
    and old: "m \<le> issued kv s l q" and window: "issued kv s' l q < m + retain"
  shows "stored kv s' l q m = stored kv s l q m"
proof (rule kept_versions [OF env _ old window])
  obtain r where "synchronized_material_change env (run_hook env) act u req operation c s = (r, s')"
    using s' by (metis prod.collapse)
  then show "material_backend.preserved (\<lambda>x. kv (bw_remote x)) retain (ext s) (ext s')"
    by (rule material_backend.synchronized_preserves [OF plugin_material_backend [OF env] op idle v])
qed

lemma plugin_view:
  assumes "plugin_env kv retain env hv rq cx"
  shows "material_backend.cur (\<lambda>x. kv (bw_remote x)) (ext s) l q = issued kv s l q"
    "material_backend.data (\<lambda>x. kv (bw_remote x)) (ext s) l q = stored kv s l q"
  using material_backend.cur_def [OF plugin_material_backend [OF assms]] material_backend.data_def [OF plugin_material_backend [OF assms]]
  by (simp_all add: stored_def issued_def)

lemma plugin_wrote:
  assumes env: "plugin_env kv retain env hv rq cx"
    and w: "material_backend.wrote env engine_target (\<lambda>x. kv (bw_remote x)) ct p (c, n) s"
  obtains eng l d cleaned md where "engine_of (db s) c = Some eng" "engine_target eng = Some l"
    "prepare_material env d ct p = Inr (cleaned, md)" "stored kv s l (cr_path c) n = Some cleaned"
  using w material_backend.wrote_def [OF plugin_material_backend [OF env]]
    material_backend.in_store_def [OF plugin_material_backend [OF env]] material_backend.data_def [OF plugin_material_backend [OF env]]
  by (auto simp: stored_def)

lemma plugin_reveal:
  assumes env: "plugin_env kv retain env hv rq cx"
    and e: "engine_of (db s) c = Some eng" "engine_target eng = Some l"
    and run: "reveal_material env c u req reason version s = (Inr (j, ttl), s')"
  shows "\<exists>d. j = JObj d \<and>
     stored kv s l (cr_path c) (case effective_version c version of None \<Rightarrow> issued kv s l (cr_path c) | Some n \<Rightarrow> n) = Some d"
  using material_backend.reveal_value [OF plugin_material_backend [OF env] e run] plugin_view [OF env]
  by (simp split: option.splits)

text \<open>C1: No service loses material on versioned mounts. Scope: every engine of the deployment is a direct OpenBao or Vault engine on a KV
  version 2 mount. Whatever the outcome of a rotation, a staging or a promotion
  (success, refusal, rollback with compensation, lost commit), every version the server had issued before
  and still retains reads the same afterwards: compensation deletes only versions the failed operation wrote itself. The claim
  does not extend to a KV version 1 mount: there a path holds one value, delete ignores the versions it is given, and the compensation of a
  failed rotation removes the live secret.\<close>

theorem history_is_kept:
  assumes env: "plugin_env kv retain env hv rq cx" and idle: "owner s = None" "autocommit s"
    and v: "versioned engine_target (db s)"
    and s': "s' \<in> {snd (rotate_material env c p u req s), snd (stage_material env c p u req s),
                   snd (promote_staged env c u req verified txt s)}"
    and old: "m \<le> issued kv s l q" and window: "issued kv s' l q < m + retain"
  shows "stored kv s' l q m = stored kv s l q m"
proof -
  note mb = plugin_material_backend [OF env]
  note h = synchronized_history [OF env idle v _ _ old window]
  from s' consider "s' = snd (rotate_material env c p u req s)" | "s' = snd (stage_material env c p u req s)"
    | "s' = snd (promote_staged env c u req verified txt s)" by blast
  then show ?thesis
    by cases (rule h [OF material_backend.body_rotate [OF mb]] h [OF material_backend.body_stage [OF mb]]
        h [OF material_backend.body_promote [OF mb]], simp add: rotate_material_def stage_material_def promote_staged_def)+
qed

theorem history_is_kept_witness:
  "stored mem_kv (snd (rotate_material (ex_env (\<lambda>_. CommitRejected)) ex_credential ex_payload (Some ex_user) None ex_state))
     ex_location ''netbox/u-5'' 2 = Some [(''password'', JStr ''two'')]"
proof -
  let ?s' = "snd (rotate_material (ex_env (\<lambda>_. CommitRejected)) ex_credential ex_payload (Some ex_user) None ex_state)"
  have "2 \<le> issued mem_kv ex_state ex_location ''netbox/u-5''" by code_simp
  moreover have "issued mem_kv ?s' ex_location ''netbox/u-5'' < 2 + 10" by code_simp
  moreover have "stored mem_kv ex_state ex_location ''netbox/u-5'' 2 = Some [(''password'', JStr ''two'')]" by code_simp
  ultimately show ?thesis
    using history_is_kept [OF ex_plugin_env ex_idle(1,2), of ?s' "\<lambda>_. CommitRejected" ex_credential ex_payload "Some ex_user" None]
    by (simp add: ex_idle ex_versioned)
qed

text \<open>C2: A migration never harms what is stored on versioned mounts (every engine a direct one on KV version 2). Whatever its sources, its options and its failures (refused secrets, lost commits,
  compensation), after a whole import every version the server had issued before and still retains reads the same.\<close>

theorem import_keeps_history:
  assumes env: "plugin_env kv retain env hv rq cx" and idle: "released s" and v: "versioned engine_target (db s)"
    and old: "m \<le> issued kv s l q" and window: "issued kv (snd (import_secrets env opts u sources s)) l q < m + retain"
  shows "stored kv (snd (import_secrets env opts u sources s)) l q m = stored kv s l q m"
proof (rule kept_versions [OF env _ old window])
  let ?st = "\<lparr>im_result = empty_result, im_cache = [], im_done = marks_on (io_engine opts) (db s)\<rparr>"
  obtain r s' where run: "import_all env opts u sources ?st s = (r, s')" by fastforce
  have "snd (import_secrets env opts u sources s) = s'"
    by (simp add: import_secrets_start bnd_def run ret_def split: sum.splits)
  moreover have "material_backend.preserved (\<lambda>x. kv (bw_remote x)) retain (ext s) (ext s')"
    using material_backend.import_preserves [OF plugin_material_backend [OF env] idle v run] by simp
  ultimately show "material_backend.preserved (\<lambda>x. kv (bw_remote x)) retain (ext s) (ext (snd (import_secrets env opts u sources s)))"
    by simp
qed

theorem import_keeps_history_witness:
  "stored mem_kv (snd (import_secrets (ex_env (\<lambda>_. CommitRejected)) ex_options None [(ex_blank, ex_source)] ex_state))
     ex_location ''netbox/u-5'' 2 = Some [(''password'', JStr ''two'')]"
proof -
  let ?s' = "snd (import_secrets (ex_env (\<lambda>_. CommitRejected)) ex_options None [(ex_blank, ex_source)] ex_state)"
  have "2 \<le> issued mem_kv ex_state ex_location ''netbox/u-5''" by code_simp
  moreover have "issued mem_kv ?s' ex_location ''netbox/u-5'' < 2 + 10" by code_simp
  moreover have "stored mem_kv ex_state ex_location ''netbox/u-5'' 2 = Some [(''password'', JStr ''two'')]" by code_simp
  ultimately show ?thesis
    using import_keeps_history [OF ex_plugin_env ex_import_ready(2), of 2 ex_location "''netbox/u-5''" "\<lambda>_. CommitRejected" ex_options None
        "[(ex_blank, ex_source)]"]
    by (simp add: ex_idle ex_versioned)
qed

text \<open>C3: A successful rotation is what the next reveal returns, where every engine is a direct one on a KV version 2 mount. The row it leaves is the committed
  row, its live pointer names the written version and nothing is staged; a reveal without an explicit version
  on that row gives exactly the validated payload of the rotation.\<close>

theorem rotation_then_reveal:
  assumes env: "plugin_env kv retain env hv rq cx" and locks: "row_locks env"
    and idle: "owner s = None" "autocommit s" and v: "versioned engine_target (db s)" and k: "cr_pk c = Some k"
    and rot: "rotate_material env c p u req s = (Inr (c', n), s')"
    and rev: "reveal_material env c' u' req' reason None s' = (Inr (j, ttl), s'')"
  shows "load_credential (db s') k = Some c' \<and> cr_live_kv_version c' = Some n \<and> cr_staged_kv_version c' = None \<and>
    (\<exists>d cleaned md. prepare_material env d (cr_credential_type c') p = Inr (cleaned, md) \<and> j = JObj cleaned)"
proof -
  obtain d old where r: "written env old k n True ACTION_ROTATE c'" "load_credential (db s') k = Some c'"
    "material_backend.wrote env engine_target (\<lambda>x. kv (bw_remote x)) (cr_credential_type old) p (c', n) s'"
    using material_backend.rotate_result [OF plugin_material_backend [OF env] locks v k idle rot] by blast
  obtain eng l d cleaned md where w: "engine_of (db s') c' = Some eng" "engine_target eng = Some l"
    "prepare_material env d (cr_credential_type old) p = Inr (cleaned, md)" "stored kv s' l (cr_path c') n = Some cleaned"
    by (rule plugin_wrote [OF env r(3)])
  note pt = written_pointers [OF r(1)]
  have "j = JObj cleaned"
    using plugin_reveal [OF env w(1,2) rev] w(4) pt(2) by (auto simp: effective_version_def)
  with r(2) w(3) pt show ?thesis by auto
qed

theorem rotation_then_reveal_witness:
  "\<exists>c n s' j ttl s'' d cleaned md. ex_rotated = (Inr (c, n), s') \<and> ex_reveal c s' = (Inr (j, ttl), s'') \<and>
     prepare_material (ex_env ex_ok) d ''password'' ex_payload = Inr (cleaned, md) \<and> j = JObj cleaned"
proof -
  obtain c n s' j ttl s'' where r: "ex_rotated = (Inr (c, n), s')" "cr_credential_type c = ''password''"
    "ex_reveal c s' = (Inr (j, ttl), s'')"
    using ex_rotated_run by blast
  have "\<exists>d cleaned md. prepare_material (ex_env ex_ok) d ''password'' ex_payload = Inr (cleaned, md) \<and> j = JObj cleaned"
    using rotation_then_reveal [OF ex_plugin_env ex_row_locks ex_idle(1,2) _ ex_pk r(1) [unfolded ex_rotated_def]
        r(3) [unfolded ex_reveal_def]] ex_versioned r(2) by (simp add: ex_idle)
  with r show ?thesis by blast
qed

text \<open>C4: Staging changes nothing for a consumer on versioned mounts. Scope: every engine of the deployment is a direct OpenBao or Vault
  engine on a KV version 2 mount. After a successful staging of a credential that
  has a live version, which the server still retains, a reveal without an explicit version returns the payload that live version had before. The
  claim does not extend to a KV version 1 mount: there staging overwrites the one value of the path, and the reveal serves the staged payload.\<close>

theorem staging_is_invisible:
  assumes env: "plugin_env kv retain env hv rq cx"
    and idle: "owner s = None" "autocommit s" and v: "versioned engine_target (db s)"
    and st: "stage_material env c p u req s = (Inr (c', n), s')"
    and live: "cr_live_kv_version c' = Some m"
    and e: "engine_of (db s') c' = Some eng" "engine_target eng = Some l"
    and old: "m \<le> issued kv s l (cr_path c')" and window: "issued kv s' l (cr_path c') < m + retain"
    and rev: "reveal_material env c' u' req' reason None s' = (Inr (j, ttl), s'')"
  shows "\<exists>d. stored kv s l (cr_path c') m = Some d \<and> j = JObj d"
proof -
  have s': "s' = snd (synchronized_material_change env (run_hook env) ACTION_STAGE u req (stage_body env p u req) c s)"
    using st by (simp add: stage_material_def)
  have "stored kv s' l (cr_path c') m = stored kv s l (cr_path c') m"
    by (rule synchronized_history [OF env idle v material_backend.body_stage [OF plugin_material_backend [OF env]] s' old window])
  with plugin_reveal [OF env e rev] live show ?thesis by (auto simp: effective_version_def)
qed

theorem staging_is_invisible_witness:
  "\<exists>c n s' j ttl s'' d. ex_staged = (Inr (c, n), s') \<and> ex_reveal c s' = (Inr (j, ttl), s'') \<and>
     stored mem_kv ex_state ex_location ''netbox/u-5'' 2 = Some d \<and> j = JObj d"
proof -
  obtain c n s' j ttl s'' where r: "ex_staged = (Inr (c, n), s')" "cr_live_kv_version c = Some 2" "cr_path c = ''netbox/u-5''"
    "engine_of (db s') c = Some ex_engine" "issued mem_kv s' ex_location ''netbox/u-5'' = 3"
    "ex_reveal c s' = (Inr (j, ttl), s'')"
    using ex_staged_run by blast
  have "\<exists>d. stored mem_kv ex_state ex_location (cr_path c) 2 = Some d \<and> j = JObj d"
    by (rule staging_is_invisible [OF ex_plugin_env ex_idle(1,2) _ r(1) [unfolded ex_staged_def] r(2) r(4) ex_target _ _
          r(6) [unfolded ex_reveal_def]])
      (use ex_versioned ex_issued r(3,5) in \<open>simp_all add: ex_idle\<close>)
  with r(1,3,6) show ?thesis by (simp only:) blast
qed

text \<open>C5: A successful staging pins the live version, where every engine is a direct one on a KV version 2 mount. The committed row names the new version as staged,
  has status staged, kept its path, and its live pointer is the previous one, or the version written last when there was none;
  the row it started from, as read under the locks, had no staged version.\<close>

theorem stage_row:
  assumes env: "plugin_env kv retain env hv rq cx" and locks: "row_locks env"
    and idle: "owner s = None" "autocommit s" and v: "versioned engine_target (db s)" and k: "cr_pk c = Some k"
    and st: "stage_material env c p u req s = (Inr (c', n), s')"
  shows "load_credential (db s') k = Some c' \<and> cr_staged_kv_version c' = Some n \<and> cr_status c' = STATUS_STAGED \<and>
    (\<exists>d old. (others env)\<^sup>*\<^sup>* (db s) d \<and> load_credential d k = Some old \<and> cr_staged_kv_version old = None \<and>
       cr_path c' = cr_path old \<and>
       cr_live_kv_version c' = (case cr_live_kv_version old of None \<Rightarrow> cr_kv_version old | Some m \<Rightarrow> Some m))"
proof -
  obtain d old where r: "(others env)\<^sup>*\<^sup>* (db s) d" "load_credential d k = Some old" "\<not> has_staged_version old"
    "written env (pinned old) k n False ACTION_STAGE c'" "load_credential (db s') k = Some c'"
    using material_backend.stage_result [OF plugin_material_backend [OF env] locks v k idle st] by blast
  then show ?thesis using written_pinned [OF r(4)] by (auto simp: has_staged_version_def)
qed

theorem stage_row_witness:
  "\<exists>c n s'. ex_staged = (Inr (c, n), s') \<and> load_credential (db s') 5 = Some c \<and> cr_status c = STATUS_STAGED"
proof -
  obtain c n s' where r: "ex_staged = (Inr (c, n), s')" using ex_staged_run by blast
  with stage_row [OF ex_plugin_env ex_row_locks ex_idle(1,2) _ ex_pk r [unfolded ex_staged_def]] show ?thesis
    using ex_versioned by (auto simp: ex_idle)
qed

text \<open>C6: A successful promotion makes the staged version the live one, where every engine is a direct one on a KV version 2 mount: the committed row is active
  with nothing staged, its live pointer is the version that was staged, and a reveal on it returns the payload that version had
  (the server retaining it).\<close>

theorem promotion_then_reveal:
  assumes env: "plugin_env kv retain env hv rq cx"
    and idle: "owner s = None" "autocommit s" and v: "versioned engine_target (db s)" and k: "cr_pk c = Some k"
    and pr: "promote_staged env c u req verified txt s = (Inr c', s')"
    and e: "engine_of (db s') c' = Some eng" "engine_target eng = Some l"
    and window: "\<forall>m. cr_live_kv_version c' = Some m \<longrightarrow> m \<le> issued kv s l (cr_path c') \<and> issued kv s' l (cr_path c') < m + retain"
    and rev: "reveal_material env c' u' req' reason None s' = (Inr (j, ttl), s'')"
  shows "load_credential (db s') k = Some c' \<and> cr_staged_kv_version c' = None \<and> cr_status c' = STATUS_ACTIVE \<and>
    (\<exists>d o' m payload. (others env)\<^sup>*\<^sup>* (db s) d \<and> load_credential d k = Some o' \<and> cr_staged_kv_version o' = Some m \<and>
       cr_live_kv_version c' = Some m \<and> stored kv s l (cr_path c') m = Some payload \<and> j = JObj payload)"
proof -
  obtain d o' where r: "(others env)\<^sup>*\<^sup>* (db s) d" "load_credential d k = Some o'" "has_staged_version o'"
    "c' = fst (promoted (e_now env) o')" "load_credential (db s') k = Some c'"
    using promote_result [OF k idle pr] by blast
  obtain names where "promoted (e_now env) o' = (c', names)" using r(4) by (metis prod.collapse)
  note row = promoted_row [OF this]
  from r(3) obtain m where m: "cr_staged_kv_version o' = Some m" by (auto simp: has_staged_version_def)
  with row window have w: "m \<le> issued kv s l (cr_path c')" "issued kv s' l (cr_path c') < m + retain" by simp_all
  have s': "s' = snd (synchronized_material_change env (run_hook env) ACTION_PROMOTE u req (promote_body env u req verified txt) c s)"
    using pr by (simp add: promote_staged_def)
  have "stored kv s' l (cr_path c') m = stored kv s l (cr_path c') m"
    by (rule synchronized_history [OF env idle v material_backend.body_promote [OF plugin_material_backend [OF env]] s' w])
  with plugin_reveal [OF env e rev] row m r show ?thesis
    by (auto simp: effective_version_def)
qed

theorem promotion_then_reveal_witness:
  "\<exists>c s' j ttl s'' payload. ex_promoted = (Inr c, s') \<and> ex_reveal c s' = (Inr (j, ttl), s'') \<and>
     stored mem_kv ex_pending_state ex_location ''netbox/u-5'' 3 = Some payload \<and> j = JObj payload"
proof -
  obtain c s' j ttl s'' where r: "ex_promoted = (Inr c, s')" "cr_live_kv_version c = Some 3" "cr_path c = ''netbox/u-5''"
    "engine_of (db s') c = Some ex_engine" "issued mem_kv s' ex_location ''netbox/u-5'' = 3"
    "ex_reveal c s' = (Inr (j, ttl), s'')"
    using ex_promoted_run by blast
  have "\<exists>payload. stored mem_kv ex_pending_state ex_location (cr_path c) 3 = Some payload \<and> j = JObj payload"
    using promotion_then_reveal [OF ex_plugin_env ex_pending_facts(1-4) r(1) [unfolded ex_promoted_def] r(4) ex_target _
          r(6) [unfolded ex_reveal_def]] ex_pending_facts(5) r(2,3,5) by auto
  with r(1,3,6) show ?thesis by (simp only:) blast
qed

text \<open>C7: A discard deletes at most one version on versioned mounts. Scope: every engine of the deployment is a direct OpenBao or Vault engine
  on a KV version 2 mount. If the discard touches the store at all, its row
  change was committed, and the only version whose payload may differ is the staged version at the path of the row; when it reports success that version is gone.
  The claim does not extend to a KV version 1 mount: there delete ignores the version it is given, and a discard removes the live secret.\<close>

theorem discard_deletes_only_staged:
  assumes env: "plugin_env kv retain env hv rq cx"
    and idle: "owner s = None" "autocommit s" and v: "versioned engine_target (db s)" and k: "cr_pk c = Some k"
    and run: "discard_staged env c u req s = (r, s')"
  shows "(\<forall>l q m. stored kv s' l q m = stored kv s l q m) \<and> (\<forall>y. r \<noteq> Inr y) \<or>
    (\<exists>d old n. (others env)\<^sup>*\<^sup>* (db s) d \<and> load_credential d k = Some old \<and> cr_staged_kv_version old = Some n \<and>
       load_credential (db s') k = Some (fst (discarded old)) \<and>
       (\<forall>l q m. (q, m) \<noteq> (cr_path old, n) \<longrightarrow> stored kv s' l q m = stored kv s l q m) \<and>
       ((\<exists>y. r = Inr y) \<longrightarrow> (\<exists>l. stored kv s' l (cr_path old) n = None)))"
  using material_backend.discard_outcome [OF plugin_material_backend [OF env] v k idle run]
    material_backend.same_store_def [OF plugin_material_backend [OF env]]
  by (auto simp: plugin_view [OF env])

theorem discard_deletes_only_staged_witness:
  "\<exists>c s'. ex_discarded = (Inr c, s') \<and>
     stored mem_kv s' ex_location ''netbox/u-5'' 2 = stored mem_kv ex_pending_state ex_location ''netbox/u-5'' 2"
proof -
  obtain c s' where r: "ex_discarded = (Inr c, s')" using ex_discarded_run by blast
  have old: "load_credential (db ex_pending_state) 5 = Some c0 \<Longrightarrow> cr_staged_kv_version c0 = Some n \<Longrightarrow> n = 3" for c0 n
    by (auto simp: load_credential_def ex_pending_defs row_def ex_state_def)
  from discard_deletes_only_staged [OF ex_plugin_env ex_pending_facts(1-4) r [unfolded ex_discarded_def]]
  have "stored mem_kv s' ex_location ''netbox/u-5'' 2 = stored mem_kv ex_pending_state ex_location ''netbox/u-5'' 2"
    by (simp only: ex_alone) (metis old numeral_eq_iff semiring_norm(88) prod.inject sum.distinct(1))
  with r show ?thesis by blast
qed

text \<open>Recovery is a no-op on the store when the outcome of the transaction is unknown
  or the transaction committed: it never deletes a version that may be referenced.\<close>

theorem unknown_outcome_deletes_nothing:
  assumes "unknown \<or> mt_committed t"
  shows "ext (snd (recover env unknown t s)) = ext s"
  using offline_recover [of unknown t env] assms by (auto simp: framed_def offline_step_def)

theorem unknown_outcome_deletes_nothing_witness:
  "ext (snd (recover (ex_env ex_ok) True
     ((new_transaction ''op'')\<lparr>mt_attempts := [\<lparr>ma_credential = ex_credential, ma_backend = 0, ma_path = ''netbox/u-5'',
        ma_user = None, ma_action = ACTION_ROTATE, ma_version = Some 2, ma_audit_id = Some 1\<rparr>]\<rparr>) ex_state)) = ext ex_state"
  by (rule unknown_outcome_deletes_nothing) simp

text \<open>C8: An owner marked as failed, or one with an attempt or a deletion whose audit row is
  missing, never commits: the transaction ends in an error and the inventory is what a rollback restores.\<close>

theorem poisoned_owner_never_commits:
  assumes body: "body (begin_tx env s) = (Inr y, s1)" and t: "owner s1 = Some t"
    and bad: "mt_failed t \<or> \<not> list_all (witnessed (db s1)) (mt_attempts t @ mt_deletions t)"
    and run: "run_owner env rh body s = (r, s')"
  shows "(\<exists>e. r = Inl e) \<and> same_inventory (committed_db s1) (db s')"
proof -
  have "\<exists>e. tx_body env body (begin_tx env s) = (Inl e, s1)"
    using body t bad by (auto simp: tx_body_def bnd_def gets_def the_owner_def check_def ret_def raise_def lift_sum_def witness_def)
  then obtain e where "unwind env e (e_connection_lost env) (the_owner env s1) (leave_tx (committed_db s1) s1) = (r, s')"
    using run by (auto simp: run_owner_def)
  with framedD [OF log_framed_unwind this] show ?thesis
    by (auto simp: log_step_def leave_tx_def unwind_def bnd_def raise_def split: prod.splits sum.splits)
qed

theorem poisoned_owner_never_commits_witness:
  "\<exists>r s'. run_owner (ex_env ex_ok) (\<lambda>_. ret ()) (update_owner (\<lambda>t. t\<lparr>mt_failed := True\<rparr>)) ex_state = (r, s') \<and>
     isl r \<and> same_inventory ex_db (db s')"
proof -
  let ?body = "update_owner (\<lambda>t. t\<lparr>mt_failed := True\<rparr>)"
  let ?s1 = "(begin_tx (ex_env ex_ok) ex_state)\<lparr>owner := Some ((new_transaction ''op'')\<lparr>mt_failed := True\<rparr>)\<rparr>"
  have b: "?body (begin_tx (ex_env ex_ok) ex_state) = (Inr (), ?s1)"
    by (simp add: update_owner_def modify_def begin_tx_def ex_env_def)
  obtain r s' where run: "run_owner (ex_env ex_ok) (\<lambda>_. ret ()) ?body ex_state = (r, s')" by (metis prod.collapse)
  have "(\<exists>e. r = Inl e) \<and> same_inventory (committed_db ?s1) (db s')"
    by (rule poisoned_owner_never_commits [OF b _ _ run]) (simp, rule disjI1, simp)
  with run show ?thesis by (auto simp: begin_tx_def ex_state_def)
qed

text \<open>When the database refuses the commit, no service changes the inventory: the rows
  are those other transactions left.\<close>

theorem refused_commit_changes_no_row:
  assumes idle: "owner s = None" "autocommit s" and ref: "\<forall>d. e_commit env d = CommitRejected"
    and s': "s' \<in> {snd (rotate_material env c p u req s), snd (stage_material env c p u req s),
                   snd (promote_staged env c u req verified txt s), snd (discard_staged env c u req s)}"
  shows "\<exists>d. (others env)\<^sup>*\<^sup>* (db s) d \<and> same_inventory d (db s')"
proof -
  note h = synchronized_refused [OF _ idle ref]
  from s' consider "s' = snd (rotate_material env c p u req s)" | "s' = snd (stage_material env c p u req s)"
    | "s' = snd (promote_staged env c u req verified txt s)" | "s' = snd (discard_staged env c u req s)" by blast
  then show ?thesis
    by cases (rule h [OF tx_framed_bodies(1)] h [OF tx_framed_bodies(2)] h [OF tx_framed_bodies(3)] h [OF tx_framed_bodies(4)],
        simp add: rotate_material_def stage_material_def promote_staged_def discard_staged_def)+
qed

theorem refused_commit_changes_no_row_witness:
  "same_inventory ex_db (db (snd (rotate_material (ex_env (\<lambda>_. CommitRejected)) ex_credential ex_payload (Some ex_user) None ex_state)))"
proof -
  let ?env = "ex_env (\<lambda>_. CommitRejected)"
  show ?thesis
    using refused_commit_changes_no_row [OF ex_idle(1,2), of ?env "snd (rotate_material ?env ex_credential ex_payload (Some ex_user) None ex_state)"
      ex_credential ex_payload "Some ex_user" None]
    by (auto simp: ex_alone ex_idle) (simp add: ex_env_def)
qed

end
